(* ===== verification/GBOS_Prelude.thy ===== *)
theory GBOS_Prelude
  imports Main "HOL-Library.AList" "HOL-Library.Sublist" "HOL-Library.Char_ord" "HOL-Library.List_Lexorder"
    "HOL-Library.Product_Lexorder"
begin

text \<open>
  Shared vocabulary of the development: the Python notions every component uses (strings,
  insertion-ordered dictionaries, \<open>min\<close>/\<open>max\<close> with a key, aware and naive datetimes, calls that
  may raise) and the generic lemmas about them.

  Conventions.
  \<^item> A Python \<open>str\<close> is a \<^typ>\<open>string\<close> over ASCII characters; text with code points above 126 is
    outside the model. Comparison is by code point (\<open>List_Lexorder\<close> over \<open>Char_ord\<close>), as in Python.
  \<^item> A Python \<open>dict\<close> that is iterated is an association list kept in insertion order:
    \<open>d.get(k)\<close> is \<^term>\<open>map_of d k\<close>, \<open>d[k] = v\<close> is \<^term>\<open>AList.update k v d\<close> (in place for a known
    key, appended for a new one), \<open>d.values()\<close> is \<^term>\<open>map snd d\<close>.
  \<^item> A call that may raise returns a sum: \<^term>\<open>Inl e\<close> for the exception, \<^term>\<open>Inr v\<close> for the
    result. A call that also changes state returns the pair of that sum and the state it leaves
    behind, so that what an exception leaves half done stays visible.
  \<^item> An aware datetime is its UTC instant in microseconds.
\<close>

named_theorems dict_simps
named_theorems text_simps

section \<open>Datetimes\<close>

type_synonym instant = int

datatype datetime = Naive int | Aware instant

fun is_aware :: "datetime \<Rightarrow> bool" where
  "is_aware (Aware _) = True"
| "is_aware (Naive _) = False"

fun instant_of :: "datetime \<Rightarrow> instant" where
  "instant_of (Aware t) = t"
| "instant_of (Naive t) = t"

text \<open>\<open>d + timedelta\<close> in microseconds.\<close>

fun shift_time :: "datetime \<Rightarrow> int \<Rightarrow> datetime" where
  "shift_time (Aware t) d = Aware (t + d)"
| "shift_time (Naive t) d = Naive (t + d)"

lemma is_aware_iff: "is_aware d \<longleftrightarrow> (\<exists>t. d = Aware t)"
  by (cases d) auto

section \<open>Strings\<close>

text \<open>Python's whitespace (\<open>str.isspace\<close>, \<open>str.strip\<close> and \<open>\s\<close>) on ASCII text.\<close>

definition is_space :: "char \<Rightarrow> bool" where
  "is_space c = (let n = (of_char c :: int) in (9 \<le> n \<and> n \<le> 13) \<or> (28 \<le> n \<and> n \<le> 32))"

definition in_range :: "char \<Rightarrow> char \<Rightarrow> char \<Rightarrow> bool" where
  "in_range lo hi c = ((of_char lo :: int) \<le> of_char c \<and> (of_char c :: int) \<le> of_char hi)"

definition is_upper :: "char \<Rightarrow> bool" where
  "is_upper = in_range (CHR ''A'') (CHR ''Z'')"

definition is_lower :: "char \<Rightarrow> bool" where
  "is_lower = in_range (CHR ''a'') (CHR ''z'')"

definition is_digit :: "char \<Rightarrow> bool" where
  "is_digit = in_range (CHR ''0'') (CHR ''9'')"

definition is_alnum :: "char \<Rightarrow> bool" where
  "is_alnum c = (is_upper c \<or> is_lower c \<or> is_digit c)"

definition is_ascii :: "char \<Rightarrow> bool" where
  "is_ascii c = ((of_char c :: int) < 128)"

definition char_lower :: "char \<Rightarrow> char" where
  "char_lower c = (if is_upper c then char_of ((of_char c :: int) + 32) else c)"

definition char_upper :: "char \<Rightarrow> char" where
  "char_upper c = (if is_lower c then char_of ((of_char c :: int) - 32) else c)"

definition lower :: "string \<Rightarrow> string" where
  "lower = map char_lower"

definition upper :: "string \<Rightarrow> string" where
  "upper = map char_upper"

definition strip_by :: "(char \<Rightarrow> bool) \<Rightarrow> string \<Rightarrow> string" where
  "strip_by p s = rev (dropWhile p (rev (dropWhile p s)))"

definition strip :: "string \<Rightarrow> string" where
  "strip = strip_by is_space"

definition starts_with :: "string \<Rightarrow> string \<Rightarrow> bool" where
  "starts_with s p = (take (length p) s = p)"

definition ends_with :: "string \<Rightarrow> string \<Rightarrow> bool" where
  "ends_with s p = (length p \<le> length s \<and> drop (length s - length p) s = p)"

fun contains_text :: "string \<Rightarrow> string \<Rightarrow> bool" where
  "contains_text [] p = (p = [])"
| "contains_text (c # s) p = (starts_with (c # s) p \<or> contains_text s p)"

fun join :: "string \<Rightarrow> string list \<Rightarrow> string" where
  "join sep [] = []"
| "join sep [x] = x"
| "join sep (x # y # xs) = x @ sep @ join sep (y # xs)"

fun split_on :: "char \<Rightarrow> string \<Rightarrow> string list" where
  "split_on d [] = [[]]"
| "split_on d (c # s) =
     (if c = d then [] # split_on d s
      else (case split_on d s of [] \<Rightarrow> [[c]] | p # ps \<Rightarrow> (c # p) # ps))"

fun nat_digits :: "nat \<Rightarrow> string" where
  "nat_digits n = (if n < 10 then [char_of (48 + n)]
                   else nat_digits (n div 10) @ [char_of (48 + n mod 10)])"

declare nat_digits.simps [simp del]

definition int_text :: "int \<Rightarrow> string" where
  "int_text i = (if i < 0 then CHR ''-'' # nat_digits (nat (- i)) else nat_digits (nat i))"

lemma split_on_plain: "c \<notin> set s \<Longrightarrow> split_on c s = [s]"
  by (induction s) auto

lemma split_on_append: "c \<notin> set s \<Longrightarrow> split_on c (s @ c # t) = s # split_on c t"
  by (induction s) auto

lemma starts_with_append [simp]: "starts_with (p @ s) p"
  by (simp add: starts_with_def)

lemma starts_with_iff: "starts_with s p \<longleftrightarrow> (\<exists>t. s = p @ t)"
  unfolding starts_with_def by (metis append_take_drop_id append_eq_conv_conj)

lemma contains_text_iff: "contains_text s p \<longleftrightarrow> (\<exists>u v. s = u @ p @ v)"
proof (induction s)
  case Nil
  then show ?case by auto
next
  case (Cons c s)
  have "(\<exists>u v. c # s = u @ p @ v) \<longleftrightarrow> (\<exists>v. c # s = p @ v) \<or> (\<exists>u v. s = u @ p @ v)"
    by (metis append_Cons append_Nil list.inject neq_Nil_conv)
  then show ?case
    using Cons.IH by (simp add: starts_with_iff)
qed

lemma dropWhile_dropWhile [simp]: "dropWhile p (dropWhile p s) = dropWhile p s"
  by (induction s) auto

lemma strip_by_hd: "strip_by p s \<noteq> [] \<Longrightarrow> \<not> p (last (strip_by p s))"
  unfolding strip_by_def by (simp add: last_rev hd_dropWhile)

lemma dropWhile_rev_dropWhile:
  "dropWhile p (rev (dropWhile p (rev (dropWhile p s)))) = rev (dropWhile p (rev (dropWhile p s)))"
proof (cases "dropWhile p s")
  case Nil
  then show ?thesis by (simp del: dropWhile_eq_Nil_conv)
next
  case (Cons x xs)
  then have x: "\<not> p x"
    by (metis hd_dropWhile list.distinct(1) list.sel(1))
  have "dropWhile p (rev xs @ [x]) = dropWhile p (rev xs) @ [x]"
    using x by (metis dropWhile_append1 dropWhile_append2 dropWhile_append3)
  then show ?thesis
    using Cons x by simp
qed

lemma strip_by_idem [simp]: "strip_by p (strip_by p s) = strip_by p s"
  unfolding strip_by_def
  by (simp add: dropWhile_rev_dropWhile)

lemma strip_idem [simp]: "strip (strip s) = strip s"
  by (simp add: strip_def)

lemma dropWhile_none: "list_all (\<lambda>c. \<not> p c) s \<Longrightarrow> dropWhile p s = s"
  by (cases s) simp_all

lemma strip_plain: "list_all (\<lambda>c. \<not> is_space c) s \<Longrightarrow> strip s = s"
  unfolding strip_def strip_by_def by (simp add: dropWhile_none)

lemma length_dropWhile_le: "length (dropWhile p s) \<le> length s"
  by (induction s) auto

lemma length_strip_by_le: "length (strip_by p s) \<le> length s"
  unfolding strip_by_def
  using length_dropWhile_le [of p "rev (dropWhile p s)"] length_dropWhile_le [of p s] by simp

text \<open>\<open>re.sub("[...]+", r, s)\<close> for a character class: every maximal run of it becomes \<open>r\<close>.\<close>

function sub_runs :: "(char \<Rightarrow> bool) \<Rightarrow> string \<Rightarrow> string \<Rightarrow> string" where
  "sub_runs p r [] = []"
| "sub_runs p r (c # s) =
     (if p c then r @ sub_runs p r (dropWhile p s) else c # sub_runs p r s)"
  by pat_completeness auto

termination
  by (relation "measure (\<lambda>(p, r, s). length s)") (auto simp: le_imp_less_Suc length_dropWhile_le)

lemma sub_runs_chars:
  "c \<in> set (sub_runs p r s) \<Longrightarrow> c \<in> set r \<or> c \<in> set s \<and> \<not> p c"
  by (induction p r s rule: sub_runs.induct) (auto split: if_splits dest: set_dropWhileD)

section \<open>Decimal text\<close>

lemma of_char_digit: "d < 10 \<Longrightarrow> (of_char (char_of (48 + d) :: char) :: nat) = 48 + d"
  by (simp add: of_char_of)

lemma of_char_digit_int: "d < 10 \<Longrightarrow> (of_char (char_of (48 + d :: nat) :: char) :: int) = 48 + int d"
  using of_nat_of_char [of "char_of (48 + d)", where ?'a = int] of_char_digit [of d] by simp

lemma is_digit_char: "d < 10 \<Longrightarrow> is_digit (char_of (48 + d :: nat))"
  by (simp add: is_digit_def in_range_def of_char_digit_int)

lemma nat_digits_nonempty [simp]: "nat_digits n \<noteq> []"
  by (subst nat_digits.simps) simp

lemma nat_digits_digits: "c \<in> set (nat_digits n) \<Longrightarrow> is_digit c"
proof (induction n rule: nat_digits.induct)
  case (1 n)
  show ?case
  proof (cases "n < 10")
    case True
    with "1.prems" show ?thesis by (subst (asm) nat_digits.simps) (simp add: is_digit_char)
  next
    case False
    with "1.prems" have "c \<in> set (nat_digits (n div 10)) \<or> c = char_of (48 + n mod 10)"
      by (subst (asm) nat_digits.simps) auto
    with "1.IH" False show ?thesis by (auto simp: is_digit_char)
  qed
qed

fun nat_value :: "string \<Rightarrow> nat" where
  "nat_value s = foldl (\<lambda>a c. 10 * a + (of_char c - 48)) 0 s"

lemma nat_value_nat_digits [simp]: "nat_value (nat_digits n) = n"
proof (induction n rule: nat_digits.induct)
  case (1 n)
  show ?case
  proof (cases "n < 10")
    case True
    then show ?thesis by (subst nat_digits.simps) (simp add: of_char_digit)
  next
    case False
    with "1.IH" have "nat_value (nat_digits (n div 10)) = n div 10" by simp
    with False show ?thesis
      by (subst nat_digits.simps) (simp add: of_char_digit)
  qed
qed

lemma nat_digits_inj [simp]: "nat_digits m = nat_digits n \<longleftrightarrow> m = n"
  by (metis nat_value_nat_digits)

text \<open>\<open>len(xs) == len(set(xs))\<close> says that the elements are distinct.\<close>

lemma length_card_set [simp]:
  "length xs = card (set xs) \<longleftrightarrow> distinct xs"
  by (metis card_distinct distinct_card)

section \<open>Dictionaries\<close>

lemma map_of_update [simp, dict_simps]:
  "map_of (AList.update k v al) k' = (if k' = k then Some v else map_of al k')"
  by (simp add: update_conv')

lemma keys_update [simp, dict_simps]: "fst ` set (AList.update k v al) = insert k (fst ` set al)"
  by (induction al) auto

lemma update_fresh: "k \<notin> fst ` set al \<Longrightarrow> AList.update k v al = al @ [(k, v)]"
  by (induction al) auto

text \<open>Filling a dictionary with distinct new keys appends the entries.\<close>

lemma foldl_update_fresh:
  "distinct (map fst ps) \<Longrightarrow> fst ` set ps \<inter> fst ` set al = {} \<Longrightarrow>
    foldl (\<lambda>d (k, v). AList.update k v d) al ps = al @ ps"
proof (induction ps arbitrary: al)
  case (Cons p ps)
  obtain k v where p: "p = (k, v)" by (cases p)
  with Cons.prems have "AList.update k v al = al @ [(k, v)]"
    by (intro update_fresh) auto
  with Cons.prems p Cons.IH [of "al @ [(k, v)]"] show ?case by auto
qed simp

text \<open>Kept folded: the simplifier would otherwise turn every lookup into a membership.\<close>

definition distinct_keys :: "('k \<times> 'v) list \<Rightarrow> bool" where
  "distinct_keys al = distinct (map fst al)"

lemma distinct_keys_Nil [simp]: "distinct_keys []"
  by (simp add: distinct_keys_def)

lemma distinct_keys_update [simp]: "distinct_keys al \<Longrightarrow> distinct_keys (AList.update k v al)"
  by (simp add: distinct_keys_def distinct_update)

lemma in_set_dict_iff: "distinct_keys al \<Longrightarrow> (k, v) \<in> set al \<longleftrightarrow> map_of al k = Some v"
  by (simp add: distinct_keys_def)

lemma values_update:
  "v' \<in> set (map snd (AList.update k v al)) \<Longrightarrow> v' = v \<or> v' \<in> set (map snd al)"
  by (induction al) (auto split: if_splits)

lemma ran_update_new:
  "map_of al k = None \<Longrightarrow> ran (map_of (AList.update k v al)) = insert v (ran (map_of al))"
  by (simp add: update_conv' ran_map_upd)

section \<open>Python \<open>min\<close> and \<open>max\<close> with a key\<close>

text \<open>
  \<open>min(xs, key=f)\<close> is \<^term>\<open>arg_min_list f xs\<close>: the first element with the least key. \<open>max\<close>
  likewise keeps the first element with the greatest key.
\<close>

fun arg_max_list :: "('a \<Rightarrow> 'b::linorder) \<Rightarrow> 'a list \<Rightarrow> 'a" where
  "arg_max_list f [x] = x"
| "arg_max_list f (x # y # zs) = (let m = arg_max_list f (y # zs) in if f m \<le> f x then x else m)"

lemma arg_max_list_in: "xs \<noteq> [] \<Longrightarrow> arg_max_list f xs \<in> set xs"
  by (induction f xs rule: arg_max_list.induct) (auto simp: Let_def)

lemma arg_max_list_greatest: "x \<in> set xs \<Longrightarrow> f x \<le> f (arg_max_list f xs)"
proof (induction f xs rule: arg_max_list.induct)
  case (2 f y z zs)
  then show ?case by (fastforce simp: Let_def)
qed auto

lemma arg_min_list_least: "x \<in> set xs \<Longrightarrow> f (arg_min_list f xs) \<le> f x"
  by (metis f_arg_min_list_f Min_le finite_imageI finite_set imageI empty_iff empty_set)

section \<open>Calls that may raise\<close>

lemma sum_case_Inr_iff:
  "(case m of Inl e \<Rightarrow> Inl e | Inr x \<Rightarrow> f x) = Inr y \<longleftrightarrow> (\<exists>x. m = Inr x \<and> f x = Inr y)"
  by (cases m) auto

lemma sum_case_Inl_iff:
  "(case m of Inl e \<Rightarrow> Inl e | Inr x \<Rightarrow> f x) = Inl d \<longleftrightarrow> m = Inl d \<or> (\<exists>x. m = Inr x \<and> f x = Inl d)"
  by (cases m) auto

lemma if_Inl_Inr_iff: "(if c then Inl e else m) = Inr y \<longleftrightarrow> \<not> c \<and> m = Inr y"
  by simp

lemma if_raise_Inr_iff: "(if c then (Inl e, s) else m) = (Inr y, t) \<longleftrightarrow> \<not> c \<and> m = (Inr y, t)"
  by simp

text \<open>A loop \<open>for x in xs: check(x)\<close> whose body may raise.\<close>

fun check_all :: "('a \<Rightarrow> 'e + unit) \<Rightarrow> 'a list \<Rightarrow> 'e + unit" where
  "check_all f [] = Inr ()"
| "check_all f (x # xs) = (case f x of Inl e \<Rightarrow> Inl e | Inr _ \<Rightarrow> check_all f xs)"

lemma check_all_Inr_iff: "check_all f xs = Inr u \<longleftrightarrow> (\<forall>x \<in> set xs. f x = Inr ())"
  by (induction xs) (auto split: sum.splits)

text \<open>A comprehension \<open>[f(x) for x in xs]\<close> whose body may raise.\<close>

fun map_raise :: "('a \<Rightarrow> 'e + 'b) \<Rightarrow> 'a list \<Rightarrow> 'e + 'b list" where
  "map_raise f [] = Inr []"
| "map_raise f (x # xs) =
     (case f x of Inl e \<Rightarrow> Inl e
      | Inr y \<Rightarrow> (case map_raise f xs of Inl e \<Rightarrow> Inl e | Inr ys \<Rightarrow> Inr (y # ys)))"

lemma map_raise_Inr_iff: "map_raise f xs = Inr ys \<longleftrightarrow> list_all2 (\<lambda>x y. f x = Inr y) xs ys"
proof (induction xs arbitrary: ys)
  case (Cons x xs)
  then show ?case
    by (cases "f x"; cases "map_raise f xs") (force simp: list_all2_Cons1)+
qed auto

lemma map_raise_total: "(\<And>x. x \<in> set xs \<Longrightarrow> f x = Inr (g x)) \<Longrightarrow> map_raise f xs = Inr (map g xs)"
  by (induction xs) auto

lemma map_raise_length: "map_raise f xs = Inr ys \<Longrightarrow> length ys = length xs"
  by (auto simp: map_raise_Inr_iff dest: list_all2_lengthD)

text \<open>Sequencing calls that may raise and change state.\<close>

type_synonym ('e, 'a, 's) call = "('e + 'a) \<times> 's"

definition and_then :: "('e, 'a, 's) call \<Rightarrow> ('a \<Rightarrow> 's \<Rightarrow> ('e, 'b, 's) call) \<Rightarrow> ('e, 'b, 's) call" where
  "and_then c f = (case c of (Inl e, s) \<Rightarrow> (Inl e, s) | (Inr a, s) \<Rightarrow> f a s)"

lemma and_then_simps [simp]:
  "and_then (Inl e, s) f = (Inl e, s)"
  "and_then (Inr a, s) f = f a s"
  by (simp_all add: and_then_def)

lemma and_then_Inr_iff:
  "and_then c f = (Inr b, s') \<longleftrightarrow> (\<exists>a s. c = (Inr a, s) \<and> f a s = (Inr b, s'))"
  by (auto simp: and_then_def split: prod.splits sum.splits)

text \<open>A loop of calls over a list: it stops at the first that raises.\<close>

fun call_each :: "('r \<Rightarrow> 's \<Rightarrow> ('e, 'a, 's) call) \<Rightarrow> 'r list \<Rightarrow> 's \<Rightarrow> ('e, unit, 's) call" where
  "call_each f [] s = (Inr (), s)"
| "call_each f (r # rs) s = and_then (f r s) (\<lambda>_ s'. call_each f rs s')"

section \<open>Two indexes over one set of records\<close>

text \<open>
  Several repositories keep the same records in two dictionaries, one by primary key and one by
  idempotency key.
\<close>

definition paired_index ::
  "('r \<Rightarrow> 'k) \<Rightarrow> ('r \<Rightarrow> 'j) \<Rightarrow> ('k \<times> 'r) list \<Rightarrow> ('j \<times> 'r) list \<Rightarrow> bool" where
  "paired_index pk ik a b =
     ((\<forall>k r. map_of a k = Some r \<longrightarrow> k = pk r \<and> map_of b (ik r) = Some r) \<and>
      (\<forall>j r. map_of b j = Some r \<longrightarrow> j = ik r \<and> map_of a (pk r) = Some r))"

lemma paired_index_empty [simp]: "paired_index pk ik [] []"
  by (simp add: paired_index_def)

lemma paired_indexD:
  assumes "paired_index pk ik a b"
  shows "map_of a k = Some r \<Longrightarrow> k = pk r" and "map_of a k = Some r \<Longrightarrow> map_of b (ik r) = Some r"
    and "map_of b j = Some r \<Longrightarrow> j = ik r" and "map_of b j = Some r \<Longrightarrow> map_of a (pk r) = Some r"
  using assms by (auto simp: paired_index_def)

lemma paired_indexI:
  assumes "\<And>k r. map_of a k = Some r \<Longrightarrow> k = pk r \<and> map_of b (ik r) = Some r"
    and "\<And>j r. map_of b j = Some r \<Longrightarrow> j = ik r \<and> map_of a (pk r) = Some r"
  shows "paired_index pk ik a b"
  using assms unfolding paired_index_def by blast

lemma paired_index_insert:
  assumes i: "paired_index pk ik a b" and a: "map_of a (pk r) = None" and b: "map_of b (ik r) = None"
  shows "paired_index pk ik (AList.update (pk r) r a) (AList.update (ik r) r b)"
proof (rule paired_indexI)
  fix k x assume k: "map_of (AList.update (pk r) r a) k = Some x"
  show "k = pk x \<and> map_of (AList.update (ik r) r b) (ik x) = Some x"
  proof (cases "k = pk r")
    case False
    with k have "k = pk x" and "map_of b (ik x) = Some x"
      using paired_indexD(1,2) [OF i, of k x] by simp_all
    then show ?thesis using b by (metis map_of_update option.distinct(1))
  qed (use k in simp)
next
  fix j x assume j: "map_of (AList.update (ik r) r b) j = Some x"
  show "j = ik x \<and> map_of (AList.update (pk r) r a) (pk x) = Some x"
  proof (cases "j = ik r")
    case False
    with j have "j = ik x" and "map_of a (pk x) = Some x"
      using paired_indexD(3,4) [OF i, of j x] by simp_all
    then show ?thesis using a by (metis map_of_update option.distinct(1))
  qed (use j in simp)
qed

lemma paired_index_replace:
  assumes i: "paired_index pk ik a b" and r: "map_of a (pk r) = Some r"
    and keys: "pk r' = pk r" "ik r' = ik r"
  shows "paired_index pk ik (AList.update (pk r) r' a) (AList.update (ik r) r' b)"
proof (rule paired_indexI)
  fix k x assume k: "map_of (AList.update (pk r) r' a) k = Some x"
  show "k = pk x \<and> map_of (AList.update (ik r) r' b) (ik x) = Some x"
  proof (cases "k = pk r")
    case False
    with k have kx: "k = pk x" "map_of b (ik x) = Some x"
      using paired_indexD(1,2) [OF i, of k x] by simp_all
    with False have "ik x \<noteq> ik r"
      using paired_indexD(2) [OF i r] by (metis option.inject)
    with kx show ?thesis by simp
  qed (use k keys in simp)
next
  fix j x assume j: "map_of (AList.update (ik r) r' b) j = Some x"
  show "j = ik x \<and> map_of (AList.update (pk r) r' a) (pk x) = Some x"
  proof (cases "j = ik r")
    case False
    with j have jx: "j = ik x" "map_of a (pk x) = Some x"
      using paired_indexD(3,4) [OF i, of j x] by simp_all
    with False have "pk x \<noteq> pk r"
      using r by (metis option.inject)
    with jx show ?thesis by simp
  qed (use j keys in simp)
qed

lemma paired_index_unique:
  assumes "paired_index pk ik a b" and "map_of a k = Some r" and "map_of a k' = Some r'"
    and "ik r = ik r'"
  shows "r = r'"
  using paired_indexD(2) [OF assms(1,2)] paired_indexD(2) [OF assms(1,3)] assms(4) by (metis option.inject)

end
