(* ===== verification/Domain_Workflow.thy ===== *)
theory Domain_Workflow
  imports GBOS_Prelude
begin

text \<open>
  Governed workflows of the Frappe app: the transition tables and their checks
  (\<open>domain/state_machine.py\<close>), optimistic revisions (\<open>domain/revision.py\<close>), the document
  controller every GBOS DocType inherits (\<open>gbos/doctype/base.py\<close>) and the supplier-selection guard
  of sourcing events. Frappe itself (session, roles, database) is an environment record.
\<close>

section \<open>The transition tables\<close>

datatype workflow_error = InvalidTransition string

type_synonym 'a wf_result = "workflow_error + 'a"

definition workflow_transitions :: "(string \<times> (string \<times> string list) list) list" where
  "workflow_transitions =
    [(''sample'',
       [(''Draft'', [''Designing'', ''Cancelled'']),
        (''Designing'', [''Sampling'', ''Cancelled'']),
        (''Sampling'', [''Sent'', ''Cancelled'']),
        (''Sent'', [''Feedback'', ''Cancelled'']),
        (''Feedback'', [''Approved'', ''Rejected'', ''Cancelled'']),
        (''Approved'', []),
        (''Rejected'', []),
        (''Cancelled'', [])]),
     (''demand'',
       [(''Draft'', [''Confirmed'', ''Cancelled'']),
        (''Confirmed'', [''Sourcing'', ''Cancelled'']),
        (''Sourcing'', [''Fulfilled'', ''Cancelled'']),
        (''Fulfilled'', []),
        (''Cancelled'', [])]),
     (''sourcing'',
       [(''Draft'', [''Invited'', ''Cancelled'']),
        (''Invited'', [''Collecting'', ''Cancelled'']),
        (''Collecting'', [''Evaluating'', ''Cancelled'']),
        (''Evaluating'', [''Selected'', ''Closed'', ''Cancelled'']),
        (''Selected'', [''Closed'']),
        (''Closed'', []),
        (''Cancelled'', [])]),
     (''work'',
       [(''Open'', [''In Progress'', ''Blocked'', ''Cancelled'']),
        (''In Progress'', [''Blocked'', ''Done'', ''Cancelled'']),
        (''Blocked'', [''In Progress'', ''Cancelled'']),
        (''Done'', []),
        (''Cancelled'', [])]),
     (''review'',
       [(''Pending'', [''Approved'', ''Rejected'', ''Superseded'']),
        (''Approved'', []),
        (''Rejected'', []),
        (''Superseded'', [])])]"

definition initial_statuses :: "(string \<times> string) list" where
  "initial_statuses =
    [(''sample'', ''Draft''), (''demand'', ''Draft''), (''sourcing'', ''Draft''),
     (''work'', ''Open''), (''review'', ''Pending'')]"

definition validate_initial_status :: "string \<Rightarrow> string \<Rightarrow> unit wf_result" where
  "validate_initial_status workflow status =
     (case map_of initial_statuses workflow of
        None \<Rightarrow> Inl (InvalidTransition (''unknown workflow: '' @ workflow))
      | Some initial \<Rightarrow>
          if status \<noteq> initial
          then Inl (InvalidTransition (''invalid '' @ workflow @ '' initial status: '' @ status
                 @ ''; expected '' @ initial))
          else Inr ())"

definition transitions_for :: "string \<Rightarrow> string \<Rightarrow> string list wf_result" where
  "transitions_for workflow status =
     (case map_of workflow_transitions workflow of
        None \<Rightarrow> Inl (InvalidTransition (''unknown '' @ workflow @ '' status: '' @ status))
      | Some table \<Rightarrow>
          (case map_of table status of
             None \<Rightarrow> Inl (InvalidTransition (''unknown '' @ workflow @ '' status: '' @ status))
           | Some targets \<Rightarrow> Inr targets))"

definition validate_transition :: "string \<Rightarrow> string \<Rightarrow> string \<Rightarrow> unit wf_result" where
  "validate_transition workflow before after =
     (if before = after then Inr ()
      else case transitions_for workflow before of
             Inl e \<Rightarrow> Inl e
           | Inr targets \<Rightarrow>
               if after \<notin> set targets
               then Inl (InvalidTransition (''illegal '' @ workflow @ '' transition: '' @ before
                      @ '' -> '' @ after))
               else Inr ())"

definition validate_ai_draft_transition :: "string \<Rightarrow> string \<Rightarrow> string \<Rightarrow> unit wf_result" where
  "validate_ai_draft_transition origin before after =
     (if origin \<noteq> ''AI'' \<or> before \<noteq> ''AI Draft'' \<or> after \<noteq> ''Pending''
      then Inl (InvalidTransition ''only an AI-origin AI Draft may transition to Pending'')
      else Inr ())"

section \<open>Revisions\<close>

datatype revision_error = RevisionConflict string

definition next_revision :: "int \<Rightarrow> int \<Rightarrow> revision_error + int" where
  "next_revision expected current =
     (if expected \<noteq> current
      then Inl (RevisionConflict (''expected revision '' @ int_text expected
             @ '', current revision '' @ int_text current))
      else Inr (current + 1))"

section \<open>The document controller\<close>

definition review_subject_doctypes :: "string list" where
  "review_subject_doctypes =
    [''GBOS Demand Signal'', ''GBOS Party Profile'', ''GBOS Product Brief'',
     ''GBOS Sample Feedback'', ''GBOS Sample Iteration'', ''GBOS Sample Project'',
     ''GBOS Sample Shipment'', ''GBOS Sourcing Event'', ''GBOS Work Item'']"

definition doctype_workflows :: "(string \<times> string) list" where
  "doctype_workflows =
    [(''GBOS Sample Project'', ''sample''), (''GBOS Demand Signal'', ''demand''),
     (''GBOS Sourcing Event'', ''sourcing''), (''GBOS Work Item'', ''work''),
     (''GBOS Review Case'', ''review'')]"

record gbos_document =
  doc_doctype :: string
  doc_name :: string
  doc_origin :: string
  doc_review_status :: string
  doc_business_status :: string
  doc_revision :: int
  doc_fixture_seed :: bool

text \<open>
  What a save reads from Frappe: the roles of the session user, whether a pending review case is
  assigned to that user for a subject (\<open>frappe.db.exists\<close>), and the stored revision of a record
  (\<open>frappe.db.get_value(..., for_update=True) or 0\<close>).
\<close>

record frappe_env =
  env_roles :: "string list"
  env_pending_review :: "string \<Rightarrow> string \<Rightarrow> bool"
  env_revision :: "string \<Rightarrow> string \<Rightarrow> int"

datatype document_error =
    Throw string
  | PermissionError

definition validate_origin_boundary :: "bool \<Rightarrow> gbos_document \<Rightarrow> document_error + unit" where
  "validate_origin_boundary is_new d =
     (if is_new \<and> doc_origin d = ''AI'' \<and> doc_review_status d \<noteq> ''AI Draft''
      then Inl (Throw ''AI-origin records must be created as AI Draft'') else Inr ())"

definition protect_assigned_review_subject ::
  "frappe_env \<Rightarrow> bool \<Rightarrow> gbos_document \<Rightarrow> document_error + unit" where
  "protect_assigned_review_subject env is_new d =
     (if is_new \<or> doc_doctype d \<notin> set review_subject_doctypes then Inr ()
      else if ''Reviewer'' \<notin> set (env_roles env) then Inr ()
      else if env_pending_review env (doc_doctype d) (doc_name d) then Inl PermissionError
      else Inr ())"

definition validate_document_transition ::
  "gbos_document option \<Rightarrow> gbos_document \<Rightarrow> document_error + unit" where
  "validate_document_transition before d =
     (case map_of doctype_workflows (doc_doctype d) of
        None \<Rightarrow> Inr ()
      | Some workflow \<Rightarrow>
          (case before of
             None \<Rightarrow>
               if doc_fixture_seed d \<and> doc_origin d = ''Fixture'' then Inr ()
               else (case validate_initial_status workflow (doc_business_status d) of
                       Inl (InvalidTransition m) \<Rightarrow> Inl (Throw m)
                     | Inr _ \<Rightarrow> Inr ())
           | Some b \<Rightarrow>
               (case validate_transition workflow (doc_business_status b) (doc_business_status d) of
                  Inl (InvalidTransition m) \<Rightarrow> Inl (Throw m)
                | Inr _ \<Rightarrow> Inr ())))"

definition advance_revision ::
  "frappe_env \<Rightarrow> bool \<Rightarrow> gbos_document \<Rightarrow> document_error + gbos_document" where
  "advance_revision env is_new d =
     (if is_new then Inr (d\<lparr>doc_revision := 1\<rparr>)
      else case next_revision (doc_revision d) (env_revision env (doc_doctype d) (doc_name d)) of
             Inl (RevisionConflict m) \<Rightarrow> Inl (Throw m)
           | Inr r \<Rightarrow> Inr (d\<lparr>doc_revision := r\<rparr>))"

definition document_validate ::
  "frappe_env \<Rightarrow> bool \<Rightarrow> gbos_document option \<Rightarrow> gbos_document \<Rightarrow> document_error + gbos_document"
where
  "document_validate env is_new before d =
     (case validate_origin_boundary is_new d of
        Inl e \<Rightarrow> Inl e
      | Inr _ \<Rightarrow>
          (case protect_assigned_review_subject env is_new d of
             Inl e \<Rightarrow> Inl e
           | Inr _ \<Rightarrow>
               (case validate_document_transition before d of
                  Inl e \<Rightarrow> Inl e
                | Inr _ \<Rightarrow> advance_revision env is_new d)))"

section \<open>Supplier selection\<close>

text \<open>A candidate row: its status and its supplier name.\<close>

record sourcing_candidate =
  candidate_status :: string
  supplier_name :: string

definition selected_rows :: "sourcing_candidate list \<Rightarrow> sourcing_candidate list" where
  "selected_rows candidates = filter (\<lambda>r. candidate_status r = ''Selected'') candidates"

definition validate_supplier_selection ::
  "frappe_env \<Rightarrow> gbos_document \<Rightarrow> string \<Rightarrow> sourcing_candidate list \<Rightarrow> document_error + unit" where
  "validate_supplier_selection env d selected_supplier candidates =
     (let rows = selected_rows candidates;
          is_selected_state = doc_business_status d \<in> {''Selected'', ''Closed''};
          gate = (if \<not> is_selected_state \<or> (doc_fixture_seed d \<and> doc_origin d = ''Fixture'')
                  then Inr ()
                  else if set (env_roles env) \<inter> {''GBOS Admin'', ''Purchase Manager''} = {}
                  then Inl PermissionError
                  else Inr ())
      in if is_selected_state
         then if selected_supplier = []
              then Inl (Throw ''Selected sourcing events require a selected supplier'')
              else if length rows \<noteq> 1 \<or> supplier_name (hd rows) \<noteq> selected_supplier
              then Inl (Throw ''Exactly one candidate must match the selected supplier'')
              else gate
         else if selected_supplier \<noteq> [] \<or> rows \<noteq> []
         then Inl (Throw ''Supplier selection is only valid in Selected or Closed status'')
         else gate)"

definition sourcing_event_validate ::
  "frappe_env \<Rightarrow> bool \<Rightarrow> gbos_document option \<Rightarrow> gbos_document \<Rightarrow> string \<Rightarrow> sourcing_candidate list
     \<Rightarrow> document_error + gbos_document"
where
  "sourcing_event_validate env is_new before d selected_supplier candidates =
     (case validate_supplier_selection env d selected_supplier candidates of
        Inl e \<Rightarrow> Inl e
      | Inr _ \<Rightarrow> document_validate env is_new before d)"


section \<open>What the tables admit\<close>

definition workflow_edge :: "string \<Rightarrow> string \<Rightarrow> string \<Rightarrow> bool" where
  "workflow_edge w b a =
     (case map_of workflow_transitions w of
        None \<Rightarrow> False
      | Some t \<Rightarrow> (case map_of t b of None \<Rightarrow> False | Some as \<Rightarrow> a \<in> set as))"

lemma validate_transition_iff:
  "validate_transition w b a = Inr u \<longleftrightarrow> b = a \<or> workflow_edge w b a"
  by (auto simp: validate_transition_def transitions_for_def workflow_edge_def
      split: option.splits)

text \<open>A status from which its workflow has no edge.\<close>

definition terminal_status :: "string \<Rightarrow> string \<Rightarrow> bool" where
  "terminal_status w b = (\<forall>a. \<not> workflow_edge w b a)"

lemma terminal_statusI:
  "map_of workflow_transitions w = Some t \<Longrightarrow> map_of t b = Some [] \<Longrightarrow> terminal_status w b"
  by (simp add: terminal_status_def workflow_edge_def)

section \<open>Histories of saves\<close>

text \<open>
  The stored versions of one record, newest first: the version its insertion stored, then one per
  save that passed the controller. The controller sees the stored version as \<open>get_doc_before_save\<close>
  and reads its revision from the database; the roles and the review cases may differ at each save.
\<close>

inductive save_history :: "gbos_document list \<Rightarrow> bool" where
  save_created:
    "document_validate env True None d = Inr d' \<Longrightarrow> save_history [d']"
| save_updated:
    "save_history (d # ds) \<Longrightarrow> doc_doctype e = doc_doctype d \<Longrightarrow> doc_name e = doc_name d \<Longrightarrow>
     env_revision env (doc_doctype d) (doc_name d) = doc_revision d \<Longrightarrow>
     document_validate env False (Some d) e = Inr d' \<Longrightarrow> save_history (d' # d # ds)"

inductive_cases save_history_NilE: "save_history []"

lemma document_validate_created:
  assumes "document_validate env True None d = Inr d'"
  shows "d' = d\<lparr>doc_revision := 1\<rparr>"
    and "doc_origin d = ''AI'' \<Longrightarrow> doc_review_status d = ''AI Draft''"
    and "map_of doctype_workflows (doc_doctype d) = Some w \<Longrightarrow> doc_origin d \<noteq> ''Fixture'' \<Longrightarrow>
         map_of initial_statuses w = Some (doc_business_status d)"
  using assms
  by (auto simp: document_validate_def validate_origin_boundary_def advance_revision_def
      validate_document_transition_def validate_initial_status_def
      split: sum.splits if_splits option.splits workflow_error.splits)

lemma document_validate_updated:
  assumes "document_validate env False (Some d) e = Inr d'"
  shows "d' = e\<lparr>doc_revision := doc_revision e + 1\<rparr>"
    and "doc_revision e = env_revision env (doc_doctype e) (doc_name e)"
    and "map_of doctype_workflows (doc_doctype e) = Some w \<Longrightarrow>
         doc_business_status d = doc_business_status e \<or>
         workflow_edge w (doc_business_status d) (doc_business_status e)"
  using assms
  by (auto simp: document_validate_def advance_revision_def next_revision_def
      validate_document_transition_def validate_transition_iff
      split: sum.splits if_splits option.splits workflow_error.splits revision_error.splits)

lemma save_history_identity:
  "save_history ds \<Longrightarrow> d \<in> set ds \<Longrightarrow> doc_doctype d = doc_doctype (hd ds) \<and> doc_name d = doc_name (hd ds)"
  by (induction rule: save_history.induct) (auto dest!: document_validate_updated(1))

lemma save_history_revision: "save_history ds \<Longrightarrow> doc_revision (hd ds) = int (length ds)"
proof (induction rule: save_history.induct)
  case (save_created env d d')
  then show ?case by (auto dest: document_validate_created(1))
next
  case (save_updated d ds e env d')
  then show ?case
    using document_validate_updated(1,2) [OF save_updated.hyps(5)] by simp
qed

text \<open>
  A status that may not be left again: along a history, once the record is in a terminal status
  of its workflow it stays there.
\<close>

lemma save_history_step:
  assumes "save_history (d' # d # ds)"
    and "map_of doctype_workflows (doc_doctype d') = Some w"
  shows "doc_business_status d = doc_business_status d'
       \<or> workflow_edge w (doc_business_status d) (doc_business_status d')"
  using assms
proof (cases rule: save_history.cases)
  case (save_updated e env)
  show ?thesis
    using document_validate_updated(1,3) [OF save_updated(5)] assms(2) by auto
qed

lemma save_history_tail: "save_history (d # e # ds) \<Longrightarrow> save_history (e # ds)"
  by (erule save_history.cases) auto

lemma save_history_terminal:
  assumes "save_history (ds @ d # es)" and "map_of doctype_workflows (doc_doctype d) = Some w"
    and "terminal_status w (doc_business_status d)" and "e \<in> set ds"
  shows "doc_business_status e = doc_business_status d"
  using assms
proof (induction ds arbitrary: e)
  case (Cons x ds)
  obtain y ys where y: "ds @ d # es = y # ys"
    by (cases "ds @ d # es") auto
  have h: "save_history (x # y # ys)"
    using Cons.prems(1) y by simp
  have dt: "doc_doctype x = doc_doctype d"
    using save_history_identity [OF h, of d] y by (metis in_set_conv_decomp list.sel(1) list.set_intros(2))
  have IH: "e' \<in> set ds \<Longrightarrow> doc_business_status e' = doc_business_status d" for e'
    using Cons.IH [of e'] Cons.prems(2,3) save_history_tail [OF h] y by simp
  have "y = d \<or> y \<in> set ds"
    using y by (cases ds) auto
  then have "doc_business_status y = doc_business_status d"
    using IH by blast
  then have "doc_business_status x = doc_business_status d"
    using save_history_step [OF h, of w] Cons.prems(2,3) dt by (auto simp: terminal_status_def)
  with IH Cons.prems(4) show ?case by auto
qed simp

subsection \<open>The approval path of a sample project\<close>

definition sample_chain :: "string list" where
  "sample_chain = [''Draft'', ''Designing'', ''Sampling'', ''Sent'', ''Feedback'', ''Approved'']"

lemma sample_chain_step:
  "workflow_edge ''sample'' b a \<Longrightarrow> a \<in> set sample_chain \<Longrightarrow>
   b \<in> set sample_chain \<and> set (takeWhile (\<lambda>s. s \<noteq> a) sample_chain)
     \<subseteq> insert b (set (takeWhile (\<lambda>s. s \<noteq> b) sample_chain))"
  by (auto simp: workflow_edge_def workflow_transitions_def sample_chain_def
      split: if_splits option.splits)

lemma sample_chain_visited:
  assumes "save_history ds" and "doc_doctype (hd ds) = ''GBOS Sample Project''"
    and "doc_origin (last ds) \<noteq> ''Fixture''"
    and "doc_business_status (hd ds) \<in> set sample_chain"
  shows "set (takeWhile (\<lambda>s. s \<noteq> doc_business_status (hd ds)) sample_chain)
       \<subseteq> doc_business_status ` set (tl ds)"
  using assms
proof (induction rule: save_history.induct)
  case (save_created env d d')
  then have "doc_business_status d' = ''Draft''"
    using document_validate_created(1,3) [OF save_created.hyps(1)]
    by (auto simp: doctype_workflows_def initial_statuses_def)
  then show ?case by (simp add: sample_chain_def)
next
  case (save_updated d ds e env d')
  let ?b = "doc_business_status d" and ?a = "doc_business_status d'"
  have h: "save_history (d' # d # ds)"
    using save_updated.hyps by (rule save_history.save_updated)
  have dt: "doc_doctype d = ''GBOS Sample Project''"
    using save_history_identity [OF h, of d] save_updated.prems(1) by simp
  have step: "?b = ?a \<or> workflow_edge ''sample'' ?b ?a"
    using save_history_step [OF h] save_updated.prems(1) by (simp add: doctype_workflows_def)
  then have b: "?b \<in> set sample_chain"
    using sample_chain_step save_updated.prems(3) by fastforce
  have "set (takeWhile (\<lambda>s. s \<noteq> ?a) sample_chain)
      \<subseteq> insert ?b (set (takeWhile (\<lambda>s. s \<noteq> ?b) sample_chain))"
    using step sample_chain_step [of ?b ?a] save_updated.prems(3) by fastforce
  also have "\<dots> \<subseteq> insert ?b (doc_business_status ` set ds)"
    using save_updated.IH dt b save_updated.prems(2) by auto
  finally show ?case by simp
qed

subsection \<open>Replaying a history\<close>

text \<open>An executable check that a list of versions is a history, under fixed roles.\<close>

fun replays :: "frappe_env \<Rightarrow> gbos_document list \<Rightarrow> bool" where
  "replays env [] = False"
| "replays env [d] = (document_validate env True None d = Inr d)"
| "replays env (d' # d # ds) =
     (doc_doctype d' = doc_doctype d \<and> doc_name d' = doc_name d \<and>
      document_validate (env\<lparr>env_revision := \<lambda>_ _. doc_revision d\<rparr>) False (Some d)
        (d'\<lparr>doc_revision := doc_revision d\<rparr>) = Inr d' \<and> replays env (d # ds))"

lemma replays_save_history: "replays env ds \<Longrightarrow> save_history ds"
proof (induction env ds rule: replays.induct)
  case (3 env d' d ds)
  then show ?case
    by (intro save_history.save_updated [where e = "d'\<lparr>doc_revision := doc_revision d\<rparr>"
          and env = "env\<lparr>env_revision := \<lambda>_ _. doc_revision d\<rparr>"]) auto
qed (auto intro: save_history.save_created)

definition sales_env :: frappe_env where
  "sales_env = \<lparr>env_roles = [''Purchase Manager''], env_pending_review = (\<lambda>_ _. False),
     env_revision = (\<lambda>_ _. 0)\<rparr>"

definition human_doc :: "string \<Rightarrow> string \<Rightarrow> int \<Rightarrow> gbos_document" where
  "human_doc doctype status r = \<lparr>doc_doctype = doctype, doc_name = ''R-1'', doc_origin = ''Human'',
     doc_review_status = ''Approved'', doc_business_status = status, doc_revision = r,
     doc_fixture_seed = False\<rparr>"

definition approved_sample_history :: "gbos_document list" where
  "approved_sample_history =
     map (\<lambda>(st, r). human_doc ''GBOS Sample Project'' st r)
       [(''Approved'', 6), (''Feedback'', 5), (''Sent'', 4), (''Sampling'', 3), (''Designing'', 2),
        (''Draft'', 1)]"

lemma approved_sample_history_saved: "save_history approved_sample_history"
  by (rule replays_save_history [of sales_env]) code_simp

text \<open>
  C11. A sample project that is not fixture data reaches Approved only through stored versions in
  Draft, Designing, Sampling, Sent and Feedback, so its revision, which counts its stored versions,
  is at least 6.
\<close>

theorem sample_approval_path:
  assumes "save_history (d # ds)" and "doc_doctype d = ''GBOS Sample Project''"
    and "doc_origin (last (d # ds)) \<noteq> ''Fixture''" and "doc_business_status d = ''Approved''"
  shows "{''Draft'', ''Designing'', ''Sampling'', ''Sent'', ''Feedback''}
           \<subseteq> doc_business_status ` set ds
       \<and> doc_revision d = int (length (d # ds)) \<and> 6 \<le> doc_revision d"
proof -
  let ?S = "{''Draft'', ''Designing'', ''Sampling'', ''Sent'', ''Feedback''}"
  have sub: "?S \<subseteq> doc_business_status ` set ds"
    using sample_chain_visited [OF assms(1)] assms(2-4) by (simp add: sample_chain_def)
  have "card ?S \<le> card (doc_business_status ` set ds)"
    by (rule card_mono) (use sub in auto)
  also have "\<dots> \<le> length ds"
    by (meson card_image_le card_length finite_set le_trans)
  finally have "5 \<le> length ds" by simp
  then show ?thesis
    using sub save_history_revision [OF assms(1)] by simp
qed

theorem sample_approval_path_witness:
  "6 \<le> doc_revision (hd approved_sample_history)"
  using sample_approval_path [of "hd approved_sample_history" "tl approved_sample_history"]
    approved_sample_history_saved
  by (simp add: approved_sample_history_def human_doc_def)

text \<open>
  Statuses without outgoing transitions are final: whatever saves follow a version in such a
  status, every later version of the record has that status.
\<close>

theorem terminal_status_is_final:
  assumes "save_history (later @ d # earlier)"
    and "map_of doctype_workflows (doc_doctype d) = Some w"
    and "terminal_status w (doc_business_status d)"
    and "e \<in> set later"
  shows "doc_business_status e = doc_business_status d"
  using assms by (rule save_history_terminal)

theorem terminal_status_is_final_witness:
  "doc_business_status (human_doc ''GBOS Work Item'' ''Done'' 4) = ''Done''"
  using terminal_status_is_final [of "[human_doc ''GBOS Work Item'' ''Done'' 4]"
      "human_doc ''GBOS Work Item'' ''Done'' 3"
      "[human_doc ''GBOS Work Item'' ''In Progress'' 2, human_doc ''GBOS Work Item'' ''Open'' 1]"
      "''work''" "human_doc ''GBOS Work Item'' ''Done'' 4",
      OF replays_save_history [of sales_env]]
    terminal_statusI [of "''work''" _ "''Done''"]
  by (simp add: human_doc_def doctype_workflows_def workflow_transitions_def sales_env_def
      document_validate_def validate_origin_boundary_def protect_assigned_review_subject_def
      validate_document_transition_def validate_transition_def transitions_for_def
      advance_revision_def next_revision_def validate_initial_status_def initial_statuses_def)

text \<open>
  No lost update: of two editors who loaded the same stored version, the second to save is
  rejected, whatever it wrote, because the first save advanced the stored revision.
\<close>

theorem second_save_conflicts:
  assumes "save_history (d # ds)"
    and "doc_doctype e = doc_doctype d" and "doc_name e = doc_name d"
    and "env_revision env (doc_doctype d) (doc_name d) = doc_revision d"
    and "document_validate env False (Some d) e = Inr d'"
    and "doc_doctype f = doc_doctype d" and "doc_name f = doc_name d"
    and "doc_revision f = doc_revision d"
    and "env_revision env' (doc_doctype d) (doc_name d) = doc_revision d'"
  shows "\<exists>err. document_validate env' False (Some d') f = Inl err"
proof -
  have "doc_revision d' = doc_revision d + 1"
    using document_validate_updated(1,2) [OF assms(5)] assms(2-4) by simp
  then have "document_validate env' False (Some d') f \<noteq> Inr g" for g
    using document_validate_updated(2) [of env' d' f g] assms(6-9) by auto
  then show ?thesis by (cases "document_validate env' False (Some d') f") auto
qed

theorem second_save_conflicts_witness:
  "\<exists>err. document_validate (sales_env\<lparr>env_revision := \<lambda>_ _. 2\<rparr>) False
     (Some (human_doc ''GBOS Work Item'' ''Blocked'' 2)) (human_doc ''GBOS Work Item'' ''Cancelled'' 1)
       = Inl err"
proof -
  have "save_history [human_doc ''GBOS Work Item'' ''Open'' 1]"
    by (rule replays_save_history [of sales_env]) code_simp
  moreover have "document_validate (sales_env\<lparr>env_revision := \<lambda>_ _. 1\<rparr>) False
      (Some (human_doc ''GBOS Work Item'' ''Open'' 1)) (human_doc ''GBOS Work Item'' ''Blocked'' 1)
      = Inr (human_doc ''GBOS Work Item'' ''Blocked'' 2)"
    by code_simp
  ultimately show ?thesis
    by (intro second_save_conflicts) (auto simp: human_doc_def)
qed

text \<open>
  A sourcing event is stored as Selected or Closed only with exactly one selected candidate,
  whose supplier is the one recorded on the event, and (fixture data apart) only by a GBOS Admin or
  a Purchase Manager; in any other status it names no supplier and selects no candidate.
\<close>

theorem supplier_selection_governed:
  assumes "sourcing_event_validate env is_new before d supplier candidates = Inr d'"
  shows "if doc_business_status d' \<in> {''Selected'', ''Closed''}
         then supplier \<noteq> [] \<and> (\<exists>c. selected_rows candidates = [c] \<and> supplier_name c = supplier)
            \<and> (set (env_roles env) \<inter> {''GBOS Admin'', ''Purchase Manager''} \<noteq> {}
               \<or> doc_fixture_seed d \<and> doc_origin d = ''Fixture'')
         else supplier = [] \<and> (\<forall>c \<in> set candidates. candidate_status c \<noteq> ''Selected'')"
proof -
  have v: "validate_supplier_selection env d supplier candidates = Inr ()"
    and dv: "document_validate env is_new before d = Inr d'"
    using assms by (auto simp: sourcing_event_validate_def sum_case_Inr_iff)
  have st: "doc_business_status d' = doc_business_status d"
    using dv by (auto simp: document_validate_def advance_revision_def
        split: sum.splits if_splits revision_error.splits)
  have one: "length (selected_rows candidates) = 1 \<Longrightarrow> \<exists>c. selected_rows candidates = [c]"
    by (cases "selected_rows candidates") auto
  show ?thesis
    using v one
    by (auto simp: st validate_supplier_selection_def Let_def selected_rows_def filter_empty_conv
        split: if_splits)
qed

theorem supplier_selection_governed_witness:
  "sourcing_event_validate (sales_env\<lparr>env_revision := \<lambda>_ _. 4\<rparr>) False
     (Some (human_doc ''GBOS Sourcing Event'' ''Evaluating'' 4))
     (human_doc ''GBOS Sourcing Event'' ''Selected'' 4) ''ACME''
     [\<lparr>candidate_status = ''Invited'', supplier_name = ''OTHER''\<rparr>,
      \<lparr>candidate_status = ''Selected'', supplier_name = ''ACME''\<rparr>]
     = Inr (human_doc ''GBOS Sourcing Event'' ''Selected'' 5)
   \<and> (\<exists>c. selected_rows [\<lparr>candidate_status = ''Invited'', supplier_name = ''OTHER''\<rparr>,
      \<lparr>candidate_status = ''Selected'', supplier_name = ''ACME''\<rparr>] = [c] \<and> supplier_name c = ''ACME'')"
proof -
  have ok: "sourcing_event_validate (sales_env\<lparr>env_revision := \<lambda>_ _. 4\<rparr>) False
     (Some (human_doc ''GBOS Sourcing Event'' ''Evaluating'' 4))
     (human_doc ''GBOS Sourcing Event'' ''Selected'' 4) ''ACME''
     [\<lparr>candidate_status = ''Invited'', supplier_name = ''OTHER''\<rparr>,
      \<lparr>candidate_status = ''Selected'', supplier_name = ''ACME''\<rparr>]
     = Inr (human_doc ''GBOS Sourcing Event'' ''Selected'' 5)"
    by code_simp
  from supplier_selection_governed [OF ok] ok show ?thesis
    by (simp add: human_doc_def)
qed

end
