(* ===== verification/Domain_Access.thy ===== *)
theory Domain_Access
  imports GBOS_Prelude
begin

text \<open>
  Who may see and change what in the Frappe app: the pure policy (\<open>domain/permissions.py\<close>,
  \<open>domain/access_policy.py\<close>) and the hooks that apply it (\<open>permissions.py\<close>). Roles, team
  membership, review assignments and the request-local attribute come from Frappe and are an
  environment record.
\<close>

section \<open>Policy tables\<close>

definition business_doctypes :: "string list" where
  "business_doctypes =
    [''GBOS Party Profile'', ''GBOS Product Brief'', ''GBOS Sample Project'', ''GBOS Sample Iteration'',
     ''GBOS Sample Shipment'', ''GBOS Sample Feedback'', ''GBOS Demand Signal'', ''GBOS Sourcing Event'',
     ''GBOS Work Item'', ''GBOS Review Case'', ''GBOS Informal Observation'']"

definition integration_doctypes :: "string list" where
  "integration_doctypes = [''GBOS External Identity'', ''GBOS External Crosswalk'']"

definition all_parent_doctypes :: "string list" where
  "all_parent_doctypes = business_doctypes @ integration_doctypes @ [''GBOS Team'']"

definition materializer_role :: string where
  "materializer_role = ''Agent TrustedMaterializer''"

definition materialization_subject_doctypes :: "string list" where
  "materialization_subject_doctypes =
    [''GBOS Demand Signal'', ''GBOS Party Profile'', ''GBOS Product Brief'', ''GBOS Sample Feedback'',
     ''GBOS Sample Iteration'', ''GBOS Sample Project'', ''GBOS Sample Shipment'',
     ''GBOS Sourcing Event'', ''GBOS Work Item'']"

definition materialization_draft_doctypes :: "string list" where
  "materialization_draft_doctypes =
    [''GBOS Work Item'', ''GBOS Review Case'', ''GBOS Informal Observation'']"

definition sales_doctypes :: "string list" where
  "sales_doctypes =
    [''GBOS Party Profile'', ''GBOS Product Brief'', ''GBOS Sample Project'', ''GBOS Sample Iteration'',
     ''GBOS Sample Shipment'', ''GBOS Sample Feedback'', ''GBOS Demand Signal'', ''GBOS Work Item'']"

definition product_doctypes :: "string list" where
  "product_doctypes =
    [''GBOS Party Profile'', ''GBOS Product Brief'', ''GBOS Sample Project'', ''GBOS Sample Iteration'',
     ''GBOS Sample Shipment'', ''GBOS Sample Feedback'', ''GBOS Demand Signal'', ''GBOS Work Item'']"

definition purchase_read_doctypes :: "string list" where
  "purchase_read_doctypes = [''GBOS Demand Signal'', ''GBOS Sourcing Event'', ''GBOS Work Item'']"

definition purchase_write_doctypes :: "string list" where
  "purchase_write_doctypes = [''GBOS Sourcing Event'', ''GBOS Work Item'']"

definition team_read :: "(string \<times> string list) list" where
  "team_read =
    [(''Sales Manager'', sales_doctypes @ [''GBOS Review Case'', ''GBOS Team'']),
     (''Sales User'', sales_doctypes @ [''GBOS Review Case'', ''GBOS Team'']),
     (''Purchase Manager'', purchase_read_doctypes @ [''GBOS Review Case'', ''GBOS Team'']),
     (''Buyer'', purchase_read_doctypes @ [''GBOS Review Case'', ''GBOS Team'']),
     (''Product/R&D'', product_doctypes @ [''GBOS Review Case'', ''GBOS Team''])]"

definition team_write :: "(string \<times> string list) list" where
  "team_write =
    [(''Sales Manager'', sales_doctypes), (''Sales User'', sales_doctypes),
     (''Purchase Manager'', purchase_write_doctypes), (''Buyer'', purchase_write_doctypes),
     (''Product/R&D'', product_doctypes)]"

definition crm_doctypes :: "string list" where
  "crm_doctypes = [''CRM Organization'', ''Contact'', ''CRM Lead'', ''CRM Deal'']"

definition crm_team_roles :: "string list" where
  "crm_team_roles = [''Sales Manager'', ''Sales User'']"

definition product_crm_read :: "string list" where
  "product_crm_read = [''CRM Organization'', ''CRM Deal'']"

text \<open>\<open>_TEAM_READ.get(role, frozenset())\<close>\<close>

definition allowed_for :: "(string \<times> string list) list \<Rightarrow> string \<Rightarrow> string list" where
  "allowed_for table role = (case map_of table role of None \<Rightarrow> [] | Some ds \<Rightarrow> ds)"

section \<open>Decisions\<close>

datatype scope_error = PermissionScopeError string

record communication_scope_result =
  cs_actor_ref :: string
  cs_allowed_team_refs :: "string list"
  cs_scope :: string
  cs_include_raw :: bool

definition communication_scope ::
  "string list \<Rightarrow> string \<Rightarrow> string list \<Rightarrow> scope_error + communication_scope_result" where
  "communication_scope roles actor_ref team_refs =
     (let actor = strip actor_ref;
          teams = sorted_list_of_set (set (filter (\<lambda>t. t \<noteq> []) (map strip team_refs))) in
      if actor = [] then Inl (PermissionScopeError ''actor reference is required'')
      else if set roles \<inter> {''CEO'', ''GBOS Admin''} \<noteq> {}
      then Inr \<lparr>cs_actor_ref = actor, cs_allowed_team_refs = [''*''],
                cs_scope = ''all_business_projection'', cs_include_raw = False\<rparr>
      else if teams = [] then Inl (PermissionScopeError ''a resolved team scope is required'')
      else Inr \<lparr>cs_actor_ref = actor, cs_allowed_team_refs = teams, cs_scope = ''team_and_self'',
                cs_include_raw = False\<rparr>)"

definition role_has_doctype_permission :: "string \<Rightarrow> string \<Rightarrow> string \<Rightarrow> bool" where
  "role_has_doctype_permission role doctype permission =
     (if doctype \<notin> set all_parent_doctypes then False
      else if role = materializer_role
      then if permission = ''read''
           then doctype \<in> set (materialization_subject_doctypes @ [''GBOS Team''])
           else if permission = ''create'' then doctype \<in> set materialization_draft_doctypes
           else if permission = ''write'' then doctype \<in> {''GBOS Work Item'', ''GBOS Review Case''}
           else False
      else if role = ''GBOS Admin'' then permission \<in> {''read'', ''write'', ''create'', ''delete''}
      else if role = ''CEO''
      then permission = ''read'' \<and> doctype \<in> set (business_doctypes @ [''GBOS Team''])
      else if role = ''Integration Admin''
      then permission \<in> {''read'', ''write'', ''create''} \<and> doctype \<in> set integration_doctypes
      else if role = ''Reviewer''
      then if permission = ''read'' then doctype \<in> set business_doctypes else False
      else if permission = ''read'' then doctype \<in> set (allowed_for team_read role)
      else if permission \<in> {''write'', ''create''} then doctype \<in> set (allowed_for team_write role)
      else False)"

definition can_access_record ::
  "string list \<Rightarrow> string \<Rightarrow> string \<Rightarrow> bool \<Rightarrow> bool \<Rightarrow> bool \<Rightarrow> bool" where
  "can_access_record roles doctype permission is_team_member is_assigned_reviewer
       is_assigned_review_subject =
     (if doctype \<notin> set all_parent_doctypes then False
      else if ''Reviewer'' \<in> set roles \<and> is_assigned_review_subject
              \<and> permission \<in> {''write'', ''create'', ''delete''}
      then False
      else if permission = ''read''
      then ''GBOS Admin'' \<in> set roles
         \<or> (''CEO'' \<in> set roles \<and> doctype \<in> set (business_doctypes @ [''GBOS Team'']))
         \<or> (''Integration Admin'' \<in> set roles \<and> doctype \<in> set integration_doctypes)
         \<or> (''Reviewer'' \<in> set roles
            \<and> ((doctype = ''GBOS Review Case'' \<and> is_assigned_reviewer)
               \<or> (doctype \<in> set business_doctypes \<and> is_assigned_review_subject)))
         \<or> (is_team_member \<and> list_ex (\<lambda>role. doctype \<in> set (allowed_for team_read role)) roles)
      else if permission = ''approve''
      then doctype = ''GBOS Review Case'' \<and> is_assigned_reviewer \<and> ''Reviewer'' \<in> set roles
      else if permission = ''write'' \<and> doctype = ''GBOS Review Case'' then ''GBOS Admin'' \<in> set roles
      else if permission \<in> {''write'', ''create''}
      then ''GBOS Admin'' \<in> set roles
         \<or> (''Integration Admin'' \<in> set roles \<and> doctype \<in> set integration_doctypes)
         \<or> (is_team_member \<and> list_ex (\<lambda>role. doctype \<in> set (allowed_for team_write role)) roles)
      else if permission = ''delete'' then ''GBOS Admin'' \<in> set roles
      else False)"

definition can_access_crm_record :: "string list \<Rightarrow> string \<Rightarrow> string \<Rightarrow> bool \<Rightarrow> bool" where
  "can_access_crm_record roles doctype permission is_team_member =
     (if doctype \<notin> set crm_doctypes then False
      else if permission = ''read''
      then set roles \<inter> {''GBOS Admin'', ''CEO''} \<noteq> {}
         \<or> (is_team_member \<and> set roles \<inter> set crm_team_roles \<noteq> {})
         \<or> (is_team_member \<and> ''Product/R&D'' \<in> set roles \<and> doctype \<in> set product_crm_read)
      else if permission \<in> {''write'', ''create''}
      then ''GBOS Admin'' \<in> set roles \<or> (is_team_member \<and> set roles \<inter> set crm_team_roles \<noteq> {})
      else if permission = ''delete'' then ''GBOS Admin'' \<in> set roles
      else False)"

definition role_has_crm_doctype_permission :: "string \<Rightarrow> string \<Rightarrow> string \<Rightarrow> bool" where
  "role_has_crm_doctype_permission role doctype permission =
     (if doctype \<notin> set crm_doctypes then False
      else if role = ''GBOS Admin'' then permission \<in> {''read'', ''write'', ''create'', ''delete''}
      else if role = ''CEO'' then permission = ''read''
      else if role \<in> set crm_team_roles then permission \<in> {''read'', ''write'', ''create''}
      else role = ''Product/R&D'' \<and> permission = ''read'' \<and> doctype \<in> set product_crm_read)"

definition review_case_scope_filters ::
  "string list \<Rightarrow> string \<Rightarrow> scope_error + (string \<times> string) list" where
  "review_case_scope_filters roles actor_ref =
     (let actor = strip actor_ref in
      if actor = [] then Inl (PermissionScopeError ''actor reference is required'')
      else if ''GBOS Admin'' \<in> set roles then Inr []
      else if ''Reviewer'' \<in> set roles then Inr [(''assigned_reviewer'', actor)]
      else Inl (PermissionScopeError ''a review management role is required''))"

definition can_access_review_case :: "string list \<Rightarrow> string \<Rightarrow> string \<Rightarrow> bool" where
  "can_access_review_case roles actor_ref assigned_reviewer =
     (let actor = strip actor_ref in
      actor \<noteq> [] \<and> (''GBOS Admin'' \<in> set roles
        \<or> (''Reviewer'' \<in> set roles \<and> assigned_reviewer = actor)))"

section \<open>The Frappe hooks\<close>

text \<open>
  The attribute on \<open>frappe.local\<close> that opens the materializer's permissions: unset, some other
  object, or a scope (whose token may or may not be the module's own).
\<close>

datatype scope_mode = Resolve | Apply

datatype local_attribute = Unset | OtherObject | PermissionScope bool string scope_mode

record access_env =
  ae_session_user :: string
  ae_roles :: "string \<Rightarrow> string list"
  ae_team_member :: "string \<Rightarrow> string \<Rightarrow> bool"
  ae_pending_case :: "string \<Rightarrow> string \<Rightarrow> string \<Rightarrow> bool"
  ae_assigned_work :: "string \<Rightarrow> string \<Rightarrow> string \<Rightarrow> bool"
  ae_scope :: local_attribute

record doc_view =
  dv_doctype :: string
  dv_name :: "string option"
  dv_team :: "string option"
  dv_assigned_reviewer :: "string option"
  dv_custom_esan_team :: "string option"

definition is_internal_materializer :: "access_env \<Rightarrow> string \<Rightarrow> bool" where
  "is_internal_materializer env user = (materializer_role \<in> set (ae_roles env user))"

definition internal_materialization_mode :: "access_env \<Rightarrow> string \<Rightarrow> scope_mode option" where
  "internal_materialization_mode env user =
     (if \<not> is_internal_materializer env user then None
      else case ae_scope env of
        PermissionScope token_ok actor mode \<Rightarrow> if \<not> token_ok \<or> actor \<noteq> user then None else Some mode
      | _ \<Rightarrow> None)"

datatype hook_error = FrappePermissionError | BodyError

text \<open>
  The context manager: the body is any code run while the scope is open; whatever it does and
  however it ends, the attribute is deleted afterwards.
\<close>

definition materialization_permission_scope ::
  "scope_mode \<Rightarrow> (access_env \<Rightarrow> (hook_error, 'a, access_env) call) \<Rightarrow> access_env
     \<Rightarrow> (hook_error, 'a, access_env) call" where
  "materialization_permission_scope mode body env =
     (let actor = ae_session_user env in
      if actor = [] \<or> actor = ''Guest'' \<or> \<not> is_internal_materializer env actor
      then (Inl FrappePermissionError, env)
      else if ae_scope env \<noteq> Unset then (Inl FrappePermissionError, env)
      else case body (env\<lparr>ae_scope := PermissionScope True actor mode\<rparr>) of
        (r, env') \<Rightarrow> (r, env'\<lparr>ae_scope := Unset\<rparr>))"

definition internal_gbos_permission :: "access_env \<Rightarrow> string \<Rightarrow> string \<Rightarrow> string \<Rightarrow> bool option" where
  "internal_gbos_permission env user doctype permission =
     (if \<not> is_internal_materializer env user then None
      else case internal_materialization_mode env user of
        None \<Rightarrow> Some False
      | Some mode \<Rightarrow>
          if permission = ''read''
          then Some (doctype \<in> set (materialization_subject_doctypes @ [''GBOS Team'']))
          else if mode \<noteq> Apply then Some False
          else if permission = ''create'' then Some (doctype \<in> set materialization_draft_doctypes)
          else if permission = ''write'' then Some (doctype \<in> {''GBOS Work Item'', ''GBOS Review Case''})
          else Some False)"

definition is_team_member :: "access_env \<Rightarrow> string \<Rightarrow> string option \<Rightarrow> bool" where
  "is_team_member env user team =
     (case team of None \<Rightarrow> False | Some t \<Rightarrow> t \<noteq> [] \<and> ae_team_member env t user)"

definition is_assigned_review_subject :: "access_env \<Rightarrow> string \<Rightarrow> string \<Rightarrow> string option \<Rightarrow> bool" where
  "is_assigned_review_subject env user doctype name =
     (case name of
        None \<Rightarrow> False
      | Some n \<Rightarrow>
          n \<noteq> [] \<and> (ae_pending_case env user doctype n
            \<or> doctype = ''GBOS Informal Observation'' \<and> ae_assigned_work env user doctype n))"

text \<open>\<open>user or frappe.session.user\<close> and \<open>permission_type or ptype or "read"\<close>.\<close>

definition or_else :: "string option \<Rightarrow> string \<Rightarrow> string" where
  "or_else v d = (case v of None \<Rightarrow> d | Some s \<Rightarrow> if s = [] then d else s)"

definition has_gbos_permission ::
  "access_env \<Rightarrow> doc_view \<Rightarrow> string option \<Rightarrow> string option \<Rightarrow> string option \<Rightarrow> bool" where
  "has_gbos_permission env doc user permission_type ptype =
     (let actor = or_else user (ae_session_user env);
          action = or_else permission_type (or_else ptype ''read'');
          roles = ae_roles env actor;
          doctype = dv_doctype doc in
      case internal_gbos_permission env actor doctype action of
        Some b \<Rightarrow> b
      | None \<Rightarrow>
          if doctype = ''GBOS Team'' \<and> action \<noteq> ''read'' then ''GBOS Admin'' \<in> set roles
          else if ''Integration Admin'' \<in> set roles \<and> doctype \<in> set integration_doctypes
          then action \<in> {''read'', ''write'', ''create''}
          else if doctype \<in> set integration_doctypes \<and> action \<noteq> ''read''
          then ''GBOS Admin'' \<in> set roles
          else let team = (if doctype = ''GBOS Team'' then dv_name doc else dv_team doc);
                   assigned = (doctype = ''GBOS Review Case'' \<and> dv_assigned_reviewer doc = Some actor) in
               if doctype = ''GBOS Review Case'' \<and> action \<noteq> ''read'' then ''GBOS Admin'' \<in> set roles
               else can_access_record roles doctype action (is_team_member env actor team) assigned
                      (is_assigned_review_subject env actor doctype (dv_name doc)))"

record draft_view =
  df_review_status :: string
  df_origin :: string
  df_business_status :: string

definition protect_ai_draft_command ::
  "draft_view option \<Rightarrow> draft_view \<Rightarrow> bool \<Rightarrow> hook_error + unit" where
  "protect_ai_draft_command before doc command_flag =
     (case before of
        None \<Rightarrow> Inr ()
      | Some b \<Rightarrow>
          if df_review_status b \<noteq> ''AI Draft'' then Inr ()
          else if df_review_status doc = df_review_status b then Inr ()
          else if \<not> command_flag then Inl FrappePermissionError
          else if df_origin b \<noteq> ''AI'' \<or> df_review_status doc \<noteq> ''Pending''
                  \<or> df_business_status doc \<noteq> df_business_status b
          then Inl FrappePermissionError
          else Inr ())"

definition has_internal_materialization_permission ::
  "access_env \<Rightarrow> doc_view \<Rightarrow> string option \<Rightarrow> string option \<Rightarrow> string option \<Rightarrow> bool" where
  "has_internal_materialization_permission env doc user permission_type ptype =
     (let actor = or_else user (ae_session_user env) in
      if \<not> is_internal_materializer env actor then True
      else if dv_doctype doc \<noteq> ''Integration Request'' then False
      else internal_materialization_mode env actor = Some Apply \<and>
           or_else permission_type (or_else ptype ''read'') \<in> {''read'', ''write'', ''create''})"

definition has_crm_permission ::
  "access_env \<Rightarrow> doc_view \<Rightarrow> string option \<Rightarrow> string option \<Rightarrow> string option \<Rightarrow> bool" where
  "has_crm_permission env doc user permission_type ptype =
     (let actor = or_else user (ae_session_user env) in
      if is_internal_materializer env actor then False
      else can_access_crm_record (ae_roles env actor) (dv_doctype doc)
             (or_else permission_type (or_else ptype ''read''))
             (is_team_member env actor (dv_custom_esan_team doc)))"

section \<open>Record access stays within the role matrix\<close>

lemma allowed_forD: "d \<in> set (allowed_for table role) \<Longrightarrow> \<exists>ds. (role, ds) \<in> set table \<and> d \<in> set ds"
  by (cases "map_of table role") (auto simp: allowed_for_def dest: map_of_SomeD)

lemma team_tables_within_matrix:
  "list_all (\<lambda>(role, ds). list_all (\<lambda>d. role_has_doctype_permission role d ''read'') ds) team_read"
  "list_all (\<lambda>(role, ds). list_all (\<lambda>d. role_has_doctype_permission role d ''write''
      \<and> role_has_doctype_permission role d ''create'') ds) team_write"
  by code_simp+

lemma team_role_read:
  "doctype \<in> set (allowed_for team_read role) \<Longrightarrow> role_has_doctype_permission role doctype ''read''"
  using team_tables_within_matrix(1) by (fastforce simp: list_all_iff dest: allowed_forD)

lemma team_role_write:
  "doctype \<in> set (allowed_for team_write role) \<Longrightarrow> permission \<in> {''write'', ''create''} \<Longrightarrow>
   role_has_doctype_permission role doctype permission"
  using team_tables_within_matrix(2) by (fastforce simp: list_all_iff dest: allowed_forD)

lemma special_role_permissions:
  "doctype \<in> set all_parent_doctypes \<Longrightarrow> permission \<in> {''read'', ''write'', ''create'', ''delete''} \<Longrightarrow>
     role_has_doctype_permission ''GBOS Admin'' doctype permission"
  "doctype \<in> set (business_doctypes @ [''GBOS Team'']) \<Longrightarrow> role_has_doctype_permission ''CEO'' doctype ''read''"
  "doctype \<in> set integration_doctypes \<Longrightarrow> permission \<in> {''read'', ''write'', ''create''} \<Longrightarrow>
     role_has_doctype_permission ''Integration Admin'' doctype permission"
  "doctype \<in> set business_doctypes \<Longrightarrow> role_has_doctype_permission ''Reviewer'' doctype ''read''"
  by (auto simp: role_has_doctype_permission_def materializer_role_def all_parent_doctypes_def)

lemma record_access_role:
  assumes "can_access_record roles doctype permission member reviewer subject"
    and "permission \<in> {''read'', ''write'', ''create'', ''delete''}"
  shows "\<exists>role \<in> set roles. role_has_doctype_permission role doctype permission"
proof -
  have dt: "doctype \<in> set all_parent_doctypes"
    using assms(1) by (auto simp: can_access_record_def split: if_splits)
  have rc: "''GBOS Review Case'' \<in> set business_doctypes"
    by (simp add: business_doctypes_def)
  have admin: "''GBOS Admin'' \<in> set roles \<Longrightarrow> ?thesis"
    using special_role_permissions(1) [OF dt assms(2)] by blast
  consider "permission = ''read''" | "permission \<in> {''write'', ''create''}" | "permission = ''delete''"
    using assms(2) by blast
  then show ?thesis
  proof cases
    case 1
    then have "''GBOS Admin'' \<in> set roles \<or> ''CEO'' \<in> set roles \<and> doctype \<in> set (business_doctypes @ [''GBOS Team''])
        \<or> ''Integration Admin'' \<in> set roles \<and> doctype \<in> set integration_doctypes
        \<or> ''Reviewer'' \<in> set roles \<and> doctype \<in> set business_doctypes
        \<or> (\<exists>role \<in> set roles. doctype \<in> set (allowed_for team_read role))"
      using assms(1) rc by (auto simp: can_access_record_def list_ex_iff split: if_splits)
    then show ?thesis
      using admin special_role_permissions(2,3,4) [of doctype] team_role_read [of doctype] unfolding 1 by blast
  next
    case 2
    then have "permission \<noteq> ''read''" "permission \<noteq> ''approve''" "permission \<noteq> ''delete''" by auto
    then have "''GBOS Admin'' \<in> set roles \<or> ''Integration Admin'' \<in> set roles \<and> doctype \<in> set integration_doctypes
        \<or> (\<exists>role \<in> set roles. doctype \<in> set (allowed_for team_write role))"
      using assms(1) 2 by (auto simp: can_access_record_def list_ex_iff split: if_splits)
    then show ?thesis
      using admin special_role_permissions(3) [of doctype permission] team_role_write [OF _ 2] 2 by blast
  next
    case 3
    then show ?thesis
      using assms(1) admin by (auto simp: can_access_record_def split: if_splits)
  qed
qed

lemma crm_access_role:
  assumes "can_access_crm_record roles doctype permission member"
  shows "\<exists>role \<in> set roles. role_has_crm_doctype_permission role doctype permission"
proof -
  have dt: "doctype \<in> set crm_doctypes"
    using assms by (auto simp: can_access_crm_record_def split: if_splits)
  have roles: "role_has_crm_doctype_permission ''GBOS Admin'' doctype p" if "p \<in> {''read'', ''write'', ''create'', ''delete''}" for p
    using that dt by (simp add: role_has_crm_doctype_permission_def)
  have team: "role_has_crm_doctype_permission role doctype p"
    if "role \<in> set crm_team_roles" "p \<in> {''read'', ''write'', ''create''}" for role p
    using that dt by (auto simp: role_has_crm_doctype_permission_def crm_team_roles_def)
  have rest: "role_has_crm_doctype_permission ''CEO'' doctype ''read''"
    "doctype \<in> set product_crm_read \<Longrightarrow> role_has_crm_doctype_permission ''Product/R&D'' doctype ''read''"
    using dt by (simp_all add: role_has_crm_doctype_permission_def crm_team_roles_def)
  consider "permission = ''read''" | "permission \<in> {''write'', ''create''}" | "permission = ''delete''"
    using assms by (auto simp: can_access_crm_record_def split: if_splits)
  then show ?thesis
  proof cases
    case 1
    then have "(\<exists>role \<in> set roles. role \<in> {''GBOS Admin'', ''CEO''}) \<or> (\<exists>role \<in> set roles. role \<in> set crm_team_roles)
        \<or> ''Product/R&D'' \<in> set roles \<and> doctype \<in> set product_crm_read"
      using assms dt by (auto simp: can_access_crm_record_def)
    then show ?thesis
      using roles [of permission] team [of _ permission] rest unfolding 1 by blast
  next
    case 2
    then have "permission \<noteq> ''read''" by auto
    then have "''GBOS Admin'' \<in> set roles \<or> (\<exists>role \<in> set roles. role \<in> set crm_team_roles)"
      using assms dt 2 by (auto simp: can_access_crm_record_def)
    then show ?thesis
      using roles [of permission] team [of _ permission] 2 by blast
  next
    case 3
    then show ?thesis
      using assms dt roles [of permission] by (auto simp: can_access_crm_record_def)
  qed
qed

text \<open>
  C12. Record-level access never exceeds the coarse role matrix: whoever may read, write, create or
  delete a record holds a role that has that permission on the document type. The same holds for
  the CRM documents.
\<close>

theorem record_access_within_role_matrix:
  assumes "permission \<in> {''read'', ''write'', ''create'', ''delete''}"
  shows "(can_access_record roles doctype permission member reviewer subject
            \<longrightarrow> (\<exists>role \<in> set roles. role_has_doctype_permission role doctype permission))
       \<and> (can_access_crm_record roles doctype permission member
            \<longrightarrow> (\<exists>role \<in> set roles. role_has_crm_doctype_permission role doctype permission))"
  using record_access_role [OF _ assms] crm_access_role by blast

theorem record_access_within_role_matrix_witness:
  "can_access_record [''Buyer''] ''GBOS Sourcing Event'' ''write'' True False False
   \<and> (\<exists>role \<in> set [''Buyer'']. role_has_doctype_permission role ''GBOS Sourcing Event'' ''write'')"
proof -
  have "can_access_record [''Buyer''] ''GBOS Sourcing Event'' ''write'' True False False"
    by code_simp
  with record_access_within_role_matrix [of "''write''" "[''Buyer'']" "''GBOS Sourcing Event''" True False False]
  show ?thesis by simp
qed

text \<open>
  Separation of duties: a reviewer to whom a business record is assigned for review cannot
  write, create or delete that record through the permission hook, whatever other roles and teams
  the reviewer has; review cases themselves are changed by administrators only.
\<close>

theorem reviewer_cannot_edit_subject:
  assumes "''Reviewer'' \<in> set (ae_roles env actor)" and "actor \<noteq> []"
    and "\<not> is_internal_materializer env actor"
    and "is_assigned_review_subject env actor (dv_doctype doc) (dv_name doc)"
    and "dv_doctype doc \<in> set business_doctypes"
    and "action \<in> {''write'', ''create'', ''delete''}"
    and "has_gbos_permission env doc (Some actor) (Some action) ptype"
  shows "dv_doctype doc = ''GBOS Review Case'' \<and> ''GBOS Admin'' \<in> set (ae_roles env actor)"
proof -
  have none: "internal_gbos_permission env actor (dv_doctype doc) action = None"
    using assms(3) by (simp add: internal_gbos_permission_def)
  have dt: "dv_doctype doc \<notin> set integration_doctypes" "dv_doctype doc \<noteq> ''GBOS Team''"
    using assms(5) by (auto simp: business_doctypes_def integration_doctypes_def)
  have "\<not> can_access_record (ae_roles env actor) (dv_doctype doc) action member assigned True" for member assigned
    using assms(1,6) by (auto simp: can_access_record_def)
  then show ?thesis
    using assms(2,4,6,7) none dt
    by (auto simp: has_gbos_permission_def or_else_def Let_def split: if_splits)
qed

definition reviewer_env :: "string list \<Rightarrow> access_env" where
  "reviewer_env roles = \<lparr>ae_session_user = ''rev'', ae_roles = (\<lambda>_. roles), ae_team_member = (\<lambda>_ _. True),
     ae_pending_case = (\<lambda>_ _ _. True), ae_assigned_work = (\<lambda>_ _ _. False), ae_scope = Unset\<rparr>"

definition view_of :: "string \<Rightarrow> doc_view" where
  "view_of doctype = \<lparr>dv_doctype = doctype, dv_name = Some ''W-1'', dv_team = Some ''north'',
     dv_assigned_reviewer = Some ''rev'', dv_custom_esan_team = None\<rparr>"

theorem reviewer_cannot_edit_subject_witness:
  "\<not> has_gbos_permission (reviewer_env [''Reviewer'', ''Sales User'']) (view_of ''GBOS Work Item'')
     (Some ''rev'') (Some ''write'') None
   \<and> has_gbos_permission (reviewer_env [''Sales User'']) (view_of ''GBOS Work Item'')
     (Some ''rev'') (Some ''write'') None"
proof -
  have "has_gbos_permission (reviewer_env [''Sales User'']) (view_of ''GBOS Work Item'')
      (Some ''rev'') (Some ''write'') None"
    by code_simp
  then show ?thesis
    using reviewer_cannot_edit_subject [of "reviewer_env [''Reviewer'', ''Sales User'']" "''rev''"
        "view_of ''GBOS Work Item''" "''write''" None]
    by (auto simp: reviewer_env_def view_of_def is_internal_materializer_def materializer_role_def
        is_assigned_review_subject_def business_doctypes_def)
qed

section \<open>The internal materializer\<close>

definition gbos_actions :: "string set" where
  "gbos_actions = {''read'', ''write'', ''create''}"

text \<open>
  The internal materializer has no standing permissions: outside an open scope every hook
  denies it; inside a scope it reads review subjects and teams, and only in apply mode creates the
  three draft types and writes work items and review cases; and when the scope closes, normally or
  by an exception, it is back to nothing.
\<close>

theorem materializer_is_confined:
  assumes "is_internal_materializer env (ae_session_user env)" and "ae_session_user env \<notin> {[], ''Guest''}"
    and "ae_scope env = Unset"
  shows "\<not> has_gbos_permission env doc None pt pt' \<and> \<not> has_crm_permission env doc None pt pt'
       \<and> \<not> has_internal_materialization_permission env doc None pt pt'
       \<and> (\<forall>mode. has_gbos_permission (env\<lparr>ae_scope := PermissionScope True (ae_session_user env) mode\<rparr>) doc None pt pt'
            \<longrightarrow> role_has_doctype_permission materializer_role (dv_doctype doc) (or_else pt (or_else pt' ''read''))
              \<and> (or_else pt (or_else pt' ''read'') = ''read'' \<or> mode = Apply))
       \<and> (\<forall>mode (body :: access_env \<Rightarrow> (hook_error, unit, access_env) call).
            ae_scope (snd (materialization_permission_scope mode body env)) = Unset)"
proof -
  have user: "or_else None u = u" for u
    by (simp add: or_else_def)
  have perm: "role_has_doctype_permission materializer_role dt p \<and> (p = ''read'' \<or> mode = Apply)"
    if "internal_gbos_permission (env\<lparr>ae_scope := PermissionScope True (ae_session_user env) mode\<rparr>)
        (ae_session_user env) dt p = Some True" for dt p mode
    using that assms(1)
    by (auto simp: internal_gbos_permission_def internal_materialization_mode_def is_internal_materializer_def
        role_has_doctype_permission_def all_parent_doctypes_def business_doctypes_def
        materialization_subject_doctypes_def materialization_draft_doctypes_def split: if_splits)
  have closed: "internal_gbos_permission env (ae_session_user env) dt p = Some False" for dt p
    using assms(1,3) by (simp add: internal_gbos_permission_def internal_materialization_mode_def)
  have some: "\<exists>b. internal_gbos_permission (env\<lparr>ae_scope := PermissionScope True (ae_session_user env) mode\<rparr>)
      (ae_session_user env) dt p = Some b" for dt p mode
    using assms(1) by (auto simp: internal_gbos_permission_def is_internal_materializer_def split: option.split)
  have open_perm: "internal_gbos_permission (env\<lparr>ae_scope := PermissionScope True (ae_session_user env) mode\<rparr>)
      (ae_session_user env) (dv_doctype doc) (or_else pt (or_else pt' ''read'')) = Some True"
    if "has_gbos_permission (env\<lparr>ae_scope := PermissionScope True (ae_session_user env) mode\<rparr>) doc None pt pt'" for mode
    using that some [of mode "dv_doctype doc" "or_else pt (or_else pt' ''read'')"]
    by (auto simp: has_gbos_permission_def user Let_def)
  show ?thesis
    using assms closed perm open_perm
    by (auto simp: has_gbos_permission_def has_crm_permission_def has_internal_materialization_permission_def
        user Let_def internal_materialization_mode_def materialization_permission_scope_def
        split: prod.splits)
qed

theorem materializer_is_confined_witness:
  "\<not> has_gbos_permission (reviewer_env [materializer_role, ''GBOS Admin'']) (view_of ''GBOS Work Item'') None None None
   \<and> has_gbos_permission ((reviewer_env [materializer_role])\<lparr>ae_scope := PermissionScope True ''rev'' Apply\<rparr>)
       (view_of ''GBOS Work Item'') None (Some ''create'') None"
proof -
  have "has_gbos_permission ((reviewer_env [materializer_role])\<lparr>ae_scope := PermissionScope True ''rev'' Apply\<rparr>)
       (view_of ''GBOS Work Item'') None (Some ''create'') None"
    by code_simp
  then show ?thesis
    using materializer_is_confined [of "reviewer_env [materializer_role, ''GBOS Admin'']" "view_of ''GBOS Work Item''" None None]
    by (simp add: reviewer_env_def is_internal_materializer_def)
qed

text \<open>
  The only way out of AI Draft is the draft command: a save that changes the review status of
  an AI draft passes the hook only with the command flag set, only to Pending, only for AI-origin
  records, and without touching the business status.
\<close>

theorem ai_draft_leaves_by_command_only:
  "protect_ai_draft_command (Some b) d flag = Inr () \<and> df_review_status b = ''AI Draft''
     \<and> df_review_status d \<noteq> ''AI Draft''
   \<longleftrightarrow> flag \<and> df_origin b = ''AI'' \<and> df_review_status b = ''AI Draft'' \<and> df_review_status d = ''Pending''
     \<and> df_business_status d = df_business_status b"
  by (auto simp: protect_ai_draft_command_def)

end
