(* ===== verification/Py_Json.thy ===== *)
theory Py_Json
  imports GBOS_Prelude Py_Sha256
begin

text \<open>
  The dynamically typed values the services pass around (decoded JSON plus tuples), with the
  operations of the standard library the sources use on them: \<open>dict.get\<close>, \<open>==\<close>, \<open>json.dumps\<close> in
  its canonical form, a recursive search over keys and strings, and the digest of a document. A
  float is carried as its \<open>repr\<close> text.
\<close>

datatype json =
    JNull
  | JBool bool
  | JInt int
  | JFloat string
  | JStr string
  | JList "json list"
  | JTuple "json list"
  | JObj "(string \<times> json) list"

type_synonym fields = "(string \<times> json) list"

section \<open>Access and type tests\<close>

definition jget :: "fields \<Rightarrow> string \<Rightarrow> json" where
  "jget kvs k = (case map_of kvs k of None \<Rightarrow> JNull | Some v \<Rightarrow> v)"

lemma jget_simps [simp]:
  "jget [] k = JNull"
  "jget ((k', v) # kvs) k = (if k = k' then v else jget kvs k)"
  by (simp_all add: jget_def)

definition keys_are :: "fields \<Rightarrow> string list \<Rightarrow> bool" where
  "keys_are kvs ks = (set (map fst kvs) = set ks)"

fun is_str :: "json \<Rightarrow> bool" where
  "is_str (JStr _) = True"
| "is_str _ = False"

fun is_obj :: "json \<Rightarrow> bool" where
  "is_obj (JObj _) = True"
| "is_obj _ = False"

fun is_list :: "json \<Rightarrow> bool" where
  "is_list (JList _) = True"
| "is_list _ = False"

text \<open>\<open>isinstance(v, int)\<close> holds of booleans too; the strict test excludes them.\<close>

fun is_int_or_bool :: "json \<Rightarrow> bool" where
  "is_int_or_bool (JInt _) = True"
| "is_int_or_bool (JBool _) = True"
| "is_int_or_bool _ = False"

fun is_strict_int :: "json \<Rightarrow> bool" where
  "is_strict_int (JInt _) = True"
| "is_strict_int _ = False"

fun int_of_json :: "json \<Rightarrow> int" where
  "int_of_json (JInt i) = i"
| "int_of_json (JBool b) = (if b then 1 else 0)"
| "int_of_json _ = 0"

fun str_of_json :: "json \<Rightarrow> string" where
  "str_of_json (JStr s) = s"
| "str_of_json _ = []"

fun items_of_json :: "json \<Rightarrow> json list" where
  "items_of_json (JList xs) = xs"
| "items_of_json (JTuple xs) = xs"
| "items_of_json _ = []"

fun fields_of_json :: "json \<Rightarrow> fields" where
  "fields_of_json (JObj kvs) = kvs"
| "fields_of_json _ = []"

section \<open>Python equality\<close>

text \<open>
  \<open>==\<close> identifies \<open>True\<close>, \<open>1\<close> and \<open>1.0\<close>, and compares dictionaries without regard to order.
\<close>

fun number_text :: "json \<Rightarrow> string option" where
  "number_text (JInt i) = Some (int_text i @ ''.0'')"
| "number_text (JBool b) = Some (if b then ''1.0'' else ''0.0'')"
| "number_text (JFloat s) = Some s"
| "number_text _ = None"

fun py_eq :: "json \<Rightarrow> json \<Rightarrow> bool"
  and py_eq_items :: "json list \<Rightarrow> json list \<Rightarrow> bool"
  and py_eq_fields :: "fields \<Rightarrow> fields \<Rightarrow> bool" where
  "py_eq JNull w = (w = JNull)"
| "py_eq (JStr s) w = (w = JStr s)"
| "py_eq (JBool b) w = (number_text w = number_text (JBool b))"
| "py_eq (JInt i) w = (number_text w = number_text (JInt i))"
| "py_eq (JFloat f) w = (number_text w = Some f)"
| "py_eq (JList xs) w = (case w of JList ys \<Rightarrow> py_eq_items xs ys | _ \<Rightarrow> False)"
| "py_eq (JTuple xs) w = (case w of JTuple ys \<Rightarrow> py_eq_items xs ys | _ \<Rightarrow> False)"
| "py_eq (JObj a) w =
     (case w of JObj b \<Rightarrow> length a = length b \<and> py_eq_fields a b | _ \<Rightarrow> False)"
| "py_eq_items [] ys = (ys = [])"
| "py_eq_items (x # xs) ys = (case ys of [] \<Rightarrow> False | y # ys' \<Rightarrow> py_eq x y \<and> py_eq_items xs ys')"
| "py_eq_fields [] b = True"
| "py_eq_fields ((k, v) # a) b =
     ((case map_of b k of None \<Rightarrow> False | Some w \<Rightarrow> py_eq v w) \<and> py_eq_fields a b)"

lemma py_eq_JStr [simp]: "py_eq v (JStr s) \<longleftrightarrow> v = JStr s"
  by (cases v) auto

section \<open>Searching keys and strings at every depth\<close>

fun json_any :: "(string \<Rightarrow> bool) \<Rightarrow> (string \<Rightarrow> bool) \<Rightarrow> json \<Rightarrow> bool"
  and json_any_items :: "(string \<Rightarrow> bool) \<Rightarrow> (string \<Rightarrow> bool) \<Rightarrow> json list \<Rightarrow> bool"
  and json_any_fields :: "(string \<Rightarrow> bool) \<Rightarrow> (string \<Rightarrow> bool) \<Rightarrow> fields \<Rightarrow> bool" where
  "json_any kp sp (JObj kvs) = json_any_fields kp sp kvs"
| "json_any kp sp (JList xs) = json_any_items kp sp xs"
| "json_any kp sp (JTuple xs) = json_any_items kp sp xs"
| "json_any kp sp (JStr s) = sp s"
| "json_any kp sp _ = False"
| "json_any_items kp sp [] = False"
| "json_any_items kp sp (x # xs) = (json_any kp sp x \<or> json_any_items kp sp xs)"
| "json_any_fields kp sp [] = False"
| "json_any_fields kp sp ((k, v) # kvs) =
     (kp k \<or> json_any kp sp v \<or> json_any_fields kp sp kvs)"

text \<open>The parts of a value, the value itself included.\<close>

inductive json_part :: "json \<Rightarrow> json \<Rightarrow> bool" where
  part_refl: "json_part v v"
| part_list: "x \<in> set xs \<Longrightarrow> json_part x w \<Longrightarrow> json_part (JList xs) w"
| part_tuple: "x \<in> set xs \<Longrightarrow> json_part x w \<Longrightarrow> json_part (JTuple xs) w"
| part_field: "(k, v) \<in> set kvs \<Longrightarrow> json_part v w \<Longrightarrow> json_part (JObj kvs) w"

inductive_cases json_part_list: "json_part (JList xs) w"
inductive_cases json_part_tuple: "json_part (JTuple xs) w"
inductive_cases json_part_obj: "json_part (JObj kvs) w"

lemma json_any_items_iff: "json_any_items kp sp xs \<longleftrightarrow> (\<exists>x \<in> set xs. json_any kp sp x)"
  by (induction xs) auto

lemma json_any_fields_iff:
  "json_any_fields kp sp kvs \<longleftrightarrow> (\<exists>(k, v) \<in> set kvs. kp k \<or> json_any kp sp v)"
  by (induction kvs) auto

definition key_hit :: "(string \<Rightarrow> bool) \<Rightarrow> json \<Rightarrow> bool" where
  "key_hit kp v = (\<exists>kvs k w. json_part v (JObj kvs) \<and> (k, w) \<in> set kvs \<and> kp k)"

definition text_hit :: "(string \<Rightarrow> bool) \<Rightarrow> json \<Rightarrow> bool" where
  "text_hit sp v = (\<exists>s. json_part v (JStr s) \<and> sp s)"

lemma json_any_sound: "json_any kp sp v \<Longrightarrow> key_hit kp v \<or> text_hit sp v"
proof (induction v rule: json.induct)
  case (JStr s)
  then show ?case by (auto simp: text_hit_def intro: part_refl)
next
  case (JList xs)
  then show ?case
    by (fastforce simp: json_any_items_iff key_hit_def text_hit_def intro: part_list)
next
  case (JTuple xs)
  then show ?case
    by (fastforce simp: json_any_items_iff key_hit_def text_hit_def intro: part_tuple)
next
  case (JObj kvs)
  from JObj.prems obtain k v where kv: "(k, v) \<in> set kvs" "kp k \<or> json_any kp sp v"
    by (auto simp: json_any_fields_iff)
  show ?case
  proof (cases "kp k")
    case True
    with kv(1) show ?thesis by (auto simp: key_hit_def intro: part_refl)
  next
    case False
    with kv JObj.IH [of "(k, v)" v] have "key_hit kp v \<or> text_hit sp v" by simp
    with kv(1) show ?thesis
      by (auto simp: key_hit_def text_hit_def intro: part_field)
  qed
qed simp_all

lemma json_part_json_any:
  "json_part v w \<Longrightarrow> json_any kp sp w \<Longrightarrow> json_any kp sp v"
  by (induction rule: json_part.induct) (auto simp: json_any_items_iff json_any_fields_iff)

lemma json_any_iff: "json_any kp sp v \<longleftrightarrow> key_hit kp v \<or> text_hit sp v"
proof
  assume "key_hit kp v \<or> text_hit sp v"
  then show "json_any kp sp v"
  proof
    assume "key_hit kp v"
    then obtain kvs k w where p: "json_part v (JObj kvs)" and k: "(k, w) \<in> set kvs" "kp k"
      by (auto simp: key_hit_def)
    from k have "json_any kp sp (JObj kvs)" by (auto simp: json_any_fields_iff)
    with p show ?thesis by (rule json_part_json_any)
  next
    assume "text_hit sp v"
    then show ?thesis
      using json_part_json_any [of v _ kp sp] by (auto simp: text_hit_def)
  qed
qed (rule json_any_sound)

section \<open>Canonical \<open>json.dumps\<close>\<close>

text \<open>
  \<open>json.dumps(v, sort_keys=True, separators=(",", ":"))\<close>; \<open>ensure_ascii\<close> makes no difference on
  the text of the model (no code point above 126).
\<close>

definition quote_char :: "char \<Rightarrow> string" where
  "quote_char c = (let n = (of_char c :: int) in
     if n = 34 then [char_of (92::int), c]
     else if n = 92 then [c, c]
     else if n = 10 then [char_of (92::int), CHR ''n'']
     else if n = 13 then [char_of (92::int), CHR ''r'']
     else if n = 9 then [char_of (92::int), CHR ''t'']
     else if n = 12 then [char_of (92::int), CHR ''f'']
     else if n = 8 then [char_of (92::int), CHR ''b'']
     else if n < 32 then char_of (92::int) # ''u00'' @ [hex_char (of_char c div 16), hex_char (of_char c mod 16)]
     else [c])"

definition quote_text :: "string \<Rightarrow> string" where
  "quote_text s = [char_of (34::int)] @ concat (map quote_char s) @ [char_of (34::int)]"

fun dumps :: "json \<Rightarrow> string"
  and dumps_items :: "json list \<Rightarrow> string list"
  and dumps_fields :: "fields \<Rightarrow> (string \<times> string) list" where
  "dumps JNull = ''null''"
| "dumps (JBool b) = (if b then ''true'' else ''false'')"
| "dumps (JInt i) = int_text i"
| "dumps (JFloat f) = f"
| "dumps (JStr s) = quote_text s"
| "dumps (JList xs) = ''['' @ join '','' (dumps_items xs) @ '']''"
| "dumps (JTuple xs) = ''['' @ join '','' (dumps_items xs) @ '']''"
| "dumps (JObj kvs) =
     ''{'' @ join '','' (map (\<lambda>(k, t). quote_text k @ '':'' @ t) (sort_key fst (dumps_fields kvs))) @ ''}''"
| "dumps_items [] = []"
| "dumps_items (x # xs) = dumps x # dumps_items xs"
| "dumps_fields [] = []"
| "dumps_fields ((k, v) # kvs) = (k, dumps v) # dumps_fields kvs"

definition json_digest :: "json \<Rightarrow> string" where
  "json_digest v = sha256_hex (dumps v)"

lemma hex_not_space: "is_hex_char c \<Longrightarrow> \<not> is_space c"
proof -
  have "(of_char c :: int) = int (of_char c)" by (simp add: of_nat_of_char)
  then show "is_hex_char c \<Longrightarrow> \<not> is_space c"
    by (auto simp: is_hex_char_def is_space_def in_range_def Let_def is_digit_def)
qed

lemma length_json_digest [simp]: "length (json_digest v) = 64"
  by (simp add: json_digest_def)

lemma is_sha256_text_json_digest [simp]: "is_sha256_text (json_digest v)"
  by (simp add: json_digest_def)

lemma dumps_items_map: "dumps_items xs = map dumps xs"
  by (induction xs) auto

lemma dumps_fields_map: "dumps_fields kvs = map (\<lambda>(k, v). (k, dumps v)) kvs"
  by (induction kvs) auto

text \<open>Two documents that differ only in the order of their (distinct) keys have one digest.\<close>

lemma dumps_JObj_perm:
  assumes "distinct (map fst a)" and "distinct (map fst b)" and "set a = set b"
  shows "dumps (JObj a) = dumps (JObj b)"
proof -
  have eq: "map fst (dumps_fields xs) = map fst xs" for xs
    by (induction xs) auto
  have "set (dumps_fields a) = set (dumps_fields b)"
    using assms(3) by (simp add: dumps_fields_map)
  moreover have "distinct (map fst (dumps_fields a))" and "distinct (map fst (dumps_fields b))"
    using assms(1,2) by (simp_all add: eq)
  ultimately have "sort_key fst (dumps_fields a) = sort_key fst (dumps_fields b)"
    by (intro map_sorted_distinct_set_unique [where f = fst])
      (auto simp: distinct_map inj_on_def)
  then show ?thesis by simp
qed

section \<open>\<open>str\<close>, \<open>repr\<close> and defaults\<close>

text \<open>\<open>d.get(k, default)\<close>: the default counts only when the key is absent.\<close>

definition jget_or :: "fields \<Rightarrow> string \<Rightarrow> json \<Rightarrow> json" where
  "jget_or kvs k d = (case map_of kvs k of None \<Rightarrow> d | Some v \<Rightarrow> v)"

definition repr_char :: "char \<Rightarrow> char \<Rightarrow> string" where
  "repr_char q c = (let n = (of_char c :: int) in
     if c = q \<or> n = 92 then [char_of (92::int), c]
     else if n = 10 then [char_of (92::int), CHR ''n'']
     else if n = 13 then [char_of (92::int), CHR ''r'']
     else if n = 9 then [char_of (92::int), CHR ''t'']
     else if n < 32 \<or> n = 127 then char_of (92::int) # ''x'' @ [hex_char (n div 16), hex_char (n mod 16)]
     else [c])"

definition repr_text :: "string \<Rightarrow> string" where
  "repr_text s =
     (let q = (if char_of (39::int) \<in> set s \<and> char_of (34::int) \<notin> set s then char_of (34::int)
               else char_of (39::int))
      in [q] @ concat (map (repr_char q) s) @ [q])"

fun py_repr :: "json \<Rightarrow> string"
  and py_repr_items :: "json list \<Rightarrow> string list"
  and py_repr_fields :: "fields \<Rightarrow> string list" where
  "py_repr JNull = ''None''"
| "py_repr (JBool b) = (if b then ''True'' else ''False'')"
| "py_repr (JInt i) = int_text i"
| "py_repr (JFloat f) = f"
| "py_repr (JStr s) = repr_text s"
| "py_repr (JList xs) = ''['' @ join '', '' (py_repr_items xs) @ '']''"
| "py_repr (JTuple xs) =
     (if length xs = 1 then ''('' @ join '', '' (py_repr_items xs) @ '',)''
      else ''('' @ join '', '' (py_repr_items xs) @ '')'')"
| "py_repr (JObj kvs) = ''{'' @ join '', '' (py_repr_fields kvs) @ ''}''"
| "py_repr_items [] = []"
| "py_repr_items (x # xs) = py_repr x # py_repr_items xs"
| "py_repr_fields [] = []"
| "py_repr_fields ((k, v) # kvs) = (repr_text k @ '': '' @ py_repr v) # py_repr_fields kvs"

definition py_str :: "json \<Rightarrow> string" where
  "py_str v = (case v of JStr s \<Rightarrow> s | _ \<Rightarrow> py_repr v)"

lemma py_str_JStr [simp]: "py_str (JStr s) = s"
  by (simp add: py_str_def)

end
