(* ===== verification/Py_Regex.thy ===== *)
theory Py_Regex
  imports GBOS_Prelude
begin

text \<open>
  The part of Python's \<open>re\<close> the sources use: \<open>fullmatch\<close> and \<open>search\<close> of patterns built from
  character classes, concatenation, alternation, repetition and the word boundary \<open>\b\<close>. Only
  whether a match exists matters to the sources, so a pattern denotes a relation between the start
  and the end position of a match in the text, and the executable matcher computes the end
  positions from a start position.
\<close>

datatype rx =
    Eps
  | Cls "char \<Rightarrow> bool"
  | Boundary
  | Cat rx rx
  | Alt rx rx
  | Star rx

definition word_char :: "char \<Rightarrow> bool" where
  "word_char c = (is_alnum c \<or> c = CHR ''_'')"

definition word_at :: "string \<Rightarrow> nat \<Rightarrow> bool" where
  "word_at s i = (i < length s \<and> word_char (s ! i))"

definition at_boundary :: "string \<Rightarrow> nat \<Rightarrow> bool" where
  "at_boundary s i = ((0 < i \<and> word_at s (i - 1)) \<noteq> word_at s i)"

inductive rx_match :: "rx \<Rightarrow> string \<Rightarrow> nat \<Rightarrow> nat \<Rightarrow> bool" where
  m_eps: "i \<le> length s \<Longrightarrow> rx_match Eps s i i"
| m_cls: "i < length s \<Longrightarrow> p (s ! i) \<Longrightarrow> rx_match (Cls p) s i (Suc i)"
| m_boundary: "i \<le> length s \<Longrightarrow> at_boundary s i \<Longrightarrow> rx_match Boundary s i i"
| m_cat: "rx_match r s i j \<Longrightarrow> rx_match q s j k \<Longrightarrow> rx_match (Cat r q) s i k"
| m_alt1: "rx_match r s i j \<Longrightarrow> rx_match (Alt r q) s i j"
| m_alt2: "rx_match q s i j \<Longrightarrow> rx_match (Alt r q) s i j"
| m_star0: "i \<le> length s \<Longrightarrow> rx_match (Star r) s i i"
| m_star: "rx_match r s i j \<Longrightarrow> rx_match (Star r) s j k \<Longrightarrow> rx_match (Star r) s i k"

inductive_cases m_eps_cases: "rx_match Eps s i j"
inductive_cases m_cls_cases: "rx_match (Cls p) s i j"
inductive_cases m_boundary_cases: "rx_match Boundary s i j"
inductive_cases m_cat_cases: "rx_match (Cat r q) s i j"
inductive_cases m_alt_cases: "rx_match (Alt r q) s i j"

lemma rx_match_bounds: "rx_match r s i j \<Longrightarrow> i \<le> j \<and> j \<le> length s"
  by (induction rule: rx_match.induct) auto

section \<open>The matcher\<close>

fun close_ends :: "nat \<Rightarrow> (nat \<Rightarrow> nat list) \<Rightarrow> nat list \<Rightarrow> nat list" where
  "close_ends 0 f is = is"
| "close_ends (Suc n) f is = close_ends n f (remdups (is @ concat (map f is)))"

primrec rx_ends :: "rx \<Rightarrow> string \<Rightarrow> nat \<Rightarrow> nat list" where
  "rx_ends Eps s i = (if i \<le> length s then [i] else [])"
| "rx_ends (Cls p) s i = (if i < length s \<and> p (s ! i) then [Suc i] else [])"
| "rx_ends Boundary s i = (if i \<le> length s \<and> at_boundary s i then [i] else [])"
| "rx_ends (Cat r q) s i = remdups (concat (map (rx_ends q s) (rx_ends r s i)))"
| "rx_ends (Alt r q) s i = remdups (rx_ends r s i @ rx_ends q s i)"
| "rx_ends (Star r) s i = (if i \<le> length s then close_ends (length s) (rx_ends r s) [i] else [])"

lemma close_ends_mono: "set is \<subseteq> set (close_ends n f is)"
  by (induction n arbitrary: "is") (auto, (fastforce)+)

lemma close_ends_sound:
  assumes "\<And>i j. j \<in> set (f i) \<Longrightarrow> R i j"
  shows "k \<in> set (close_ends n f is) \<Longrightarrow> \<exists>i \<in> set is. R\<^sup>*\<^sup>* i k"
proof (induction n arbitrary: "is")
  case 0
  then show ?case by auto
next
  case (Suc n)
  then obtain j where j: "j \<in> set (is @ concat (map f is))" "R\<^sup>*\<^sup>* j k"
    by fastforce
  then consider "j \<in> set is" | i where "i \<in> set is" "j \<in> set (f i)" by auto
  then show ?case
  proof cases
    case 1
    with j show ?thesis by blast
  next
    case 2
    with assms j(2) show ?thesis by (meson converse_rtranclp_into_rtranclp)
  qed
qed

lemma close_ends_complete:
  assumes up: "\<And>i j. j \<in> set (f i) \<Longrightarrow> i \<le> j \<and> j \<le> m"
  shows "(\<lambda>i j. j \<in> set (f i))\<^sup>*\<^sup>* i k \<Longrightarrow> i \<in> set is \<Longrightarrow> k - i \<le> n \<Longrightarrow> k \<in> set (close_ends n f is)"
proof (induction n arbitrary: i "is" k)
  case 0
  have "i \<le> k" using 0(1) by induction (use up in \<open>auto dest: order_trans\<close>)
  with 0 show ?case by simp
next
  case (Suc n)
  from Suc.prems(1) show ?case
  proof (cases "i = k")
    case True
    with Suc.prems(2) show ?thesis
      using close_ends_mono [of "is" "Suc n" f] by blast
  next
    case False
    have "(\<lambda>i j. j \<in> set (f i))\<^sup>*\<^sup>* i k" by (rule Suc.prems(1))
    then have "i = k \<or> (\<exists>j. j \<in> set (f i) \<and> j \<noteq> i \<and> (\<lambda>i j. j \<in> set (f i))\<^sup>*\<^sup>* j k)"
      by (induction rule: converse_rtranclp_induct) auto
    with False obtain j where j: "j \<in> set (f i)" "j \<noteq> i" "(\<lambda>i j. j \<in> set (f i))\<^sup>*\<^sup>* j k"
      by blast
    from j(1,2) up have "i < j" by (metis le_neq_implies_less)
    moreover have "j \<in> set (remdups (is @ concat (map f is)))"
      using j(1) Suc.prems(2) by auto
    ultimately show ?thesis
      using Suc.IH [OF j(3)] Suc.prems(3) by simp
  qed
qed

lemma star_rtranclp:
  "rx_match (Star r) s i k \<longleftrightarrow> i \<le> length s \<and> (rx_match r s)\<^sup>*\<^sup>* i k"
proof
  assume "rx_match (Star r) s i k"
  then show "i \<le> length s \<and> (rx_match r s)\<^sup>*\<^sup>* i k"
  proof (induction "Star r" s i k rule: rx_match.induct)
    case (m_star s i j k)
    then show ?case
      by (meson converse_rtranclp_into_rtranclp rx_match_bounds order_trans)
  qed auto
next
  assume a: "i \<le> length s \<and> (rx_match r s)\<^sup>*\<^sup>* i k"
  then have "(rx_match r s)\<^sup>*\<^sup>* i k" and "i \<le> length s" by auto
  then show "rx_match (Star r) s i k"
    by (induction rule: converse_rtranclp_induct)
      (auto intro: rx_match.intros dest: rx_match_bounds)
qed

text \<open>The matcher computes exactly the end positions of the matches.\<close>

lemma rx_ends_iff: "j \<in> set (rx_ends r s i) \<longleftrightarrow> rx_match r s i j"
proof (induction r arbitrary: i j)
  case Eps
  then show ?case by (auto intro: m_eps elim: m_eps_cases)
next
  case (Cls p)
  then show ?case by (auto intro: m_cls elim: m_cls_cases)
next
  case Boundary
  then show ?case by (auto intro: m_boundary elim: m_boundary_cases)
next
  case (Cat r q)
  then show ?case by (fastforce intro: m_cat elim: m_cat_cases)
next
  case (Alt r q)
  then show ?case by (auto intro: m_alt1 m_alt2 elim: m_alt_cases)
next
  case (Star r)
  have eq: "(\<lambda>i j. j \<in> set (rx_ends r s i)) = rx_match r s"
    using Star by (intro ext) simp
  show ?case
  proof (cases "i \<le> length s")
    case True
    have "j \<in> set (close_ends (length s) (rx_ends r s) [i]) \<longleftrightarrow> (rx_match r s)\<^sup>*\<^sup>* i j"
    proof
      assume "j \<in> set (close_ends (length s) (rx_ends r s) [i])"
      then show "(rx_match r s)\<^sup>*\<^sup>* i j"
        using close_ends_sound [of "rx_ends r s" "rx_match r s" j "length s" "[i]"] Star by auto
    next
      assume R: "(rx_match r s)\<^sup>*\<^sup>* i j"
      then have "j \<le> length s"
        using True by induction (auto dest: rx_match_bounds)
      then show "j \<in> set (close_ends (length s) (rx_ends r s) [i])"
        using close_ends_complete [of "rx_ends r s" "length s" i j "[i]" "length s"] R Star eq
          rx_match_bounds by simp
    qed
    with True show ?thesis by (simp add: star_rtranclp)
  next
    case False
    then show ?thesis by (auto dest: rx_match_bounds)
  qed
qed

definition rx_search :: "rx \<Rightarrow> string \<Rightarrow> bool" where
  "rx_search r s = (\<exists>i \<in> set [0..<Suc (length s)]. rx_ends r s i \<noteq> [])"

definition rx_fullmatch :: "rx \<Rightarrow> string \<Rightarrow> bool" where
  "rx_fullmatch r s = (length s \<in> set (rx_ends r s 0))"

lemma rx_search_iff: "rx_search r s \<longleftrightarrow> (\<exists>i j. rx_match r s i j)"
proof -
  have "rx_ends r s i \<noteq> [] \<longleftrightarrow> (\<exists>j. rx_match r s i j)" for i
    by (metis rx_ends_iff all_not_in_conv set_empty)
  then show ?thesis
    unfolding rx_search_def
    by (metis atLeast0LessThan le_imp_less_Suc lessThan_iff order_trans rx_match_bounds set_upt)
qed

lemma rx_fullmatch_iff: "rx_fullmatch r s \<longleftrightarrow> rx_match r s 0 (length s)"
  by (simp add: rx_fullmatch_def rx_ends_iff)

section \<open>Derived patterns\<close>

definition rx_chr :: "char \<Rightarrow> rx" where
  "rx_chr c = Cls (\<lambda>x. x = c)"

fun rx_times :: "nat \<Rightarrow> rx \<Rightarrow> rx" where
  "rx_times 0 r = Eps"
| "rx_times (Suc n) r = Cat r (rx_times n r)"

definition rx_at_least :: "nat \<Rightarrow> rx \<Rightarrow> rx" where
  "rx_at_least n r = Cat (rx_times n r) (Star r)"

definition rx_plus :: "rx \<Rightarrow> rx" where
  "rx_plus = rx_at_least 1"

fun rx_seq :: "rx list \<Rightarrow> rx" where
  "rx_seq [] = Eps"
| "rx_seq (r # rs) = Cat r (rx_seq rs)"

fun rx_any_of :: "rx list \<Rightarrow> rx" where
  "rx_any_of [] = Cls (\<lambda>_. False)"
| "rx_any_of [r] = r"
| "rx_any_of (r # q # rs) = Alt r (rx_any_of (q # rs))"

text \<open>
  Most patterns of the sources have the form \<open>^[first][rest]{lo,hi}$\<close> and are used with
  \<open>fullmatch\<close>: one character of a class, then \<open>lo\<close> to \<open>hi\<close> of another.
\<close>

definition shape_match :: "(char \<Rightarrow> bool) \<Rightarrow> (char \<Rightarrow> bool) \<Rightarrow> nat \<Rightarrow> nat \<Rightarrow> string \<Rightarrow> bool" where
  "shape_match first rest lo hi s =
     (case s of [] \<Rightarrow> False
      | c # cs \<Rightarrow> first c \<and> list_all rest cs \<and> lo \<le> length cs \<and> length cs \<le> hi)"

lemma shape_match_length: "shape_match f r lo hi s \<Longrightarrow> Suc lo \<le> length s \<and> length s \<le> Suc hi"
  by (auto simp: shape_match_def split: list.splits)

lemma shape_match_nonempty: "shape_match f r lo hi s \<Longrightarrow> s \<noteq> []"
  by (auto simp: shape_match_def)

lemma shape_match_chars:
  "shape_match f r lo hi s \<Longrightarrow> c \<in> set s \<Longrightarrow> f c \<or> r c"
  by (auto simp: shape_match_def list_all_iff split: list.splits)

end
