(* ===== verification/Py_Time.thy ===== *)
theory Py_Time
  imports GBOS_Prelude
begin

text \<open>
  The text form of datetimes: \<open>datetime.isoformat\<close> of a UTC datetime and \<open>datetime.fromisoformat\<close>
  on the extended format \<open>YYYY-MM-DDTHH:MM[:SS[.ffffff]][+HH:MM]\<close>. An instant counts microseconds
  from 1970-01-01T00:00:00Z in the proleptic Gregorian calendar. The other spellings
  \<open>fromisoformat\<close> knows (basic format, week dates) are outside the model.
\<close>

definition pad_digits :: "nat \<Rightarrow> nat \<Rightarrow> string" where
  "pad_digits w n = (let t = nat_digits n in replicate (w - length t) (CHR ''0'') @ t)"

text \<open>Year, month and day of a day count, with years starting in March.\<close>

definition civil_of_days :: "int \<Rightarrow> int \<times> int \<times> int" where
  "civil_of_days n =
     (let z = n + 719468; era = z div 146097; doe = z mod 146097;
          yoe = (doe - doe div 1460 + doe div 36524 - doe div 146096) div 365;
          doy = doe - (365 * yoe + yoe div 4 - yoe div 100);
          mp = (5 * doy + 2) div 153;
          d = doy - (153 * mp + 2) div 5 + 1;
          m = (if mp < 10 then mp + 3 else mp - 9);
          y = yoe + era * 400 + (if m \<le> 2 then 1 else 0)
      in (y, m, d))"

definition days_of_civil :: "int \<Rightarrow> int \<Rightarrow> int \<Rightarrow> int" where
  "days_of_civil y m d =
     (let y' = (if m \<le> 2 then y - 1 else y); era = y' div 400; yoe = y' mod 400;
          doy = (153 * (if m > 2 then m - 3 else m + 9) + 2) div 5 + d - 1;
          doe = yoe * 365 + yoe div 4 - yoe div 100 + doy
      in era * 146097 + doe - 719468)"

definition day_us :: int where
  "day_us = 86400000000"

text \<open>\<open>isoformat()\<close> without the offset: microseconds appear only when they are not zero.\<close>

definition isoformat_local :: "instant \<Rightarrow> string" where
  "isoformat_local t =
     (let (y, m, d) = civil_of_days (t div day_us); us = t mod day_us; s = us div 1000000;
          f = us mod 1000000
      in pad_digits 4 (nat y) @ ''-'' @ pad_digits 2 (nat m) @ ''-'' @ pad_digits 2 (nat d) @ ''T''
       @ pad_digits 2 (nat (s div 3600)) @ '':'' @ pad_digits 2 (nat (s div 60 mod 60)) @ '':''
       @ pad_digits 2 (nat (s mod 60)) @ (if f = 0 then [] else ''.'' @ pad_digits 6 (nat f)))"

fun isoformat :: "datetime \<Rightarrow> string" where
  "isoformat (Aware t) = isoformat_local t @ ''+00:00''"
| "isoformat (Naive t) = isoformat_local t"

text \<open>\<open>astimezone(UTC).isoformat().replace("+00:00", "Z")\<close>\<close>

definition isoformat_z :: "instant \<Rightarrow> string" where
  "isoformat_z t = isoformat_local t @ ''Z''"

section \<open>Parsing\<close>

definition read_digits :: "nat \<Rightarrow> string \<Rightarrow> (int \<times> string) option" where
  "read_digits w s =
     (if w \<le> length s \<and> list_all is_digit (take w s)
      then Some (int (nat_value (take w s)), drop w s) else None)"

fun read_char :: "char \<Rightarrow> string \<Rightarrow> string option" where
  "read_char c [] = None"
| "read_char c (x # s) = (if x = c then Some s else None)"

definition days_in_month :: "int \<Rightarrow> int \<Rightarrow> int" where
  "days_in_month y m =
     (if m = 2 then (if y mod 4 = 0 \<and> (y mod 100 \<noteq> 0 \<or> y mod 400 = 0) then 29 else 28)
      else if m \<in> {4, 6, 9, 11} then 30 else 31)"

definition read_date :: "string \<Rightarrow> (int \<times> string) option" where
  "read_date s =
     Option.bind (read_digits 4 s) (\<lambda>(y, s).
     Option.bind (read_char (CHR ''-'') s) (\<lambda>s.
     Option.bind (read_digits 2 s) (\<lambda>(m, s).
     Option.bind (read_char (CHR ''-'') s) (\<lambda>s.
     Option.bind (read_digits 2 s) (\<lambda>(d, s).
       if 1 \<le> y \<and> 1 \<le> m \<and> m \<le> 12 \<and> 1 \<le> d \<and> d \<le> days_in_month y m
       then Some (days_of_civil y m d, s) else None)))))"

definition read_fraction :: "string \<Rightarrow> (int \<times> string) option" where
  "read_fraction s =
     (case read_char (CHR ''.'') s of
        None \<Rightarrow> Some (0, s)
      | Some s \<Rightarrow>
          (let ds = takeWhile is_digit s; n = length ds
           in if n = 0 then None
              else Some (int (nat_value (take 6 (ds @ replicate 6 (CHR ''0'')))), drop n s)))"

definition read_seconds :: "string \<Rightarrow> (int \<times> string) option" where
  "read_seconds s =
     (case read_char (CHR '':'') s of
        None \<Rightarrow> Some (0, s)
      | Some s \<Rightarrow>
          Option.bind (read_digits 2 s) (\<lambda>(sec, s).
          Option.bind (read_fraction s) (\<lambda>(f, s).
            if sec < 60 then Some (sec * 1000000 + f, s) else None)))"

definition read_clock :: "string \<Rightarrow> (int \<times> string) option" where
  "read_clock s =
     Option.bind (read_digits 2 s) (\<lambda>(h, s).
     Option.bind (read_char (CHR '':'') s) (\<lambda>s.
     Option.bind (read_digits 2 s) (\<lambda>(m, s).
     Option.bind (read_seconds s) (\<lambda>(us, s).
       if h < 24 \<and> m < 60 then Some ((h * 3600 + m * 60) * 1000000 + us, s) else None))))"

fun read_offset :: "int \<Rightarrow> string \<Rightarrow> datetime option" where
  "read_offset t [] = Some (Naive t)"
| "read_offset t (c # s) =
     (if c = CHR ''Z'' then if s = [] then Some (Aware t) else None
      else if c = CHR ''+'' \<or> c = CHR ''-''
      then (case read_clock s of
              Some (us, []) \<Rightarrow> Some (Aware (if c = CHR ''+'' then t - us else t + us))
            | _ \<Rightarrow> None)
      else None)"

text \<open>A date alone is midnight, naive; the separator may be any single character.\<close>

definition fromisoformat :: "string \<Rightarrow> datetime option" where
  "fromisoformat s =
     Option.bind (read_date s) (\<lambda>(day, s).
       case s of
         [] \<Rightarrow> Some (Naive (day * day_us))
       | _ # s' \<Rightarrow>
           Option.bind (read_clock s') (\<lambda>(us, s''). read_offset (day * day_us + us) s''))"

lemma isoformat_epoch: "isoformat (Aware 0) = ''1970-01-01T00:00:00+00:00''"
  by code_simp

lemma isoformat_leap_day:
  "isoformat (Aware 1709251199000001) = ''2024-02-29T23:59:59.000001+00:00''"
  by code_simp

lemma fromisoformat_leap_day:
  "fromisoformat ''2024-02-29T23:59:59.000001Z'' = Some (Aware 1709251199000001)"
  by code_simp

end
