(* ===== verification/Agent_Models.thy ===== *)
theory Agent_Models
  imports Py_Json Py_Regex Py_Time
begin

text \<open>
  The data of the agent runtime (\<open>services/agent_runtime/models.py\<close>): the closed refs-only task
  payload, submissions with their idempotency digest, task metadata, timeline events and dead
  letters.
\<close>

datatype agent_error =
    ValidationError string
  | IdempotencyConflict string
  | LeaseConflict string
  | TaskNotFound string
  | ValueError string
  | KeyError
  | TypeError

type_synonym 'a agent_result = "agent_error + 'a"

definition canonical_payload_digest :: "fields \<Rightarrow> string" where
  "canonical_payload_digest payload = json_digest (JObj payload)"

section \<open>Detached JSON\<close>

fun freeze_json :: "json \<Rightarrow> json"
  and freeze_items :: "json list \<Rightarrow> json list"
  and freeze_fields :: "fields \<Rightarrow> fields" where
  "freeze_json (JObj kvs) = JObj (freeze_fields kvs)"
| "freeze_json (JList xs) = JTuple (freeze_items xs)"
| "freeze_json (JTuple xs) = JTuple (freeze_items xs)"
| "freeze_json v = v"
| "freeze_items [] = []"
| "freeze_items (x # xs) = freeze_json x # freeze_items xs"
| "freeze_fields [] = []"
| "freeze_fields ((k, v) # kvs) = (k, freeze_json v) # freeze_fields kvs"

fun thaw_json :: "json \<Rightarrow> json"
  and thaw_items :: "json list \<Rightarrow> json list"
  and thaw_fields :: "fields \<Rightarrow> fields" where
  "thaw_json (JObj kvs) = JObj (thaw_fields kvs)"
| "thaw_json (JTuple xs) = JList (thaw_items xs)"
| "thaw_json v = v"
| "thaw_items [] = []"
| "thaw_items (x # xs) = thaw_json x # thaw_items xs"
| "thaw_fields [] = []"
| "thaw_fields ((k, v) # kvs) = (k, thaw_json v) # thaw_fields kvs"

text \<open>What \<open>json.loads\<close> can produce: no tuples.\<close>

fun no_tuples :: "json \<Rightarrow> bool"
  and no_tuples_items :: "json list \<Rightarrow> bool"
  and no_tuples_fields :: "fields \<Rightarrow> bool" where
  "no_tuples (JObj kvs) = no_tuples_fields kvs"
| "no_tuples (JList xs) = no_tuples_items xs"
| "no_tuples (JTuple xs) = False"
| "no_tuples v = True"
| "no_tuples_items [] = True"
| "no_tuples_items (x # xs) = (no_tuples x \<and> no_tuples_items xs)"
| "no_tuples_fields [] = True"
| "no_tuples_fields ((k, v) # kvs) = (no_tuples v \<and> no_tuples_fields kvs)"

lemma thaw_freeze_no_tuples:
  "no_tuples (thaw_json (freeze_json v))"
  "no_tuples_items (thaw_items (freeze_items xs))"
  "no_tuples_fields (thaw_fields (freeze_fields kvs))"
  by (induction v and xs and kvs rule: freeze_json_freeze_items_freeze_fields.induct) auto

lemma thaw_freeze_id:
  "no_tuples v \<Longrightarrow> thaw_json (freeze_json v) = v"
  "no_tuples_items xs \<Longrightarrow> thaw_items (freeze_items xs) = xs"
  "no_tuples_fields kvs \<Longrightarrow> thaw_fields (freeze_fields kvs) = kvs"
  by (induction v and xs and kvs rule: freeze_json_freeze_items_freeze_fields.induct) auto

lemma dumps_freeze:
  "dumps (freeze_json v) = dumps v"
  "dumps_items (freeze_items xs) = dumps_items xs"
  "dumps_fields (freeze_fields kvs) = dumps_fields kvs"
  by (induction v and xs and kvs rule: freeze_json_freeze_items_freeze_fields.induct) auto

lemma dumps_thaw:
  "dumps (thaw_json v) = dumps v"
  "dumps_items (thaw_items xs) = dumps_items xs"
  "dumps_fields (thaw_fields kvs) = dumps_fields kvs"
  by (induction v and xs and kvs rule: thaw_json_thaw_items_thaw_fields.induct) auto

section \<open>References and personal data\<close>

definition direct_pii_pattern :: rx where
  "direct_pii_pattern =
     (let digit = Cls is_digit;
          local_part = Cls (\<lambda>c. is_alnum c \<or> c \<in> set ''._%+-'');
          host_part = Cls (\<lambda>c. is_alnum c \<or> c \<in> set ''.-'');
          letter = Cls (\<lambda>c. is_upper c \<or> is_lower c);
          phone_part = Cls (\<lambda>c. is_digit c \<or> c \<in> set '' ()-'')
      in rx_any_of
        [rx_seq [rx_plus local_part, rx_chr (CHR ''@''), rx_plus host_part, rx_chr (CHR ''.''),
                 rx_at_least 2 letter],
         rx_seq [rx_chr (CHR ''+''), digit, rx_at_least 7 phone_part, digit],
         rx_seq [Boundary, rx_times 3 digit, Cls (\<lambda>c. is_space c \<or> c \<in> set ''()''), digit,
                 rx_at_least 5 phone_part, digit, Boundary],
         rx_seq [Boundary, rx_chr (CHR ''1''), Cls (in_range (CHR ''3'') (CHR ''9'')),
                 rx_times 9 digit, Boundary]])"

definition has_direct_pii :: "string \<Rightarrow> bool" where
  "has_direct_pii s = rx_search direct_pii_pattern s"

text \<open>A necessary condition that is cheap to evaluate: an at sign, a plus sign or two digits in a row.\<close>

fun pii_hint :: "string \<Rightarrow> bool" where
  "pii_hint [] = False"
| "pii_hint [c] = (c = CHR ''@'' \<or> c = CHR ''+'')"
| "pii_hint (c # d # s) = (c = CHR ''@'' \<or> c = CHR ''+'' \<or> is_digit c \<and> is_digit d \<or> pii_hint (d # s))"

lemma pii_hint_chr: "i < length s \<Longrightarrow> s ! i = CHR ''@'' \<or> s ! i = CHR ''+'' \<Longrightarrow> pii_hint s"
  by (induction s arbitrary: i rule: pii_hint.induct) (auto simp: nth_Cons split: nat.splits)

lemma pii_hint_digits:
  "Suc i < length s \<Longrightarrow> is_digit (s ! i) \<Longrightarrow> is_digit (s ! Suc i) \<Longrightarrow> pii_hint s"
  by (induction s arbitrary: i rule: pii_hint.induct) (auto simp: nth_Cons split: nat.splits)

lemma rx_match_cat_iff: "rx_match (Cat r q) s i j \<longleftrightarrow> (\<exists>k. rx_match r s i k \<and> rx_match q s k j)"
  by (auto intro: rx_match.intros elim: m_cat_cases)

lemma rx_match_cls_iff: "rx_match (Cls p) s i j \<longleftrightarrow> i < length s \<and> p (s ! i) \<and> j = Suc i"
  by (auto intro: rx_match.intros elim: m_cls_cases)

lemma rx_match_boundary_iff: "rx_match Boundary s i j \<longleftrightarrow> i \<le> length s \<and> at_boundary s i \<and> j = i"
  by (auto intro: rx_match.intros elim: m_boundary_cases)

lemma rx_match_alt_iff: "rx_match (Alt r q) s i j \<longleftrightarrow> rx_match r s i j \<or> rx_match q s i j"
  by (auto intro: rx_match.intros elim: m_alt_cases)

lemma pii_hint_seq:
  "rx_match (rx_seq (r # rx_chr c # rs)) s i j \<Longrightarrow> c = CHR ''@'' \<Longrightarrow> pii_hint s"
  "rx_match (rx_seq (rx_chr c # rs)) s i j \<Longrightarrow> c = CHR ''+'' \<Longrightarrow> pii_hint s"
  "rx_match (rx_seq (Boundary # rx_times (Suc (Suc n)) (Cls is_digit) # rs)) s i j \<Longrightarrow> pii_hint s"
  "rx_match (rx_seq (Boundary # rx_chr d # Cls p # rs)) s i j \<Longrightarrow> is_digit d \<Longrightarrow>
     (\<And>x. p x \<Longrightarrow> is_digit x) \<Longrightarrow> pii_hint s"
  by (auto simp: rx_match_cat_iff rx_match_cls_iff rx_match_boundary_iff rx_chr_def
      intro: pii_hint_chr pii_hint_digits)

lemma has_direct_pii_needs:
  assumes "has_direct_pii s"
  shows "pii_hint s"
proof -
  note pii_hint_seq(1) [of _ "CHR ''@''", OF _ refl] pii_hint_seq(2) [of "CHR ''+''", OF _ refl]
    pii_hint_seq(3) [of "Suc 0", folded numeral_3_eq_3]
    pii_hint_seq(4) [of "CHR ''1''" "in_range (CHR ''3'') (CHR ''9'')"]
  moreover have "is_digit (CHR ''1'')" "\<And>x. in_range (CHR ''3'') (CHR ''9'') x \<Longrightarrow> is_digit x"
    by (auto simp: is_digit_def in_range_def)
  ultimately show ?thesis
    using assms
    unfolding has_direct_pii_def rx_search_iff direct_pii_pattern_def Let_def rx_any_of.simps
      rx_match_alt_iff
    by (elim exE disjE) blast+
qed

text \<open>A second one: an at or plus sign, a blank or parenthesis, or eleven digits in a row.\<close>

fun digit_run :: "nat \<Rightarrow> string \<Rightarrow> bool" where
  "digit_run n [] = (n = 0)"
| "digit_run n (c # s) = (n \<le> Suc (length s) \<and> list_all is_digit (take n (c # s)) \<or> digit_run n s)"

definition pii_shape :: "string \<Rightarrow> bool" where
  "pii_shape s =
     (list_ex (\<lambda>c. c \<in> set ''@+()'' \<or> is_space c) s \<or> digit_run 11 s)"

lemma digit_run_iff: "digit_run n s \<longleftrightarrow> (\<exists>i. i + n \<le> length s \<and> (\<forall>m < n. is_digit (s ! (i + m))))"
proof (induction s)
  case (Cons c s)
  have shift: "(\<exists>i. P i) \<longleftrightarrow> P 0 \<or> (\<exists>i. P (Suc i))" for P :: "nat \<Rightarrow> bool"
    by (metis nat.exhaust)
  show ?case
    unfolding shift [of "\<lambda>i. i + n \<le> length (c # s) \<and> (\<forall>m<n. is_digit ((c # s) ! (i + m)))"]
    using Cons.IH by (auto simp: list_all_length)
qed auto

lemma rx_match_times_cls:
  "rx_match (rx_times n (Cls p)) s i j \<longleftrightarrow> j = i + n \<and> j \<le> length s \<and> (\<forall>m < n. p (s ! (i + m)))"
proof (induction n arbitrary: i)
  case 0
  then show ?case by (auto intro: rx_match.intros elim: m_eps_cases)
next
  case (Suc n)
  have "(\<forall>m < Suc n. p (s ! (i + m))) \<longleftrightarrow> p (s ! i) \<and> (\<forall>m < n. p (s ! (Suc i + m)))"
    by (simp add: All_less_Suc2)
  then show ?case
    by (auto simp: Suc.IH rx_match_cat_iff rx_match_cls_iff)
qed

lemma pii_shape_chr: "i < length s \<Longrightarrow> s ! i \<in> set ''@+()'' \<or> is_space (s ! i) \<Longrightarrow> pii_shape s"
  unfolding pii_shape_def list_ex_iff using nth_mem by blast

lemma has_direct_pii_shape:
  assumes "has_direct_pii s"
  shows "pii_shape s"
proof -
  have a4: "pii_shape s" if m: "rx_match (rx_seq [Boundary, rx_chr (CHR ''1''), Cls (in_range (CHR ''3'') (CHR ''9'')),
      rx_times 9 (Cls is_digit), Boundary]) s i j" for i j
  proof -
    have h: "Suc i < length s" "s ! i = CHR ''1''" "in_range (CHR ''3'') (CHR ''9'') (s ! Suc i)"
      "Suc (Suc i) + 9 \<le> length s" "\<forall>m < 9. is_digit (s ! (Suc (Suc i) + m))"
      using m by (auto simp: rx_match_cat_iff rx_match_cls_iff rx_match_boundary_iff rx_chr_def
          rx_match_times_cls)
    have "is_digit (s ! (i + m))" if "m < 11" for m
    proof (cases m)
      case 0
      then show ?thesis using h(2) by (simp add: is_digit_def in_range_def)
    next
      case (Suc m1)
      then show ?thesis
        using h(3,5) that by (cases m1) (auto simp: is_digit_def in_range_def)
    qed
    then have "digit_run 11 s" using h(4) by (auto simp: digit_run_iff intro: exI [of _ i])
    then show ?thesis by (simp add: pii_shape_def)
  qed
  have "pii_shape s" if "rx_match (rx_seq [Boundary, rx_times 3 (Cls is_digit), Cls (\<lambda>c. is_space c \<or> c \<in> set ''()''), q,
      q2, q3, Boundary]) s i j" for i j q q2 q3
    using that by (auto simp: rx_match_cat_iff rx_match_cls_iff intro: pii_shape_chr)
  moreover have "pii_shape s" if "rx_match (rx_seq (r # rx_chr (CHR ''@'') # rs)) s i j" for r rs i j
    using that by (auto simp: rx_match_cat_iff rx_match_cls_iff rx_chr_def intro: pii_shape_chr)
  moreover have "pii_shape s" if "rx_match (rx_seq (rx_chr (CHR ''+'') # rs)) s i j" for rs i j
    using that by (auto simp: rx_match_cat_iff rx_match_cls_iff rx_chr_def intro: pii_shape_chr)
  ultimately show ?thesis
    using assms a4
    unfolding has_direct_pii_def rx_search_iff direct_pii_pattern_def Let_def rx_any_of.simps
      rx_match_alt_iff
    by (elim exE disjE) blast+
qed

definition is_reference :: "string \<Rightarrow> bool" where
  "is_reference s = shape_match is_alnum (\<lambda>c. is_alnum c \<or> c \<in> set ''._:/-'') 0 255 s"

definition require_ref :: "string \<Rightarrow> string \<Rightarrow> unit agent_result" where
  "require_ref v name =
     (if \<not> is_reference v then Inl (ValidationError (name @ '' must be an opaque reference''))
      else if has_direct_pii v then Inl (ValidationError (name @ '' cannot contain direct PII''))
      else Inr ())"

definition require_unique_refs :: "string list \<Rightarrow> string \<Rightarrow> bool \<Rightarrow> unit agent_result" where
  "require_unique_refs values name required =
     (if (required \<and> values = []) \<or> length values \<noteq> card (set values)
      then Inl (ValidationError (name @ '' must be '' @ (if required then ''non-empty and '' else [])
             @ ''unique''))
      else check_all (\<lambda>v. require_ref v name) values)"

definition pii_keys :: "string list" where
  "pii_keys = [''raw_context'', ''message_body'', ''message_text'', ''email'', ''phone'', ''telephone'',
     ''prompt'', ''response'', ''tokenized_context'']"

text \<open>\<open>re.sub(r"[^a-z0-9]+", "_", text).strip("_")\<close>\<close>

definition key_words :: "string \<Rightarrow> string" where
  "key_words s = strip_by (\<lambda>c. c = CHR ''_'') (sub_runs (\<lambda>c. \<not> (is_lower c \<or> is_digit c)) ''_'' s)"

definition contains_direct_pii :: "json \<Rightarrow> bool" where
  "contains_direct_pii v = json_any (\<lambda>k. key_words (lower k) \<in> set pii_keys) has_direct_pii v"

section \<open>The closed task payload\<close>

record fact_version_ref =
  fr_fact_id :: string
  fr_fact_version :: int

definition fact_version_ref_new :: "string \<Rightarrow> json \<Rightarrow> fact_version_ref agent_result" where
  "fact_version_ref_new fact_id version =
     (case require_ref fact_id ''fact_id'' of
        Inl e \<Rightarrow> Inl e
      | Inr _ \<Rightarrow>
          if \<not> is_strict_int version \<or> int_of_json version < 1
          then Inl (ValidationError ''fact_version must be a positive integer'')
          else Inr \<lparr>fr_fact_id = fact_id, fr_fact_version = int_of_json version\<rparr>)"

record task_payload =
  pl_schema_version :: string
  pl_evidence_refs :: "string list"
  pl_fact_version_refs :: "fact_version_ref list"
  pl_subject_revision :: int
  pl_requested_by :: string
  pl_decision_ref :: string
  pl_expected_action_type :: string
  pl_candidate_refs :: "string list"

definition payload_schema :: string where
  "payload_schema = ''local-pilot-agent-task-v1''"

text \<open>The checks of \<open>__post_init__\<close> on a payload whose revision is an integer.\<close>

definition task_payload_post_init :: "task_payload \<Rightarrow> task_payload agent_result" where
  "task_payload_post_init p =
     (if pl_schema_version p \<noteq> payload_schema
      then Inl (ValidationError ''unsupported local-pilot task payload schema'')
      else if pl_subject_revision p < 0
      then Inl (ValidationError ''subject revision must be a non-negative integer'')
      else case require_unique_refs (pl_evidence_refs p) ''evidence_refs'' True of
        Inl e \<Rightarrow> Inl e
      | Inr _ \<Rightarrow>
          if pl_fact_version_refs p = [] \<or>
             length (pl_fact_version_refs p) \<noteq> card (set (pl_fact_version_refs p))
          then Inl (ValidationError ''fact_version_refs must be non-empty and unique'')
          else case require_ref (pl_requested_by p) ''requested_by'' of
            Inl e \<Rightarrow> Inl e
          | Inr _ \<Rightarrow> (case require_ref (pl_decision_ref p) ''decision_ref'' of
              Inl e \<Rightarrow> Inl e
            | Inr _ \<Rightarrow> (case require_ref (pl_expected_action_type p) ''expected_action_type'' of
                Inl e \<Rightarrow> Inl e
              | Inr _ \<Rightarrow> (case require_unique_refs (pl_candidate_refs p) ''candidate_refs'' False of
                  Inl e \<Rightarrow> Inl e
                | Inr _ \<Rightarrow> Inr p))))"

definition payload_root_keys :: "string list" where
  "payload_root_keys = [''schema_version'', ''evidence_refs'', ''fact_version_refs'', ''subject'', ''request'']"

definition payload_request_keys :: "string list" where
  "payload_request_keys = [''requested_by'', ''decision_ref'', ''expected_action_type'', ''candidate_refs'']"

fun parse_fact_ref :: "json \<Rightarrow> fact_version_ref agent_result" where
  "parse_fact_ref (JObj item) =
     (if \<not> keys_are item [''fact_id'', ''fact_version'']
         \<or> \<not> is_str (jget item ''fact_id'') \<or> \<not> is_int_or_bool (jget item ''fact_version'')
      then Inl (ValidationError ''fact version metadata is invalid'')
      else fact_version_ref_new (str_of_json (jget item ''fact_id'')) (jget item ''fact_version''))"
| "parse_fact_ref _ = Inl (ValidationError ''fact version metadata is invalid'')"

text \<open>
  \<open>str(v)\<close> of the schema version. The text of a value that is not a string never equals the only
  accepted version, so any such text stands for it.
\<close>

fun schema_text :: "json \<Rightarrow> string" where
  "schema_text (JStr s) = s"
| "schema_text _ = ''<object>''"

definition str_list :: "json \<Rightarrow> bool" where
  "str_list v = (is_list v \<and> list_all is_str (items_of_json v))"

definition task_payload_from_mapping :: "fields \<Rightarrow> task_payload agent_result" where
  "task_payload_from_mapping mapping =
     (let detached = fields_of_json (thaw_json (freeze_json (JObj mapping)));
          subject = jget detached ''subject'';
          request = jget detached ''request'';
          fact_refs = jget detached ''fact_version_refs'';
          evidence_refs = jget detached ''evidence_refs'';
          req = fields_of_json request;
          revision = jget (fields_of_json subject) ''revision''
      in if \<not> keys_are detached payload_root_keys
         then Inl (ValidationError ''local-pilot task payload must use the closed refs-only schema'')
         else if contains_direct_pii (JObj detached)
         then Inl (ValidationError ''local-pilot task payload cannot contain direct PII'')
         else if \<not> is_obj subject \<or> \<not> keys_are (fields_of_json subject) [''revision'']
         then Inl (ValidationError ''subject metadata must contain only revision'')
         else if \<not> is_obj request \<or> \<not> keys_are req payload_request_keys
         then Inl (ValidationError ''request metadata must use the closed refs-only schema'')
         else if \<not> str_list evidence_refs
         then Inl (ValidationError ''evidence_refs must be a list of references'')
         else if \<not> is_list fact_refs
         then Inl (ValidationError ''fact_version_refs must be a list'')
         else case map_raise parse_fact_ref (items_of_json fact_refs) of
           Inl e \<Rightarrow> Inl e
         | Inr parsed \<Rightarrow>
             if \<not> str_list (jget req ''candidate_refs'')
             then Inl (ValidationError ''candidate_refs must be a list of references'')
             else if \<not> (is_str (jget req ''requested_by'') \<and> is_str (jget req ''decision_ref'')
                       \<and> is_str (jget req ''expected_action_type'')) \<or> \<not> is_int_or_bool revision
             then Inl (ValidationError ''local-pilot request metadata is invalid'')
             else if schema_text (jget detached ''schema_version'') = payload_schema \<and>
                     \<not> is_strict_int revision
             then Inl (ValidationError ''subject revision must be a non-negative integer'')
             else task_payload_post_init
               \<lparr>pl_schema_version = schema_text (jget detached ''schema_version''),
                pl_evidence_refs = map str_of_json (items_of_json evidence_refs),
                pl_fact_version_refs = parsed,
                pl_subject_revision = int_of_json revision,
                pl_requested_by = str_of_json (jget req ''requested_by''),
                pl_decision_ref = str_of_json (jget req ''decision_ref''),
                pl_expected_action_type = str_of_json (jget req ''expected_action_type''),
                pl_candidate_refs = map str_of_json (items_of_json (jget req ''candidate_refs''))\<rparr>)"

definition fact_ref_mapping :: "fact_version_ref \<Rightarrow> json" where
  "fact_ref_mapping f =
     JObj [(''fact_id'', JStr (fr_fact_id f)), (''fact_version'', JInt (fr_fact_version f))]"

definition task_payload_to_mapping :: "task_payload \<Rightarrow> fields" where
  "task_payload_to_mapping p =
     [(''schema_version'', JStr (pl_schema_version p)),
      (''evidence_refs'', JList (map JStr (pl_evidence_refs p))),
      (''fact_version_refs'', JList (map fact_ref_mapping (pl_fact_version_refs p))),
      (''subject'', JObj [(''revision'', JInt (pl_subject_revision p))]),
      (''request'', JObj
         [(''requested_by'', JStr (pl_requested_by p)),
          (''decision_ref'', JStr (pl_decision_ref p)),
          (''expected_action_type'', JStr (pl_expected_action_type p)),
          (''candidate_refs'', JList (map JStr (pl_candidate_refs p)))])]"

section \<open>Tasks\<close>

datatype task_status = QUEUED | LEASED | RUNNING | RECHECK | SUCCEEDED | FAILED | DEAD_LETTER | CANCELLED

datatype failure_classification =
  BUDGET_EXHAUSTED | POLICY_DENIED | TOOL_FAILURE | INVALID_OUTPUT | DEPENDENCY | INTERNAL

record task_submission =
  sub_task_id :: string
  sub_site_id :: string
  sub_processing_purpose :: string
  sub_idempotency_key :: string
  sub_agent_type :: string
  sub_subject_type :: string
  sub_subject_ref :: string
  sub_due_at :: datetime
  sub_priority :: int
  sub_max_attempts :: int
  sub_causation_id :: string
  sub_correlation_id :: string
  sub_payload :: fields
  sub_parent_task_id :: "string option"
  sub_payload_digest :: string

definition opt_text :: "string option \<Rightarrow> json" where
  "opt_text x = (case x of None \<Rightarrow> JNull | Some s \<Rightarrow> JStr s)"

definition idempotency_document :: "task_submission \<Rightarrow> fields" where
  "idempotency_document s =
     [(''digest_version'', JStr ''gate4-agent-task-v1''),
      (''site_id'', JStr (sub_site_id s)),
      (''processing_purpose'', JStr (sub_processing_purpose s)),
      (''idempotency_key'', JStr (sub_idempotency_key s)),
      (''agent_type'', JStr (sub_agent_type s)),
      (''subject_type'', JStr (sub_subject_type s)),
      (''subject_ref'', JStr (sub_subject_ref s)),
      (''due_at'', JStr (isoformat_z (instant_of (sub_due_at s)))),
      (''priority'', JInt (sub_priority s)),
      (''max_attempts'', JInt (sub_max_attempts s)),
      (''causation_id'', JStr (sub_causation_id s)),
      (''correlation_id'', JStr (sub_correlation_id s)),
      (''parent_task_id'', opt_text (sub_parent_task_id s)),
      (''payload'', JObj (sub_payload s))]"

definition submission_required :: "task_submission \<Rightarrow> (string \<times> string) list" where
  "submission_required s =
     [(''task_id'', sub_task_id s), (''site_id'', sub_site_id s),
      (''processing_purpose'', sub_processing_purpose s),
      (''idempotency_key'', sub_idempotency_key s), (''agent_type'', sub_agent_type s),
      (''subject_type'', sub_subject_type s), (''subject_ref'', sub_subject_ref s),
      (''causation_id'', sub_causation_id s), (''correlation_id'', sub_correlation_id s)]"

definition submission_post_init :: "task_submission \<Rightarrow> task_submission agent_result" where
  "submission_post_init s =
     (case check_all (\<lambda>(name, v). if v = [] then Inl (ValidationError (name @ '' is required'')) else Inr ())
            (submission_required s) of
        Inl e \<Rightarrow> Inl e
      | Inr _ \<Rightarrow>
          if \<not> is_aware (sub_due_at s)
          then Inl (ValidationError ''due_at must be timezone-aware'')
          else if \<not> (0 \<le> sub_priority s \<and> sub_priority s \<le> 100)
          then Inl (ValidationError ''priority must be between 0 and 100'')
          else if \<not> (1 \<le> sub_max_attempts s \<and> sub_max_attempts s \<le> 100)
          then Inl (ValidationError ''max_attempts must be between 1 and 100'')
          else if sub_parent_task_id s = Some (sub_task_id s)
          then Inl (ValidationError ''parent_task_id cannot reference the task itself'')
          else Inr (s\<lparr>sub_payload := freeze_fields (sub_payload s),
                     sub_payload_digest := canonical_payload_digest (idempotency_document s)\<rparr>))"

record agent_task =
  tk_task_id :: string
  tk_site_id :: string
  tk_processing_purpose :: string
  tk_idempotency_key :: string
  tk_payload_digest :: string
  tk_agent_type :: string
  tk_subject_type :: string
  tk_subject_ref :: string
  tk_status :: task_status
  tk_due_at :: instant
  tk_priority :: int
  tk_attempt :: int
  tk_max_attempts :: int
  tk_causation_id :: string
  tk_correlation_id :: string
  tk_parent_task_id :: "string option"
  tk_output_artifact_refs :: "string list"
  tk_failure_classification :: "failure_classification option"
  tk_lease_owner :: "string option"
  tk_lease_expires_at :: "instant option"
  tk_created_at :: instant
  tk_updated_at :: instant

record agent_task_claim =
  cl_metadata :: agent_task
  cl_payload :: task_payload

record timeline_event =
  ev_task_id :: string
  ev_site_id :: string
  ev_sequence :: int
  ev_event_type :: string
  ev_occurred_at :: instant
  ev_actor_type :: string
  ev_actor_ref :: "string option"
  ev_causation_id :: string
  ev_correlation_id :: string

record dead_letter =
  dl_task_id :: string
  dl_site_id :: string
  dl_attempts :: int
  dl_failure_classification :: failure_classification
  dl_reason_code :: string
  dl_dead_lettered_at :: instant
  dl_causation_id :: string
  dl_correlation_id :: string

section \<open>Payload round trip\<close>

definition payload_texts :: "task_payload \<Rightarrow> string list" where
  "payload_texts p = pl_evidence_refs p @ map fr_fact_id (pl_fact_version_refs p) @
     [pl_requested_by p, pl_decision_ref p, pl_expected_action_type p] @ pl_candidate_refs p"

definition clean_ref :: "string \<Rightarrow> bool" where
  "clean_ref s = (is_reference s \<and> \<not> has_direct_pii s)"

lemma require_ref_iff [simp]: "require_ref s n = Inr u \<longleftrightarrow> clean_ref s"
  by (simp add: require_ref_def clean_ref_def)

lemma require_unique_refs_iff:
  "require_unique_refs xs n r = Inr u \<longleftrightarrow> (r \<longrightarrow> xs \<noteq> []) \<and> distinct xs \<and> (\<forall>x \<in> set xs. clean_ref x)"
  by (auto simp: require_unique_refs_def check_all_Inr_iff)

lemma fact_version_ref_new_iff:
  "fact_version_ref_new i v = Inr f \<longleftrightarrow>
     clean_ref i \<and> (\<exists>n. v = JInt n \<and> 1 \<le> n \<and> f = \<lparr>fr_fact_id = i, fr_fact_version = n\<rparr>)"
  by (cases v) (auto simp: fact_version_ref_new_def sum_case_Inr_iff)

definition payload_valid :: "task_payload \<Rightarrow> bool" where
  "payload_valid p =
     (pl_schema_version p = payload_schema \<and> 0 \<le> pl_subject_revision p \<and>
      pl_evidence_refs p \<noteq> [] \<and> distinct (pl_evidence_refs p) \<and>
      pl_fact_version_refs p \<noteq> [] \<and> distinct (pl_fact_version_refs p) \<and>
      list_all (\<lambda>f. 1 \<le> fr_fact_version f) (pl_fact_version_refs p) \<and>
      distinct (pl_candidate_refs p) \<and> list_all clean_ref (payload_texts p))"

lemma task_payload_post_init_iff:
  "task_payload_post_init p = Inr q \<longleftrightarrow> q = p \<and>
     pl_schema_version p = payload_schema \<and> 0 \<le> pl_subject_revision p \<and>
     pl_evidence_refs p \<noteq> [] \<and> distinct (pl_evidence_refs p) \<and>
     pl_fact_version_refs p \<noteq> [] \<and> distinct (pl_fact_version_refs p) \<and>
     distinct (pl_candidate_refs p) \<and>
     (\<forall>x \<in> set (pl_evidence_refs p) \<union> set (pl_candidate_refs p). clean_ref x) \<and>
     clean_ref (pl_requested_by p) \<and> clean_ref (pl_decision_ref p) \<and>
     clean_ref (pl_expected_action_type p)"
  by (auto simp: task_payload_post_init_def sum_case_Inr_iff require_unique_refs_iff)

lemma parse_fact_ref_valid:
  "parse_fact_ref v = Inr f \<Longrightarrow> clean_ref (fr_fact_id f) \<and> 1 \<le> fr_fact_version f"
  by (cases v) (auto simp: fact_version_ref_new_iff split: if_splits)

lemma from_mapping_valid:
  assumes "task_payload_from_mapping m = Inr p"
  shows "payload_valid p"
proof -
  have post: "task_payload_post_init p = Inr p"
    and "\<exists>vs. map_raise parse_fact_ref vs = Inr (pl_fact_version_refs p)"
    using assms
    by (auto simp: task_payload_from_mapping_def Let_def sum_case_Inr_iff task_payload_post_init_iff
        split: if_splits)
  then have "\<forall>f \<in> set (pl_fact_version_refs p). clean_ref (fr_fact_id f) \<and> 1 \<le> fr_fact_version f"
    by (auto simp: map_raise_Inr_iff list_all2_conv_all_nth in_set_conv_nth dest!: parse_fact_ref_valid)
  with post show ?thesis
    by (auto simp: task_payload_post_init_iff payload_valid_def payload_texts_def list_all_iff)
qed

lemma parse_fact_ref_mapping:
  "clean_ref (fr_fact_id f) \<Longrightarrow> 1 \<le> fr_fact_version f \<Longrightarrow> parse_fact_ref (fact_ref_mapping f) = Inr f"
  by (auto simp: fact_ref_mapping_def keys_are_def fact_version_ref_new_iff)

lemma map_raise_fact_refs:
  "\<forall>f \<in> set fs. clean_ref (fr_fact_id f) \<and> 1 \<le> fr_fact_version f \<Longrightarrow>
   map_raise parse_fact_ref (map fact_ref_mapping fs) = Inr fs"
  by (induction fs) (auto simp: parse_fact_ref_mapping)

lemma map_thaw_freeze_items:
  "\<forall>v \<in> set vs. no_tuples v \<Longrightarrow> thaw_items (freeze_items vs) = vs"
  by (induction vs) (auto simp: thaw_freeze_id)

lemma payload_schema_clean: "\<not> has_direct_pii payload_schema"
  using has_direct_pii_needs [of payload_schema] by (auto simp: payload_schema_def is_digit_def in_range_def)

lemma payload_keys_clean:
  "\<forall>k \<in> set (payload_root_keys @ payload_request_keys @ [''revision'', ''fact_id'', ''fact_version'']).
     key_words (lower k) \<notin> set pii_keys"
  by code_simp

lemma json_any_to_mapping:
  "json_any kp sp (JObj (task_payload_to_mapping p)) \<Longrightarrow>
     (\<exists>k \<in> set (payload_root_keys @ payload_request_keys @ [''revision'', ''fact_id'', ''fact_version'']). kp k)
     \<or> sp (pl_schema_version p) \<or> (\<exists>s \<in> set (payload_texts p). sp s)"
  by (auto simp: task_payload_to_mapping_def json_any_items_iff fact_ref_mapping_def
      payload_texts_def payload_root_keys_def payload_request_keys_def)

lemma to_mapping_no_pii:
  assumes "payload_valid p"
  shows "\<not> contains_direct_pii (JObj (task_payload_to_mapping p))"
proof -
  have "\<forall>s \<in> set (payload_texts p). \<not> has_direct_pii s"
    using assms by (auto simp: payload_valid_def list_all_iff clean_ref_def)
  moreover have "\<not> has_direct_pii (pl_schema_version p)"
    using assms payload_schema_clean by (simp add: payload_valid_def)
  ultimately show ?thesis
    unfolding contains_direct_pii_def using payload_keys_clean json_any_to_mapping by blast
qed

lemma thaw_freeze_to_mapping:
  "thaw_fields (freeze_fields (task_payload_to_mapping p)) = task_payload_to_mapping p"
  by (simp add: task_payload_to_mapping_def map_thaw_freeze_items fact_ref_mapping_def)

lemma from_to_mapping:
  assumes "payload_valid p"
  shows "task_payload_from_mapping (task_payload_to_mapping p) = Inr p"
proof -
  let ?m = "task_payload_to_mapping p"
  have facts: "map_raise parse_fact_ref (map fact_ref_mapping (pl_fact_version_refs p))
      = Inr (pl_fact_version_refs p)"
    using assms by (intro map_raise_fact_refs) (auto simp: payload_valid_def payload_texts_def list_all_iff)
  have keys: "keys_are ?m payload_root_keys"
    by (auto simp: keys_are_def task_payload_to_mapping_def payload_root_keys_def)
  have get: "jget ?m ''subject'' = JObj [(''revision'', JInt (pl_subject_revision p))]"
    "jget ?m ''fact_version_refs'' = JList (map fact_ref_mapping (pl_fact_version_refs p))"
    "jget ?m ''evidence_refs'' = JList (map JStr (pl_evidence_refs p))"
    "jget ?m ''schema_version'' = JStr (pl_schema_version p)"
    "jget ?m ''request'' = JObj
         [(''requested_by'', JStr (pl_requested_by p)),
          (''decision_ref'', JStr (pl_decision_ref p)),
          (''expected_action_type'', JStr (pl_expected_action_type p)),
          (''candidate_refs'', JList (map JStr (pl_candidate_refs p)))]"
    by (simp_all add: task_payload_to_mapping_def)
  have strs: "str_list (JList (map JStr xs))" "map (str_of_json \<circ> JStr) xs = xs" for xs
    by (induction xs) (auto simp: str_list_def)
  have rest: "keys_are [(''revision'', JInt n)] [''revision'']"
    "keys_are [(''requested_by'', a), (''decision_ref'', b), (''expected_action_type'', c),
       (''candidate_refs'', d)] payload_request_keys" for n a b c d
    by (auto simp: keys_are_def payload_request_keys_def)
  have post: "task_payload_post_init p = Inr p"
    using assms by (auto simp: task_payload_post_init_iff payload_valid_def payload_texts_def list_all_iff)
  show ?thesis
    using to_mapping_no_pii [OF assms] keys facts post
    by (simp add: task_payload_from_mapping_def Let_def thaw_freeze_to_mapping get rest strs)
      (metis task_payload.surjective unit.exhaust)
qed

text \<open>
  An accepted task payload carries references only (every text in it is an opaque reference
  without direct personal data) and survives serialization: reading back its mapping gives the same
  payload.
\<close>

theorem task_payload_round_trip:
  assumes "task_payload_from_mapping m = Inr p"
  shows "task_payload_from_mapping (task_payload_to_mapping p) = Inr p
       \<and> (\<forall>s \<in> set (payload_texts p). is_reference s \<and> \<not> has_direct_pii s)"
  using from_to_mapping from_mapping_valid [OF assms]
  by (auto simp: payload_valid_def list_all_iff clean_ref_def)

definition example_payload :: task_payload where
  "example_payload = \<lparr>pl_schema_version = payload_schema, pl_evidence_refs = [''evidence:a'', ''evidence:b''],
     pl_fact_version_refs = [\<lparr>fr_fact_id = ''fact:f'', fr_fact_version = 3\<rparr>], pl_subject_revision = 2,
     pl_requested_by = ''user:u'', pl_decision_ref = ''decision:d'',
     pl_expected_action_type = ''internal.work_item.propose'', pl_candidate_refs = []\<rparr>"

lemma example_payload_valid: "payload_valid example_payload"
proof -
  have "list_all (\<lambda>s. is_reference s \<and> \<not> pii_hint s) (payload_texts example_payload)"
    by code_simp
  then have "list_all clean_ref (payload_texts example_payload)"
    using has_direct_pii_needs by (auto simp: list_all_iff clean_ref_def)
  then show ?thesis
    by (simp add: payload_valid_def example_payload_def)
qed

theorem task_payload_round_trip_witness:
  "task_payload_from_mapping (task_payload_to_mapping example_payload) = Inr example_payload
   \<and> \<not> has_direct_pii ''evidence:a''"
  using task_payload_round_trip [OF from_to_mapping [OF example_payload_valid]]
  by (simp add: example_payload_def payload_texts_def)

text \<open>
  The idempotency digest of a submission depends on what is requested and not on how it is
  spelled: resubmitting under a new task identifier, or with the top-level keys of the payload in
  another order, gives the same digest.
\<close>

theorem submission_digest_is_canonical:
  assumes "submission_post_init s = Inr t"
    and "submission_post_init (s\<lparr>sub_task_id := i, sub_payload := pl\<rparr>) = Inr t'"
    and "distinct (map fst (sub_payload s))" and "distinct (map fst pl)" and "set pl = set (sub_payload s)"
  shows "sub_payload_digest t' = sub_payload_digest t"
proof -
  have d: "dumps (JObj pl) = dumps (JObj (sub_payload s))"
    using assms(3-5) by (intro dumps_JObj_perm) auto
  have "dumps_fields (idempotency_document (s\<lparr>sub_task_id := i, sub_payload := pl\<rparr>))
      = dumps_fields (idempotency_document s)"
    using d by (simp add: idempotency_document_def del: dumps.simps(8))
  then have "canonical_payload_digest (idempotency_document (s\<lparr>sub_task_id := i, sub_payload := pl\<rparr>))
      = canonical_payload_digest (idempotency_document s)"
    by (simp add: canonical_payload_digest_def json_digest_def)
  then show ?thesis
    using assms(1,2) by (auto simp: submission_post_init_def sum_case_Inr_iff split: if_splits)
qed

definition example_submission :: task_submission where
  "example_submission = \<lparr>sub_task_id = ''t1'', sub_site_id = ''s'', sub_processing_purpose = ''p'',
     sub_idempotency_key = ''k'', sub_agent_type = ''sales'', sub_subject_type = ''CRM Deal'',
     sub_subject_ref = ''d'', sub_due_at = Aware 0, sub_priority = 10, sub_max_attempts = 2,
     sub_causation_id = ''c'', sub_correlation_id = ''x'',
     sub_payload = [(''a'', JInt 1), (''b'', JNull)], sub_parent_task_id = None,
     sub_payload_digest = []\<rparr>"

theorem submission_digest_is_canonical_witness:
  "\<exists>t t'. submission_post_init example_submission = Inr t
     \<and> submission_post_init (example_submission\<lparr>sub_task_id := ''t2'', sub_payload := [(''b'', JNull), (''a'', JInt 1)]\<rparr>) = Inr t'
     \<and> sub_payload_digest t' = sub_payload_digest t"
proof -
  obtain t t' where t: "submission_post_init example_submission = Inr t"
    "submission_post_init (example_submission\<lparr>sub_task_id := ''t2'', sub_payload := [(''b'', JNull), (''a'', JInt 1)]\<rparr>) = Inr t'"
    by (simp add: submission_post_init_def submission_required_def example_submission_def)
  from submission_digest_is_canonical [OF t] t show ?thesis
    by (auto simp: example_submission_def)
qed

end
