(* ===== verification/Py_Decimal.thy ===== *)
theory Py_Decimal
  imports GBOS_Prelude
begin

text \<open>
  Numbers of the standard library: \<open>decimal.Decimal\<close> under its default context (28 significant
  digits, half-even) and the binary \<open>float\<close> with its shortest \<open>repr\<close>. Only the operations the
  sources use are modelled; exponents that reach the limits of the context (\<open>Emin\<close>, \<open>Emax\<close>) are
  outside the model.
\<close>

section \<open>Numbers\<close>

text \<open>\<open>decimal.Decimal\<close>: sign, coefficient and exponent, or a special value.\<close>

datatype decimal = Dec bool nat int | DecInf bool | DecNaN

fun decimal_text :: "decimal \<Rightarrow> string" where
  "decimal_text (DecInf neg) = (if neg then ''-Infinity'' else ''Infinity'')"
| "decimal_text DecNaN = ''NaN''"
| "decimal_text (Dec neg n e) =
     (let ds = nat_digits n; adj = e + int (length ds) - 1;
          body = (if e \<le> 0 \<and> - 6 \<le> adj
                  then if e = 0 then ds
                       else let k = int (length ds) + e in
                            if 0 < k then take (nat k) ds @ ''.'' @ drop (nat k) ds
                            else ''0.'' @ replicate (nat (- k)) (CHR ''0'') @ ds
                  else (case ds of
                          [] \<Rightarrow> []
                        | d # rest \<Rightarrow> d # (if rest = [] then [] else ''.'' @ rest)) @ ''E''
                       @ (if adj < 0 then [] else ''+'') @ int_text adj)
      in (if neg then ''-'' else []) @ body)"

fun decimal_negative :: "decimal \<Rightarrow> bool" where
  "decimal_negative (Dec neg n e) = (neg \<and> 0 < n)"
| "decimal_negative (DecInf neg) = neg"
| "decimal_negative DecNaN = False"

fun decimal_finite :: "decimal \<Rightarrow> bool" where
  "decimal_finite (Dec _ _ _) = True"
| "decimal_finite _ = False"

text \<open>Construction from an integer and the exact value over a common exponent.\<close>

definition dec_of_int :: "int \<Rightarrow> decimal" where
  "dec_of_int i = Dec (i < 0) (nat \<bar>i\<bar>) 0"

definition dec_scaled :: "int \<Rightarrow> bool \<Rightarrow> nat \<Rightarrow> int \<Rightarrow> int" where
  "dec_scaled m neg n e = (if neg then - int n else int n) * 10 ^ nat (e - m)"

text \<open>
  Comparisons are exact. An ordering comparison with a NaN raises in Python; the sources compare
  only values that were checked before, so here it is just false.
\<close>

fun dec_less :: "decimal \<Rightarrow> decimal \<Rightarrow> bool" where
  "dec_less (Dec a n e) (Dec b k f) =
     (let m = min e f in dec_scaled m a n e < dec_scaled m b k f)"
| "dec_less (DecInf a) (DecInf b) = (a \<and> \<not> b)"
| "dec_less (DecInf a) (Dec _ _ _) = a"
| "dec_less (Dec _ _ _) (DecInf b) = (\<not> b)"
| "dec_less _ _ = False"

fun dec_eq :: "decimal \<Rightarrow> decimal \<Rightarrow> bool" where
  "dec_eq (Dec a n e) (Dec b k f) =
     (let m = min e f in dec_scaled m a n e = dec_scaled m b k f)"
| "dec_eq (DecInf a) (DecInf b) = (a = b)"
| "dec_eq _ _ = False"

definition dec_le :: "decimal \<Rightarrow> decimal \<Rightarrow> bool" where
  "dec_le x y = (dec_less x y \<or> dec_eq x y)"

text \<open>Half-even division of a coefficient.\<close>

definition div_half_even :: "nat \<Rightarrow> nat \<Rightarrow> nat" where
  "div_half_even n d =
     (let q = n div d; r = n mod d
      in if 2 * r > d \<or> 2 * r = d \<and> odd q then Suc q else q)"

definition dec_prec :: nat where
  "dec_prec = 28"

text \<open>Rounding to the context precision.\<close>

fun dec_fix :: "decimal \<Rightarrow> decimal" where
  "dec_fix (Dec neg n e) =
     (let ds = length (nat_digits n) in
      if ds \<le> dec_prec then Dec neg n e
      else let k = ds - dec_prec; c = div_half_even n (10 ^ k) in
           if length (nat_digits c) > dec_prec then Dec neg (c div 10) (e + int k + 1)
           else Dec neg c (e + int k))"
| "dec_fix d = d"

fun dec_abs :: "decimal \<Rightarrow> decimal" where
  "dec_abs (Dec _ n e) = dec_fix (Dec False n e)"
| "dec_abs (DecInf _) = DecInf False"
| "dec_abs DecNaN = DecNaN"

text \<open>\<open>x + y\<close> of finite values: the exact sum, rounded; an exact zero is negative only when both are.\<close>

fun dec_add :: "decimal \<Rightarrow> decimal \<Rightarrow> decimal" where
  "dec_add (Dec a n e) (Dec b k f) =
     (let m = min e f; v = dec_scaled m a n e + dec_scaled m b k f
      in dec_fix (Dec (if v = 0 then a \<and> b else v < 0) (nat \<bar>v\<bar>) m))"
| "dec_add x y = DecNaN"

text \<open>
  \<open>Decimal(a) / Decimal(b)\<close> of integers, \<open>b\<close> positive and \<open>a\<close> not negative: enough digits for one
  rounding with a sticky last digit, then the trailing zeros of an exact quotient are dropped.
\<close>

fun strip_zeros :: "nat \<Rightarrow> nat \<Rightarrow> int \<Rightarrow> nat \<times> int" where
  "strip_zeros 0 c e = (c, e)"
| "strip_zeros (Suc fuel) c e =
     (if e < 0 \<and> c mod 10 = 0 then strip_zeros fuel (c div 10) (e + 1) else (c, e))"

lemma strip_zeros_numeral:
  "strip_zeros (numeral v) c e =
     (if e < 0 \<and> c mod 10 = 0 then strip_zeros (pred_numeral v) (c div 10) (e + 1) else (c, e))"
  using strip_zeros.simps(2) [of "pred_numeral v" c e] by (simp only: numeral_eq_Suc [symmetric])

definition dec_div_counts :: "nat \<Rightarrow> nat \<Rightarrow> decimal" where
  "dec_div_counts a b =
     (if a = 0 then Dec False 0 0
      else let shift = int (length (nat_digits b)) - int (length (nat_digits a)) + int dec_prec + 1;
               num = (if 0 \<le> shift then a * 10 ^ nat shift else a);
               den = (if 0 \<le> shift then b else b * 10 ^ nat (- shift));
               c = num div den
           in if num mod den \<noteq> 0
              then dec_fix (Dec False (if c mod 5 = 0 then Suc c else c) (- shift))
              else let (c', e') = strip_zeros (nat shift) c (- shift) in dec_fix (Dec False c' e'))"

section \<open>Reading a number\<close>

definition read_sign :: "string \<Rightarrow> bool \<times> string" where
  "read_sign s =
     (case s of
        [] \<Rightarrow> (False, [])
      | c # s' \<Rightarrow> (if c = CHR ''-'' then (True, s') else if c = CHR ''+'' then (False, s') else (False, s)))"

text \<open>The optional exponent of a numeric string, \<open>None\<close> when what follows is not one.\<close>

definition read_exponent :: "string \<Rightarrow> int option" where
  "read_exponent s =
     (case s of
        [] \<Rightarrow> Some 0
      | c # s' \<Rightarrow>
          (if char_lower c \<noteq> CHR ''e'' then None
           else let (neg, ds) = read_sign s' in
                if ds = [] \<or> \<not> list_all is_digit ds then None
                else Some (if neg then - int (nat_value ds) else int (nat_value ds))))"

text \<open>
  \<open>Decimal(text)\<close>: underscores are ignored, outer whitespace too; \<open>None\<close> is \<open>InvalidOperation\<close>.
\<close>

definition dec_of_text :: "string \<Rightarrow> decimal option" where
  "dec_of_text text =
     (let (neg, s) = read_sign (filter (\<lambda>c. c \<noteq> CHR ''_'') (strip text)); word = lower s in
      if word = ''inf'' \<or> word = ''infinity'' then Some (DecInf neg)
      else if (starts_with word ''nan'' \<and> list_all is_digit (drop 3 word)) \<or>
              (starts_with word ''snan'' \<and> list_all is_digit (drop 4 word)) then Some DecNaN
      else let ip = takeWhile is_digit s; rest = drop (length ip) s;
               dot = (rest \<noteq> [] \<and> hd rest = CHR ''.'');
               fp = (if dot then takeWhile is_digit (tl rest) else []);
               rest' = (if dot then drop (length fp) (tl rest) else rest)
           in if ip @ fp = [] then None
              else (case read_exponent rest' of
                      None \<Rightarrow> None
                    | Some ex \<Rightarrow> Some (Dec neg (nat_value (ip @ fp)) (ex - int (length fp)))))"

section \<open>Binary floats\<close>

text \<open>
  A finite float \<open>m * 2 ^ k\<close> is its mantissa and exponent. \<open>float_of_ratio p q\<close> is the float nearest
  to \<open>p / q\<close> (ties to even, subnormals included); \<open>None\<close> is an overflow.
\<close>

fun bit_length :: "nat \<Rightarrow> nat" where
  "bit_length n = (if n = 0 then 0 else Suc (bit_length (n div 2)))"

declare bit_length.simps [simp del]

definition scaled_ratio :: "nat \<Rightarrow> nat \<Rightarrow> int \<Rightarrow> nat" where
  "scaled_ratio p q k =
     (if 0 \<le> k then div_half_even p (q * 2 ^ nat k) else div_half_even (p * 2 ^ nat (- k)) q)"

definition float_of_ratio :: "nat \<Rightarrow> nat \<Rightarrow> (nat \<times> int) option" where
  "float_of_ratio p q =
     (if p = 0 then Some (0, 0)
      else let k0 = int (bit_length p) - int (bit_length q) - 53;
               k1 = (if scaled_ratio p q k0 < 2 ^ 53 then k0 else k0 + 1);
               k = max k1 (- 1074);
               m = scaled_ratio p q k
           in if m = 2 ^ 53 then (if 971 < k + 1 then None else Some (2 ^ 52, k + 1))
              else if 971 < k then None else Some (m, k))"

text \<open>The float nearest to a finite decimal value.\<close>

definition float_of_dec_value :: "nat \<Rightarrow> int \<Rightarrow> (nat \<times> int) option" where
  "float_of_dec_value n e =
     (if 0 \<le> e then float_of_ratio (n * 10 ^ nat e) 1 else float_of_ratio n (10 ^ nat (- e)))"

text \<open>
  \<open>repr\<close> of a float: the shortest digits that read back as the same float, the nearer of two such,
  in fixed notation when the decimal point falls within \<open>-3 .. 16\<close>.
\<close>

definition decimal_point :: "nat \<Rightarrow> nat \<Rightarrow> int" where
  "decimal_point num den =
     (if den \<le> num then int (length (nat_digits (num div den)))
      else - int (length (takeWhile (\<lambda>z. num * 10 ^ Suc z < den) [0..<400])))"

definition digit_candidates :: "nat \<Rightarrow> nat \<Rightarrow> int \<Rightarrow> nat list" where
  "digit_candidates num den x =
     (let n = (if 0 \<le> x then num else num * 10 ^ nat (- x));
          d = (if 0 \<le> x then den * 10 ^ nat x else den); q = n div d
      in if 2 * (n mod d) \<le> d then [q, Suc q] else [Suc q, q])"

fun shortest_digits :: "(nat \<times> int) list \<Rightarrow> nat \<Rightarrow> int \<Rightarrow> nat \<times> int" where
  "shortest_digits [] m k = (m, 0)"
| "shortest_digits ((c, x) # cs) m k =
     (if float_of_dec_value c x = Some (m, k) then (c, x) else shortest_digits cs m k)"

definition point_text :: "string \<Rightarrow> int \<Rightarrow> string" where
  "point_text ds p =
     (let n = int (length ds) in
      if p \<le> - 4 \<or> 16 < p
      then take 1 ds @ (if n = 1 then [] else ''.'' @ drop 1 ds) @ ''e''
           @ (if p - 1 < 0 then ''-'' else ''+'')
           @ (let t = nat_digits (nat \<bar>p - 1\<bar>) in (if length t < 2 then ''0'' @ t else t))
      else if p \<le> 0 then ''0.'' @ replicate (nat (- p)) (CHR ''0'') @ ds
      else if n \<le> p then ds @ replicate (nat (p - n)) (CHR ''0'') @ ''.0''
      else take (nat p) ds @ ''.'' @ drop (nat p) ds)"

definition float_repr :: "bool \<Rightarrow> nat \<times> int \<Rightarrow> string" where
  "float_repr neg f =
     (let (m, k) = f in
      (if neg then ''-'' else []) @
      (if m = 0 then ''0.0''
       else let num = (if 0 \<le> k then m * 2 ^ nat k else m);
                den = (if 0 \<le> k then 1 else 2 ^ nat (- k));
                p = decimal_point num den;
                (c, x) = shortest_digits
                  (concat (map (\<lambda>w. map (\<lambda>c. (c, p - int w)) (digit_candidates num den (p - int w)))
                    [1..<18])) m k;
                all = nat_digits c
            in point_text (rev (dropWhile (\<lambda>d. d = CHR ''0'') (rev all))) (int (length all) + x)))"

text \<open>\<open>repr(float(d))\<close> of a decimal.\<close>

fun float_text :: "decimal \<Rightarrow> string" where
  "float_text (Dec neg n e) =
     (case float_of_dec_value n e of
        None \<Rightarrow> (if neg then ''-inf'' else ''inf'')
      | Some f \<Rightarrow> float_repr neg f)"
| "float_text (DecInf neg) = (if neg then ''-inf'' else ''inf'')"
| "float_text DecNaN = ''nan''"

text \<open>\<open>int(x)\<close> and \<open>math.ceil(x)\<close> of a float.\<close>

definition float_floor :: "nat \<times> int \<Rightarrow> int" where
  "float_floor f = (let (m, k) = f in if 0 \<le> k then int (m * 2 ^ nat k) else int (m div 2 ^ nat (- k)))"

definition float_ceil :: "nat \<times> int \<Rightarrow> int" where
  "float_ceil f =
     (let (m, k) = f in
      if 0 \<le> k then int (m * 2 ^ nat k) else int ((m + 2 ^ nat (- k) - 1) div 2 ^ nat (- k)))"

text \<open>
  \<open>math.ceil(timedelta.total_seconds())\<close> of a difference in microseconds: the quotient by a million
  is rounded to a float first.
\<close>

definition ceil_seconds :: "int \<Rightarrow> int" where
  "ceil_seconds us =
     (case float_of_ratio (nat \<bar>us\<bar>) 1000000 of
        None \<Rightarrow> 0
      | Some f \<Rightarrow> (if us < 0 then - float_floor f else float_ceil f))"

text \<open>\<open>int(text)\<close>: outer whitespace and single underscores between digits are allowed.\<close>

fun plain_digits :: "string \<Rightarrow> string option" where
  "plain_digits [] = None"
| "plain_digits [c] = (if is_digit c then Some [c] else None)"
| "plain_digits (c # d # s) =
     (if \<not> is_digit c then None
      else map_option ((#) c) (plain_digits (if d = CHR ''_'' then s else d # s)))"

definition int_of_text :: "string \<Rightarrow> int option" where
  "int_of_text text =
     (let (neg, s) = read_sign (strip text)
      in map_option (\<lambda>ds. if neg then - int (nat_value ds) else int (nat_value ds)) (plain_digits s))"

text \<open>\<open>int(x)\<close> of a float given by its \<open>repr\<close>.\<close>

definition int_of_float_text :: "string \<Rightarrow> int option" where
  "int_of_float_text text =
     (case dec_of_text text of
        Some (Dec neg n e) \<Rightarrow>
          map_option (\<lambda>f. if neg then - float_floor f else float_floor f) (float_of_dec_value n e)
      | _ \<Rightarrow> None)"

lemma nat_digits_step: "10 \<le> n \<Longrightarrow> nat_digits n = nat_digits (n div 10) @ [char_of (48 + n mod 10)]"
  by (subst nat_digits.simps) simp

lemma nat_digits_small: "n < 10 \<Longrightarrow> nat_digits n = [char_of (48 + n)]"
  by (subst nat_digits.simps) simp

lemmas nat_digits_eval = nat_digits_step nat_digits_small

lemma ceil_seconds_example: "ceil_seconds 1500000 = 2 \<and> ceil_seconds (- 1500000) = - 1"
  by (simp add: ceil_seconds_def float_of_ratio_def scaled_ratio_def div_half_even_def bit_length.simps
      float_ceil_def float_floor_def Let_def)

lemma dec_div_counts_example: "dec_div_counts 7 8 = Dec False 875 (- 3)"
  by (simp add: dec_div_counts_def Let_def dec_prec_def nat_digits_eval strip_zeros_numeral)

end
