(* ===== verification/Agent_Invocations.thy ===== *)
theory Agent_Invocations
  imports Agent_Models Py_Decimal
begin

text \<open>
  Audit records of model invocations (\<open>services/agent_runtime/invocations.py\<close>): their validated
  metadata and the in-memory repository with its primary and its idempotency index. The contract of
  such a doubly indexed append-only store is the locale \<open>idempotent_store\<close>; the task repository keeps
  a second store of the same kind and interprets it again.
\<close>

section \<open>Invocation metadata\<close>

definition require_text_max :: "string \<Rightarrow> string \<Rightarrow> nat \<Rightarrow> unit agent_result" where
  "require_text_max v name maximum =
     (if v = [] \<or> maximum < length v
      then Inl (ValueError (name @ '' must be non-empty and at most '' @ nat_digits maximum @ '' characters''))
      else Inr ())"

definition invocation_require_aware :: "datetime \<Rightarrow> string \<Rightarrow> unit agent_result" where
  "invocation_require_aware v name =
     (if \<not> is_aware v then Inl (ValueError (name @ '' must be timezone-aware'')) else Inr ())"

record token_usage =
  tu_status :: string
  tu_input_tokens :: "int option"
  tu_output_tokens :: "int option"
  tu_total_tokens :: "int option"

definition token_usage_post_init :: "token_usage \<Rightarrow> token_usage agent_result" where
  "token_usage_post_init u =
     (if tu_status u = ''unknown''
      then if tu_input_tokens u \<noteq> None \<or> tu_output_tokens u \<noteq> None \<or> tu_total_tokens u \<noteq> None
           then Inl (ValueError ''unknown token usage cannot contain token counts'')
           else Inr u
      else if tu_status u \<noteq> ''known'' then Inl (ValueError ''invalid token usage status'')
      else case (tu_input_tokens u, tu_output_tokens u, tu_total_tokens u) of
        (Some i, Some out, Some tot) \<Rightarrow>
          if i < 0 \<or> out < 0 \<or> tot < 0
          then Inl (ValueError ''known token usage requires non-negative integer counts'')
          else if tot \<noteq> i + out
          then Inl (ValueError ''total_tokens must equal input_tokens plus output_tokens'')
          else Inr u
      | _ \<Rightarrow> Inl (ValueError ''known token usage requires non-negative integer counts''))"

definition opt_int :: "int option \<Rightarrow> json" where
  "opt_int x = (case x of None \<Rightarrow> JNull | Some i \<Rightarrow> JInt i)"

definition token_usage_wire :: "token_usage \<Rightarrow> json" where
  "token_usage_wire u =
     (if tu_status u = ''unknown'' then JObj [(''status'', JStr ''unknown'')]
      else JObj [(''status'', JStr ''known''),
                 (''input_tokens'', opt_int (tu_input_tokens u)),
                 (''output_tokens'', opt_int (tu_output_tokens u)),
                 (''total_tokens'', opt_int (tu_total_tokens u))])"

record cost_metadata =
  co_status :: string
  co_amount :: "decimal option"
  co_currency :: "string option"

text \<open>Ordering a NaN raises \<open>decimal.InvalidOperation\<close>.\<close>

definition cost_post_init :: "cost_metadata \<Rightarrow> cost_metadata agent_result" where
  "cost_post_init c =
     (if co_status c = ''unknown''
      then if co_amount c \<noteq> None \<or> co_currency c \<noteq> None
           then Inl (ValueError ''unknown cost cannot contain amount or currency'')
           else Inr c
      else if co_status c \<noteq> ''known'' then Inl (ValueError ''invalid cost status'')
      else case co_amount c of
        None \<Rightarrow> Inl (ValueError ''known cost requires a finite non-negative amount'')
      | Some a \<Rightarrow>
          if a = DecNaN then Inl (ValueError ''decimal.InvalidOperation'')
          else if decimal_negative a \<or> \<not> decimal_finite a
          then Inl (ValueError ''known cost requires a finite non-negative amount'')
          else (case co_currency c of
                  None \<Rightarrow> Inl (ValueError ''known cost requires an ISO-style currency code'')
                | Some cur \<Rightarrow>
                    if \<not> shape_match is_upper is_upper 2 2 cur
                    then Inl (ValueError ''known cost requires an ISO-style currency code'')
                    else Inr c))"

record invocation_references =
  ir_observation_event_refs :: "string list"
  ir_evidence_refs :: "string list"
  ir_tokenization_receipt_refs :: "string list"

definition reference_list_check :: "string \<times> string list \<Rightarrow> unit agent_result" where
  "reference_list_check nv =
     (case nv of (name, values) \<Rightarrow>
        if length values \<noteq> card (set values) then Inl (ValueError (name @ '' must be unique''))
        else if list_ex (\<lambda>v. v = [] \<or> 256 < length v) values
        then Inl (ValueError (name @ '' entries must be non-empty and at most 256 characters''))
        else Inr ())"

definition references_post_init :: "invocation_references \<Rightarrow> invocation_references agent_result" where
  "references_post_init r =
     (case check_all reference_list_check
        [(''observation_event_refs'', ir_observation_event_refs r),
         (''evidence_refs'', ir_evidence_refs r),
         (''tokenization_receipt_refs'', ir_tokenization_receipt_refs r)] of
        Inl e \<Rightarrow> Inl e
      | Inr _ \<Rightarrow> Inr r)"

definition references_wire :: "invocation_references \<Rightarrow> json" where
  "references_wire r = JObj
     [(''observation_event_refs'', JList (map JStr (ir_observation_event_refs r))),
      (''evidence_refs'', JList (map JStr (ir_evidence_refs r))),
      (''tokenization_receipt_refs'', JList (map JStr (ir_tokenization_receipt_refs r)))]"

record model_invocation =
  mi_invocation_id :: string
  mi_site_id :: string
  mi_provider :: string
  mi_requested_model :: string
  mi_observed_model :: "string option"
  mi_prompt_version :: string
  mi_output_schema_version :: string
  mi_policy_version :: string
  mi_tokenizer_version :: string
  mi_request_id :: string
  mi_response_id :: "string option"
  mi_started_at :: datetime
  mi_completed_at :: "datetime option"
  mi_latency_ms :: "int option"
  mi_status :: string
  mi_token_usage :: token_usage
  mi_cost :: cost_metadata
  mi_network_call_count :: int
  mi_tool_call_count :: int
  mi_external_send_count :: int
  mi_references :: invocation_references
  mi_idempotency_key :: string
  mi_attempt :: int
  mi_retry_count :: int
  mi_finish_code :: "string option"
  mi_error_code :: "string option"
  mi_budget_status :: string
  mi_price_catalog_version :: "string option"
  mi_output_digest :: "string option"
  mi_schema_version :: string

definition is_site :: "string \<Rightarrow> bool" where
  "is_site s = (case s of [] \<Rightarrow> False
     | c # cs \<Rightarrow> is_alnum c \<and> list_all (\<lambda>x. is_alnum x \<or> x \<in> set ''.-'') cs)"

definition is_code :: "string \<Rightarrow> bool" where
  "is_code s = shape_match is_lower (\<lambda>c. is_lower c \<or> is_digit c \<or> c = CHR ''_'') 0 79 s"

definition error_codes :: "string list" where
  "error_codes = [''network_disabled'', ''budget_hard_stop'', ''input_token_limit'',
     ''transport_exhausted'', ''retry_exhausted'', ''provider_http_error'', ''response_invalid_json'',
     ''model_mismatch'', ''response_protocol_error'', ''output_invalid_json'',
     ''output_schema_invalid'', ''request_binding_failed'', ''unsafe_output'', ''pricing_error'',
     ''internal_error'']"

definition invocation_texts :: "model_invocation \<Rightarrow> (string \<times> string \<times> nat) list" where
  "invocation_texts r =
     [(''provider'', mi_provider r, 80), (''requested_model'', mi_requested_model r, 160),
      (''prompt_version'', mi_prompt_version r, 80),
      (''output_schema_version'', mi_output_schema_version r, 80),
      (''policy_version'', mi_policy_version r, 80),
      (''tokenizer_version'', mi_tokenizer_version r, 80),
      (''request_id'', mi_request_id r, 256), (''idempotency_key'', mi_idempotency_key r, 256)]"

definition invocation_optional_texts :: "model_invocation \<Rightarrow> (string \<times> string option \<times> nat) list" where
  "invocation_optional_texts r =
     [(''observed_model'', mi_observed_model r, 160), (''response_id'', mi_response_id r, 256),
      (''price_catalog_version'', mi_price_catalog_version r, 80)]"

definition invocation_times_check :: "model_invocation \<Rightarrow> unit agent_result" where
  "invocation_times_check r =
     (case invocation_require_aware (mi_started_at r) ''started_at'' of
        Inl e \<Rightarrow> Inl e
      | Inr _ \<Rightarrow>
          (case (case mi_completed_at r of
                   None \<Rightarrow> if mi_latency_ms r \<noteq> None
                           then Inl (ValueError ''latency_ms requires completed_at'') else Inr ()
                 | Some c \<Rightarrow>
                     (case invocation_require_aware c ''completed_at'' of
                        Inl e \<Rightarrow> Inl e
                      | Inr _ \<Rightarrow>
                          if instant_of c < instant_of (mi_started_at r)
                          then Inl (ValueError ''completed_at cannot precede started_at'')
                          else if mi_latency_ms r = None
                          then Inl (ValueError ''completed records require latency_ms'')
                          else Inr ())) of
             Inl e \<Rightarrow> Inl e
           | Inr _ \<Rightarrow>
               (case mi_latency_ms r of
                  None \<Rightarrow> Inr ()
                | Some ms \<Rightarrow> if ms < 0 then Inl (ValueError ''latency_ms must be a non-negative integer'')
                            else Inr ())))"

definition invocation_counts_check :: "model_invocation \<Rightarrow> unit agent_result" where
  "invocation_counts_check r =
     (case check_all (\<lambda>(name, n). if n < 0 then Inl (ValueError (name @ '' must be a non-negative integer''))
                                 else Inr ())
        [(''network_call_count'', mi_network_call_count r), (''tool_call_count'', mi_tool_call_count r),
         (''external_send_count'', mi_external_send_count r)] of
        Inl e \<Rightarrow> Inl e
      | Inr _ \<Rightarrow>
          if mi_attempt r < 1 then Inl (ValueError ''attempt must be a positive integer'')
          else if mi_retry_count r < 0 then Inl (ValueError ''retry_count must be a non-negative integer'')
          else if mi_network_call_count r = 0 \<and> mi_retry_count r \<noteq> 0
          then Inl (ValueError ''zero-network invocations cannot have retries'')
          else if 0 < mi_network_call_count r \<and> mi_network_call_count r \<le> mi_retry_count r
          then Inl (ValueError ''retry_count must be less than network_call_count'')
          else Inr ())"

definition invocation_outcome_check :: "model_invocation \<Rightarrow> unit agent_result" where
  "invocation_outcome_check r =
     (if \<not> (case mi_finish_code r of None \<Rightarrow> True | Some c \<Rightarrow> is_code c)
      then Inl (ValueError ''finish_code must be a sanitized code'')
      else if \<not> (case mi_error_code r of None \<Rightarrow> True | Some c \<Rightarrow> c \<in> set error_codes)
      then Inl (ValueError ''error_code must be a known sanitized code'')
      else if mi_status r = ''succeeded'' \<and> mi_error_code r \<noteq> None
      then Inl (ValueError ''succeeded records cannot have an error_code'')
      else if mi_status r = ''succeeded'' \<and> mi_output_digest r = None
      then Inl (ValueError ''succeeded records require output_digest'')
      else if mi_status r \<noteq> ''succeeded'' \<and> mi_error_code r = None
      then Inl (ValueError ''non-succeeded records require an error_code'')
      else if mi_budget_status r \<notin>
                set [''normal'', ''warning'', ''hard_stop'', ''network_disabled'', ''unknown'']
      then Inl (ValueError ''invalid budget_status'')
      else if \<not> (case mi_output_digest r of None \<Rightarrow> True | Some d \<Rightarrow> is_sha256_text d)
      then Inl (ValueError ''output_digest must be a SHA-256 hex digest'')
      else if co_status (mi_cost r) = ''known'' \<and> mi_price_catalog_version r = None
      then Inl (ValueError ''known cost requires price_catalog_version'')
      else if mi_schema_version r \<noteq> ''1.0'' then Inl (ValueError ''schema_version must be 1.0'')
      else Inr ())"

definition invocation_post_init :: "model_invocation \<Rightarrow> model_invocation agent_result" where
  "invocation_post_init r =
     (case check_all (\<lambda>(name, v, m). require_text_max v name m)
        [(''invocation_id'', mi_invocation_id r, 256), (''site_id'', mi_site_id r, 140)] of
        Inl e \<Rightarrow> Inl e
      | Inr _ \<Rightarrow>
     if \<not> is_site (mi_site_id r) then Inl (ValueError ''site_id has an invalid format'')
     else case check_all (\<lambda>(name, v, m). require_text_max v name m) (invocation_texts r) of
        Inl e \<Rightarrow> Inl e
      | Inr _ \<Rightarrow>
     (case check_all (\<lambda>(name, v, m). case v of None \<Rightarrow> Inr () | Some t \<Rightarrow> require_text_max t name m)
        (invocation_optional_texts r) of
        Inl e \<Rightarrow> Inl e
      | Inr _ \<Rightarrow>
     (case invocation_times_check r of
        Inl e \<Rightarrow> Inl e
      | Inr _ \<Rightarrow>
     if mi_status r \<notin> set [''succeeded'', ''failed'', ''timed_out'', ''cancelled'']
     then Inl (ValueError ''invalid invocation status'')
     else case invocation_counts_check r of
        Inl e \<Rightarrow> Inl e
      | Inr _ \<Rightarrow>
     (case invocation_outcome_check r of
        Inl e \<Rightarrow> Inl e
      | Inr _ \<Rightarrow> Inr r))))"

text \<open>An accepted record accounts for its own network use and outcome.\<close>

lemma invocation_outcome_check_ok:
  assumes "invocation_outcome_check r = Inr u"
  shows "mi_status r = ''succeeded'' \<longleftrightarrow> mi_error_code r = None"
    and "mi_error_code r = None \<Longrightarrow> \<exists>d. mi_output_digest r = Some d \<and> is_sha256_text d"
  using assms by (auto simp: invocation_outcome_check_def split: if_splits option.splits)

lemma invocation_counts_check_ok:
  "invocation_counts_check r = Inr u \<Longrightarrow>
     0 \<le> mi_retry_count r \<and> mi_retry_count r \<le> mi_network_call_count r \<and> 1 \<le> mi_attempt r"
  by (auto simp: invocation_counts_check_def sum_case_Inr_iff split: if_splits)

lemma invocation_post_init_ok:
  assumes "invocation_post_init r = Inr r'"
  shows "r' = r \<and> invocation_counts_check r = Inr () \<and> invocation_outcome_check r = Inr ()"
  using assms unfolding invocation_post_init_def by (auto simp: sum_case_Inr_iff simp del: check_all.simps split: if_splits)

section \<open>The in-memory repository\<close>

type_synonym 'r keyed = "((string \<times> string) \<times> 'r) list"

record invocation_repo =
  ivr_records :: "model_invocation keyed"
  ivr_idempotency :: "model_invocation keyed"

definition invocation_repo_new :: invocation_repo where
  "invocation_repo_new = \<lparr>ivr_records = [], ivr_idempotency = []\<rparr>"

definition invocation_append ::
  "model_invocation \<Rightarrow> invocation_repo \<Rightarrow> (agent_error, model_invocation, invocation_repo) call" where
  "invocation_append r s =
     (let ik = (mi_site_id r, mi_idempotency_key r); pk = (mi_site_id r, mi_invocation_id r)
      in case map_of (ivr_idempotency s) ik of
           Some existing \<Rightarrow>
             if existing \<noteq> r
             then (Inl (IdempotencyConflict ''model invocation idempotency key was reused with different metadata''), s)
             else (Inr existing, s)
         | None \<Rightarrow>
             if map_of (ivr_records s) pk \<noteq> None
             then (Inl (IdempotencyConflict ''model invocation id was reused with different metadata''), s)
             else (Inr r, s\<lparr>ivr_records := AList.update pk r (ivr_records s),
                           ivr_idempotency := AList.update ik r (ivr_idempotency s)\<rparr>))"

definition validate_lookup_site :: "string \<Rightarrow> unit agent_result" where
  "validate_lookup_site site_id =
     (case require_text_max site_id ''site_id'' 140 of
        Inl e \<Rightarrow> Inl e
      | Inr _ \<Rightarrow> if \<not> is_site site_id then Inl (ValidationError ''site_id has an invalid format'') else Inr ())"

definition validate_limit :: "int \<Rightarrow> unit agent_result" where
  "validate_limit limit =
     (if \<not> (1 \<le> limit \<and> limit \<le> 1000) then Inl (ValidationError ''limit must be between 1 and 1000'')
      else Inr ())"

definition invocation_get :: "string \<Rightarrow> string \<Rightarrow> invocation_repo \<Rightarrow> model_invocation option agent_result" where
  "invocation_get site_id invocation_id s =
     (case validate_lookup_site site_id of
        Inl e \<Rightarrow> Inl e | Inr _ \<Rightarrow> Inr (map_of (ivr_records s) (site_id, invocation_id)))"

definition invocation_list :: "string \<Rightarrow> int \<Rightarrow> invocation_repo \<Rightarrow> model_invocation list agent_result" where
  "invocation_list site_id limit s =
     (case validate_lookup_site site_id of
        Inl e \<Rightarrow> Inl e
      | Inr _ \<Rightarrow>
          (case validate_limit limit of
             Inl e \<Rightarrow> Inl e
           | Inr _ \<Rightarrow>
               Inr (take (nat limit)
                 (sort_key (\<lambda>r. (instant_of (mi_started_at r), mi_invocation_id r))
                   (filter (\<lambda>r. mi_site_id r = site_id) (map snd (ivr_records s)))))))"

text \<open>The body of \<open>with record_bundle(site)\<close> is any code over the repository; \<open>bundle_append\<close> is
  what it is given to append with.\<close>

definition bundle_append ::
  "string \<Rightarrow> model_invocation \<Rightarrow> invocation_repo \<Rightarrow> (agent_error, model_invocation, invocation_repo) call" where
  "bundle_append site_id r s =
     (if mi_site_id r \<noteq> site_id
      then (Inl (ValidationError ''record site does not match transaction site''), s)
      else invocation_append r s)"

definition record_bundle ::
  "string \<Rightarrow> (invocation_repo \<Rightarrow> (agent_error, 'a, invocation_repo) call) \<Rightarrow> invocation_repo
     \<Rightarrow> (agent_error, 'a, invocation_repo) call" where
  "record_bundle site_id body s =
     (case validate_lookup_site site_id of
        Inl e \<Rightarrow> (Inl e, s)
      | Inr _ \<Rightarrow> (case body s of (Inl e, _) \<Rightarrow> (Inl e, s) | (Inr v, s') \<Rightarrow> (Inr v, s')))"

section \<open>The contract of an idempotent store\<close>

text \<open>
  A store of immutable records: an accepted record is added, a rejected one changes nothing, and a
  record that is already there is accepted again without effect.
\<close>

locale idempotent_store =
  fixes append :: "'r \<Rightarrow> 's \<Rightarrow> ('e, 'r, 's) call"
    and stored :: "'s \<Rightarrow> 'r set"
    and admissible :: "'r \<Rightarrow> bool"
    and inv :: "'s \<Rightarrow> bool"
  assumes append_inv: "inv s \<Longrightarrow> append r s = (Inr v, s') \<Longrightarrow> inv s'"
    and append_ok:
      "inv s \<Longrightarrow> append r s = (Inr v, s') \<Longrightarrow> v = r \<and> admissible r \<and> stored s' = insert r (stored s)"
    and append_error: "append r s = (Inl e, s') \<Longrightarrow> s' = s"
    and append_stored: "inv s \<Longrightarrow> admissible r \<Longrightarrow> r \<in> stored s \<Longrightarrow> append r s = (Inr r, s)"
begin

lemma append_twice:
  assumes "inv s" and "append r s = (Inr v, s')"
  shows "append r s' = (Inr r, s')"
  using append_inv [OF assms] append_ok [OF assms] by (intro append_stored) auto

lemma append_all_stored:
  "inv s \<Longrightarrow> call_each append rs s = (Inr u, s') \<Longrightarrow>
   inv s' \<and> stored s' = set rs \<union> stored s \<and> (\<forall>r \<in> set rs. admissible r)"
proof (induction rs arbitrary: s)
  case (Cons r rs)
  then obtain v s1 where s1: "append r s = (Inr v, s1)" "call_each append rs s1 = (Inr u, s')"
    by (auto simp: and_then_Inr_iff)
  then show ?case
    using Cons.IH [of s1] append_inv [OF Cons.prems(1) s1(1)] append_ok [OF Cons.prems(1) s1(1)] by auto
qed auto

lemma append_all_noop:
  "inv s \<Longrightarrow> \<forall>r \<in> set rs. admissible r \<and> r \<in> stored s \<Longrightarrow> call_each append rs s = (Inr (), s)"
  by (induction rs) (auto simp: append_stored)

lemma append_all_replay:
  assumes "inv s" and "call_each append rs s = (Inr u, s')"
  shows "call_each append rs s' = (Inr (), s')"
  using append_all_stored [OF assms] by (intro append_all_noop) auto

end

definition invocation_repo_inv :: "invocation_repo \<Rightarrow> bool" where
  "invocation_repo_inv s = paired_index (\<lambda>r. (mi_site_id r, mi_invocation_id r))
     (\<lambda>r. (mi_site_id r, mi_idempotency_key r)) (ivr_records s) (ivr_idempotency s)"

lemma invocation_append_cases:
  assumes "invocation_append r s = (Inr v, s')"
  shows "v = r \<and> (s' = s \<and> map_of (ivr_idempotency s) (mi_site_id r, mi_idempotency_key r) = Some r \<or>
     map_of (ivr_idempotency s) (mi_site_id r, mi_idempotency_key r) = None \<and>
     map_of (ivr_records s) (mi_site_id r, mi_invocation_id r) = None \<and>
     s' = s\<lparr>ivr_records := AList.update (mi_site_id r, mi_invocation_id r) r (ivr_records s),
            ivr_idempotency := AList.update (mi_site_id r, mi_idempotency_key r) r (ivr_idempotency s)\<rparr>)"
  using assms by (auto simp: invocation_append_def Let_def split: option.splits if_splits)

interpretation invocations: idempotent_store invocation_append "\<lambda>s. ran (map_of (ivr_records s))"
  "\<lambda>_. True" invocation_repo_inv
proof unfold_locales
  fix r v s s'
  assume i: "invocation_repo_inv s" and a: "invocation_append r s = (Inr v, s')"
  note c = invocation_append_cases [OF a]
  show "invocation_repo_inv s'"
    using c i paired_index_insert [of "\<lambda>r. (mi_site_id r, mi_invocation_id r)"
        "\<lambda>r. (mi_site_id r, mi_idempotency_key r)" "ivr_records s" "ivr_idempotency s" r]
    by (auto simp: invocation_repo_inv_def)
  show "v = r \<and> True \<and> ran (map_of (ivr_records s')) = insert r (ran (map_of (ivr_records s)))"
    using c i paired_indexD(4) [OF i [unfolded invocation_repo_inv_def]]
    by (auto simp: ran_update_new intro: ranI)
next
  fix r s e s'
  show "invocation_append r s = (Inl e, s') \<Longrightarrow> s' = s"
    by (auto simp: invocation_append_def Let_def split: option.splits if_splits)
next
  fix r s
  assume "invocation_repo_inv s" and "r \<in> ran (map_of (ivr_records s))"
  then have "map_of (ivr_idempotency s) (mi_site_id r, mi_idempotency_key r) = Some r"
    by (auto simp: invocation_repo_inv_def ran_def dest: paired_indexD(2))
  then show "invocation_append r s = (Inr r, s)"
    by (simp add: invocation_append_def)
qed

text \<open>
  The invocation audit log is append-only and idempotent: an accepted record is found under its
  identifier, appending it again changes nothing, and a different record under the same idempotency
  key is refused; the two indexes stay consistent.
\<close>

theorem invocation_log_is_idempotent:
  assumes "invocation_repo_inv s" and "invocation_append r s = (Inr v, s')"
  shows "invocation_repo_inv s' \<and> map_of (ivr_records s') (mi_site_id r, mi_invocation_id r) = Some r
       \<and> invocation_append r s' = (Inr r, s')
       \<and> (\<forall>q. mi_site_id q = mi_site_id r \<and> mi_idempotency_key q = mi_idempotency_key r \<and> q \<noteq> r
            \<longrightarrow> (\<exists>m. invocation_append q s' = (Inl (IdempotencyConflict m), s')))"
proof -
  have i: "invocation_repo_inv s'" using invocations.append_inv [OF assms] .
  have "r \<in> ran (map_of (ivr_records s'))" using invocations.append_ok [OF assms] by simp
  then have "map_of (ivr_records s') (mi_site_id r, mi_invocation_id r) = Some r"
    and ik: "map_of (ivr_idempotency s') (mi_site_id r, mi_idempotency_key r) = Some r"
    using i by (auto simp: invocation_repo_inv_def ran_def dest: paired_indexD(1,2))
  moreover have "\<exists>m. invocation_append q s' = (Inl (IdempotencyConflict m), s')"
    if "mi_site_id q = mi_site_id r" "mi_idempotency_key q = mi_idempotency_key r" "q \<noteq> r" for q
    using that ik by (simp add: invocation_append_def)
  ultimately show ?thesis
    using i invocations.append_twice [OF assms] by blast
qed

definition example_invocation :: model_invocation where
  "example_invocation = \<lparr>mi_invocation_id = ''i1'', mi_site_id = ''s'', mi_provider = ''local'',
     mi_requested_model = ''m'', mi_observed_model = None, mi_prompt_version = ''v1'',
     mi_output_schema_version = ''v1'', mi_policy_version = ''v1'', mi_tokenizer_version = ''v1'',
     mi_request_id = ''t'', mi_response_id = None, mi_started_at = Aware 0, mi_completed_at = None,
     mi_latency_ms = None, mi_status = ''failed'',
     mi_token_usage = \<lparr>tu_status = ''unknown'', tu_input_tokens = None, tu_output_tokens = None, tu_total_tokens = None\<rparr>,
     mi_cost = \<lparr>co_status = ''unknown'', co_amount = None, co_currency = None\<rparr>,
     mi_network_call_count = 0, mi_tool_call_count = 0, mi_external_send_count = 0,
     mi_references = \<lparr>ir_observation_event_refs = [], ir_evidence_refs = [''e1''], ir_tokenization_receipt_refs = []\<rparr>,
     mi_idempotency_key = ''k1'', mi_attempt = 1, mi_retry_count = 0, mi_finish_code = None,
     mi_error_code = Some ''network_disabled'', mi_budget_status = ''network_disabled'',
     mi_price_catalog_version = None, mi_output_digest = None, mi_schema_version = ''1.0''\<rparr>"

lemma example_invocation_accepted: "invocation_post_init example_invocation = Inr example_invocation"
  by code_simp

theorem invocation_log_is_idempotent_witness:
  "\<exists>s'. invocation_append example_invocation invocation_repo_new = (Inr example_invocation, s')
     \<and> invocation_append example_invocation s' = (Inr example_invocation, s')"
proof -
  have i: "invocation_repo_inv invocation_repo_new"
    by (simp add: invocation_repo_inv_def invocation_repo_new_def)
  obtain s' where s': "invocation_append example_invocation invocation_repo_new = (Inr example_invocation, s')"
    by (simp add: invocation_append_def invocation_repo_new_def)
  with invocation_log_is_idempotent [OF i s'] show ?thesis by blast
qed

end
