(* ===== verification/Agent_Proposals.thy ===== *)
theory Agent_Proposals
  imports Agent_Invocations
begin

text \<open>
  Action proposals and their materialization (\<open>services/agent_runtime/proposals.py\<close>): the screening
  of proposal content, the proposal record built from an execution, the outbox record that follows
  it, and the trusted materializer that turns a proposal into a reversible internal draft.
\<close>

section \<open>Screening of content\<close>

definition allowed_action_types :: "string list" where
  "allowed_action_types = [''internal.ai_draft.propose'', ''internal.work_item.propose'',
     ''internal.review_case.propose'', ''internal.work_item.transition.propose'']"

definition forbidden_keys :: "string list" where
  "forbidden_keys =
    [''raw_context'', ''message_body'', ''message_text'', ''email'', ''phone'', ''telephone'',
     ''person_name'', ''customer_name'', ''contact_name'', ''supplier_name'', ''organization_name'',
     ''prompt'', ''prompt_text'', ''response'', ''response_text'', ''tokenized_context'',
     ''draft_mutation'', ''approved_command'', ''external_send'', ''outbound'', ''quotation'',
     ''formal_price'', ''price'', ''formal_discount'', ''discount'', ''delivery_commitment'',
     ''delivery_promise'', ''order'', ''won'', ''lost'', ''selected_supplier'',
     ''supplier_final_selection'', ''official_kpi'', ''metric_value'']"

text \<open>The markers in ASCII; the remaining ones are in Chinese script and occur in no ASCII text.\<close>

definition forbidden_text :: "string list" where
  "forbidden_text =
    [''external.message.send'', ''outbound email'', ''formal quotation'', ''formal price'',
     ''formal discount'', ''delivery commitment'', ''delivery promise'', ''create order'',
     ''deal won'', ''deal lost'', ''final supplier'', ''select final supplier'', ''draftmutation'',
     ''approvedcommand'', ''official kpi'']"

text \<open>\<open>re.sub(r"(?<!^)(?=[A-Z])", "_", key)\<close>\<close>

fun camel_split :: "string \<Rightarrow> string" where
  "camel_split [] = []"
| "camel_split (c # cs) = c # concat (map (\<lambda>x. if is_upper x then [CHR ''_'', x] else [x]) cs)"

definition forbidden_key :: "string \<Rightarrow> bool" where
  "forbidden_key k = (key_words (lower (camel_split k)) \<in> set forbidden_keys)"

definition compact_text :: "string \<Rightarrow> string" where
  "compact_text s = filter (\<lambda>c. \<not> (is_space c \<or> c = CHR ''_'' \<or> c = CHR ''-'')) s"

definition forbidden_language :: "string \<Rightarrow> bool" where
  "forbidden_language s =
     list_ex (\<lambda>m. contains_text (lower s) m \<or> contains_text (compact_text (lower s)) (compact_text m))
       forbidden_text"

fun reject_unsafe_content :: "json \<Rightarrow> unit agent_result"
  and reject_unsafe_items :: "json list \<Rightarrow> unit agent_result"
  and reject_unsafe_fields :: "fields \<Rightarrow> unit agent_result" where
  "reject_unsafe_content (JObj kvs) = reject_unsafe_fields kvs"
| "reject_unsafe_content (JList xs) = reject_unsafe_items xs"
| "reject_unsafe_content (JTuple xs) = reject_unsafe_items xs"
| "reject_unsafe_content (JStr s) =
     (if forbidden_language s
      then Inl (ValidationError ''proposal contains forbidden authoritative language'')
      else if has_direct_pii s
      then Inl (ValidationError ''proposal cannot store direct identity content'')
      else Inr ())"
| "reject_unsafe_content _ = Inr ()"
| "reject_unsafe_items [] = Inr ()"
| "reject_unsafe_items (x # xs) =
     (case reject_unsafe_content x of Inl e \<Rightarrow> Inl e | Inr _ \<Rightarrow> reject_unsafe_items xs)"
| "reject_unsafe_fields [] = Inr ()"
| "reject_unsafe_fields ((k, v) # kvs) =
     (if forbidden_key k
      then Inl (ValidationError ''proposal contains forbidden authoritative content'')
      else case reject_unsafe_content v of Inl e \<Rightarrow> Inl e | Inr _ \<Rightarrow> reject_unsafe_fields kvs)"

definition unsafe_text :: "string \<Rightarrow> bool" where
  "unsafe_text s = (forbidden_language s \<or> has_direct_pii s)"

lemma reject_unsafe_any:
  "reject_unsafe_content v = Inr () \<longleftrightarrow> \<not> json_any forbidden_key unsafe_text v"
  "reject_unsafe_items xs = Inr () \<longleftrightarrow> \<not> json_any_items forbidden_key unsafe_text xs"
  "reject_unsafe_fields kvs = Inr () \<longleftrightarrow> \<not> json_any_fields forbidden_key unsafe_text kvs"
  by (induction v and xs and kvs
      rule: reject_unsafe_content_reject_unsafe_items_reject_unsafe_fields.induct)
    (auto simp: unsafe_text_def split: sum.splits)

section \<open>The proposal record\<close>

record proposal_record =
  pr_proposal_id :: string
  pr_site_id :: string
  pr_idempotency_key :: string
  pr_task_id :: string
  pr_task_attempt :: int
  pr_action_type :: string
  pr_status :: string
  pr_origin :: string
  pr_review_status :: string
  pr_subject_type :: string
  pr_subject_ref :: string
  pr_subject_revision :: int
  pr_evidence_refs :: "string list"
  pr_fact_version_refs :: "(string \<times> int) list"
  pr_invocation_ids :: "string list"
  pr_payload_digest :: string
  pr_bundle_digest :: string
  pr_document :: json
  pr_created_at :: datetime

definition proposal_post_init :: "proposal_record \<Rightarrow> proposal_record agent_result" where
  "proposal_post_init p =
     (if pr_action_type p \<notin> set allowed_action_types
      then Inl (ValidationError ''proposal action type is not materializable'')
      else if pr_status p \<noteq> ''proposed'' \<or> pr_origin p \<noteq> ''AI'' \<or> pr_review_status p \<noteq> ''AI Draft''
      then Inl (ValidationError ''proposal must remain an AI Draft proposal'')
      else if pr_task_attempt p < 1 \<or> pr_subject_revision p < 0
      then Inl (ValidationError ''proposal task and subject revisions are invalid'')
      else if pr_evidence_refs p = [] \<or> length (pr_evidence_refs p) \<noteq> card (set (pr_evidence_refs p))
      then Inl (ValidationError ''proposal evidence refs must be non-empty and unique'')
      else if length (pr_invocation_ids p) \<noteq> card (set (pr_invocation_ids p))
      then Inl (ValidationError ''proposal invocation ids must be unique'')
      else if \<not> is_sha256_text (pr_payload_digest p)
      then Inl (ValidationError ''proposal payload digest is invalid'')
      else if \<not> is_sha256_text (pr_bundle_digest p)
      then Inl (ValidationError ''proposal bundle digest is invalid'')
      else if \<not> is_aware (pr_created_at p)
      then Inl (ValidationError ''proposal created_at must be timezone-aware'')
      else let detached = thaw_json (freeze_json (pr_document p)) in
           case reject_unsafe_content detached of
             Inl e \<Rightarrow> Inl e
           | Inr _ \<Rightarrow> Inr (p\<lparr>pr_document := freeze_json detached\<rparr>))"

text \<open>What an agent run hands over (\<open>AgentExecutionResult\<close>), as far as proposals read it.\<close>

record execution_result =
  xr_action_proposal :: json
  xr_invocations :: "model_invocation list"

definition cost_fingerprint :: "cost_metadata \<Rightarrow> json" where
  "cost_fingerprint c = JObj
     [(''status'', JStr (co_status c)),
      (''amount'', case co_amount c of None \<Rightarrow> JNull | Some a \<Rightarrow> JStr (decimal_text a)),
      (''currency'', opt_text (co_currency c))]"

definition invocation_fingerprint :: "model_invocation \<Rightarrow> json" where
  "invocation_fingerprint r = JObj
     [(''invocation_id'', JStr (mi_invocation_id r)),
      (''site_id'', JStr (mi_site_id r)),
      (''provider'', JStr (mi_provider r)),
      (''requested_model'', JStr (mi_requested_model r)),
      (''observed_model'', opt_text (mi_observed_model r)),
      (''prompt_version'', JStr (mi_prompt_version r)),
      (''output_schema_version'', JStr (mi_output_schema_version r)),
      (''policy_version'', JStr (mi_policy_version r)),
      (''tokenizer_version'', JStr (mi_tokenizer_version r)),
      (''request_id'', JStr (mi_request_id r)),
      (''response_id'', opt_text (mi_response_id r)),
      (''started_at'', JStr (isoformat (mi_started_at r))),
      (''completed_at'', case mi_completed_at r of None \<Rightarrow> JNull | Some t \<Rightarrow> JStr (isoformat t)),
      (''latency_ms'', opt_int (mi_latency_ms r)),
      (''status'', JStr (mi_status r)),
      (''token_usage'', token_usage_wire (mi_token_usage r)),
      (''cost'', cost_fingerprint (mi_cost r)),
      (''network_call_count'', JInt (mi_network_call_count r)),
      (''tool_call_count'', JInt (mi_tool_call_count r)),
      (''external_send_count'', JInt (mi_external_send_count r)),
      (''references'', references_wire (mi_references r)),
      (''idempotency_key'', JStr (mi_idempotency_key r)),
      (''attempt'', JInt (mi_attempt r)),
      (''retry_count'', JInt (mi_retry_count r)),
      (''finish_code'', opt_text (mi_finish_code r)),
      (''error_code'', opt_text (mi_error_code r)),
      (''budget_status'', JStr (mi_budget_status r)),
      (''price_catalog_version'', opt_text (mi_price_catalog_version r)),
      (''output_digest'', opt_text (mi_output_digest r))]"

fun parse_proposal_fact :: "json \<Rightarrow> (string \<times> int) agent_result" where
  "parse_proposal_fact (JObj kvs) =
     (if \<not> keys_are kvs [''fact_id'', ''fact_version''] \<or> \<not> is_str (jget kvs ''fact_id'')
         \<or> \<not> is_int_or_bool (jget kvs ''fact_version'')
      then Inl (ValidationError ''action proposal fact refs are invalid'')
      else Inr (str_of_json (jget kvs ''fact_id''), int_of_json (jget kvs ''fact_version'')))"
| "parse_proposal_fact _ = Inl (ValidationError ''action proposal fact refs are invalid'')"

definition proposal_key_text :: "string \<Rightarrow> int \<Rightarrow> string" where
  "proposal_key_text task_id attempt = ''proposal:'' @ task_id @ '':'' @ int_text attempt"

definition bundle_document :: "agent_task \<Rightarrow> json \<Rightarrow> model_invocation list \<Rightarrow> fields" where
  "bundle_document task document invocations =
     [(''task_id'', JStr (tk_task_id task)),
      (''task_attempt'', JInt (tk_attempt task)),
      (''proposal'', document),
      (''invocations'', JList (map invocation_fingerprint invocations))]"

definition proposal_from_execution :: "agent_task \<Rightarrow> execution_result \<Rightarrow> proposal_record agent_result" where
  "proposal_from_execution task result =
     (let document = thaw_json (freeze_json (xr_action_proposal result));
          doc = fields_of_json document;
          action_type = jget doc ''action_type'';
          proposal_id = jget doc ''action_proposal_id'';
          payload = jget doc ''payload'';
          evidence_refs = jget doc ''evidence_refs'';
          fact_refs = jget doc ''fact_version_refs'';
          payload_digest = jget doc ''payload_digest'';
          created_at_value = jget doc ''created_at'';
          target_revision = jget doc ''target_revision''
      in if \<not> is_obj document then Inl (ValidationError ''action proposal must be a JSON object'')
         else if \<not> py_eq (jget doc ''site_id'') (JStr (tk_site_id task))
              \<or> \<not> py_eq (jget doc ''target_ref'') (JStr (tk_subject_ref task))
              \<or> \<not> py_eq (jget doc ''status'') (JStr ''proposed'')
         then Inl (ValidationError ''action proposal is not bound to the claimed task'')
         else if \<not> is_str action_type \<or> \<not> is_str proposal_id \<or> \<not> is_obj payload
              \<or> \<not> str_list evidence_refs \<or> \<not> is_list fact_refs \<or> \<not> is_str payload_digest
              \<or> \<not> is_str created_at_value \<or> \<not> is_int_or_bool target_revision
         then Inl (ValidationError ''action proposal shape is invalid'')
         else if canonical_payload_digest (fields_of_json payload) \<noteq> str_of_json payload_digest
         then Inl (ValidationError ''action proposal payload digest does not match payload'')
         else case map_raise parse_proposal_fact (items_of_json fact_refs) of
           Inl e \<Rightarrow> Inl e
         | Inr facts \<Rightarrow>
             (case fromisoformat (concat (map (\<lambda>c. if c = CHR ''Z'' then ''+00:00'' else [c])
                                            (str_of_json created_at_value))) of
                None \<Rightarrow> Inl (ValueError ''Invalid isoformat string'')
              | Some created_at \<Rightarrow>
                  proposal_post_init
                    \<lparr>pr_proposal_id = str_of_json proposal_id,
                     pr_site_id = tk_site_id task,
                     pr_idempotency_key = proposal_key_text (tk_task_id task) (tk_attempt task),
                     pr_task_id = tk_task_id task,
                     pr_task_attempt = tk_attempt task,
                     pr_action_type = str_of_json action_type,
                     pr_status = ''proposed'',
                     pr_origin = ''AI'',
                     pr_review_status = ''AI Draft'',
                     pr_subject_type = tk_subject_type task,
                     pr_subject_ref = tk_subject_ref task,
                     pr_subject_revision = int_of_json target_revision,
                     pr_evidence_refs = map str_of_json (items_of_json evidence_refs),
                     pr_fact_version_refs = facts,
                     pr_invocation_ids = map mi_invocation_id (xr_invocations result),
                     pr_payload_digest = str_of_json payload_digest,
                     pr_bundle_digest =
                       canonical_payload_digest (bundle_document task document (xr_invocations result)),
                     pr_document = document,
                     pr_created_at = created_at\<rparr>))"

section \<open>The materialization outbox\<close>

datatype materialization_status =
  MatPending | MatRunning | MatSucceeded | MatRetry | MatDeadLetter

record materialization_record =
  mo_materialization_id :: string
  mo_proposal_id :: string
  mo_site_id :: string
  mo_task_id :: string
  mo_task_attempt :: int
  mo_status :: materialization_status
  mo_origin :: string
  mo_review_status :: string
  mo_created_at :: instant
  mo_attempt :: int
  mo_max_attempts :: int
  mo_lease_owner :: "string option"
  mo_lease_expires_at :: "instant option"
  mo_next_attempt_at :: "instant option"
  mo_last_error_code :: "string option"
  mo_receipt_doctype :: "string option"
  mo_receipt_name :: "string option"
  mo_receipt_revision :: "int option"
  mo_receipt_request_id :: "string option"
  mo_receipt_digest :: "string option"
  mo_updated_at :: "instant option"

definition materialization_post_init :: "materialization_record \<Rightarrow> materialization_record agent_result" where
  "materialization_post_init m =
     (if mo_attempt m < 0 \<or> mo_max_attempts m < 1 \<or> mo_max_attempts m < mo_attempt m
      then Inl (ValidationError ''materialization attempt is invalid'')
      else if mo_status m = MatRunning \<and> (mo_lease_owner m \<in> {None, Some []} \<or> mo_lease_expires_at m = None)
      then Inl (ValidationError ''running materialization requires a lease'')
      else if mo_status m \<noteq> MatRunning \<and> (mo_lease_owner m \<noteq> None \<or> mo_lease_expires_at m \<noteq> None)
      then Inl (ValidationError ''inactive materialization cannot retain a lease'')
      else let missing = [mo_receipt_doctype m = None, mo_receipt_name m = None,
                          mo_receipt_revision m = None, mo_receipt_request_id m = None,
                          mo_receipt_digest m = None] in
           if mo_status m = MatSucceeded \<and> list_ex (\<lambda>b. b) missing
           then Inl (ValidationError ''succeeded materialization requires a receipt'')
           else if mo_status m \<noteq> MatSucceeded \<and> list_ex Not missing
           then Inl (ValidationError ''non-succeeded materialization cannot contain a receipt'')
           else Inr m)"

definition materialization_id :: "string \<Rightarrow> string \<Rightarrow> string" where
  "materialization_id site_id proposal_id =
     ''materialization-'' @ take 32 (sha256_hex (site_id @ '':'' @ proposal_id))"

definition materialization_from_proposal ::
  "proposal_record \<Rightarrow> instant \<Rightarrow> materialization_record agent_result" where
  "materialization_from_proposal p created_at =
     materialization_post_init
       \<lparr>mo_materialization_id = materialization_id (pr_site_id p) (pr_proposal_id p),
        mo_proposal_id = pr_proposal_id p,
        mo_site_id = pr_site_id p,
        mo_task_id = pr_task_id p,
        mo_task_attempt = pr_task_attempt p,
        mo_status = MatPending,
        mo_origin = ''AI'',
        mo_review_status = ''AI Draft'',
        mo_created_at = created_at,
        mo_attempt = 0,
        mo_max_attempts = 5,
        mo_lease_owner = None,
        mo_lease_expires_at = None,
        mo_next_attempt_at = Some created_at,
        mo_last_error_code = None,
        mo_receipt_doctype = None,
        mo_receipt_name = None,
        mo_receipt_revision = None,
        mo_receipt_request_id = None,
        mo_receipt_digest = None,
        mo_updated_at = Some created_at\<rparr>"

section \<open>The trusted materializer\<close>

record materialization_envelope =
  me_proposal_id :: string
  me_task_id :: string
  me_processing_purpose :: string
  me_origin :: string
  me_review_status :: string
  me_action_type :: string
  me_subject_type :: string
  me_subject_ref :: string
  me_subject_revision :: json
  me_evidence_refs :: "string list"
  me_model_name :: "string option"
  me_model_version :: "string option"
  me_policy_version :: "string option"
  me_proposal :: json

record materialization_context =
  mc_team :: string
  mc_assigned_reviewer :: "string option"
  mc_subject_snapshot :: "json option"
  mc_subject_payload_digest :: "string option"

record materialization_intent =
  mn_operation :: string
  mn_doctype :: string
  mn_values :: fields

definition require_text_value :: "json \<Rightarrow> string \<Rightarrow> nat \<Rightarrow> string agent_result" where
  "require_text_value v name maximum =
     (case v of
        JStr s \<Rightarrow>
          (let normalized = strip s in
           if normalized = [] \<or> maximum < length normalized
           then Inl (ValidationError (name @ '' must contain 1 to '' @ nat_digits maximum @ '' characters''))
           else Inr normalized)
      | _ \<Rightarrow> Inl (ValidationError (name @ '' must be a nonempty string'')))"

definition trusted_evidence_refs :: "string list \<Rightarrow> string list agent_result" where
  "trusted_evidence_refs values =
     (if values = [] \<or> length values \<noteq> card (set values)
      then Inl (ValidationError ''materialization evidence refs must be nonempty and unique'')
      else map_raise (\<lambda>v. require_text_value (JStr v) ''materialization evidence ref'' 500) values)"

definition frappe_payload_digest :: "json \<Rightarrow> string" where
  "frappe_payload_digest v = json_digest v"

definition materialization_context_post_init ::
  "materialization_context \<Rightarrow> materialization_context agent_result" where
  "materialization_context_post_init c =
     (case require_text_value (JStr (mc_team c)) ''materialization team'' 140 of
        Inl e \<Rightarrow> Inl e
      | Inr _ \<Rightarrow>
     (case (case mc_assigned_reviewer c of
              None \<Rightarrow> Inr []
            | Some r \<Rightarrow> require_text_value (JStr r) ''materialization assigned reviewer'' 256) of
        Inl e \<Rightarrow> Inl e
      | Inr _ \<Rightarrow>
     (case mc_subject_snapshot c of
        None \<Rightarrow>
          if mc_subject_payload_digest c \<noteq> None
          then Inl (ValidationError ''subject payload digest requires a controlled subject snapshot'')
          else Inr c
      | Some raw \<Rightarrow>
          (let snapshot = thaw_json (freeze_json raw) in
           if \<not> is_obj snapshot
           then Inl (ValidationError ''controlled subject snapshot must be an object'')
           else case mc_subject_payload_digest c of
             None \<Rightarrow> Inl (ValidationError ''controlled subject snapshot requires a SHA-256 digest'')
           | Some d \<Rightarrow>
               if \<not> is_sha256_text d
               then Inl (ValidationError ''controlled subject snapshot requires a SHA-256 digest'')
               else if frappe_payload_digest snapshot \<noteq> d
               then Inl (ValidationError ''controlled subject snapshot digest does not match'')
               else Inr (c\<lparr>mc_subject_snapshot := Some (freeze_json snapshot)\<rparr>)))))"

definition opt_require_text :: "string option \<Rightarrow> string \<Rightarrow> nat \<Rightarrow> string agent_result" where
  "opt_require_text v name maximum = require_text_value (opt_text v) name maximum"

definition materialize_transition :: "fields \<Rightarrow> materialization_intent agent_result" where
  "materialize_transition payload =
     (let target = jget payload ''target_doctype'' in
      if keys_are payload [''target_doctype'', ''target_ref'', ''from_review_status'', ''to_review_status'']
         \<and> (is_obj target \<or> is_list target)
      then Inl TypeError
      else if \<not> keys_are payload
                [''target_doctype'', ''target_ref'', ''from_review_status'', ''to_review_status'']
           \<or> target \<notin> set [JStr ''GBOS Work Item'', JStr ''GBOS Review Case'']
           \<or> \<not> py_eq (jget payload ''from_review_status'') (JStr ''AI Draft'')
           \<or> \<not> py_eq (jget payload ''to_review_status'') (JStr ''Pending'')
      then Inl (ValidationError ''only AI Draft to Pending submission is allowed'')
      else Inr \<lparr>mn_operation = ''submit'', mn_doctype = str_of_json target,
                mn_values = [(''name'', jget payload ''target_ref''), (''origin'', JStr ''AI''),
                             (''review_status'', JStr ''Pending'')]\<rparr>)"

definition materialize_work_item ::
  "materialization_envelope \<Rightarrow> string \<Rightarrow> string \<Rightarrow> string \<Rightarrow> materialization_intent agent_result" where
  "materialize_work_item e team proposal_id title =
     (case require_text_value (JStr (me_subject_type e)) ''materialization subject_type'' 140 of
        Inl err \<Rightarrow> Inl err
      | Inr subject_type \<Rightarrow>
     (case require_text_value (JStr (me_subject_ref e)) ''materialization subject_ref'' 256 of
        Inl err \<Rightarrow> Inl err
      | Inr subject_ref \<Rightarrow>
          Inr \<lparr>mn_operation = ''create'', mn_doctype = ''GBOS Work Item'',
               mn_values =
                 [(''title'', JStr title), (''team'', JStr team),
                  (''reference_doctype'', JStr subject_type), (''reference_name'', JStr subject_ref),
                  (''origin'', JStr ''AI''), (''origin_reference'', JStr proposal_id),
                  (''business_status'', JStr ''Open''), (''review_status'', JStr ''AI Draft'')]\<rparr>))"

definition materialize_observation ::
  "materialization_envelope \<Rightarrow> fields \<Rightarrow> string \<Rightarrow> string \<Rightarrow> string \<Rightarrow> materialization_intent agent_result" where
  "materialize_observation e payload team proposal_id title =
     (if jget payload ''is_official_metric'' \<noteq> JBool False
      then Inl (ValidationError ''CEO observations cannot become formal metrics'')
      else case require_text_value (jget payload ''summary'') ''proposal summary'' 2000 of
        Inl err \<Rightarrow> Inl err
      | Inr summary \<Rightarrow>
     (case opt_require_text (me_model_name e) ''materialization model_name'' 160 of
        Inl err \<Rightarrow> Inl err
      | Inr model_name \<Rightarrow>
     (case opt_require_text (me_model_version e) ''materialization model_version'' 160 of
        Inl err \<Rightarrow> Inl err
      | Inr model_version \<Rightarrow>
          if model_name \<noteq> ''deepseek-v4-flash''
          then Inl (ValidationError ''informal observations require the approved model'')
          else case trusted_evidence_refs (me_evidence_refs e) of
            Inl err \<Rightarrow> Inl err
          | Inr refs \<Rightarrow>
              Inr \<lparr>mn_operation = ''create'', mn_doctype = ''GBOS Informal Observation'',
                   mn_values =
                     [(''subject'', JStr title), (''summary_zh'', JStr summary), (''team'', JStr team),
                      (''evidence_refs'', JList (map (\<lambda>r. JObj [(''evidence_ref'', JStr r),
                                                              (''locator_ref'', JStr r)]) refs)),
                      (''model_name'', JStr model_name), (''model_version'', JStr model_version),
                      (''is_official_metric'', JBool False), (''origin'', JStr ''AI''),
                      (''origin_reference'', JStr proposal_id),
                      (''review_status'', JStr ''AI Draft'')]\<rparr>)))"

definition review_case_payload ::
  "string \<Rightarrow> string \<Rightarrow> string \<Rightarrow> string \<Rightarrow> string \<Rightarrow> int \<Rightarrow> string \<Rightarrow> json \<Rightarrow> json \<Rightarrow> string \<Rightarrow> fields" where
  "review_case_payload title team reviewer subject_type subject_ref revision digest snapshot refs policy =
     [(''title'', JStr title), (''team'', JStr team), (''assigned_reviewer'', JStr reviewer),
      (''subject_doctype'', JStr subject_type), (''subject_name'', JStr subject_ref),
      (''subject_revision'', JInt revision), (''subject_payload_sha256'', JStr digest),
      (''subject_snapshot'', snapshot), (''evidence_refs'', refs), (''policy_version'', JStr policy)]"

definition review_case_intent ::
  "string \<Rightarrow> string \<Rightarrow> string \<Rightarrow> string \<Rightarrow> string \<Rightarrow> int \<Rightarrow> string \<Rightarrow> json \<Rightarrow> string list \<Rightarrow> string \<Rightarrow> string
     \<Rightarrow> materialization_intent" where
  "review_case_intent title team reviewer subject_type subject_ref revision digest snapshot refs policy
       proposal_id =
     (let refs_json = JList (map JStr refs);
          case_payload = review_case_payload title team reviewer subject_type subject_ref revision
            digest snapshot refs_json policy
      in \<lparr>mn_operation = ''create'', mn_doctype = ''GBOS Review Case'',
          mn_values =
            review_case_payload title team reviewer subject_type subject_ref revision digest
              (JStr (dumps snapshot)) (JStr (dumps refs_json)) policy @
            [(''case_payload_sha256'', JStr (frappe_payload_digest (JObj case_payload))),
             (''origin'', JStr ''AI''), (''origin_reference'', JStr proposal_id),
             (''business_status'', JStr ''Pending''), (''review_status'', JStr ''AI Draft'')]\<rparr>)"

definition materialize_review_case ::
  "materialization_envelope \<Rightarrow> materialization_context \<Rightarrow> string \<Rightarrow> string \<Rightarrow> string
     \<Rightarrow> materialization_intent agent_result" where
  "materialize_review_case e c team proposal_id title =
     (case opt_require_text (mc_assigned_reviewer c) ''materialization assigned reviewer'' 256 of
        Inl err \<Rightarrow> Inl err
      | Inr reviewer \<Rightarrow>
     (case require_text_value (JStr (me_subject_type e)) ''materialization subject_type'' 140 of
        Inl err \<Rightarrow> Inl err
      | Inr subject_type \<Rightarrow>
     (case require_text_value (JStr (me_subject_ref e)) ''materialization subject_ref'' 256 of
        Inl err \<Rightarrow> Inl err
      | Inr subject_ref \<Rightarrow>
     if \<not> is_strict_int (me_subject_revision e) \<or> int_of_json (me_subject_revision e) < 1
     then Inl (ValidationError ''materialization subject_revision must be positive'')
     else let snapshot = (case mc_subject_snapshot c of None \<Rightarrow> JNull | Some v \<Rightarrow> thaw_json v);
              snap = fields_of_json snapshot in
     if \<not> is_obj snapshot
     then Inl (ValidationError ''review case requires a controlled subject snapshot'')
     else if \<not> py_eq (jget snap ''doctype'') (JStr subject_type)
          \<or> \<not> py_eq (jget snap ''name'') (JStr subject_ref)
          \<or> \<not> py_eq (jget snap ''revision'') (me_subject_revision e)
     then Inl (ValidationError ''controlled subject snapshot is not bound to the proposal'')
     else case mc_subject_payload_digest c of
        None \<Rightarrow> Inl (ValidationError ''controlled subject snapshot digest does not match'')
      | Some digest \<Rightarrow>
     if frappe_payload_digest snapshot \<noteq> digest
     then Inl (ValidationError ''controlled subject snapshot digest does not match'')
     else case trusted_evidence_refs (me_evidence_refs e) of
        Inl err \<Rightarrow> Inl err
      | Inr refs \<Rightarrow>
     (case opt_require_text (me_policy_version e) ''materialization policy_version'' 140 of
        Inl err \<Rightarrow> Inl err
      | Inr policy \<Rightarrow>
          Inr (review_case_intent title team reviewer subject_type subject_ref
                 (int_of_json (me_subject_revision e)) digest snapshot refs policy proposal_id)))))"

definition materialize_create ::
  "materialization_envelope \<Rightarrow> materialization_context \<Rightarrow> fields \<Rightarrow> materialization_intent agent_result" where
  "materialize_create e c payload =
     (case require_text_value (JStr (mc_team c)) ''materialization team'' 140 of
        Inl err \<Rightarrow> Inl err
      | Inr team \<Rightarrow>
     (case require_text_value (JStr (me_proposal_id e)) ''materialization proposal_id'' 256 of
        Inl err \<Rightarrow> Inl err
      | Inr proposal_id \<Rightarrow>
     (case require_text_value (jget payload ''title'') ''proposal title'' 140 of
        Inl err \<Rightarrow> Inl err
      | Inr title \<Rightarrow>
          if me_action_type e = ''internal.work_item.propose''
          then materialize_work_item e team proposal_id title
          else if me_action_type e = ''internal.ai_draft.propose''
          then materialize_observation e payload team proposal_id title
          else materialize_review_case e c team proposal_id title)))"

definition materialize ::
  "materialization_envelope \<Rightarrow> materialization_context option \<Rightarrow> materialization_intent agent_result" where
  "materialize e context =
     (let document = thaw_json (freeze_json (me_proposal e));
          payload = jget (fields_of_json document) ''payload'' in
      if me_origin e \<noteq> ''AI'' \<or> me_review_status e \<noteq> ''AI Draft''
      then Inl (ValidationError ''materializer only accepts AI Draft proposals'')
      else if me_action_type e \<notin> set allowed_action_types
      then Inl (ValidationError ''materializer rejects non-internal proposal actions'')
      else case reject_unsafe_content document of
        Inl err \<Rightarrow> Inl err
      | Inr _ \<Rightarrow>
     if \<not> is_obj payload then Inl (ValidationError ''materialization proposal payload is required'')
     else if me_action_type e = ''internal.work_item.transition.propose''
     then materialize_transition (fields_of_json payload)
     else case context of
        None \<Rightarrow> Inl (ValidationError ''controlled materialization team is required'')
      | Some c \<Rightarrow>
          materialize_create e c (fields_of_json payload))"

section \<open>Properties\<close>

lemma proposal_post_init_ok:
  assumes "proposal_post_init p = Inr q"
  shows "q = p\<lparr>pr_document := freeze_json (thaw_json (freeze_json (pr_document p)))\<rparr>"
    and "reject_unsafe_content (thaw_json (freeze_json (pr_document p))) = Inr ()"
    and "pr_origin p = ''AI''" and "pr_review_status p = ''AI Draft''" and "1 \<le> pr_task_attempt p"
    and "pr_action_type p \<in> set allowed_action_types"
  using assms by (auto simp: proposal_post_init_def Let_def sum_case_Inr_iff split: if_splits)

lemma proposal_from_execution_ok:
  assumes "proposal_from_execution task result = Inr p"
  shows "pr_site_id p = tk_site_id task" and "pr_task_id p = tk_task_id task"
    and "pr_task_attempt p = tk_attempt task" and "pr_subject_ref p = tk_subject_ref task"
    and "pr_idempotency_key p = proposal_key_text (tk_task_id task) (tk_attempt task)"
    and "pr_invocation_ids p = map mi_invocation_id (xr_invocations result)"
    and "pr_bundle_digest p = canonical_payload_digest
          (bundle_document task (thaw_json (freeze_json (xr_action_proposal result))) (xr_invocations result))"
  using assms
  by (auto simp: proposal_from_execution_def Let_def sum_case_Inr_iff
      dest!: proposal_post_init_ok(1) split: if_splits option.splits)

lemma materialization_from_proposal_ok:
  "\<exists>m. materialization_from_proposal p t = Inr m \<and> mo_status m = MatPending \<and> mo_origin m = ''AI''
     \<and> mo_review_status m = ''AI Draft'' \<and> mo_proposal_id m = pr_proposal_id p \<and> mo_attempt m = 0"
  by (simp add: materialization_from_proposal_def materialization_post_init_def)

text \<open>The idempotency key of a proposal determines the task and the attempt.\<close>

lemma int_text_no_colon: "CHR '':'' \<notin> set (int_text i)"
proof -
  have "CHR '':'' \<notin> set (nat_digits n)" for n
    using nat_digits_digits [of "CHR '':''" n] by (auto simp: is_digit_def in_range_def)
  then show ?thesis by (simp add: int_text_def)
qed

lemma int_text_inj: "int_text i = int_text j \<longleftrightarrow> i = j"
proof -
  have minus: "CHR ''-'' \<notin> set (nat_digits n)" for n
    using nat_digits_digits [of "CHR ''-''" n] by (auto simp: is_digit_def in_range_def)
  have "CHR ''-'' # xs \<noteq> nat_digits n" for xs n
    using minus [of n] by (metis list.set_intros(1))
  then show ?thesis
    by (auto simp: int_text_def split: if_splits) (metis)+
qed

lemma last_separator:
  assumes "c \<notin> set x" and "c \<notin> set y" and "a @ c # x = b @ c # y"
  shows "a = b \<and> x = y"
proof -
  have "takeWhile (\<lambda>d. d \<noteq> c) (rev (u @ c # z)) = rev z" if "c \<notin> set z" for u z :: "'a list"
    using that by (simp add: takeWhile_append)
  from this [OF assms(1), of a] this [OF assms(2), of b] have "rev x = rev y"
    using assms(3) by simp
  with assms(3) show ?thesis by simp
qed

lemma proposal_key_text_inj:
  "proposal_key_text t a = proposal_key_text t' a' \<longleftrightarrow> t = t' \<and> a = a'"
  using last_separator [OF int_text_no_colon int_text_no_colon, of t a t' a']
  by (auto simp: proposal_key_text_def int_text_inj)

lemma json_any_freeze:
  "json_any kp sp (freeze_json v) = json_any kp sp v"
  "json_any_items kp sp (freeze_items xs) = json_any_items kp sp xs"
  "json_any_fields kp sp (freeze_fields kvs) = json_any_fields kp sp kvs"
  by (induction v and xs and kvs rule: freeze_json_freeze_items_freeze_fields.induct) auto

lemma json_any_thaw:
  "json_any kp sp (thaw_json v) = json_any kp sp v"
  "json_any_items kp sp (thaw_items xs) = json_any_items kp sp xs"
  "json_any_fields kp sp (thaw_fields kvs) = json_any_fields kp sp kvs"
  by (induction v and xs and kvs rule: thaw_json_thaw_items_thaw_fields.induct) auto

text \<open>No key and no text anywhere in a document is forbidden.\<close>

definition screened :: "json \<Rightarrow> bool" where
  "screened v = (\<not> key_hit forbidden_key v \<and> \<not> text_hit unsafe_text v)"

lemma screened_any: "screened v \<longleftrightarrow> \<not> json_any forbidden_key unsafe_text v"
  by (simp add: screened_def json_any_iff)

lemma screened_freeze [simp]: "screened (freeze_json v) = screened v"
  by (simp add: screened_any json_any_freeze)

lemma screened_thaw [simp]: "screened (thaw_json v) = screened v"
  by (simp add: screened_any json_any_thaw)

lemma reject_unsafe_screened: "reject_unsafe_content v = Inr u \<longleftrightarrow> screened v"
  by (cases u) (simp add: reject_unsafe_any screened_any)

text \<open>A sufficient condition that evaluates quickly.\<close>

definition plainly_safe :: "string \<Rightarrow> bool" where
  "plainly_safe s = (\<not> forbidden_language s \<and> (\<not> pii_hint s \<or> \<not> pii_shape s))"

lemma screened_plainly:
  assumes "\<not> json_any forbidden_key (\<lambda>s. \<not> plainly_safe s) v"
  shows "screened v"
proof -
  have "unsafe_text s \<Longrightarrow> \<not> plainly_safe s" for s
    using has_direct_pii_needs [of s] has_direct_pii_shape [of s]
    by (auto simp: unsafe_text_def plainly_safe_def)
  then show ?thesis
    using assms by (auto simp: json_any_iff screened_def text_hit_def)
qed

lemma proposal_screened:
  assumes "proposal_from_execution task result = Inr p"
  shows "screened (pr_document p) \<and> pr_origin p = ''AI'' \<and> pr_review_status p = ''AI Draft''
     \<and> 1 \<le> pr_task_attempt p \<and> pr_action_type p \<in> set allowed_action_types"
proof -
  have "\<exists>q. proposal_post_init q = Inr p"
    using assms unfolding proposal_from_execution_def Let_def
    by (auto simp: sum_case_Inr_iff split: if_splits option.splits)
  then obtain q where q: "proposal_post_init q = Inr p" ..
  show ?thesis
    using proposal_post_init_ok [OF q] by (simp add: reject_unsafe_screened)
qed

text \<open>The payload a proposal document carries, as the materializer reads it.\<close>

definition proposal_payload :: "materialization_envelope \<Rightarrow> fields" where
  "proposal_payload e = fields_of_json (jget (fields_of_json (thaw_json (freeze_json (me_proposal e)))) ''payload'')"

definition submits_draft :: "fields \<Rightarrow> materialization_intent \<Rightarrow> bool" where
  "submits_draft pl i =
     (set (map fst pl) = {''target_doctype'', ''target_ref'', ''from_review_status'', ''to_review_status''} \<and>
      jget pl ''from_review_status'' = JStr ''AI Draft'' \<and> jget pl ''to_review_status'' = JStr ''Pending'' \<and>
      mn_operation i = ''submit'' \<and> mn_doctype i \<in> {''GBOS Work Item'', ''GBOS Review Case''} \<and>
      jget pl ''target_doctype'' = JStr (mn_doctype i) \<and>
      mn_values i = [(''name'', jget pl ''target_ref''), (''origin'', JStr ''AI''), (''review_status'', JStr ''Pending'')])"

definition creates_draft :: "string \<Rightarrow> string \<Rightarrow> materialization_intent \<Rightarrow> bool" where
  "creates_draft doctype pid i =
     (mn_operation i = ''create'' \<and> mn_doctype i = doctype \<and> jget (mn_values i) ''origin'' = JStr ''AI'' \<and>
      jget (mn_values i) ''review_status'' = JStr ''AI Draft'' \<and> jget (mn_values i) ''origin_reference'' = JStr pid)"

definition reversible_intent :: "materialization_envelope \<Rightarrow> materialization_intent \<Rightarrow> bool" where
  "reversible_intent e i =
     (if me_action_type e = ''internal.work_item.transition.propose'' then submits_draft (proposal_payload e) i
      else creates_draft
        (if me_action_type e = ''internal.work_item.propose'' then ''GBOS Work Item''
         else if me_action_type e = ''internal.ai_draft.propose'' then ''GBOS Informal Observation''
         else ''GBOS Review Case'') (strip (me_proposal_id e)) i)"

lemma require_text_value_ok:
  "require_text_value v n m = Inr t \<Longrightarrow> \<exists>s. v = JStr s \<and> t = strip s \<and> t \<noteq> [] \<and> length t \<le> m"
  by (auto simp: require_text_value_def Let_def split: json.splits if_splits)

lemma materialize_transition_ok:
  assumes "materialize_transition pl = Inr i"
  shows "submits_draft pl i"
proof -
  have g: "keys_are pl [''target_doctype'', ''target_ref'', ''from_review_status'', ''to_review_status'']"
    "jget pl ''target_doctype'' \<in> set [JStr ''GBOS Work Item'', JStr ''GBOS Review Case'']"
    "py_eq (jget pl ''from_review_status'') (JStr ''AI Draft'')"
    "py_eq (jget pl ''to_review_status'') (JStr ''Pending'')"
    "i = \<lparr>mn_operation = ''submit'', mn_doctype = str_of_json (jget pl ''target_doctype''),
          mn_values = [(''name'', jget pl ''target_ref''), (''origin'', JStr ''AI''), (''review_status'', JStr ''Pending'')]\<rparr>"
    using assms unfolding materialize_transition_def Let_def if_Inl_Inr_iff by blast+
  have d: "jget pl ''target_doctype'' = JStr ''GBOS Work Item'' \<or> jget pl ''target_doctype'' = JStr ''GBOS Review Case''"
    using g(2) by simp
  show ?thesis
    unfolding submits_draft_def g(5) using g(1,3,4) d by (elim disjE) (simp_all add: keys_are_def)
qed

lemma materialize_branches_ok:
  "materialize_work_item e team pid title = Inr i \<Longrightarrow> creates_draft ''GBOS Work Item'' pid i"
  "materialize_observation e pl team pid title = Inr i \<Longrightarrow> creates_draft ''GBOS Informal Observation'' pid i"
  "materialize_review_case e c team pid title = Inr i \<Longrightarrow> creates_draft ''GBOS Review Case'' pid i"
  by (auto simp: materialize_work_item_def materialize_observation_def creates_draft_def
      materialize_review_case_def review_case_intent_def review_case_payload_def Let_def
      sum_case_Inr_iff split: if_splits option.splits)

lemma materialize_screened:
  assumes "materialize e c = Inr i"
  shows "screened (me_proposal e)"
  using assms
  by (auto simp: materialize_def Let_def sum_case_Inr_iff reject_unsafe_screened split: if_splits)

lemma materialize_cases:
  assumes "materialize e c = Inr i"
  shows "me_origin e = ''AI'' \<and> me_review_status e = ''AI Draft'' \<and> me_action_type e \<in> set allowed_action_types \<and>
     (if me_action_type e = ''internal.work_item.transition.propose''
      then materialize_transition (proposal_payload e) = Inr i
      else \<exists>c'. c = Some c' \<and> materialize_create e c' (proposal_payload e) = Inr i)"
  using assms
  by (auto simp: materialize_def proposal_payload_def Let_def sum_case_Inr_iff split: if_splits option.splits)

lemma materialize_create_cases:
  assumes "materialize_create e c pl = Inr i"
  obtains team title where
    "if me_action_type e = ''internal.work_item.propose''
     then materialize_work_item e team (strip (me_proposal_id e)) title = Inr i
     else if me_action_type e = ''internal.ai_draft.propose''
     then materialize_observation e pl team (strip (me_proposal_id e)) title = Inr i
     else materialize_review_case e c team (strip (me_proposal_id e)) title = Inr i"
proof -
  obtain team pid title where
    pid: "require_text_value (JStr (me_proposal_id e)) ''materialization proposal_id'' 256 = Inr pid"
    and b: "(if me_action_type e = ''internal.work_item.propose'' then materialize_work_item e team pid title
       else if me_action_type e = ''internal.ai_draft.propose'' then materialize_observation e pl team pid title
       else materialize_review_case e c team pid title) = Inr i"
    using assms unfolding materialize_create_def
    by (simp only: sum_case_Inr_iff) blast
  have "pid = strip (me_proposal_id e)"
    using require_text_value_ok [OF pid] by auto
  then show thesis using b that [of team title] by (auto split: if_splits)
qed

lemma materialize_reversible:
  assumes "materialize e c = Inr i"
  shows "reversible_intent e i"
proof (cases "me_action_type e = ''internal.work_item.transition.propose''")
  case True
  then show ?thesis
    using materialize_cases [OF assms] by (simp add: reversible_intent_def materialize_transition_ok)
next
  case False
  then obtain c' pl where "materialize_create e c' pl = Inr i"
    using materialize_cases [OF assms] by auto
  then show ?thesis
    using False by (rule_tac materialize_create_cases)
      (auto simp: reversible_intent_def dest: materialize_branches_ok split: if_splits)
qed

text \<open>
  C10. The trusted materializer only shapes reversible internal drafts. It accepts an AI proposal in
  state AI Draft with one of the four internal actions and nothing else. A work item, observation or
  review proposal becomes the creation of one AI draft, of the document type of its action, that
  refers back to the proposal. A transition proposal becomes the submission of exactly the document
  its payload names, and only if the payload has the four transition fields, its type is a work item
  or review case, and it asks to go from AI Draft to Pending. No accepted proposal contains, at any
  depth, a forbidden key, forbidden authoritative language or direct personal data.
\<close>

theorem materializer_is_reversible:
  assumes "materialize e c = Inr i" and "pl = proposal_payload e"
  shows "me_origin e = ''AI'' \<and> me_review_status e = ''AI Draft''
       \<and> (if me_action_type e = ''internal.work_item.transition.propose''
          then set (map fst pl) = {''target_doctype'', ''target_ref'', ''from_review_status'', ''to_review_status''}
             \<and> jget pl ''from_review_status'' = JStr ''AI Draft'' \<and> jget pl ''to_review_status'' = JStr ''Pending''
             \<and> mn_operation i = ''submit'' \<and> mn_doctype i \<in> {''GBOS Work Item'', ''GBOS Review Case''}
             \<and> jget pl ''target_doctype'' = JStr (mn_doctype i)
             \<and> mn_values i = [(''name'', jget pl ''target_ref''), (''origin'', JStr ''AI''),
                              (''review_status'', JStr ''Pending'')]
          else (me_action_type e, mn_doctype i) \<in>
               {(''internal.work_item.propose'', ''GBOS Work Item''),
                (''internal.ai_draft.propose'', ''GBOS Informal Observation''),
                (''internal.review_case.propose'', ''GBOS Review Case'')}
             \<and> mn_operation i = ''create'' \<and> jget (mn_values i) ''origin'' = JStr ''AI''
             \<and> jget (mn_values i) ''review_status'' = JStr ''AI Draft''
             \<and> jget (mn_values i) ''origin_reference'' = JStr (strip (me_proposal_id e)))
       \<and> \<not> key_hit forbidden_key (me_proposal e)
       \<and> \<not> text_hit forbidden_language (me_proposal e) \<and> \<not> text_hit has_direct_pii (me_proposal e)"
proof -
  have "\<not> key_hit forbidden_key (me_proposal e)" "\<not> text_hit forbidden_language (me_proposal e)"
    "\<not> text_hit has_direct_pii (me_proposal e)"
    using materialize_screened [OF assms(1)]
    unfolding screened_def by (auto simp: text_hit_def unsafe_text_def)
  then show ?thesis
    using materialize_reversible [OF assms(1)] materialize_cases [OF assms(1)] assms(2)
    unfolding reversible_intent_def submits_draft_def creates_draft_def allowed_action_types_def
    by (simp del: set_map split: if_splits)
qed

definition example_envelope :: materialization_envelope where
  "example_envelope = \<lparr>me_proposal_id = '' ap-x '', me_task_id = ''t'',
     me_processing_purpose = ''sales_follow_up'', me_origin = ''AI'', me_review_status = ''AI Draft'',
     me_action_type = ''internal.work_item.propose'', me_subject_type = ''CRM Deal'', me_subject_ref = ''deal-x'',
     me_subject_revision = JInt 1, me_evidence_refs = [''e''], me_model_name = None,
     me_model_version = None, me_policy_version = None,
     me_proposal = JObj [(''payload'', JObj [(''title'', JStr ''Call back'')])]\<rparr>"

definition example_context :: materialization_context where
  "example_context = \<lparr>mc_team = ''north'', mc_assigned_reviewer = None, mc_subject_snapshot = None,
     mc_subject_payload_digest = None\<rparr>"

lemma example_materialize: "\<exists>i. materialize example_envelope (Some example_context) = Inr i"
proof -
  have "\<not> json_any forbidden_key (\<lambda>s. \<not> plainly_safe s) (me_proposal example_envelope)"
    by code_simp
  then have s: "reject_unsafe_content (thaw_json (freeze_json (me_proposal example_envelope))) = Inr ()"
    using screened_plainly by (simp add: reject_unsafe_screened del: reject_unsafe_content.simps)
  have "\<not> isl (materialize_create example_envelope example_context [(''title'', JStr ''Call back'')])"
    by code_simp
  then have "\<exists>i. materialize_create example_envelope example_context [(''title'', JStr ''Call back'')] = Inr i"
    by (metis isl_def sum.exhaust_sel)
  then show ?thesis
    using s unfolding materialize_def Let_def
    by (simp add: example_envelope_def allowed_action_types_def del: reject_unsafe_content.simps)
qed

definition example_transition :: materialization_envelope where
  "example_transition = example_envelope\<lparr>me_action_type := ''internal.work_item.transition.propose'',
     me_proposal := JObj [(''payload'', JObj
       [(''target_doctype'', JStr ''GBOS Work Item''), (''target_ref'', JStr ''WI-x''),
        (''from_review_status'', JStr ''AI Draft''), (''to_review_status'', JStr ''Pending'')])]\<rparr>"

lemma example_submit: "\<exists>i. materialize example_transition None = Inr i"
proof -
  have "\<not> json_any forbidden_key (\<lambda>s. \<not> plainly_safe s) (me_proposal example_transition)"
    by code_simp
  then have s: "reject_unsafe_content (thaw_json (freeze_json (me_proposal example_transition))) = Inr ()"
    using screened_plainly by (simp add: reject_unsafe_screened del: reject_unsafe_content.simps)
  then show ?thesis
    unfolding materialize_def Let_def
    by (simp add: example_transition_def example_envelope_def allowed_action_types_def
        materialize_transition_def keys_are_def del: reject_unsafe_content.simps)
qed

theorem materializer_is_reversible_witness:
  "(\<exists>i. materialize example_envelope (Some example_context) = Inr i \<and> mn_operation i = ''create''
      \<and> mn_doctype i = ''GBOS Work Item'' \<and> jget (mn_values i) ''origin_reference'' = JStr ''ap-x'')
   \<and> (\<exists>i. materialize example_transition None = Inr i \<and> mn_operation i = ''submit''
      \<and> jget (mn_values i) ''name'' = JStr ''WI-x'')"
proof -
  obtain i j where i: "materialize example_envelope (Some example_context) = Inr i"
    and j: "materialize example_transition None = Inr j"
    using example_materialize example_submit by blast
  have "strip '' ap-x '' = ''ap-x''" by code_simp
  then show ?thesis
    using i j materializer_is_reversible [OF i refl] materializer_is_reversible [OF j refl]
    by (auto simp: example_envelope_def example_transition_def proposal_payload_def)
qed

end
