(* ===== verification/Agent_Tasks.thy ===== *)
theory Agent_Tasks
  imports Agent_Proposals
begin

text \<open>
  The task repository of the agent runtime
  (\<open>InMemoryAgentTaskRepository\<close> of \<open>services/agent_runtime/repository.py\<close>): its ten dictionaries as
  one record and one definition per method. Every method runs under the repository lock, so an
  interleaving of workers is a sequence of calls.
\<close>

section \<open>State\<close>

record agent_repo =
  ar_tasks :: "agent_task keyed"
  ar_payloads :: "json keyed"
  ar_timeline :: "timeline_event list keyed"
  ar_idempotency :: "agent_task keyed"
  ar_dead_letters :: "dead_letter keyed"
  ar_proposals :: "((string \<times> string \<times> int) \<times> proposal_record) list"
  ar_proposal_idempotency :: "proposal_record keyed"
  ar_materializations :: "((string \<times> string \<times> int) \<times> materialization_record) list"
  ar_invocations :: "model_invocation keyed"
  ar_invocation_idempotency :: "model_invocation keyed"

definition agent_repo_new :: agent_repo where
  "agent_repo_new = \<lparr>ar_tasks = [], ar_payloads = [], ar_timeline = [], ar_idempotency = [],
     ar_dead_letters = [], ar_proposals = [], ar_proposal_idempotency = [], ar_materializations = [],
     ar_invocations = [], ar_invocation_idempotency = []\<rparr>"

type_synonym 'a agent_call = "(agent_error, 'a, agent_repo) call"

section \<open>Private helpers\<close>

definition store_task :: "agent_task \<Rightarrow> agent_repo \<Rightarrow> agent_repo" where
  "store_task t r =
     r\<lparr>ar_tasks := AList.update (tk_site_id t, tk_task_id t) t (ar_tasks r),
       ar_idempotency := AList.update (tk_site_id t, tk_idempotency_key t) t (ar_idempotency r)\<rparr>"

definition append_event ::
  "agent_task \<Rightarrow> string \<Rightarrow> instant \<Rightarrow> string \<Rightarrow> string option \<Rightarrow> agent_repo \<Rightarrow> unit agent_call" where
  "append_event t event_type occurred_at actor_type actor_ref r =
     (let key = (tk_site_id t, tk_task_id t) in
      case map_of (ar_timeline r) key of
        None \<Rightarrow> (Inl KeyError, r)
      | Some events \<Rightarrow>
          (Inr (), r\<lparr>ar_timeline := AList.update key
             (events @ [\<lparr>ev_task_id = tk_task_id t, ev_site_id = tk_site_id t,
                         ev_sequence = int (length events), ev_event_type = event_type,
                         ev_occurred_at = occurred_at, ev_actor_type = actor_type,
                         ev_actor_ref = actor_ref, ev_causation_id = tk_causation_id t,
                         ev_correlation_id = tk_correlation_id t\<rparr>])
             (ar_timeline r)\<rparr>))"

definition lease_active :: "agent_task \<Rightarrow> bool" where
  "lease_active t = (tk_status t \<in> {LEASED, RUNNING})"

definition lease_expired :: "instant \<Rightarrow> agent_task \<Rightarrow> bool" where
  "lease_expired now t =
     (lease_active t \<and> (case tk_lease_expires_at t of None \<Rightarrow> False | Some e \<Rightarrow> e \<le> now))"

definition require_live_lease ::
  "string \<Rightarrow> string \<Rightarrow> string \<Rightarrow> int \<Rightarrow> instant \<Rightarrow> agent_repo \<Rightarrow> agent_task agent_result" where
  "require_live_lease site_id task_id worker_id expected_attempt now r =
     (case map_of (ar_tasks r) (site_id, task_id) of
        None \<Rightarrow> Inl (TaskNotFound ''task does not exist in this site'')
      | Some t \<Rightarrow>
          if \<not> lease_active t \<or> tk_lease_owner t \<noteq> Some worker_id
             \<or> tk_lease_expires_at t = None
             \<or> (case tk_lease_expires_at t of None \<Rightarrow> False | Some e \<Rightarrow> e \<le> now)
             \<or> tk_attempt t \<noteq> expected_attempt
          then Inl (LeaseConflict ''worker does not own a live lease for the expected attempt'')
          else Inr t)"

definition claim_candidates :: "string \<Rightarrow> instant \<Rightarrow> agent_repo \<Rightarrow> agent_task list" where
  "claim_candidates site_id now r =
     filter (\<lambda>t. tk_site_id t = site_id \<and>
                 (tk_status t \<in> {QUEUED, RECHECK} \<and> tk_due_at t \<le> now \<or> lease_expired now t))
       (map snd (ar_tasks r))"

definition exhausted_tasks :: "string \<Rightarrow> instant \<Rightarrow> agent_repo \<Rightarrow> agent_task list" where
  "exhausted_tasks site_id now r =
     filter (\<lambda>t. tk_site_id t = site_id \<and> lease_expired now t \<and> tk_max_attempts t \<le> tk_attempt t)
       (map snd (ar_tasks r))"

definition claim_order :: "agent_task \<Rightarrow> int \<times> instant \<times> instant \<times> string" where
  "claim_order t = (- tk_priority t, tk_due_at t, tk_created_at t, tk_task_id t)"

definition move_to_dead_letter ::
  "instant \<Rightarrow> failure_classification \<Rightarrow> string \<Rightarrow> string option \<Rightarrow> agent_task \<Rightarrow> agent_repo
     \<Rightarrow> agent_task agent_call" where
  "move_to_dead_letter now classification reason_code actor_ref t r =
     (let terminal = t\<lparr>tk_status := DEAD_LETTER, tk_failure_classification := Some classification,
                       tk_lease_owner := None, tk_lease_expires_at := None, tk_updated_at := now\<rparr>;
          r1 = store_task terminal r;
          r2 = r1\<lparr>ar_dead_letters := AList.update (tk_site_id t, tk_task_id t)
                 \<lparr>dl_task_id = tk_task_id t, dl_site_id = tk_site_id t, dl_attempts = tk_attempt t,
                  dl_failure_classification = classification, dl_reason_code = reason_code,
                  dl_dead_lettered_at = now, dl_causation_id = tk_causation_id t,
                  dl_correlation_id = tk_correlation_id t\<rparr> (ar_dead_letters r1)\<rparr>
      in and_then (append_event terminal ''dead_lettered'' now
             (if actor_ref \<noteq> None then ''worker'' else ''system'') actor_ref r2)
           (\<lambda>_ r3. (Inr terminal, r3)))"

definition reap_expired :: "string \<Rightarrow> instant \<Rightarrow> agent_repo \<Rightarrow> unit agent_call" where
  "reap_expired site_id now r =
     call_each (move_to_dead_letter now INTERNAL ''lease_expired_max_attempts'' None)
       (sort_key tk_task_id (exhausted_tasks site_id now r)) r"

definition require_aware :: "datetime \<Rightarrow> string \<Rightarrow> unit agent_result" where
  "require_aware v name =
     (if \<not> is_aware v then Inl (ValidationError (name @ '' must be timezone-aware'')) else Inr ())"

section \<open>Submitting\<close>

definition new_task :: "task_submission \<Rightarrow> instant \<Rightarrow> agent_task" where
  "new_task s now =
     \<lparr>tk_task_id = sub_task_id s, tk_site_id = sub_site_id s,
      tk_processing_purpose = sub_processing_purpose s,
      tk_idempotency_key = sub_idempotency_key s, tk_payload_digest = sub_payload_digest s,
      tk_agent_type = sub_agent_type s, tk_subject_type = sub_subject_type s,
      tk_subject_ref = sub_subject_ref s, tk_status = QUEUED,
      tk_due_at = instant_of (sub_due_at s), tk_priority = sub_priority s, tk_attempt = 0,
      tk_max_attempts = sub_max_attempts s, tk_causation_id = sub_causation_id s,
      tk_correlation_id = sub_correlation_id s, tk_parent_task_id = sub_parent_task_id s,
      tk_output_artifact_refs = [], tk_failure_classification = None, tk_lease_owner = None,
      tk_lease_expires_at = None, tk_created_at = now, tk_updated_at = now\<rparr>"

definition created_event :: "task_submission \<Rightarrow> instant \<Rightarrow> timeline_event" where
  "created_event s now =
     \<lparr>ev_task_id = sub_task_id s, ev_site_id = sub_site_id s, ev_sequence = 0,
      ev_event_type = ''created'', ev_occurred_at = now, ev_actor_type = ''system'',
      ev_actor_ref = None, ev_causation_id = sub_causation_id s,
      ev_correlation_id = sub_correlation_id s\<rparr>"

definition enqueue :: "task_submission \<Rightarrow> datetime \<Rightarrow> agent_repo \<Rightarrow> agent_task agent_call" where
  "enqueue s now r =
     (case require_aware now ''now'' of
        Inl e \<Rightarrow> (Inl e, r)
      | Inr _ \<Rightarrow>
     (let key = (sub_site_id s, sub_task_id s);
          ikey = (sub_site_id s, sub_idempotency_key s) in
      case map_of (ar_idempotency r) ikey of
        Some existing \<Rightarrow>
          if tk_payload_digest existing \<noteq> sub_payload_digest s
          then (Inl (IdempotencyConflict ''idempotency key was already used with a different submission''), r)
          else (Inr existing, r)
      | None \<Rightarrow>
          if (case sub_parent_task_id s of
                None \<Rightarrow> False
              | Some parent \<Rightarrow> map_of (ar_tasks r) (sub_site_id s, parent) = None)
          then (Inl (ValidationError ''parent task does not exist in this site''), r)
          else if map_of (ar_tasks r) key \<noteq> None
          then (Inl (ValidationError ''task_id already exists with another request''), r)
          else let t = new_task s (instant_of now) in
            (Inr t,
             r\<lparr>ar_tasks := AList.update key t (ar_tasks r),
               ar_payloads := AList.update key (JObj (sub_payload s)) (ar_payloads r),
               ar_idempotency := AList.update ikey t (ar_idempotency r),
               ar_timeline := AList.update key
                 [created_event s (instant_of now)] (ar_timeline r)\<rparr>)))"

section \<open>Claiming\<close>

definition claim_guard :: "string \<Rightarrow> datetime \<Rightarrow> int \<Rightarrow> unit agent_result" where
  "claim_guard worker_id now lease_duration =
     (case require_aware now ''now'' of
        Inl e \<Rightarrow> Inl e
      | Inr _ \<Rightarrow>
          if worker_id = [] then Inl (ValidationError ''worker_id is required'')
          else if lease_duration \<le> 0 then Inl (ValidationError ''lease_duration must be positive'')
          else Inr ())"

definition take_lease :: "task_status \<Rightarrow> string \<Rightarrow> instant \<Rightarrow> int \<Rightarrow> agent_task \<Rightarrow> agent_task" where
  "take_lease status worker_id now lease_duration t =
     t\<lparr>tk_status := status, tk_attempt := tk_attempt t + 1, tk_lease_owner := Some worker_id,
       tk_lease_expires_at := Some (now + lease_duration), tk_updated_at := now\<rparr>"

definition claim ::
  "string \<Rightarrow> string \<Rightarrow> datetime \<Rightarrow> int \<Rightarrow> agent_repo \<Rightarrow> agent_task option agent_call" where
  "claim site_id worker_id now lease_duration r =
     (case claim_guard worker_id now lease_duration of
        Inl e \<Rightarrow> (Inl e, r)
      | Inr _ \<Rightarrow>
     and_then (reap_expired site_id (instant_of now) r) (\<lambda>_ r1.
       let candidates = claim_candidates site_id (instant_of now) r1 in
       if candidates = [] then (Inr None, r1)
       else let claimed = take_lease LEASED worker_id (instant_of now) lease_duration
                  (arg_min_list claim_order candidates) in
            and_then (append_event claimed ''leased'' (instant_of now) ''worker'' (Some worker_id)
                        (store_task claimed r1))
              (\<lambda>_ r2. (Inr (Some claimed), r2))))"

definition claim_for_execution ::
  "string \<Rightarrow> string \<Rightarrow> datetime \<Rightarrow> int \<Rightarrow> agent_repo \<Rightarrow> agent_task_claim option agent_call" where
  "claim_for_execution site_id worker_id now lease_duration r =
     (case claim_guard worker_id now lease_duration of
        Inl e \<Rightarrow> (Inl e, r)
      | Inr _ \<Rightarrow>
     and_then (reap_expired site_id (instant_of now) r) (\<lambda>_ r1.
       let candidates = claim_candidates site_id (instant_of now) r1 in
       if candidates = [] then (Inr None, r1)
       else let current = arg_min_list claim_order candidates in
       case map_of (ar_payloads r1) (tk_site_id current, tk_task_id current) of
         None \<Rightarrow> (Inl KeyError, r1)
       | Some payload_value \<Rightarrow>
           if \<not> is_obj payload_value then (Inl (ValidationError ''task payload is unavailable''), r1)
           else case task_payload_from_mapping (fields_of_json payload_value) of
             Inl e \<Rightarrow> (Inl e, r1)
           | Inr payload \<Rightarrow>
               let running = take_lease RUNNING worker_id (instant_of now) lease_duration current in
               and_then (append_event running ''leased'' (instant_of now) ''worker'' (Some worker_id)
                           (store_task running r1)) (\<lambda>_ r2.
               and_then (append_event running ''running'' (instant_of now) ''worker'' (Some worker_id) r2)
                 (\<lambda>_ r3. (Inr (Some \<lparr>cl_metadata = running, cl_payload = payload\<rparr>), r3)))))"

section \<open>Working under a lease\<close>

definition start ::
  "string \<Rightarrow> string \<Rightarrow> string \<Rightarrow> int \<Rightarrow> datetime \<Rightarrow> agent_repo \<Rightarrow> agent_task agent_call" where
  "start site_id task_id worker_id expected_attempt now r =
     (case require_aware now ''now'' of
        Inl e \<Rightarrow> (Inl e, r)
      | Inr _ \<Rightarrow>
     (case require_live_lease site_id task_id worker_id expected_attempt (instant_of now) r of
        Inl e \<Rightarrow> (Inl e, r)
      | Inr current \<Rightarrow>
          if tk_status current \<noteq> LEASED
          then (Inl (LeaseConflict ''task must be leased before it can start''), r)
          else let running = current\<lparr>tk_status := RUNNING, tk_updated_at := instant_of now\<rparr> in
               and_then (append_event running ''running'' (instant_of now) ''worker'' (Some worker_id)
                           (store_task running r))
                 (\<lambda>_ r1. (Inr running, r1))))"

definition heartbeat ::
  "string \<Rightarrow> string \<Rightarrow> string \<Rightarrow> int \<Rightarrow> datetime \<Rightarrow> int \<Rightarrow> agent_repo \<Rightarrow> agent_task agent_call" where
  "heartbeat site_id task_id worker_id expected_attempt now lease_duration r =
     (case require_aware now ''now'' of
        Inl e \<Rightarrow> (Inl e, r)
      | Inr _ \<Rightarrow>
     if lease_duration \<le> 0 then (Inl (ValidationError ''lease_duration must be positive''), r)
     else case require_live_lease site_id task_id worker_id expected_attempt (instant_of now) r of
        Inl e \<Rightarrow> (Inl e, r)
      | Inr current \<Rightarrow>
          let updated = current\<lparr>tk_lease_expires_at := Some (instant_of now + lease_duration),
                                tk_updated_at := instant_of now\<rparr> in
          (Inr updated, store_task updated r))"

definition complete_task :: "instant \<Rightarrow> string list \<Rightarrow> agent_task \<Rightarrow> agent_task" where
  "complete_task now refs t =
     t\<lparr>tk_status := SUCCEEDED, tk_output_artifact_refs := refs, tk_lease_owner := None,
       tk_lease_expires_at := None, tk_updated_at := now\<rparr>"

definition succeed ::
  "string \<Rightarrow> string \<Rightarrow> string \<Rightarrow> int \<Rightarrow> datetime \<Rightarrow> string list \<Rightarrow> agent_repo \<Rightarrow> agent_task agent_call" where
  "succeed site_id task_id worker_id expected_attempt now output_artifact_refs r =
     (case require_aware now ''now'' of
        Inl e \<Rightarrow> (Inl e, r)
      | Inr _ \<Rightarrow>
     if length output_artifact_refs \<noteq> card (set output_artifact_refs)
     then (Inl (ValidationError ''output_artifact_refs must be unique''), r)
     else case require_live_lease site_id task_id worker_id expected_attempt (instant_of now) r of
        Inl e \<Rightarrow> (Inl e, r)
      | Inr current \<Rightarrow>
          let completed = complete_task (instant_of now) output_artifact_refs current in
          and_then (append_event completed ''succeeded'' (instant_of now) ''worker'' (Some worker_id)
                      (store_task completed r))
            (\<lambda>_ r1. (Inr completed, r1)))"

definition fail_task ::
  "string \<Rightarrow> string \<Rightarrow> string \<Rightarrow> int \<Rightarrow> datetime \<Rightarrow> datetime \<Rightarrow> failure_classification \<Rightarrow> agent_repo
     \<Rightarrow> agent_task agent_call" where
  "fail_task site_id task_id worker_id expected_attempt now retry_at classification r =
     (case require_aware now ''now'' of
        Inl e \<Rightarrow> (Inl e, r)
      | Inr _ \<Rightarrow>
     (case require_aware retry_at ''retry_at'' of
        Inl e \<Rightarrow> (Inl e, r)
      | Inr _ \<Rightarrow>
     if instant_of retry_at \<le> instant_of now
     then (Inl (ValidationError ''retry_at must be later than now''), r)
     else case require_live_lease site_id task_id worker_id expected_attempt (instant_of now) r of
        Inl e \<Rightarrow> (Inl e, r)
      | Inr current \<Rightarrow>
          if tk_max_attempts current \<le> tk_attempt current
          then move_to_dead_letter (instant_of now) classification ''max_attempts_exhausted''
                 (Some worker_id) current r
          else let retry = current\<lparr>tk_status := RECHECK, tk_due_at := instant_of retry_at,
                     tk_failure_classification := Some classification, tk_lease_owner := None,
                     tk_lease_expires_at := None, tk_updated_at := instant_of now\<rparr> in
               and_then (append_event retry ''recheck_scheduled'' (instant_of now) ''worker''
                           (Some worker_id) (store_task retry r))
                 (\<lambda>_ r1. (Inr retry, r1))))"

section \<open>Completing with a proposal\<close>

definition append_task_invocation ::
  "agent_task \<Rightarrow> proposal_record \<Rightarrow> model_invocation \<Rightarrow> agent_repo \<Rightarrow> model_invocation agent_call" where
  "append_task_invocation task proposal record r =
     (if mi_site_id record \<noteq> tk_site_id task \<or> mi_request_id record \<noteq> tk_task_id task
         \<or> ir_evidence_refs (mi_references record) \<noteq> pr_evidence_refs proposal
         \<or> mi_external_send_count record \<noteq> 0 \<or> mi_tool_call_count record \<noteq> 0
      then (Inl (ValidationError ''model invocation is not bound to the task proposal''), r)
      else let ik = (mi_site_id record, mi_idempotency_key record);
               pk = (mi_site_id record, mi_invocation_id record) in
           case map_of (ar_invocation_idempotency r) ik of
             Some existing \<Rightarrow>
               if existing \<noteq> record
               then (Inl (IdempotencyConflict
                      ''model invocation idempotency key was reused with different metadata''), r)
               else (Inr record, r)
           | None \<Rightarrow>
               if map_of (ar_invocations r) pk \<noteq> None
               then (Inl (IdempotencyConflict
                      ''model invocation id was reused with different metadata''), r)
               else (Inr record,
                     r\<lparr>ar_invocations := AList.update pk record (ar_invocations r),
                       ar_invocation_idempotency :=
                         AList.update ik record (ar_invocation_idempotency r)\<rparr>))"

text \<open>Dataclass equality of two proposals compares their documents as Python mappings.\<close>

definition same_proposal :: "proposal_record \<Rightarrow> proposal_record \<Rightarrow> bool" where
  "same_proposal p q = (py_eq (pr_document p) (pr_document q) \<and> p\<lparr>pr_document := pr_document q\<rparr> = q)"

definition append_proposal :: "proposal_record \<Rightarrow> agent_repo \<Rightarrow> unit agent_call" where
  "append_proposal p r =
     (let ik = (pr_site_id p, pr_idempotency_key p) in
      case map_of (ar_proposal_idempotency r) ik of
        Some existing \<Rightarrow>
          if \<not> same_proposal existing p
          then (Inl (IdempotencyConflict
                 ''proposal idempotency key was reused with different metadata''), r)
          else (Inr (), r)
      | None \<Rightarrow>
          if list_ex (\<lambda>q. pr_site_id q = pr_site_id p \<and> pr_proposal_id q = pr_proposal_id p)
               (map snd (ar_proposals r))
          then (Inl (IdempotencyConflict ''proposal id was reused with different metadata''), r)
          else (Inr (),
                r\<lparr>ar_proposals := AList.update (pr_site_id p, pr_task_id p, pr_task_attempt p) p
                     (ar_proposals r),
                  ar_proposal_idempotency := AList.update ik p (ar_proposal_idempotency r)\<rparr>))"

definition validate_replayed_invocations :: "model_invocation list \<Rightarrow> agent_repo \<Rightarrow> unit agent_result" where
  "validate_replayed_invocations records r =
     check_all (\<lambda>record.
       if map_of (ar_invocations r) (mi_site_id record, mi_invocation_id record) \<noteq> Some record
       then Inl (IdempotencyConflict ''completed task attempt was replayed with different invocations'')
       else Inr ()) records"

definition replay_completion ::
  "string \<times> string \<times> int \<Rightarrow> agent_task \<Rightarrow> proposal_record \<Rightarrow> proposal_record \<Rightarrow> execution_result \<Rightarrow> agent_repo
     \<Rightarrow> agent_task agent_result" where
  "replay_completion proposal_key task proposal existing result r =
     (if pr_bundle_digest existing \<noteq> pr_bundle_digest proposal
      then Inl (IdempotencyConflict
             ''completed task attempt was replayed with a different proposal bundle'')
      else case validate_replayed_invocations (xr_invocations result) r of
        Inl e \<Rightarrow> Inl e
      | Inr _ \<Rightarrow>
          if tk_status task \<noteq> SUCCEEDED \<or> tk_output_artifact_refs task \<noteq> [pr_proposal_id proposal]
             \<or> (case map_of (ar_materializations r) proposal_key of
                  None \<Rightarrow> True
                | Some m \<Rightarrow> mo_origin m \<noteq> ''AI'' \<or> mo_review_status m \<noteq> ''AI Draft'')
          then Inl (IdempotencyConflict ''proposal exists without its completed task fence'')
          else Inr task)"

text \<open>The body of the \<open>try\<close> block, before any rollback.\<close>

definition completion_body ::
  "string \<times> string \<times> int \<Rightarrow> agent_task \<Rightarrow> proposal_record \<Rightarrow> string \<Rightarrow> instant \<Rightarrow> execution_result \<Rightarrow> agent_repo
     \<Rightarrow> agent_task agent_call" where
  "completion_body proposal_key current proposal worker_id now result r =
     and_then (call_each (append_task_invocation current proposal) (xr_invocations result) r) (\<lambda>_ r1.
     and_then (append_proposal proposal r1) (\<lambda>_ r2.
     case materialization_from_proposal proposal now of
       Inl e \<Rightarrow> (Inl e, r2)
     | Inr m \<Rightarrow>
         let r3 = r2\<lparr>ar_materializations :=
               AList.update proposal_key m (ar_materializations r2)\<rparr>;
             completed = complete_task now [pr_proposal_id proposal] current in
         and_then (append_event completed ''succeeded'' now ''worker'' (Some worker_id)
                     (store_task completed r3))
           (\<lambda>_ r4. (Inr completed, r4))))"

definition complete_with_proposal ::
  "string \<Rightarrow> string \<Rightarrow> string \<Rightarrow> int \<Rightarrow> datetime \<Rightarrow> execution_result \<Rightarrow> agent_repo
     \<Rightarrow> agent_task agent_call" where
  "complete_with_proposal site_id task_id worker_id expected_attempt now result r =
     (case require_aware now ''now'' of
        Inl e \<Rightarrow> (Inl e, r)
      | Inr _ \<Rightarrow>
     (case map_of (ar_tasks r) (site_id, task_id) of
        None \<Rightarrow> (Inl (TaskNotFound ''task does not exist in this site''), r)
      | Some task \<Rightarrow>
     if tk_attempt task \<noteq> expected_attempt
     then (Inl (LeaseConflict ''worker does not own a live lease for the expected attempt''), r)
     else case proposal_from_execution task result of
        Inl e \<Rightarrow> (Inl e, r)
      | Inr proposal \<Rightarrow>
     (case map_of (ar_proposals r) (site_id, task_id, expected_attempt) of
        Some existing \<Rightarrow> (replay_completion (site_id, task_id, expected_attempt) task proposal existing
                            result r, r)
      | None \<Rightarrow>
     (case require_live_lease site_id task_id worker_id expected_attempt (instant_of now) r of
        Inl e \<Rightarrow> (Inl e, r)
      | Inr current \<Rightarrow>
          if tk_status current \<noteq> RUNNING
          then (Inl (LeaseConflict ''proposal completion requires a running task''), r)
          else case completion_body (site_id, task_id, expected_attempt) current proposal worker_id
                 (instant_of now) result r of
            (Inl e, failed) \<Rightarrow>
              (Inl e, failed\<lparr>ar_tasks := ar_tasks r, ar_idempotency := ar_idempotency r,
                 ar_timeline := ar_timeline r, ar_proposals := ar_proposals r,
                 ar_proposal_idempotency := ar_proposal_idempotency r,
                 ar_materializations := ar_materializations r, ar_invocations := ar_invocations r,
                 ar_invocation_idempotency := ar_invocation_idempotency r\<rparr>)
          | (Inr t, r') \<Rightarrow> (Inr t, r')))))"

section \<open>Reading\<close>

definition get_task :: "string \<Rightarrow> string \<Rightarrow> agent_repo \<Rightarrow> agent_task option" where
  "get_task site_id task_id r = map_of (ar_tasks r) (site_id, task_id)"

definition task_timeline :: "string \<Rightarrow> string \<Rightarrow> agent_repo \<Rightarrow> timeline_event list" where
  "task_timeline site_id task_id r =
     (case map_of (ar_timeline r) (site_id, task_id) of None \<Rightarrow> [] | Some es \<Rightarrow> es)"

definition get_dead_letter :: "string \<Rightarrow> string \<Rightarrow> agent_repo \<Rightarrow> dead_letter option" where
  "get_dead_letter site_id task_id r = map_of (ar_dead_letters r) (site_id, task_id)"

definition get_proposal :: "string \<Rightarrow> string \<Rightarrow> int \<Rightarrow> agent_repo \<Rightarrow> proposal_record option" where
  "get_proposal site_id task_id attempt r = map_of (ar_proposals r) (site_id, task_id, attempt)"

definition get_materialization ::
  "string \<Rightarrow> string \<Rightarrow> int \<Rightarrow> agent_repo \<Rightarrow> materialization_record option" where
  "get_materialization site_id task_id attempt r =
     map_of (ar_materializations r) (site_id, task_id, attempt)"

definition task_invocations :: "string \<Rightarrow> agent_repo \<Rightarrow> model_invocation list" where
  "task_invocations site_id r =
     sort_key (\<lambda>m. (instant_of (mi_started_at m), mi_invocation_id m))
       (filter (\<lambda>m. mi_site_id m = site_id) (map snd (ar_invocations r)))"

end
