(* ===== verification/Agent_Task_Machine.thy ===== *)
theory Agent_Task_Machine
  imports Agent_Tasks
begin

text \<open>
  The abstract life of one agent task: which moves a task can make and what they keep. The
  repository refines it (\<open>Agent_Task_Invariants\<close>): every call changes every stored task by such moves
  only.
\<close>

inductive task_move :: "agent_task \<Rightarrow> agent_task \<Rightarrow> bool" where
  mv_lease:
    "tk_status t \<in> {QUEUED, RECHECK} \<or> lease_active t \<Longrightarrow> tk_attempt t < tk_max_attempts t \<Longrightarrow>
     st \<in> {LEASED, RUNNING} \<Longrightarrow> task_move t (take_lease st w now d t)"
| mv_start:
    "tk_status t = LEASED \<Longrightarrow> task_move t (t\<lparr>tk_status := RUNNING, tk_updated_at := now\<rparr>)"
| mv_heartbeat:
    "lease_active t \<Longrightarrow> task_move t (t\<lparr>tk_lease_expires_at := Some e, tk_updated_at := now\<rparr>)"
| mv_succeed:
    "lease_active t \<Longrightarrow> task_move t (complete_task now refs t)"
| mv_retry:
    "lease_active t \<Longrightarrow> tk_attempt t < tk_max_attempts t \<Longrightarrow>
     task_move t (t\<lparr>tk_status := RECHECK, tk_due_at := due, tk_failure_classification := Some c,
                    tk_lease_owner := None, tk_lease_expires_at := None, tk_updated_at := now\<rparr>)"
| mv_dead:
    "lease_active t \<Longrightarrow> tk_max_attempts t \<le> tk_attempt t \<Longrightarrow>
     task_move t (t\<lparr>tk_status := DEAD_LETTER, tk_failure_classification := Some c,
                    tk_lease_owner := None, tk_lease_expires_at := None, tk_updated_at := now\<rparr>)"

definition task_key :: "agent_task \<Rightarrow> string \<times> string" where
  "task_key t = (tk_site_id t, tk_task_id t)"

definition task_ikey :: "agent_task \<Rightarrow> string \<times> string" where
  "task_ikey t = (tk_site_id t, tk_idempotency_key t)"

text \<open>What a move never changes.\<close>

definition same_identity :: "agent_task \<Rightarrow> agent_task \<Rightarrow> bool" where
  "same_identity t t' =
     (task_key t' = task_key t \<and> task_ikey t' = task_ikey t \<and> tk_payload_digest t' = tk_payload_digest t \<and>
      tk_max_attempts t' = tk_max_attempts t \<and> tk_priority t' = tk_priority t \<and>
      tk_created_at t' = tk_created_at t \<and> tk_subject_ref t' = tk_subject_ref t \<and>
      tk_causation_id t' = tk_causation_id t \<and> tk_correlation_id t' = tk_correlation_id t)"

lemma same_identity_refl [simp]: "same_identity t t"
  by (simp add: same_identity_def)

lemma same_identity_trans [trans]: "same_identity a b \<Longrightarrow> same_identity b c \<Longrightarrow> same_identity a c"
  by (auto simp: same_identity_def)

lemma task_move_identity: "task_move t t' \<Longrightarrow> same_identity t t'"
  by (induction rule: task_move.induct)
    (auto simp: same_identity_def task_key_def task_ikey_def take_lease_def complete_task_def)

lemma task_moves_identity: "task_move\<^sup>*\<^sup>* t t' \<Longrightarrow> same_identity t t'"
  by (induction rule: rtranclp_induct) (auto dest: task_move_identity intro: same_identity_trans)

definition final_status :: "task_status \<Rightarrow> bool" where
  "final_status st = (st \<in> {SUCCEEDED, DEAD_LETTER})"

definition task_wf :: "agent_task \<Rightarrow> bool" where
  "task_wf t =
     (1 \<le> tk_max_attempts t \<and> 0 \<le> tk_attempt t \<and> tk_attempt t \<le> tk_max_attempts t \<and>
      (if lease_active t
       then 1 \<le> tk_attempt t \<and> tk_lease_owner t \<noteq> None \<and> tk_lease_expires_at t \<noteq> None
       else tk_lease_owner t = None \<and> tk_lease_expires_at t = None) \<and>
      (case tk_status t of
         QUEUED \<Rightarrow> tk_attempt t = 0
       | RECHECK \<Rightarrow> 1 \<le> tk_attempt t \<and> tk_attempt t < tk_max_attempts t
       | SUCCEEDED \<Rightarrow> 1 \<le> tk_attempt t
       | DEAD_LETTER \<Rightarrow> tk_attempt t = tk_max_attempts t
       | FAILED \<Rightarrow> False
       | CANCELLED \<Rightarrow> False
       | _ \<Rightarrow> True))"

lemma task_move_wf: "task_move t t' \<Longrightarrow> task_wf t \<Longrightarrow> task_wf t'"
  by (induction rule: task_move.induct)
    (auto simp: task_wf_def take_lease_def complete_task_def lease_active_def split: task_status.splits)

lemma task_move_final: "task_move t t' \<Longrightarrow> \<not> final_status (tk_status t)"
  by (induction rule: task_move.induct) (auto simp: final_status_def lease_active_def)

lemma task_moves_final:
  "task_move\<^sup>*\<^sup>* t t' \<Longrightarrow> final_status (tk_status t) \<Longrightarrow> t' = t"
  by (induction rule: converse_rtranclp_induct) (auto dest: task_move_final)

text \<open>The attempt counter is a fence: a move keeps it together with the lease owner, or drops the
  lease, or raises it.\<close>

lemma task_move_fence:
  "task_move t t' \<Longrightarrow>
     tk_attempt t < tk_attempt t' \<or>
     tk_attempt t' = tk_attempt t \<and> lease_active t \<and>
       (lease_active t' \<and> tk_lease_owner t' = tk_lease_owner t \<or> \<not> lease_active t')"
  by (induction rule: task_move.induct)
    (auto simp: take_lease_def complete_task_def lease_active_def)

lemma task_move_attempt: "task_move t t' \<Longrightarrow> tk_attempt t \<le> tk_attempt t' \<and> tk_attempt t' \<le> tk_attempt t + 1"
  by (induction rule: task_move.induct) (auto simp: take_lease_def complete_task_def)

inductive_cases task_move_from: "task_move t t'"

end
