(* ===== verification/Agent_Task_Invariants.thy ===== *)
theory Agent_Task_Invariants
  imports Agent_Task_Machine
begin

text \<open>
  The invariant of the task repository and the way its states evolve. Each method is shown to keep
  the invariant and to change every stored task by moves of the abstract task machine only, to
  append to timelines, to keep dead letters, proposals and invocations, and to leave other sites
  alone.
\<close>

declare split_paired_All [simp del] split_paired_Ex [simp del]

section \<open>The invariant\<close>

definition proposal_key :: "proposal_record \<Rightarrow> string \<times> string \<times> int" where
  "proposal_key p = (pr_site_id p, pr_task_id p, pr_task_attempt p)"

definition proposal_ikey :: "proposal_record \<Rightarrow> string \<times> string" where
  "proposal_ikey p = (pr_site_id p, pr_idempotency_key p)"

definition tasks_inv :: "agent_repo \<Rightarrow> bool" where
  "tasks_inv r =
     (paired_index task_key task_ikey (ar_tasks r) (ar_idempotency r) \<and>
      distinct_keys (ar_tasks r) \<and>
      (\<forall>k. map_of (ar_timeline r) k = None \<longleftrightarrow> map_of (ar_tasks r) k = None) \<and>
      (\<forall>k. map_of (ar_payloads r) k = None \<longleftrightarrow> map_of (ar_tasks r) k = None) \<and>
      (\<forall>k t. map_of (ar_tasks r) k = Some t \<longrightarrow> task_wf t) \<and>
      (\<forall>k. map_of (ar_dead_letters r) k \<noteq> None \<longleftrightarrow>
         (\<exists>t. map_of (ar_tasks r) k = Some t \<and> tk_status t = DEAD_LETTER)) \<and>
      (\<forall>k es. map_of (ar_timeline r) k = Some es \<longrightarrow>
         es \<noteq> [] \<and> map ev_sequence es = map int [0..<length es]))"

definition proposal_done :: "agent_repo \<Rightarrow> proposal_record \<Rightarrow> bool" where
  "proposal_done r p =
     (pr_idempotency_key p = proposal_key_text (pr_task_id p) (pr_task_attempt p) \<and>
      screened (pr_document p) \<and>
      (\<exists>t. map_of (ar_tasks r) (pr_site_id p, pr_task_id p) = Some t \<and> tk_status t = SUCCEEDED \<and>
           tk_attempt t = pr_task_attempt p \<and> tk_output_artifact_refs t = [pr_proposal_id p]) \<and>
      (\<exists>m. map_of (ar_materializations r) (proposal_key p) = Some m \<and> mo_origin m = ''AI'' \<and>
           mo_review_status m = ''AI Draft'' \<and> mo_proposal_id m = pr_proposal_id p))"

definition proposals_inv :: "agent_repo \<Rightarrow> bool" where
  "proposals_inv r =
     (paired_index proposal_key proposal_ikey (ar_proposals r) (ar_proposal_idempotency r) \<and>
      (\<forall>k p. map_of (ar_proposals r) k = Some p \<longrightarrow> proposal_done r p) \<and>
      (\<forall>k. map_of (ar_materializations r) k = None \<longleftrightarrow> map_of (ar_proposals r) k = None) \<and>
      paired_index (\<lambda>m. (mi_site_id m, mi_invocation_id m)) (\<lambda>m. (mi_site_id m, mi_idempotency_key m))
        (ar_invocations r) (ar_invocation_idempotency r))"

definition repo_inv :: "agent_repo \<Rightarrow> bool" where
  "repo_inv r = (tasks_inv r \<and> proposals_inv r)"

lemma repo_inv_new: "repo_inv agent_repo_new"
  by (simp add: repo_inv_def tasks_inv_def proposals_inv_def agent_repo_new_def)

lemma tasks_invD:
  assumes "tasks_inv r"
  shows "paired_index task_key task_ikey (ar_tasks r) (ar_idempotency r)"
    and "distinct_keys (ar_tasks r)"
    and "map_of (ar_tasks r) k = Some t \<Longrightarrow> task_wf t"
    and "map_of (ar_tasks r) k = Some t \<Longrightarrow> k = task_key t"
    and "map_of (ar_tasks r) k = Some t \<Longrightarrow> \<exists>es. map_of (ar_timeline r) k = Some es"
    and "map_of (ar_tasks r) k = Some t \<Longrightarrow> \<exists>v. map_of (ar_payloads r) k = Some v"
    and "map_of (ar_dead_letters r) k = Some d \<Longrightarrow>
           \<exists>t. map_of (ar_tasks r) k = Some t \<and> tk_status t = DEAD_LETTER"
  using assms unfolding tasks_inv_def
  by (auto dest: paired_indexD(1)) (metis not_None_eq)+

lemma in_tasks_iff:
  assumes "tasks_inv r"
  shows "t \<in> set (map snd (ar_tasks r)) \<longleftrightarrow> map_of (ar_tasks r) (task_key t) = Some t"
proof -
  have "t \<in> set (map snd (ar_tasks r)) \<longleftrightarrow> (\<exists>k. map_of (ar_tasks r) k = Some t)"
    using in_set_dict_iff [OF tasks_invD(2) [OF assms]] by force
  then show ?thesis using tasks_invD(4) [OF assms] by metis
qed

section \<open>Evolution\<close>

definition evolves :: "string \<Rightarrow> agent_repo \<Rightarrow> agent_repo \<Rightarrow> bool" where
  "evolves site r r' =
     ((\<forall>k t. map_of (ar_tasks r) k = Some t \<longrightarrow>
         (\<exists>t'. map_of (ar_tasks r') k = Some t' \<and> task_move\<^sup>*\<^sup>* t t')) \<and>
      (\<forall>s i. prefix (task_timeline s i r) (task_timeline s i r')) \<and>
      map_of (ar_dead_letters r) \<subseteq>\<^sub>m map_of (ar_dead_letters r') \<and>
      map_of (ar_proposals r) \<subseteq>\<^sub>m map_of (ar_proposals r') \<and>
      map_of (ar_materializations r) \<subseteq>\<^sub>m map_of (ar_materializations r') \<and>
      map_of (ar_invocations r) \<subseteq>\<^sub>m map_of (ar_invocations r') \<and>
      (\<forall>s i. s \<noteq> site \<longrightarrow> get_task s i r' = get_task s i r \<and> task_timeline s i r' = task_timeline s i r
             \<and> get_dead_letter s i r' = get_dead_letter s i r))"

lemma evolves_refl [simp]: "evolves site r r"
  by (auto simp: evolves_def)

lemma evolves_trans:
  assumes "evolves site a b" and "evolves site b c"
  shows "evolves site a c"
proof -
  have "\<exists>t''. map_of (ar_tasks c) k = Some t'' \<and> task_move\<^sup>*\<^sup>* t t''" if "map_of (ar_tasks a) k = Some t" for k t
    using assms that unfolding evolves_def by (meson rtranclp_trans)
  then show ?thesis
    using assms unfolding evolves_def by (simp, meson prefix_order.trans map_le_trans)
qed

text \<open>One step of a method: the invariant is kept and the repository evolves.\<close>

definition sound_step :: "string \<Rightarrow> agent_repo \<Rightarrow> agent_repo \<Rightarrow> bool" where
  "sound_step site r r' = (repo_inv r \<longrightarrow> repo_inv r' \<and> evolves site r r')"

lemma sound_step_refl [simp]: "sound_step site r r"
  by (simp add: sound_step_def)

lemma sound_step_trans: "sound_step site a b \<Longrightarrow> sound_step site b c \<Longrightarrow> sound_step site a c"
  by (auto simp: sound_step_def intro: evolves_trans)

section \<open>The private helpers\<close>

lemma store_task_key: "store_task t r =
    r\<lparr>ar_tasks := AList.update (task_key t) t (ar_tasks r),
      ar_idempotency := AList.update (task_ikey t) t (ar_idempotency r)\<rparr>"
  by (simp add: store_task_def task_key_def task_ikey_def)

lemma proposal_done_put:
  assumes "proposal_done r p" and "map_of (ar_tasks r) (task_key t) = Some t" and "task_move t t'"
    and "ar_materializations r' = ar_materializations r"
    and "\<And>k. k \<noteq> task_key t \<Longrightarrow> map_of (ar_tasks r') k = map_of (ar_tasks r) k"
  shows "proposal_done r' p"
proof -
  obtain t0 where t0: "map_of (ar_tasks r) (pr_site_id p, pr_task_id p) = Some t0" "tk_status t0 = SUCCEEDED"
    "tk_attempt t0 = pr_task_attempt p" "tk_output_artifact_refs t0 = [pr_proposal_id p]"
    using assms(1) by (auto simp: proposal_done_def)
  have "(pr_site_id p, pr_task_id p) \<noteq> task_key t"
    using t0 assms(2) task_move_final [OF assms(3)] by (auto simp: final_status_def)
  then have "map_of (ar_tasks r') (pr_site_id p, pr_task_id p) = Some t0"
    using assms(5) t0 by simp
  with t0 show ?thesis
    using assms(1,4) unfolding proposal_done_def by auto
qed

lemma put_task_sound:
  assumes "map_of (ar_tasks r) (task_key t) = Some t" and "task_move t t'"
    and "if tk_status t' = DEAD_LETTER then D = AList.update (task_key t) d (ar_dead_letters r)
         else D = ar_dead_letters r"
  shows "sound_step (tk_site_id t) r ((store_task t' r)\<lparr>ar_dead_letters := D\<rparr>)"
proof -
  let ?r' = "(store_task t' r)\<lparr>ar_dead_letters := D\<rparr>"
  have id: "task_key t' = task_key t" "task_ikey t' = task_ikey t"
    using task_move_identity [OF assms(2)] by (auto simp: same_identity_def)
  have live: "tk_status t \<noteq> DEAD_LETTER"
    using task_move_final [OF assms(2)] by (auto simp: final_status_def)
  have tasks: "ar_tasks ?r' = AList.update (task_key t) t' (ar_tasks r)"
    and idem: "ar_idempotency ?r' = AList.update (task_ikey t) t' (ar_idempotency r)"
    and dl: "ar_dead_letters ?r' = D"
    by (simp_all add: store_task_key id)
  have rest: "ar_timeline ?r' = ar_timeline r" "ar_payloads ?r' = ar_payloads r"
    "ar_proposals ?r' = ar_proposals r" "ar_proposal_idempotency ?r' = ar_proposal_idempotency r"
    "ar_materializations ?r' = ar_materializations r" "ar_invocations ?r' = ar_invocations r"
    "ar_invocation_idempotency ?r' = ar_invocation_idempotency r"
    by (simp_all add: store_task_key)
  have ti: "tasks_inv ?r'" if i: "tasks_inv r"
  proof -
    note d = tasks_invD [OF i]
    have "paired_index task_key task_ikey (ar_tasks ?r') (ar_idempotency ?r')"
      unfolding tasks idem using d(1) assms(1) id by (rule paired_index_replace)
    moreover have "task_wf t'"
      using task_move_wf [OF assms(2)] d(3) [OF assms(1)] .
    moreover have "(map_of D k \<noteq> None) = (\<exists>x. map_of (ar_tasks ?r') k = Some x \<and> tk_status x = DEAD_LETTER)" for k
      using i assms(1,3) live unfolding tasks_inv_def tasks by (auto split: if_splits)
    ultimately show ?thesis
      using i assms(1) unfolding tasks_inv_def rest tasks dl by (auto split: if_splits)
  qed
  moreover have "proposals_inv ?r'" if "proposals_inv r"
    using that proposal_done_put [where r' = ?r', OF _ assms(1,2)] unfolding proposals_inv_def rest
    by (auto simp: tasks)
  moreover have "evolves (tk_site_id t) r ?r'" if i: "tasks_inv r"
  proof -
    have "\<exists>x'. map_of (ar_tasks ?r') k = Some x' \<and> task_move\<^sup>*\<^sup>* x x'"
      if "map_of (ar_tasks r) k = Some x" for k x
      using that assms(1,2) unfolding tasks by auto
    moreover have "map_of (ar_dead_letters r) \<subseteq>\<^sub>m map_of D"
      using assms(1,3) live tasks_invD(7) [OF i, of "task_key t"]
      by (auto simp: map_le_def split: if_splits)
    moreover have "fst k \<noteq> tk_site_id t \<Longrightarrow> map_of D k = map_of (ar_dead_letters r) k" for k
      using assms(3) by (auto simp: task_key_def split: if_splits)
    ultimately show ?thesis
      unfolding evolves_def task_timeline_def get_task_def get_dead_letter_def rest tasks dl
      by (auto simp: task_key_def)
  qed
  ultimately show ?thesis
    by (auto simp: sound_step_def repo_inv_def)
qed

lemma store_task_sound:
  assumes "map_of (ar_tasks r) (task_key t) = Some t" and "task_move t t'" and "tk_status t' \<noteq> DEAD_LETTER"
  shows "sound_step (tk_site_id t) r (store_task t' r)"
  using put_task_sound [OF assms(1,2), of "ar_dead_letters r"] assms(3)
  by (simp add: store_task_def)

lemma append_event_sound:
  assumes "map_of (ar_tasks r) (task_key t) \<noteq> None" and "repo_inv r"
  obtains r' where "append_event t ev now actor ref r = (Inr (), r')"
    and "sound_step (tk_site_id t) r r'" and "ar_tasks r' = ar_tasks r"
    and "ar_payloads r' = ar_payloads r"
proof -
  obtain es where es: "map_of (ar_timeline r) (task_key t) = Some es"
    using assms tasks_invD(5) [of r "task_key t"] by (auto simp: repo_inv_def)
  define e where "e = \<lparr>ev_task_id = tk_task_id t, ev_site_id = tk_site_id t,
    ev_sequence = int (length es), ev_event_type = ev, ev_occurred_at = now, ev_actor_type = actor,
    ev_actor_ref = ref, ev_causation_id = tk_causation_id t, ev_correlation_id = tk_correlation_id t\<rparr>"
  define r' where "r' = r\<lparr>ar_timeline := AList.update (task_key t) (es @ [e]) (ar_timeline r)\<rparr>"
  have call: "append_event t ev now actor ref r = (Inr (), r')"
    using es by (simp add: append_event_def r'_def e_def task_key_def)
  have same: "ar_tasks r' = ar_tasks r" "ar_payloads r' = ar_payloads r"
    "ar_idempotency r' = ar_idempotency r" "ar_dead_letters r' = ar_dead_letters r"
    "ar_proposals r' = ar_proposals r" "ar_proposal_idempotency r' = ar_proposal_idempotency r"
    "ar_materializations r' = ar_materializations r" "ar_invocations r' = ar_invocations r"
    "ar_invocation_idempotency r' = ar_invocation_idempotency r"
    and tl: "ar_timeline r' = AList.update (task_key t) (es @ [e]) (ar_timeline r)"
    by (simp_all add: r'_def)
  have "map ev_sequence es = map int [0..<length es]"
    using assms(2) es by (auto simp: repo_inv_def tasks_inv_def)
  then have seq: "map ev_sequence (es @ [e]) = map int [0..<length (es @ [e])]"
    by (simp add: e_def)
  have "tasks_inv r'"
    using assms seq unfolding repo_inv_def tasks_inv_def same tl by (auto simp del: map_append split: if_splits)
  moreover have "proposals_inv r'"
    using assms(2) by (simp add: repo_inv_def proposals_inv_def same proposal_done_def)
  moreover have "evolves (tk_site_id t) r r'"
    using es unfolding evolves_def task_timeline_def get_task_def get_dead_letter_def same tl
    by (auto simp: task_key_def split: option.splits)
  ultimately show thesis
    using that call same by (auto simp: sound_step_def repo_inv_def)
qed

text \<open>Storing a moved task and recording the event, as most methods do.\<close>

lemma store_and_record:
  assumes "repo_inv r" and "map_of (ar_tasks r) (task_key t) = Some t" and "task_move t t'"
    and "tk_status t' \<noteq> DEAD_LETTER"
  obtains r' where "append_event t' ev now actor ref (store_task t' r) = (Inr (), r')"
    and "sound_step (tk_site_id t) r r'"
    and "ar_tasks r' = AList.update (task_key t) t' (ar_tasks r)"
    and "ar_payloads r' = ar_payloads r"
proof -
  have id: "task_key t' = task_key t" "tk_site_id t' = tk_site_id t"
    using task_move_identity [OF assms(3)] by (auto simp: same_identity_def task_key_def)
  have s: "sound_step (tk_site_id t) r (store_task t' r)"
    using assms(2-4) by (rule store_task_sound)
  then have "repo_inv (store_task t' r)"
    using assms(1) by (simp add: sound_step_def)
  moreover have "map_of (ar_tasks (store_task t' r)) (task_key t') \<noteq> None"
    by (simp add: store_task_key)
  ultimately obtain r' where r': "append_event t' ev now actor ref (store_task t' r) = (Inr (), r')"
    "sound_step (tk_site_id t') (store_task t' r) r'" "ar_tasks r' = ar_tasks (store_task t' r)"
    "ar_payloads r' = ar_payloads (store_task t' r)"
    using append_event_sound by metis
  show thesis
    using r' id s by (intro that [of r']) (auto simp: store_task_key intro: sound_step_trans)
qed

lemma move_to_dead_letter_sound:
  assumes "repo_inv r" and "map_of (ar_tasks r) (task_key t) = Some t" and "lease_active t"
    and "tk_max_attempts t \<le> tk_attempt t"
  obtains t' r' where "move_to_dead_letter now c reason actor t r = (Inr t', r')"
    and "sound_step (tk_site_id t) r r'" and "tk_status t' = DEAD_LETTER"
    and "ar_tasks r' = AList.update (task_key t) t' (ar_tasks r)"
    and "ar_payloads r' = ar_payloads r"
proof -
  define t' where "t' = t\<lparr>tk_status := DEAD_LETTER, tk_failure_classification := Some c,
    tk_lease_owner := None, tk_lease_expires_at := None, tk_updated_at := now\<rparr>"
  define d where "d = \<lparr>dl_task_id = tk_task_id t, dl_site_id = tk_site_id t, dl_attempts = tk_attempt t,
    dl_failure_classification = c, dl_reason_code = reason, dl_dead_lettered_at = now,
    dl_causation_id = tk_causation_id t, dl_correlation_id = tk_correlation_id t\<rparr>"
  define r1 where "r1 = (store_task t' r)\<lparr>ar_dead_letters := AList.update (task_key t) d (ar_dead_letters r)\<rparr>"
  have mv: "task_move t t'"
    unfolding t'_def using assms(3,4) by (rule mv_dead)
  have s: "sound_step (tk_site_id t) r r1"
    unfolding r1_def using assms(2) mv by (rule put_task_sound) (simp add: t'_def)
  have id: "task_key t' = task_key t" "tk_site_id t' = tk_site_id t"
    by (simp_all add: t'_def task_key_def)
  have tasks: "ar_tasks r1 = AList.update (task_key t) t' (ar_tasks r)" "ar_payloads r1 = ar_payloads r"
    by (simp_all add: r1_def store_task_key id)
  obtain r' where r': "append_event t' ''dead_lettered'' now (if actor \<noteq> None then ''worker'' else ''system'')
      actor r1 = (Inr (), r')"
    "sound_step (tk_site_id t') r1 r'" "ar_tasks r' = ar_tasks r1" "ar_payloads r' = ar_payloads r1"
    by (rule append_event_sound [of r1 t']) (use s assms(1) in \<open>auto simp: sound_step_def tasks id\<close>)
  have "move_to_dead_letter now c reason actor t r = (Inr t', r')"
    using r'(1) unfolding move_to_dead_letter_def Let_def t'_def [symmetric] d_def [symmetric]
    by (simp add: r1_def store_task_def task_key_def)
  then show thesis
    using r' s id tasks by (intro that [of t' r']) (auto simp: t'_def intro: sound_step_trans)
qed

lemma dead_letter_all:
  assumes "repo_inv r" and "distinct (map task_key ts)"
    and "\<forall>t \<in> set ts. map_of (ar_tasks r) (task_key t) = Some t \<and> lease_active t \<and>
           tk_max_attempts t \<le> tk_attempt t \<and> tk_site_id t = site"
  shows "\<exists>r'. call_each (move_to_dead_letter now c reason actor) ts r = (Inr (), r') \<and>
     sound_step site r r' \<and> ar_payloads r' = ar_payloads r \<and>
     (\<forall>k. k \<notin> task_key ` set ts \<longrightarrow> map_of (ar_tasks r') k = map_of (ar_tasks r) k) \<and>
     (\<forall>t \<in> set ts. \<exists>t'. map_of (ar_tasks r') (task_key t) = Some t' \<and> tk_status t' = DEAD_LETTER)"
  using assms
proof (induction ts arbitrary: r)
  case (Cons t ts)
  obtain t' r1 where r1: "move_to_dead_letter now c reason actor t r = (Inr t', r1)"
    "sound_step (tk_site_id t) r r1" "tk_status t' = DEAD_LETTER"
    "ar_tasks r1 = AList.update (task_key t) t' (ar_tasks r)" "ar_payloads r1 = ar_payloads r"
    by (rule move_to_dead_letter_sound [of r t]) (use Cons.prems in auto)
  have "repo_inv r1"
    using r1(2) Cons.prems(1) by (simp add: sound_step_def)
  moreover have "\<forall>x \<in> set ts. map_of (ar_tasks r1) (task_key x) = Some x \<and> lease_active x \<and>
      tk_max_attempts x \<le> tk_attempt x \<and> tk_site_id x = site"
  proof
    fix x assume x: "x \<in> set ts"
    then have "task_key x \<noteq> task_key t"
      using Cons.prems(2) by (metis distinct.simps(2) image_eqI list.set_map list.simps(9))
    then show "map_of (ar_tasks r1) (task_key x) = Some x \<and> lease_active x \<and>
        tk_max_attempts x \<le> tk_attempt x \<and> tk_site_id x = site"
      using x Cons.prems(3) unfolding r1(4) by simp
  qed
  ultimately obtain r' where r': "call_each (move_to_dead_letter now c reason actor) ts r1 = (Inr (), r')"
    "sound_step site r1 r'" "ar_payloads r' = ar_payloads r1"
    "\<forall>k. k \<notin> task_key ` set ts \<longrightarrow> map_of (ar_tasks r') k = map_of (ar_tasks r1) k"
    "\<forall>t \<in> set ts. \<exists>t'. map_of (ar_tasks r') (task_key t) = Some t' \<and> tk_status t' = DEAD_LETTER"
    using Cons.IH [of r1] Cons.prems(2) unfolding list.map distinct.simps by blast
  have "map_of (ar_tasks r') (task_key t) = Some t'"
    using r'(4) Cons.prems(2) by (auto simp: r1(4))
  then have "\<forall>x \<in> set (t # ts). \<exists>x'. map_of (ar_tasks r') (task_key x) = Some x' \<and> tk_status x' = DEAD_LETTER"
    using r'(5) r1(3) by simp
  moreover have "\<forall>k. k \<notin> task_key ` set (t # ts) \<longrightarrow> map_of (ar_tasks r') k = map_of (ar_tasks r) k"
    using r'(4) by (simp add: r1(4))
  moreover have "sound_step site r r'"
    using r1(2) r'(2) Cons.prems(3) sound_step_trans by auto
  ultimately show ?case
    using r1(1,5) r'(1,3) by (intro exI [of _ r'] conjI) simp_all
qed auto

lemma distinct_task_keys:
  assumes "tasks_inv r"
  shows "distinct (map task_key (sort_key f (filter P (map snd (ar_tasks r)))))"
proof -
  have "k = task_key t" if "(k, t) \<in> set (ar_tasks r)" for k t
    using that in_set_dict_iff [OF tasks_invD(2) [OF assms]] tasks_invD(4) [OF assms] by blast
  then have "map fst (ar_tasks r) = map task_key (map snd (ar_tasks r))"
    by auto
  then have "distinct (map task_key (map snd (ar_tasks r)))"
    using tasks_invD(2) [OF assms] by (metis distinct_keys_def)
  then have "distinct (map task_key (filter P (map snd (ar_tasks r))))"
    by (rule distinct_map_filter)
  then show ?thesis
    by (simp add: distinct_map)
qed

text \<open>After reaping, every claimable task has an attempt left.\<close>

lemma reap_expired_sound:
  assumes "repo_inv r"
  obtains r' where "reap_expired site now r = (Inr (), r')" and "sound_step site r r'"
    and "ar_payloads r' = ar_payloads r"
    and "\<forall>t \<in> set (claim_candidates site now r').
           map_of (ar_tasks r') (task_key t) = Some t \<and> tk_attempt t < tk_max_attempts t \<and>
           (tk_status t \<in> {QUEUED, RECHECK} \<or> lease_active t) \<and> tk_site_id t = site"
    and "\<forall>t. map_of (ar_tasks r) (task_key t) = Some t \<longrightarrow> t \<notin> set (exhausted_tasks site now r) \<longrightarrow>
           map_of (ar_tasks r') (task_key t) = Some t"
    and "\<forall>k t. map_of (ar_tasks r') k = Some t \<longrightarrow> tk_status t = DEAD_LETTER \<or> map_of (ar_tasks r) k = Some t"
proof -
  let ?ts = "sort_key tk_task_id (exhausted_tasks site now r)"
  have ti: "tasks_inv r"
    using assms by (simp add: repo_inv_def)
  have mem: "t \<in> set ?ts \<longleftrightarrow> map_of (ar_tasks r) (task_key t) = Some t \<and> tk_site_id t = site \<and>
      lease_expired now t \<and> tk_max_attempts t \<le> tk_attempt t" for t
    using in_tasks_iff [OF ti, of t] by (auto simp: exhausted_tasks_def)
  have "\<forall>t \<in> set ?ts. map_of (ar_tasks r) (task_key t) = Some t \<and> lease_active t \<and>
      tk_max_attempts t \<le> tk_attempt t \<and> tk_site_id t = site"
    using mem by (simp add: lease_expired_def)
  moreover have "distinct (map task_key ?ts)"
    unfolding exhausted_tasks_def by (rule distinct_task_keys [OF ti])
  ultimately obtain r' where r': "reap_expired site now r = (Inr (), r')" "sound_step site r r'"
    "ar_payloads r' = ar_payloads r"
    "\<forall>k. k \<notin> task_key ` set ?ts \<longrightarrow> map_of (ar_tasks r') k = map_of (ar_tasks r) k"
    "\<forall>t \<in> set ?ts. \<exists>t'. map_of (ar_tasks r') (task_key t) = Some t' \<and> tk_status t' = DEAD_LETTER"
    using dead_letter_all [OF assms, of ?ts site now INTERNAL "''lease_expired_max_attempts''" None]
    unfolding reap_expired_def by blast
  have ti': "tasks_inv r'"
    using r'(2) assms by (simp add: sound_step_def repo_inv_def)
  have "map_of (ar_tasks r') (task_key t) = Some t \<and> tk_attempt t < tk_max_attempts t \<and>
      (tk_status t \<in> {QUEUED, RECHECK} \<or> lease_active t) \<and> tk_site_id t = site"
    if c: "t \<in> set (claim_candidates site now r')" for t
  proof -
    have t: "map_of (ar_tasks r') (task_key t) = Some t" "tk_site_id t = site"
      and st: "tk_status t \<in> {QUEUED, RECHECK} \<or> lease_expired now t"
      using c in_tasks_iff [OF ti', of t] by (auto simp: claim_candidates_def)
    have wf: "task_wf t" using tasks_invD(3) [OF ti' t(1)] .
    show ?thesis
    proof (cases "lease_expired now t")
      case False
      then show ?thesis using t st wf by (auto simp: task_wf_def split: if_splits)
    next
      case True
      have "task_key t \<notin> task_key ` set ?ts"
        using r'(5) t(1) True by (auto simp: lease_expired_def lease_active_def)
      then have "map_of (ar_tasks r) (task_key t) = Some t" and "t \<notin> set ?ts"
        using r'(4) t(1) by auto
      then show ?thesis using mem [of t] True t by (auto simp: lease_expired_def)
    qed
  qed
  moreover have "map_of (ar_tasks r') (task_key t) = Some t"
    if t: "map_of (ar_tasks r) (task_key t) = Some t" "t \<notin> set (exhausted_tasks site now r)" for t
  proof -
    have "task_key t \<notin> task_key ` set ?ts"
    proof
      assume "task_key t \<in> task_key ` set ?ts"
      then obtain x where x: "x \<in> set ?ts" "task_key t = task_key x" by blast
      then have "x = t" using mem [of x] t(1) by simp
      with x(1) t(2) show False by simp
    qed
    then show ?thesis using r'(4) t(1) by simp
  qed
  moreover have "tk_status t = DEAD_LETTER \<or> map_of (ar_tasks r) k = Some t"
    if "map_of (ar_tasks r') k = Some t" for k t
    using r'(4,5) that by (cases "k \<in> task_key ` set ?ts") auto
  ultimately show thesis
    using r' that by blast
qed

end
