(* ===== verification/Agent_Task_Steps.thy ===== *)
theory Agent_Task_Steps
  imports Agent_Task_Invariants
begin

text \<open>
  Every method of the task repository is a sound step: it keeps the repository invariant and only
  moves tasks the way the abstract machine allows.
\<close>

declare split_paired_All [simp del] split_paired_Ex [simp del]

section \<open>Submitting\<close>

lemma enqueue_cases:
  assumes "enqueue s now r = (res, r')"
  shows "r' = r \<or>
     map_of (ar_idempotency r) (sub_site_id s, sub_idempotency_key s) = None \<and>
     map_of (ar_tasks r) (sub_site_id s, sub_task_id s) = None \<and>
     res = Inr (new_task s (instant_of now)) \<and>
     r' = r\<lparr>ar_tasks := AList.update (sub_site_id s, sub_task_id s) (new_task s (instant_of now)) (ar_tasks r),
        ar_payloads := AList.update (sub_site_id s, sub_task_id s) (JObj (sub_payload s)) (ar_payloads r),
        ar_idempotency := AList.update (sub_site_id s, sub_idempotency_key s) (new_task s (instant_of now)) (ar_idempotency r),
        ar_timeline := AList.update (sub_site_id s, sub_task_id s) [created_event s (instant_of now)] (ar_timeline r)\<rparr>"
  using assms unfolding enqueue_def Let_def
  by (auto split: sum.splits option.splits if_splits)

lemma enqueue_sound:
  assumes "1 \<le> sub_max_attempts s"
  shows "sound_step (sub_site_id s) r (snd (enqueue s now r))"
proof (cases "snd (enqueue s now r) = r")
  case True
  then show ?thesis by simp
next
  case False
  define t where "t = new_task s (instant_of now)"
  define r' where "r' = snd (enqueue s now r)"
  define e where "e = created_event s (instant_of now)"
  note c = enqueue_cases [OF prod.collapse [symmetric], of s now r]
  have r': "r' = r\<lparr>ar_tasks := AList.update (task_key t) t (ar_tasks r),
      ar_payloads := AList.update (task_key t) (JObj (sub_payload s)) (ar_payloads r),
      ar_idempotency := AList.update (task_ikey t) t (ar_idempotency r),
      ar_timeline := AList.update (task_key t) [e] (ar_timeline r)\<rparr>" and e: "ev_sequence e = 0"
    using c False by (simp_all add: t_def r'_def e_def created_event_def task_key_def task_ikey_def new_task_def)
  have fresh: "map_of (ar_tasks r) (task_key t) = None" "map_of (ar_idempotency r) (task_ikey t) = None"
    using c False by (simp_all add: t_def task_key_def task_ikey_def new_task_def)
  have t: "task_wf t" "tk_status t = QUEUED" "tk_site_id t = sub_site_id s"
    using assms by (simp_all add: t_def new_task_def task_wf_def lease_active_def)
  have "tasks_inv r'" if i: "tasks_inv r"
  proof -
    have "paired_index task_key task_ikey (ar_tasks r') (ar_idempotency r')"
      unfolding r' using paired_index_insert [OF tasks_invD(1) [OF i] fresh] by simp
    moreover have "map_of (ar_dead_letters r) (task_key t) = None"
      using tasks_invD(7) [OF i, of "task_key t"] fresh(1) by (metis not_None_eq option.distinct(1))
    ultimately show ?thesis
      using i t e fresh(1) unfolding tasks_inv_def r' by (auto split: if_splits)
  qed
  moreover have "proposals_inv r'" if p: "proposals_inv r"
  proof -
    have "proposal_done r' p" if "proposal_done r p" for p
      using that fresh(1) unfolding proposal_done_def r' by (auto split: if_splits)
    then show ?thesis using p unfolding proposals_inv_def by (simp add: r')
  qed
  moreover have "evolves (sub_site_id s) r r'" if i: "tasks_inv r"
  proof -
    have "map_of (ar_timeline r) (task_key t) = None"
      using i fresh(1) by (simp add: tasks_inv_def)
    then show ?thesis
      using fresh(1) t(3) unfolding evolves_def task_timeline_def get_task_def get_dead_letter_def r'
      by (auto simp: task_key_def split: option.splits)
  qed
  ultimately show ?thesis
    unfolding r'_def [symmetric] by (auto simp: sound_step_def repo_inv_def)
qed

section \<open>Claiming\<close>

lemma claim_candidates_min:
  assumes "claim_candidates site now r \<noteq> []"
  shows "arg_min_list claim_order (claim_candidates site now r) \<in> set (claim_candidates site now r)"
  using assms by (rule arg_min_list_in)

lemma take_lease_move:
  assumes "tk_status t \<in> {QUEUED, RECHECK} \<or> lease_active t" and "tk_attempt t < tk_max_attempts t"
    and "st \<in> {LEASED, RUNNING}"
  shows "task_move t (take_lease st w now d t)" and "tk_status (take_lease st w now d t) \<noteq> DEAD_LETTER"
  using mv_lease [OF assms] assms(3) by (auto simp: take_lease_def)

text \<open>What a claim returns: the least candidate in claim order, leased to the worker with a fresh
  attempt.\<close>

lemma claim_outcome:
  assumes "repo_inv r"
  shows "(\<exists>e. claim site w now d r = (Inl e, r)) \<or>
     (\<exists>r1. reap_expired site (instant_of now) r = (Inr (), r1) \<and> sound_step site r r1 \<and>
        (claim_candidates site (instant_of now) r1 = [] \<and> claim site w now d r = (Inr None, r1) \<or>
         (\<exists>t r'. t = arg_min_list claim_order (claim_candidates site (instant_of now) r1) \<and>
            t \<in> set (claim_candidates site (instant_of now) r1) \<and>
            claim site w now d r = (Inr (Some (take_lease LEASED w (instant_of now) d t)), r') \<and>
            sound_step site r r' \<and>
            ar_tasks r' = AList.update (task_key t) (take_lease LEASED w (instant_of now) d t) (ar_tasks r1))))"
proof (cases "claim_guard w now d")
  case (Inl e)
  then show ?thesis by (simp add: claim_def)
next
  case (Inr u)
  obtain r1 where r1: "reap_expired site (instant_of now) r = (Inr (), r1)" "sound_step site r r1"
    "\<forall>t \<in> set (claim_candidates site (instant_of now) r1).
       map_of (ar_tasks r1) (task_key t) = Some t \<and> tk_attempt t < tk_max_attempts t \<and>
       (tk_status t \<in> {QUEUED, RECHECK} \<or> lease_active t) \<and> tk_site_id t = site"
    using reap_expired_sound [OF assms, of site "instant_of now"] by metis
  have i1: "repo_inv r1" using r1(2) assms by (simp add: sound_step_def)
  show ?thesis
  proof (cases "claim_candidates site (instant_of now) r1 = []")
    case True
    then show ?thesis using Inr r1 by (simp add: claim_def)
  next
    case False
    define t where "t = arg_min_list claim_order (claim_candidates site (instant_of now) r1)"
    define t' where "t' = take_lease LEASED w (instant_of now) d t"
    have tin: "t \<in> set (claim_candidates site (instant_of now) r1)"
      unfolding t_def using False by (rule claim_candidates_min)
    then have t: "map_of (ar_tasks r1) (task_key t) = Some t" "tk_attempt t < tk_max_attempts t"
      "tk_status t \<in> {QUEUED, RECHECK} \<or> lease_active t" "tk_site_id t = site"
      using r1(3) by auto
    obtain r' where r': "append_event t' ''leased'' (instant_of now) ''worker'' (Some w) (store_task t' r1) = (Inr (), r')"
      "sound_step (tk_site_id t) r1 r'" "ar_tasks r' = AList.update (task_key t) t' (ar_tasks r1)"
      using store_and_record [OF i1 t(1)] take_lease_move [OF t(3,2), of LEASED] unfolding t'_def
      by (metis insertI1)
    have "claim site w now d r = (Inr (Some t'), r')"
      using Inr r1(1) False r'(1) by (simp add: claim_def Let_def t_def [symmetric] t'_def [symmetric])
    moreover have "sound_step site r r'"
      using r1(2) r'(2) t(4) sound_step_trans by metis
    ultimately show ?thesis
      using r1(1,2) r'(3) tin unfolding t'_def t_def by metis
  qed
qed

lemma claim_sound: "sound_step site r (snd (claim site w now d r))"
  using claim_outcome [of r site w now d] by (auto simp: sound_step_def)

lemma claim_for_execution_outcome:
  assumes "repo_inv r"
  shows "(\<exists>e r1. claim_for_execution site w now d r = (Inl e, r1) \<and> sound_step site r r1) \<or>
     (\<exists>r1. reap_expired site (instant_of now) r = (Inr (), r1) \<and> sound_step site r r1 \<and>
        (claim_candidates site (instant_of now) r1 = [] \<and> claim_for_execution site w now d r = (Inr None, r1) \<or>
         (\<exists>t p r'. t = arg_min_list claim_order (claim_candidates site (instant_of now) r1) \<and>
            t \<in> set (claim_candidates site (instant_of now) r1) \<and>
            claim_for_execution site w now d r =
              (Inr (Some \<lparr>cl_metadata = take_lease RUNNING w (instant_of now) d t, cl_payload = p\<rparr>), r') \<and>
            sound_step site r r' \<and>
            ar_tasks r' = AList.update (task_key t) (take_lease RUNNING w (instant_of now) d t) (ar_tasks r1))))"
proof (cases "claim_guard w now d")
  case (Inl e)
  then have "claim_for_execution site w now d r = (Inl e, r)" by (simp add: claim_for_execution_def)
  then show ?thesis using sound_step_refl by blast
next
  case (Inr u)
  obtain r1 where r1: "reap_expired site (instant_of now) r = (Inr (), r1)" "sound_step site r r1"
    "\<forall>t \<in> set (claim_candidates site (instant_of now) r1).
       map_of (ar_tasks r1) (task_key t) = Some t \<and> tk_attempt t < tk_max_attempts t \<and>
       (tk_status t \<in> {QUEUED, RECHECK} \<or> lease_active t) \<and> tk_site_id t = site"
    using reap_expired_sound [OF assms, of site "instant_of now"] by metis
  have i1: "repo_inv r1" using r1(2) assms by (simp add: sound_step_def)
  define t where "t = arg_min_list claim_order (claim_candidates site (instant_of now) r1)"
  define t' where "t' = take_lease RUNNING w (instant_of now) d t"
  show ?thesis
  proof (cases "claim_candidates site (instant_of now) r1 = []")
    case True
    then show ?thesis using Inr r1 by (simp add: claim_for_execution_def)
  next
    case False
    have tin: "t \<in> set (claim_candidates site (instant_of now) r1)"
      unfolding t_def using False by (rule claim_candidates_min)
    then have t: "map_of (ar_tasks r1) (task_key t) = Some t" "tk_attempt t < tk_max_attempts t"
      "tk_status t \<in> {QUEUED, RECHECK} \<or> lease_active t" "tk_site_id t = site"
      using r1(3) by auto
    show ?thesis
    proof (cases "\<exists>v p. map_of (ar_payloads r1) (task_key t) = Some v \<and> is_obj v \<and>
        task_payload_from_mapping (fields_of_json v) = Inr p")
      case False
      then have "\<exists>e. claim_for_execution site w now d r = (Inl e, r1)"
        using Inr r1(1) \<open>claim_candidates site (instant_of now) r1 \<noteq> []\<close>
        unfolding claim_for_execution_def
        by (auto simp: Let_def t_def [symmetric] task_key_def split: option.splits sum.splits)
      then show ?thesis using r1(2) by blast
    next
      case True
      then obtain v p where vp: "map_of (ar_payloads r1) (task_key t) = Some v" "is_obj v"
        "task_payload_from_mapping (fields_of_json v) = Inr p" by blast
      obtain r2 where r2: "append_event t' ''leased'' (instant_of now) ''worker'' (Some w) (store_task t' r1) = (Inr (), r2)"
        "sound_step (tk_site_id t) r1 r2" "ar_tasks r2 = AList.update (task_key t) t' (ar_tasks r1)"
        using store_and_record [OF i1 t(1)] take_lease_move [OF t(3,2), of RUNNING] unfolding t'_def
        by (metis insertI1 insertI2)
      have id: "task_key t' = task_key t" "tk_site_id t' = tk_site_id t"
        by (simp_all add: t'_def take_lease_def task_key_def)
      have "repo_inv r2" using r2(2) i1 by (simp add: sound_step_def)
      moreover have "map_of (ar_tasks r2) (task_key t') \<noteq> None" by (simp add: r2(3) id)
      ultimately obtain r3 where r3: "append_event t' ''running'' (instant_of now) ''worker'' (Some w) r2 = (Inr (), r3)"
        "sound_step (tk_site_id t) r2 r3" "ar_tasks r3 = ar_tasks r2"
        using append_event_sound id(2) by metis
      have "claim_for_execution site w now d r = (Inr (Some \<lparr>cl_metadata = t', cl_payload = p\<rparr>), r3)"
        using Inr r1(1) False vp r2(1) r3(1)
        by (simp add: claim_for_execution_def Let_def t_def [symmetric] t'_def [symmetric] task_key_def [symmetric])
      moreover have "sound_step site r r3"
        using r1(2) r2(2) r3(2) t(4) sound_step_trans by metis
      ultimately show ?thesis
        using r1(1,2) r2(3) r3(3) tin unfolding t'_def t_def by metis
    qed
  qed
qed

lemma claim_for_execution_sound: "sound_step site r (snd (claim_for_execution site w now d r))"
  using claim_for_execution_outcome [of r site w now d] by (auto simp: sound_step_def)

section \<open>Working under a lease\<close>

lemma require_live_lease_iff:
  "require_live_lease site i w a now r = Inr t \<longleftrightarrow>
     map_of (ar_tasks r) (site, i) = Some t \<and> lease_active t \<and> tk_lease_owner t = Some w \<and>
     (\<exists>e. tk_lease_expires_at t = Some e \<and> now < e) \<and> tk_attempt t = a"
  by (auto simp: require_live_lease_def split: option.splits)

lemma live_lease_key:
  assumes "repo_inv r" and "require_live_lease site i w a now r = Inr t"
  shows "map_of (ar_tasks r) (task_key t) = Some t" and "lease_active t" and "tk_site_id t = site"
    and "task_key t = (site, i)"
  using assms tasks_invD(4) [of r "(site, i)" t]
  by (auto simp: require_live_lease_iff repo_inv_def task_key_def)

text \<open>The calls of a lease holder: rejected without effect, or the held task moves and the move is
  recorded.\<close>

definition lease_call :: "string \<Rightarrow> string \<Rightarrow> string \<Rightarrow> int \<Rightarrow> instant \<Rightarrow> agent_repo \<Rightarrow> agent_task agent_call \<Rightarrow> bool" where
  "lease_call site i w a now r c =
     ((\<exists>e. c = (Inl e, r)) \<or>
      (\<exists>t t' r'. require_live_lease site i w a now r = Inr t \<and> task_move t t' \<and> c = (Inr t', r') \<and>
         sound_step site r r' \<and> map_of (ar_tasks r') = (map_of (ar_tasks r))((site, i) \<mapsto> t')))"

lemma lease_call_sound: "lease_call site i w a now r c \<Longrightarrow> sound_step site r (snd c)"
  by (auto simp: lease_call_def)

lemma lease_callI_record:
  assumes "repo_inv r" and "require_live_lease site i w a now r = Inr t" and "task_move t t'"
    and "tk_status t' \<noteq> DEAD_LETTER"
  shows "lease_call site i w a now r
     (and_then (append_event t' ev at actor ref (store_task t' r)) (\<lambda>_ r1. (Inr t', r1)))"
proof -
  note l = live_lease_key [OF assms(1,2)]
  obtain r' where "append_event t' ev at actor ref (store_task t' r) = (Inr (), r')"
    "sound_step (tk_site_id t) r r'" "ar_tasks r' = AList.update (task_key t) t' (ar_tasks r)"
    using store_and_record [OF assms(1) l(1) assms(3,4)] by metis
  then show ?thesis
    using assms(2,3) l by (auto simp: lease_call_def update_conv')
qed

lemma start_lease_call:
  assumes "repo_inv r"
  shows "lease_call site i w a (instant_of now) r (start site i w a now r)"
  unfolding start_def Let_def
  by (auto split: sum.split simp: lease_call_def [of _ _ _ _ _ _ "(Inl _, _)"]
      intro!: lease_callI_record [OF assms] mv_start)

lemma succeed_lease_call:
  assumes "repo_inv r"
  shows "lease_call site i w a (instant_of now) r (succeed site i w a now refs r)"
  unfolding succeed_def Let_def
  by (auto split: sum.split simp: lease_call_def [of _ _ _ _ _ _ "(Inl _, _)"] complete_task_def
      intro!: lease_callI_record [OF assms] mv_succeed [unfolded complete_task_def]
      dest: live_lease_key(2) [OF assms])

lemma heartbeat_lease_call:
  assumes "repo_inv r"
  shows "lease_call site i w a (instant_of now) r (heartbeat site i w a now d r)"
proof -
  have "lease_call site i w a (instant_of now) r (Inr t', store_task t' r)"
    if l: "require_live_lease site i w a (instant_of now) r = Inr t"
      and t': "t' = t\<lparr>tk_lease_expires_at := Some e, tk_updated_at := u\<rparr>" for t t' e u
  proof -
    note k = live_lease_key [OF assms l]
    have m: "task_move t t'" unfolding t' using k(2) by (rule mv_heartbeat)
    have "tk_status t' \<noteq> DEAD_LETTER" using k(2) by (auto simp: t' lease_active_def)
    from store_task_sound [OF k(1) m this] have "sound_step site r (store_task t' r)"
      by (simp add: k(3))
    then show ?thesis
      using l m k(4) task_move_identity [OF m]
      by (auto simp: lease_call_def store_task_key same_identity_def update_conv')
  qed
  then show ?thesis
    unfolding heartbeat_def Let_def
    by (auto split: sum.split simp: lease_call_def [of _ _ _ _ _ _ "(Inl _, _)"])
qed

lemma dead_letter_lease_call:
  assumes "repo_inv r" and "require_live_lease site i w a now r = Inr t"
    and "tk_max_attempts t \<le> tk_attempt t"
  shows "lease_call site i w a now r (move_to_dead_letter at c reason ref t r)"
proof -
  note k = live_lease_key [OF assms(1,2)]
  obtain t' r' where r': "move_to_dead_letter at c reason ref t r = (Inr t', r')"
    "sound_step (tk_site_id t) r r'" "ar_tasks r' = AList.update (task_key t) t' (ar_tasks r)"
    using move_to_dead_letter_sound [OF assms(1) k(1,2) assms(3)] by metis
  have "t' = t\<lparr>tk_status := DEAD_LETTER, tk_failure_classification := Some c,
      tk_lease_owner := None, tk_lease_expires_at := None, tk_updated_at := at\<rparr>"
    using r'(1) by (auto simp: move_to_dead_letter_def Let_def and_then_Inr_iff)
  then have "task_move t t'"
    using mv_dead [OF k(2) assms(3)] by simp
  with r' k assms(2) show ?thesis
    by (auto simp: lease_call_def update_conv')
qed

lemma fail_task_lease_call:
  assumes "repo_inv r"
  shows "lease_call site i w a (instant_of now) r (fail_task site i w a now retry c r)"
  unfolding fail_task_def Let_def
  by (auto split: sum.split simp: lease_call_def [of _ _ _ _ _ _ "(Inl _, _)"]
      intro!: dead_letter_lease_call [OF assms] lease_callI_record [OF assms] mv_retry
      dest: live_lease_key(2) [OF assms])

section \<open>Completing with a proposal\<close>

definition invocation_index_inv :: "agent_repo \<Rightarrow> bool" where
  "invocation_index_inv r =
     paired_index (\<lambda>m. (mi_site_id m, mi_invocation_id m)) (\<lambda>m. (mi_site_id m, mi_idempotency_key m))
       (ar_invocations r) (ar_invocation_idempotency r)"

definition invocation_bound :: "agent_task \<Rightarrow> proposal_record \<Rightarrow> model_invocation \<Rightarrow> bool" where
  "invocation_bound t p m =
     (mi_site_id m = tk_site_id t \<and> mi_request_id m = tk_task_id t \<and>
      ir_evidence_refs (mi_references m) = pr_evidence_refs p \<and>
      mi_external_send_count m = 0 \<and> mi_tool_call_count m = 0)"

lemma append_task_invocation_cases:
  assumes "append_task_invocation t p m r = (Inr v, r')"
  shows "v = m \<and> invocation_bound t p m \<and>
     (r' = r \<and> map_of (ar_invocation_idempotency r) (mi_site_id m, mi_idempotency_key m) = Some m \<or>
      map_of (ar_invocation_idempotency r) (mi_site_id m, mi_idempotency_key m) = None \<and>
      map_of (ar_invocations r) (mi_site_id m, mi_invocation_id m) = None \<and>
      r' = r\<lparr>ar_invocations := AList.update (mi_site_id m, mi_invocation_id m) m (ar_invocations r),
             ar_invocation_idempotency :=
               AList.update (mi_site_id m, mi_idempotency_key m) m (ar_invocation_idempotency r)\<rparr>)"
  using assms
  by (auto simp: append_task_invocation_def invocation_bound_def Let_def split: option.splits if_splits)

interpretation task_invocations: idempotent_store "append_task_invocation t p"
  "\<lambda>r. ran (map_of (ar_invocations r))" "invocation_bound t p" invocation_index_inv for t p
proof unfold_locales
  fix m v r r'
  assume i: "invocation_index_inv r" and a: "append_task_invocation t p m r = (Inr v, r')"
  note c = append_task_invocation_cases [OF a]
  show "invocation_index_inv r'"
    using c i paired_index_insert [of "\<lambda>m. (mi_site_id m, mi_invocation_id m)"
        "\<lambda>m. (mi_site_id m, mi_idempotency_key m)" "ar_invocations r" "ar_invocation_idempotency r" m]
    by (auto simp: invocation_index_inv_def)
  show "v = m \<and> invocation_bound t p m \<and>
      ran (map_of (ar_invocations r')) = insert m (ran (map_of (ar_invocations r)))"
    using c i paired_indexD(4) [OF i [unfolded invocation_index_inv_def]]
    by (auto simp: ran_update_new intro: ranI)
next
  fix m r e r'
  show "append_task_invocation t p m r = (Inl e, r') \<Longrightarrow> r' = r"
    by (auto simp: append_task_invocation_def Let_def split: option.splits if_splits)
next
  fix m r
  assume "invocation_index_inv r" and b: "invocation_bound t p m" and "m \<in> ran (map_of (ar_invocations r))"
  then have "map_of (ar_invocation_idempotency r) (mi_site_id m, mi_idempotency_key m) = Some m"
    by (auto simp: invocation_index_inv_def ran_def dest: paired_indexD(2))
  then show "append_task_invocation t p m r = (Inr m, r)"
    using b by (simp add: append_task_invocation_def invocation_bound_def)
qed

text \<open>Recording invocations touches the two invocation indexes only.\<close>

definition only_invocations :: "agent_repo \<Rightarrow> agent_repo \<Rightarrow> bool" where
  "only_invocations r r' =
     (ar_tasks r' = ar_tasks r \<and> ar_payloads r' = ar_payloads r \<and> ar_timeline r' = ar_timeline r \<and>
      ar_idempotency r' = ar_idempotency r \<and> ar_dead_letters r' = ar_dead_letters r \<and>
      ar_proposals r' = ar_proposals r \<and> ar_proposal_idempotency r' = ar_proposal_idempotency r \<and>
      ar_materializations r' = ar_materializations r \<and>
      map_of (ar_invocations r) \<subseteq>\<^sub>m map_of (ar_invocations r'))"

lemma only_invocations_trans:
  "only_invocations a b \<Longrightarrow> only_invocations b c \<Longrightarrow> only_invocations a c"
  unfolding only_invocations_def by (auto intro: map_le_trans)

lemma append_invocation_only:
  "append_task_invocation t p m r = (Inr v, r') \<Longrightarrow> only_invocations r r'"
  by (drule append_task_invocation_cases) (auto simp: only_invocations_def map_le_def)

lemma append_invocations_only:
  "call_each (append_task_invocation t p) ms r = (Inr u, r') \<Longrightarrow> only_invocations r r'"
proof (induction ms arbitrary: r)
  case Nil
  then show ?case by (simp add: only_invocations_def)
next
  case (Cons m ms)
  then show ?case
    by (auto simp: and_then_Inr_iff intro: only_invocations_trans append_invocation_only)
qed

lemma append_invocations_sound:
  assumes "repo_inv r" and "call_each (append_task_invocation t p) ms r = (Inr u, r')"
  shows "sound_step site r r'" and "only_invocations r r'"
proof -
  show o: "only_invocations r r'"
    using assms(2) by (rule append_invocations_only)
  have "invocation_index_inv r'"
    using task_invocations.append_all_stored [OF _ assms(2)] assms(1)
    by (simp add: repo_inv_def proposals_inv_def invocation_index_inv_def)
  then have "repo_inv r'"
    using assms(1) o
    by (simp add: repo_inv_def tasks_inv_def proposals_inv_def invocation_index_inv_def
        only_invocations_def proposal_done_def)
  then show "sound_step site r r'"
    using o by (simp add: sound_step_def evolves_def only_invocations_def task_timeline_def
        get_task_def get_dead_letter_def)
qed

definition add_proposal :: "proposal_record \<Rightarrow> materialization_record \<Rightarrow> agent_repo \<Rightarrow> agent_repo" where
  "add_proposal p m r =
     r\<lparr>ar_proposals := AList.update (proposal_key p) p (ar_proposals r),
       ar_proposal_idempotency := AList.update (proposal_ikey p) p (ar_proposal_idempotency r),
       ar_materializations := AList.update (proposal_key p) m (ar_materializations r)\<rparr>"

lemma append_event_add_proposal:
  "append_event t ev at actor ref (store_task t' (add_proposal p m r)) =
     map_prod id (add_proposal p m) (append_event t ev at actor ref (store_task t' r))"
  by (simp add: append_event_def add_proposal_def store_task_def Let_def split: option.split)

lemma proposal_ikey_fresh:
  assumes "proposals_inv r" and "map_of (ar_proposals r) (proposal_key p) = None"
    and "pr_idempotency_key p = proposal_key_text (pr_task_id p) (pr_task_attempt p)"
  shows "map_of (ar_proposal_idempotency r) (proposal_ikey p) = None"
proof (rule ccontr)
  assume "map_of (ar_proposal_idempotency r) (proposal_ikey p) \<noteq> None"
  then obtain q where q: "map_of (ar_proposal_idempotency r) (proposal_ikey p) = Some q" by blast
  have idx: "paired_index proposal_key proposal_ikey (ar_proposals r) (ar_proposal_idempotency r)"
    using assms(1) by (simp add: proposals_inv_def)
  have stored: "map_of (ar_proposals r) (proposal_key q) = Some q" and same: "proposal_ikey p = proposal_ikey q"
    using paired_indexD(3,4) [OF idx q] by auto
  then have "proposal_done r q"
    using assms(1) by (auto simp: proposals_inv_def)
  then have "proposal_key q = proposal_key p"
    using same assms(3)
    by (simp add: proposal_done_def proposal_ikey_def proposal_key_def proposal_key_text_inj)
  with stored assms(2) show False by simp
qed

lemma add_proposal_sound:
  assumes "repo_inv r" and "map_of (ar_proposals r) (proposal_key p) = None"
    and "pr_idempotency_key p = proposal_key_text (pr_task_id p) (pr_task_attempt p)"
    and "screened (pr_document p)"
    and "map_of (ar_tasks r) (pr_site_id p, pr_task_id p) = Some t" and "tk_status t = SUCCEEDED"
    and "tk_attempt t = pr_task_attempt p" and "tk_output_artifact_refs t = [pr_proposal_id p]"
    and "mo_origin m = ''AI''" and "mo_review_status m = ''AI Draft''" and "mo_proposal_id m = pr_proposal_id p"
  shows "sound_step site r (add_proposal p m r)"
proof -
  let ?r' = "add_proposal p m r"
  have pi: "proposals_inv r" and ti: "tasks_inv r"
    using assms(1) by (simp_all add: repo_inv_def)
  have matfresh: "map_of (ar_materializations r) (proposal_key p) = None"
    using pi assms(2) by (simp add: proposals_inv_def)
  have idx: "paired_index proposal_key proposal_ikey (ar_proposals ?r') (ar_proposal_idempotency ?r')"
    using paired_index_insert [of proposal_key proposal_ikey "ar_proposals r" "ar_proposal_idempotency r" p]
      assms(2) proposal_ikey_fresh [OF pi assms(2,3)] pi
    by (simp add: proposals_inv_def add_proposal_def)
  have "proposal_done ?r' q" if "map_of (ar_proposals ?r') k = Some q" for k q
  proof (cases "k = proposal_key p")
    case True
    then show ?thesis
      using that assms(3-11) by (auto simp: proposal_done_def add_proposal_def)
  next
    case False
    then have q: "map_of (ar_proposals r) k = Some q" using that by (simp add: add_proposal_def)
    then have "k = proposal_key q" and "proposal_done r q"
      using pi by (auto simp: proposals_inv_def dest: paired_indexD(1))
    then show ?thesis
      using False by (auto simp: proposal_done_def add_proposal_def)
  qed
  then have "proposals_inv ?r'"
    using idx pi by (auto simp: proposals_inv_def add_proposal_def)
  moreover have "tasks_inv ?r'"
    using ti by (simp add: tasks_inv_def add_proposal_def)
  moreover have "evolves site r ?r'"
    using assms(2) matfresh
    by (auto simp: evolves_def add_proposal_def task_timeline_def get_task_def get_dead_letter_def map_le_def)
  ultimately show ?thesis
    by (simp add: sound_step_def repo_inv_def)
qed

lemma append_event_frame:
  "append_event t ev at actor ref r = (Inr u, r') \<Longrightarrow>
     ar_proposals r' = ar_proposals r \<and> ar_proposal_idempotency r' = ar_proposal_idempotency r \<and>
     ar_materializations r' = ar_materializations r \<and> ar_invocations r' = ar_invocations r \<and>
     ar_invocation_idempotency r' = ar_invocation_idempotency r"
  by (auto simp: append_event_def Let_def split: option.splits)

text \<open>The body of the \<open>try\<close> block, when it succeeds: invocations, then the completed task and its
  event, then the proposal with its outbox record.\<close>

lemma completion_body_ok:
  assumes i: "repo_inv r" and l: "require_live_lease site tid w a now r = Inr t"
    and p: "proposal_from_execution t result = Inr p"
    and none: "map_of (ar_proposals r) (site, tid, a) = None"
    and body: "completion_body (site, tid, a) t p w now result r = (Inr t', r')"
  shows "sound_step site r r'" and "t' = complete_task now [pr_proposal_id p] t"
    and "map_of (ar_tasks r') = (map_of (ar_tasks r))((site, tid) \<mapsto> t')"
    and "map_of (ar_proposals r') (site, tid, a) = Some p"
    and "\<forall>m \<in> set (xr_invocations result). map_of (ar_invocations r') (mi_site_id m, mi_invocation_id m) = Some m"
proof -
  note k = live_lease_key [OF i l]
  note x = proposal_from_execution_ok [OF p]
  have key: "proposal_key p = (site, tid, a)"
    using x k(3,4) l by (auto simp: proposal_key_def task_key_def require_live_lease_iff)
  obtain m where m: "materialization_from_proposal p now = Inr m" "mo_origin m = ''AI''"
    "mo_review_status m = ''AI Draft''" "mo_proposal_id m = pr_proposal_id p"
    using materialization_from_proposal_ok [of p now] by blast
  obtain r1 r2 where r1: "call_each (append_task_invocation t p) (xr_invocations result) r = (Inr (), r1)"
    and r2: "append_proposal p r1 = (Inr (), r2)"
    and fin: "and_then (append_event (complete_task now [pr_proposal_id p] t) ''succeeded'' now ''worker'' (Some w)
        (store_task (complete_task now [pr_proposal_id p] t)
          (r2\<lparr>ar_materializations := AList.update (site, tid, a) m (ar_materializations r2)\<rparr>)))
        (\<lambda>_ r4. (Inr (complete_task now [pr_proposal_id p] t), r4)) = (Inr t', r')"
    using body unfolding completion_body_def and_then_Inr_iff m(1) by (auto simp: Let_def and_then_Inr_iff)
  show t': "t' = complete_task now [pr_proposal_id p] t"
    using fin by (auto simp: and_then_Inr_iff)
  note s1 = append_invocations_sound [OF i r1]
  have i1: "repo_inv r1" using s1(1) i by (simp add: sound_step_def)
  have none1: "map_of (ar_proposals r1) (proposal_key p) = None"
    using none s1(2) by (simp add: only_invocations_def key)
  have "map_of (ar_proposal_idempotency r1) (pr_site_id p, pr_idempotency_key p) = None"
    using proposal_ikey_fresh [OF _ none1] i1 x by (simp add: repo_inv_def proposal_ikey_def)
  then have r2_eq: "r2\<lparr>ar_materializations := AList.update (site, tid, a) m (ar_materializations r2)\<rparr> = add_proposal p m r1"
    using r2 by (auto simp: append_proposal_def add_proposal_def key [symmetric] proposal_key_def
        proposal_ikey_def Let_def split: if_splits)
  have t1: "map_of (ar_tasks r1) (task_key t) = Some t"
    using k(1) s1(2) by (simp add: only_invocations_def)
  have mv: "task_move t t'" unfolding t' using k(2) by (rule mv_succeed)
  obtain r3 where r3: "append_event t' ''succeeded'' now ''worker'' (Some w) (store_task t' r1) = (Inr (), r3)"
    "sound_step (tk_site_id t) r1 r3" "ar_tasks r3 = AList.update (task_key t) t' (ar_tasks r1)"
    by (rule store_and_record [OF i1 t1 mv]) (auto simp: t' complete_task_def)
  note f = append_event_frame [OF r3(1)]
  have r': "r' = add_proposal p m r3"
    using fin unfolding r2_eq t' [symmetric] append_event_add_proposal r3(1) by simp
  have i3: "repo_inv r3" using r3(2) i1 by (simp add: sound_step_def)
  have "sound_step site r3 (add_proposal p m r3)"
  proof (rule add_proposal_sound [OF i3])
    show "map_of (ar_tasks r3) (pr_site_id p, pr_task_id p) = Some t'"
      using x by (simp add: r3(3) task_key_def)
    show "screened (pr_document p)" using proposal_screened [OF p] by simp
  qed (use x m none1 f in \<open>simp_all add: t' complete_task_def store_task_def\<close>)
  then show "sound_step site r r'"
    using s1(1) r3(2) k(3) sound_step_trans unfolding r' by metis
  show "map_of (ar_tasks r') = (map_of (ar_tasks r))((site, tid) \<mapsto> t')"
    using r3(3) s1(2) k(4) by (simp add: r' add_proposal_def only_invocations_def update_conv')
  show "map_of (ar_proposals r') (site, tid, a) = Some p"
    by (simp add: r' add_proposal_def key)
  have "\<forall>m \<in> set (xr_invocations result). m \<in> ran (map_of (ar_invocations r1))" and "invocation_index_inv r1"
    using task_invocations.append_all_stored [OF _ r1] i
    by (auto simp: repo_inv_def proposals_inv_def invocation_index_inv_def)
  then have "\<forall>m \<in> set (xr_invocations result). map_of (ar_invocations r1) (mi_site_id m, mi_invocation_id m) = Some m"
    by (auto simp: invocation_index_inv_def ran_def dest: paired_indexD(1))
  then show "\<forall>m \<in> set (xr_invocations result). map_of (ar_invocations r') (mi_site_id m, mi_invocation_id m) = Some m"
    using f by (simp add: r' add_proposal_def store_task_def)
qed

text \<open>Rolling back restores the whole repository: the two dictionaries the handler does not restore
  are not written in the block.\<close>

definition untouched :: "agent_repo \<Rightarrow> agent_repo \<Rightarrow> bool" where
  "untouched r r' = (ar_payloads r' = ar_payloads r \<and> ar_dead_letters r' = ar_dead_letters r)"

lemma untouched_steps:
  "untouched r (snd (append_task_invocation t p m r))"
  "untouched r (snd (append_proposal p r))"
  "untouched r (snd (append_event t ev at actor ref r))"
  "untouched r (store_task t r)"
  by (auto simp: untouched_def append_task_invocation_def append_proposal_def append_event_def
      store_task_def Let_def split: option.splits)

lemma untouched_trans: "untouched a b \<Longrightarrow> untouched b c \<Longrightarrow> untouched a c"
  by (simp add: untouched_def)

lemma untouched_and_then:
  "untouched r (snd c) \<Longrightarrow> (\<And>v s. untouched r s \<Longrightarrow> untouched r (snd (f v s))) \<Longrightarrow>
   untouched r (snd (and_then c f))"
  by (auto simp: and_then_def split: prod.splits sum.splits)

lemma untouched_call_each:
  "untouched r s \<Longrightarrow> untouched r (snd (call_each (append_task_invocation t p) ms s))"
proof (induction ms arbitrary: s)
  case (Cons m ms)
  then show ?case
    using untouched_steps(1) [of s t p m] by (auto intro!: untouched_and_then intro: untouched_trans)
qed simp

lemma completion_body_untouched:
  "untouched r (snd (completion_body key t p w now result r))"
proof -
  have refl: "untouched r r" by (simp add: untouched_def)
  have mats: "untouched r s \<Longrightarrow> untouched r (s\<lparr>ar_materializations := x\<rparr>)" for s x
    by (simp add: untouched_def)
  show ?thesis
    unfolding completion_body_def Let_def
    by (intro untouched_and_then untouched_call_each refl)
      (auto split: sum.split intro!: untouched_and_then mats
        intro: untouched_trans [OF _ untouched_steps(2)] untouched_trans [OF _ untouched_steps(3)]
          untouched_trans [OF _ untouched_steps(4)])
qed

lemma complete_with_proposal_atomic:
  assumes "complete_with_proposal site tid w a now result r = (Inl e, r')"
  shows "r' = r"
proof -
  have "failed\<lparr>ar_tasks := ar_tasks r, ar_idempotency := ar_idempotency r,
      ar_timeline := ar_timeline r, ar_proposals := ar_proposals r,
      ar_proposal_idempotency := ar_proposal_idempotency r,
      ar_materializations := ar_materializations r, ar_invocations := ar_invocations r,
      ar_invocation_idempotency := ar_invocation_idempotency r\<rparr> = r"
    if "completion_body key t p w at result r = (Inl err, failed)" for failed key t p at err
    using completion_body_untouched [of r key t p w at result] that
    by (intro agent_repo.equality) (simp_all add: untouched_def)
  then show ?thesis
    using assms unfolding complete_with_proposal_def
    by (auto split: sum.splits option.splits if_splits prod.splits)
qed

text \<open>A successful completion either replays a completed attempt without effect or commits all of
  its records together.\<close>

lemma complete_with_proposal_cases:
  assumes "repo_inv r" and "complete_with_proposal site tid w a now result r = (Inr t', r')"
  shows "r' = r \<and> map_of (ar_tasks r) (site, tid) = Some t' \<and> tk_status t' = SUCCEEDED \<and>
       map_of (ar_proposals r) (site, tid, a) \<noteq> None
     \<or> (\<exists>t p. require_live_lease site tid w a (instant_of now) r = Inr t \<and> tk_status t = RUNNING \<and>
          proposal_from_execution t result = Inr p \<and> map_of (ar_proposals r) (site, tid, a) = None \<and>
          completion_body (site, tid, a) t p w (instant_of now) result r = (Inr t', r'))"
proof -
  obtain t p where t: "map_of (ar_tasks r) (site, tid) = Some t" "proposal_from_execution t result = Inr p"
    using assms(2) unfolding complete_with_proposal_def
    by (auto split: sum.splits option.splits if_splits)
  show ?thesis
  proof (cases "map_of (ar_proposals r) (site, tid, a)")
    case (Some q)
    then show ?thesis
      using assms(2) t unfolding complete_with_proposal_def
      by (auto simp: replay_completion_def split: sum.splits if_splits)
  next
    case None
    then show ?thesis
      using assms(2) t unfolding complete_with_proposal_def
      by (auto simp: require_live_lease_iff split: sum.splits if_splits prod.splits)
  qed
qed

lemma complete_with_proposal_sound:
  "sound_step site r (snd (complete_with_proposal site tid w a now result r))"
proof (cases "complete_with_proposal site tid w a now result r")
  case (Pair res r')
  show ?thesis
  proof (cases res)
    case (Inl e)
    then show ?thesis using complete_with_proposal_atomic [of site tid w a now result r e r'] Pair by simp
  next
    case (Inr t')
    have "sound_step site r r'" if "repo_inv r"
      using complete_with_proposal_cases [OF that, of site tid w a now result t' r'] Pair Inr
        completion_body_ok(1) [OF that] by auto
    then show ?thesis using Pair by (auto simp: sound_step_def)
  qed
qed

end
