(* ===== verification/Lease_Fencing.thy ===== *)
theory Lease_Fencing
  imports GBOS_Prelude
begin

text \<open>
  The contract of a store that hands out leases protected by a fence: every item carries a number
  that never decreases, and an item changes hands only when that number grows. Holders that present
  an old number can then never act again. The agent task repository (fence: the attempt counter)
  and the media job repository (fence: the fencing token) interpret it.
\<close>

locale fenced_store =
  fixes step :: "'s \<Rightarrow> 's \<Rightarrow> bool"
    and inv :: "'s \<Rightarrow> bool"
    and fence :: "'k \<Rightarrow> 's \<Rightarrow> int"
    and holder :: "'k \<Rightarrow> 's \<Rightarrow> 'w option"
  assumes inv_step: "inv s \<Longrightarrow> step s s' \<Longrightarrow> inv s'"
    and fence_mono: "inv s \<Longrightarrow> step s s' \<Longrightarrow> fence k s \<le> fence k s'"
    and holder_step: "inv s \<Longrightarrow> step s s' \<Longrightarrow> fence k s' = fence k s \<Longrightarrow>
      holder k s' = holder k s \<or> holder k s' = None"
begin

lemma inv_steps: "step\<^sup>*\<^sup>* s s' \<Longrightarrow> inv s \<Longrightarrow> inv s'"
  by (induction rule: rtranclp_induct) (auto intro: inv_step)

lemma fence_mono_steps: "step\<^sup>*\<^sup>* s s' \<Longrightarrow> inv s \<Longrightarrow> fence k s \<le> fence k s'"
proof (induction rule: rtranclp_induct)
  case (step y z)
  then show ?case using fence_mono [of y z k] inv_steps [of s y] by force
qed simp

lemma holder_steps:
  "step\<^sup>*\<^sup>* s s' \<Longrightarrow> inv s \<Longrightarrow> fence k s' = fence k s \<Longrightarrow> holder k s' = holder k s \<or> holder k s' = None"
proof (induction rule: rtranclp_induct)
  case (step y z)
  have y: "inv y" using inv_steps step.hyps(1) step.prems(1) by blast
  have "fence k s \<le> fence k y" and "fence k y \<le> fence k z"
    using fence_mono_steps [OF step.hyps(1) step.prems(1)] fence_mono [OF y step.hyps(2)] by blast+
  then have "fence k y = fence k s" and "fence k z = fence k y"
    using step.prems(2) by linarith+
  then show ?case
    using step.IH [OF step.prems(1)] holder_step [OF y step.hyps(2)] by fastforce
qed simp

text \<open>A holder that lost its lease under a fence never holds it again under that fence.\<close>

lemma stale_forever:
  assumes "inv s" and "fence k s = f" and "holder k s \<noteq> Some w" and "step\<^sup>*\<^sup>* s s'"
  shows "\<not> (fence k s' = f \<and> holder k s' = Some w)"
  using holder_steps [OF assms(4,1), of k] assms(2,3) by auto

lemma superseded_forever:
  assumes "inv s" and "f < fence k s" and "step\<^sup>*\<^sup>* s s'"
  shows "fence k s' \<noteq> f"
  using fence_mono_steps [OF assms(3,1), of k] assms(2) by auto

text \<open>Under one fence there is one holder.\<close>

lemma unique_holder:
  assumes "inv s" and "step\<^sup>*\<^sup>* s s'" and "fence k s' = fence k s"
    and "holder k s = Some w" and "holder k s' = Some w'"
  shows "w' = w"
  using holder_steps [OF assms(2,1,3)] assms(4,5) by auto

end

end
