(* ===== verification/Agent_Task_Runs.thy ===== *)
theory Agent_Task_Runs
  imports Agent_Task_Steps Lease_Fencing
begin

text \<open>
  Runs of the task repository: the calls its clients make, the states they reach, and what holds
  along every run. Submissions come from the validating constructor.
\<close>

declare split_paired_All [simp del] split_paired_Ex [simp del]

section \<open>Calls\<close>

datatype agent_op =
    Enqueue task_submission datetime
  | Claim string string datetime int
  | ClaimForExecution string string datetime int
  | Start string string string int datetime
  | Heartbeat string string string int datetime int
  | Succeed string string string int datetime "string list"
  | Fail string string string int datetime datetime failure_classification
  | Complete string string string int datetime execution_result

fun op_site :: "agent_op \<Rightarrow> string" where
  "op_site (Enqueue s _) = sub_site_id s"
| "op_site (Claim site _ _ _) = site"
| "op_site (ClaimForExecution site _ _ _) = site"
| "op_site (Start site _ _ _ _) = site"
| "op_site (Heartbeat site _ _ _ _ _) = site"
| "op_site (Succeed site _ _ _ _ _) = site"
| "op_site (Fail site _ _ _ _ _ _) = site"
| "op_site (Complete site _ _ _ _ _) = site"

fun op_valid :: "agent_op \<Rightarrow> bool" where
  "op_valid (Enqueue s _) = (\<exists>raw. submission_post_init raw = Inr s)"
| "op_valid _ = True"

fun run_op :: "agent_op \<Rightarrow> agent_repo \<Rightarrow> agent_repo" where
  "run_op (Enqueue s now) r = snd (enqueue s now r)"
| "run_op (Claim site w now d) r = snd (claim site w now d r)"
| "run_op (ClaimForExecution site w now d) r = snd (claim_for_execution site w now d r)"
| "run_op (Start site i w a now) r = snd (start site i w a now r)"
| "run_op (Heartbeat site i w a now d) r = snd (heartbeat site i w a now d r)"
| "run_op (Succeed site i w a now refs) r = snd (succeed site i w a now refs r)"
| "run_op (Fail site i w a now retry c) r = snd (fail_task site i w a now retry c r)"
| "run_op (Complete site i w a now result) r = snd (complete_with_proposal site i w a now result r)"

definition agent_step :: "agent_repo \<Rightarrow> agent_repo \<Rightarrow> bool" where
  "agent_step r r' = (\<exists>op. op_valid op \<and> r' = run_op op r)"

definition agent_reachable :: "agent_repo \<Rightarrow> bool" where
  "agent_reachable r = agent_step\<^sup>*\<^sup>* agent_repo_new r"

lemma submission_max_attempts:
  "submission_post_init raw = Inr s \<Longrightarrow> 1 \<le> sub_max_attempts s"
  by (auto simp: submission_post_init_def sum_case_Inr_iff split: if_splits)

lemma run_op_sound: "op_valid op \<Longrightarrow> sound_step (op_site op) r (run_op op r)"
proof (cases op)
  case (Start site i w a now)
  then show ?thesis
    using lease_call_sound [OF start_lease_call] by (auto simp: sound_step_def)
next
  case (Heartbeat site i w a now d)
  then show ?thesis
    using lease_call_sound [OF heartbeat_lease_call] by (auto simp: sound_step_def)
next
  case (Succeed site i w a now refs)
  then show ?thesis
    using lease_call_sound [OF succeed_lease_call] by (auto simp: sound_step_def)
next
  case (Fail site i w a now retry c)
  then show ?thesis
    using lease_call_sound [OF fail_task_lease_call] by (auto simp: sound_step_def)
qed (auto intro: enqueue_sound claim_sound claim_for_execution_sound complete_with_proposal_sound
    dest: submission_max_attempts)

lemma agent_step_inv: "repo_inv r \<Longrightarrow> agent_step r r' \<Longrightarrow> repo_inv r' \<and> (\<exists>site. evolves site r r')"
  using run_op_sound by (auto simp: agent_step_def sound_step_def)

lemma agent_reachable_inv: "agent_reachable r \<Longrightarrow> repo_inv r"
  unfolding agent_reachable_def
  by (induction rule: rtranclp_induct) (auto simp: repo_inv_new dest: agent_step_inv)

section \<open>Fences\<close>

definition task_fence :: "string \<times> string \<Rightarrow> agent_repo \<Rightarrow> int" where
  "task_fence k r = (case map_of (ar_tasks r) k of None \<Rightarrow> 0 | Some t \<Rightarrow> tk_attempt t)"

definition task_holder :: "string \<times> string \<Rightarrow> agent_repo \<Rightarrow> string option" where
  "task_holder k r = (case map_of (ar_tasks r) k of
     None \<Rightarrow> None | Some t \<Rightarrow> if lease_active t then tk_lease_owner t else None)"

lemma task_moves_attempt: "task_move\<^sup>*\<^sup>* t t' \<Longrightarrow> tk_attempt t \<le> tk_attempt t'"
  by (induction rule: rtranclp_induct) (auto dest: task_move_attempt)

lemma task_moves_fence:
  "task_move\<^sup>*\<^sup>* t t' \<Longrightarrow> tk_attempt t' = tk_attempt t \<Longrightarrow>
     (t' = t \<or> lease_active t) \<and> (lease_active t' \<longrightarrow> lease_active t \<and> tk_lease_owner t' = tk_lease_owner t)"
proof (induction rule: rtranclp_induct)
  case (step y z)
  have "tk_attempt t \<le> tk_attempt y" "tk_attempt y \<le> tk_attempt z"
    using task_moves_attempt [OF step.hyps(1)] task_move_attempt [OF step.hyps(2)] by auto
  with step.prems have eq: "tk_attempt y = tk_attempt t" "tk_attempt z = tk_attempt y" by auto
  then show ?case
    using step.IH task_move_fence [OF step.hyps(2)] by auto
qed auto

lemma evolves_fence:
  assumes "tasks_inv r" and "tasks_inv r'" and "evolves site r r'"
  shows "task_fence k r \<le> task_fence k r'"
    and "task_fence k r' = task_fence k r \<Longrightarrow> task_holder k r' = task_holder k r \<or> task_holder k r' = None"
proof -
  have new: "0 \<le> tk_attempt t \<and> (lease_active t \<longrightarrow> 1 \<le> tk_attempt t)" if "map_of (ar_tasks r') k = Some t" for t
    using tasks_invD(3) [OF assms(2) that] by (auto simp: task_wf_def)
  have old: "\<exists>t'. map_of (ar_tasks r') k = Some t' \<and> task_move\<^sup>*\<^sup>* t t'" if "map_of (ar_tasks r) k = Some t" for t
    using assms(3) that by (auto simp: evolves_def)
  show "task_fence k r \<le> task_fence k r'"
    using new old task_moves_attempt by (fastforce simp: task_fence_def split: option.splits)
  assume same: "task_fence k r' = task_fence k r"
  show "task_holder k r' = task_holder k r \<or> task_holder k r' = None"
  proof (cases "map_of (ar_tasks r) k")
    case None
    then show ?thesis
      using same new by (auto simp: task_fence_def task_holder_def split: option.splits)
  next
    case (Some t)
    then obtain t' where t': "map_of (ar_tasks r') k = Some t'" "task_move\<^sup>*\<^sup>* t t'"
      using old by blast
    then show ?thesis
      using same Some task_moves_fence [OF t'(2)] by (auto simp: task_fence_def task_holder_def)
  qed
qed

interpretation agent_fence: fenced_store agent_step repo_inv task_fence task_holder
proof unfold_locales
  fix r r' k
  assume i: "repo_inv r" and s: "agent_step r r'"
  then obtain site where e: "repo_inv r'" "evolves site r r'"
    using agent_step_inv by blast
  then show "repo_inv r'" by blast
  have t: "tasks_inv r" "tasks_inv r'" using i e by (simp_all add: repo_inv_def)
  show "task_fence k r \<le> task_fence k r'"
    using evolves_fence(1) [OF t e(2)] .
  show "task_fence k r' = task_fence k r \<Longrightarrow> task_holder k r' = task_holder k r \<or> task_holder k r' = None"
    using evolves_fence(2) [OF t e(2)] .
qed

end
