(* ===== verification/Agent_Task_Properties.thy ===== *)
theory Agent_Task_Properties
  imports Agent_Task_Runs
begin

text \<open>
  The properties of the agent task repository, over every reachable state and every continuation
  of a run, with a small concrete run that instantiates them.
\<close>

declare split_paired_All [simp del] split_paired_Ex [simp del]

section \<open>Consequences along runs\<close>

lemma evolves_along:
  assumes "repo_inv r" and "agent_step\<^sup>*\<^sup>* r r'"
  shows "repo_inv r'"
    and "map_of (ar_tasks r) k = Some t \<Longrightarrow> \<exists>t'. map_of (ar_tasks r') k = Some t' \<and> task_move\<^sup>*\<^sup>* t t'"
    and "prefix (task_timeline s i r) (task_timeline s i r')"
    and "map_of (ar_proposals r) \<subseteq>\<^sub>m map_of (ar_proposals r')"
    and "map_of (ar_invocations r) \<subseteq>\<^sub>m map_of (ar_invocations r')"
    and "map_of (ar_dead_letters r) \<subseteq>\<^sub>m map_of (ar_dead_letters r')"
proof -
  have "repo_inv r' \<and>
     (\<forall>k t. map_of (ar_tasks r) k = Some t \<longrightarrow> (\<exists>t'. map_of (ar_tasks r') k = Some t' \<and> task_move\<^sup>*\<^sup>* t t')) \<and>
     (\<forall>s i. prefix (task_timeline s i r) (task_timeline s i r')) \<and>
     map_of (ar_proposals r) \<subseteq>\<^sub>m map_of (ar_proposals r') \<and>
     map_of (ar_invocations r) \<subseteq>\<^sub>m map_of (ar_invocations r') \<and>
     map_of (ar_dead_letters r) \<subseteq>\<^sub>m map_of (ar_dead_letters r')"
    using assms(2)
  proof (induction rule: rtranclp_induct)
    case base
    then show ?case using assms(1) by auto
  next
    case (step y z)
    obtain site where e: "repo_inv z" "evolves site y z"
      using agent_step_inv step.IH step.hyps(2) by blast
    have "\<exists>t''. map_of (ar_tasks z) k = Some t'' \<and> task_move\<^sup>*\<^sup>* t t''" if "map_of (ar_tasks r) k = Some t" for k t
      using step.IH e(2) that unfolding evolves_def by (meson rtranclp_trans)
    then show ?case
      using step.IH e unfolding evolves_def by (meson map_le_trans prefix_order.trans)
  qed
  then show "repo_inv r'"
    and "map_of (ar_tasks r) k = Some t \<Longrightarrow> \<exists>t'. map_of (ar_tasks r') k = Some t' \<and> task_move\<^sup>*\<^sup>* t t'"
    and "prefix (task_timeline s i r) (task_timeline s i r')"
    and "map_of (ar_proposals r) \<subseteq>\<^sub>m map_of (ar_proposals r')"
    and "map_of (ar_invocations r) \<subseteq>\<^sub>m map_of (ar_invocations r')"
    and "map_of (ar_dead_letters r) \<subseteq>\<^sub>m map_of (ar_dead_letters r')"
    by blast+
qed

lemma final_task_along:
  assumes "repo_inv r" and "agent_step\<^sup>*\<^sup>* r r'" and "map_of (ar_tasks r) k = Some t"
    and "final_status (tk_status t)"
  shows "map_of (ar_tasks r') k = Some t"
  using evolves_along(2) [OF assms(1-3)] task_moves_final assms(4) by blast

text \<open>The lease-holder calls need the current fence and the current holder.\<close>

lemma lease_needs_fence:
  assumes "require_live_lease site i w a now r = Inr t"
  shows "task_fence (site, i) r = a \<and> task_holder (site, i) r = Some w"
  using assms by (simp add: require_live_lease_iff task_fence_def task_holder_def)

lemma unfenced_call_rejected:
  assumes "\<not> (task_fence (site, i) r = a \<and> task_holder (site, i) r = Some w)"
    and "lease_call site i w a now r c"
  shows "\<exists>e. c = (Inl e, r)"
  using assms(2) lease_needs_fence assms(1) unfolding lease_call_def by blast

lemma unfenced_complete_no_effect:
  assumes "repo_inv r" and "\<not> (task_fence (site, i) r = a \<and> task_holder (site, i) r = Some w)"
  shows "snd (complete_with_proposal site i w a now result r) = r"
proof (cases "complete_with_proposal site i w a now result r")
  case (Pair res r')
  show ?thesis
  proof (cases res)
    case (Inl e)
    then show ?thesis using Pair complete_with_proposal_atomic by simp
  next
    case (Inr t')
    then show ?thesis
      using complete_with_proposal_cases [OF assms(1), of site i w a now result t' r'] Pair assms(2)
        lease_needs_fence [of site i w a "instant_of now" r] by auto
  qed
qed

section \<open>A concrete run\<close>

text \<open>
  One task with two attempts: submitted, claimed by one worker whose lease lapses, claimed by a
  second worker, which starts it and succeeds.
\<close>

definition demo_raw :: task_submission where
  "demo_raw = \<lparr>sub_task_id = ''t'', sub_site_id = ''s'', sub_processing_purpose = ''p'',
     sub_idempotency_key = ''k'', sub_agent_type = ''sales'', sub_subject_type = ''CRM Deal'',
     sub_subject_ref = ''d'', sub_due_at = Aware 0, sub_priority = 10, sub_max_attempts = 2,
     sub_causation_id = ''c'', sub_correlation_id = ''x'', sub_payload = [],
     sub_parent_task_id = None, sub_payload_digest = []\<rparr>"

definition demo_digest :: string where
  "demo_digest = canonical_payload_digest (idempotency_document demo_raw)"

definition demo_submission :: task_submission where
  "demo_submission = demo_raw\<lparr>sub_payload_digest := demo_digest\<rparr>"

definition demo0 :: agent_repo where
  "demo0 = run_op (Enqueue demo_submission (Aware 0)) agent_repo_new"

definition demo1 :: agent_repo where
  "demo1 = run_op (Claim ''s'' ''w1'' (Aware 1) 10) demo0"

definition demo2 :: agent_repo where
  "demo2 = run_op (Claim ''s'' ''w2'' (Aware 20) 10) demo1"

definition demo3 :: agent_repo where
  "demo3 = run_op (Succeed ''s'' ''t'' ''w2'' 2 (Aware 21) [''out'']) demo2"

lemma demo_submission_valid: "op_valid (Enqueue demo_submission now)"
proof -
  have "submission_post_init demo_raw = Inr demo_submission"
    by (simp add: submission_post_init_def demo_submission_def demo_digest_def demo_raw_def
        submission_required_def)
  then show ?thesis by auto
qed

lemma agent_stepI: "op_valid op \<Longrightarrow> agent_step r (run_op op r)"
  by (auto simp: agent_step_def)

lemma demo_steps:
  "agent_step agent_repo_new demo0" "agent_step demo0 demo1" "agent_step demo1 demo2" "agent_step demo2 demo3"
  unfolding demo0_def demo1_def demo2_def demo3_def
  by (rule agent_stepI, rule demo_submission_valid) (rule agent_stepI, simp only: op_valid.simps)+

lemma demo_reachable:
  "agent_reachable demo0" "agent_reachable demo1" "agent_reachable demo2" "agent_reachable demo3"
  using demo_steps unfolding agent_reachable_def by (auto intro: rtranclp.rtrancl_into_rtrancl)

definition demo_task :: "task_status \<Rightarrow> int \<Rightarrow> (string \<times> instant) option \<Rightarrow> string list \<Rightarrow> instant \<Rightarrow> agent_task" where
  "demo_task st a lease refs u = (new_task demo_submission 0)\<lparr>tk_status := st, tk_attempt := a,
     tk_lease_owner := map_option fst lease, tk_lease_expires_at := map_option snd lease,
     tk_output_artifact_refs := refs, tk_updated_at := u\<rparr>"

lemmas demo_defs = demo_task_def new_task_def demo_submission_def demo_raw_def

lemmas agent_eval = require_aware_def Let_def append_event_def store_task_def reap_expired_def
  exhausted_tasks_def lease_expired_def lease_active_def claim_candidates_def claim_guard_def
  take_lease_def require_live_lease_def complete_task_def created_event_def

lemma demo0_tasks: "ar_tasks demo0 = [((''s'', ''t''), demo_task QUEUED 0 None [] 0)]"
  by (simp add: demo0_def agent_repo_new_def enqueue_def agent_eval demo_defs)

lemma demo0_rest:
  "map_of (ar_timeline demo0) (''s'', ''t'') = Some [created_event demo_submission 0]"
  "ar_idempotency demo0 = [((''s'', ''k''), demo_task QUEUED 0 None [] 0)]"
  by (simp_all add: demo0_def agent_repo_new_def enqueue_def agent_eval demo_defs)

lemma demo1_tasks: "ar_tasks demo1 = [((''s'', ''t''), demo_task LEASED 1 (Some (''w1'', 11)) [] 1)]"
  by (simp add: demo1_def claim_def demo0_tasks demo0_rest agent_eval demo_defs)

lemma demo1_timeline: "\<exists>es. map_of (ar_timeline demo1) (''s'', ''t'') = Some es"
  using tasks_invD(5) agent_reachable_inv [OF demo_reachable(2)]
  by (auto simp: repo_inv_def demo1_tasks)

lemma demo2_tasks: "ar_tasks demo2 = [((''s'', ''t''), demo_task LEASED 2 (Some (''w2'', 30)) [] 20)]"
  using demo1_timeline
  by (auto simp: demo2_def claim_def demo1_tasks agent_eval demo_defs)

lemma demo3_tasks: "ar_tasks demo3 = [((''s'', ''t''), demo_task SUCCEEDED 2 None [''out''] 21)]"
proof -
  have "\<exists>es. map_of (ar_timeline demo2) (''s'', ''t'') = Some es"
    using tasks_invD(5) agent_reachable_inv [OF demo_reachable(3)]
    by (auto simp: repo_inv_def demo2_tasks)
  then show ?thesis
    by (auto simp: demo3_def succeed_def demo2_tasks agent_eval demo_defs)
qed

text \<open>The other end of the example: the second lease lapses too, and the next claim reaps the task.\<close>

definition demo_lapsed :: agent_repo where
  "demo_lapsed = run_op (Claim ''s'' ''w3'' (Aware 90) 10) demo2"

lemma demo_lapsed_reachable: "agent_reachable demo_lapsed"
  using demo_reachable(3) agent_stepI [of "Claim ''s'' ''w3'' (Aware 90) 10" demo2]
  unfolding agent_reachable_def demo_lapsed_def by (auto intro: rtranclp.rtrancl_into_rtrancl simp del: run_op.simps)

lemma demo_lapsed_task:
  "\<exists>t. get_task ''s'' ''t'' demo_lapsed = Some t \<and> tk_status t = DEAD_LETTER \<and> tk_max_attempts t = 2"
proof -
  obtain es where "map_of (ar_timeline demo2) (''s'', ''t'') = Some es"
    using tasks_invD(5) [of demo2 "(''s'', ''t'')"] agent_reachable_inv [OF demo_reachable(3)]
    by (auto simp: repo_inv_def demo2_tasks)
  then show ?thesis
    by (simp add: demo_lapsed_def claim_def demo2_tasks agent_eval move_to_dead_letter_def get_task_def demo_defs)
qed

section \<open>Fencing\<close>

text \<open>
  C1. A worker whose claim was superseded (the task's attempt has moved on) or released (another
  holder, or none, under that attempt) is fenced off for good: after any further run, none of its
  start, heartbeat, succeed, fail or completion calls with that attempt changes the repository, and
  the first four are rejected.
\<close>

theorem stale_worker_is_fenced:
  assumes "agent_reachable r" and "agent_step\<^sup>*\<^sup>* r r'"
    and "a < task_fence (site, i) r \<or> task_fence (site, i) r = a \<and> task_holder (site, i) r \<noteq> Some w"
  shows "(\<exists>e. start site i w a now r' = (Inl e, r'))
       \<and> (\<exists>e. heartbeat site i w a now d r' = (Inl e, r'))
       \<and> (\<exists>e. succeed site i w a now refs r' = (Inl e, r'))
       \<and> (\<exists>e. fail_task site i w a now retry c r' = (Inl e, r'))
       \<and> snd (complete_with_proposal site i w a now result r') = r'"
proof -
  have i0: "repo_inv r" using assms(1) by (rule agent_reachable_inv)
  have i': "repo_inv r'" using evolves_along(1) [OF i0 assms(2)] .
  have out: "\<not> (task_fence (site, i) r' = a \<and> task_holder (site, i) r' = Some w)"
    using assms(3) agent_fence.superseded_forever [OF i0 _ assms(2), of a "(site, i)"]
      agent_fence.stale_forever [OF i0 _ _ assms(2), of "(site, i)" a w] by blast
  show ?thesis
    using unfenced_call_rejected [OF out start_lease_call [OF i']]
      unfenced_call_rejected [OF out heartbeat_lease_call [OF i']]
      unfenced_call_rejected [OF out succeed_lease_call [OF i']]
      unfenced_call_rejected [OF out fail_task_lease_call [OF i']]
      unfenced_complete_no_effect [OF i' out] by blast
qed

theorem stale_worker_is_fenced_witness:
  "task_fence (''s'', ''t'') demo2 = 2 \<and> (\<exists>e. succeed ''s'' ''t'' ''w1'' 1 (Aware 21) [] demo3 = (Inl e, demo3))"
  using stale_worker_is_fenced [of demo2 demo3 1 "''s''" "''t''" "''w1''" "Aware 21" 10 "[]" "Aware 30"
      INTERNAL "\<lparr>xr_action_proposal = JNull, xr_invocations = []\<rparr>"] demo_reachable(3) demo_steps(4)
  by (auto simp: task_fence_def demo2_tasks demo_defs)

section \<open>The life of a task\<close>

text \<open>
  C4. In every reachable repository each task has used between 0 and its maximum of attempts, none
  exactly while it is queued; it carries a lease owner and expiry exactly while it is leased or
  running; it waits for a retry only with an attempt left; it is dead-lettered only when all its
  attempts are used, and a task that has used them all is under its last lease, succeeded or
  dead-lettered; and the dead-letter record exists exactly for the dead-lettered tasks.
\<close>

theorem reachable_task_invariant:
  assumes "agent_reachable r" and "get_task site i r = Some t"
  shows "tk_site_id t = site \<and> tk_task_id t = i
       \<and> 0 \<le> tk_attempt t \<and> tk_attempt t \<le> tk_max_attempts t
       \<and> (lease_active t \<longleftrightarrow> tk_lease_owner t \<noteq> None)
       \<and> (lease_active t \<longleftrightarrow> tk_lease_expires_at t \<noteq> None)
       \<and> (tk_status t = QUEUED \<longleftrightarrow> tk_attempt t = 0)
       \<and> (tk_status t = RECHECK \<longrightarrow> tk_attempt t < tk_max_attempts t)
       \<and> (tk_status t = DEAD_LETTER \<longrightarrow> tk_attempt t = tk_max_attempts t)
       \<and> (tk_attempt t = tk_max_attempts t \<longrightarrow> tk_status t \<in> {LEASED, RUNNING, SUCCEEDED, DEAD_LETTER})
       \<and> (tk_status t = DEAD_LETTER \<longleftrightarrow> get_dead_letter site i r \<noteq> None)"
proof -
  have ti: "tasks_inv r"
    using agent_reachable_inv [OF assms(1)] by (simp add: repo_inv_def)
  have t: "map_of (ar_tasks r) (site, i) = Some t"
    using assms(2) by (simp add: get_task_def)
  have "(get_dead_letter site i r \<noteq> None) = (tk_status t = DEAD_LETTER)"
    using ti t unfolding tasks_inv_def get_dead_letter_def by (metis option.inject)
  then show ?thesis
    using tasks_invD(3,4) [OF ti t]
    by (auto simp: task_key_def task_wf_def lease_active_def split: task_status.splits if_splits)
qed

theorem reachable_task_invariant_witness:
  "\<exists>t. get_task ''s'' ''t'' demo_lapsed = Some t \<and> tk_status t = DEAD_LETTER \<and> tk_attempt t = 2
     \<and> tk_max_attempts t = 2 \<and> tk_lease_owner t = None \<and> get_dead_letter ''s'' ''t'' demo_lapsed \<noteq> None"
proof -
  obtain t where t: "get_task ''s'' ''t'' demo_lapsed = Some t" "tk_status t = DEAD_LETTER" "tk_max_attempts t = 2"
    using demo_lapsed_task by blast
  then show ?thesis
    using reachable_task_invariant [OF demo_lapsed_reachable t(1)] by (auto simp: lease_active_def)
qed

text \<open>
  Succeeded and dead-lettered are final: whatever calls follow, the task keeps every field.
\<close>

theorem final_task_never_changes:
  assumes "agent_reachable r" and "get_task site i r = Some t"
    and "tk_status t \<in> {SUCCEEDED, DEAD_LETTER}" and "agent_step\<^sup>*\<^sup>* r r'"
  shows "get_task site i r' = Some t"
  using final_task_along [OF agent_reachable_inv [OF assms(1)] assms(4)] assms(2,3)
  by (simp add: get_task_def final_status_def)

theorem final_task_never_changes_witness:
  "get_task ''s'' ''t'' (run_op (Claim ''s'' ''w3'' (Aware 90) 10) demo3)
     = Some (demo_task SUCCEEDED 2 None [''out''] 21)"
  by (rule final_task_never_changes [OF demo_reachable(4)])
    (auto simp: get_task_def demo3_tasks demo_defs simp del: run_op.simps
      intro!: r_into_rtranclp agent_stepI)

text \<open>
  C5. The repository refines the abstract task machine: along any run, every task that existed
  still exists and has changed by moves of the machine only; its timeline has only grown, and the
  events of a timeline are numbered 0, 1, 2 and so on.
\<close>

theorem repository_refines_task_machine:
  assumes "agent_reachable r" and "agent_step\<^sup>*\<^sup>* r r'" and "get_task site i r = Some t"
  shows "(\<exists>t'. get_task site i r' = Some t' \<and> task_move\<^sup>*\<^sup>* t t')
       \<and> prefix (task_timeline site i r) (task_timeline site i r')
       \<and> map ev_sequence (task_timeline site i r') = map int [0..<length (task_timeline site i r')]"
proof -
  note e = evolves_along [OF agent_reachable_inv [OF assms(1)] assms(2)]
  have "map ev_sequence (task_timeline site i r') = map int [0..<length (task_timeline site i r')]"
    using e(1) unfolding repo_inv_def tasks_inv_def task_timeline_def by (auto split: option.split)
  then show ?thesis
    using e(2) [of "(site, i)"] e(3) assms(3) by (simp add: get_task_def)
qed

theorem repository_refines_task_machine_witness:
  "\<exists>t'. get_task ''s'' ''t'' demo3 = Some t' \<and>
     task_move\<^sup>*\<^sup>* (demo_task LEASED 2 (Some (''w2'', 30)) [] 20) t'"
  using repository_refines_task_machine [OF demo_reachable(3), of demo3 "''s''" "''t''"] demo_steps(4)
  by (auto simp: get_task_def demo2_tasks)

text \<open>
  C8. Sites are isolated: a call made for one site leaves the tasks, timelines and dead letters of
  every other site as they were.
\<close>

theorem sites_are_isolated:
  assumes "agent_reachable r" and "op_valid op" and "site \<noteq> op_site op"
  shows "get_task site i (run_op op r) = get_task site i r
       \<and> task_timeline site i (run_op op r) = task_timeline site i r
       \<and> get_dead_letter site i (run_op op r) = get_dead_letter site i r"
  using run_op_sound [OF assms(2), of r] agent_reachable_inv [OF assms(1)] assms(3)
  by (simp add: sound_step_def evolves_def)

theorem sites_are_isolated_witness:
  "get_task ''s'' ''t'' (run_op (Claim ''other'' ''w'' (Aware 99) 5) demo2) = get_task ''s'' ''t'' demo2"
  using sites_are_isolated [OF demo_reachable(3), of "Claim ''other'' ''w'' (Aware 99) 5" "''s''" "''t''"]
  by simp

section \<open>Claiming\<close>

definition claim_before :: "agent_task \<Rightarrow> agent_task \<Rightarrow> bool" where
  "claim_before t u =
     (tk_priority u < tk_priority t
      \<or> tk_priority u = tk_priority t \<and> (tk_due_at t < tk_due_at u
         \<or> tk_due_at t = tk_due_at u \<and> (tk_created_at t < tk_created_at u
            \<or> tk_created_at t = tk_created_at u \<and> tk_task_id t \<le> tk_task_id u)))"

lemma claim_order_before: "claim_order t \<le> claim_order u \<longleftrightarrow> claim_before t u"
  by (auto simp: claim_order_def claim_before_def less_eq_prod_def less_prod_def)

text \<open>
  C6. A successful claim hands out the first task in claim order (highest priority, then earliest
  due, then oldest, then by identifier) among those that are claimable once lapsed tasks without
  attempts left are dead-lettered; the task gets a fresh attempt, still within its maximum, and a
  lease of the requested length held by the claiming worker.
\<close>

theorem claim_takes_first_in_order:
  assumes "agent_reachable r" and "claim site w now d r = (Inr (Some t'), r')"
  shows "\<exists>r1 t. reap_expired site (instant_of now) r = (Inr (), r1)
       \<and> t \<in> set (claim_candidates site (instant_of now) r1)
       \<and> (\<forall>u \<in> set (claim_candidates site (instant_of now) r1).
            tk_priority u < tk_priority t
            \<or> tk_priority u = tk_priority t \<and> (tk_due_at t < tk_due_at u
               \<or> tk_due_at t = tk_due_at u \<and> (tk_created_at t < tk_created_at u
                  \<or> tk_created_at t = tk_created_at u \<and> tk_task_id t \<le> tk_task_id u)))
       \<and> get_task site (tk_task_id t) r' = Some t'
       \<and> tk_attempt t' = tk_attempt t + 1 \<and> tk_attempt t' \<le> tk_max_attempts t'
       \<and> tk_status t' = LEASED \<and> tk_lease_owner t' = Some w
       \<and> tk_lease_expires_at t' = Some (instant_of now + d)"
proof -
  have i: "repo_inv r" using assms(1) by (rule agent_reachable_inv)
  obtain r1 t where r1: "reap_expired site (instant_of now) r = (Inr (), r1)"
    and t: "t = arg_min_list claim_order (claim_candidates site (instant_of now) r1)"
      "t \<in> set (claim_candidates site (instant_of now) r1)"
    and t': "t' = take_lease LEASED w (instant_of now) d t" and s: "sound_step site r r'"
    and tasks: "ar_tasks r' = AList.update (task_key t) t' (ar_tasks r1)"
    using claim_outcome [OF i, of site w now d] assms(2) by auto
  have site: "tk_site_id t = site"
    using t(2) by (simp add: claim_candidates_def)
  have get: "map_of (ar_tasks r') (site, tk_task_id t) = Some t'"
    using site by (simp add: tasks task_key_def)
  moreover have "tasks_inv r'" using s i by (simp add: sound_step_def repo_inv_def)
  ultimately have "task_wf t'" using tasks_invD(3) by blast
  moreover have "claim_order t \<le> claim_order u" if "u \<in> set (claim_candidates site (instant_of now) r1)" for u
    using arg_min_list_least [OF that, of claim_order] t(1) by simp
  then have "\<forall>u \<in> set (claim_candidates site (instant_of now) r1). claim_before t u"
    by (auto simp: claim_order_before)
  ultimately show ?thesis
    using r1 t(2) get unfolding claim_before_def
    by (intro exI [of _ r1] exI [of _ t]) (auto simp: t' take_lease_def task_wf_def get_task_def)
qed

theorem claim_takes_first_in_order_witness:
  "\<exists>t. t \<in> set (claim_candidates ''s'' 1 demo0) \<and> tk_attempt t = 0"
proof -
  have "claim ''s'' ''w1'' (Aware 1) 10 demo0
      = (Inr (Some (demo_task LEASED 1 (Some (''w1'', 11)) [] 1)), demo1)"
    unfolding demo1_def by (simp add: claim_def demo0_tasks demo0_rest agent_eval demo_defs)
  from claim_takes_first_in_order [OF demo_reachable(1) this] obtain r1 t where
    "reap_expired ''s'' 1 demo0 = (Inr (), r1)" "t \<in> set (claim_candidates ''s'' 1 r1)" "tk_attempt t = 0"
    by (auto simp: demo_defs)
  moreover have "reap_expired ''s'' 1 demo0 = (Inr (), demo0)"
    by (simp add: agent_eval demo0_tasks demo_defs)
  ultimately show ?thesis by auto
qed











section \<open>Submitting\<close>

text \<open>
  C7. Submitting is idempotent: once a submission is accepted, submitting it again at any later
  point of the run returns the task in its current state and changes nothing, while another
  submission under the same key and site is refused as a conflict when its digest differs.
\<close>

theorem submission_is_idempotent:
  assumes "agent_reachable r" and "op_valid (Enqueue s now)" and "enqueue s now r = (Inr t, r')"
    and "agent_step\<^sup>*\<^sup>* r' r''" and "is_aware later"
  shows "\<exists>t''. get_task (sub_site_id s) (tk_task_id t) r'' = Some t'' \<and> task_move\<^sup>*\<^sup>* t t''
           \<and> enqueue s later r'' = (Inr t'', r'')
           \<and> (\<forall>s2. sub_site_id s2 = sub_site_id s \<and> sub_idempotency_key s2 = sub_idempotency_key s
                 \<and> sub_payload_digest s2 \<noteq> sub_payload_digest s
                 \<longrightarrow> (\<exists>m. enqueue s2 later r'' = (Inl (IdempotencyConflict m), r'')))"
proof -
  have i: "repo_inv r" using assms(1) by (rule agent_reachable_inv)
  have i': "repo_inv r'"
    using enqueue_sound [of s r now] assms(2,3) i submission_max_attempts by (auto simp: sound_step_def)
  note e = evolves_along [OF i' assms(4)]
  have t: "map_of (ar_idempotency r') (sub_site_id s, sub_idempotency_key s) = Some t
      \<and> tk_payload_digest t = sub_payload_digest s"
    using assms(3) unfolding enqueue_def Let_def
    by (auto simp: new_task_def split: sum.splits option.splits if_splits)
  have idx: "paired_index task_key task_ikey (ar_tasks r') (ar_idempotency r')"
    "paired_index task_key task_ikey (ar_tasks r'') (ar_idempotency r'')"
    using i' e(1) by (simp_all add: repo_inv_def tasks_inv_def)
  have key: "task_ikey t = (sub_site_id s, sub_idempotency_key s)" "map_of (ar_tasks r') (task_key t) = Some t"
    using paired_indexD(3,4) [OF idx(1)] t by auto
  then obtain t'' where t'': "map_of (ar_tasks r'') (task_key t) = Some t''" "task_move\<^sup>*\<^sup>* t t''"
    using e(2) by blast
  have same: "same_identity t t''" using task_moves_identity [OF t''(2)] .
  have "map_of (ar_idempotency r'') (sub_site_id s, sub_idempotency_key s) = Some t''"
    using paired_indexD(2) [OF idx(2) t''(1)] same key(1) by (simp add: same_identity_def)
  then show ?thesis
    using t'' t same key assms(5)
    by (intro exI [of _ t'']) (auto simp: enqueue_def require_aware_def Let_def get_task_def task_key_def
        task_ikey_def same_identity_def)
qed

theorem submission_is_idempotent_witness:
  "\<exists>t''. get_task ''s'' ''t'' demo1 = Some t'' \<and> enqueue demo_submission (Aware 5) demo1 = (Inr t'', demo1)"
proof -
  have "enqueue demo_submission (Aware 0) agent_repo_new = (Inr (demo_task QUEUED 0 None [] 0), demo0)"
    unfolding demo0_def by (simp add: agent_repo_new_def enqueue_def agent_eval demo_defs)
  moreover have "agent_reachable agent_repo_new" by (simp add: agent_reachable_def)
  ultimately show ?thesis
    using submission_is_idempotent [OF _ demo_submission_valid, of agent_repo_new "Aware 0" _ demo0 demo1 "Aware 5"]
      demo_steps(2) by (auto simp: demo_defs)
qed

section \<open>Completing with a proposal\<close>

lemma proposal_from_completed:
  "proposal_from_execution (complete_task now refs t) result = proposal_from_execution t result"
proof -
  have "tk_site_id (complete_task now refs t) = tk_site_id t" "tk_task_id (complete_task now refs t) = tk_task_id t"
    "tk_subject_ref (complete_task now refs t) = tk_subject_ref t"
    "tk_subject_type (complete_task now refs t) = tk_subject_type t"
    "tk_attempt (complete_task now refs t) = tk_attempt t"
    by (simp_all add: complete_task_def)
  note same = this
  show ?thesis
    unfolding proposal_from_execution_def bundle_document_def same ..
qed

text \<open>
  C3. Completion is all or nothing: a completion that raises (whatever raised, however far the
  block had come) leaves every dictionary of the repository as it was.
\<close>

theorem completion_is_atomic:
  assumes "complete_with_proposal site i w a now result r = (Inl e, r')"
  shows "r' = r"
  using assms by (rule complete_with_proposal_atomic)

theorem completion_is_atomic_witness:
  "snd (complete_with_proposal ''s'' ''t'' ''w1'' 1 (Aware 21) \<lparr>xr_action_proposal = JNull, xr_invocations = []\<rparr> demo2)
     = demo2"
proof -
  have "fst (complete_with_proposal ''s'' ''t'' ''w1'' 1 (Aware 21) \<lparr>xr_action_proposal = JNull, xr_invocations = []\<rparr> demo2)
      = Inl (LeaseConflict ''worker does not own a live lease for the expected attempt'')"
    by (simp add: complete_with_proposal_def demo2_tasks agent_eval demo_defs)
  then show ?thesis
    using completion_is_atomic [of "''s''" "''t''" "''w1''" 1 "Aware 21"
        "\<lparr>xr_action_proposal = JNull, xr_invocations = []\<rparr>" demo2]
    by (metis prod.collapse)
qed

text \<open>
  C2. A first completion commits exactly once and for good: the task is succeeded with the
  proposal as its only output, the proposal is an AI draft free of forbidden content, its outbox
  record exists, and all of its invocations are stored; at any later point of the run the same
  completion, by any worker, is a replay that returns the completed task and changes nothing.
\<close>

theorem completion_commits_once:
  assumes "agent_reachable r" and "complete_with_proposal site i w a now result r = (Inr t, r')"
    and "get_proposal site i a r = None" and "agent_step\<^sup>*\<^sup>* r' r''" and "is_aware later"
  shows "\<exists>p m. get_task site i r'' = Some t \<and> tk_status t = SUCCEEDED
       \<and> tk_output_artifact_refs t = [pr_proposal_id p]
       \<and> get_proposal site i a r'' = Some p \<and> pr_review_status p = ''AI Draft'' \<and> screened (pr_document p)
       \<and> get_materialization site i a r'' = Some m \<and> mo_proposal_id m = pr_proposal_id p
       \<and> set (xr_invocations result) \<subseteq> ran (map_of (ar_invocations r''))
       \<and> complete_with_proposal site i w2 a later result r'' = (Inr t, r'')"
proof -
  have i0: "repo_inv r" using assms(1) by (rule agent_reachable_inv)
  obtain t0 p where t0: "require_live_lease site i w a (instant_of now) r = Inr t0"
    and p: "proposal_from_execution t0 result = Inr p"
    and none: "map_of (ar_proposals r) (site, i, a) = None"
    and body: "completion_body (site, i, a) t0 p w (instant_of now) result r = (Inr t, r')"
    using complete_with_proposal_cases [OF i0 assms(2)] assms(3) by (auto simp: get_proposal_def)
  note ok = completion_body_ok [OF i0 t0 p none body]
  have i': "repo_inv r'" using ok(1) i0 by (simp add: sound_step_def)
  note e = evolves_along [OF i' assms(4)]
  have st: "tk_status t = SUCCEEDED" "tk_output_artifact_refs t = [pr_proposal_id p]" "tk_attempt t = a"
    using ok(2) t0 by (simp_all add: complete_task_def require_live_lease_iff)
  have t: "map_of (ar_tasks r'') (site, i) = Some t"
    using final_task_along [OF i' assms(4)] ok(3) st(1) by (simp add: final_status_def)
  have pp: "map_of (ar_proposals r'') (site, i, a) = Some p"
    using e(4) ok(4) by (auto simp: map_le_def dom_def)
  then have fin: "proposal_done r'' p" and key: "proposal_key p = (site, i, a)"
    using e(1) unfolding repo_inv_def proposals_inv_def by (blast, metis paired_indexD(1))
  then obtain m where m: "map_of (ar_materializations r'') (site, i, a) = Some m" "mo_origin m = ''AI''"
    "mo_review_status m = ''AI Draft''" "mo_proposal_id m = pr_proposal_id p"
    by (auto simp: proposal_done_def)
  have invs: "\<forall>x \<in> set (xr_invocations result). map_of (ar_invocations r'') (mi_site_id x, mi_invocation_id x) = Some x"
    using e(5) ok(5) by (auto simp: map_le_def dom_def)
  have "validate_replayed_invocations (xr_invocations result) r'' = Inr ()"
    using invs by (simp add: validate_replayed_invocations_def check_all_Inr_iff)
  then have "complete_with_proposal site i w2 a later result r'' = (Inr t, r'')"
    using t pp st m assms(5) p proposal_from_completed ok(2)
    by (simp add: complete_with_proposal_def require_aware_def replay_completion_def)
  then show ?thesis
    using t st pp m invs proposal_screened [OF p]
    by (intro exI [of _ p] exI [of _ m]) (auto simp: get_task_def get_proposal_def get_materialization_def intro: ranI)
qed

text \<open>The second worker of the example starts the task and completes it with a proposal.\<close>

definition demo_document :: fields where
  "demo_document =
     [(''action_proposal_id'', JStr ''ap1''), (''site_id'', JStr ''s''),
      (''action_type'', JStr ''internal.work_item.propose''), (''status'', JStr ''proposed''),
      (''fact_version_refs'', JList []), (''evidence_refs'', JList [JStr ''e1'']),
      (''target_ref'', JStr ''d''), (''target_revision'', JInt 1), (''payload'', JObj []),
      (''payload_digest'', JStr ''44136fa355b3678a1146ad16f7e8649e94fb4fc21fe77e8310c060f61caaff8a''),
      (''created_at'', JStr ''2026-01-01T00:00:00Z'')]"

definition demo_result :: execution_result where
  "demo_result = \<lparr>xr_action_proposal = JObj demo_document, xr_invocations = []\<rparr>"

definition demo_running :: agent_repo where
  "demo_running = run_op (Start ''s'' ''t'' ''w2'' 2 (Aware 21)) demo2"

lemma demo_running_reachable: "agent_reachable demo_running"
  using demo_reachable(3) agent_stepI [of "Start ''s'' ''t'' ''w2'' 2 (Aware 21)" demo2]
  unfolding agent_reachable_def demo_running_def by (auto intro: rtranclp.rtrancl_into_rtrancl simp del: run_op.simps)

lemma demo_payload_digest:
  "canonical_payload_digest [] = ''44136fa355b3678a1146ad16f7e8649e94fb4fc21fe77e8310c060f61caaff8a''"
  by code_simp

lemma demo_document_screened: "screened (JObj demo_document)"
  by (rule screened_plainly) code_simp

lemma demo_timeline: "agent_reachable r \<Longrightarrow> ar_tasks r = [(k, t)] \<Longrightarrow> \<exists>es. map_of (ar_timeline r) k = Some es"
  using tasks_invD(5) [of r k t] agent_reachable_inv [of r] by (simp add: repo_inv_def)

lemma demo_running_state:
  "ar_tasks demo_running = [((''s'', ''t''), demo_task RUNNING 2 (Some (''w2'', 30)) [] 21)]"
  "ar_proposals demo_running = [] \<and> ar_proposal_idempotency demo_running = []"
proof -
  have "ar_proposals demo0 = [] \<and> ar_proposal_idempotency demo0 = []"
    by (simp add: demo0_def agent_repo_new_def enqueue_def agent_eval demo_defs)
  then have "ar_proposals demo1 = [] \<and> ar_proposal_idempotency demo1 = []"
    by (simp add: demo1_def claim_def demo0_tasks demo0_rest agent_eval demo_defs)
  then have "ar_proposals demo2 = [] \<and> ar_proposal_idempotency demo2 = []"
    using demo1_timeline by (auto simp: demo2_def claim_def demo1_tasks agent_eval demo_defs)
  then show "ar_proposals demo_running = [] \<and> ar_proposal_idempotency demo_running = []"
    and "ar_tasks demo_running = [((''s'', ''t''), demo_task RUNNING 2 (Some (''w2'', 30)) [] 21)]"
    using demo_timeline [OF demo_reachable(3) demo2_tasks]
    by (auto simp: demo_running_def start_def demo2_tasks agent_eval demo_defs)
qed

lemma demo_proposal:
  "\<exists>p. proposal_from_execution (demo_task RUNNING 2 (Some (''w2'', 30)) [] 21) demo_result = Inr p"
proof -
  have d: "thaw_json (freeze_json (JObj demo_document)) = JObj demo_document"
    by (simp add: demo_document_def)
  have dt: "fromisoformat ''2026-01-01T00:00:00+00:00'' = Some (Aware 1767225600000000)"
    by code_simp
  have dig: "is_sha256_text ''44136fa355b3678a1146ad16f7e8649e94fb4fc21fe77e8310c060f61caaff8a''"
    by code_simp
  have bd: "is_sha256_text (canonical_payload_digest x)" for x
    by (simp add: canonical_payload_digest_def)
  have scr: "reject_unsafe_content (JObj demo_document) = Inr ()"
    by (rule iffD2 [OF reject_unsafe_screened demo_document_screened])
  show ?thesis
    unfolding demo_result_def proposal_from_execution_def Let_def execution_result.simps d
    using demo_payload_digest
    by (simp add: demo_document_def demo_defs str_list_def dt proposal_post_init_def dig bd
        scr [unfolded demo_document_def] allowed_action_types_def
        del: reject_unsafe_content.simps reject_unsafe_fields.simps)
qed

lemma demo_completion:
  "\<exists>t r'. complete_with_proposal ''s'' ''t'' ''w2'' 2 (Aware 22) demo_result demo_running = (Inr t, r')"
proof -
  obtain p where p: "proposal_from_execution (demo_task RUNNING 2 (Some (''w2'', 30)) [] 21) demo_result = Inr p"
    using demo_proposal by blast
  obtain m where m: "materialization_from_proposal p 22 = Inr m"
    using materialization_from_proposal_ok by blast
  obtain es where "map_of (ar_timeline demo_running) (''s'', ''t'') = Some es"
    using demo_timeline [OF demo_running_reachable demo_running_state(1)] by blast
  then show ?thesis
    using demo_running_state p m
    by (simp add: complete_with_proposal_def completion_body_def append_proposal_def agent_eval
        demo_task_def [of RUNNING] demo_result_def new_task_def demo_submission_def demo_raw_def)
qed

theorem completion_commits_once_witness:
  "\<exists>t r'. complete_with_proposal ''s'' ''t'' ''w2'' 2 (Aware 22) demo_result demo_running = (Inr t, r')
     \<and> complete_with_proposal ''s'' ''t'' ''w9'' 2 (Aware 90) demo_result r' = (Inr t, r')"
proof -
  obtain t r' where c: "complete_with_proposal ''s'' ''t'' ''w2'' 2 (Aware 22) demo_result demo_running = (Inr t, r')"
    using demo_completion by blast
  have "get_proposal ''s'' ''t'' 2 demo_running = None"
    by (simp add: get_proposal_def demo_running_state)
  from completion_commits_once [OF demo_running_reachable c this rtranclp.rtrancl_refl, of "Aware 90" "''w9''"] c
  show ?thesis by auto
qed

end
