(* ===== verification/Media_Upload.thy ===== *)
theory Media_Upload
  imports Py_Json Py_Regex Py_Time
begin

text \<open>
  Authenticated streaming upload of media evidence (\<open>services/media_runtime/upload.py\<close>). The
  verifier, the temporary sink, the clock and the id factory are injected objects the file only
  calls: they are the fields of a record, each able to raise, and every call that reaches the sink is
  logged, so that what a rejected upload leaves behind is visible.
\<close>

section \<open>Data\<close>

datatype source_kind = PHONE | MEETING | FILE

fun source_kind_value :: "source_kind \<Rightarrow> string" where
  "source_kind_value PHONE = ''phone''"
| "source_kind_value MEETING = ''meeting''"
| "source_kind_value FILE = ''file''"

datatype upload_error = UploadRejected string | UploadValueError string

record upload_binding =
  ub_site_id :: string
  ub_purpose :: string
  ub_source_kind :: source_kind
  ub_request_id :: string
  ub_declared_size :: int

definition upload_binding_post_init :: "upload_binding \<Rightarrow> upload_error + upload_binding" where
  "upload_binding_post_init b =
     (if ub_site_id b = [] then Inl (UploadValueError ''site_id_required'')
      else if ub_purpose b = [] then Inl (UploadValueError ''purpose_required'')
      else if ub_request_id b = [] then Inl (UploadValueError ''request_id_required'')
      else if ub_declared_size b < 0 then Inl (UploadValueError ''declared_size_invalid'')
      else Inr b)"

record upload_request =
  ur_binding :: upload_binding
  ur_credential :: string
  ur_media_type :: string
  ur_filename_metadata_ref :: "string option"

definition upload_request_post_init :: "upload_request \<Rightarrow> upload_error + upload_request" where
  "upload_request_post_init q =
     (if ur_credential q = [] then Inl (UploadValueError ''credential_required'')
      else if ur_media_type q = [] \<or> CHR ''/'' \<notin> set (ur_media_type q)
      then Inl (UploadValueError ''media_type_invalid'')
      else if (case ur_filename_metadata_ref q of None \<Rightarrow> False
               | Some r \<Rightarrow> \<not> starts_with r ''localmeta://'')
      then Inl (UploadValueError ''filename_metadata_ref_invalid'')
      else Inr q)"

record stored_upload_refs =
  su_object_ref :: string
  su_evidence_ref :: string

record upload_receipt =
  rc_receipt_id :: string
  rc_site_id :: string
  rc_purpose :: string
  rc_request_id :: string
  rc_source_kind :: source_kind
  rc_media_type :: string
  rc_byte_size :: int
  rc_sha256 :: string
  rc_object_ref :: string
  rc_evidence_ref :: string
  rc_received_at :: instant
  rc_immutable_checksum :: string
  rc_retention_days :: int
  rc_consent_basis :: string

definition receipt_to_contract :: "upload_receipt \<Rightarrow> fields" where
  "receipt_to_contract r =
     [(''schema_version'', JStr ''1.0''),
      (''receipt_id'', JStr (rc_receipt_id r)),
      (''site_id'', JStr (rc_site_id r)),
      (''purpose'', JStr (rc_purpose r)),
      (''request_id'', JStr (rc_request_id r)),
      (''source_kind'', JStr (source_kind_value (rc_source_kind r))),
      (''media_type'', JStr (rc_media_type r)),
      (''byte_size'', JInt (rc_byte_size r)),
      (''sha256'', JStr (rc_sha256 r)),
      (''object_ref'', JStr (rc_object_ref r)),
      (''evidence_ref'', JStr (rc_evidence_ref r)),
      (''received_at'', JStr (isoformat_z (rc_received_at r))),
      (''retention_days'', JInt (rc_retention_days r)),
      (''consent_basis'', JStr (rc_consent_basis r)),
      (''immutable_checksum'', JStr (rc_immutable_checksum r))]"

section \<open>References\<close>

definition host_char :: "char \<Rightarrow> bool" where
  "host_char c = (is_alnum c \<or> c = CHR ''.'' \<or> c = CHR ''-'')"

definition key_char :: "char \<Rightarrow> bool" where
  "key_char c = (is_alnum c \<or> c = CHR ''_'' \<or> c = CHR ''-'')"

text \<open>
  \<open>[A-Za-z0-9][A-Za-z0-9.-]{0,139}/[A-Za-z0-9_-]{1,256}\<close>: neither class has a slash, so the
  first one ends the host.
\<close>

definition host_and_key :: "string \<Rightarrow> bool" where
  "host_and_key s =
     (let host = takeWhile (\<lambda>c. c \<noteq> CHR ''/'') s; rest = drop (length host) s in
      shape_match is_alnum host_char 0 139 host \<and> rest \<noteq> [] \<and>
      shape_match key_char key_char 0 255 (tl rest))"

definition reference_with :: "string \<Rightarrow> string \<Rightarrow> bool" where
  "reference_with scheme s = (starts_with s scheme \<and> host_and_key (drop (length scheme) s))"

definition object_reference :: "string \<Rightarrow> bool" where
  "object_reference s = (reference_with ''object://'' s \<or> reference_with ''localobject://'' s)"

definition evidence_reference :: "string \<Rightarrow> bool" where
  "evidence_reference s = reference_with ''evidence://'' s"

section \<open>The service\<close>

text \<open>
  Iterating the stream and writing to the handle may raise, \<open>UploadRejected\<close> included, which is
  re-raised as it is.
\<close>

datatype raised = RaisesRejected string | RaisesOther

datatype upload_item = Chunk string | NotBytes | StreamRaises raised

datatype finalize_result = FinalizeError | ForeignValue | Refs stored_upload_refs

record upload_service =
  us_verify :: "string \<Rightarrow> upload_binding \<Rightarrow> bool option"
  us_open :: "upload_binding \<Rightarrow> string \<Rightarrow> bool"
  us_write :: "string list \<Rightarrow> string \<Rightarrow> raised option"
  us_finalize :: "string list \<Rightarrow> string \<Rightarrow> int \<Rightarrow> string \<Rightarrow> finalize_result"
  us_clock :: "datetime option"
  us_receipt_id :: "string option"
  us_max_bytes :: int

datatype sink_event = Opened string | Wrote string | Finalized string int string | Aborted

definition upload_service_init :: "upload_service \<Rightarrow> upload_error + upload_service" where
  "upload_service_init s =
     (if us_max_bytes s < 1 then Inl (UploadValueError ''max_bytes_invalid'') else Inr s)"

definition upload_idempotency_key :: "upload_binding \<Rightarrow> string" where
  "upload_idempotency_key b =
     ''upload:'' @ sha256_hex (join [char_of (31::int)]
       [''authenticated-stream-upload-v1'', ub_site_id b, ub_purpose b,
        source_kind_value (ub_source_kind b), ub_request_id b, int_text (ub_declared_size b)])"

definition open_temporary ::
  "upload_service \<Rightarrow> upload_binding \<Rightarrow> (upload_error, unit, sink_event list) call" where
  "open_temporary s b =
     (if us_open s b (upload_idempotency_key b)
      then (Inr (), [Opened (upload_idempotency_key b)])
      else (Inl (UploadRejected ''temporary_sink_unavailable''), []))"

definition receipt_checksum ::
  "string \<Rightarrow> upload_binding \<Rightarrow> string \<Rightarrow> int \<Rightarrow> string \<Rightarrow> stored_upload_refs \<Rightarrow> instant \<Rightarrow> string" where
  "receipt_checksum receipt_id b media_type byte_size sha256 refs received_at =
     json_digest (JObj
       [(''checksum_version'', JStr ''upload-receipt-v1''),
        (''receipt_id'', JStr receipt_id),
        (''site_id'', JStr (ub_site_id b)),
        (''purpose'', JStr (ub_purpose b)),
        (''request_id'', JStr (ub_request_id b)),
        (''source_kind'', JStr (source_kind_value (ub_source_kind b))),
        (''media_type'', JStr media_type),
        (''byte_size'', JInt byte_size),
        (''sha256'', JStr sha256),
        (''object_ref'', JStr (su_object_ref refs)),
        (''evidence_ref'', JStr (su_evidence_ref refs)),
        (''received_at'', JStr (isoformat_z received_at)),
        (''retention_days'', JInt 30),
        (''consent_basis'', JStr ''pilot_deferred_review'')])"

text \<open>
  The streaming loop: the chunks written so far, their total size, and the log. An exception while
  iterating or writing aborts the handle; what was already written stays in the log.
\<close>

definition safe_abort :: "string \<Rightarrow> sink_event list \<Rightarrow> (upload_error, 'a, sink_event list) call" where
  "safe_abort code log = (Inl (UploadRejected code), log @ [Aborted])"

fun interrupted :: "raised \<Rightarrow> string" where
  "interrupted (RaisesRejected code) = code"
| "interrupted RaisesOther = ''stream_interrupted''"

fun stream_chunks ::
  "upload_service \<Rightarrow> int \<Rightarrow> upload_item list \<Rightarrow> string list \<Rightarrow> int \<Rightarrow> sink_event list
     \<Rightarrow> (upload_error, string list \<times> int, sink_event list) call" where
  "stream_chunks s declared [] written sz log = (Inr (written, sz), log)"
| "stream_chunks s declared (item # items) written sz log =
     (case item of
        NotBytes \<Rightarrow> safe_abort ''invalid_chunk'' log
      | StreamRaises e \<Rightarrow> safe_abort (interrupted e) log
      | Chunk chunk \<Rightarrow>
          (let sz' = sz + int (length chunk) in
           if declared < sz' \<or> us_max_bytes s < sz' then safe_abort ''size_exceeded'' log
           else (case us_write s written chunk of
               Some e \<Rightarrow> safe_abort (interrupted e) log
             | None \<Rightarrow> stream_chunks s declared items (written @ [chunk]) sz' (log @ [Wrote chunk]))))"

definition finish_upload ::
  "upload_service \<Rightarrow> upload_request \<Rightarrow> string list \<Rightarrow> int \<Rightarrow> sink_event list
     \<Rightarrow> (upload_error, upload_receipt, sink_event list) call" where
  "finish_upload s q written byte_size log =
     (let b = ur_binding q; sha256 = sha256_hex (concat written) in
      case (us_clock s, us_receipt_id s) of
        (Some received_at, Some receipt_id) \<Rightarrow>
          if \<not> is_aware received_at then safe_abort ''clock_invalid'' log
          else if receipt_id = [] then safe_abort ''receipt_id_invalid'' log
          else (case us_finalize s written sha256 byte_size (ur_media_type q) of
             FinalizeError \<Rightarrow> safe_abort ''storage_failure'' log
           | ForeignValue \<Rightarrow>
               safe_abort ''storage_reference_invalid'' (log @ [Finalized sha256 byte_size (ur_media_type q)])
           | Refs refs \<Rightarrow>
               (let log' = log @ [Finalized sha256 byte_size (ur_media_type q)] in
                if \<not> object_reference (su_object_ref refs) \<or> \<not> evidence_reference (su_evidence_ref refs)
                then safe_abort ''storage_reference_invalid'' log'
                else (Inr \<lparr>rc_receipt_id = receipt_id, rc_site_id = ub_site_id b,
                           rc_purpose = ub_purpose b, rc_request_id = ub_request_id b,
                           rc_source_kind = ub_source_kind b, rc_media_type = ur_media_type q,
                           rc_byte_size = byte_size, rc_sha256 = sha256,
                           rc_object_ref = su_object_ref refs, rc_evidence_ref = su_evidence_ref refs,
                           rc_received_at = instant_of received_at,
                           rc_immutable_checksum = receipt_checksum receipt_id b (ur_media_type q)
                             byte_size sha256 refs (instant_of received_at),
                           rc_retention_days = 30, rc_consent_basis = ''pilot_deferred_review''\<rparr>, log')))
      | _ \<Rightarrow> safe_abort ''receipt_metadata_failure'' log)"

definition receive ::
  "upload_service \<Rightarrow> upload_request \<Rightarrow> upload_item list \<Rightarrow> (upload_error, upload_receipt, sink_event list) call" where
  "receive s q chunks =
     (let b = ur_binding q in
      if us_verify s (ur_credential q) b \<noteq> Some True
      then (Inl (UploadRejected ''authentication_failed''), [])
      else if ub_declared_size b = 0 then (Inl (UploadRejected ''empty_upload''), [])
      else if us_max_bytes s < ub_declared_size b then (Inl (UploadRejected ''size_limit_exceeded''), [])
      else and_then (open_temporary s b) (\<lambda>_ log.
        and_then (stream_chunks s (ub_declared_size b) chunks [] 0 log) (\<lambda>(written, byte_size) log'.
          if byte_size \<noteq> ub_declared_size b then safe_abort ''size_mismatch'' log'
          else finish_upload s q written byte_size log')))"

section \<open>What an upload leaves behind\<close>

definition chunk_items :: "string list \<Rightarrow> upload_item list" where
  "chunk_items cs = map Chunk cs"

definition wrote_bytes :: "sink_event list \<Rightarrow> string" where
  "wrote_bytes log = concat (map (\<lambda>e. case e of Wrote c \<Rightarrow> c | _ \<Rightarrow> []) log)"

lemma wrote_bytes_simps [simp]:
  "wrote_bytes [] = []"
  "wrote_bytes (a @ b) = wrote_bytes a @ wrote_bytes b"
  "wrote_bytes (Wrote c # l) = c @ wrote_bytes l"
  "wrote_bytes (Opened k # l) = wrote_bytes l"
  "wrote_bytes (Finalized h n m # l) = wrote_bytes l"
  "wrote_bytes (Aborted # l) = wrote_bytes l"
  by (simp_all add: wrote_bytes_def)

lemma safe_abort_simps [simp]:
  "fst (safe_abort code log) = Inl (UploadRejected code)"
  "snd (safe_abort code log) = log @ [Aborted]"
  "safe_abort code log \<noteq> (Inr x, log')"
  by (simp_all add: safe_abort_def)

lemma and_then_safe_abort [simp]: "and_then (safe_abort code log) f = safe_abort code log"
  by (simp add: safe_abort_def)

lemma stream_chunks_ok:
  "stream_chunks s d items written sz log = (Inr (written', sz'), log') \<Longrightarrow>
   sz = int (length (concat written)) \<Longrightarrow>
   \<exists>cs. items = chunk_items cs \<and> written' = written @ cs \<and> log' = log @ map Wrote cs
     \<and> sz' = int (length (concat written'))"
proof (induction s d items written sz log rule: stream_chunks.induct)
  case (2 s d item items written sz log)
  then obtain c where "item = Chunk c"
    by (cases item) auto
  with 2 show ?case
    by (fastforce simp: Let_def chunk_items_def split: if_splits option.splits)
qed (auto simp: chunk_items_def)

lemma stream_chunks_log:
  assumes "sz = int (length (concat written))" and "sz \<le> d" and "sz \<le> us_max_bytes s"
  shows "\<exists>cs. (case fst (stream_chunks s d items written sz log) of
       Inl _ \<Rightarrow> snd (stream_chunks s d items written sz log) = log @ map Wrote cs @ [Aborted]
     | Inr _ \<Rightarrow> snd (stream_chunks s d items written sz log) = log @ map Wrote cs)
     \<and> int (length (concat written @ concat cs)) \<le> min d (us_max_bytes s)"
  using assms
proof (induction s d items written sz log rule: stream_chunks.induct)
  case (1 s d written sz log)
  then show ?case by (intro exI [of _ "[]"]) simp
next
  case (2 s d item items written sz log)
  show ?case
  proof (cases "\<exists>c. item = Chunk c \<and> us_write s written c = None
      \<and> sz + int (length c) \<le> d \<and> sz + int (length c) \<le> us_max_bytes s")
    case True
    then obtain c where c: "item = Chunk c" "us_write s written c = None"
      "sz + int (length c) \<le> d" "sz + int (length c) \<le> us_max_bytes s" by blast
    then have eq: "stream_chunks s d (item # items) written sz log =
        stream_chunks s d items (written @ [c]) (sz + int (length c)) (log @ [Wrote c])"
      by (simp add: Let_def)
    obtain cs where cs: "case fst (stream_chunks s d (item # items) written sz log) of
         Inl _ \<Rightarrow> snd (stream_chunks s d (item # items) written sz log) = (log @ [Wrote c]) @ map Wrote cs @ [Aborted]
       | Inr _ \<Rightarrow> snd (stream_chunks s d (item # items) written sz log) = (log @ [Wrote c]) @ map Wrote cs"
      "int (length (concat (written @ [c]) @ concat cs)) \<le> min d (us_max_bytes s)"
      using "2.IH" [OF c(1) refl _ c(2)] c(3,4) "2.prems" unfolding eq by auto
    then show ?thesis
      by (intro exI [of _ "c # cs"]) (simp split: sum.splits)
  next
    case False
    then have "\<exists>code. stream_chunks s d (item # items) written sz log = safe_abort code log"
      by (cases item) (auto simp: Let_def not_le split: option.splits)
    then show ?thesis
      using "2.prems" by (intro exI [of _ "[]"]) auto
  qed
qed

section \<open>Receipts and rejections\<close>

lemma finish_upload_ok:
  assumes "finish_upload s q written n log = (Inr r, log')"
  shows "log' = log @ [Finalized (sha256_hex (concat written)) n (ur_media_type q)]"
    and "rc_sha256 r = sha256_hex (concat written)" and "rc_byte_size r = n"
    and "rc_media_type r = ur_media_type q"
    and "object_reference (rc_object_ref r)" and "evidence_reference (rc_evidence_ref r)"
    and "rc_site_id r = ub_site_id (ur_binding q)" and "rc_request_id r = ub_request_id (ur_binding q)"
    and "rc_immutable_checksum r = json_digest (JObj ((''checksum_version'', JStr ''upload-receipt-v1'') #
       filter (\<lambda>(k, _). k \<noteq> ''schema_version'' \<and> k \<noteq> ''immutable_checksum'') (receipt_to_contract r)))"
  using assms
  by (auto simp: finish_upload_def Let_def receipt_checksum_def receipt_to_contract_def
      split: option.splits finalize_result.splits if_splits)

lemma finish_upload_rejects:
  assumes "finish_upload s q written n log = (Inl e, log')"
  shows "\<exists>fin. log' = log @ fin @ [Aborted] \<and> wrote_bytes fin = [] \<and> Aborted \<notin> set fin"
proof -
  have "log' = log @ [] @ [Aborted] \<or>
      log' = log @ [Finalized (sha256_hex (concat written)) n (ur_media_type q)] @ [Aborted]"
    using assms
    by (auto simp: finish_upload_def Let_def safe_abort_def
        split: option.splits finalize_result.splits if_splits)
  then show ?thesis
    by (metis empty_iff empty_set set_ConsD sink_event.distinct(11) wrote_bytes_simps(1,5))
qed

lemma receive_ok:
  assumes "receive s q chunks = (Inr r, log)"
  obtains cs where "chunks = chunk_items cs" and "us_verify s (ur_credential q) (ur_binding q) = Some True"
    and "int (length (concat cs)) = ub_declared_size (ur_binding q)"
    and "0 \<noteq> ub_declared_size (ur_binding q)" and "ub_declared_size (ur_binding q) \<le> us_max_bytes s"
    and "finish_upload s q cs (ub_declared_size (ur_binding q))
       (Opened (upload_idempotency_key (ur_binding q)) # map Wrote cs) = (Inr r, log)"
proof -
  obtain written n log' where st: "stream_chunks s (ub_declared_size (ur_binding q)) chunks [] 0
      [Opened (upload_idempotency_key (ur_binding q))] = (Inr (written, n), log')"
    and n: "n = ub_declared_size (ur_binding q)" and f: "finish_upload s q written n log' = (Inr r, log)"
    using assms
    by (auto simp: receive_def Let_def open_temporary_def and_then_Inr_iff split: if_splits)
  obtain cs where "chunks = chunk_items cs" "written = cs" "n = int (length (concat cs))"
    "log' = Opened (upload_idempotency_key (ur_binding q)) # map Wrote cs"
    using stream_chunks_ok [OF st] by auto
  then show thesis
    using that n f assms by (auto simp: receive_def Let_def split: if_splits)
qed

text \<open>
  An upload that ends with a receipt was authenticated, and the receipt describes what is in the
  store: the sink saw exactly one open under the binding's idempotency key, then every chunk in order,
  then one finalization; the recorded size is the number of bytes received, equal to the declared
  size and within the limit; the digest is the SHA-256 of those bytes; the references are
  well-formed; and the immutable checksum can be recomputed from the published contract.
\<close>
theorem upload_receipt_is_faithful:
  assumes "receive s q chunks = (Inr r, log)"
  shows "\<exists>cs. chunks = map Chunk cs
     \<and> us_verify s (ur_credential q) (ur_binding q) = Some True
     \<and> log = [Opened (upload_idempotency_key (ur_binding q))] @ map Wrote cs
         @ [Finalized (rc_sha256 r) (rc_byte_size r) (rc_media_type r)]
     \<and> rc_sha256 r = sha256_hex (concat cs)
     \<and> rc_byte_size r = int (length (concat cs))
     \<and> rc_byte_size r = ub_declared_size (ur_binding q)
     \<and> 0 < rc_byte_size r \<and> rc_byte_size r \<le> us_max_bytes s
     \<and> rc_site_id r = ub_site_id (ur_binding q) \<and> rc_request_id r = ub_request_id (ur_binding q)
     \<and> object_reference (rc_object_ref r) \<and> evidence_reference (rc_evidence_ref r)
     \<and> rc_immutable_checksum r = json_digest (JObj ((''checksum_version'', JStr ''upload-receipt-v1'') #
          filter (\<lambda>(k, _). k \<noteq> ''schema_version'' \<and> k \<noteq> ''immutable_checksum'') (receipt_to_contract r)))"
proof -
  obtain cs where c: "chunks = chunk_items cs" "us_verify s (ur_credential q) (ur_binding q) = Some True"
    "int (length (concat cs)) = ub_declared_size (ur_binding q)"
    "0 \<noteq> ub_declared_size (ur_binding q)" "ub_declared_size (ur_binding q) \<le> us_max_bytes s"
    and f: "finish_upload s q cs (ub_declared_size (ur_binding q))
       (Opened (upload_idempotency_key (ur_binding q)) # map Wrote cs) = (Inr r, log)"
    using receive_ok [OF assms] by metis
  show ?thesis
    using c finish_upload_ok [OF f] by (intro exI [of _ cs]) (auto simp: chunk_items_def)
qed

definition demo_service :: "int \<Rightarrow> upload_service" where
  "demo_service limit =
     \<lparr>us_verify = (\<lambda>credential _. Some (credential = ''token'')), us_open = (\<lambda>_ _. True),
      us_write = (\<lambda>_ _. None),
      us_finalize = (\<lambda>_ _ _ _. Refs \<lparr>su_object_ref = ''object://site-a/k1'', su_evidence_ref = ''evidence://site-a/e1''\<rparr>),
      us_clock = Some (Aware 0), us_receipt_id = Some ''rcpt-1'', us_max_bytes = limit\<rparr>"

definition demo_request :: "int \<Rightarrow> upload_request" where
  "demo_request n =
     \<lparr>ur_binding = \<lparr>ub_site_id = ''site-a'', ub_purpose = ''pilot'', ub_source_kind = FILE,
                   ub_request_id = ''req-1'', ub_declared_size = n\<rparr>,
      ur_credential = ''token'', ur_media_type = ''audio/wav'', ur_filename_metadata_ref = None\<rparr>"

lemma demo_references:
  "object_reference ''object://site-a/k1''" "evidence_reference ''evidence://site-a/e1''"
  by code_simp+

lemma demo_receive_ok:
  "\<exists>r log. receive (demo_service 10) (demo_request 3) [Chunk ''ab'', Chunk ''c''] = (Inr r, log)"
  by (simp add: receive_def open_temporary_def finish_upload_def demo_service_def demo_request_def
      demo_references Let_def)

theorem upload_receipt_is_faithful_witness:
  "\<exists>r log cs. receive (demo_service 10) (demo_request 3) [Chunk ''ab'', Chunk ''c''] = (Inr r, log)
     \<and> [Chunk ''ab'', Chunk ''c''] = map Chunk cs \<and> rc_sha256 r = sha256_hex (concat cs)
     \<and> rc_byte_size r = 3"
proof -
  obtain r log where e: "receive (demo_service 10) (demo_request 3) [Chunk ''ab'', Chunk ''c''] = (Inr r, log)"
    using demo_receive_ok by blast
  have d: "ub_declared_size (ur_binding (demo_request 3)) = 3"
    by (simp add: demo_request_def)
  show ?thesis
    using e upload_receipt_is_faithful [OF e] unfolding d by metis
qed

text \<open>
  A rejected upload leaves nothing usable: either the sink was never touched, or the handle was
  opened once, never received more bytes than the declared size and the limit allow, and was aborted as
  the last action.
\<close>
theorem rejected_upload_is_aborted:
  assumes "receive s q chunks = (Inl e, log)"
    and "upload_binding_post_init b = Inr (ur_binding q)" and "upload_service_init s0 = Inr s"
  shows "log = [] \<or>
     (\<exists>mid. log = [Opened (upload_idempotency_key (ur_binding q))] @ mid @ [Aborted]
        \<and> Aborted \<notin> set mid
        \<and> int (length (wrote_bytes log)) \<le> min (ub_declared_size (ur_binding q)) (us_max_bytes s))"
proof -
  let ?b = "ur_binding q" and ?l = "[Opened (upload_idempotency_key (ur_binding q))]"
  have pos: "0 \<le> ub_declared_size ?b" "0 \<le> us_max_bytes s"
    using assms(2,3) by (auto simp: upload_binding_post_init_def upload_service_init_def split: if_splits)
  obtain res log1 where st: "stream_chunks s (ub_declared_size ?b) chunks [] 0 ?l = (res, log1)"
    by (cases "stream_chunks s (ub_declared_size ?b) chunks [] 0 ?l")
  obtain cs where cs: "case res of Inl _ \<Rightarrow> log1 = ?l @ map Wrote cs @ [Aborted] | Inr _ \<Rightarrow> log1 = ?l @ map Wrote cs"
    "int (length (concat cs)) \<le> min (ub_declared_size ?b) (us_max_bytes s)"
    using stream_chunks_log [of 0 "[]" "ub_declared_size ?b" s chunks ?l] pos
    unfolding st fst_conv snd_conv by auto
  have bytes: "wrote_bytes (map Wrote cs) = concat cs"
    by (simp add: wrote_bytes_def comp_def)
  have "log = [] \<or> (\<exists>fin. log = ?l @ (map Wrote cs @ fin) @ [Aborted] \<and> wrote_bytes fin = [] \<and> Aborted \<notin> set fin)"
  proof (cases res)
    case (Inl e')
    then show ?thesis
      using assms(1) st cs(1) by (auto simp: receive_def open_temporary_def Let_def split: if_splits)
  next
    case (Inr wn)
    then show ?thesis
      using assms(1) st cs(1)
      by (auto simp: receive_def open_temporary_def Let_def safe_abort_def dest!: finish_upload_rejects
          split: if_splits prod.splits)
  qed
  then show ?thesis
    using cs(2) bytes by auto
qed

theorem rejected_upload_is_aborted_witness:
  "\<exists>e log mid. receive (demo_service 10) (demo_request 3) [Chunk ''ab'', Chunk ''cd''] = (Inl e, log)
     \<and> log = [Opened (upload_idempotency_key (ur_binding (demo_request 3)))] @ mid @ [Aborted]
     \<and> int (length (wrote_bytes log)) \<le> 3"
proof -
  let ?q = "demo_request 3" and ?s = "demo_service 10"
  obtain log where e: "receive ?s ?q [Chunk ''ab'', Chunk ''cd''] = (Inl (UploadRejected ''size_exceeded''), log)"
    "log \<noteq> []"
    by (simp add: receive_def open_temporary_def demo_service_def demo_request_def safe_abort_def Let_def)
  have "upload_binding_post_init (ur_binding ?q) = Inr (ur_binding ?q)" "upload_service_init ?s = Inr ?s"
    by (simp_all add: upload_binding_post_init_def upload_service_init_def demo_request_def demo_service_def)
  from rejected_upload_is_aborted [OF e(1) this] e show ?thesis
    by (auto simp: demo_request_def)
qed

end
