(* ===== verification/Media_Jobs.thy ===== *)
theory Media_Jobs
  imports Media_Upload
begin

text \<open>
  The media job queue (\<open>InMemoryMediaJobRepository\<close> of \<open>services/media_runtime/repository.py\<close>, the
  deterministic repository that states the fencing contract): submissions, jobs, and one definition
  per method. Every method holds the repository lock, so interleavings are sequences of calls.
\<close>

section \<open>Data\<close>

datatype media_job_status = M_QUEUED | M_LEASED | M_RETRY | M_READY | M_QUARANTINED | M_DEAD_LETTER

fun media_status_value :: "media_job_status \<Rightarrow> string" where
  "media_status_value M_QUEUED = ''queued''"
| "media_status_value M_LEASED = ''leased''"
| "media_status_value M_RETRY = ''retry''"
| "media_status_value M_READY = ''ready''"
| "media_status_value M_QUARANTINED = ''quarantined''"
| "media_status_value M_DEAD_LETTER = ''dead_letter''"

datatype media_error = MediaLeaseConflict string | MediaValueError string | MediaKeyError

record media_artifact_proof =
  map_ffmpeg_output_sha256 :: string
  map_ffmpeg_executable_sha256 :: string
  map_whisper_model_sha256 :: string

definition valid_sha256 :: "string \<Rightarrow> bool" where
  "valid_sha256 v = (is_sha256_text v \<and> v \<noteq> sha256_hex [])"

definition artifact_proof_post_init :: "media_artifact_proof \<Rightarrow> media_error + media_artifact_proof" where
  "artifact_proof_post_init p =
     (if \<not> list_all valid_sha256
           [map_ffmpeg_output_sha256 p, map_ffmpeg_executable_sha256 p, map_whisper_model_sha256 p]
      then Inl (MediaValueError ''artifact_proof_invalid'') else Inr p)"

record media_job_submission =
  ms_receipt :: upload_receipt
  ms_duration_ms :: int
  ms_channels :: int
  ms_sample_rate :: int
  ms_language_hint :: "string option"
  ms_max_attempts :: int

definition media_submission_post_init :: "media_job_submission \<Rightarrow> media_error + media_job_submission" where
  "media_submission_post_init s =
     (if \<not> (1 \<le> ms_duration_ms s \<and> ms_duration_ms s \<le> 7200000)
      then Inl (MediaValueError ''duration_out_of_bounds'')
      else if \<not> (1 \<le> ms_channels s \<and> ms_channels s \<le> 8)
      then Inl (MediaValueError ''channels_out_of_bounds'')
      else if \<not> (8000 \<le> ms_sample_rate s \<and> ms_sample_rate s \<le> 192000)
      then Inl (MediaValueError ''sample_rate_out_of_bounds'')
      else if \<not> (1 \<le> ms_max_attempts s \<and> ms_max_attempts s \<le> 100)
      then Inl (MediaValueError ''max_attempts_out_of_bounds'')
      else if (case ms_language_hint s of None \<Rightarrow> False | Some h \<Rightarrow> \<not> (2 \<le> length h \<and> length h \<le> 16))
      then Inl (MediaValueError ''language_hint_invalid'')
      else Inr s)"

definition receipt_identity :: "upload_receipt \<Rightarrow> json" where
  "receipt_identity r = JObj
     [(''site_id'', JStr (rc_site_id r)),
      (''purpose'', JStr (rc_purpose r)),
      (''request_id'', JStr (rc_request_id r)),
      (''source_kind'', JStr (source_kind_value (rc_source_kind r))),
      (''media_type'', JStr (rc_media_type r)),
      (''byte_size'', JInt (rc_byte_size r)),
      (''sha256'', JStr (rc_sha256 r)),
      (''object_ref'', JStr (rc_object_ref r)),
      (''evidence_ref'', JStr (rc_evidence_ref r)),
      (''retention_days'', JInt (rc_retention_days r)),
      (''consent_basis'', JStr (rc_consent_basis r))]"

definition media_submission_digest :: "media_job_submission \<Rightarrow> string" where
  "media_submission_digest s = json_digest (JObj
     [(''receipt'', receipt_identity (ms_receipt s)),
      (''duration_ms'', JInt (ms_duration_ms s)),
      (''channels'', JInt (ms_channels s)),
      (''sample_rate'', JInt (ms_sample_rate s)),
      (''language_hint'', (case ms_language_hint s of None \<Rightarrow> JNull | Some h \<Rightarrow> JStr h)),
      (''max_attempts'', JInt (ms_max_attempts s))])"

definition media_job_id :: "media_job_submission \<Rightarrow> string" where
  "media_job_id s = ''media-'' @ take 32 (sha256_hex (join [char_of (31::int)]
     [''local-media-job-v1'', rc_site_id (ms_receipt s), rc_request_id (ms_receipt s)]))"

record media_job =
  mj_job_id :: string
  mj_site_id :: string
  mj_request_id :: string
  mj_receipt :: upload_receipt
  mj_duration_ms :: int
  mj_channels :: int
  mj_sample_rate :: int
  mj_language_hint :: "string option"
  mj_submission_digest :: string
  mj_status :: media_job_status
  mj_due_at :: instant
  mj_attempt :: int
  mj_max_attempts :: int
  mj_fencing_token :: int
  mj_lease_owner :: "string option"
  mj_lease_expires_at :: "instant option"
  mj_reason_codes :: "string list"
  mj_transcript_ref :: "string option"
  mj_artifact_proof :: "media_artifact_proof option"
  mj_created_at :: instant
  mj_updated_at :: instant

definition media_job_to_summary :: "media_job \<Rightarrow> fields" where
  "media_job_to_summary j =
     [(''job_id'', JStr (mj_job_id j)), (''status'', JStr (media_status_value (mj_status j))),
      (''attempt'', JInt (mj_attempt j)), (''max_attempts'', JInt (mj_max_attempts j))]"

section \<open>Validation helpers\<close>

definition media_require_aware :: "datetime \<Rightarrow> media_error + unit" where
  "media_require_aware v =
     (if \<not> is_aware v then Inl (MediaValueError ''aware_datetime_required'') else Inr ())"

definition validate_lease_input :: "string \<Rightarrow> string \<Rightarrow> datetime \<Rightarrow> int \<Rightarrow> media_error + unit" where
  "validate_lease_input site_id worker_id now lease_duration =
     (case media_require_aware now of
        Inl e \<Rightarrow> Inl e
      | Inr _ \<Rightarrow>
          if site_id = [] \<or> worker_id = [] then Inl (MediaValueError ''lease_identity_required'')
          else if lease_duration \<le> 0 then Inl (MediaValueError ''lease_duration_invalid'')
          else Inr ())"

definition reason_char :: "char \<Rightarrow> bool" where
  "reason_char c = (is_lower c \<or> is_digit c \<or> c = CHR ''_'' \<or> c = CHR ''.'' \<or> c = CHR ''-'')"

definition media_reason_code :: "string \<Rightarrow> bool" where
  "media_reason_code = shape_match (\<lambda>c. is_lower c \<or> is_digit c) reason_char 0 79"

definition validate_reason_codes :: "string list \<Rightarrow> media_error + unit" where
  "validate_reason_codes codes =
     (if 32 < length codes \<or> \<not> list_all media_reason_code codes
      then Inl (MediaValueError ''reason_codes_invalid'') else Inr ())"

section \<open>The repository\<close>

record media_repo =
  mr_jobs :: "((string \<times> string) \<times> media_job) list"
  mr_requests :: "((string \<times> string) \<times> string) list"

type_synonym 'a media_call = "(media_error, 'a, media_repo) call"

definition media_repo_new :: media_repo where
  "media_repo_new = \<lparr>mr_jobs = [], mr_requests = []\<rparr>"

definition put_job :: "string \<times> string \<Rightarrow> media_job \<Rightarrow> media_repo \<Rightarrow> media_repo" where
  "put_job k j r = r\<lparr>mr_jobs := AList.update k j (mr_jobs r)\<rparr>"

definition new_media_job :: "media_job_submission \<Rightarrow> instant \<Rightarrow> media_job" where
  "new_media_job s now =
     \<lparr>mj_job_id = media_job_id s, mj_site_id = rc_site_id (ms_receipt s),
      mj_request_id = rc_request_id (ms_receipt s), mj_receipt = ms_receipt s,
      mj_duration_ms = ms_duration_ms s, mj_channels = ms_channels s, mj_sample_rate = ms_sample_rate s,
      mj_language_hint = ms_language_hint s, mj_submission_digest = media_submission_digest s,
      mj_status = M_QUEUED, mj_due_at = now, mj_attempt = 0, mj_max_attempts = ms_max_attempts s,
      mj_fencing_token = 0, mj_lease_owner = None, mj_lease_expires_at = None, mj_reason_codes = [],
      mj_transcript_ref = None, mj_artifact_proof = None, mj_created_at = now, mj_updated_at = now\<rparr>"

definition media_enqueue :: "media_job_submission \<Rightarrow> datetime \<Rightarrow> media_repo \<Rightarrow> media_job media_call" where
  "media_enqueue s now r =
     (case media_require_aware now of
        Inl e \<Rightarrow> (Inl e, r)
      | Inr _ \<Rightarrow>
          (let site = rc_site_id (ms_receipt s); request_key = (site, rc_request_id (ms_receipt s)) in
           case map_of (mr_requests r) request_key of
             Some existing_id \<Rightarrow>
               (case map_of (mr_jobs r) (site, existing_id) of
                  None \<Rightarrow> (Inl MediaKeyError, r)
                | Some existing \<Rightarrow>
                    if mj_submission_digest existing \<noteq> media_submission_digest s
                    then (Inl (MediaValueError ''idempotency_conflict''), r)
                    else (Inr existing, r))
           | None \<Rightarrow>
               (let job = new_media_job s (instant_of now);
                    r1 = put_job (site, mj_job_id job) job r
                in (Inr job, r1\<lparr>mr_requests := AList.update request_key (mj_job_id job) (mr_requests r1)\<rparr>))))"

definition media_get :: "string \<Rightarrow> string \<Rightarrow> media_repo \<Rightarrow> media_job option" where
  "media_get site_id job_id r = map_of (mr_jobs r) (site_id, job_id)"

definition media_get_by_request :: "string \<Rightarrow> string \<Rightarrow> media_repo \<Rightarrow> media_error + media_job option" where
  "media_get_by_request site_id request_id r =
     (case map_of (mr_requests r) (site_id, request_id) of
        None \<Rightarrow> Inr None
      | Some i \<Rightarrow> (case map_of (mr_jobs r) (site_id, i) of
           None \<Rightarrow> Inl MediaKeyError | Some j \<Rightarrow> Inr (Some j)))"

definition media_lease_lapsed :: "instant \<Rightarrow> media_job \<Rightarrow> bool" where
  "media_lease_lapsed now j =
     (mj_status j = M_LEASED \<and> (case mj_lease_expires_at j of None \<Rightarrow> False | Some e \<Rightarrow> e \<le> now))"

definition exhausted_job :: "instant \<Rightarrow> media_job \<Rightarrow> media_job" where
  "exhausted_job now j = j\<lparr>mj_status := M_DEAD_LETTER, mj_lease_owner := None, mj_lease_expires_at := None,
     mj_reason_codes := [''lease_expired_max_attempts''], mj_updated_at := now\<rparr>"

text \<open>
  The loop of \<open>_reap_exhausted\<close> walks a snapshot of the items and writes each back under its own key.
\<close>

definition reap_exhausted :: "string \<Rightarrow> instant \<Rightarrow> media_repo \<Rightarrow> media_repo" where
  "reap_exhausted site_id now r =
     r\<lparr>mr_jobs := map (\<lambda>(k, j).
         (k, if fst k = site_id \<and> media_lease_lapsed now j \<and> mj_max_attempts j \<le> mj_attempt j
             then exhausted_job now j else j)) (mr_jobs r)\<rparr>"

definition media_candidates :: "string \<Rightarrow> instant \<Rightarrow> media_repo \<Rightarrow> media_job list" where
  "media_candidates site_id now r =
     map snd (filter (\<lambda>(k, j). fst k = site_id \<and> mj_attempt j < mj_max_attempts j
         \<and> (mj_status j \<in> {M_QUEUED, M_RETRY} \<and> mj_due_at j \<le> now \<or> media_lease_lapsed now j))
       (mr_jobs r))"

definition media_claim_order :: "media_job \<Rightarrow> instant \<times> instant \<times> string" where
  "media_claim_order j = (mj_due_at j, mj_created_at j, mj_job_id j)"

definition media_claim ::
  "string \<Rightarrow> string \<Rightarrow> datetime \<Rightarrow> int \<Rightarrow> media_repo \<Rightarrow> media_job option media_call" where
  "media_claim site_id worker_id now lease_duration r =
     (case validate_lease_input site_id worker_id now lease_duration of
        Inl e \<Rightarrow> (Inl e, r)
      | Inr _ \<Rightarrow>
          (let t = instant_of now; r1 = reap_exhausted site_id t r; cs = media_candidates site_id t r1 in
           if cs = [] then (Inr None, r1)
           else (let current = arg_min_list media_claim_order cs;
                     claimed = current\<lparr>mj_status := M_LEASED, mj_attempt := mj_attempt current + 1,
                       mj_fencing_token := mj_fencing_token current + 1, mj_lease_owner := Some worker_id,
                       mj_lease_expires_at := Some (t + lease_duration), mj_updated_at := t\<rparr>
                 in (Inr (Some claimed), put_job (site_id, mj_job_id claimed) claimed r1))))"

definition live_lease ::
  "string \<Rightarrow> string \<Rightarrow> string \<Rightarrow> int \<Rightarrow> instant \<Rightarrow> media_repo \<Rightarrow> media_error + media_job" where
  "live_lease site_id job_id worker_id fencing_token now r =
     (case map_of (mr_jobs r) (site_id, job_id) of
        None \<Rightarrow> Inl (MediaLeaseConflict ''lease_lost'')
      | Some j \<Rightarrow>
          if mj_status j \<noteq> M_LEASED \<or> mj_lease_owner j \<noteq> Some worker_id
             \<or> mj_fencing_token j \<noteq> fencing_token
             \<or> (case mj_lease_expires_at j of None \<Rightarrow> True | Some e \<Rightarrow> e \<le> now)
          then Inl (MediaLeaseConflict ''lease_lost'') else Inr j)"

definition media_heartbeat ::
  "string \<Rightarrow> string \<Rightarrow> string \<Rightarrow> int \<Rightarrow> datetime \<Rightarrow> int \<Rightarrow> media_repo \<Rightarrow> media_job media_call" where
  "media_heartbeat site_id job_id worker_id fencing_token now lease_duration r =
     (case validate_lease_input site_id worker_id now lease_duration of
        Inl e \<Rightarrow> (Inl e, r)
      | Inr _ \<Rightarrow>
          (case live_lease site_id job_id worker_id fencing_token (instant_of now) r of
             Inl e \<Rightarrow> (Inl e, r)
           | Inr current \<Rightarrow>
               (let renewed = current\<lparr>mj_lease_expires_at := Some (instant_of now + lease_duration),
                      mj_updated_at := instant_of now\<rparr>
                in (Inr renewed, put_job (site_id, job_id) renewed r))))"

definition media_complete ::
  "string \<Rightarrow> string \<Rightarrow> string \<Rightarrow> int \<Rightarrow> datetime \<Rightarrow> media_job_status \<Rightarrow> string list \<Rightarrow> string option
     \<Rightarrow> media_artifact_proof option \<Rightarrow> media_repo \<Rightarrow> media_job media_call" where
  "media_complete site_id job_id worker_id fencing_token now status reason_codes transcript_ref proof r =
     (case media_require_aware now of
        Inl e \<Rightarrow> (Inl e, r)
      | Inr _ \<Rightarrow>
          if status \<notin> {M_READY, M_QUARANTINED, M_DEAD_LETTER}
          then (Inl (MediaValueError ''terminal_status_invalid''), r)
          else (case validate_reason_codes reason_codes of
              Inl e \<Rightarrow> (Inl e, r)
            | Inr _ \<Rightarrow>
                (case live_lease site_id job_id worker_id fencing_token (instant_of now) r of
                   Inl e \<Rightarrow> (Inl e, r)
                 | Inr current \<Rightarrow>
                     (let completed = current\<lparr>mj_status := status, mj_lease_owner := None,
                            mj_lease_expires_at := None, mj_reason_codes := reason_codes,
                            mj_transcript_ref := transcript_ref, mj_artifact_proof := proof,
                            mj_updated_at := instant_of now\<rparr>
                      in (Inr completed, put_job (site_id, job_id) completed r)))))"

definition media_retry ::
  "string \<Rightarrow> string \<Rightarrow> string \<Rightarrow> int \<Rightarrow> datetime \<Rightarrow> datetime \<Rightarrow> string list \<Rightarrow> media_repo
     \<Rightarrow> media_job media_call" where
  "media_retry site_id job_id worker_id fencing_token now retry_at reason_codes r =
     (case check_all media_require_aware [now, retry_at] of
        Inl e \<Rightarrow> (Inl e, r)
      | Inr _ \<Rightarrow>
          if instant_of retry_at \<le> instant_of now then (Inl (MediaValueError ''retry_at_invalid''), r)
          else (case validate_reason_codes reason_codes of
              Inl e \<Rightarrow> (Inl e, r)
            | Inr _ \<Rightarrow>
                (case live_lease site_id job_id worker_id fencing_token (instant_of now) r of
                   Inl e \<Rightarrow> (Inl e, r)
                 | Inr current \<Rightarrow>
                     (let status = (if mj_attempt current < mj_max_attempts current
                                    then M_RETRY else M_DEAD_LETTER);
                          updated = current\<lparr>mj_status := status,
                            mj_due_at := (if status = M_RETRY then instant_of retry_at else mj_due_at current),
                            mj_lease_owner := None, mj_lease_expires_at := None,
                            mj_reason_codes := reason_codes, mj_updated_at := instant_of now\<rparr>
                      in (Inr updated, put_job (site_id, job_id) updated r)))))"

end
