(* ===== verification/Media_Job_Runs.thy ===== *)
theory Media_Job_Runs
  imports Media_Jobs Lease_Fencing
begin

text \<open>
  Runs of the media job repository: the life of one job as a step relation, the invariant of the two
  dictionaries, and the second interpretation of the fencing contract, with the fencing token as the
  fence.
\<close>

declare split_paired_All [simp del] split_paired_Ex [simp del]

section \<open>The life of one job\<close>

definition media_wf :: "media_job \<Rightarrow> bool" where
  "media_wf j = (0 \<le> mj_attempt j \<and> mj_attempt j \<le> mj_max_attempts j \<and> 1 \<le> mj_max_attempts j
     \<and> mj_fencing_token j = mj_attempt j
     \<and> (mj_status j = M_LEASED \<longleftrightarrow> mj_lease_owner j \<noteq> None)
     \<and> (mj_status j = M_LEASED \<longleftrightarrow> mj_lease_expires_at j \<noteq> None)
     \<and> (mj_status j = M_QUEUED \<longleftrightarrow> mj_attempt j = 0)
     \<and> (mj_status j = M_RETRY \<longrightarrow> mj_attempt j < mj_max_attempts j))"

definition same_job :: "media_job \<Rightarrow> media_job \<Rightarrow> bool" where
  "same_job j j' = (mj_job_id j' = mj_job_id j \<and> mj_site_id j' = mj_site_id j
     \<and> mj_request_id j' = mj_request_id j \<and> mj_submission_digest j' = mj_submission_digest j
     \<and> mj_receipt j' = mj_receipt j \<and> mj_max_attempts j' = mj_max_attempts j)"

inductive media_move :: "media_job \<Rightarrow> media_job \<Rightarrow> bool" where
  claimed: "same_job j j' \<Longrightarrow> mj_status j \<in> {M_QUEUED, M_RETRY, M_LEASED} \<Longrightarrow>
     mj_attempt j < mj_max_attempts j \<Longrightarrow> mj_status j' = M_LEASED \<Longrightarrow>
     mj_attempt j' = mj_attempt j + 1 \<Longrightarrow> mj_fencing_token j' = mj_fencing_token j + 1 \<Longrightarrow>
     mj_lease_owner j' = Some w \<Longrightarrow> mj_lease_expires_at j' = Some e \<Longrightarrow> media_move j j'"
| renewed: "same_job j j' \<Longrightarrow> mj_status j = M_LEASED \<Longrightarrow> mj_status j' = M_LEASED \<Longrightarrow>
     mj_attempt j' = mj_attempt j \<Longrightarrow> mj_fencing_token j' = mj_fencing_token j \<Longrightarrow>
     mj_lease_owner j' = mj_lease_owner j \<Longrightarrow> mj_lease_expires_at j' = Some e \<Longrightarrow> media_move j j'"
| released: "same_job j j' \<Longrightarrow> mj_status j = M_LEASED \<Longrightarrow>
     mj_status j' \<in> {M_READY, M_QUARANTINED, M_DEAD_LETTER, M_RETRY} \<Longrightarrow>
     (mj_status j' = M_RETRY \<Longrightarrow> mj_attempt j < mj_max_attempts j) \<Longrightarrow>
     mj_attempt j' = mj_attempt j \<Longrightarrow> mj_fencing_token j' = mj_fencing_token j \<Longrightarrow>
     mj_lease_owner j' = None \<Longrightarrow> mj_lease_expires_at j' = None \<Longrightarrow> media_move j j'"

lemma same_job_trans: "same_job a b \<Longrightarrow> same_job b c \<Longrightarrow> same_job a c"
  by (simp add: same_job_def)

lemma media_move_same: "media_move j j' \<Longrightarrow> same_job j j'"
  by (auto elim: media_move.cases)

lemma media_move_wf: "media_move j j' \<Longrightarrow> media_wf j \<Longrightarrow> media_wf j'"
  by (induction rule: media_move.induct) (auto simp: media_wf_def same_job_def)

lemma media_move_fence:
  "media_move j j' \<Longrightarrow> mj_fencing_token j \<le> mj_fencing_token j' \<and>
     (mj_fencing_token j' = mj_fencing_token j \<longrightarrow> mj_lease_owner j' \<in> {mj_lease_owner j, None})"
  by (auto elim!: media_move.cases)

lemma media_move_final:
  "media_move j j' \<Longrightarrow> mj_status j \<notin> {M_READY, M_QUARANTINED, M_DEAD_LETTER}"
  by (auto elim!: media_move.cases)

lemma media_moves_same: "media_move\<^sup>*\<^sup>* j j' \<Longrightarrow> same_job j j'"
proof (induction rule: rtranclp_induct)
  case base
  show ?case by (simp add: same_job_def)
next
  case (step y z)
  then show ?case using same_job_trans media_move_same by blast
qed

lemma media_moves_wf: "media_move\<^sup>*\<^sup>* j j' \<Longrightarrow> media_wf j \<Longrightarrow> media_wf j'"
  by (induction rule: rtranclp_induct) (auto intro: media_move_wf)

lemma media_moves_final:
  "media_move\<^sup>*\<^sup>* j j' \<Longrightarrow> mj_status j \<in> {M_READY, M_QUARANTINED, M_DEAD_LETTER} \<Longrightarrow> j' = j"
  by (induction rule: converse_rtranclp_induct) (auto dest: media_move_final)

lemma media_moves_fence:
  "media_move\<^sup>*\<^sup>* j j' \<Longrightarrow> mj_fencing_token j \<le> mj_fencing_token j' \<and>
     (mj_fencing_token j' = mj_fencing_token j \<longrightarrow> mj_lease_owner j' \<in> {mj_lease_owner j, None})"
proof (induction rule: rtranclp_induct)
  case (step y z)
  then show ?case using media_move_fence [OF step.hyps(2)] by auto
qed simp

section \<open>The invariant of the repository\<close>

definition media_inv :: "media_repo \<Rightarrow> bool" where
  "media_inv r = (distinct_keys (mr_jobs r)
     \<and> (\<forall>k j. map_of (mr_jobs r) k = Some j \<longrightarrow> k = (mj_site_id j, mj_job_id j) \<and> media_wf j
          \<and> map_of (mr_requests r) (mj_site_id j, mj_request_id j) = Some (mj_job_id j))
     \<and> (\<forall>site req i. map_of (mr_requests r) (site, req) = Some i \<longrightarrow>
          (\<exists>j. map_of (mr_jobs r) (site, i) = Some j \<and> mj_request_id j = req)))"

definition media_evolves :: "media_repo \<Rightarrow> media_repo \<Rightarrow> bool" where
  "media_evolves r r' = (\<forall>k j. map_of (mr_jobs r) k = Some j \<longrightarrow>
     (\<exists>j'. map_of (mr_jobs r') k = Some j' \<and> media_move\<^sup>*\<^sup>* j j'))"

lemma media_inv_new [simp]: "media_inv media_repo_new"
  by (simp add: media_inv_def media_repo_new_def)

lemma media_inv_job:
  assumes "media_inv r" and "map_of (mr_jobs r) k = Some j"
  shows "k = (mj_site_id j, mj_job_id j)" and "media_wf j"
    and "map_of (mr_requests r) (mj_site_id j, mj_request_id j) = Some (mj_job_id j)"
  using assms by (auto simp: media_inv_def)

lemma media_inv_request:
  assumes "media_inv r" and "map_of (mr_requests r) (site, req) = Some i"
  shows "\<exists>j. map_of (mr_jobs r) (site, i) = Some j \<and> mj_request_id j = req"
  using assms by (auto simp: media_inv_def)

lemma media_evolves_refl [simp]: "media_evolves r r"
  by (auto simp: media_evolves_def)

lemma media_evolves_trans: "media_evolves a b \<Longrightarrow> media_evolves b c \<Longrightarrow> media_evolves a c"
  unfolding media_evolves_def by (meson rtranclp_trans)

lemma map_of_mapped: "map_of (map (\<lambda>(k, v). (k, f k v)) al) k = map_option (f k) (map_of al k)"
  by (induction al) auto

lemma distinct_keys_mapped: "distinct_keys al \<Longrightarrow> distinct_keys (map (\<lambda>(k, v). (k, f k v)) al)"
  by (simp add: distinct_keys_def comp_def case_prod_beta)

text \<open>Every operation but submission rewrites jobs in place: each known key keeps its job, moved.\<close>

lemma media_rewrite_sound:
  assumes i: "media_inv r" and q: "mr_requests r' = mr_requests r" and d: "distinct_keys (mr_jobs r')"
    and step: "\<And>k. (case map_of (mr_jobs r) k of None \<Rightarrow> map_of (mr_jobs r') k = None
       | Some j \<Rightarrow> \<exists>j'. map_of (mr_jobs r') k = Some j' \<and> media_move\<^sup>*\<^sup>* j j')"
  shows "media_inv r' \<and> media_evolves r r'"
proof -
  have old: "\<exists>j'. map_of (mr_jobs r') k = Some j' \<and> media_move\<^sup>*\<^sup>* j j'" if "map_of (mr_jobs r) k = Some j" for k j
    using step [of k] that by simp
  have new: "\<exists>j. map_of (mr_jobs r) k = Some j \<and> media_move\<^sup>*\<^sup>* j j'" if "map_of (mr_jobs r') k = Some j'" for k j'
    using step [of k] that by (auto split: option.splits)
  have "k = (mj_site_id j', mj_job_id j') \<and> media_wf j'
      \<and> map_of (mr_requests r') (mj_site_id j', mj_request_id j') = Some (mj_job_id j')"
    if j': "map_of (mr_jobs r') k = Some j'" for k j'
  proof -
    obtain j where j: "map_of (mr_jobs r) k = Some j" "media_move\<^sup>*\<^sup>* j j'"
      using new [OF j'] by blast
    show ?thesis
      using media_inv_job [OF i j(1)] media_moves_wf [OF j(2)] media_moves_same [OF j(2)] q
      by (auto simp: same_job_def)
  qed
  moreover have "\<exists>j'. map_of (mr_jobs r') (site, x) = Some j' \<and> mj_request_id j' = req"
    if m: "map_of (mr_requests r') (site, req) = Some x" for site req x
  proof -
    obtain j where j: "map_of (mr_jobs r) (site, x) = Some j" "mj_request_id j = req"
      using media_inv_request [OF i, of site req x] m q by auto
    then show ?thesis
      using old [OF j(1)] media_moves_same by (auto simp: same_job_def)
  qed
  ultimately have "media_inv r'" using d by (simp add: media_inv_def)
  then show ?thesis using old by (simp add: media_evolves_def)
qed

lemma put_job_lookup [simp]: "map_of (mr_jobs (put_job k j r)) k' = (if k' = k then Some j else map_of (mr_jobs r) k')"
  "mr_requests (put_job k j r) = mr_requests r"
  "distinct_keys (mr_jobs r) \<Longrightarrow> distinct_keys (mr_jobs (put_job k j r))"
  by (simp_all add: put_job_def)

lemma put_move_sound:
  assumes "media_inv r" and "map_of (mr_jobs r) k = Some j" and "media_move j j'"
  shows "media_inv (put_job k j' r) \<and> media_evolves r (put_job k j' r)"
  using assms by (intro media_rewrite_sound) (auto simp: media_inv_def split: option.splits)

lemma reap_lookup:
  "map_of (mr_jobs (reap_exhausted site now r)) k = map_option (\<lambda>j.
     if fst k = site \<and> media_lease_lapsed now j \<and> mj_max_attempts j \<le> mj_attempt j
     then exhausted_job now j else j) (map_of (mr_jobs r) k)"
  by (simp add: reap_exhausted_def map_of_mapped)

lemma reap_other [simp]:
  "mr_requests (reap_exhausted site now r) = mr_requests r"
  "distinct_keys (mr_jobs r) \<Longrightarrow> distinct_keys (mr_jobs (reap_exhausted site now r))"
  by (simp_all add: reap_exhausted_def distinct_keys_mapped)

lemma exhausted_move: "media_lease_lapsed now j \<Longrightarrow> media_move j (exhausted_job now j)"
  by (rule media_move.released) (auto simp: exhausted_job_def same_job_def media_lease_lapsed_def)

lemma reap_sound:
  assumes "media_inv r"
  shows "media_inv (reap_exhausted site now r) \<and> media_evolves r (reap_exhausted site now r)"
proof (rule media_rewrite_sound [OF assms])
  show "distinct_keys (mr_jobs (reap_exhausted site now r))"
    using assms by (simp add: media_inv_def)
qed (auto simp: reap_lookup intro!: exhausted_move r_into_rtranclp split: option.splits)

section \<open>Each operation\<close>

lemma live_lease_job:
  "live_lease site i w tok now r = Inr j \<Longrightarrow> map_of (mr_jobs r) (site, i) = Some j \<and> mj_status j = M_LEASED
     \<and> mj_lease_owner j = Some w \<and> mj_fencing_token j = tok"
  by (auto simp: live_lease_def split: option.splits if_splits)

text \<open>
  A call on a lease either raises and changes nothing, or moves the job it holds the lease of and
  returns it.
\<close>

definition on_lease :: "string \<Rightarrow> string \<Rightarrow> string \<Rightarrow> int \<Rightarrow> media_repo \<Rightarrow> media_job media_call \<Rightarrow> bool" where
  "on_lease site i w tok r c =
     ((\<exists>e. c = (Inl e, r)) \<or>
      (\<exists>j j'. map_of (mr_jobs r) (site, i) = Some j \<and> mj_status j = M_LEASED \<and> mj_lease_owner j = Some w
         \<and> mj_fencing_token j = tok \<and> media_move j j' \<and> c = (Inr j', put_job (site, i) j' r)))"

lemma on_lease_raise [simp]: "on_lease site i w tok r (Inl e, r)"
  by (simp add: on_lease_def)

lemma on_leaseI:
  "live_lease site i w tok now r = Inr j \<Longrightarrow> media_move j j' \<Longrightarrow>
   on_lease site i w tok r (Inr j', put_job (site, i) j' r)"
  using live_lease_job unfolding on_lease_def by blast

lemma media_heartbeat_on_lease: "on_lease site i w tok r (media_heartbeat site i w tok now d r)"
proof -
  have "media_move j (j\<lparr>mj_lease_expires_at := Some e, mj_updated_at := t\<rparr>)" if "mj_status j = M_LEASED" for j e t
    using that by (intro media_move.renewed) (auto simp: same_job_def)
  then show ?thesis
    by (auto simp: media_heartbeat_def Let_def dest: live_lease_job intro!: on_leaseI split: sum.splits)
qed

lemma media_complete_on_lease: "on_lease site i w tok r (media_complete site i w tok now st rs tr pf r)"
proof -
  have "media_move j (j\<lparr>mj_status := st, mj_lease_owner := None, mj_lease_expires_at := None,
      mj_reason_codes := rs, mj_transcript_ref := tr, mj_artifact_proof := pf, mj_updated_at := t\<rparr>)"
    if "mj_status j = M_LEASED" "st \<in> {M_READY, M_QUARANTINED, M_DEAD_LETTER}" for j t
    using that by (intro media_move.released) (auto simp: same_job_def)
  then show ?thesis
    by (auto simp: media_complete_def Let_def dest: live_lease_job intro!: on_leaseI split: sum.splits)
qed

lemma media_retry_on_lease: "on_lease site i w tok r (media_retry site i w tok now ra rs r)"
  by (auto simp: media_retry_def Let_def same_job_def dest: live_lease_job
      intro!: on_leaseI media_move.released simp del: check_all.simps split: sum.splits)

lemma on_lease_sound:
  assumes "media_inv r" and "on_lease site i w tok r c"
  shows "media_inv (snd c) \<and> media_evolves r (snd c)"
  using assms put_move_sound by (auto simp: on_lease_def)

lemma media_candidatesD:
  assumes "media_inv r" and "j \<in> set (media_candidates site now r)"
  shows "map_of (mr_jobs r) (site, mj_job_id j) = Some j" and "mj_attempt j < mj_max_attempts j"
    and "mj_status j \<in> {M_QUEUED, M_RETRY, M_LEASED}"
proof -
  obtain k where k: "(k, j) \<in> set (mr_jobs r)" "fst k = site" "mj_attempt j < mj_max_attempts j"
    "mj_status j \<in> {M_QUEUED, M_RETRY} \<and> mj_due_at j \<le> now \<or> media_lease_lapsed now j"
    using assms(2) by (auto simp: media_candidates_def)
  then have m: "map_of (mr_jobs r) k = Some j"
    using assms(1) in_set_dict_iff by (force simp: media_inv_def)
  show "map_of (mr_jobs r) (site, mj_job_id j) = Some j"
    using m k(2) media_inv_job(1) [OF assms(1) m] by auto
  show "mj_attempt j < mj_max_attempts j" "mj_status j \<in> {M_QUEUED, M_RETRY, M_LEASED}"
    using k(3,4) by (auto simp: media_lease_lapsed_def)
qed

text \<open>What a claim does: reap, then lease the first candidate.\<close>

definition leased_job :: "string \<Rightarrow> instant \<Rightarrow> int \<Rightarrow> media_job \<Rightarrow> media_job" where
  "leased_job w t d j = j\<lparr>mj_status := M_LEASED, mj_attempt := mj_attempt j + 1,
     mj_fencing_token := mj_fencing_token j + 1, mj_lease_owner := Some w,
     mj_lease_expires_at := Some (t + d), mj_updated_at := t\<rparr>"

lemma media_claim_cases [consumes 1, case_names invalid none some]:
  assumes "media_inv r"
  obtains (invalid) e where "validate_lease_input site w now d = Inl e" "media_claim site w now d r = (Inl e, r)"
  | (none) "validate_lease_input site w now d = Inr ()"
      "media_candidates site (instant_of now) (reap_exhausted site (instant_of now) r) = []"
      "media_claim site w now d r = (Inr None, reap_exhausted site (instant_of now) r)"
  | (some) j where "validate_lease_input site w now d = Inr ()"
      "j = arg_min_list media_claim_order (media_candidates site (instant_of now) (reap_exhausted site (instant_of now) r))"
      "j \<in> set (media_candidates site (instant_of now) (reap_exhausted site (instant_of now) r))"
      "map_of (mr_jobs (reap_exhausted site (instant_of now) r)) (site, mj_job_id j) = Some j"
      "media_move j (leased_job w (instant_of now) d j)"
      "media_claim site w now d r = (Inr (Some (leased_job w (instant_of now) d j)),
         put_job (site, mj_job_id j) (leased_job w (instant_of now) d j) (reap_exhausted site (instant_of now) r))"
proof (cases "validate_lease_input site w now d")
  case (Inl e)
  then show thesis using invalid by (simp add: media_claim_def)
next
  case (Inr u)
  let ?r1 = "reap_exhausted site (instant_of now) r"
  let ?cs = "media_candidates site (instant_of now) ?r1"
  show thesis
  proof (cases "?cs = []")
    case True
    then show thesis using none Inr by (simp add: media_claim_def Let_def)
  next
    case False
    let ?j = "arg_min_list media_claim_order ?cs"
    have in_cs: "?j \<in> set ?cs" using False by (rule arg_min_list_in)
    note d = media_candidatesD [OF reap_sound [OF assms, THEN conjunct1] in_cs]
    have "media_move ?j (leased_job w (instant_of now) d ?j)"
      by (rule media_move.claimed) (use d in \<open>auto simp: leased_job_def same_job_def\<close>)
    then show thesis
      using some [of ?j] Inr False in_cs d(1) by (simp add: media_claim_def Let_def leased_job_def)
  qed
qed

lemma media_claim_sound:
  assumes "media_inv r"
  shows "media_inv (snd (media_claim site w now d r)) \<and> media_evolves r (snd (media_claim site w now d r))"
  using assms
proof (cases rule: media_claim_cases [where site = site and w = w and now = now and d = d])
  case (some j)
  show ?thesis
    using reap_sound [OF assms] put_move_sound [OF _ some(4,5)] media_evolves_trans some(6) by (metis snd_conv)
qed (use assms reap_sound in auto)

section \<open>Submission\<close>

text \<open>
  A job id is 128 bits of a SHA-256 digest over site and request: a fresh request is assumed to
  get an id that no other request of its site has (collision resistance of the digest).
\<close>

definition id_is_fresh :: "media_job_submission \<Rightarrow> media_repo \<Rightarrow> bool" where
  "id_is_fresh s r =
     (map_of (mr_requests r) (rc_site_id (ms_receipt s), rc_request_id (ms_receipt s)) = None \<longrightarrow>
      map_of (mr_jobs r) (rc_site_id (ms_receipt s), media_job_id s) = None)"

lemma new_media_job_wf: "1 \<le> ms_max_attempts s \<Longrightarrow> media_wf (new_media_job s t)"
  by (simp add: media_wf_def new_media_job_def)

lemma media_enqueue_sound:
  assumes "media_inv r" and "media_submission_post_init s0 = Inr s" and "id_is_fresh s r"
  shows "media_inv (snd (media_enqueue s now r)) \<and> media_evolves r (snd (media_enqueue s now r))"
proof (cases "is_aware now \<and> map_of (mr_requests r) (rc_site_id (ms_receipt s), rc_request_id (ms_receipt s)) = None")
  case False
  then show ?thesis
    using assms(1) by (auto simp: media_enqueue_def media_require_aware_def Let_def split: option.splits)
next
  case True
  let ?site = "rc_site_id (ms_receipt s)" and ?req = "rc_request_id (ms_receipt s)" and ?id = "media_job_id s"
  define j where "j = new_media_job s (instant_of now)"
  define r' where "r' = snd (media_enqueue s now r)"
  have fresh: "map_of (mr_jobs r) (?site, ?id) = None"
    using True assms(3) by (simp add: id_is_fresh_def)
  have j: "mj_site_id j = ?site" "mj_job_id j = ?id" "mj_request_id j = ?req"
    by (simp_all add: j_def new_media_job_def)
  have wf: "media_wf j"
    using assms(2) unfolding j_def
    by (intro new_media_job_wf) (auto simp: media_submission_post_init_def split: if_splits)
  have r': "mr_jobs r' = AList.update (?site, ?id) j (mr_jobs r)"
    "mr_requests r' = AList.update (?site, ?req) ?id (mr_requests r)"
    using True by (simp_all add: r'_def media_enqueue_def media_require_aware_def Let_def put_job_def
        new_media_job_def j_def)
  have "k = (mj_site_id x, mj_job_id x) \<and> media_wf x
      \<and> map_of (mr_requests r') (mj_site_id x, mj_request_id x) = Some (mj_job_id x)"
    if "map_of (mr_jobs r') k = Some x" for k x
  proof (cases "k = (?site, ?id)")
    case False
    then have x: "map_of (mr_jobs r) k = Some x" using that by (simp add: r')
    have "(mj_site_id x, mj_request_id x) \<noteq> (?site, ?req)"
      using media_inv_job(3) [OF assms(1) x] True by fastforce
    then show ?thesis using media_inv_job [OF assms(1) x] by (auto simp: r')
  qed (use that wf j in \<open>simp add: r'\<close>)
  moreover have "\<exists>x. map_of (mr_jobs r') (site, i) = Some x \<and> mj_request_id x = req"
    if q: "map_of (mr_requests r') (site, req) = Some i" for site req i
  proof (cases "(site, req) = (?site, ?req)")
    case False
    then obtain x where "map_of (mr_jobs r) (site, i) = Some x" "mj_request_id x = req"
      using q media_inv_request [OF assms(1), of site req i] unfolding r' map_of_update by metis
    then show ?thesis using fresh by (auto simp: r')
  qed (use q j in \<open>simp add: r'\<close>)
  moreover have "distinct_keys (mr_jobs r')" using assms(1) by (simp add: r' media_inv_def)
  ultimately have "media_inv r'" by (simp add: media_inv_def)
  moreover have "media_evolves r r'"
    using fresh by (auto simp: media_evolves_def r')
  ultimately show ?thesis by (simp add: r'_def)
qed

section \<open>Runs and fences\<close>

datatype media_op =
    MEnqueue media_job_submission datetime
  | MClaim string string datetime int
  | MHeartbeat string string string int datetime int
  | MComplete string string string int datetime media_job_status "string list" "string option" "media_artifact_proof option"
  | MRetry string string string int datetime datetime "string list"

fun media_run_op :: "media_op \<Rightarrow> media_repo \<Rightarrow> media_repo" where
  "media_run_op (MEnqueue s now) r = snd (media_enqueue s now r)"
| "media_run_op (MClaim site w now d) r = snd (media_claim site w now d r)"
| "media_run_op (MHeartbeat site i w tok now d) r = snd (media_heartbeat site i w tok now d r)"
| "media_run_op (MComplete site i w tok now st rs tr pf) r = snd (media_complete site i w tok now st rs tr pf r)"
| "media_run_op (MRetry site i w tok now ra rs) r = snd (media_retry site i w tok now ra rs r)"

fun media_op_valid :: "media_op \<Rightarrow> media_repo \<Rightarrow> bool" where
  "media_op_valid (MEnqueue s _) r = ((\<exists>s0. media_submission_post_init s0 = Inr s) \<and> id_is_fresh s r)"
| "media_op_valid _ r = True"

definition media_step :: "media_repo \<Rightarrow> media_repo \<Rightarrow> bool" where
  "media_step r r' = (\<exists>op. media_op_valid op r \<and> r' = media_run_op op r)"

definition media_reachable :: "media_repo \<Rightarrow> bool" where
  "media_reachable r = media_step\<^sup>*\<^sup>* media_repo_new r"

lemma media_op_sound:
  assumes "media_inv r" and "media_op_valid op r"
  shows "media_inv (media_run_op op r) \<and> media_evolves r (media_run_op op r)"
proof (cases op)
  case (MEnqueue s now)
  then show ?thesis using assms media_enqueue_sound by auto
next
  case (MClaim site w now d)
  then show ?thesis using assms media_claim_sound by auto
next
  case (MHeartbeat site i w tok now d)
  then show ?thesis using on_lease_sound [OF assms(1) media_heartbeat_on_lease] by simp
next
  case (MComplete site i w tok now st rs tr pf)
  then show ?thesis using on_lease_sound [OF assms(1) media_complete_on_lease] by simp
next
  case (MRetry site i w tok now ra rs)
  then show ?thesis using on_lease_sound [OF assms(1) media_retry_on_lease] by simp
qed

lemma media_step_sound: "media_inv r \<Longrightarrow> media_step r r' \<Longrightarrow> media_inv r' \<and> media_evolves r r'"
  using media_op_sound by (auto simp: media_step_def)

lemma media_steps_sound: "media_step\<^sup>*\<^sup>* r r' \<Longrightarrow> media_inv r \<Longrightarrow> media_inv r' \<and> media_evolves r r'"
proof (induction rule: rtranclp_induct)
  case (step y z)
  then show ?case using media_step_sound [OF _ step.hyps(2)] media_evolves_trans by blast
qed simp

lemma media_reachable_inv: "media_reachable r \<Longrightarrow> media_inv r"
  using media_steps_sound media_inv_new by (auto simp: media_reachable_def)

definition job_fence :: "string \<times> string \<Rightarrow> media_repo \<Rightarrow> int" where
  "job_fence k r = (case map_of (mr_jobs r) k of None \<Rightarrow> 0 | Some j \<Rightarrow> mj_fencing_token j)"

definition job_holder :: "string \<times> string \<Rightarrow> media_repo \<Rightarrow> string option" where
  "job_holder k r = (case map_of (mr_jobs r) k of None \<Rightarrow> None | Some j \<Rightarrow> mj_lease_owner j)"

lemma media_evolves_fence:
  assumes "media_inv r'" and "media_evolves r r'"
  shows "job_fence k r \<le> job_fence k r'"
    and "job_fence k r' = job_fence k r \<Longrightarrow> job_holder k r' = job_holder k r \<or> job_holder k r' = None"
proof -
  have new: "0 \<le> mj_fencing_token j \<and> (mj_fencing_token j = 0 \<longrightarrow> mj_lease_owner j = None)"
    if "map_of (mr_jobs r') k = Some j" for j
    using media_inv_job(2) [OF assms(1) that] by (cases "mj_status j") (auto simp: media_wf_def)
  have old: "\<exists>j'. map_of (mr_jobs r') k = Some j' \<and> mj_fencing_token j \<le> mj_fencing_token j' \<and>
      (mj_fencing_token j' = mj_fencing_token j \<longrightarrow> mj_lease_owner j' \<in> {mj_lease_owner j, None})"
    if "map_of (mr_jobs r) k = Some j" for j
    using assms(2) that media_moves_fence unfolding media_evolves_def by blast
  show "job_fence k r \<le> job_fence k r'"
    using new old by (fastforce simp: job_fence_def split: option.splits)
  assume "job_fence k r' = job_fence k r"
  then show "job_holder k r' = job_holder k r \<or> job_holder k r' = None"
    using new old by (fastforce simp: job_fence_def job_holder_def split: option.splits)
qed

interpretation media_fence: fenced_store media_step media_inv job_fence job_holder
proof unfold_locales
  fix r r' k
  assume "media_inv r" and "media_step r r'"
  then have i: "media_inv r'" and e: "media_evolves r r'" using media_step_sound by blast+
  show "media_inv r'" by (rule i)
  show "job_fence k r \<le> job_fence k r'" by (rule media_evolves_fence(1) [OF i e])
  show "job_fence k r' = job_fence k r \<Longrightarrow> job_holder k r' = job_holder k r \<or> job_holder k r' = None"
    by (rule media_evolves_fence(2) [OF i e])
qed

end
