(* ===== verification/Media_Pipeline.thy ===== *)
theory Media_Pipeline
  imports Media_Upload
begin

text \<open>
  Safety inspection and processing of one uploaded medium
  (\<open>services/media_runtime/common.py\<close>, \<open>inspection.py\<close> and \<open>pipeline.py\<close>). The magic detector,
  malware scanner, archive inspector, audio normalizer and speech provider are injected protocols:
  they are function-valued fields whose results include raising.
\<close>

section \<open>Stages (common.py)\<close>

datatype pipeline_status = PS_READY | PS_QUARANTINED | PS_RETRY | PS_DEAD_LETTER

record stage_key =
  sk_stage :: string
  sk_key :: string

definition stage_idempotency_key :: "string \<Rightarrow> string \<Rightarrow> string \<Rightarrow> string \<Rightarrow> stage_key" where
  "stage_idempotency_key site_id request_id immutable_checksum stage =
     \<lparr>sk_stage = stage,
      sk_key = stage @ '':'' @ sha256_hex (join [char_of (31::int)]
        [''media-runtime-stage-v1'', site_id, request_id, immutable_checksum, stage])\<rparr>"

section \<open>Inspection (inspection.py)\<close>

datatype scan_verdict = CLEAN | POSITIVE | UNAVAILABLE | TIMEOUT | ERROR

record archive_entry =
  ae_path :: string
  ae_compressed_size :: int
  ae_uncompressed_size :: int
  ae_is_symlink :: bool
  ae_nested_depth :: int

record media_asset =
  ma_object_ref :: string
  ma_declared_mime :: string
  ma_byte_size :: int

text \<open>
  The bound on the compression ratio is a float comparison \<open>u / c > max_compression_ratio\<close> for
  positive sizes; it is the field \<open>ip_ratio_exceeds\<close>.
\<close>

record inspection_policy =
  ip_allowed_media_types :: "string list"
  ip_archive_media_types :: "string list"
  ip_max_file_bytes :: int
  ip_max_expanded_bytes :: int
  ip_ratio_exceeds :: "int \<Rightarrow> int \<Rightarrow> bool"
  ip_max_archive_entries :: int
  ip_max_nesting_depth :: int
  ip_scanner_timeout_seconds :: int

record inspection_result =
  ir_status :: pipeline_status
  ir_detected_mime :: "string option"
  ir_reason_codes :: "string list"

text \<open>\<open>None\<close> stands for an exception raised by the injected object; the detector may also return a
  value that is no string.\<close>

datatype detected = DetectRaises | DetectNotStr | Detected string

record preprocessor =
  pp_detect :: "string \<Rightarrow> detected"
  pp_scan :: "string \<Rightarrow> int \<Rightarrow> scan_verdict option"
  pp_archive :: "string \<Rightarrow> archive_entry list option"
  pp_policy :: inspection_policy

definition executable_suffixes :: "string list" where
  "executable_suffixes = [''.app'', ''.bat'', ''.bin'', ''.cmd'', ''.com'', ''.dll'', ''.dmg'', ''.exe'',
     ''.jar'', ''.js'', ''.msi'', ''.ps1'', ''.scr'', ''.sh'']"

definition macro_suffixes :: "string list" where
  "macro_suffixes = [''.docm'', ''.pptm'', ''.xlsm'', ''.xltm'']"

definition mime_char :: "char \<Rightarrow> bool" where
  "mime_char c = (is_alnum c \<or> c \<in> set ''!#$&^_.+-'')"

definition media_type_text :: "string \<Rightarrow> bool" where
  "media_type_text s =
     (let a = takeWhile (\<lambda>c. c \<noteq> CHR ''/'') s; rest = drop (length a) s in
      a \<noteq> [] \<and> list_all mime_char a \<and> rest \<noteq> [] \<and> tl rest \<noteq> [] \<and> list_all mime_char (tl rest))"

text \<open>\<open>PurePosixPath\<close> on the normalized text: its parts, and the suffix of its last part
  (\<open>posixpath.splitext\<close>: from the last dot, unless only dots come before it).\<close>

definition backslash :: char where
  "backslash = char_of (92::int)"

definition normalized_path :: "string \<Rightarrow> string" where
  "normalized_path v = map (\<lambda>c. if c = backslash then CHR ''/'' else c) v"

definition path_parts :: "string \<Rightarrow> string list" where
  "path_parts s = filter (\<lambda>p. p \<noteq> [] \<and> p \<noteq> ''.'') (split_on (CHR ''/'') s)"

definition path_suffix :: "string \<Rightarrow> string" where
  "path_suffix s =
     (let parts = path_parts s; name = (if parts = [] then [] else last parts);
          ext = rev (takeWhile (\<lambda>c. c \<noteq> CHR ''.'') (rev name));
          stem = take (length name - length ext - 1) name in
      if CHR ''.'' \<notin> set name \<or> list_all (\<lambda>c. c = CHR ''.'') stem then [] else CHR ''.'' # ext)"

definition unsafe_archive_path :: "string \<Rightarrow> bool" where
  "unsafe_archive_path v =
     (let s = normalized_path v in
      s = [] \<or> starts_with s ''/'' \<or> ''..'' \<in> set (path_parts s) \<or> char_of (0::int) \<in> set s)"

definition compression_ratio_exceeds :: "inspection_policy \<Rightarrow> archive_entry \<Rightarrow> bool" where
  "compression_ratio_exceeds p e =
     (if ae_uncompressed_size e \<le> 0 then False
      else if ae_compressed_size e \<le> 0 then True
      else ip_ratio_exceeds p (ae_uncompressed_size e) (ae_compressed_size e))"

definition entry_reasons :: "inspection_policy \<Rightarrow> archive_entry \<Rightarrow> string list" where
  "entry_reasons p e =
     (if ae_compressed_size e < 0 \<or> ae_uncompressed_size e < 0 then [''archive_metadata_invalid'']
      else (let suffix = lower (path_suffix (normalized_path (ae_path e))) in
        (if unsafe_archive_path (ae_path e) then [''archive_path_traversal''] else [])
        @ (if ae_is_symlink e then [''archive_symlink''] else [])
        @ (if ip_max_nesting_depth p < ae_nested_depth e then [''archive_nesting_exceeded''] else [])
        @ (if compression_ratio_exceeds p e then [''archive_compression_ratio_exceeded''] else [])
        @ (if suffix \<in> set executable_suffixes then [''archive_executable''] else [])
        @ (if suffix \<in> set macro_suffixes then [''archive_macro''] else [])))"

text \<open>\<open>dict.fromkeys\<close> keeps the first occurrence of each reason.\<close>

definition archive_reasons :: "inspection_policy \<Rightarrow> archive_entry list \<Rightarrow> string list" where
  "archive_reasons p entries =
     rev (remdups (rev (
       (if ip_max_archive_entries p < int (length entries) then [''archive_entry_count_exceeded''] else [])
       @ (if ip_max_expanded_bytes p < sum_list (map (\<lambda>e. max (ae_uncompressed_size e) 0) entries)
          then [''archive_expanded_size_exceeded''] else [])
       @ concat (map (entry_reasons p) entries))))"

definition inspect_quarantine :: "string option \<Rightarrow> string \<Rightarrow> inspection_result" where
  "inspect_quarantine mime reason =
     \<lparr>ir_status = PS_QUARANTINED, ir_detected_mime = mime, ir_reason_codes = [reason]\<rparr>"

definition inspect_retry :: "string option \<Rightarrow> string \<Rightarrow> inspection_result" where
  "inspect_retry mime reason =
     \<lparr>ir_status = PS_RETRY, ir_detected_mime = mime, ir_reason_codes = [reason]\<rparr>"

fun scan_result :: "string \<Rightarrow> scan_verdict \<Rightarrow> inspection_result" where
  "scan_result mime CLEAN = \<lparr>ir_status = PS_READY, ir_detected_mime = Some mime, ir_reason_codes = []\<rparr>"
| "scan_result mime POSITIVE = inspect_quarantine (Some mime) ''malware_detected''"
| "scan_result mime UNAVAILABLE = inspect_retry (Some mime) ''scanner_unavailable''"
| "scan_result mime TIMEOUT = inspect_retry (Some mime) ''scanner_timeout''"
| "scan_result mime ERROR = inspect_retry (Some mime) ''scanner_error''"

definition scan_stage :: "preprocessor \<Rightarrow> media_asset \<Rightarrow> string \<Rightarrow> inspection_result" where
  "scan_stage p a mime =
     (case pp_scan p (ma_object_ref a) (ip_scanner_timeout_seconds (pp_policy p)) of
        None \<Rightarrow> inspect_retry (Some mime) ''scanner_error''
      | Some verdict \<Rightarrow> scan_result mime verdict)"

definition archive_stage :: "preprocessor \<Rightarrow> media_asset \<Rightarrow> string \<Rightarrow> inspection_result" where
  "archive_stage p a mime =
     (if mime \<in> set (ip_archive_media_types (pp_policy p))
      then (case pp_archive p (ma_object_ref a) of
          None \<Rightarrow> inspect_retry (Some mime) ''archive_inspector_error''
        | Some entries \<Rightarrow>
            (let reasons = archive_reasons (pp_policy p) entries in
             if reasons \<noteq> []
             then \<lparr>ir_status = PS_QUARANTINED, ir_detected_mime = Some mime, ir_reason_codes = reasons\<rparr>
             else scan_stage p a mime))
      else scan_stage p a mime)"

definition inspect_asset :: "preprocessor \<Rightarrow> media_asset \<Rightarrow> string \<Rightarrow> inspection_result option" where
  "inspect_asset p a idempotency_key =
     (if idempotency_key = [] then None
      else Some (
        if ma_byte_size a \<le> 0 then inspect_quarantine None ''file_size_invalid''
        else if ip_max_file_bytes (pp_policy p) < ma_byte_size a
        then inspect_quarantine None ''file_size_exceeded''
        else if ma_declared_mime a \<notin> set (ip_allowed_media_types (pp_policy p))
        then inspect_quarantine None ''media_type_not_allowed''
        else (case pp_detect p (ma_object_ref a) of
            DetectRaises \<Rightarrow> inspect_retry None ''magic_detector_error''
          | DetectNotStr \<Rightarrow> inspect_quarantine None ''magic_detector_invalid''
          | Detected mime \<Rightarrow>
              if 255 < length mime \<or> \<not> media_type_text mime
              then inspect_quarantine None ''magic_detector_invalid''
              else if mime \<noteq> ma_declared_mime a then inspect_quarantine (Some mime) ''mime_mismatch''
              else archive_stage p a mime)))"

section \<open>The pipeline (pipeline.py)\<close>

record pipeline_request =
  pr_receipt :: upload_receipt
  pr_source_path :: string
  pr_output_path :: string
  pr_duration_ms :: int
  pr_channels :: int
  pr_sample_rate :: int
  pr_attempt :: int
  pr_max_attempts :: int
  pr_language_hint :: "string option"

text \<open>The confidence of a segment is a float; it is carried as its \<open>repr\<close> text.\<close>

record transcript_segment =
  ts_segment_id :: string
  ts_start_ms :: int
  ts_end_ms :: int
  ts_speaker :: string
  ts_confidence :: string
  ts_text_ref :: string
  ts_evidence_ref :: string

record transcript =
  tr_transcript_id :: string
  tr_site_id :: string
  tr_source_evidence_ref :: string
  tr_model_provider :: string
  tr_model_name :: string
  tr_model_version :: string
  tr_model_sha256 :: string
  tr_language :: string
  tr_segments :: "transcript_segment list"
  tr_generated_at :: instant

record pipeline_outcome =
  po_status :: pipeline_status
  po_reason_codes :: "string list"
  po_keys :: "stage_key list"
  po_transcript :: "transcript option"

record ffmpeg_request =
  fr_source_path :: string
  fr_output_path :: string
  fr_duration_ms :: int
  fr_channels :: int
  fr_sample_rate :: int

record normalized_audio =
  na_audio_ref :: string
  na_media_type :: string
  na_byte_size :: int
  na_content_sha256 :: string
  na_duration_ms :: int
  na_codec :: string
  na_channels :: int
  na_sample_rate :: int
  na_executable_name :: string
  na_executable_version :: string
  na_executable_sha256 :: string

record speech_request =
  sr_site_id :: string
  sr_audio_ref :: string
  sr_source_evidence_ref :: string
  sr_duration_ms :: int
  sr_language_hint :: "string option"

text \<open>A stage adapter returns, raises its own rejection with a code and a retryable flag, or raises
  something else.\<close>

datatype 'a stage_result = StageValue 'a | StageRejected string bool | StageRaises

record media_pipeline =
  mp_inspect :: "media_asset \<Rightarrow> string \<Rightarrow> inspection_result option"
  mp_normalize :: "ffmpeg_request \<Rightarrow> string \<Rightarrow> normalized_audio stage_result"
  mp_transcribe :: "speech_request \<Rightarrow> string \<Rightarrow> transcript stage_result"

definition pipeline_key :: "pipeline_request \<Rightarrow> string \<Rightarrow> stage_key" where
  "pipeline_key q stage =
     stage_idempotency_key (rc_site_id (pr_receipt q)) (rc_request_id (pr_receipt q))
       (rc_immutable_checksum (pr_receipt q)) stage"

definition pipeline_terminal_status :: "pipeline_status \<Rightarrow> int \<Rightarrow> int \<Rightarrow> pipeline_status" where
  "pipeline_terminal_status status attempt max_attempts =
     (if status = PS_RETRY \<and> max_attempts \<le> attempt then PS_DEAD_LETTER else status)"

definition exception_status :: "bool \<Rightarrow> int \<Rightarrow> int \<Rightarrow> pipeline_status" where
  "exception_status retryable attempt max_attempts =
     (if \<not> retryable then PS_QUARANTINED
      else if max_attempts \<le> attempt then PS_DEAD_LETTER else PS_RETRY)"

definition retry_or_dead_letter :: "pipeline_request \<Rightarrow> pipeline_status" where
  "retry_or_dead_letter q = (if pr_max_attempts q \<le> pr_attempt q then PS_DEAD_LETTER else PS_RETRY)"

definition stage_failure ::
  "pipeline_request \<Rightarrow> stage_key list \<Rightarrow> string \<Rightarrow> 'a stage_result \<Rightarrow> pipeline_outcome" where
  "stage_failure q keys other r =
     (case r of
        StageRejected code retryable \<Rightarrow>
          \<lparr>po_status = exception_status retryable (pr_attempt q) (pr_max_attempts q),
           po_reason_codes = [code], po_keys = keys, po_transcript = None\<rparr>
      | _ \<Rightarrow> \<lparr>po_status = retry_or_dead_letter q, po_reason_codes = [other], po_keys = keys,
              po_transcript = None\<rparr>)"

definition transcribe_stage ::
  "media_pipeline \<Rightarrow> pipeline_request \<Rightarrow> stage_key list \<Rightarrow> normalized_audio \<Rightarrow> pipeline_outcome" where
  "transcribe_stage p q keys audio =
     (let key = pipeline_key q ''transcribe''; keys' = keys @ [key];
          r = mp_transcribe p
            \<lparr>sr_site_id = rc_site_id (pr_receipt q), sr_audio_ref = na_audio_ref audio,
             sr_source_evidence_ref = rc_evidence_ref (pr_receipt q),
             sr_duration_ms = na_duration_ms audio, sr_language_hint = pr_language_hint q\<rparr> (sk_key key) in
      case r of
        StageValue t \<Rightarrow> \<lparr>po_status = PS_READY, po_reason_codes = [], po_keys = keys', po_transcript = Some t\<rparr>
      | _ \<Rightarrow> stage_failure q keys' ''speech_provider_error'' r)"

definition normalize_stage ::
  "media_pipeline \<Rightarrow> pipeline_request \<Rightarrow> stage_key list \<Rightarrow> pipeline_outcome" where
  "normalize_stage p q keys =
     (let key = pipeline_key q ''normalize''; keys' = keys @ [key];
          r = mp_normalize p
            \<lparr>fr_source_path = pr_source_path q, fr_output_path = pr_output_path q,
             fr_duration_ms = pr_duration_ms q, fr_channels = pr_channels q,
             fr_sample_rate = pr_sample_rate q\<rparr> (sk_key key) in
      case r of
        StageValue audio \<Rightarrow> transcribe_stage p q keys' audio
      | _ \<Rightarrow> stage_failure q keys' ''normalizer_error'' r)"

definition pipeline_run :: "media_pipeline \<Rightarrow> pipeline_request \<Rightarrow> upload_error + pipeline_outcome" where
  "pipeline_run p q =
     (if \<not> (1 \<le> pr_attempt q \<and> pr_attempt q \<le> pr_max_attempts q)
      then Inl (UploadValueError ''attempt_out_of_bounds'')
      else (let key = pipeline_key q ''inspect'' in
        Inr (case mp_inspect p
              \<lparr>ma_object_ref = rc_object_ref (pr_receipt q), ma_declared_mime = rc_media_type (pr_receipt q),
               ma_byte_size = rc_byte_size (pr_receipt q)\<rparr> (sk_key key) of
            None \<Rightarrow> \<lparr>po_status = retry_or_dead_letter q, po_reason_codes = [''preprocessor_error''],
                     po_keys = [key], po_transcript = None\<rparr>
          | Some i \<Rightarrow>
              if ir_status i \<noteq> PS_READY
              then \<lparr>po_status = pipeline_terminal_status (ir_status i) (pr_attempt q) (pr_max_attempts q),
                    po_reason_codes = ir_reason_codes i, po_keys = [key], po_transcript = None\<rparr>
              else if \<not> starts_with (rc_media_type (pr_receipt q)) ''audio/''
              then \<lparr>po_status = PS_READY, po_reason_codes = [], po_keys = [key], po_transcript = None\<rparr>
              else normalize_stage p q [key])))"

section \<open>What a ready outcome means\<close>

lemma scan_result_ready: "ir_status (scan_result m v) = PS_READY \<longleftrightarrow> v = CLEAN"
  by (cases v) (auto simp: inspect_quarantine_def inspect_retry_def)

lemma set_archive_reasons:
  "archive_reasons p es = [] \<longleftrightarrow>
     int (length es) \<le> ip_max_archive_entries p
     \<and> sum_list (map (\<lambda>e. max (ae_uncompressed_size e) 0) es) \<le> ip_max_expanded_bytes p
     \<and> (\<forall>e \<in> set es. entry_reasons p e = [])"
  by (auto simp: archive_reasons_def not_less)

lemma entry_reasons_empty:
  "entry_reasons p e = [] \<longleftrightarrow> 0 \<le> ae_compressed_size e \<and> 0 \<le> ae_uncompressed_size e
     \<and> \<not> unsafe_archive_path (ae_path e) \<and> \<not> ae_is_symlink e
     \<and> ae_nested_depth e \<le> ip_max_nesting_depth p \<and> \<not> compression_ratio_exceeds p e
     \<and> lower (path_suffix (normalized_path (ae_path e))) \<notin> set (executable_suffixes @ macro_suffixes)"
  by (auto simp: entry_reasons_def Let_def)

lemma scan_stage_ready:
  "ir_status (scan_stage p a m) = PS_READY \<longleftrightarrow> pp_scan p (ma_object_ref a) (ip_scanner_timeout_seconds (pp_policy p)) = Some CLEAN"
  by (auto simp: scan_stage_def scan_result_ready inspect_retry_def split: option.splits)

lemma archive_stage_ready:
  "ir_status (archive_stage p a m) = PS_READY \<longleftrightarrow> pp_scan p (ma_object_ref a) (ip_scanner_timeout_seconds (pp_policy p)) = Some CLEAN
     \<and> (m \<in> set (ip_archive_media_types (pp_policy p)) \<longrightarrow>
          (\<exists>es. pp_archive p (ma_object_ref a) = Some es \<and> archive_reasons (pp_policy p) es = []))"
  by (auto simp: archive_stage_def scan_stage_ready inspect_retry_def Let_def split: option.splits)

section \<open>Inspection and pipeline guarantees\<close>

text \<open>
  The preprocessor passes a medium exactly when it is non-empty and within the size limit, its
  declared type is allowed and equals the type detected from its bytes, the malware scanner says
  clean, and, for archive types, the archive was readable, within the entry and expansion limits, and
  every entry has sane sizes, a relative path without parent references, no symbolic link, bounded
  nesting and compression, and no executable or macro suffix.
\<close>
theorem inspection_ready_iff:
  assumes "inspect_asset p a key = Some r"
  shows "ir_status r = PS_READY \<longleftrightarrow>
     0 < ma_byte_size a \<and> ma_byte_size a \<le> ip_max_file_bytes (pp_policy p)
     \<and> ma_declared_mime a \<in> set (ip_allowed_media_types (pp_policy p))
     \<and> pp_detect p (ma_object_ref a) = Detected (ma_declared_mime a)
     \<and> length (ma_declared_mime a) \<le> 255 \<and> media_type_text (ma_declared_mime a)
     \<and> pp_scan p (ma_object_ref a) (ip_scanner_timeout_seconds (pp_policy p)) = Some CLEAN
     \<and> (ma_declared_mime a \<in> set (ip_archive_media_types (pp_policy p)) \<longrightarrow>
         (\<exists>es. pp_archive p (ma_object_ref a) = Some es
            \<and> int (length es) \<le> ip_max_archive_entries (pp_policy p)
            \<and> sum_list (map (\<lambda>e. max (ae_uncompressed_size e) 0) es) \<le> ip_max_expanded_bytes (pp_policy p)
            \<and> (\<forall>e \<in> set es. 0 \<le> ae_compressed_size e \<and> 0 \<le> ae_uncompressed_size e
                 \<and> \<not> unsafe_archive_path (ae_path e) \<and> \<not> ae_is_symlink e
                 \<and> ae_nested_depth e \<le> ip_max_nesting_depth (pp_policy p)
                 \<and> \<not> compression_ratio_exceeds (pp_policy p) e
                 \<and> lower (path_suffix (normalized_path (ae_path e)))
                      \<notin> set (executable_suffixes @ macro_suffixes))))"
proof -
  have no: "ir_status (inspect_quarantine m c) \<noteq> PS_READY" "ir_status (inspect_retry m c) \<noteq> PS_READY" for m c
    by (simp_all add: inspect_quarantine_def inspect_retry_def)
  show ?thesis
    unfolding entry_reasons_empty [symmetric] set_archive_reasons [symmetric]
    using assms
    by (auto simp: inspect_asset_def no archive_stage_ready not_less split: if_splits detected.splits)
qed

definition demo_policy :: inspection_policy where
  "demo_policy = \<lparr>ip_allowed_media_types = [''audio/wav'', ''application/zip''],
     ip_archive_media_types = [''application/zip''], ip_max_file_bytes = 100, ip_max_expanded_bytes = 200,
     ip_ratio_exceeds = (\<lambda>u c. u > 10 * c), ip_max_archive_entries = 3, ip_max_nesting_depth = 1,
     ip_scanner_timeout_seconds = 30\<rparr>"

definition demo_preprocessor :: "string \<Rightarrow> archive_entry list \<Rightarrow> preprocessor" where
  "demo_preprocessor mime es = \<lparr>pp_detect = (\<lambda>_. Detected mime), pp_scan = (\<lambda>_ _. Some CLEAN),
     pp_archive = (\<lambda>_. Some es), pp_policy = demo_policy\<rparr>"

definition demo_entry :: "string \<Rightarrow> archive_entry" where
  "demo_entry path = \<lparr>ae_path = path, ae_compressed_size = 10, ae_uncompressed_size = 50,
     ae_is_symlink = False, ae_nested_depth = 0\<rparr>"

definition zip_asset :: media_asset where
  "zip_asset = \<lparr>ma_object_ref = ''object://s/k'', ma_declared_mime = ''application/zip'', ma_byte_size = 60\<rparr>"

lemma demo_paths:
  "entry_reasons demo_policy (demo_entry ''docs/a.txt'') = []"
  "entry_reasons demo_policy (demo_entry ''a/../b.EXE'') = [''archive_path_traversal'', ''archive_executable'']"
  by code_simp+

theorem inspection_ready_iff_witness:
  "\<exists>r. inspect_asset (demo_preprocessor ''application/zip'' [demo_entry ''a/../b.EXE'']) zip_asset ''k'' = Some r
     \<and> ir_status r \<noteq> PS_READY"
proof -
  let ?p = "demo_preprocessor ''application/zip'' [demo_entry ''a/../b.EXE'']"
  obtain r where r: "inspect_asset ?p zip_asset ''k'' = Some r"
    by (simp add: inspect_asset_def)
  have "unsafe_archive_path (ae_path (demo_entry ''a/../b.EXE''))" by code_simp
  with r inspection_ready_iff [OF r] show ?thesis
    by (auto simp: demo_preprocessor_def demo_policy_def zip_asset_def)
qed

lemma stage_failure_status:
  "po_status (stage_failure q keys other r) \<noteq> PS_READY"
  "po_status (stage_failure q keys other r) = PS_RETRY \<Longrightarrow> pr_attempt q < pr_max_attempts q"
  "po_keys (stage_failure q keys other r) = keys"
  by (auto simp: stage_failure_def exception_status_def retry_or_dead_letter_def
      split: stage_result.splits if_splits)

lemma transcribe_stage_outcome:
  "po_status (transcribe_stage p q keys a) = PS_READY \<Longrightarrow> po_transcript (transcribe_stage p q keys a) \<noteq> None"
  "po_status (transcribe_stage p q keys a) = PS_RETRY \<Longrightarrow> pr_attempt q < pr_max_attempts q"
  "po_keys (transcribe_stage p q keys a) = keys @ [pipeline_key q ''transcribe'']"
  by (auto simp: transcribe_stage_def Let_def stage_failure_status
      dest: stage_failure_status(2) split: stage_result.splits)

lemma normalize_stage_outcome:
  "po_status (normalize_stage p q keys) = PS_READY \<Longrightarrow> po_transcript (normalize_stage p q keys) \<noteq> None"
  "po_status (normalize_stage p q keys) = PS_RETRY \<Longrightarrow> pr_attempt q < pr_max_attempts q"
  "\<exists>k. po_keys (normalize_stage p q keys) = keys @ pipeline_key q ''normalize'' # k
     \<and> (k = [] \<or> k = [pipeline_key q ''transcribe''])"
  by (auto simp: normalize_stage_def Let_def stage_failure_status transcribe_stage_outcome
      dest: stage_failure_status(2) transcribe_stage_outcome(1,2) split: stage_result.splits)

text \<open>
  The pipeline reports a medium ready only after its inspection passed, and an audio medium only
  with a transcript; it asks for a retry only while attempts are left; and the idempotency keys it
  returns are those of the stages it reached, in the order inspect, normalize, transcribe.
\<close>
theorem pipeline_outcome_is_governed:
  assumes "pipeline_run p q = Inr out"
  shows "(po_status out = PS_READY \<longrightarrow>
       (\<exists>i. mp_inspect p \<lparr>ma_object_ref = rc_object_ref (pr_receipt q),
              ma_declared_mime = rc_media_type (pr_receipt q), ma_byte_size = rc_byte_size (pr_receipt q)\<rparr>
              (sk_key (pipeline_key q ''inspect'')) = Some i \<and> ir_status i = PS_READY)
       \<and> (po_transcript out = None \<longleftrightarrow> \<not> starts_with (rc_media_type (pr_receipt q)) ''audio/''))
     \<and> (po_status out = PS_RETRY \<longrightarrow> pr_attempt q < pr_max_attempts q)
     \<and> prefix (po_keys out) (map (pipeline_key q) [''inspect'', ''normalize'', ''transcribe''])"
proof -
  have n: "prefix (po_keys (normalize_stage p q [pipeline_key q ''inspect'']))
      (map (pipeline_key q) [''inspect'', ''normalize'', ''transcribe''])"
    using normalize_stage_outcome(3) [of p q "[pipeline_key q ''inspect'']"] by auto
  show ?thesis
    using assms n normalize_stage_outcome(1,2)
    by (auto simp: pipeline_run_def Let_def pipeline_terminal_status_def retry_or_dead_letter_def
        split: option.splits if_splits)
qed

definition demo_receipt :: "string \<Rightarrow> upload_receipt" where
  "demo_receipt mime = \<lparr>rc_receipt_id = ''rcpt'', rc_site_id = ''site-a'', rc_purpose = ''pilot'',
     rc_request_id = ''req-1'', rc_source_kind = FILE, rc_media_type = mime, rc_byte_size = 3,
     rc_sha256 = ''h'', rc_object_ref = ''object://s/k'', rc_evidence_ref = ''evidence://s/e'',
     rc_received_at = 0, rc_immutable_checksum = ''c'', rc_retention_days = 30,
     rc_consent_basis = ''pilot_deferred_review''\<rparr>"

definition demo_pipeline_request :: "int \<Rightarrow> pipeline_request" where
  "demo_pipeline_request n = \<lparr>pr_receipt = demo_receipt ''audio/wav'', pr_source_path = ''/in'',
     pr_output_path = ''/out'', pr_duration_ms = 10, pr_channels = 1, pr_sample_rate = 16000,
     pr_attempt = n, pr_max_attempts = 3, pr_language_hint = None\<rparr>"

definition failing_pipeline :: media_pipeline where
  "failing_pipeline = \<lparr>mp_inspect = inspect_asset (demo_preprocessor ''audio/wav'' []),
     mp_normalize = (\<lambda>_ _. StageRaises), mp_transcribe = (\<lambda>_ _. StageRaises)\<rparr>"

theorem pipeline_outcome_is_governed_witness:
  "\<exists>out. pipeline_run failing_pipeline (demo_pipeline_request 3) = Inr out
     \<and> po_status out \<noteq> PS_RETRY"
proof -
  obtain out where o: "pipeline_run failing_pipeline (demo_pipeline_request 3) = Inr out"
    by (simp add: pipeline_run_def demo_pipeline_request_def Let_def)
  then show ?thesis
    using pipeline_outcome_is_governed [OF o] by (auto simp: demo_pipeline_request_def)
qed

end
