(* ===== verification/Media_Worker.thy ===== *)
theory Media_Worker
  imports Media_Job_Runs Media_Pipeline
begin

text \<open>
  The media worker (\<open>services/media_runtime/worker.py\<close>): one cycle claims a job, runs the pipeline
  while renewing the lease, and records the outcome through the fenced repository. The path resolver,
  the pipeline, the observer bridge and the proof provider are injected; they are function-valued
  fields that may raise any \<open>Exception\<close>, \<open>LeaseConflict\<close> included. The readings of the clock are part of the input of a cycle.
\<close>

section \<open>Data\<close>

datatype worker_status = W_DISABLED | W_IDLE | W_SUCCEEDED | W_RETRY | W_QUARANTINED | W_DEAD_LETTER | W_LEASE_LOST

record worker_result =
  wr_status :: worker_status
  wr_job_id :: "string option"
  wr_attempt :: "int option"

text \<open>
  An exception inside a cycle: one of the classes the repository raises, whoever raises it, or any
  other. Every \<open>Exception\<close> of the bridge is caught where it is called, so its class does not matter.
\<close>

datatype worker_exn = FromRepository media_error | FromInjected

fun lease_conflict :: "worker_exn \<Rightarrow> bool" where
  "lease_conflict (FromRepository (MediaLeaseConflict _)) = True"
| "lease_conflict _ = False"

record media_worker =
  mw_site_id :: string
  mw_worker_id :: string
  mw_lease_duration :: int
  mw_retry_delay :: int
  mw_enabled :: bool
  mw_resolve :: "media_job \<Rightarrow> worker_exn + string \<times> string"
  mw_pipeline :: "pipeline_request \<Rightarrow> worker_exn + pipeline_outcome"
  mw_publish_evidence :: "upload_receipt \<Rightarrow> string \<Rightarrow> string option"
  mw_publish :: "transcript \<Rightarrow> string \<Rightarrow> string option"
  mw_proof_for :: "media_job \<Rightarrow> pipeline_outcome \<Rightarrow> worker_exn + media_artifact_proof option"

definition media_worker_init :: "media_worker \<Rightarrow> media_error + media_worker" where
  "media_worker_init w =
     (if mw_site_id w = [] \<or> mw_worker_id w = [] then Inl (MediaValueError ''worker_identity_required'')
      else if mw_lease_duration w \<le> 0 \<or> mw_retry_delay w \<le> 0
      then Inl (MediaValueError ''worker_duration_invalid'')
      else Inr w)"

text \<open>
  The clock readings of one cycle: at the claim, at each heartbeat of the renewal thread, when the
  outcome is recorded, and in the handler of an unexpected exception.
\<close>

record cycle_clock =
  cc_claim :: datetime
  cc_beats :: "datetime list"
  cc_record :: datetime
  cc_handler :: datetime

type_synonym 'a worker_call = "(worker_exn, 'a, media_repo) call"

definition worker_outcome :: "worker_status \<Rightarrow> media_job \<Rightarrow> worker_result" where
  "worker_outcome status j = \<lparr>wr_status = status, wr_job_id = Some (mj_job_id j), wr_attempt = Some (mj_attempt j)\<rparr>"

section \<open>Recording an outcome\<close>

definition worker_complete ::
  "media_worker \<Rightarrow> datetime \<Rightarrow> media_job \<Rightarrow> media_job_status \<Rightarrow> worker_status \<Rightarrow> string list \<Rightarrow> string option
     \<Rightarrow> media_artifact_proof option \<Rightarrow> media_repo \<Rightarrow> worker_result worker_call" where
  "worker_complete w now j status worker_status codes transcript_ref proof r =
     (case media_complete (mj_site_id j) (mj_job_id j) (mw_worker_id w) (mj_fencing_token j) now status codes
            transcript_ref proof r of
        (Inl (MediaLeaseConflict _), r') \<Rightarrow> (Inr (worker_outcome W_LEASE_LOST j), r')
      | (Inl e, r') \<Rightarrow> (Inl (FromRepository e), r')
      | (Inr _, r') \<Rightarrow> (Inr (worker_outcome worker_status j), r'))"

definition worker_retry ::
  "media_worker \<Rightarrow> datetime \<Rightarrow> media_job \<Rightarrow> string list \<Rightarrow> media_repo \<Rightarrow> worker_result worker_call" where
  "worker_retry w now j codes r =
     (case media_retry (mj_site_id j) (mj_job_id j) (mw_worker_id w) (mj_fencing_token j) now
            (shift_time now (mw_retry_delay w)) codes r of
        (Inl (MediaLeaseConflict _), r') \<Rightarrow> (Inr (worker_outcome W_LEASE_LOST j), r')
      | (Inl e, r') \<Rightarrow> (Inl (FromRepository e), r')
      | (Inr updated, r') \<Rightarrow>
          (Inr (worker_outcome (if mj_status updated = M_DEAD_LETTER then W_DEAD_LETTER else W_RETRY) j), r'))"

definition record_transcript ::
  "media_worker \<Rightarrow> datetime \<Rightarrow> media_job \<Rightarrow> pipeline_outcome \<Rightarrow> media_repo \<Rightarrow> worker_result worker_call" where
  "record_transcript w now j out r =
     (let reject = (\<lambda>code. worker_complete w now j M_QUARANTINED W_QUARANTINED [code] None None r) in
      case po_transcript out of
        None \<Rightarrow> reject ''transcript_proof_invalid''
      | Some t \<Rightarrow>
          if tr_site_id t \<noteq> mj_site_id j \<or> tr_source_evidence_ref t \<noteq> rc_evidence_ref (mj_receipt j)
          then reject ''transcript_proof_invalid''
          else (case mw_proof_for w j out of
              Inl e \<Rightarrow> (Inl e, r)
            | Inr None \<Rightarrow> reject ''runtime_artifact_proof_missing''
            | Inr (Some proof) \<Rightarrow>
                if map_whisper_model_sha256 proof \<noteq> tr_model_sha256 t
                then reject ''runtime_artifact_proof_missing''
                else (case mw_publish w t (''media-transcript:'' @ mj_job_id j) of
                    None \<Rightarrow> worker_retry w now j [''observer_bridge_unavailable''] r
                  | Some ref \<Rightarrow> worker_complete w now j M_READY W_SUCCEEDED [] (Some ref) (Some proof) r)))"

definition record_outcome ::
  "media_worker \<Rightarrow> datetime \<Rightarrow> media_job \<Rightarrow> pipeline_outcome \<Rightarrow> media_repo \<Rightarrow> worker_result worker_call" where
  "record_outcome w now j out r =
     (case po_status out of
        PS_RETRY \<Rightarrow> worker_retry w now j
          (if po_reason_codes out = [] then [''pipeline_retry''] else po_reason_codes out) r
      | PS_QUARANTINED \<Rightarrow> worker_complete w now j M_QUARANTINED W_QUARANTINED (po_reason_codes out) None None r
      | PS_DEAD_LETTER \<Rightarrow> worker_complete w now j M_DEAD_LETTER W_DEAD_LETTER (po_reason_codes out) None None r
      | PS_READY \<Rightarrow>
          if \<not> starts_with (rc_media_type (mj_receipt j)) ''audio/''
          then (case mw_publish_evidence w (mj_receipt j) (''media-evidence:'' @ mj_job_id j) of
              None \<Rightarrow> worker_retry w now j [''observer_bridge_unavailable''] r
            | Some ref \<Rightarrow> worker_complete w now j M_READY W_SUCCEEDED [] (Some ref) None r)
          else record_transcript w now j out r)"

section \<open>One cycle\<close>

definition media_request :: "media_job \<Rightarrow> string \<times> string \<Rightarrow> pipeline_request" where
  "media_request j paths =
     \<lparr>pr_receipt = mj_receipt j, pr_source_path = fst paths, pr_output_path = snd paths,
      pr_duration_ms = mj_duration_ms j, pr_channels = mj_channels j, pr_sample_rate = mj_sample_rate j,
      pr_attempt = mj_attempt j, pr_max_attempts = mj_max_attempts j, pr_language_hint = mj_language_hint j\<rparr>"

text \<open>
  \<open>ThreadedHeartbeatRunner.run\<close>: the renewals run while the work does and stop at the first that
  raises; that exception surfaces once the work has returned, an exception of the work surfaces itself.
\<close>

definition run_with_heartbeats ::
  "media_worker \<Rightarrow> datetime list \<Rightarrow> media_job \<Rightarrow> worker_exn + pipeline_outcome \<Rightarrow> media_repo
     \<Rightarrow> pipeline_outcome worker_call" where
  "run_with_heartbeats w beats j work r =
     (case call_each (\<lambda>now. media_heartbeat (mj_site_id j) (mj_job_id j) (mw_worker_id w)
              (mj_fencing_token j) now (mw_lease_duration w)) beats r of
        (res, r') \<Rightarrow>
          (case work of
             Inl e \<Rightarrow> (Inl e, r')
           | Inr out \<Rightarrow> (case res of Inl e \<Rightarrow> (Inl (FromRepository e), r') | Inr _ \<Rightarrow> (Inr out, r'))))"

definition process_claim :: "media_worker \<Rightarrow> cycle_clock \<Rightarrow> media_job \<Rightarrow> media_repo \<Rightarrow> worker_result worker_call" where
  "process_claim w c j r =
     (case mw_resolve w j of
        Inl e \<Rightarrow> (Inl e, r)
      | Inr paths \<Rightarrow>
          and_then (run_with_heartbeats w (cc_beats c) j (mw_pipeline w (media_request j paths)) r)
            (\<lambda>out r'. record_outcome w (cc_record c) j out r'))"

definition media_run_once :: "media_worker \<Rightarrow> cycle_clock \<Rightarrow> media_repo \<Rightarrow> worker_result worker_call" where
  "media_run_once w c r =
     (if \<not> mw_enabled w then (Inr \<lparr>wr_status = W_DISABLED, wr_job_id = None, wr_attempt = None\<rparr>, r)
      else (case media_claim (mw_site_id w) (mw_worker_id w) (cc_claim c) (mw_lease_duration w) r of
          (Inl e, r') \<Rightarrow> (Inl (FromRepository e), r')
        | (Inr None, r') \<Rightarrow> (Inr \<lparr>wr_status = W_IDLE, wr_job_id = None, wr_attempt = None\<rparr>, r')
        | (Inr (Some j), r') \<Rightarrow>
            (case process_claim w c j r' of
               (Inr res, r2) \<Rightarrow> (Inr res, r2)
             | (Inl (FromRepository (MediaLeaseConflict _)), r2) \<Rightarrow> (Inr (worker_outcome W_LEASE_LOST j), r2)
             | (Inl _, r2) \<Rightarrow> worker_retry w (cc_handler c) j [''media_runtime_error''] r2)))"

section \<open>A held lease\<close>

definition holds_lease :: "media_worker \<Rightarrow> media_job \<Rightarrow> instant \<Rightarrow> media_repo \<Rightarrow> bool" where
  "holds_lease w j until r = (\<exists>j' e. map_of (mr_jobs r) (mj_site_id j, mj_job_id j) = Some j' \<and> same_job j j'
     \<and> mj_status j' = M_LEASED \<and> mj_lease_owner j' = Some (mw_worker_id w)
     \<and> mj_fencing_token j' = mj_fencing_token j \<and> mj_lease_expires_at j' = Some e \<and> until \<le> e)"

definition in_lease :: "instant \<Rightarrow> instant \<Rightarrow> datetime \<Rightarrow> bool" where
  "in_lease from until now = (is_aware now \<and> from \<le> instant_of now \<and> instant_of now < until)"

fun settled_as :: "worker_status \<Rightarrow> media_job_status \<Rightarrow> bool" where
  "settled_as W_SUCCEEDED s = (s = M_READY)"
| "settled_as W_RETRY s = (s = M_RETRY)"
| "settled_as W_QUARANTINED s = (s = M_QUARANTINED)"
| "settled_as W_DEAD_LETTER s = (s = M_DEAD_LETTER)"
| "settled_as _ s = False"

definition settled :: "media_job \<Rightarrow> worker_result \<Rightarrow> media_repo \<Rightarrow> bool" where
  "settled j res r = (\<exists>j'. map_of (mr_jobs r) (mj_site_id j, mj_job_id j) = Some j' \<and> same_job j j'
     \<and> wr_job_id res = Some (mj_job_id j) \<and> settled_as (wr_status res) (mj_status j'))"

lemma holds_live_lease:
  assumes "holds_lease w j until r" and "instant_of now < until"
  obtains j' where "live_lease (mj_site_id j) (mj_job_id j) (mw_worker_id w) (mj_fencing_token j) (instant_of now) r = Inr j'"
    and "same_job j j'" and "mj_status j' = M_LEASED" and "mj_lease_owner j' = Some (mw_worker_id w)"
    and "mj_fencing_token j' = mj_fencing_token j"
  using assms by (fastforce simp: holds_lease_def live_lease_def)

lemma same_job_update [simp]:
  "same_job j (j'\<lparr>mj_status := a\<rparr>) = same_job j j'"
  "same_job j (j'\<lparr>mj_lease_owner := b\<rparr>) = same_job j j'"
  "same_job j (j'\<lparr>mj_lease_expires_at := c\<rparr>) = same_job j j'"
  "same_job j (j'\<lparr>mj_reason_codes := d\<rparr>) = same_job j j'"
  "same_job j (j'\<lparr>mj_transcript_ref := f\<rparr>) = same_job j j'"
  "same_job j (j'\<lparr>mj_artifact_proof := g\<rparr>) = same_job j j'"
  "same_job j (j'\<lparr>mj_updated_at := h\<rparr>) = same_job j j'"
  "same_job j (j'\<lparr>mj_due_at := k\<rparr>) = same_job j j'"
  by (simp_all add: same_job_def)

lemma heartbeat_keeps_lease:
  assumes "holds_lease w j (from + mw_lease_duration w) r" and "in_lease from (from + mw_lease_duration w) now"
    and "mj_site_id j \<noteq> []" and "media_worker_init w0 = Inr w"
  shows "\<exists>j' r'. media_heartbeat (mj_site_id j) (mj_job_id j) (mw_worker_id w) (mj_fencing_token j) now
      (mw_lease_duration w) r = (Inr j', r') \<and> holds_lease w j (from + mw_lease_duration w) r'"
proof -
  obtain j' where "live_lease (mj_site_id j) (mj_job_id j) (mw_worker_id w) (mj_fencing_token j) (instant_of now) r = Inr j'"
    "same_job j j'" "mj_status j' = M_LEASED" "mj_lease_owner j' = Some (mw_worker_id w)"
    "mj_fencing_token j' = mj_fencing_token j"
    using assms(2) holds_live_lease [OF assms(1), of now] by (auto simp: in_lease_def)
  then show ?thesis
    using assms(2-4)
    by (auto simp: media_heartbeat_def validate_lease_input_def media_require_aware_def media_worker_init_def
        in_lease_def holds_lease_def Let_def split: if_splits)
qed

lemma heartbeats_keep_lease:
  assumes "media_worker_init w0 = Inr w" and "mj_site_id j \<noteq> []"
    and "holds_lease w j (from + mw_lease_duration w) r"
    and "list_all (in_lease from (from + mw_lease_duration w)) beats"
  shows "\<exists>r'. call_each (\<lambda>now. media_heartbeat (mj_site_id j) (mj_job_id j) (mw_worker_id w) (mj_fencing_token j) now
      (mw_lease_duration w)) beats r = (Inr (), r') \<and> holds_lease w j (from + mw_lease_duration w) r'"
  using assms(3,4)
proof (induction beats arbitrary: r)
  case (Cons now beats)
  then obtain j' r' where "media_heartbeat (mj_site_id j) (mj_job_id j) (mw_worker_id w) (mj_fencing_token j) now
      (mw_lease_duration w) r = (Inr j', r')" "holds_lease w j (from + mw_lease_duration w) r'"
    using heartbeat_keeps_lease [OF _ _ assms(2,1), of "from" r now] by auto
  then show ?case using Cons.IH [of r'] Cons.prems(2) by simp
qed simp

text \<open>An injected part raises \<open>LeaseConflict\<close> when the cycle calls it for this job.\<close>

definition injected_conflict :: "media_worker \<Rightarrow> media_job \<Rightarrow> bool" where
  "injected_conflict w j =
     ((\<exists>e. mw_resolve w j = Inl e \<and> lease_conflict e) \<or>
      (\<exists>paths. mw_resolve w j = Inr paths \<and>
         ((\<exists>e. mw_pipeline w (media_request j paths) = Inl e \<and> lease_conflict e) \<or>
          (\<exists>out e. mw_pipeline w (media_request j paths) = Inr out \<and> mw_proof_for w j out = Inl e \<and>
             lease_conflict e))))"

text \<open>
  Recording under a held lease settles the job, or raises leaving the queue as it was; a lease
  conflict can then only come from an injected part.
\<close>

definition settles :: "bool \<Rightarrow> media_job \<Rightarrow> media_repo \<Rightarrow> worker_result worker_call \<Rightarrow> bool" where
  "settles conflict j r c = ((\<exists>res r'. c = (Inr res, r') \<and> settled j res r') \<or>
     (\<exists>e. c = (Inl e, r) \<and> (lease_conflict e \<longrightarrow> conflict)))"

lemma worker_complete_settles:
  assumes "holds_lease w j until r" and "in_lease from until now"
    and "(ws, st) \<in> {(W_SUCCEEDED, M_READY), (W_QUARANTINED, M_QUARANTINED), (W_DEAD_LETTER, M_DEAD_LETTER)}"
  shows "settles conflict j r (worker_complete w now j st ws codes tr pf r)"
proof -
  obtain j' where "live_lease (mj_site_id j) (mj_job_id j) (mw_worker_id w) (mj_fencing_token j) (instant_of now) r = Inr j'"
    "same_job j j'"
    using holds_live_lease [OF assms(1), of now] assms(2) by (auto simp: in_lease_def)
  then show ?thesis
    using assms(2,3)
    by (auto simp: settles_def settled_def worker_complete_def media_complete_def media_require_aware_def
        validate_reason_codes_def in_lease_def worker_outcome_def Let_def)
qed

lemma worker_retry_settles:
  assumes "holds_lease w j until r" and "in_lease from until now" and "media_worker_init w0 = Inr w"
  shows "settles conflict j r (worker_retry w now j codes r)"
    and "validate_reason_codes codes = Inr () \<Longrightarrow> \<exists>res r'. worker_retry w now j codes r = (Inr res, r') \<and> settled j res r'"
proof -
  obtain j' where "live_lease (mj_site_id j) (mj_job_id j) (mw_worker_id w) (mj_fencing_token j) (instant_of now) r = Inr j'"
    "same_job j j'"
    using holds_live_lease [OF assms(1), of now] assms(2) by (auto simp: in_lease_def)
  moreover obtain t where "now = Aware t" using assms(2) by (auto simp: in_lease_def is_aware_iff)
  moreover have "0 < mw_retry_delay w"
    using assms(3) by (auto simp: media_worker_init_def split: if_splits)
  ultimately show "settles conflict j r (worker_retry w now j codes r)"
    and "validate_reason_codes codes = Inr () \<Longrightarrow> \<exists>res r'. worker_retry w now j codes r = (Inr res, r') \<and> settled j res r'"
    by (auto simp: settles_def settled_def worker_retry_def media_retry_def media_require_aware_def
        validate_reason_codes_def worker_outcome_def Let_def split: if_splits)
qed

lemma record_outcome_settles:
  assumes "holds_lease w j until r" and "in_lease from until now" and "media_worker_init w0 = Inr w"
    and "\<forall>e. mw_proof_for w j out = Inl e \<longrightarrow> lease_conflict e \<longrightarrow> conflict"
  shows "settles conflict j r (record_outcome w now j out r)"
proof -
  have "settles conflict j r (Inl e, r)" if "mw_proof_for w j out = Inl e" for e
    using assms(4) that by (simp add: settles_def)
  then show ?thesis
    using worker_complete_settles [OF assms(1,2)] worker_retry_settles(1) [OF assms(1-3)]
    by (auto simp: record_outcome_def record_transcript_def Let_def
        split: pipeline_status.splits option.splits sum.splits)
qed

lemma runtime_error_code: "validate_reason_codes [''media_runtime_error''] = Inr ()"
  by code_simp

lemma claim_holds_lease:
  assumes "media_inv r" and "media_claim site wid (Aware t) d r = (Inr (Some j), r')" and "mw_worker_id w = wid"
  shows "holds_lease w j (t + d) r' \<and> mj_site_id j = site \<and> site \<noteq> []"
  using assms(1)
proof (cases rule: media_claim_cases [where site = site and w = wid and now = "Aware t" and d = d])
  case (some x)
  have "mj_site_id x = site"
    using media_inv_job(1) [OF reap_sound [OF assms(1), THEN conjunct1] some(4)] by simp
  moreover have "site \<noteq> []" using some(1) by (auto simp: validate_lease_input_def split: sum.splits if_splits)
  ultimately show ?thesis
    using some(6) assms(2,3) by (auto simp: holds_lease_def leased_job_def same_job_def)
qed (use assms in auto)

lemma process_claim_settles:
  assumes "media_worker_init w0 = Inr w" and "mj_site_id j \<noteq> []"
    and "holds_lease w j (t + mw_lease_duration w) r"
    and "list_all (in_lease t (t + mw_lease_duration w)) (cc_record c # cc_beats c)"
  shows "\<exists>r'. holds_lease w j (t + mw_lease_duration w) r' \<and> settles (injected_conflict w j) j r' (process_claim w c j r)"
proof (cases "mw_resolve w j")
  case (Inl e)
  then show ?thesis using assms(3) by (auto simp: process_claim_def settles_def injected_conflict_def)
next
  case (Inr paths)
  obtain r' where "call_each (\<lambda>now. media_heartbeat (mj_site_id j) (mj_job_id j) (mw_worker_id w) (mj_fencing_token j) now
      (mw_lease_duration w)) (cc_beats c) r = (Inr (), r')" "holds_lease w j (t + mw_lease_duration w) r'"
    using heartbeats_keep_lease [OF assms(1-3), of "cc_beats c"] assms(4) by auto
  note beats = this
  show ?thesis
  proof (cases "mw_pipeline w (media_request j paths)")
    case (Inl e)
    then show ?thesis
      using Inr beats
      by (intro exI [of _ r']) (auto simp: process_claim_def run_with_heartbeats_def settles_def injected_conflict_def)
  next
    case out: (Inr out)
    have "\<forall>e. mw_proof_for w j out = Inl e \<longrightarrow> lease_conflict e \<longrightarrow> injected_conflict w j"
      using Inr out by (auto simp: injected_conflict_def)
    then show ?thesis
      using Inr out beats assms(1,4)
        record_outcome_settles [of w j "t + mw_lease_duration w" r' t "cc_record c" w0 out "injected_conflict w j"]
      by (intro exI [of _ r']) (simp add: process_claim_def run_with_heartbeats_def)
  qed
qed

lemma run_once_settles:
  assumes "mw_enabled w"
    and "media_claim (mw_site_id w) (mw_worker_id w) (cc_claim c) (mw_lease_duration w) r = (Inr (Some j), r1)"
    and "settles conflict j r2 (process_claim w c j r1)"
    and "\<exists>res r'. worker_retry w (cc_handler c) j [''media_runtime_error''] r2 = (Inr res, r') \<and> settled j res r'"
  shows "(\<exists>res r'. media_run_once w c r = (Inr res, r') \<and> settled j res r') \<or>
     conflict \<and> media_run_once w c r = (Inr (worker_outcome W_LEASE_LOST j), r2)"
proof -
  consider (fine) res r' where "process_claim w c j r1 = (Inr res, r')" "settled j res r'"
    | (lost) e where "process_claim w c j r1 = (Inl e, r2)" "lease_conflict e" "conflict"
    | (raised) e where "process_claim w c j r1 = (Inl e, r2)" "\<not> lease_conflict e"
    using assms(3) unfolding settles_def by blast
  then show ?thesis
  proof cases
    case fine
    then show ?thesis using assms(1,2) by (simp add: media_run_once_def)
  next
    case lost
    then show ?thesis
      using assms(1,2) by (cases e rule: lease_conflict.cases) (simp_all add: media_run_once_def)
  next
    case raised
    then have "media_run_once w c r = worker_retry w (cc_handler c) j [''media_runtime_error''] r2"
      using assms(1,2) by (cases e rule: lease_conflict.cases) (simp_all add: media_run_once_def)
    then show ?thesis using assms(4) by simp
  qed
qed

end
