(* ===== verification/Media_Properties.thy ===== *)
theory Media_Properties
  imports Media_Worker
begin

text \<open>
  The properties of the media queue and its worker over every run, with a small run that instantiates
  them.
\<close>

declare split_paired_All [simp del] split_paired_Ex [simp del]

section \<open>A run\<close>

definition media_demo_submission :: media_job_submission where
  "media_demo_submission = \<lparr>ms_receipt = demo_receipt ''audio/wav'', ms_duration_ms = 1000, ms_channels = 1,
     ms_sample_rate = 16000, ms_language_hint = None, ms_max_attempts = 3\<rparr>"

abbreviation demo_id :: string where
  "demo_id \<equiv> media_job_id media_demo_submission"

definition media0 :: media_repo where
  "media0 = media_run_op (MEnqueue media_demo_submission (Aware 0)) media_repo_new"

definition media1 :: media_repo where
  "media1 = media_run_op (MClaim ''site-a'' ''w1'' (Aware 1) 10) media0"

definition media2 :: media_repo where
  "media2 = media_run_op (MClaim ''site-a'' ''w2'' (Aware 20) 10) media1"

lemma media_demo_submission_valid: "media_submission_post_init media_demo_submission = Inr media_demo_submission"
  by (simp add: media_submission_post_init_def media_demo_submission_def)

lemma demo_job_fields:
  "mj_job_id (new_media_job s t) = media_job_id s" "mj_site_id (new_media_job s t) = rc_site_id (ms_receipt s)"
  "mj_request_id (new_media_job s t) = rc_request_id (ms_receipt s)" "mj_status (new_media_job s t) = M_QUEUED"
  "mj_due_at (new_media_job s t) = t" "mj_attempt (new_media_job s t) = 0"
  "mj_max_attempts (new_media_job s t) = ms_max_attempts s" "mj_fencing_token (new_media_job s t) = 0"
  "mj_lease_owner (new_media_job s t) = None" "mj_lease_expires_at (new_media_job s t) = None"
  "mj_submission_digest (new_media_job s t) = media_submission_digest s"
  "mj_receipt (new_media_job s t) = ms_receipt s"
  by (simp_all add: new_media_job_def)

lemma demo_receipt_fields:
  "rc_site_id (ms_receipt media_demo_submission) = ''site-a''" "rc_request_id (ms_receipt media_demo_submission) = ''req-1''"
  "ms_max_attempts media_demo_submission = 3" "rc_media_type (ms_receipt media_demo_submission) = ''audio/wav''"
  "rc_evidence_ref (ms_receipt media_demo_submission) = ''evidence://s/e''"
  by (simp_all add: media_demo_submission_def demo_receipt_def)

lemma media0_eq: "media0 = \<lparr>mr_jobs = [((''site-a'', demo_id), new_media_job media_demo_submission 0)],
    mr_requests = [((''site-a'', ''req-1''), demo_id)]\<rparr>"
  by (simp add: media0_def media_enqueue_def media_require_aware_def media_repo_new_def put_job_def Let_def
      demo_receipt_fields demo_job_fields)

lemma validate_demo: "validate_lease_input ''site-a'' (c # w) (Aware t) 10 = Inr ()"
  by (simp add: validate_lease_input_def media_require_aware_def)

lemma media0_claim: "media_claim ''site-a'' ''w1'' (Aware 1) 10 media0 =
    (Inr (Some (leased_job ''w1'' 1 10 (new_media_job media_demo_submission 0))), media1)"
  by (simp add: media1_def media_claim_def validate_demo media0_eq media_candidates_def reap_exhausted_def
      media_lease_lapsed_def demo_job_fields demo_receipt_fields leased_job_def Let_def)

lemma media1_eq: "media1 = \<lparr>mr_jobs = [((''site-a'', demo_id), leased_job ''w1'' 1 10 (new_media_job media_demo_submission 0))],
    mr_requests = [((''site-a'', ''req-1''), demo_id)]\<rparr>"
  by (simp add: media1_def media_claim_def validate_demo media0_eq media_candidates_def reap_exhausted_def
      media_lease_lapsed_def demo_job_fields demo_receipt_fields leased_job_def Let_def put_job_def)

lemma media2_eq: "media2 = \<lparr>mr_jobs = [((''site-a'', demo_id),
      leased_job ''w2'' 20 10 (leased_job ''w1'' 1 10 (new_media_job media_demo_submission 0)))],
    mr_requests = [((''site-a'', ''req-1''), demo_id)]\<rparr>"
  by (simp add: media2_def media_claim_def validate_demo media1_eq media_candidates_def reap_exhausted_def
      media_lease_lapsed_def demo_job_fields demo_receipt_fields leased_job_def Let_def put_job_def)

lemma media_steps_demo: "media_step media_repo_new media0" "media_step media0 media1" "media_step media1 media2"
proof -
  show "media_step media_repo_new media0"
    unfolding media_step_def media0_def
    by (intro exI [of _ "MEnqueue media_demo_submission (Aware 0)"])
      (auto simp: id_is_fresh_def media_repo_new_def intro: media_demo_submission_valid)
  show "media_step media0 media1" "media_step media1 media2"
    unfolding media_step_def media1_def media2_def using media_op_valid.simps by blast+
qed

lemma media_reachable_demo: "media_reachable media0" "media_reachable media1" "media_reachable media2"
  using media_steps_demo unfolding media_reachable_def
  by (meson rtranclp.rtrancl_into_rtrancl rtranclp.rtrancl_refl)+

section \<open>Fencing\<close>

lemma unfenced_media_call:
  assumes "\<not> (job_fence (site, i) r = tok \<and> job_holder (site, i) r = Some w)" and "on_lease site i w tok r c"
  shows "\<exists>e. c = (Inl e, r)"
  using assms by (auto simp: on_lease_def job_fence_def job_holder_def)

text \<open>
  A media worker whose fencing token was superseded, or whose lease under that token was released,
  is locked out for good: after any further run of the queue its heartbeat, completion and retry calls
  with that token raise and leave the queue unchanged.
\<close>
theorem stale_media_worker_is_fenced:
  assumes "media_reachable r" and "media_step\<^sup>*\<^sup>* r r'"
    and "tok < job_fence (site, i) r \<or> job_fence (site, i) r = tok \<and> job_holder (site, i) r \<noteq> Some w"
  shows "(\<exists>e. media_heartbeat site i w tok now d r' = (Inl e, r'))
       \<and> (\<exists>e. media_complete site i w tok now st rs tr pf r' = (Inl e, r'))
       \<and> (\<exists>e. media_retry site i w tok now ra rs r' = (Inl e, r'))"
proof -
  have i: "media_inv r" using assms(1) by (rule media_reachable_inv)
  have out: "\<not> (job_fence (site, i) r' = tok \<and> job_holder (site, i) r' = Some w)"
    using assms(3) media_fence.superseded_forever [OF i _ assms(2), of tok "(site, i)"]
      media_fence.stale_forever [OF i _ _ assms(2), of "(site, i)" tok w] by blast
  show ?thesis
    using unfenced_media_call [OF out media_heartbeat_on_lease] unfenced_media_call [OF out media_complete_on_lease]
      unfenced_media_call [OF out media_retry_on_lease] by blast
qed

theorem stale_media_worker_is_fenced_witness:
  "job_fence (''site-a'', demo_id) media2 = 2
     \<and> (\<exists>e. media_complete ''site-a'' demo_id ''w1'' 1 (Aware 21) M_READY [] None None media2 = (Inl e, media2))"
  using stale_media_worker_is_fenced [of media2 media2 1 "''site-a''" demo_id "''w1''" "Aware 21" 10 M_READY "[]" None None "Aware 30"]
    media_reachable_demo(3)
  by (simp add: job_fence_def media2_eq leased_job_def demo_job_fields)

section \<open>Invariant\<close>

text \<open>
  In every reachable queue each job is stored under its own site and id and found again through
  its request; its attempts stay between zero and the maximum and equal its fencing token; it has an
  owner and an expiry exactly while leased; it is queued exactly before its first attempt; and it waits
  for a retry only with an attempt left.
\<close>
theorem reachable_media_job_invariant:
  assumes "media_reachable r" and "media_get site i r = Some j"
  shows "mj_site_id j = site \<and> mj_job_id j = i
     \<and> media_get_by_request site (mj_request_id j) r = Inr (Some j)
     \<and> 0 \<le> mj_attempt j \<and> mj_attempt j \<le> mj_max_attempts j \<and> mj_fencing_token j = mj_attempt j
     \<and> (mj_status j = M_LEASED \<longleftrightarrow> mj_lease_owner j \<noteq> None)
     \<and> (mj_status j = M_LEASED \<longleftrightarrow> mj_lease_expires_at j \<noteq> None)
     \<and> (mj_status j = M_QUEUED \<longleftrightarrow> mj_attempt j = 0)
     \<and> (mj_status j = M_RETRY \<longrightarrow> mj_attempt j < mj_max_attempts j)"
proof -
  have m: "map_of (mr_jobs r) (site, i) = Some j" using assms(2) by (simp add: media_get_def)
  note inv = media_inv_job [OF media_reachable_inv [OF assms(1)] m]
  show ?thesis
    using inv m by (auto simp: media_get_by_request_def media_wf_def)
qed

theorem reachable_media_job_invariant_witness:
  "\<exists>j. media_get ''site-a'' demo_id media2 = Some j \<and> mj_fencing_token j = mj_attempt j \<and> mj_attempt j = 2"
proof -
  obtain j where j: "media_get ''site-a'' demo_id media2 = Some j" "mj_attempt j = 2"
    by (simp add: media_get_def media2_eq leased_job_def demo_job_fields)
  then show ?thesis using reachable_media_job_invariant [OF media_reachable_demo(3) j(1)] by blast
qed

section \<open>Idempotent submission\<close>

text \<open>
  Submitting is idempotent over the whole life of a job: once a submission was accepted, after
  any further run of the queue the same submission returns that job in its current state and changes
  nothing, and a submission for the same request with another digest is refused and changes nothing.
\<close>
theorem media_submission_is_idempotent:
  assumes "media_reachable r" and "media_submission_post_init s0 = Inr s" and "id_is_fresh s r"
    and "media_enqueue s now r = (Inr j, r1)" and "media_step\<^sup>*\<^sup>* r1 r2" and "is_aware now'"
    and "rc_site_id (ms_receipt s') = rc_site_id (ms_receipt s)"
    and "rc_request_id (ms_receipt s') = rc_request_id (ms_receipt s)"
  shows "\<exists>j'. media_get (rc_site_id (ms_receipt s)) (mj_job_id j) r2 = Some j' \<and> same_job j j'
     \<and> media_enqueue s' now' r2 =
         (if media_submission_digest s' = media_submission_digest s then Inr j'
          else Inl (MediaValueError ''idempotency_conflict''), r2)"
proof -
  let ?site = "rc_site_id (ms_receipt s)" and ?req = "rc_request_id (ms_receipt s)"
  have i: "media_inv r" using assms(1) by (rule media_reachable_inv)
  have i1: "media_inv r1" using media_enqueue_sound [OF i assms(2,3), of now] assms(4) by simp
  have r1: "map_of (mr_jobs r1) (?site, mj_job_id j) = Some j" "map_of (mr_requests r1) (?site, ?req) = Some (mj_job_id j)"
    "mj_submission_digest j = media_submission_digest s"
    using assms(4) media_inv_job(1) [OF i]
    by (auto simp: media_enqueue_def Let_def put_job_def demo_job_fields split: sum.splits option.splits if_splits)
  have jr: "mj_request_id j = ?req" using media_inv_request [OF i1 r1(2)] r1(1) by simp
  obtain j' where j': "map_of (mr_jobs r2) (?site, mj_job_id j) = Some j'" "same_job j j'"
    using media_steps_sound [OF assms(5) i1] r1(1) media_moves_same unfolding media_evolves_def by blast
  have "map_of (mr_requests r2) (?site, ?req) = Some (mj_job_id j)"
    using media_inv_job [OF conjunct1 [OF media_steps_sound [OF assms(5) i1]] j'(1)] j'(2) jr
    by (auto simp: same_job_def)
  then show ?thesis
    using j' r1(3) assms(6-8)
    by (auto simp: media_enqueue_def media_require_aware_def Let_def media_get_def same_job_def)
qed

theorem media_submission_is_idempotent_witness:
  "\<exists>j'. media_get ''site-a'' demo_id media2 = Some j' \<and> media_enqueue media_demo_submission (Aware 50) media2 = (Inr j', media2)"
proof -
  have e: "media_enqueue media_demo_submission (Aware 0) media_repo_new = (Inr (new_media_job media_demo_submission 0), media0)"
    by (simp add: media0_def media_enqueue_def media_require_aware_def media_repo_new_def Let_def)
  have f: "id_is_fresh media_demo_submission media_repo_new" by (simp add: id_is_fresh_def media_repo_new_def)
  have st: "media_step\<^sup>*\<^sup>* media0 media2" using media_steps_demo(2,3) by (meson rtranclp.simps)
  have "media_reachable media_repo_new" by (simp add: media_reachable_def)
  from media_submission_is_idempotent [OF this media_demo_submission_valid f e st, of "Aware 50" media_demo_submission]
  show ?thesis by (auto simp: demo_job_fields demo_receipt_fields)
qed

section \<open>Ready means proven\<close>

lemma worker_retry_not_succeeded:
  "worker_retry w now j codes r = (Inr res, r') \<Longrightarrow> wr_status res \<noteq> W_SUCCEEDED"
  by (auto simp: worker_retry_def worker_outcome_def split: prod.splits sum.splits media_error.splits if_splits)

lemma worker_complete_succeeded:
  assumes "worker_complete w now j st ws codes tr pf r = (Inr res, r')" and "wr_status res = W_SUCCEEDED"
  shows "ws = W_SUCCEEDED \<and> (\<exists>j'. map_of (mr_jobs r') (mj_site_id j, mj_job_id j) = Some j' \<and> mj_status j' = st
     \<and> mj_transcript_ref j' = tr \<and> mj_artifact_proof j' = pf)"
proof -
  obtain j' where c: "media_complete (mj_site_id j) (mj_job_id j) (mw_worker_id w) (mj_fencing_token j) now st codes tr pf r
      = (Inr j', r')" "ws = W_SUCCEEDED"
    using assms by (auto simp: worker_complete_def worker_outcome_def split: prod.splits sum.splits media_error.splits)
  then show ?thesis
    by (auto simp: media_complete_def Let_def split: sum.splits if_splits)
qed

text \<open>What the bridge and the proof provider vouched for, job kind by job kind.\<close>

definition proven_ready :: "media_worker \<Rightarrow> media_job \<Rightarrow> pipeline_outcome \<Rightarrow> media_job \<Rightarrow> bool" where
  "proven_ready w j out j' = (mj_status j' = M_READY \<and> po_status out = PS_READY \<and>
     (if starts_with (rc_media_type (mj_receipt j)) ''audio/''
      then (\<exists>t p ref. po_transcript out = Some t \<and> tr_site_id t = mj_site_id j
             \<and> tr_source_evidence_ref t = rc_evidence_ref (mj_receipt j)
             \<and> mw_proof_for w j out = Inr (Some p) \<and> map_whisper_model_sha256 p = tr_model_sha256 t
             \<and> mw_publish w t (''media-transcript:'' @ mj_job_id j) = Some ref
             \<and> mj_transcript_ref j' = Some ref \<and> mj_artifact_proof j' = Some p)
      else (\<exists>ref. mw_publish_evidence w (mj_receipt j) (''media-evidence:'' @ mj_job_id j) = Some ref
             \<and> mj_transcript_ref j' = Some ref \<and> mj_artifact_proof j' = None)))"

lemma record_outcome_succeeded:
  assumes "record_outcome w now j out r = (Inr res, r')" and "wr_status res = W_SUCCEEDED"
  shows "\<exists>j'. map_of (mr_jobs r') (mj_site_id j, mj_job_id j) = Some j' \<and> proven_ready w j out j'"
  using assms
  by (auto simp: record_outcome_def record_transcript_def Let_def proven_ready_def
      dest: worker_complete_succeeded worker_retry_not_succeeded
      split: pipeline_status.splits option.splits sum.splits if_splits)

text \<open>
  C14. A cycle reports success only for a medium that was proven: the pipeline said ready, and the job
  is stored ready with the reference the observer returned under the job's own idempotency key; for
  audio, the transcript belongs to the job's site and evidence and the recorded artifact proof names
  the very model that produced it.
\<close>
theorem media_success_is_proven:
  assumes "media_run_once w c r = (Inr res, r')" and "wr_status res = W_SUCCEEDED"
  shows "\<exists>j r1 paths out j'.
     media_claim (mw_site_id w) (mw_worker_id w) (cc_claim c) (mw_lease_duration w) r = (Inr (Some j), r1)
     \<and> mw_resolve w j = Inr paths \<and> mw_pipeline w (media_request j paths) = Inr out
     \<and> map_of (mr_jobs r') (mj_site_id j, mj_job_id j) = Some j' \<and> proven_ready w j out j'"
proof -
  obtain j r1 where cl: "media_claim (mw_site_id w) (mw_worker_id w) (cc_claim c) (mw_lease_duration w) r = (Inr (Some j), r1)"
    and p: "process_claim w c j r1 = (Inr res, r')"
    using assms
    by (auto simp: media_run_once_def worker_outcome_def dest: worker_retry_not_succeeded
        split: if_splits prod.splits sum.splits option.splits worker_exn.splits media_error.splits)
  obtain paths out r2 where "mw_resolve w j = Inr paths" "mw_pipeline w (media_request j paths) = Inr out"
    "record_outcome w (cc_record c) j out r2 = (Inr res, r')"
    using p by (auto simp: process_claim_def and_then_Inr_iff run_with_heartbeats_def
        split: option.splits prod.splits sum.splits)
  then show ?thesis
    using cl record_outcome_succeeded assms(2) by blast
qed

definition demo_worker :: media_worker where
  "demo_worker = \<lparr>mw_site_id = ''site-a'', mw_worker_id = ''w1'', mw_lease_duration = 10, mw_retry_delay = 5,
     mw_enabled = True, mw_resolve = (\<lambda>_. Inr (''/in'', ''/out'')),
     mw_pipeline = (\<lambda>_. Inr \<lparr>po_status = PS_READY, po_reason_codes = [], po_keys = [], po_transcript =
        Some \<lparr>tr_transcript_id = ''t1'', tr_site_id = ''site-a'', tr_source_evidence_ref = ''evidence://s/e'',
              tr_model_provider = ''local'', tr_model_name = ''whisper'', tr_model_version = ''1'',
              tr_model_sha256 = ''m'', tr_language = ''en'', tr_segments = [], tr_generated_at = 4\<rparr>\<rparr>),
     mw_publish_evidence = (\<lambda>_ _. None), mw_publish = (\<lambda>_ _. Some ''observation://t1''),
     mw_proof_for = (\<lambda>_ _. Inr (Some \<lparr>map_ffmpeg_output_sha256 = ''a'', map_ffmpeg_executable_sha256 = ''b'',
        map_whisper_model_sha256 = ''m''\<rparr>))\<rparr>"

definition demo_clock :: cycle_clock where
  "demo_clock = \<lparr>cc_claim = Aware 1, cc_beats = [Aware 3], cc_record = Aware 5, cc_handler = Aware 6\<rparr>"

lemma demo_worker_valid: "media_worker_init demo_worker = Inr demo_worker"
  by (simp add: media_worker_init_def demo_worker_def)

lemma demo_cycle: "\<exists>res r'. media_run_once demo_worker demo_clock media0 = (Inr res, r') \<and> wr_status res = W_SUCCEEDED"
  by (simp add: media_run_once_def demo_clock_def demo_worker_def media0_claim process_claim_def
      run_with_heartbeats_def media_heartbeat_def validate_demo live_lease_def media1_eq leased_job_def
      demo_job_fields demo_receipt_fields put_job_def Let_def record_outcome_def record_transcript_def
      worker_complete_def media_complete_def media_require_aware_def validate_reason_codes_def
      worker_outcome_def starts_with_def)

theorem media_success_is_proven_witness:
  "\<exists>res r' j j' out. media_run_once demo_worker demo_clock media0 = (Inr res, r')
     \<and> map_of (mr_jobs r') (mj_site_id j, mj_job_id j) = Some j' \<and> proven_ready demo_worker j out j'"
proof -
  obtain res r' where e: "media_run_once demo_worker demo_clock media0 = (Inr res, r')" "wr_status res = W_SUCCEEDED"
    using demo_cycle by blast
  then show ?thesis using media_success_is_proven [OF e] by blast
qed

section \<open>Every claim is settled\<close>




end
