(* ===== verification/Action_Guard.thy ===== *)
theory Action_Guard
  imports Agent_Proposals
begin

text \<open>
  The action guard (\<open>services/action_guard/models.py\<close> and \<open>policy.py\<close>): the pure policy decision
  point that every agent proposal passes before the provider runs and after it has answered.
\<close>

section \<open>Data\<close>

datatype evaluation_phase = PRE_TOOL | POST_RESULT

fun evaluation_phase_value :: "evaluation_phase \<Rightarrow> string" where
  "evaluation_phase_value PRE_TOOL = ''pre_tool''"
| "evaluation_phase_value POST_RESULT = ''post_result''"

datatype guard_outcome = ALLOW | REQUIRE_HUMAN | DENY

record action_request =
  aq_request_id :: string
  aq_site_id :: string
  aq_processing_purpose :: string
  aq_action_type :: string
  aq_requested_by :: string
  aq_target_ref :: string
  aq_target_revision :: int
  aq_evidence_refs :: "string list"
  aq_granted_scopes :: "string list"
  aq_correlation_id :: string
  aq_payload :: fields

definition action_request_post_init :: "action_request \<Rightarrow> action_request agent_result" where
  "action_request_post_init q =
     (if aq_target_revision q < 0 then Inl (ValueError ''target_revision must be non-negative'')
      else if length (aq_evidence_refs q) \<noteq> card (set (aq_evidence_refs q))
      then Inl (ValueError ''evidence_refs must be unique'')
      else if length (aq_granted_scopes q) \<noteq> card (set (aq_granted_scopes q))
      then Inl (ValueError ''granted_scopes must be unique'')
      else Inr q)"

record guard_decision =
  gd_guard_decision_id :: string
  gd_request_id :: string
  gd_site_id :: string
  gd_processing_purpose :: string
  gd_action_type :: string
  gd_target_revision :: int
  gd_evaluation_phase :: evaluation_phase
  gd_outcome :: guard_outcome
  gd_policy_version :: string
  gd_reason_codes :: "string list"
  gd_evidence_refs :: "string list"
  gd_evaluated_at :: datetime
  gd_correlation_id :: string

section \<open>The policy tables\<close>

definition guard_policy_version :: string where
  "guard_policy_version = ''action-guard-v1''"

definition read_action_scopes :: "(string \<times> string) list" where
  "read_action_scopes =
     [(''context.evidence.get'', ''gbos-read''), (''context.fact.get'', ''gbos-read''),
      (''context.fact.list'', ''gbos-read''), (''context.decision.get'', ''gbos-read'')]"

definition internal_proposals :: "string list" where
  "internal_proposals = [''internal.ai_draft.propose'', ''internal.fact.propose'',
     ''internal.work_item.propose'', ''internal.review_case.propose'']"

definition human_required_actions :: "string list" where
  "human_required_actions = [''internal.fact.confirm'', ''internal.work_item.transition'',
     ''internal.supplier.select'', ''formal.quotation.publish'', ''external.message.send'', ''deal.won'',
     ''deal.lost'', ''order.create'', ''payment.create'']"

definition forbidden_exact_actions :: "string list" where
  "forbidden_exact_actions = [''internal.record.delete'', ''internal.record.archive'',
     ''direct_database.write'', ''frappe.client.insert'', ''frappe.client.set_value'', ''frappe.client.delete'']"

definition forbidden_result_keys :: "string list" where
  "forbidden_result_keys = [''tool_calls'', ''draft_mutation'', ''approved_command'', ''execution'',
     ''frappe_write'', ''kingdee_mutation'', ''external_send'', ''formal_price'', ''formal_discount'',
     ''payment'', ''delivery_commitment'', ''order'', ''deal_won'', ''deal_lost'', ''selected_supplier'',
     ''official_kpi'']"

section \<open>Decisions\<close>

definition normalized_result_key :: "string \<Rightarrow> string" where
  "normalized_result_key k = key_words (lower (camel_split k))"

definition contains_forbidden_result_key :: "json \<Rightarrow> bool" where
  "contains_forbidden_result_key v =
     json_any (\<lambda>k. normalized_result_key k \<in> set forbidden_result_keys) (\<lambda>_. False) v"

definition classify_request :: "action_request \<Rightarrow> guard_outcome \<times> string list" where
  "classify_request q =
     (if aq_evidence_refs q = [] then (DENY, [''evidence_required''])
      else if starts_with (aq_action_type q) ''kingdee.'' then (DENY, [''forbidden_capability''])
      else if aq_action_type q \<in> set forbidden_exact_actions then (DENY, [''forbidden_capability''])
      else (case map_of read_action_scopes (aq_action_type q) of
          Some required_scope \<Rightarrow>
            if required_scope \<notin> set (aq_granted_scopes q) then (DENY, [''required_scope_missing''])
            else (ALLOW, [''scoped_read''])
        | None \<Rightarrow>
            if aq_action_type q \<in> set internal_proposals
            then (if ''gbos-propose'' \<notin> set (aq_granted_scopes q) then (DENY, [''required_scope_missing''])
                  else (ALLOW, [''scoped_internal_proposal'']))
            else if aq_action_type q \<in> set human_required_actions
            then (if ''gbos-propose'' \<notin> set (aq_granted_scopes q) then (DENY, [''required_scope_missing''])
                  else (REQUIRE_HUMAN, [''human_authorization_required'']))
            else (DENY, [''unknown_action''])))"

definition validate_result :: "action_request \<Rightarrow> fields option \<Rightarrow> guard_outcome \<times> string list" where
  "validate_result q result_payload =
     (case result_payload of
        None \<Rightarrow> (DENY, [''result_required''])
      | Some kvs \<Rightarrow>
          if contains_forbidden_result_key (JObj kvs) then (DENY, [''execution_shape_forbidden''])
          else if \<not> py_eq (jget kvs ''site_id'') (JStr (aq_site_id q)) then (DENY, [''site_mismatch''])
          else if \<not> py_eq (jget kvs ''processing_purpose'') (JStr (aq_processing_purpose q))
          then (DENY, [''purpose_mismatch''])
          else if \<not> py_eq (jget kvs ''target_revision'') (JInt (aq_target_revision q))
          then (DENY, [''target_revision_mismatch''])
          else if jget kvs ''evidence_refs'' \<noteq> JList (map JStr (aq_evidence_refs q))
          then (DENY, [''evidence_mismatch''])
          else (ALLOW, [''post_result_verified'']))"

definition decision_id :: "action_request \<Rightarrow> evaluation_phase \<Rightarrow> fields option \<Rightarrow> string" where
  "decision_id q phase result_payload =
     ''guard-'' @ take 32 (json_digest (JObj
       [(''request_id'', JStr (aq_request_id q)),
        (''site_id'', JStr (aq_site_id q)),
        (''processing_purpose'', JStr (aq_processing_purpose q)),
        (''action_type'', JStr (aq_action_type q)),
        (''target_ref'', JStr (aq_target_ref q)),
        (''target_revision'', JInt (aq_target_revision q)),
        (''evidence_refs'', JTuple (map JStr (aq_evidence_refs q))),
        (''scopes'', JTuple (map JStr (aq_granted_scopes q))),
        (''payload'', JObj (aq_payload q)),
        (''phase'', JStr (evaluation_phase_value phase)),
        (''result'', (case result_payload of None \<Rightarrow> JNull | Some kvs \<Rightarrow> JObj kvs)),
        (''policy_version'', JStr guard_policy_version)]))"

definition guard_evaluate ::
  "action_request \<Rightarrow> datetime \<Rightarrow> evaluation_phase \<Rightarrow> fields option \<Rightarrow> guard_decision" where
  "guard_evaluate q now phase result_payload =
     (let (outcome, reasons) =
        (if phase = POST_RESULT \<and> fst (classify_request q) = ALLOW
         then validate_result q result_payload else classify_request q) in
      \<lparr>gd_guard_decision_id = decision_id q phase result_payload, gd_request_id = aq_request_id q,
       gd_site_id = aq_site_id q, gd_processing_purpose = aq_processing_purpose q,
       gd_action_type = aq_action_type q, gd_target_revision = aq_target_revision q,
       gd_evaluation_phase = phase, gd_outcome = outcome, gd_policy_version = guard_policy_version,
       gd_reason_codes = reasons, gd_evidence_refs = aq_evidence_refs q, gd_evaluated_at = now,
       gd_correlation_id = aq_correlation_id q\<rparr>)"

section \<open>What the guard lets through\<close>

lemma classify_request_allow:
  "fst (classify_request q) = ALLOW \<longleftrightarrow> aq_evidence_refs q \<noteq> [] \<and>
     (aq_action_type q \<in> fst ` set read_action_scopes \<and> ''gbos-read'' \<in> set (aq_granted_scopes q)
      \<or> aq_action_type q \<in> set internal_proposals \<and> ''gbos-propose'' \<in> set (aq_granted_scopes q))"
  by (auto simp: classify_request_def read_action_scopes_def internal_proposals_def
      forbidden_exact_actions_def human_required_actions_def starts_with_def)

lemma guard_evaluate_outcome:
  "gd_outcome (guard_evaluate q now phase res) =
     (if phase = POST_RESULT \<and> fst (classify_request q) = ALLOW then fst (validate_result q res)
      else fst (classify_request q))"
  by (simp add: guard_evaluate_def case_prod_beta Let_def)

lemma validate_result_allow:
  "fst (validate_result q res) = ALLOW \<longleftrightarrow> (\<exists>kvs. res = Some kvs \<and> \<not> contains_forbidden_result_key (JObj kvs)
     \<and> py_eq (jget kvs ''site_id'') (JStr (aq_site_id q))
     \<and> py_eq (jget kvs ''processing_purpose'') (JStr (aq_processing_purpose q))
     \<and> py_eq (jget kvs ''target_revision'') (JInt (aq_target_revision q))
     \<and> jget kvs ''evidence_refs'' = JList (map JStr (aq_evidence_refs q)))"
  by (auto simp: validate_result_def split: option.splits)

text \<open>
  C17. The guard allows an action exactly when it carries evidence and is a read with the read scope or
  one of the four internal proposals with the proposal scope; after the provider has answered, it
  moreover demands a result for the same site, purpose, revision and evidence in which no mapping at
  any depth has an execution-shaped key. Nothing that needs a human, and no Kingdee or database
  capability, is ever allowed.
\<close>
theorem guard_allows_exactly_scoped_proposals:
  "gd_outcome (guard_evaluate q now phase res) = ALLOW \<longleftrightarrow>
     aq_evidence_refs q \<noteq> []
     \<and> (aq_action_type q \<in> {''context.evidence.get'', ''context.fact.get'', ''context.fact.list'', ''context.decision.get''}
            \<and> ''gbos-read'' \<in> set (aq_granted_scopes q)
        \<or> aq_action_type q \<in> {''internal.ai_draft.propose'', ''internal.fact.propose'', ''internal.work_item.propose'',
              ''internal.review_case.propose''} \<and> ''gbos-propose'' \<in> set (aq_granted_scopes q))
     \<and> (phase = PRE_TOOL \<or> (\<exists>kvs. res = Some kvs
          \<and> jget kvs ''site_id'' = JStr (aq_site_id q)
          \<and> jget kvs ''processing_purpose'' = JStr (aq_processing_purpose q)
          \<and> py_eq (jget kvs ''target_revision'') (JInt (aq_target_revision q))
          \<and> jget kvs ''evidence_refs'' = JList (map JStr (aq_evidence_refs q))
          \<and> \<not> key_hit (\<lambda>k. normalized_result_key k \<in> set forbidden_result_keys) (JObj kvs)))"
proof -
  have no_text: "\<not> text_hit (\<lambda>_. False) v" for v
    by (simp add: text_hit_def)
  have keys: "contains_forbidden_result_key v =
      key_hit (\<lambda>k. normalized_result_key k \<in> set forbidden_result_keys) v" for v
    using no_text by (simp add: contains_forbidden_result_key_def json_any_iff)
  have post: "phase = POST_RESULT \<longleftrightarrow> phase \<noteq> PRE_TOOL" by (cases phase) auto
  show ?thesis
    by (auto simp: guard_evaluate_outcome classify_request_allow validate_result_allow keys post
        read_action_scopes_def internal_proposals_def)
qed

end
