(* ===== verification/Agent_Orchestrator.thy ===== *)
theory Agent_Orchestrator
  imports Action_Guard "HOL-Library.Multiset"
begin

text \<open>
  One bounded agent run (\<open>services/agent_runtime/agents.py\<close>): the request is checked against the
  profile of its agent and the known references, the action guard is asked before and after the
  provider, and the answer becomes an action proposal. The model provider is injected: a function of
  the request that returns an output or raises.
\<close>

section \<open>Errors\<close>

text \<open>
  The exception classes the worker tells apart: \<open>AgentExecutionError\<close> and its two subclasses, the
  validation errors of the task models, any other \<open>ValueError\<close>, and the rest.
\<close>

datatype run_error =
    AgentExecutionError string
  | BudgetExceeded string
  | ContextResolutionMismatch string
  | TaskError agent_error
  | OtherError

section \<open>Data\<close>

datatype agent_kind = SALES | PURCHASE | PRODUCT | CEO

fun agent_kind_value :: "agent_kind \<Rightarrow> string" where
  "agent_kind_value SALES = ''sales''"
| "agent_kind_value PURCHASE = ''purchase''"
| "agent_kind_value PRODUCT = ''product''"
| "agent_kind_value CEO = ''ceo''"

definition agent_fact_new :: "string \<Rightarrow> int \<Rightarrow> run_error + string \<times> int" where
  "agent_fact_new fact_id fact_version =
     (if fact_version < 1 then Inl (TaskError (ValueError ''fact_version must be positive''))
      else Inr (fact_id, fact_version))"

record agent_budget =
  ab_max_input_chars :: int
  ab_max_output_chars :: int
  ab_max_steps :: int

definition default_budget :: agent_budget where
  "default_budget = \<lparr>ab_max_input_chars = 12000, ab_max_output_chars = 4000, ab_max_steps = 4\<rparr>"

definition agent_budget_post_init :: "agent_budget \<Rightarrow> run_error + agent_budget" where
  "agent_budget_post_init b =
     (if min (ab_max_input_chars b) (min (ab_max_output_chars b) (ab_max_steps b)) < 1
      then Inl (TaskError (ValueError ''agent budgets must be positive'')) else Inr b)"

record agent_input =
  ai_task_id :: string
  ai_site_id :: string
  ai_processing_purpose :: string
  ai_agent_kind :: agent_kind
  ai_requested_by :: string
  ai_subject_type :: string
  ai_subject_ref :: string
  ai_subject_revision :: int
  ai_evidence_refs :: "string list"
  ai_fact_version_refs :: "(string \<times> int) list"
  ai_decision_ref :: string
  ai_correlation_id :: string
  ai_raw_context :: string
  ai_expected_action_type :: string
  ai_candidate_refs :: "string list"
  ai_requested_tools :: "string list"

definition agent_input_post_init :: "agent_input \<Rightarrow> run_error + agent_input" where
  "agent_input_post_init q =
     (if ai_subject_revision q < 0 then Inl (TaskError (ValueError ''subject_revision must be non-negative''))
      else if length (ai_evidence_refs q) \<noteq> card (set (ai_evidence_refs q))
      then Inl (TaskError (ValueError ''evidence_refs must be unique''))
      else if length (ai_fact_version_refs q) \<noteq> card (set (ai_fact_version_refs q))
      then Inl (TaskError (ValueError ''fact_version_refs must be unique''))
      else if length (ai_requested_tools q) \<noteq> card (set (ai_requested_tools q))
      then Inl (TaskError (ValueError ''requested_tools must be unique''))
      else Inr q)"

text \<open>The confidence is a float, carried as its \<open>repr\<close> text.\<close>

record provider_output =
  pv_action_type :: string
  pv_payload :: fields
  pv_confidence :: string
  pv_injection_detected :: bool
  pv_prompt_version :: string
  pv_network_calls :: int
  pv_model_api_calls :: int
  pv_tool_calls :: int
  pv_invocations :: "model_invocation list"

record model_provider =
  mv_provider_version :: string
  mv_tool_version :: string
  mv_generate :: "agent_input \<Rightarrow> run_error + provider_output"

record agent_execution_result = execution_result +
  xr_pre_guard :: guard_decision
  xr_post_guard :: guard_decision
  xr_provider_version :: string
  xr_tool_version :: string
  xr_prompt_version :: string
  xr_policy_version :: string
  xr_confidence :: string
  xr_injection_detected :: bool
  xr_network_calls :: int
  xr_model_api_calls :: int
  xr_tool_calls :: int
  xr_budget :: agent_budget

record agent_orchestrator =
  ao_provider :: model_provider
  ao_known_evidence_refs :: "string list"
  ao_known_fact_refs :: "(string \<times> int) list"
  ao_known_subject_refs :: "(string \<times> string) list"

section \<open>Checking a request\<close>

fun agent_profile :: "agent_kind \<Rightarrow> string \<times> string \<times> string" where
  "agent_profile SALES = (''sales_follow_up'', ''CRM Deal'', ''internal.work_item.propose'')"
| "agent_profile PURCHASE = (''procurement_coordination'', ''GBOS Sourcing Event'', ''internal.review_case.propose'')"
| "agent_profile PRODUCT = (''product_sample_management'', ''GBOS Sample Feedback'', ''internal.work_item.propose'')"
| "agent_profile CEO = (''metric_reporting'', ''GBOS Synthetic Executive Snapshot'', ''internal.ai_draft.propose'')"

definition validate_request :: "agent_orchestrator \<Rightarrow> agent_input \<Rightarrow> agent_budget \<Rightarrow> run_error + unit" where
  "validate_request orch q b =
     (if ab_max_input_chars b < int (length (ai_raw_context q))
      then Inl (BudgetExceeded ''agent input character budget exceeded'')
      else if ab_max_steps b < 3 then Inl (BudgetExceeded ''agent step budget is insufficient'')
      else if (ai_processing_purpose q, ai_subject_type q, ai_expected_action_type q) \<noteq> agent_profile (ai_agent_kind q)
      then Inl (AgentExecutionError ''agent profile, purpose, subject, or action mismatch'')
      else if ai_requested_tools q \<noteq> []
      then Inl (AgentExecutionError ''Gate 4 deterministic agents do not expose tools'')
      else if ai_evidence_refs q = [] \<or> \<not> set (ai_evidence_refs q) \<subseteq> set (ao_known_evidence_refs orch)
      then Inl (AgentExecutionError ''unknown or missing evidence reference'')
      else if ai_fact_version_refs q = [] \<or> \<not> set (ai_fact_version_refs q) \<subseteq> set (ao_known_fact_refs orch)
      then Inl (AgentExecutionError ''unknown or missing verified fact version'')
      else if (ai_subject_type q, ai_subject_ref q) \<notin> set (ao_known_subject_refs orch)
      then Inl (AgentExecutionError ''unknown subject reference'')
      else if ai_agent_kind q = PURCHASE \<and> length (ai_candidate_refs q) < 2
      then Inl (AgentExecutionError ''purchase comparison requires at least two candidates'')
      else Inr ())"

section \<open>Building the proposal\<close>

fun isoformat_zulu :: "datetime \<Rightarrow> string" where
  "isoformat_zulu (Aware t) = isoformat_z t"
| "isoformat_zulu (Naive t) = isoformat (Naive t)"

definition proposal_identity :: "agent_orchestrator \<Rightarrow> agent_input \<Rightarrow> provider_output \<Rightarrow> json" where
  "proposal_identity orch q out = JObj
     [(''task_id'', JStr (ai_task_id q)),
      (''site_id'', JStr (ai_site_id q)),
      (''agent_kind'', JStr (agent_kind_value (ai_agent_kind q))),
      (''subject_type'', JStr (ai_subject_type q)),
      (''subject_ref'', JStr (ai_subject_ref q)),
      (''subject_revision'', JInt (ai_subject_revision q)),
      (''payload_digest'', JStr (json_digest (JObj (pv_payload out)))),
      (''provider_version'', JStr (mv_provider_version (ao_provider orch))),
      (''prompt_version'', JStr (pv_prompt_version out))]"

definition build_proposal :: "agent_orchestrator \<Rightarrow> agent_input \<Rightarrow> provider_output \<Rightarrow> datetime \<Rightarrow> fields" where
  "build_proposal orch q out now =
     [(''schema_version'', JStr ''1.0''),
      (''action_proposal_id'', JStr (''action-proposal-'' @ take 24 (json_digest (proposal_identity orch q out)))),
      (''site_id'', JStr (ai_site_id q)),
      (''processing_purpose'', JStr (ai_processing_purpose q)),
      (''proposal_version'', JStr ''action-proposal-v1''),
      (''proposal_revision'', JInt 1),
      (''action_type'', JStr (pv_action_type out)),
      (''status'', JStr ''proposed''),
      (''decision_ref'', JStr (ai_decision_ref q)),
      (''fact_version_refs'', JList (map (\<lambda>(i, v). JObj [(''fact_id'', JStr i), (''fact_version'', JInt v)])
         (ai_fact_version_refs q))),
      (''evidence_refs'', JList (map JStr (ai_evidence_refs q))),
      (''requested_by'', JStr (ai_requested_by q)),
      (''target_ref'', JStr (ai_subject_ref q)),
      (''target_revision'', JInt (ai_subject_revision q)),
      (''payload'', JObj (pv_payload out)),
      (''payload_digest'', JStr (json_digest (JObj (pv_payload out)))),
      (''policy_version'', JStr guard_policy_version),
      (''created_at'', JStr (isoformat_zulu now)),
      (''correlation_id'', JStr (ai_correlation_id q))]"

section \<open>The run\<close>

definition guard_request :: "agent_input \<Rightarrow> action_request" where
  "guard_request q =
     \<lparr>aq_request_id = ai_task_id q, aq_site_id = ai_site_id q,
      aq_processing_purpose = ai_processing_purpose q, aq_action_type = ai_expected_action_type q,
      aq_requested_by = ai_requested_by q, aq_target_ref = ai_subject_ref q,
      aq_target_revision = ai_subject_revision q, aq_evidence_refs = ai_evidence_refs q,
      aq_granted_scopes = [''gbos-propose''], aq_correlation_id = ai_correlation_id q,
      aq_payload = [(''subject_type'', JStr (ai_subject_type q))]\<rparr>"

definition result_document :: "agent_input \<Rightarrow> fields \<Rightarrow> fields" where
  "result_document q proposal =
     [(''site_id'', JStr (ai_site_id q)),
      (''processing_purpose'', JStr (ai_processing_purpose q)),
      (''target_revision'', JInt (ai_subject_revision q)),
      (''evidence_refs'', JList (map JStr (ai_evidence_refs q))),
      (''proposal'', JObj proposal)]"

definition accept_output ::
  "agent_orchestrator \<Rightarrow> agent_input \<Rightarrow> datetime \<Rightarrow> agent_budget \<Rightarrow> action_request \<Rightarrow> guard_decision
     \<Rightarrow> provider_output \<Rightarrow> run_error + agent_execution_result" where
  "accept_output orch q now b gq pre out =
     (if pv_tool_calls out \<noteq> 0 then Inl (AgentExecutionError ''provider tools are forbidden'')
      else if pv_action_type out \<noteq> ai_expected_action_type q
      then Inl (AgentExecutionError ''provider attempted an unexpected action type'')
      else (let proposal = build_proposal orch q out now in
        if ab_max_output_chars b < int (length (dumps (JObj proposal)))
        then Inl (BudgetExceeded ''agent output character budget exceeded'')
        else (let post = guard_evaluate gq now POST_RESULT (Some (result_document q proposal)) in
          if gd_outcome post \<noteq> ALLOW
          then Inl (AgentExecutionError ''post-result policy denied the agent proposal'')
          else Inr \<lparr>xr_action_proposal = JObj proposal, xr_invocations = pv_invocations out,
                   xr_pre_guard = pre, xr_post_guard = post,
                   xr_provider_version = mv_provider_version (ao_provider orch),
                   xr_tool_version = mv_tool_version (ao_provider orch),
                   xr_prompt_version = pv_prompt_version out, xr_policy_version = guard_policy_version,
                   xr_confidence = pv_confidence out, xr_injection_detected = pv_injection_detected out,
                   xr_network_calls = pv_network_calls out, xr_model_api_calls = pv_model_api_calls out,
                   xr_tool_calls = pv_tool_calls out, xr_budget = b\<rparr>)))"

definition execute ::
  "agent_orchestrator \<Rightarrow> agent_input \<Rightarrow> datetime \<Rightarrow> agent_budget option \<Rightarrow> run_error + agent_execution_result" where
  "execute orch q now budget =
     (let b = (case budget of None \<Rightarrow> default_budget | Some b \<Rightarrow> b) in
      case validate_request orch q b of
        Inl e \<Rightarrow> Inl e
      | Inr _ \<Rightarrow>
          (case action_request_post_init (guard_request q) of
             Inl e \<Rightarrow> Inl (TaskError e)
           | Inr gq \<Rightarrow>
               (let pre = guard_evaluate gq now PRE_TOOL None in
                if gd_outcome pre \<noteq> ALLOW
                then Inl (AgentExecutionError ''pre-tool policy denied the agent proposal'')
                else (case mv_generate (ao_provider orch) q of
                    Inl e \<Rightarrow> Inl e
                  | Inr out \<Rightarrow> accept_output orch q now b gq pre out))))"

section \<open>What a successful run guarantees\<close>

lemma validate_request_ok:
  "validate_request orch q b = Inr u \<longleftrightarrow>
     int (length (ai_raw_context q)) \<le> ab_max_input_chars b \<and> 3 \<le> ab_max_steps b
     \<and> agent_profile (ai_agent_kind q) = (ai_processing_purpose q, ai_subject_type q, ai_expected_action_type q)
     \<and> ai_requested_tools q = []
     \<and> ai_evidence_refs q \<noteq> [] \<and> set (ai_evidence_refs q) \<subseteq> set (ao_known_evidence_refs orch)
     \<and> ai_fact_version_refs q \<noteq> [] \<and> set (ai_fact_version_refs q) \<subseteq> set (ao_known_fact_refs orch)
     \<and> (ai_subject_type q, ai_subject_ref q) \<in> set (ao_known_subject_refs orch)
     \<and> (ai_agent_kind q = PURCHASE \<longrightarrow> 2 \<le> length (ai_candidate_refs q))"
  by (auto simp: validate_request_def not_less)

lemma execute_ok:
  assumes "execute orch q now budget = Inr res"
  defines "b \<equiv> (case budget of None \<Rightarrow> default_budget | Some b \<Rightarrow> b)"
  obtains out where "validate_request orch q b = Inr ()" and "mv_generate (ao_provider orch) q = Inr out"
    and "action_request_post_init (guard_request q) = Inr (guard_request q)"
    and "gd_outcome (guard_evaluate (guard_request q) now PRE_TOOL None) = ALLOW"
    and "accept_output orch q now b (guard_request q) (guard_evaluate (guard_request q) now PRE_TOOL None) out = Inr res"
proof -
  have gq: "gq = g" if "action_request_post_init g = Inr gq" for g gq
    using that by (auto simp: action_request_post_init_def split: if_splits)
  show thesis
    using assms that
    by (auto simp: execute_def Let_def dest: gq split: sum.splits if_splits)
qed

lemma accept_output_ok:
  assumes "accept_output orch q now b gq pre out = Inr res"
  shows "pv_tool_calls out = 0" and "pv_action_type out = ai_expected_action_type q"
    and "xr_action_proposal res = JObj (build_proposal orch q out now)"
    and "int (length (dumps (xr_action_proposal res))) \<le> ab_max_output_chars b"
    and "xr_pre_guard res = pre" and "gd_outcome (xr_post_guard res) = ALLOW"
    and "xr_post_guard res = guard_evaluate gq now POST_RESULT (Some (result_document q (build_proposal orch q out now)))"
    and "xr_invocations res = pv_invocations out" and "xr_tool_calls res = pv_tool_calls out"
    and "xr_budget res = b"
  using assms by (auto simp: accept_output_def Let_def not_less split: if_splits)

text \<open>The proposal sits inside the document the guard inspected.\<close>

lemma proposal_part: "json_part (JObj (result_document q p)) (JObj p)"
  by (rule part_field [of "''proposal''" "JObj p"]) (simp_all add: result_document_def part_refl)

lemma key_hit_part: "json_part v w \<Longrightarrow> key_hit kp w \<Longrightarrow> key_hit kp v"
  using json_any_iff [where sp = "\<lambda>_. False"] json_part_json_any [where sp = "\<lambda>_. False"]
  by (auto simp: text_hit_def)

lemma post_guard_clean:
  assumes "gd_outcome (guard_evaluate q now POST_RESULT (Some kvs)) = ALLOW"
  shows "\<not> key_hit (\<lambda>k. normalized_result_key k \<in> set forbidden_result_keys) (JObj kvs)"
  using assms json_any_sound
  by (auto simp: guard_evaluate_outcome validate_result_allow contains_forbidden_result_key_def json_any_iff
      split: if_splits)

text \<open>
  C18. A run that produces a proposal stayed within its bounds: the context fitted the input budget and
  the canonical proposal the output budget, no tool was requested and the model provider's answer
  reports no tool call, every evidence and fact reference and the subject were known, purpose, subject
  type and action are those of the agent's profile, the guard allowed both phases, the proposal carries
  the payload of that answer and is a proposal of exactly the expected action on exactly that subject
  revision and evidence, and no mapping inside it has an execution-shaped key.
\<close>
theorem agent_run_is_bounded:
  assumes "execute orch q now budget = Inr res"
  shows "\<exists>doc b out. xr_action_proposal res = JObj doc
     \<and> mv_generate (ao_provider orch) q = Inr out
     \<and> pv_tool_calls out = 0 \<and> xr_tool_calls res = 0 \<and> xr_invocations res = pv_invocations out
     \<and> pv_action_type out = ai_expected_action_type q
     \<and> jget doc ''payload'' = JObj (pv_payload out)
     \<and> xr_budget res = b
     \<and> b = (case budget of None \<Rightarrow> default_budget | Some x \<Rightarrow> x)
     \<and> int (length (ai_raw_context q)) \<le> ab_max_input_chars b
     \<and> int (length (dumps (JObj doc))) \<le> ab_max_output_chars b
     \<and> ai_requested_tools q = []
     \<and> set (ai_evidence_refs q) \<subseteq> set (ao_known_evidence_refs orch)
     \<and> set (ai_fact_version_refs q) \<subseteq> set (ao_known_fact_refs orch)
     \<and> (ai_subject_type q, ai_subject_ref q) \<in> set (ao_known_subject_refs orch)
     \<and> agent_profile (ai_agent_kind q) = (ai_processing_purpose q, ai_subject_type q, ai_expected_action_type q)
     \<and> gd_outcome (xr_pre_guard res) = ALLOW \<and> gd_outcome (xr_post_guard res) = ALLOW
     \<and> jget doc ''action_type'' = JStr (ai_expected_action_type q)
     \<and> jget doc ''status'' = JStr ''proposed''
     \<and> jget doc ''target_ref'' = JStr (ai_subject_ref q)
     \<and> jget doc ''target_revision'' = JInt (ai_subject_revision q)
     \<and> jget doc ''evidence_refs'' = JList (map JStr (ai_evidence_refs q))
     \<and> \<not> key_hit (\<lambda>k. normalized_result_key k \<in> set forbidden_result_keys) (JObj doc)"
proof -
  let ?b = "case budget of None \<Rightarrow> default_budget | Some b \<Rightarrow> b"
  obtain out where out: "validate_request orch q ?b = Inr ()"
    "gd_outcome (guard_evaluate (guard_request q) now PRE_TOOL None) = ALLOW"
    "accept_output orch q now ?b (guard_request q) (guard_evaluate (guard_request q) now PRE_TOOL None) out = Inr res"
    "mv_generate (ao_provider orch) q = Inr out"
    using execute_ok [OF assms] by metis
  note acc = accept_output_ok [OF out(3)]
  let ?doc = "build_proposal orch q out now"
  have "\<not> key_hit (\<lambda>k. normalized_result_key k \<in> set forbidden_result_keys) (JObj ?doc)"
    using post_guard_clean acc(6,7) key_hit_part [OF proposal_part] by metis
  moreover have "jget ?doc ''action_type'' = JStr (ai_expected_action_type q)"
    "jget ?doc ''status'' = JStr ''proposed''" "jget ?doc ''target_ref'' = JStr (ai_subject_ref q)"
    "jget ?doc ''target_revision'' = JInt (ai_subject_revision q)"
    "jget ?doc ''evidence_refs'' = JList (map JStr (ai_evidence_refs q))"
    "jget ?doc ''payload'' = JObj (pv_payload out)"
    using acc(2) by (simp_all add: build_proposal_def)
  ultimately show ?thesis
    using out(1,2,4) acc(1-6) acc(8-10)
    by (intro exI [of _ ?doc] exI [of _ ?b] exI [of _ out]) (simp add: validate_request_ok)
qed

definition demo_agent_input :: agent_input where
  "demo_agent_input = \<lparr>ai_task_id = ''t'', ai_site_id = ''s'', ai_processing_purpose = ''sales_follow_up'',
     ai_agent_kind = SALES, ai_requested_by = ''u'', ai_subject_type = ''CRM Deal'', ai_subject_ref = ''d1'',
     ai_subject_revision = 2, ai_evidence_refs = [''e1''], ai_fact_version_refs = [(''f1'', 1)],
     ai_decision_ref = ''dec'', ai_correlation_id = ''c'', ai_raw_context = ''text'',
     ai_expected_action_type = ''internal.work_item.propose'', ai_candidate_refs = [], ai_requested_tools = []\<rparr>"

definition demo_output :: provider_output where
  "demo_output = \<lparr>pv_action_type = ''internal.work_item.propose'', pv_payload = [(''title'', JStr ''call back'')],
     pv_confidence = ''0.82'', pv_injection_detected = False, pv_prompt_version = ''p1'', pv_network_calls = 0,
     pv_model_api_calls = 0, pv_tool_calls = 0, pv_invocations = []\<rparr>"

definition demo_orchestrator :: agent_orchestrator where
  "demo_orchestrator = \<lparr>ao_provider = \<lparr>mv_provider_version = ''v1'', mv_tool_version = ''none'',
       mv_generate = (\<lambda>_. Inr demo_output)\<rparr>,
     ao_known_evidence_refs = [''e1''], ao_known_fact_refs = [(''f1'', 1)],
     ao_known_subject_refs = [(''CRM Deal'', ''d1'')]\<rparr>"

text \<open>An upper bound on the size of a canonical document that needs no digest to be computed.\<close>

fun dump_bound :: "json \<Rightarrow> nat"
  and dump_bound_items :: "json list \<Rightarrow> nat"
  and dump_bound_fields :: "fields \<Rightarrow> nat" where
  "dump_bound (JStr s) = 6 * length s + 2"
| "dump_bound (JInt i) = length (int_text i)"
| "dump_bound (JFloat f) = length f"
| "dump_bound (JList xs) = 2 + dump_bound_items xs"
| "dump_bound (JTuple xs) = 2 + dump_bound_items xs"
| "dump_bound (JObj kvs) = 2 + dump_bound_fields kvs"
| "dump_bound _ = 5"
| "dump_bound_items [] = 0"
| "dump_bound_items (x # xs) = dump_bound x + 1 + dump_bound_items xs"
| "dump_bound_fields [] = 0"
| "dump_bound_fields ((k, v) # kvs) = 6 * length k + 4 + dump_bound v + dump_bound_fields kvs"

lemma length_quote_text: "length (quote_text t) \<le> 6 * length t + 2"
proof -
  have "length (quote_char c) \<le> 6" for c by (simp add: quote_char_def Let_def)
  then have "length (concat (map quote_char t)) \<le> 6 * length t"
    by (induction t) (auto simp: add_mono)
  then show ?thesis by (simp add: quote_text_def)
qed

lemma length_join: "length (join sep xs) \<le> sum_list (map (\<lambda>x. length x + length sep) xs)"
  by (induction sep xs rule: join.induct) auto

lemma sum_sorted: "sum_list (map f (sort_key g xs)) = (sum_list (map f xs) :: nat)"
  by (metis mset_map mset_sort sum_mset_sum_list)

lemma length_dumps:
  "length (dumps v) \<le> dump_bound v"
  "sum_list (map (\<lambda>x. length x + 1) (dumps_items xs)) \<le> dump_bound_items xs"
  "sum_list (map (\<lambda>(k, t). length (quote_text k @ '':'' @ t) + 1) (dumps_fields kvs)) \<le> dump_bound_fields kvs"
proof (induction v and xs and kvs rule: dumps_dumps_items_dumps_fields.induct)
  case (6 xs)
  then show ?case using length_join [of "'',''" "dumps_items xs"] by simp
next
  case (7 xs)
  then show ?case using length_join [of "'',''" "dumps_items xs"] by simp
next
  case (8 kvs)
  let ?f = "\<lambda>(k, t). quote_text k @ '':'' @ t"
  have "sum_list (map (\<lambda>x. length x + length '','') (map ?f (sort_key fst (dumps_fields kvs))))
      = sum_list (map (\<lambda>(k, t). length (quote_text k @ '':'' @ t) + 1) (dumps_fields kvs))"
    by (simp add: sum_sorted comp_def case_prod_unfold)
  then show ?case using 8 length_join [of "'',''" "map ?f (sort_key fst (dumps_fields kvs))"] by simp
next
  case (12 k v kvs)
  then show ?case using length_quote_text [of k] by simp
qed (use length_quote_text in auto)

lemma demo_keys_allowed:
  "list_all (\<lambda>k. normalized_result_key k \<notin> set forbidden_result_keys)
     ([''proposal'', ''site_id'', ''processing_purpose'', ''target_revision'', ''evidence_refs'', ''schema_version'',
       ''action_proposal_id'', ''proposal_version'', ''proposal_revision'', ''action_type'', ''status'',
       ''decision_ref'', ''fact_version_refs''] @ [''fact_id'', ''fact_version'', ''requested_by'', ''target_ref'',
       ''payload'', ''payload_digest'', ''policy_version'', ''created_at'', ''correlation_id'', ''title''])"
  by code_simp

lemma demo_clean:
  "\<not> contains_forbidden_result_key
     (JObj (result_document demo_agent_input (build_proposal demo_orchestrator demo_agent_input demo_output (Aware 0))))"
  using demo_keys_allowed
  by (simp add: contains_forbidden_result_key_def result_document_def build_proposal_def demo_agent_input_def
      demo_output_def)

lemma demo_output_size:
  "length (dumps (JObj (build_proposal demo_orchestrator demo_agent_input demo_output (Aware 0)))) \<le> 4000"
proof -
  have z: "length (isoformat_z 0) = 20" "length (int_text 1) = 1" "length (int_text 2) = 1" by code_simp+
  have "dump_bound (JObj (build_proposal demo_orchestrator demo_agent_input demo_output (Aware 0))) \<le> 4000"
    by (simp add: build_proposal_def demo_agent_input_def demo_output_def guard_policy_version_def z)
  then show ?thesis using length_dumps(1) le_trans by blast
qed

lemma execute_accepts:
  assumes "validate_request orch q default_budget = Inr ()"
    and "action_request_post_init (guard_request q) = Inr (guard_request q)"
    and "fst (classify_request (guard_request q)) = ALLOW"
    and "mv_generate (ao_provider orch) q = Inr out" and "pv_tool_calls out = 0"
    and "pv_action_type out = ai_expected_action_type q"
    and "length (dumps (JObj (build_proposal orch q out now))) \<le> 4000"
    and "\<not> contains_forbidden_result_key (JObj (result_document q (build_proposal orch q out now)))"
  shows "\<exists>res. execute orch q now None = Inr res"
proof -
  have "gd_outcome (guard_evaluate (guard_request q) now POST_RESULT
      (Some (result_document q (build_proposal orch q out now)))) = ALLOW"
    using assms(3,8)
    by (simp add: guard_evaluate_outcome validate_result_allow) (simp add: result_document_def guard_request_def)
  then show ?thesis
    using assms
    by (simp add: execute_def accept_output_def Let_def guard_evaluate_outcome default_budget_def)
qed

lemma demo_run: "\<exists>res. execute demo_orchestrator demo_agent_input (Aware 0) None = Inr res"
proof (rule execute_accepts)
  let ?q = demo_agent_input and ?o = demo_orchestrator
  show "validate_request ?o ?q default_budget = Inr ()"
    by (simp add: validate_request_def default_budget_def demo_agent_input_def demo_orchestrator_def)
  show "action_request_post_init (guard_request ?q) = Inr (guard_request ?q)"
    by (simp add: action_request_post_init_def guard_request_def demo_agent_input_def)
  show "fst (classify_request (guard_request ?q)) = ALLOW"
    by (simp add: classify_request_allow guard_request_def demo_agent_input_def internal_proposals_def)
  show "mv_generate (ao_provider ?o) ?q = Inr demo_output" by (simp add: demo_orchestrator_def)
qed (rule demo_output_size demo_clean | simp add: demo_output_def demo_agent_input_def)+

theorem agent_run_is_bounded_witness:
  "\<exists>res doc. execute demo_orchestrator demo_agent_input (Aware 0) None = Inr res \<and> xr_tool_calls res = 0
     \<and> xr_action_proposal res = JObj doc \<and> jget doc ''target_revision'' = JInt 2
     \<and> int (length (dumps (JObj doc))) \<le> 4000"
proof -
  obtain res where res: "execute demo_orchestrator demo_agent_input (Aware 0) None = Inr res"
    using demo_run by blast
  obtain doc where "xr_action_proposal res = JObj doc"
    "jget doc ''target_revision'' = JInt (ai_subject_revision demo_agent_input)"
    "int (length (dumps (JObj doc))) \<le> ab_max_output_chars default_budget" "xr_tool_calls res = 0"
    using agent_run_is_bounded [OF res] by auto
  then show ?thesis
    using res by (auto simp: demo_agent_input_def default_budget_def)
qed

end
