(* ===== verification/Agent_Worker.thy ===== *)
theory Agent_Worker
  imports Agent_Orchestrator Agent_Task_Runs
begin

text \<open>
  The agent worker (\<open>services/agent_runtime/worker.py\<close>): one cycle claims a task, resolves its context,
  runs the agent while renewing the lease, and completes the task with its proposal or reports a
  classified failure. Resolver and executor are injected functions that may raise; the readings of the
  clock are part of the input of a cycle.
\<close>

declare split_paired_All [simp del] split_paired_Ex [simp del]

section \<open>Data\<close>

record resolution_request =
  rr_site_id :: string
  rr_task_id :: string
  rr_subject_type :: string
  rr_subject_ref :: string
  rr_evidence_refs :: "string list"
  rr_fact_version_refs :: "fact_version_ref list"

record resolved_context =
  rx_site_id :: string
  rx_subject_type :: string
  rx_subject_ref :: string
  rx_evidence_refs :: "string list"
  rx_fact_version_refs :: "fact_version_ref list"
  rx_raw_context :: string

datatype agent_run_status = A_IDLE | A_SUCCEEDED | A_FAILED | A_LEASE_LOST

record agent_run_result =
  ares_status :: agent_run_status
  ares_task_id :: "string option"
  ares_attempt :: "int option"

record agent_worker =
  aw_site_id :: string
  aw_worker_id :: string
  aw_resolve :: "resolution_request \<Rightarrow> run_error + resolved_context"
  aw_execute :: "agent_input \<Rightarrow> datetime \<Rightarrow> run_error + execution_result"
  aw_lease_duration :: int
  aw_retry_delay :: int

definition agent_worker_init :: "agent_worker \<Rightarrow> run_error + agent_worker" where
  "agent_worker_init w =
     (if aw_lease_duration w \<le> 0 \<or> aw_retry_delay w \<le> 0
      then Inl (TaskError (ValueError ''worker lease and retry durations must be positive''))
      else Inr w)"

text \<open>The clock readings of one cycle; a failure reads the clock twice.\<close>

record agent_clock =
  ac_claim :: datetime
  ac_execute :: datetime
  ac_beats :: "datetime list"
  ac_complete :: datetime
  ac_fail :: datetime
  ac_retry_base :: datetime

section \<open>Preparing the run\<close>

definition agent_kind_from_task_type :: "string \<Rightarrow> run_error + agent_kind" where
  "agent_kind_from_task_type t =
     (case map_of [(''sales'', SALES), (''purchase'', PURCHASE), (''product_sample'', PRODUCT), (''ceo'', CEO)] t of
        Some k \<Rightarrow> Inr k
      | None \<Rightarrow> Inl (AgentExecutionError ''unsupported agent task type''))"

definition validate_context :: "resolution_request \<Rightarrow> resolved_context \<Rightarrow> run_error + unit" where
  "validate_context q c =
     (if rx_site_id c \<noteq> rr_site_id q \<or> rx_subject_type c \<noteq> rr_subject_type q
         \<or> rx_subject_ref c \<noteq> rr_subject_ref q \<or> rx_evidence_refs c \<noteq> rr_evidence_refs q
         \<or> rx_fact_version_refs c \<noteq> rr_fact_version_refs q
      then Inl (ContextResolutionMismatch ''resolver returned mismatched task context'') else Inr ())"

definition classify_failure :: "run_error \<Rightarrow> failure_classification" where
  "classify_failure e =
     (let policy = (\<lambda>m. contains_text (lower m) ''policy'') in
      case e of
        BudgetExceeded _ \<Rightarrow> BUDGET_EXHAUSTED
      | ContextResolutionMismatch _ \<Rightarrow> INVALID_OUTPUT
      | TaskError (ValueError m) \<Rightarrow> if policy m then POLICY_DENIED else INTERNAL
      | TaskError KeyError \<Rightarrow> INTERNAL
      | TaskError TypeError \<Rightarrow> INTERNAL
      | TaskError _ \<Rightarrow> INVALID_OUTPUT
      | AgentExecutionError m \<Rightarrow> if policy m then POLICY_DENIED else INVALID_OUTPUT
      | OtherError \<Rightarrow> INTERNAL)"

definition resolution_of :: "agent_task_claim \<Rightarrow> resolution_request" where
  "resolution_of c =
     \<lparr>rr_site_id = tk_site_id (cl_metadata c), rr_task_id = tk_task_id (cl_metadata c),
      rr_subject_type = tk_subject_type (cl_metadata c), rr_subject_ref = tk_subject_ref (cl_metadata c),
      rr_evidence_refs = pl_evidence_refs (cl_payload c),
      rr_fact_version_refs = pl_fact_version_refs (cl_payload c)\<rparr>"

definition prepare_input :: "agent_worker \<Rightarrow> agent_task_claim \<Rightarrow> run_error + agent_input" where
  "prepare_input w c =
     (let t = cl_metadata c; p = cl_payload c; q = resolution_of c in
      case aw_resolve w q of
        Inl e \<Rightarrow> Inl e
      | Inr context \<Rightarrow>
     (case validate_context q context of
        Inl e \<Rightarrow> Inl e
      | Inr _ \<Rightarrow>
     (case agent_kind_from_task_type (tk_agent_type t) of
        Inl e \<Rightarrow> Inl e
      | Inr kind \<Rightarrow>
     (case map_raise (\<lambda>f. agent_fact_new (fr_fact_id f) (fr_fact_version f)) (pl_fact_version_refs p) of
        Inl e \<Rightarrow> Inl e
      | Inr facts \<Rightarrow> agent_input_post_init
          \<lparr>ai_task_id = tk_task_id t, ai_site_id = tk_site_id t,
           ai_processing_purpose = tk_processing_purpose t, ai_agent_kind = kind,
           ai_requested_by = pl_requested_by p, ai_subject_type = tk_subject_type t,
           ai_subject_ref = tk_subject_ref t, ai_subject_revision = pl_subject_revision p,
           ai_evidence_refs = pl_evidence_refs p, ai_fact_version_refs = facts,
           ai_decision_ref = pl_decision_ref p, ai_correlation_id = tk_correlation_id t,
           ai_raw_context = rx_raw_context context, ai_expected_action_type = pl_expected_action_type p,
           ai_candidate_refs = pl_candidate_refs p, ai_requested_tools = []\<rparr>))))"

section \<open>One cycle\<close>

type_synonym 'a agent_run = "(run_error, 'a, agent_repo) call"

definition task_result :: "agent_run_status \<Rightarrow> agent_task \<Rightarrow> agent_run_result" where
  "task_result s t = \<lparr>ares_status = s, ares_task_id = Some (tk_task_id t), ares_attempt = Some (tk_attempt t)\<rparr>"

text \<open>\<open>ThreadedHeartbeatRunner.run\<close>: renewals stop at the first that raises; the work's own exception
  comes first.\<close>

definition run_renewing ::
  "agent_worker \<Rightarrow> datetime list \<Rightarrow> agent_task \<Rightarrow> run_error + execution_result \<Rightarrow> agent_repo
     \<Rightarrow> execution_result agent_run" where
  "run_renewing w beats t work r =
     (case call_each (\<lambda>now. heartbeat (tk_site_id t) (tk_task_id t) (aw_worker_id w) (tk_attempt t) now
              (aw_lease_duration w)) beats r of
        (res, r') \<Rightarrow>
          (case work of
             Inl e \<Rightarrow> (Inl e, r')
           | Inr x \<Rightarrow> (case res of Inl e \<Rightarrow> (Inl (TaskError e), r') | Inr _ \<Rightarrow> (Inr x, r'))))"

definition process_task :: "agent_worker \<Rightarrow> agent_clock \<Rightarrow> agent_task_claim \<Rightarrow> agent_repo \<Rightarrow> agent_task agent_run" where
  "process_task w k c r =
     (let t = cl_metadata c in
      case prepare_input w c of
        Inl e \<Rightarrow> (Inl e, r)
      | Inr q \<Rightarrow>
          and_then (run_renewing w (ac_beats k) t (aw_execute w q (ac_execute k)) r) (\<lambda>x r1.
            case complete_with_proposal (tk_site_id t) (tk_task_id t) (aw_worker_id w) (tk_attempt t)
                   (ac_complete k) x r1 of
              (Inl e, r2) \<Rightarrow> (Inl (TaskError e), r2)
            | (Inr t', r2) \<Rightarrow> (Inr t', r2)))"

text \<open>The exceptions of the second handler: \<open>AgentExecutionError\<close> and every \<open>ValueError\<close>.\<close>

fun handled :: "run_error \<Rightarrow> bool" where
  "handled (TaskError KeyError) = False"
| "handled (TaskError TypeError) = False"
| "handled OtherError = False"
| "handled _ = True"

fun is_lease_conflict :: "run_error \<Rightarrow> bool" where
  "is_lease_conflict (TaskError (LeaseConflict _)) = True"
| "is_lease_conflict _ = False"

definition report_failure ::
  "agent_worker \<Rightarrow> agent_clock \<Rightarrow> agent_task \<Rightarrow> run_error \<Rightarrow> agent_repo \<Rightarrow> agent_run_result agent_run" where
  "report_failure w k t e r =
     (case fail_task (tk_site_id t) (tk_task_id t) (aw_worker_id w) (tk_attempt t) (ac_fail k)
            (shift_time (ac_retry_base k) (aw_retry_delay w)) (classify_failure e) r of
        (Inl (LeaseConflict _), r') \<Rightarrow> (Inr (task_result A_LEASE_LOST t), r')
      | (Inl e', r') \<Rightarrow> (Inl (TaskError e'), r')
      | (Inr _, r') \<Rightarrow> (Inr (task_result A_FAILED t), r'))"

definition agent_run_once :: "agent_worker \<Rightarrow> agent_clock \<Rightarrow> agent_repo \<Rightarrow> agent_run_result agent_run" where
  "agent_run_once w k r =
     (case claim_for_execution (aw_site_id w) (aw_worker_id w) (ac_claim k) (aw_lease_duration w) r of
        (Inl e, r1) \<Rightarrow> (Inl (TaskError e), r1)
      | (Inr None, r1) \<Rightarrow> (Inr \<lparr>ares_status = A_IDLE, ares_task_id = None, ares_attempt = None\<rparr>, r1)
      | (Inr (Some c), r1) \<Rightarrow>
          (case process_task w k c r1 of
             (Inr _, r2) \<Rightarrow> (Inr (task_result A_SUCCEEDED (cl_metadata c)), r2)
           | (Inl e, r2) \<Rightarrow>
               if is_lease_conflict e then (Inr (task_result A_LEASE_LOST (cl_metadata c)), r2)
               else if handled e then report_failure w k (cl_metadata c) e r2
               else (Inl e, r2)))"

section \<open>Errors of a completion\<close>

text \<open>
  Every way a completion can fail under a live lease is a \<open>ValueError\<close> other than a lease conflict, so
  the worker's second handler sees it.
\<close>

fun soft_error :: "agent_error \<Rightarrow> bool" where
  "soft_error KeyError = False"
| "soft_error TypeError = False"
| "soft_error (LeaseConflict _) = False"
| "soft_error _ = True"

lemma soft_handled: "soft_error e \<Longrightarrow> handled (TaskError e) \<and> \<not> is_lease_conflict (TaskError e)"
  by (cases e) auto

lemma soft_map_raise: "map_raise f xs = Inl e \<Longrightarrow> (\<And>x e. f x = Inl e \<Longrightarrow> soft_error e) \<Longrightarrow> soft_error e"
  by (induction xs) (auto split: sum.splits)

lemma soft_reject:
  "reject_unsafe_content v = Inl e \<Longrightarrow> soft_error e"
  "reject_unsafe_items xs = Inl e \<Longrightarrow> soft_error e"
  "reject_unsafe_fields kvs = Inl e \<Longrightarrow> soft_error e"
  by (induction v and xs and kvs rule: reject_unsafe_content_reject_unsafe_items_reject_unsafe_fields.induct)
    (auto split: if_splits sum.splits)

lemma soft_proposal_post_init: "proposal_post_init p = Inl e \<Longrightarrow> soft_error e"
  by (auto simp: proposal_post_init_def Let_def dest: soft_reject split: if_splits sum.splits)

lemma soft_parse_fact: "parse_proposal_fact v = Inl e \<Longrightarrow> soft_error e"
  by (cases v) (auto split: if_splits)

lemma soft_proposal: "proposal_from_execution t x = Inl e \<Longrightarrow> soft_error e"
  unfolding proposal_from_execution_def Let_def
  by (auto dest: soft_proposal_post_init soft_map_raise [OF _ soft_parse_fact]
      split: if_splits sum.splits option.splits)

lemma soft_invocations: "call_each (append_task_invocation t p) ms r = (Inl e, r') \<Longrightarrow> soft_error e"
proof (induction ms arbitrary: r)
  case (Cons m ms)
  show ?case
  proof (cases "append_task_invocation t p m r")
    case (Pair res r1)
    then show ?thesis
      using Cons by (cases res) (auto simp: append_task_invocation_def Let_def split: if_splits option.splits)
  qed
qed simp

lemma soft_append_proposal: "append_proposal p r = (Inl e, r') \<Longrightarrow> soft_error e"
  by (auto simp: append_proposal_def Let_def split: if_splits option.splits)

lemma soft_replay: "replay_completion k t p q x r = Inl e \<Longrightarrow> soft_error e"
proof -
  have "soft_error e" if "check_all f xs = Inl e" "\<And>x e. f x = Inl e \<Longrightarrow> soft_error e" for f :: "model_invocation \<Rightarrow> _" and xs e
    using that by (induction xs) (auto split: sum.splits)
  then show "replay_completion k t p q x r = Inl e \<Longrightarrow> soft_error e"
    by (fastforce simp: replay_completion_def validate_replayed_invocations_def split: if_splits sum.splits)
qed

lemma soft_completion_body:
  assumes "repo_inv r" and "map_of (ar_tasks r) (task_key t) = Some t"
    and "completion_body k t p w now x r = (Inl e, r')"
  shows "soft_error e"
proof -
  obtain m where m: "materialization_from_proposal p now = Inr m" using materialization_from_proposal_ok [of p now] by blast
  obtain es where es: "map_of (ar_timeline r) (task_key t) = Some es"
    using assms(1,2) tasks_invD(5) [of r "task_key t"] by (auto simp: repo_inv_def)
  show ?thesis
  proof (cases "call_each (append_task_invocation t p) (xr_invocations x) r")
    case (Pair res r1)
    show ?thesis
    proof (cases res)
      case (Inl e1)
      then show ?thesis using assms(3) Pair soft_invocations [of t p "xr_invocations x" r e1 r1] by (simp add: completion_body_def)
    next
      case (Inr u)
      then have o: "ar_timeline r1 = ar_timeline r"
        using append_invocations_only [of t p "xr_invocations x" r u r1] Pair by (simp add: only_invocations_def)
      show ?thesis
      proof (cases "append_proposal p r1")
        case (Pair res2 r2)
        show ?thesis
        proof (cases res2)
          case (Inl e2)
          then show ?thesis
            using assms(3) Pair Inr \<open>call_each _ _ r = (res, r1)\<close> soft_append_proposal [of p r1 e2 r2]
            by (simp add: completion_body_def)
        next
          case (Inr v)
          then have "ar_timeline r2 = ar_timeline r"
            using Pair o by (auto simp: append_proposal_def Let_def split: if_splits option.splits)
          then show ?thesis
            using assms(3) Pair Inr \<open>call_each _ _ r = (res, r1)\<close> \<open>res = Inr u\<close> m es
            by (simp add: completion_body_def append_event_def store_task_def complete_task_def task_key_def Let_def)
        qed
      qed
    qed
  qed
qed

section \<open>A held task\<close>

definition holds_task :: "agent_worker \<Rightarrow> agent_task \<Rightarrow> instant \<Rightarrow> agent_repo \<Rightarrow> bool" where
  "holds_task w t until r = (repo_inv r \<and> (\<exists>t' e. map_of (ar_tasks r) (tk_site_id t, tk_task_id t) = Some t'
     \<and> tk_status t' = RUNNING \<and> tk_lease_owner t' = Some (aw_worker_id w) \<and> tk_attempt t' = tk_attempt t
     \<and> tk_lease_expires_at t' = Some e \<and> until \<le> e))"

definition within :: "instant \<Rightarrow> instant \<Rightarrow> datetime \<Rightarrow> bool" where
  "within from until now = (is_aware now \<and> from \<le> instant_of now \<and> instant_of now < until)"

lemma holds_task_live:
  assumes "holds_task w t until r" and "instant_of now < until"
  obtains t' where "require_live_lease (tk_site_id t) (tk_task_id t) (aw_worker_id w) (tk_attempt t) (instant_of now) r = Inr t'"
    and "tk_status t' = RUNNING" and "repo_inv r"
  using assms by (fastforce simp: holds_task_def require_live_lease_iff lease_active_def)

lemma claim_holds_task:
  assumes "repo_inv r" and "claim_for_execution site wid (Aware at) d r = (Inr (Some c), r1)"
    and "aw_worker_id w = wid"
  shows "holds_task w (cl_metadata c) (at + d) r1"
  using claim_for_execution_outcome [OF assms(1), of site wid "Aware at" d]
proof (elim disjE exE conjE)
  fix r0 t p r'
  assume t: "t \<in> set (claim_candidates site (instant_of (Aware at)) r0)" and s: "sound_step site r r'"
    and c: "claim_for_execution site wid (Aware at) d r =
      (Inr (Some \<lparr>cl_metadata = take_lease RUNNING wid (instant_of (Aware at)) d t, cl_payload = p\<rparr>), r')"
    and ts: "ar_tasks r' = AList.update (task_key t) (take_lease RUNNING wid (instant_of (Aware at)) d t) (ar_tasks r0)"
  have "repo_inv r'" using s assms(1) by (simp add: sound_step_def)
  then show ?thesis
    using c ts assms(2,3) by (auto simp: holds_task_def take_lease_def task_key_def)
qed (use assms in auto)

lemma claim_running:
  assumes "repo_inv r" and "claim_for_execution site wid now d r = (Inr (Some c), r1)"
  shows "repo_inv r1 \<and> (\<exists>t. map_of (ar_tasks r1) (tk_site_id (cl_metadata c), tk_task_id (cl_metadata c)) = Some t
     \<and> tk_status t = RUNNING)"
  using claim_for_execution_outcome [OF assms(1), of site wid now d] assms
  by (elim disjE exE conjE) (auto simp: sound_step_def take_lease_def task_key_def)

lemma heartbeat_keeps_task:
  assumes "holds_task w t (from + aw_lease_duration w) r" and "within from (from + aw_lease_duration w) now"
    and "agent_worker_init w0 = Inr w"
  shows "\<exists>t' r'. heartbeat (tk_site_id t) (tk_task_id t) (aw_worker_id w) (tk_attempt t) now (aw_lease_duration w) r
      = (Inr t', r') \<and> holds_task w t (from + aw_lease_duration w) r'"
proof -
  obtain t' where l: "require_live_lease (tk_site_id t) (tk_task_id t) (aw_worker_id w) (tk_attempt t) (instant_of now) r = Inr t'"
    "tk_status t' = RUNNING" "repo_inv r"
    using holds_task_live [OF assms(1), of now] assms(2) by (auto simp: within_def)
  define u where "u = t'\<lparr>tk_lease_expires_at := Some (instant_of now + aw_lease_duration w), tk_updated_at := instant_of now\<rparr>"
  have h: "heartbeat (tk_site_id t) (tk_task_id t) (aw_worker_id w) (tk_attempt t) now (aw_lease_duration w) r = (Inr u, store_task u r)"
    using l(1) assms(2,3)
    by (auto simp: heartbeat_def u_def require_aware_def within_def agent_worker_init_def Let_def split: if_splits)
  have "repo_inv (store_task u r)"
    using lease_call_sound [OF heartbeat_lease_call [OF l(3)]] h l(3) by (auto simp: sound_step_def) (metis snd_conv)
  then show ?thesis
    using h l live_lease_key(4) [OF l(3,1)] assms(2)
    by (auto simp: holds_task_def store_task_def u_def task_key_def within_def require_live_lease_iff)
qed

lemma heartbeats_keep_task:
  assumes "agent_worker_init w0 = Inr w" and "holds_task w t (from + aw_lease_duration w) r"
    and "list_all (within from (from + aw_lease_duration w)) beats"
  shows "\<exists>r'. call_each (\<lambda>now. heartbeat (tk_site_id t) (tk_task_id t) (aw_worker_id w) (tk_attempt t) now
      (aw_lease_duration w)) beats r = (Inr (), r') \<and> holds_task w t (from + aw_lease_duration w) r'"
  using assms(2,3)
proof (induction beats arbitrary: r)
  case (Cons now beats)
  then obtain t' r' where "heartbeat (tk_site_id t) (tk_task_id t) (aw_worker_id w) (tk_attempt t) now
      (aw_lease_duration w) r = (Inr t', r')" "holds_task w t (from + aw_lease_duration w) r'"
    using heartbeat_keeps_task [OF _ _ assms(1), of t "from" r now] by auto
  then show ?case using Cons.IH [of r'] Cons.prems(2) by simp
qed simp

section \<open>Every claim is settled\<close>

definition completed_as :: "agent_task \<Rightarrow> agent_repo \<Rightarrow> bool" where
  "completed_as t r = (\<exists>t' p. map_of (ar_tasks r) (tk_site_id t, tk_task_id t) = Some t' \<and> tk_status t' = SUCCEEDED
     \<and> map_of (ar_proposals r) (tk_site_id t, tk_task_id t, tk_attempt t) = Some p)"

definition failed_as :: "agent_task \<Rightarrow> agent_repo \<Rightarrow> bool" where
  "failed_as t r = (\<exists>t'. map_of (ar_tasks r) (tk_site_id t, tk_task_id t) = Some t' \<and> tk_status t' \<in> {RECHECK, DEAD_LETTER})"

lemma completion_settles:
  assumes "holds_task w t until r" and "within from until now"
  shows "case complete_with_proposal (tk_site_id t) (tk_task_id t) (aw_worker_id w) (tk_attempt t) now x r of
      (Inr t', r') \<Rightarrow> completed_as t r' | (Inl e, r') \<Rightarrow> r' = r \<and> soft_error e"
proof -
  obtain t0 where l: "require_live_lease (tk_site_id t) (tk_task_id t) (aw_worker_id w) (tk_attempt t) (instant_of now) r = Inr t0"
    "tk_status t0 = RUNNING" "repo_inv r"
    using holds_task_live [OF assms(1), of now] assms(2) by (auto simp: within_def)
  have m: "map_of (ar_tasks r) (tk_site_id t, tk_task_id t) = Some t0" "tk_attempt t0 = tk_attempt t"
    using l(1) by (auto simp: require_live_lease_iff)
  have aware: "require_aware now ''now'' = Inr ()" using assms(2) by (simp add: require_aware_def within_def)
  show ?thesis
  proof (cases "complete_with_proposal (tk_site_id t) (tk_task_id t) (aw_worker_id w) (tk_attempt t) now x r")
    case (Pair res r')
    show ?thesis
    proof (cases res)
      case (Inr t')
      then have eq: "complete_with_proposal (tk_site_id t) (tk_task_id t) (aw_worker_id w) (tk_attempt t) now x r = (Inr t', r')"
        using Pair by simp
      obtain p where p: "proposal_from_execution t0 x = Inr p"
        "map_of (ar_proposals r) (tk_site_id t, tk_task_id t, tk_attempt t) = None"
        "completion_body (tk_site_id t, tk_task_id t, tk_attempt t) t0 p (aw_worker_id w) (instant_of now) x r = (Inr t', r')"
        using complete_with_proposal_cases [OF l(3) eq] m(1) l(1,2) by (auto simp del: split_paired_Ex)
      show ?thesis
        using eq completion_body_ok(2-4) [OF l(3,1) p] by (simp add: completed_as_def complete_task_def)
    next
      case (Inl e)
      have "soft_error e"
        using Pair Inl aware m l soft_completion_body [OF l(3) live_lease_key(1) [OF l(3,1)]]
        by (auto simp: complete_with_proposal_def dest: soft_proposal soft_replay
            split: sum.splits option.splits if_splits prod.splits)
      then show ?thesis
        using complete_with_proposal_atomic [of _ _ _ _ now x r e r'] Pair Inl by auto
    qed
  qed
qed

lemma report_failure_settles:
  assumes "holds_task w t until r" and "within from until (ac_fail k)"
    and "is_aware (ac_retry_base k)" and "instant_of (ac_fail k) \<le> instant_of (ac_retry_base k)"
    and "agent_worker_init w0 = Inr w"
  shows "\<exists>r'. report_failure w k t e r = (Inr (task_result A_FAILED t), r') \<and> failed_as t r'"
proof -
  let ?now = "ac_fail k" and ?retry = "shift_time (ac_retry_base k) (aw_retry_delay w)"
  obtain t0 where l: "require_live_lease (tk_site_id t) (tk_task_id t) (aw_worker_id w) (tk_attempt t) (instant_of ?now) r = Inr t0"
    "tk_status t0 = RUNNING" "repo_inv r"
    using holds_task_live [OF assms(1), of ?now] assms(2) by (auto simp: within_def)
  note key = live_lease_key [OF l(3,1)]
  have time: "require_aware ?now ''now'' = Inr ()" "require_aware ?retry ''retry_at'' = Inr ()"
    "\<not> instant_of ?retry \<le> instant_of ?now"
    using assms(2-5) by (cases "ac_retry_base k"; force simp: require_aware_def within_def agent_worker_init_def split: if_splits)+
  let ?call = "fail_task (tk_site_id t) (tk_task_id t) (aw_worker_id w) (tk_attempt t) ?now ?retry (classify_failure e) r"
  have "\<exists>t' r'. ?call = (Inr t', r') \<and> failed_as t r'"
  proof (cases "tk_max_attempts t0 \<le> tk_attempt t0")
    case True
    obtain t' r' where "move_to_dead_letter (instant_of ?now) (classify_failure e) ''max_attempts_exhausted''
        (Some (aw_worker_id w)) t0 r = (Inr t', r')" "tk_status t' = DEAD_LETTER"
      "ar_tasks r' = AList.update (task_key t0) t' (ar_tasks r)"
      using move_to_dead_letter_sound [OF l(3) key(1,2) True] by metis
    then show ?thesis
      using True l(1) time key(4) by (auto simp: fail_task_def failed_as_def)
  next
    case False
    define u where "u = t0\<lparr>tk_status := RECHECK, tk_due_at := instant_of ?retry,
      tk_failure_classification := Some (classify_failure e), tk_lease_owner := None,
      tk_lease_expires_at := None, tk_updated_at := instant_of ?now\<rparr>"
    have "task_move t0 u"
      using False key(2) by (auto simp: u_def intro!: mv_retry)
    moreover have "tk_status u \<noteq> DEAD_LETTER" by (simp add: u_def)
    ultimately obtain r' where "append_event u ''recheck_scheduled'' (instant_of ?now) ''worker'' (Some (aw_worker_id w)) (store_task u r)
        = (Inr (), r')" "ar_tasks r' = AList.update (task_key t0) u (ar_tasks r)"
      using store_and_record [OF l(3) key(1)] by metis
    moreover have "?call = and_then (append_event u ''recheck_scheduled'' (instant_of ?now) ''worker'' (Some (aw_worker_id w)) (store_task u r))
        (\<lambda>_ r1. (Inr u, r1))"
      using False l(1) time by (simp add: fail_task_def u_def Let_def)
    ultimately show ?thesis
      using key(4) by (auto simp: failed_as_def u_def)
  qed
  then show ?thesis by (auto simp: report_failure_def)
qed

text \<open>The resolver or the executor raises \<open>e\<close> when the cycle calls it for this claim.\<close>

definition injected_error :: "agent_worker \<Rightarrow> agent_clock \<Rightarrow> agent_task_claim \<Rightarrow> run_error \<Rightarrow> bool" where
  "injected_error w k c e =
     (aw_resolve w (resolution_of c) = Inl e \<or>
      (\<exists>q. prepare_input w c = Inr q \<and> aw_execute w q (ac_execute k) = Inl e))"

text \<open>The task is still running under this worker's claim.\<close>

definition left_running :: "agent_worker \<Rightarrow> agent_task \<Rightarrow> agent_repo \<Rightarrow> bool" where
  "left_running w t r = (\<exists>t'. map_of (ar_tasks r) (tk_site_id t, tk_task_id t) = Some t' \<and> tk_status t' = RUNNING
     \<and> tk_lease_owner t' = Some (aw_worker_id w) \<and> tk_attempt t' = tk_attempt t)"

lemma holds_left_running: "holds_task w t until r \<Longrightarrow> left_running w t r"
  by (auto simp: holds_task_def left_running_def)

lemma process_task_settles:
  assumes "agent_worker_init w0 = Inr w" and "holds_task w (cl_metadata c) (at + aw_lease_duration w) r"
    and "list_all (within at (at + aw_lease_duration w)) (ac_complete k # ac_beats k)"
  shows "case process_task w k c r of
      (Inr _, r') \<Rightarrow> completed_as (cl_metadata c) r'
    | (Inl e, r') \<Rightarrow> (handled e \<and> \<not> is_lease_conflict e \<or> injected_error w k c e) \<and> holds_task w (cl_metadata c) (at + aw_lease_duration w) r'"
proof (cases "prepare_input w c")
  case (Inl e)
  have facts: "handled e \<and> \<not> is_lease_conflict e" if "map_raise (\<lambda>f. agent_fact_new (fr_fact_id f) (fr_fact_version f)) fs = Inl e" for fs e
    using that by (induction fs) (auto simp: agent_fact_new_def split: sum.splits if_splits)
  have "handled e \<and> \<not> is_lease_conflict e \<or> aw_resolve w (resolution_of c) = Inl e"
    using Inl
    by (auto simp: prepare_input_def Let_def validate_context_def agent_kind_from_task_type_def agent_input_post_init_def
        dest: facts split: sum.splits if_splits option.splits)
  then show ?thesis using Inl assms(2) by (auto simp: process_task_def injected_error_def)
next
  case (Inr q)
  obtain r1 where r1: "call_each (\<lambda>now. heartbeat (tk_site_id (cl_metadata c)) (tk_task_id (cl_metadata c)) (aw_worker_id w)
      (tk_attempt (cl_metadata c)) now (aw_lease_duration w)) (ac_beats k) r = (Inr (), r1)"
    "holds_task w (cl_metadata c) (at + aw_lease_duration w) r1"
    using heartbeats_keep_task [OF assms(1,2), of "ac_beats k"] assms(3) by auto
  show ?thesis
  proof (cases "aw_execute w q (ac_execute k)")
    case (Inl e)
    then show ?thesis using Inr r1 by (auto simp: process_task_def run_renewing_def injected_error_def)
  next
    case x: (Inr x)
    have "within at (at + aw_lease_duration w) (ac_complete k)" using assms(3) by simp
    note cs = completion_settles [OF r1(2) this, of x]
    show ?thesis
      using Inr x r1 cs soft_handled
      by (auto simp: process_task_def run_renewing_def split: prod.splits sum.splits)
  qed
qed

end
