(* ===== verification/Agent_Worker_Properties.thy ===== *)
theory Agent_Worker_Properties
  imports Agent_Worker Agent_Task_Properties
begin

text \<open>
  The properties of the agent worker over the task repository and the orchestrator, with a submitted
  task that instantiates them.
\<close>

declare split_paired_All [simp del] split_paired_Ex [simp del]

text \<open>
  C15. A cycle that claims a task from a reachable repository, with its clock within the lease, has one
  of four ends, whatever the injected resolver and executor return or raise, malformed proposals
  included: it reports success with the task succeeded and its proposal stored; it reports failure
  with the task rescheduled or dead-lettered; it reports the lease lost, which only happens when the
  resolver or the executor itself raised LeaseConflict; or it raises, which only happens with an
  error of the resolver or the executor that is neither an agent execution error nor a ValueError. In
  the last two ends, and only there, the task is left running under this worker's lease.
\<close>
theorem agent_cycle_settles_its_claim:
  assumes "agent_reachable r" and "agent_worker_init w0 = Inr w" and "ac_claim k = Aware at"
    and "claim_for_execution (aw_site_id w) (aw_worker_id w) (Aware at) (aw_lease_duration w) r = (Inr (Some c), r1)"
    and "list_all (within at (at + aw_lease_duration w)) (ac_complete k # ac_fail k # ac_beats k)"
    and "is_aware (ac_retry_base k)" and "instant_of (ac_fail k) \<le> instant_of (ac_retry_base k)"
  shows "\<exists>r'. agent_run_once w k r = (Inr (task_result A_SUCCEEDED (cl_metadata c)), r') \<and> completed_as (cl_metadata c) r'
     \<or> agent_run_once w k r = (Inr (task_result A_FAILED (cl_metadata c)), r') \<and> failed_as (cl_metadata c) r'
     \<or> agent_run_once w k r = (Inr (task_result A_LEASE_LOST (cl_metadata c)), r') \<and> left_running w (cl_metadata c) r'
         \<and> (\<exists>e. injected_error w k c e \<and> is_lease_conflict e)
     \<or> (\<exists>e. agent_run_once w k r = (Inl e, r') \<and> left_running w (cl_metadata c) r'
         \<and> injected_error w k c e \<and> \<not> handled e)"
proof -
  have held: "holds_task w (cl_metadata c) (at + aw_lease_duration w) r1"
    by (rule claim_holds_task [OF agent_reachable_inv [OF assms(1)] assms(4) refl])
  have clock: "list_all (within at (at + aw_lease_duration w)) (ac_complete k # ac_beats k)"
    and fail: "within at (at + aw_lease_duration w) (ac_fail k)" using assms(5) by simp_all
  obtain res r2 where p: "process_task w k c r1 = (res, r2)" by (cases "process_task w k c r1")
  note ps = process_task_settles [OF assms(2) held clock, unfolded p prod.case]
  note run = agent_run_once_def [of w k r, unfolded assms(3,4) p prod.case sum.case option.case]
  show ?thesis
  proof (cases res)
    case (Inr t')
    then show ?thesis using ps run by auto
  next
    case (Inl e)
    then have e: "handled e \<and> \<not> is_lease_conflict e \<or> injected_error w k c e"
      and h: "holds_task w (cl_metadata c) (at + aw_lease_duration w) r2" using ps by simp_all
    note left = holds_left_running [OF h]
    obtain r' where "report_failure w k (cl_metadata c) e r2 = (Inr (task_result A_FAILED (cl_metadata c)), r')"
      "failed_as (cl_metadata c) r'"
      using report_failure_settles [OF h fail assms(6,7,2)] by blast
    then show ?thesis using Inl e left run by auto
  qed
qed

section \<open>A submitted task\<close>

definition work_raw :: task_submission where
  "work_raw = \<lparr>sub_task_id = ''t'', sub_site_id = ''s'', sub_processing_purpose = ''sales_follow_up'',
     sub_idempotency_key = ''k'', sub_agent_type = ''sales'', sub_subject_type = ''CRM Deal'',
     sub_subject_ref = ''d'', sub_due_at = Aware 0, sub_priority = 1, sub_max_attempts = 3,
     sub_causation_id = ''c'', sub_correlation_id = ''c'',
     sub_payload = task_payload_to_mapping example_payload, sub_parent_task_id = None, sub_payload_digest = []\<rparr>"

definition work_submission :: task_submission where
  "work_submission = work_raw\<lparr>sub_payload := freeze_fields (sub_payload work_raw),
     sub_payload_digest := canonical_payload_digest (idempotency_document work_raw)\<rparr>"

definition work0 :: agent_repo where
  "work0 = run_op (Enqueue work_submission (Aware 0)) agent_repo_new"

lemma work0_reachable: "agent_reachable work0"
proof -
  have "submission_post_init work_raw = Inr work_submission"
    by (simp add: submission_post_init_def work_raw_def submission_required_def work_submission_def)
  then have "op_valid (Enqueue work_submission (Aware 0))" by auto
  then show ?thesis
    unfolding agent_reachable_def work0_def using agent_stepI by blast
qed

lemma freeze_idem:
  "freeze_json (freeze_json v) = freeze_json v"
  "freeze_items (freeze_items xs) = freeze_items xs"
  "freeze_fields (freeze_fields kvs) = freeze_fields kvs"
  by (induction v and xs and kvs rule: freeze_json_freeze_items_freeze_fields.induct) auto

lemma from_mapping_frozen: "task_payload_from_mapping (freeze_fields m) = task_payload_from_mapping m"
  by (simp add: task_payload_from_mapping_def freeze_idem)

definition work_claim :: agent_task_claim where
  "work_claim = \<lparr>cl_metadata = take_lease RUNNING ''w'' 1 10 (new_task work_submission 0), cl_payload = example_payload\<rparr>"

lemma work_claimed:
  "\<exists>r1. claim_for_execution ''s'' ''w'' (Aware 1) 10 work0 = (Inr (Some work_claim), r1)
     \<and> ar_tasks r1 = [((''s'', ''t''), cl_metadata work_claim)] \<and> (\<exists>es. map_of (ar_timeline r1) (''s'', ''t'') = Some es)
     \<and> ar_proposals r1 = [] \<and> ar_proposal_idempotency r1 = []"
proof -
  have t: "ar_tasks work0 = [((''s'', ''t''), new_task work_submission 0)]"
    "map_of (ar_payloads work0) (''s'', ''t'') = Some (JObj (freeze_fields (task_payload_to_mapping example_payload)))"
    "map_of (ar_timeline work0) (''s'', ''t'') = Some [created_event work_submission 0]"
    "ar_proposals work0 = []" "ar_proposal_idempotency work0 = []"
    by (simp_all add: work0_def agent_repo_new_def enqueue_def agent_eval work_submission_def work_raw_def)
  have p: "task_payload_from_mapping (freeze_fields (task_payload_to_mapping example_payload)) = Inr example_payload"
    unfolding from_mapping_frozen by (rule from_to_mapping [OF example_payload_valid])
  have f: "tk_site_id (new_task work_submission 0) = ''s''" "tk_task_id (new_task work_submission 0) = ''t''"
    "tk_status (new_task work_submission 0) = QUEUED" "tk_due_at (new_task work_submission 0) = 0"
    by (simp_all add: new_task_def work_submission_def work_raw_def)
  show ?thesis
    by (simp add: claim_for_execution_def t p f agent_eval work_claim_def)
qed

definition work_clock :: agent_clock where
  "work_clock = \<lparr>ac_claim = Aware 1, ac_execute = Aware 2, ac_beats = [Aware 3], ac_complete = Aware 4,
     ac_fail = Aware 5, ac_retry_base = Aware 5\<rparr>"

definition unlucky_worker :: agent_worker where
  "unlucky_worker = \<lparr>aw_site_id = ''s'', aw_worker_id = ''w'',
     aw_resolve = (\<lambda>_. Inl (AgentExecutionError ''context store is down'')),
     aw_execute = (\<lambda>_ _. Inl (AgentExecutionError ''unused'')), aw_lease_duration = 10, aw_retry_delay = 60\<rparr>"

theorem agent_cycle_settles_its_claim_witness:
  "\<exists>r' res. agent_run_once unlucky_worker work_clock work0 = (Inr res, r')
     \<and> failed_as (cl_metadata work_claim) r'"
proof -
  obtain r1 where c: "claim_for_execution (aw_site_id unlucky_worker) (aw_worker_id unlucky_worker) (Aware 1)
      (aw_lease_duration unlucky_worker) work0 = (Inr (Some work_claim), r1)"
    using work_claimed by (auto simp: unlucky_worker_def)
  have "agent_worker_init unlucky_worker = Inr unlucky_worker" by (simp add: agent_worker_init_def unlucky_worker_def)
  moreover have "ac_claim work_clock = Aware 1" "is_aware (ac_retry_base work_clock)"
    "instant_of (ac_fail work_clock) \<le> instant_of (ac_retry_base work_clock)"
    "list_all (within 1 (1 + aw_lease_duration unlucky_worker))
       (ac_complete work_clock # ac_fail work_clock # ac_beats work_clock)"
    by (simp_all add: work_clock_def within_def unlucky_worker_def)
  ultimately obtain r' where ends: "agent_run_once unlucky_worker work_clock work0
        = (Inr (task_result A_SUCCEEDED (cl_metadata work_claim)), r')
     \<or> agent_run_once unlucky_worker work_clock work0 = (Inr (task_result A_FAILED (cl_metadata work_claim)), r')
         \<and> failed_as (cl_metadata work_claim) r'
     \<or> (\<exists>e. injected_error unlucky_worker work_clock work_claim e \<and> (is_lease_conflict e \<or> \<not> handled e))"
    using agent_cycle_settles_its_claim [OF work0_reachable _ _ c, of unlucky_worker work_clock] by blast
  have "handled e \<and> \<not> is_lease_conflict e" if "injected_error unlucky_worker work_clock work_claim e" for e
    using that by (auto simp: injected_error_def prepare_input_def Let_def unlucky_worker_def)
  moreover have "\<not> (agent_run_once unlucky_worker work_clock work0 = (Inr (task_result A_SUCCEEDED t), r'))" for t r'
    using c by (auto simp: agent_run_once_def process_task_def prepare_input_def Let_def unlucky_worker_def
        work_clock_def report_failure_def task_result_def split: prod.splits sum.splits agent_error.splits)
  ultimately show ?thesis
    using ends by blast
qed

section \<open>From the run to the stored proposal\<close>

text \<open>The executor the worker is wired with: the orchestrator under its default budget.\<close>

definition orchestrated :: "agent_orchestrator \<Rightarrow> agent_input \<Rightarrow> datetime \<Rightarrow> run_error + execution_result" where
  "orchestrated orch q now =
     (case execute orch q now None of Inl e \<Rightarrow> Inl e | Inr x \<Rightarrow> Inr (execution_result.truncate x))"

lemma truncate_fields [simp]:
  "xr_action_proposal (execution_result.truncate x) = xr_action_proposal x"
  "xr_invocations (execution_result.truncate x) = xr_invocations x"
  by (simp_all add: execution_result.truncate_def)

lemma heartbeats_keep_running:
  assumes "repo_inv r" and "map_of (ar_tasks r) (site, i) = Some t" and "tk_status t = RUNNING"
  shows "case call_each (\<lambda>now. heartbeat site i w a now d) beats r of (res, r') \<Rightarrow>
     repo_inv r' \<and> (\<exists>t'. map_of (ar_tasks r') (site, i) = Some t' \<and> tk_status t' = RUNNING)"
  using assms
proof (induction beats arbitrary: r t)
  case (Cons now beats)
  obtain res r1 where h: "heartbeat site i w a now d r = (res, r1)" by (cases "heartbeat site i w a now d r")
  have i: "repo_inv r1"
    using lease_call_sound [OF heartbeat_lease_call [OF Cons.prems(1)], of site i w a now d] h Cons.prems(1)
    by (auto simp: sound_step_def)
  have "\<exists>t'. map_of (ar_tasks r1) (site, i) = Some t' \<and> tk_status t' = RUNNING"
    using h Cons.prems
    by (auto simp: heartbeat_def store_task_def Let_def require_live_lease_iff split: sum.splits if_splits)
  then show ?case
    using Cons.IH [OF i] Cons.prems h i by (cases res) auto
qed auto

lemma thaw_freeze_strings: "thaw_items (freeze_items (map JStr es)) = map JStr es"
  by (induction es) auto

lemma proposal_from_built:
  assumes "proposal_from_execution t x = Inr p" and "xr_action_proposal x = JObj (build_proposal orch q out now)"
  shows "pr_action_type p = pv_action_type out \<and> pr_evidence_refs p = ai_evidence_refs q
     \<and> pr_subject_revision p = ai_subject_revision q \<and> pr_origin p = ''AI'' \<and> pr_review_status p = ''AI Draft''"
proof -
  have "map str_of_json (map JStr es) = es" for es by (induction es) auto
  then show ?thesis
    using assms
    by (auto simp: proposal_from_execution_def build_proposal_def Let_def sum_case_Inr_iff thaw_freeze_strings
        dest!: proposal_post_init_ok(1) split: if_splits option.splits)
qed

lemma prepared_input:
  "prepare_input w c = Inr q \<Longrightarrow> ai_expected_action_type q = pl_expected_action_type (cl_payload c)
     \<and> ai_evidence_refs q = pl_evidence_refs (cl_payload c) \<and> ai_subject_revision q = pl_subject_revision (cl_payload c)"
  by (auto simp: prepare_input_def agent_input_post_init_def Let_def split: sum.splits if_splits)

lemma relabelled_Inr:
  "(case m of (Inl e, r) \<Rightarrow> (Inl (f e), r) | (Inr x, r) \<Rightarrow> (Inr x, r)) = (Inr y, s) \<longleftrightarrow> m = (Inr y, s)"
  by (cases m; cases "fst m") auto

lemma succeeded_cycle:
  assumes "agent_run_once w k r = (Inr res, r')" and "ares_status res = A_SUCCEEDED"
  obtains c r1 q x r2 t' where
    "claim_for_execution (aw_site_id w) (aw_worker_id w) (ac_claim k) (aw_lease_duration w) r = (Inr (Some c), r1)"
    and "prepare_input w c = Inr q" and "aw_execute w q (ac_execute k) = Inr x"
    and "call_each (\<lambda>now. heartbeat (tk_site_id (cl_metadata c)) (tk_task_id (cl_metadata c)) (aw_worker_id w)
       (tk_attempt (cl_metadata c)) now (aw_lease_duration w)) (ac_beats k) r1 = (Inr (), r2)"
    and "complete_with_proposal (tk_site_id (cl_metadata c)) (tk_task_id (cl_metadata c)) (aw_worker_id w)
       (tk_attempt (cl_metadata c)) (ac_complete k) x r2 = (Inr t', r')"
proof -
  have failing: "ares_status res' \<noteq> A_SUCCEEDED" if "report_failure w k t e r0 = (Inr res', r'')" for t e r0 res' r''
    using that by (auto simp: report_failure_def task_result_def split: prod.splits sum.splits agent_error.splits)
  obtain c r1 t' where c: "claim_for_execution (aw_site_id w) (aw_worker_id w) (ac_claim k) (aw_lease_duration w) r
      = (Inr (Some c), r1)" "process_task w k c r1 = (Inr t', r')"
    using assms
    by (auto simp: agent_run_once_def task_result_def dest: failing split: prod.splits sum.splits option.splits if_splits)
  obtain q x r2 where q: "prepare_input w c = Inr q"
    "run_renewing w (ac_beats k) (cl_metadata c) (aw_execute w q (ac_execute k)) r1 = (Inr x, r2)"
    "complete_with_proposal (tk_site_id (cl_metadata c)) (tk_task_id (cl_metadata c)) (aw_worker_id w)
       (tk_attempt (cl_metadata c)) (ac_complete k) x r2 = (Inr t', r')"
    using c(2) by (auto simp: process_task_def Let_def and_then_Inr_iff relabelled_Inr split: sum.splits)
  then show thesis
    using that [OF c(1) q(1) _ _ q(3)] by (auto simp: run_renewing_def split: prod.splits sum.splits)
qed

text \<open>
  C16. A successful cycle of a worker wired with the orchestrator ends with a stored proposal that the
  guard allowed: the orchestrator accepted the input built from the claimed payload, the proposal is kept
  under the claimed task and attempt as an AI draft of origin AI, and its action, evidence and subject
  revision are the ones the task asked for.
\<close>
theorem successful_cycle_stores_governed_proposal:
  assumes "agent_reachable r" and "aw_execute w = orchestrated orch"
    and "agent_run_once w k r = (Inr res, r')" and "ares_status res = A_SUCCEEDED"
  shows "\<exists>c r1 q x p.
     claim_for_execution (aw_site_id w) (aw_worker_id w) (ac_claim k) (aw_lease_duration w) r = (Inr (Some c), r1)
     \<and> prepare_input w c = Inr q \<and> execute orch q (ac_execute k) None = Inr x
     \<and> gd_outcome (xr_pre_guard x) = ALLOW \<and> gd_outcome (xr_post_guard x) = ALLOW
     \<and> map_of (ar_proposals r') (tk_site_id (cl_metadata c), tk_task_id (cl_metadata c), tk_attempt (cl_metadata c)) = Some p
     \<and> pr_origin p = ''AI'' \<and> pr_review_status p = ''AI Draft''
     \<and> pr_action_type p = pl_expected_action_type (cl_payload c)
     \<and> pr_evidence_refs p = pl_evidence_refs (cl_payload c)
     \<and> pr_subject_revision p = pl_subject_revision (cl_payload c)"
proof -
  obtain c r1 q x0 r2 t' where cl: "claim_for_execution (aw_site_id w) (aw_worker_id w) (ac_claim k) (aw_lease_duration w) r
      = (Inr (Some c), r1)" and q: "prepare_input w c = Inr q" and ex: "aw_execute w q (ac_execute k) = Inr x0"
    and hb: "call_each (\<lambda>now. heartbeat (tk_site_id (cl_metadata c)) (tk_task_id (cl_metadata c)) (aw_worker_id w)
       (tk_attempt (cl_metadata c)) now (aw_lease_duration w)) (ac_beats k) r1 = (Inr (), r2)"
    and cm: "complete_with_proposal (tk_site_id (cl_metadata c)) (tk_task_id (cl_metadata c)) (aw_worker_id w)
       (tk_attempt (cl_metadata c)) (ac_complete k) x0 r2 = (Inr t', r')"
    using succeeded_cycle [OF assms(3,4)] by metis
  obtain x where x: "execute orch q (ac_execute k) None = Inr x" "x0 = execution_result.truncate x"
    using ex assms(2) by (auto simp: orchestrated_def split: sum.splits)
  obtain out where out: "accept_output orch q (ac_execute k) default_budget (guard_request q)
      (guard_evaluate (guard_request q) (ac_execute k) PRE_TOOL None) out = Inr x"
    "gd_outcome (guard_evaluate (guard_request q) (ac_execute k) PRE_TOOL None) = ALLOW"
    using execute_ok [OF x(1)] by (metis option.case(1))
  note acc = accept_output_ok [OF out(1)]
  obtain t1 where t1: "map_of (ar_tasks r1) (tk_site_id (cl_metadata c), tk_task_id (cl_metadata c)) = Some t1"
    "tk_status t1 = RUNNING" and i1: "repo_inv r1"
    using claim_running [OF agent_reachable_inv [OF assms(1)] cl] by blast
  obtain t2 where t2: "map_of (ar_tasks r2) (tk_site_id (cl_metadata c), tk_task_id (cl_metadata c)) = Some t2"
    "tk_status t2 = RUNNING" and i2: "repo_inv r2"
    using heartbeats_keep_running [OF i1 t1, of "aw_worker_id w" "tk_attempt (cl_metadata c)" "aw_lease_duration w" "ac_beats k"]
    unfolding hb by auto
  obtain t p where p: "require_live_lease (tk_site_id (cl_metadata c)) (tk_task_id (cl_metadata c)) (aw_worker_id w)
      (tk_attempt (cl_metadata c)) (instant_of (ac_complete k)) r2 = Inr t"
    "proposal_from_execution t x0 = Inr p"
    "map_of (ar_proposals r2) (tk_site_id (cl_metadata c), tk_task_id (cl_metadata c), tk_attempt (cl_metadata c)) = None"
    "completion_body (tk_site_id (cl_metadata c), tk_task_id (cl_metadata c), tk_attempt (cl_metadata c)) t p (aw_worker_id w)
       (instant_of (ac_complete k)) x0 r2 = (Inr t', r')"
    using complete_with_proposal_cases [OF i2 cm] t2 by auto
  have stored: "map_of (ar_proposals r') (tk_site_id (cl_metadata c), tk_task_id (cl_metadata c), tk_attempt (cl_metadata c)) = Some p"
    by (rule completion_body_ok(4) [OF i2 p])
  have built: "xr_action_proposal x0 = JObj (build_proposal orch q out (ac_execute k))"
    using acc(3) x(2) by simp
  show ?thesis
    using cl q x(1) stored acc(2,5,6) out(2) proposal_from_built [OF p(2) built] prepared_input [OF q] by metis
qed


section \<open>A successful cycle\<close>

definition work_orchestrator :: agent_orchestrator where
  "work_orchestrator = \<lparr>ao_provider = \<lparr>mv_provider_version = ''v1'', mv_tool_version = ''none'',
       mv_generate = (\<lambda>_. Inr demo_output)\<rparr>,
     ao_known_evidence_refs = [''evidence:a'', ''evidence:b''], ao_known_fact_refs = [(''fact:f'', 3)],
     ao_known_subject_refs = [(''CRM Deal'', ''d'')]\<rparr>"

definition work_worker :: agent_worker where
  "work_worker = \<lparr>aw_site_id = ''s'', aw_worker_id = ''w'',
     aw_resolve = (\<lambda>q. Inr \<lparr>rx_site_id = rr_site_id q, rx_subject_type = rr_subject_type q,
       rx_subject_ref = rr_subject_ref q, rx_evidence_refs = rr_evidence_refs q,
       rx_fact_version_refs = rr_fact_version_refs q, rx_raw_context = ''text''\<rparr>),
     aw_execute = orchestrated work_orchestrator, aw_lease_duration = 10, aw_retry_delay = 60\<rparr>"

definition work_input :: agent_input where
  "work_input = \<lparr>ai_task_id = ''t'', ai_site_id = ''s'', ai_processing_purpose = ''sales_follow_up'',
     ai_agent_kind = SALES, ai_requested_by = ''user:u'', ai_subject_type = ''CRM Deal'', ai_subject_ref = ''d'',
     ai_subject_revision = 2, ai_evidence_refs = [''evidence:a'', ''evidence:b''],
     ai_fact_version_refs = [(''fact:f'', 3)], ai_decision_ref = ''decision:d'', ai_correlation_id = ''c'',
     ai_raw_context = ''text'', ai_expected_action_type = ''internal.work_item.propose'',
     ai_candidate_refs = [], ai_requested_tools = []\<rparr>"

definition work_document :: fields where
  "work_document =
     [(''schema_version'', JStr ''1.0''),
      (''action_proposal_id'', JStr ''action-proposal-ae89f5db0fa8d6f9bdcbac1c''),
      (''site_id'', JStr ''s''), (''processing_purpose'', JStr ''sales_follow_up''),
      (''proposal_version'', JStr ''action-proposal-v1''), (''proposal_revision'', JInt 1),
      (''action_type'', JStr ''internal.work_item.propose''), (''status'', JStr ''proposed''),
      (''decision_ref'', JStr ''decision:d''),
      (''fact_version_refs'', JList [JObj [(''fact_id'', JStr ''fact:f''), (''fact_version'', JInt 3)]]),
      (''evidence_refs'', JList [JStr ''evidence:a'', JStr ''evidence:b'']), (''requested_by'', JStr ''user:u''),
      (''target_ref'', JStr ''d''), (''target_revision'', JInt 2),
      (''payload'', JObj [(''title'', JStr ''call back'')]),
      (''payload_digest'', JStr ''3279583073bc8f16c59b6723b6bfc513ce70a7eee2a1fa66040d08fe5e10c2ea''),
      (''policy_version'', JStr ''action-guard-v1''), (''created_at'', JStr ''1970-01-01T00:00:00.000002Z''),
      (''correlation_id'', JStr ''c'')]"

lemma work_payload_digest:
  "json_digest (JObj [(''title'', JStr ''call back'')]) = ''3279583073bc8f16c59b6723b6bfc513ce70a7eee2a1fa66040d08fe5e10c2ea''"
  by code_simp

lemma work_identity_digest:
  "take 24 (json_digest (JObj
     [(''task_id'', JStr ''t''), (''site_id'', JStr ''s''), (''agent_kind'', JStr ''sales''),
      (''subject_type'', JStr ''CRM Deal''), (''subject_ref'', JStr ''d''), (''subject_revision'', JInt 2),
      (''payload_digest'', JStr ''3279583073bc8f16c59b6723b6bfc513ce70a7eee2a1fa66040d08fe5e10c2ea''),
      (''provider_version'', JStr ''v1''), (''prompt_version'', JStr ''p1'')])) = ''ae89f5db0fa8d6f9bdcbac1c''"
  by code_simp

lemma work_built: "build_proposal work_orchestrator work_input demo_output (Aware 2) = work_document"
proof -
  have z: "isoformat_z 2 = ''1970-01-01T00:00:00.000002Z''" by code_simp
  show ?thesis
    using work_identity_digest
    by (simp add: build_proposal_def proposal_identity_def work_orchestrator_def work_input_def demo_output_def
        work_document_def work_payload_digest guard_policy_version_def z)
qed

lemma work_screened: "screened (JObj work_document)"
  by (rule screened_plainly) code_simp

lemma work_executes: "\<exists>x. execute work_orchestrator work_input (Aware 2) None = Inr x"
proof (rule execute_accepts)
  let ?q = work_input and ?o = work_orchestrator
  show "validate_request ?o ?q default_budget = Inr ()"
    by (simp add: validate_request_def default_budget_def work_input_def work_orchestrator_def)
  show "action_request_post_init (guard_request ?q) = Inr (guard_request ?q)"
    by (simp add: action_request_post_init_def guard_request_def work_input_def)
  show "fst (classify_request (guard_request ?q)) = ALLOW"
    by (simp add: classify_request_allow guard_request_def work_input_def internal_proposals_def)
  show "mv_generate (ao_provider ?o) ?q = Inr demo_output" by (simp add: work_orchestrator_def)
  have z: "length (int_text 1) = 1" "length (int_text 2) = 1" "length (int_text 3) = 1" by code_simp+
  have "length (dumps (JObj work_document)) \<le> dump_bound (JObj work_document)" by (rule length_dumps)
  also have "\<dots> \<le> 4000"
    by (simp add: work_document_def z)
  finally show "length (dumps (JObj (build_proposal ?o ?q demo_output (Aware 2)))) \<le> 4000"
    by (simp only: work_built)
  show "\<not> contains_forbidden_result_key
     (JObj (result_document work_input (build_proposal work_orchestrator work_input demo_output (Aware 2))))"
    unfolding work_built using demo_keys_allowed
    by (simp add: contains_forbidden_result_key_def result_document_def work_document_def work_input_def)
qed (simp_all add: demo_output_def work_input_def)

lemma work_metadata:
  "tk_site_id (cl_metadata work_claim) = ''s''" "tk_task_id (cl_metadata work_claim) = ''t''"
  "tk_attempt (cl_metadata work_claim) = 1" "tk_status (cl_metadata work_claim) = RUNNING"
  "tk_lease_owner (cl_metadata work_claim) = Some ''w''" "tk_lease_expires_at (cl_metadata work_claim) = Some 11"
  "tk_processing_purpose (cl_metadata work_claim) = ''sales_follow_up''" "tk_agent_type (cl_metadata work_claim) = ''sales''"
  "tk_subject_type (cl_metadata work_claim) = ''CRM Deal''" "tk_subject_ref (cl_metadata work_claim) = ''d''"
  "tk_correlation_id (cl_metadata work_claim) = ''c''" "cl_payload work_claim = example_payload"
  by (simp_all add: work_claim_def take_lease_def new_task_def work_submission_def work_raw_def)

lemma work_prepared: "prepare_input work_worker work_claim = Inr work_input"
  by (simp add: prepare_input_def work_worker_def work_metadata resolution_of_def validate_context_def Let_def
      agent_kind_from_task_type_def agent_fact_new_def agent_input_post_init_def work_input_def example_payload_def)

lemma work_proposal:
  assumes "xr_action_proposal x = JObj work_document" and "xr_invocations x = []"
  shows "\<exists>p. proposal_from_execution (cl_metadata work_claim) x = Inr p"
proof -
  have d: "thaw_json (freeze_json (JObj work_document)) = JObj work_document"
    by (simp add: work_document_def)
  have dt: "fromisoformat ''1970-01-01T00:00:00.000002+00:00'' = Some (Aware 2)" by code_simp
  have dig: "is_sha256_text ''3279583073bc8f16c59b6723b6bfc513ce70a7eee2a1fa66040d08fe5e10c2ea''" by code_simp
  have pd: "canonical_payload_digest [(''title'', JStr ''call back'')]
      = ''3279583073bc8f16c59b6723b6bfc513ce70a7eee2a1fa66040d08fe5e10c2ea''"
    by (simp add: canonical_payload_digest_def work_payload_digest)
  have bd: "is_sha256_text (canonical_payload_digest y)" for y by (simp add: canonical_payload_digest_def)
  have scr: "reject_unsafe_content (JObj work_document) = Inr ()"
    by (rule iffD2 [OF reject_unsafe_screened work_screened])
  show ?thesis
    unfolding proposal_from_execution_def Let_def assms d
    by (simp add: work_document_def work_metadata
        str_list_def keys_are_def dt proposal_post_init_def dig bd pd
        scr [unfolded work_document_def] allowed_action_types_def
        del: reject_unsafe_content.simps reject_unsafe_fields.simps)
qed

definition work_ticks :: agent_clock where
  "work_ticks = work_clock\<lparr>ac_beats := []\<rparr>"

lemma work_succeeds:
  "\<exists>r'. agent_run_once work_worker work_ticks work0 = (Inr (task_result A_SUCCEEDED (cl_metadata work_claim)), r')"
proof -
  obtain r1 where c: "claim_for_execution ''s'' ''w'' (Aware 1) 10 work0 = (Inr (Some work_claim), r1)"
    and r1: "ar_tasks r1 = [((''s'', ''t''), cl_metadata work_claim)]" "\<exists>es. map_of (ar_timeline r1) (''s'', ''t'') = Some es"
      "ar_proposals r1 = []" "ar_proposal_idempotency r1 = []"
    using work_claimed by blast
  obtain x where x: "execute work_orchestrator work_input (Aware 2) None = Inr x" using work_executes by blast
  obtain out where out: "accept_output work_orchestrator work_input (Aware 2) default_budget (guard_request work_input)
      (guard_evaluate (guard_request work_input) (Aware 2) PRE_TOOL None) out = Inr x"
    "mv_generate (ao_provider work_orchestrator) work_input = Inr out"
    using execute_ok [OF x] by (metis option.case(1))
  have o: "out = demo_output" using out(2) by (simp add: work_orchestrator_def)
  have xs: "xr_action_proposal x = JObj work_document" "xr_invocations x = []"
    using accept_output_ok(3,8) [OF out(1)] unfolding o work_built by (simp_all add: demo_output_def)
  define y where "y = execution_result.truncate x"
  have y: "aw_execute work_worker work_input (Aware 2) = Inr y" "xr_invocations y = []"
    using x xs by (simp_all add: work_worker_def orchestrated_def y_def)
  obtain p where p: "proposal_from_execution (cl_metadata work_claim) y = Inr p"
    using work_proposal [of y] xs by (auto simp: y_def)
  obtain m where m: "materialization_from_proposal p 4 = Inr m"
    using materialization_from_proposal_ok by blast
  have "\<exists>t' r'. complete_with_proposal ''s'' ''t'' ''w'' 1 (Aware 4) y r1 = (Inr t', r')"
    using r1 p m y(2) work_metadata
    by (auto simp: complete_with_proposal_def completion_body_def append_proposal_def agent_eval)
  then obtain t' r' where "complete_with_proposal ''s'' ''t'' ''w'' 1 (Aware 4) y r1 = (Inr t', r')" by blast
  then show ?thesis
    using c y work_prepared work_metadata
    by (simp add: agent_run_once_def process_task_def run_renewing_def work_ticks_def work_clock_def work_worker_def)
qed

theorem successful_cycle_stores_governed_proposal_witness:
  "\<exists>r' p. agent_run_once work_worker work_ticks work0 = (Inr (task_result A_SUCCEEDED (cl_metadata work_claim)), r')
     \<and> map_of (ar_proposals r') (''s'', ''t'', 1) = Some p \<and> pr_review_status p = ''AI Draft'' \<and> pr_subject_revision p = 2"
proof -
  obtain r' where run: "agent_run_once work_worker work_ticks work0
      = (Inr (task_result A_SUCCEEDED (cl_metadata work_claim)), r')"
    using work_succeeds by blast
  obtain r1 where c: "claim_for_execution ''s'' ''w'' (Aware 1) 10 work0 = (Inr (Some work_claim), r1)"
    using work_claimed by blast
  have w: "aw_execute work_worker = orchestrated work_orchestrator" "aw_site_id work_worker = ''s''"
    "aw_worker_id work_worker = ''w''" "aw_lease_duration work_worker = 10" "ac_claim work_ticks = Aware 1"
    by (simp_all add: work_worker_def work_ticks_def work_clock_def)
  have "ares_status (task_result A_SUCCEEDED (cl_metadata work_claim)) = A_SUCCEEDED" by (simp add: task_result_def)
  from successful_cycle_stores_governed_proposal [OF work0_reachable w(1) run this] show ?thesis
    using run c by (auto simp: w work_metadata example_payload_def)
qed

end
