(* ===== verification/Agent_Materialization.thy ===== *)
theory Agent_Materialization
  imports Agent_Orchestrator
begin

text \<open>
  The materialization worker (\<open>services/agent_runtime/materialization.py\<close>): one cycle leases an outbox
  row, resolves the controlled context of its proposal, materializes the internal draft, applies it
  through the Frappe client and acknowledges the receipt. The outbox repository (SQL), the resolver and
  the client are injected; each is a call on one shared world \<open>'s\<close> that may raise, and the readings of
  the clock are part of the input of a cycle.
\<close>

section \<open>Data\<close>

record materialization_claim =
  mk_materialization_id :: string
  mk_proposal_id :: string
  mk_site_id :: string
  mk_attempt :: int
  mk_max_attempts :: int
  mk_lease_owner :: string
  mk_lease_expires_at :: datetime
  mk_envelope :: materialization_envelope

definition materialization_claim_post_init :: "materialization_claim \<Rightarrow> materialization_claim agent_result" where
  "materialization_claim_post_init c =
     (let bad = filter (\<lambda>(n, v). v = [] \<or> 256 < length v)
            [(''materialization_id'', mk_materialization_id c), (''proposal_id'', mk_proposal_id c),
             (''site_id'', mk_site_id c)] in
      if bad \<noteq> [] then Inl (ValidationError (fst (hd bad) @ '' is invalid''))
      else if mk_attempt c < 0 \<or> mk_max_attempts c < mk_attempt c \<or> mk_max_attempts c < 1
      then Inl (ValidationError ''materialization attempt is invalid'')
      else if 0 < mk_attempt c \<and> mk_lease_owner c = []
      then Inl (ValidationError ''claimed materialization requires a lease owner'')
      else if \<not> is_aware (mk_lease_expires_at c)
      then Inl (ValidationError ''materialization lease expiry must be timezone-aware'')
      else Inr c)"

record draft_receipt =
  fd_doctype :: string
  fd_name :: string
  fd_revision :: json
  fd_request_id :: string
  fd_request_digest :: string

definition draft_receipt_post_init :: "draft_receipt \<Rightarrow> draft_receipt agent_result" where
  "draft_receipt_post_init r =
     (let bad = filter (\<lambda>(n, v). v = [] \<or> 256 < length v)
            [(''doctype'', fd_doctype r), (''name'', fd_name r), (''request_id'', fd_request_id r)] in
      if bad \<noteq> [] then Inl (ValidationError (''receipt '' @ fst (hd bad) @ '' is invalid''))
      else if \<not> (case fd_revision r of JInt i \<Rightarrow> 0 \<le> i | _ \<Rightarrow> False)
      then Inl (ValidationError ''receipt revision must be a non-negative integer'')
      else if \<not> is_sha256_text (fd_request_digest r)
      then Inl (ValidationError ''receipt request_digest must be SHA-256'')
      else Inr r)"

record mat_context_request =
  cq_site_id :: string
  cq_task_id :: string
  cq_processing_purpose :: string
  cq_proposal_id :: string
  cq_subject_type :: string
  cq_subject_ref :: string
  cq_subject_revision :: json

definition mat_context_request_post_init :: "mat_context_request \<Rightarrow> mat_context_request agent_result" where
  "mat_context_request_post_init q =
     (let bad = filter (\<lambda>(n, v, maximum). strip v = [] \<or> maximum < length v)
            [(''site_id'', cq_site_id q, 140), (''task_id'', cq_task_id q, 256),
             (''processing_purpose'', cq_processing_purpose q, 80), (''proposal_id'', cq_proposal_id q, 256),
             (''subject_type'', cq_subject_type q, 140), (''subject_ref'', cq_subject_ref q, 256)] in
      if bad \<noteq> [] then Inl (ValidationError (''materialization context '' @ fst (hd bad) @ '' is invalid''))
      else if \<not> (case cq_subject_revision q of JInt i \<Rightarrow> 0 \<le> i | _ \<Rightarrow> False)
      then Inl (ValidationError ''materialization context subject_revision is invalid'')
      else Inr q)"

record mat_run_result =
  mres_status :: string
  mres_materialization_id :: "string option"
  mres_attempt :: "int option"
  mres_error_code :: "string option"

record mat_health =
  mh_pending :: int
  mh_running :: int
  mh_retry :: int
  mh_dead_letter :: int

definition mat_health_ready :: "mat_health \<Rightarrow> bool" where
  "mat_health_ready h = (mh_dead_letter h = 0)"

definition mat_health_wire :: "mat_health \<Rightarrow> fields" where
  "mat_health_wire h =
     [(''ready'', JBool (mat_health_ready h)), (''pending'', JInt (mh_pending h)),
      (''running'', JInt (mh_running h)), (''retry'', JInt (mh_retry h)),
      (''dead_letter'', JInt (mh_dead_letter h))]"

text \<open>The worker with its injected collaborators; every call reads and changes the world.\<close>

type_synonym ('a, 's) mat_call = "(run_error, 'a, 's) call"

record 's mat_worker =
  mz_claim :: "string \<Rightarrow> string \<Rightarrow> datetime \<Rightarrow> int \<Rightarrow> 's \<Rightarrow> (materialization_claim option, 's) mat_call"
  mz_heartbeat :: "string \<Rightarrow> string \<Rightarrow> string \<Rightarrow> int \<Rightarrow> datetime \<Rightarrow> int \<Rightarrow> 's \<Rightarrow> (unit, 's) mat_call"
  mz_acknowledge :: "string \<Rightarrow> string \<Rightarrow> string \<Rightarrow> int \<Rightarrow> datetime \<Rightarrow> draft_receipt \<Rightarrow> 's \<Rightarrow> (draft_receipt, 's) mat_call"
  mz_fail :: "string \<Rightarrow> string \<Rightarrow> string \<Rightarrow> int \<Rightarrow> datetime \<Rightarrow> datetime \<Rightarrow> string \<Rightarrow> 's \<Rightarrow> (string option, 's) mat_call"
  mz_resolve :: "mat_context_request \<Rightarrow> 's \<Rightarrow> (materialization_context option, 's) mat_call"
  mz_apply :: "materialization_intent \<Rightarrow> string \<Rightarrow> string \<Rightarrow> string option \<Rightarrow> 's \<Rightarrow> (draft_receipt, 's) mat_call"
  mz_worker_id :: string
  mz_lease_duration :: int
  mz_retry_delay :: int

definition mat_worker_init :: "'s mat_worker \<Rightarrow> 's mat_worker agent_result" where
  "mat_worker_init w =
     (if mz_worker_id w = [] then Inl (ValueError ''worker_id is required'')
      else if mz_lease_duration w \<le> 0 \<or> mz_retry_delay w \<le> 0
      then Inl (ValueError ''materialization durations must be positive'')
      else Inr w)"

record mat_clock =
  mt_claim :: datetime
  mt_first_beat :: datetime
  mt_second_beat :: datetime
  mt_acknowledge :: datetime
  mt_fail :: datetime
  mt_retry_base :: datetime

section \<open>One delivery\<close>

definition intent_digest :: "materialization_intent \<Rightarrow> string" where
  "intent_digest i = canonical_payload_digest
     [(''operation'', JStr (mn_operation i)), (''doctype'', JStr (mn_doctype i)),
      (''values'', thaw_json (JObj (mn_values i)))]"

definition validate_receipt ::
  "draft_receipt \<Rightarrow> materialization_claim \<Rightarrow> materialization_intent \<Rightarrow> string \<Rightarrow> run_error + unit" where
  "validate_receipt r c i digest =
     (if fd_request_id r \<noteq> mk_materialization_id c \<or> fd_request_digest r \<noteq> digest \<or> fd_doctype r \<noteq> mn_doctype i
      then Inl (TaskError (IdempotencyConflict ''Frappe receipt does not match materialization request''))
      else Inr ())"

definition raise_task :: "'a agent_result \<Rightarrow> 's \<Rightarrow> ('a, 's) mat_call" where
  "raise_task m s = (case m of Inl e \<Rightarrow> (Inl (TaskError e), s) | Inr x \<Rightarrow> (Inr x, s))"

definition claim_context_request :: "materialization_claim \<Rightarrow> mat_context_request" where
  "claim_context_request c =
     \<lparr>cq_site_id = mk_site_id c, cq_task_id = me_task_id (mk_envelope c),
      cq_processing_purpose = me_processing_purpose (mk_envelope c), cq_proposal_id = mk_proposal_id c,
      cq_subject_type = me_subject_type (mk_envelope c), cq_subject_ref = me_subject_ref (mk_envelope c),
      cq_subject_revision = me_subject_revision (mk_envelope c)\<rparr>"

definition claim_context ::
  "'s mat_worker \<Rightarrow> materialization_claim \<Rightarrow> 's \<Rightarrow> (materialization_context option, 's) mat_call" where
  "claim_context w c s =
     (if me_action_type (mk_envelope c) = ''internal.work_item.transition.propose'' then (Inr None, s)
      else and_then (raise_task (mat_context_request_post_init (claim_context_request c)) s) (\<lambda>q s1.
           and_then (mz_resolve w q s1) (\<lambda>context s2.
           case context of
             None \<Rightarrow> (Inl (TaskError (ValidationError ''controlled materialization team context is unavailable'')), s2)
           | Some x \<Rightarrow> (Inr (Some x), s2))))"

definition renew :: "'s mat_worker \<Rightarrow> materialization_claim \<Rightarrow> datetime \<Rightarrow> 's \<Rightarrow> (unit, 's) mat_call" where
  "renew w c now = mz_heartbeat w (mk_site_id c) (mk_materialization_id c) (mz_worker_id w) (mk_attempt c) now
     (mz_lease_duration w)"

definition deliver_draft :: "'s mat_worker \<Rightarrow> mat_clock \<Rightarrow> materialization_claim \<Rightarrow> 's \<Rightarrow> (draft_receipt, 's) mat_call" where
  "deliver_draft w k c s =
     and_then (renew w c (mt_first_beat k) s) (\<lambda>_ s1.
     and_then (claim_context w c s1) (\<lambda>context s2.
     and_then (raise_task (materialize (mk_envelope c) context) s2) (\<lambda>intent s3.
     and_then (renew w c (mt_second_beat k) s3) (\<lambda>_ s4.
     and_then (mz_apply w intent (mk_materialization_id c) (intent_digest intent)
                 (Some (me_processing_purpose (mk_envelope c))) s4) (\<lambda>receipt s5.
     case validate_receipt receipt c intent (intent_digest intent) of
       Inl e \<Rightarrow> (Inl e, s5)
     | Inr _ \<Rightarrow>
         mz_acknowledge w (mk_site_id c) (mk_materialization_id c) (mz_worker_id w) (mk_attempt c)
           (mt_acknowledge k) receipt s5)))))"

section \<open>One cycle\<close>

definition mat_result :: "string \<Rightarrow> materialization_claim \<Rightarrow> string option \<Rightarrow> mat_run_result" where
  "mat_result status c code =
     \<lparr>mres_status = status, mres_materialization_id = Some (mk_materialization_id c),
      mres_attempt = Some (mk_attempt c), mres_error_code = code\<rparr>"

fun lease_conflict_raised :: "run_error \<Rightarrow> bool" where
  "lease_conflict_raised (TaskError (LeaseConflict _)) = True"
| "lease_conflict_raised _ = False"

fun delivery_error_code :: "run_error \<Rightarrow> string" where
  "delivery_error_code (TaskError (IdempotencyConflict _)) = ''frappe_body_conflict''"
| "delivery_error_code _ = ''materialization_failed''"

definition report_delivery_failure ::
  "'s mat_worker \<Rightarrow> mat_clock \<Rightarrow> materialization_claim \<Rightarrow> run_error \<Rightarrow> 's \<Rightarrow> (mat_run_result, 's) mat_call" where
  "report_delivery_failure w k c e s =
     (case mz_fail w (mk_site_id c) (mk_materialization_id c) (mz_worker_id w) (mk_attempt c) (mt_fail k)
            (shift_time (mt_retry_base k) (mz_retry_delay w)) (delivery_error_code e) s of
        (Inl e', s') \<Rightarrow>
          if lease_conflict_raised e' then (Inr (mat_result ''lease_lost'' c (Some ''lease_lost'')), s')
          else (Inl e', s')
      | (Inr state, s') \<Rightarrow>
          (Inr (mat_result (if state = Some ''dead_letter'' then ''dead_letter'' else ''retry'') c
                  (Some (delivery_error_code e))), s'))"

definition mat_run_once :: "'s mat_worker \<Rightarrow> mat_clock \<Rightarrow> string \<Rightarrow> 's \<Rightarrow> (mat_run_result, 's) mat_call" where
  "mat_run_once w k site_id s =
     (case mz_claim w site_id (mz_worker_id w) (mt_claim k) (mz_lease_duration w) s of
        (Inl e, s1) \<Rightarrow> (Inl e, s1)
      | (Inr None, s1) \<Rightarrow>
          (Inr \<lparr>mres_status = ''idle'', mres_materialization_id = None, mres_attempt = None, mres_error_code = None\<rparr>, s1)
      | (Inr (Some c), s1) \<Rightarrow>
          (case deliver_draft w k c s1 of
             (Inr _, s2) \<Rightarrow> (Inr (mat_result ''succeeded'' c None), s2)
           | (Inl e, s2) \<Rightarrow>
               if lease_conflict_raised e then (Inr (mat_result ''lease_lost'' c (Some ''lease_lost'')), s2)
               else report_delivery_failure w k c e s2))"

section \<open>What a successful cycle did\<close>

lemma raise_task_Inr: "raise_task m s = (Inr x, s') \<longleftrightarrow> m = Inr x \<and> s' = s"
  by (auto simp: raise_task_def split: sum.splits)

lemma validate_receipt_Inr:
  "validate_receipt r c i digest = Inr u \<longleftrightarrow>
     fd_request_id r = mk_materialization_id c \<and> fd_request_digest r = digest \<and> fd_doctype r = mn_doctype i"
  by (auto simp: validate_receipt_def)

lemma checked_call:
  "(case validate_receipt r c i digest of Inl e \<Rightarrow> (Inl e, s) | Inr _ \<Rightarrow> m) = (Inr x, s')
     \<longleftrightarrow> validate_receipt r c i digest = Inr () \<and> m = (Inr x, s')"
  by (cases "validate_receipt r c i digest") auto

lemma report_never_succeeds:
  "report_delivery_failure w k c e s = (Inr res, s') \<Longrightarrow> mres_status res \<noteq> ''succeeded''"
  by (auto simp: report_delivery_failure_def mat_result_def split: prod.splits sum.splits if_splits)

lemma succeeded_delivery:
  assumes "mat_run_once w k site s = (Inr res, s')" and "mres_status res = ''succeeded''"
  obtains c s1 a where "mz_claim w site (mz_worker_id w) (mt_claim k) (mz_lease_duration w) s = (Inr (Some c), s1)"
    and "deliver_draft w k c s1 = (Inr a, s')"
  using assms that
  by (auto simp: mat_run_once_def mat_result_def dest: report_never_succeeds
      split: prod.splits sum.splits option.splits if_splits)

text \<open>
  C19. A cycle reports success only after the whole delivery took place, in this order: the outbox row
  was leased and the lease renewed, the context was resolved, the trusted materializer accepted the
  envelope and produced an internal AI document, the lease was renewed again, the client applied exactly
  that draft once under the materialization identifier and the digest of the draft, the receipt it
  returned names the same request, digest and document type, and the repository acknowledged that receipt.
\<close>
theorem materialized_draft_is_acknowledged:
  assumes "mat_run_once w k site s = (Inr res, s')" and "mres_status res = ''succeeded''"
  shows "\<exists>c s1 s2 context s3 i s4 receipt s5 a.
     mz_claim w site (mz_worker_id w) (mt_claim k) (mz_lease_duration w) s = (Inr (Some c), s1)
     \<and> renew w c (mt_first_beat k) s1 = (Inr (), s2)
     \<and> claim_context w c s2 = (Inr context, s3)
     \<and> materialize (mk_envelope c) context = Inr i \<and> jget (mn_values i) ''origin'' = JStr ''AI''
     \<and> mn_doctype i \<in> {''GBOS Work Item'', ''GBOS Review Case'', ''GBOS Informal Observation''}
     \<and> renew w c (mt_second_beat k) s3 = (Inr (), s4)
     \<and> mz_apply w i (mk_materialization_id c) (intent_digest i) (Some (me_processing_purpose (mk_envelope c))) s4
         = (Inr receipt, s5)
     \<and> fd_request_id receipt = mk_materialization_id c \<and> fd_request_digest receipt = intent_digest i
     \<and> fd_doctype receipt = mn_doctype i
     \<and> mz_acknowledge w (mk_site_id c) (mk_materialization_id c) (mz_worker_id w) (mk_attempt c)
         (mt_acknowledge k) receipt s5 = (Inr a, s')"
proof -
  obtain c s1 a where c: "mz_claim w site (mz_worker_id w) (mt_claim k) (mz_lease_duration w) s = (Inr (Some c), s1)"
    and d: "deliver_draft w k c s1 = (Inr a, s')"
    using succeeded_delivery [OF assms] by blast
  obtain s2 ctx s3 i s4 receipt s5 where
    r: "renew w c (mt_first_beat k) s1 = (Inr (), s2)" "claim_context w c s2 = (Inr ctx, s3)"
      "materialize (mk_envelope c) ctx = Inr i" "renew w c (mt_second_beat k) s3 = (Inr (), s4)"
      "mz_apply w i (mk_materialization_id c) (intent_digest i) (Some (me_processing_purpose (mk_envelope c))) s4
         = (Inr receipt, s5)"
      "validate_receipt receipt c i (intent_digest i) = Inr ()"
      "mz_acknowledge w (mk_site_id c) (mk_materialization_id c) (mz_worker_id w) (mk_attempt c)
         (mt_acknowledge k) receipt s5 = (Inr a, s')"
    using d unfolding deliver_draft_def
    by (auto simp: and_then_Inr_iff raise_task_Inr checked_call)
  have "reversible_intent (mk_envelope c) i" by (rule materialize_reversible [OF r(3)])
  then have "jget (mn_values i) ''origin'' = JStr ''AI''"
    "mn_doctype i \<in> {''GBOS Work Item'', ''GBOS Review Case'', ''GBOS Informal Observation''}"
    by (auto simp: reversible_intent_def submits_draft_def creates_draft_def split: if_splits)
  then show ?thesis
    using c r unfolding validate_receipt_Inr by blast
qed

text \<open>A world that records what was asked of it.\<close>

definition demo_mat_claim :: materialization_claim where
  "demo_mat_claim = \<lparr>mk_materialization_id = ''m'', mk_proposal_id = ''ap-x'', mk_site_id = ''s'', mk_attempt = 1,
     mk_max_attempts = 3, mk_lease_owner = ''w'', mk_lease_expires_at = Aware 30, mk_envelope = example_envelope\<rparr>"

definition demo_mat_worker :: "string list mat_worker" where
  "demo_mat_worker = \<lparr>mz_claim = (\<lambda>_ _ _ _ s. (Inr (Some demo_mat_claim), ''claim'' # s)),
     mz_heartbeat = (\<lambda>_ _ _ _ _ _ s. (Inr (), ''renew'' # s)),
     mz_acknowledge = (\<lambda>_ _ _ _ _ r s. (Inr r, ''acknowledge'' # s)),
     mz_fail = (\<lambda>_ _ _ _ _ _ _ s. (Inr None, ''fail'' # s)),
     mz_resolve = (\<lambda>_ s. (Inr (Some example_context), ''resolve'' # s)),
     mz_apply = (\<lambda>i q d _ s. (Inr \<lparr>fd_doctype = mn_doctype i, fd_name = ''WI-1'', fd_revision = JInt 1,
        fd_request_id = q, fd_request_digest = d\<rparr>, ''apply'' # s)),
     mz_worker_id = ''w'', mz_lease_duration = 30, mz_retry_delay = 30\<rparr>"

definition demo_mat_clock :: mat_clock where
  "demo_mat_clock = \<lparr>mt_claim = Aware 0, mt_first_beat = Aware 1, mt_second_beat = Aware 2, mt_acknowledge = Aware 3,
     mt_fail = Aware 3, mt_retry_base = Aware 3\<rparr>"

lemma demo_mat_run:
  "mat_run_once demo_mat_worker demo_mat_clock ''s'' [] = (Inr (mat_result ''succeeded'' demo_mat_claim None),
     [''acknowledge'', ''apply'', ''renew'', ''resolve'', ''renew'', ''claim''])"
proof -
  obtain i where "materialize example_envelope (Some example_context) = Inr i" using example_materialize by blast
  moreover have "mat_context_request_post_init (claim_context_request demo_mat_claim) = Inr (claim_context_request demo_mat_claim)"
    by code_simp
  ultimately show ?thesis
    by (simp add: mat_run_once_def deliver_draft_def demo_mat_worker_def renew_def claim_context_def raise_task_def
        demo_mat_claim_def validate_receipt_def) (simp add: example_envelope_def)
qed

theorem materialized_draft_is_acknowledged_witness:
  "\<exists>i receipt s4 s5. materialize example_envelope (Some example_context) = Inr i
     \<and> mn_doctype i \<in> {''GBOS Work Item'', ''GBOS Review Case'', ''GBOS Informal Observation''}
     \<and> mz_apply demo_mat_worker i ''m'' (intent_digest i) (Some ''sales_follow_up'') s4 = (Inr receipt, s5)
     \<and> fd_request_digest receipt = intent_digest i"
proof -
  have c: "c = demo_mat_claim" if "mz_claim demo_mat_worker a b t d s = (Inr (Some c), s')" for a b t d s c s'
    using that by (simp add: demo_mat_worker_def)
  have x: "ctx = Some example_context"
    if "claim_context demo_mat_worker demo_mat_claim s = (Inr ctx, s')" for s s' ctx
    using that
    by (auto simp: claim_context_def demo_mat_worker_def demo_mat_claim_def example_envelope_def raise_task_Inr and_then_Inr_iff)
  have e: "mk_envelope demo_mat_claim = example_envelope" "mk_materialization_id demo_mat_claim = ''m''"
    "me_processing_purpose example_envelope = ''sales_follow_up''"
    by (simp_all add: demo_mat_claim_def example_envelope_def)
  have "mres_status (mat_result ''succeeded'' demo_mat_claim None) = ''succeeded''" by (simp add: mat_result_def)
  from materialized_draft_is_acknowledged [OF demo_mat_run this] show ?thesis
    by (metis c x e)
qed

end
