(* ===== verification/Observer_Models.thy ===== *)
theory Observer_Models
  imports Py_Sha256 Py_Regex
begin

text \<open>
  The validated values of the observer (\<open>services/observer/observer/models.py\<close>) that the evidence store,
  the evidence lifecycle and the polling scheduler work on. Bytes are lists of characters.
\<close>

datatype observer_error =
    ObsValueError string
  | ObsTypeError string
  | EvidenceStoreError string
  | EvidenceIntegrityError string
  | SiteIsolationError string
  | FileNotFoundError string
  | LifecycleError string
  | LegalHoldError string
  | EvidenceNotFound string
  | ObsOtherError

type_synonym 'a observer_result = "observer_error + 'a"

definition connector_names :: "string list" where
  "connector_names = [''email'', ''wecom'', ''whatsapp'', ''phone'', ''meeting'', ''file'', ''manual_import'',
     ''wechat_workphone'']"

definition processing_purposes :: "string list" where
  "processing_purposes = [''business_operations'', ''observation_processing'', ''entity_resolution'',
     ''customer_service'', ''sales_follow_up'', ''procurement_coordination'', ''product_sample_management'',
     ''risk_review'', ''metric_reporting'', ''audit_compliance'']"

definition observer_require_aware :: "datetime \<Rightarrow> string \<Rightarrow> unit observer_result" where
  "observer_require_aware value field_name =
     (if is_aware value then Inr () else Inl (ObsValueError (field_name @ '' must be timezone-aware'')))"

definition require_identifier :: "string \<Rightarrow> string \<Rightarrow> nat \<Rightarrow> unit observer_result" where
  "require_identifier value field_name maximum =
     (if value = [] \<or> value \<noteq> strip value \<or> maximum < length value
      then Inl (ObsValueError (''invalid '' @ field_name)) else Inr ())"

definition site_id_shape :: "string \<Rightarrow> bool" where
  "site_id_shape = shape_match is_alnum (\<lambda>c. is_alnum c \<or> c = CHR ''.'' \<or> c = CHR ''-'') 0 139"

record tenant_scope =
  ts_site_id :: string
  ts_processing_purpose :: string

definition tenant_scope_post_init :: "tenant_scope \<Rightarrow> tenant_scope observer_result" where
  "tenant_scope_post_init s =
     (if \<not> site_id_shape (ts_site_id s) then Inl (ObsValueError ''invalid site_id'')
      else if ts_processing_purpose s \<notin> set processing_purposes then Inl (ObsValueError ''unknown processing_purpose'')
      else Inr s)"

record connector_key =
  ck_connector :: string
  ck_instance_id :: string

definition connector_key_post_init :: "connector_key \<Rightarrow> connector_key observer_result" where
  "connector_key_post_init k =
     (if ck_connector k \<notin> set connector_names then Inl (ObsValueError ''invalid connector'')
      else case require_identifier (ck_instance_id k) ''instance_id'' 256 of Inl e \<Rightarrow> Inl e | Inr _ \<Rightarrow> Inr k)"

record raw_delivery =
  rd_delivery_id :: string
  rd_exact_bytes :: string
  rd_media_type :: string
  rd_received_at :: datetime

definition raw_delivery_post_init :: "raw_delivery \<Rightarrow> raw_delivery observer_result" where
  "raw_delivery_post_init d =
     (case require_identifier (rd_delivery_id d) ''delivery_id'' 512 of
        Inl e \<Rightarrow> Inl e
      | Inr _ \<Rightarrow>
     (case require_identifier (rd_media_type d) ''media_type'' 255 of
        Inl e \<Rightarrow> Inl e
      | Inr _ \<Rightarrow>
     (case observer_require_aware (rd_received_at d) ''received_at'' of
        Inl e \<Rightarrow> Inl e
      | Inr _ \<Rightarrow> Inr d)))"

record stored_object =
  so_object_ref :: string
  so_sha256 :: string
  so_size :: int
  so_media_type :: string

end
