(* ===== verification/Polling_Scheduler.thy ===== *)
theory Polling_Scheduler
  imports Observer_Models
begin

text \<open>
  The durable polling scheduler (\<open>services/observer/observer/scheduler.py\<close>): one run polls a batch from
  the checkpoint of a connector, hands every delivery to durable storage, and only then moves the
  checkpoint. The polling state (SQL) and the poll itself are injected; each is a call on one shared world
  \<open>'s\<close> that may raise.
\<close>

declare split_paired_All [simp del] split_paired_Ex [simp del]

section \<open>Data\<close>

datatype poll_disposition = POLL_OK | POLL_RETRY | POLL_PAUSE | POLL_REJECTED

record poll_batch =
  pb_disposition :: poll_disposition
  pb_expected_cursor :: "string option"
  pb_candidate_cursor :: "string option"
  pb_deliveries :: "raw_delivery list"
  pb_error_code :: "string option"

definition poll_batch_post_init :: "poll_batch \<Rightarrow> poll_batch observer_result" where
  "poll_batch_post_init b =
     (if pb_disposition b = POLL_OK
      then if pb_error_code b \<noteq> None then Inl (ObsValueError ''successful poll cannot contain an error'')
           else if pb_deliveries b \<noteq> [] \<and> pb_candidate_cursor b = None
           then Inl (ObsValueError ''deliveries require a checkpoint candidate'')
           else Inr b
      else case pb_error_code b of
        None \<Rightarrow> Inl (ObsValueError ''failed poll requires a safe error code'')
      | Some code \<Rightarrow>
          if code = [] \<or> 80 < length code then Inl (ObsValueError ''failed poll requires a safe error code'')
          else Inr b)"

record poll_run_result =
  plr_status :: string
  plr_accepted_count :: int
  plr_checkpoint_advanced :: bool
  plr_safe_error_code :: "string option"

type_synonym ('a, 's) poll_call = "(observer_error, 'a, 's) call"

record 's poll_scheduler =
  pq_acquire :: "tenant_scope \<Rightarrow> connector_key \<Rightarrow> string \<Rightarrow> datetime \<Rightarrow> int \<Rightarrow> 's \<Rightarrow> (unit, 's) poll_call"
  pq_release :: "tenant_scope \<Rightarrow> connector_key \<Rightarrow> string \<Rightarrow> datetime \<Rightarrow> 's \<Rightarrow> (unit, 's) poll_call"
  pq_load_checkpoint :: "tenant_scope \<Rightarrow> connector_key \<Rightarrow> 's \<Rightarrow> (string option \<times> int \<times> string, 's) poll_call"
  pq_accept_delivery :: "tenant_scope \<Rightarrow> connector_key \<Rightarrow> raw_delivery \<Rightarrow> 's \<Rightarrow> (unit, 's) poll_call"
  pq_advance_checkpoint ::
    "tenant_scope \<Rightarrow> connector_key \<Rightarrow> int \<Rightarrow> string option \<Rightarrow> datetime \<Rightarrow> 's \<Rightarrow> (unit, 's) poll_call"
  pq_update_health ::
    "tenant_scope \<Rightarrow> connector_key \<Rightarrow> string \<Rightarrow> string option \<Rightarrow> datetime \<Rightarrow> 's \<Rightarrow> (unit, 's) poll_call"
  pq_poll :: "string option \<Rightarrow> int \<Rightarrow> 's \<Rightarrow> (poll_batch, 's) poll_call"
  pq_scope :: tenant_scope
  pq_key :: connector_key
  pq_worker_id :: string
  pq_lease_seconds :: int

definition poll_scheduler_init :: "'s poll_scheduler \<Rightarrow> 's poll_scheduler observer_result" where
  "poll_scheduler_init q =
     (if ck_connector (pq_key q) \<notin> {''email'', ''wecom''}
      then Inl (ObsValueError ''polling scheduler supports only email and wecom'')
      else if pq_worker_id q = [] \<or> pq_worker_id q \<noteq> strip (pq_worker_id q) \<or> 256 < length (pq_worker_id q)
      then Inl (ObsValueError ''invalid worker_id'')
      else if \<not> (1 \<le> pq_lease_seconds q \<and> pq_lease_seconds q \<le> 86400)
      then Inl (ObsValueError ''invalid lease_seconds'')
      else Inr q)"

section \<open>One run\<close>

definition poll_failure ::
  "'s poll_scheduler \<Rightarrow> datetime \<Rightarrow> string \<Rightarrow> bool \<Rightarrow> 's \<Rightarrow> (poll_run_result, 's) poll_call" where
  "poll_failure q now error_code paused s =
     and_then (pq_update_health q (pq_scope q) (pq_key q) (if paused then ''paused'' else ''degraded'')
                 (Some error_code) now s)
       (\<lambda>_ s'. (Inr \<lparr>plr_status = (if paused then ''paused'' else ''retry''), plr_accepted_count = 0,
                     plr_checkpoint_advanced = False, plr_safe_error_code = Some error_code\<rparr>, s'))"

definition poll_paused :: poll_run_result where
  "poll_paused = \<lparr>plr_status = ''paused'', plr_accepted_count = 0, plr_checkpoint_advanced = False,
     plr_safe_error_code = Some ''connector_paused''\<rparr>"

definition report_healthy ::
  "'s poll_scheduler \<Rightarrow> datetime \<Rightarrow> int \<Rightarrow> bool \<Rightarrow> 's \<Rightarrow> (poll_run_result, 's) poll_call" where
  "report_healthy q now accepted advanced s =
     and_then (pq_update_health q (pq_scope q) (pq_key q) ''healthy'' None now s)
       (\<lambda>_ s'. (Inr \<lparr>plr_status = ''ok'', plr_accepted_count = accepted, plr_checkpoint_advanced = advanced,
                     plr_safe_error_code = None\<rparr>, s'))"

definition commit_batch ::
  "'s poll_scheduler \<Rightarrow> int \<Rightarrow> datetime \<Rightarrow> poll_batch \<Rightarrow> 's \<Rightarrow> (poll_run_result, 's) poll_call" where
  "commit_batch q version now batch s =
     (case call_each (pq_accept_delivery q (pq_scope q) (pq_key q)) (pb_deliveries batch) s of
        (Inl _, s1) \<Rightarrow> poll_failure q now ''durable_accept_failed'' False s1
      | (Inr _, s1) \<Rightarrow>
          (let accepted = int (length (pb_deliveries batch)) in
           if pb_deliveries batch = [] then report_healthy q now accepted False s1
           else case pq_advance_checkpoint q (pq_scope q) (pq_key q) version (pb_candidate_cursor batch) now s1 of
             (Inl _, s2) \<Rightarrow> poll_failure q now ''checkpoint_conflict'' False s2
           | (Inr _, s2) \<Rightarrow> report_healthy q now accepted True s2))"

definition run_leased ::
  "'s poll_scheduler \<Rightarrow> string option \<Rightarrow> int \<Rightarrow> int \<Rightarrow> datetime \<Rightarrow> 's \<Rightarrow> (poll_run_result, 's) poll_call" where
  "run_leased q cursor version limit now s =
     (case pq_poll q cursor limit s of
        (Inl _, s1) \<Rightarrow> poll_failure q now ''poll_failed'' False s1
      | (Inr batch, s1) \<Rightarrow>
          if pb_expected_cursor batch \<noteq> cursor then poll_failure q now ''checkpoint_candidate_mismatch'' True s1
          else if pb_disposition batch \<noteq> POLL_OK
          then poll_failure q now
                 (case pb_error_code batch of Some (c # cs) \<Rightarrow> c # cs | _ \<Rightarrow> ''poll_failed'')
                 (pb_disposition batch \<in> {POLL_PAUSE, POLL_REJECTED}) s1
          else commit_batch q version now batch s1)"

definition leased_section ::
  "'s poll_scheduler \<Rightarrow> int \<Rightarrow> datetime \<Rightarrow> 's \<Rightarrow> (poll_run_result, 's) poll_call" where
  "leased_section q limit now s =
     (case and_then (pq_load_checkpoint q (pq_scope q) (pq_key q) s) (\<lambda>(cursor, version, leased_status) s1.
             if leased_status = ''paused'' then (Inr poll_paused, s1)
             else run_leased q cursor version limit now s1) of
        (res, s2) \<Rightarrow>
          (case pq_release q (pq_scope q) (pq_key q) (pq_worker_id q) now s2 of
             (Inl e, s3) \<Rightarrow> (Inl e, s3)
           | (Inr _, s3) \<Rightarrow> (res, s3)))"

definition poll_run_once ::
  "'s poll_scheduler \<Rightarrow> int \<Rightarrow> datetime \<Rightarrow> 's \<Rightarrow> (poll_run_result, 's) poll_call" where
  "poll_run_once q limit now s =
     (if \<not> (1 \<le> limit \<and> limit \<le> 1000) then (Inl (ObsValueError ''limit must be between 1 and 1000''), s)
      else and_then (pq_load_checkpoint q (pq_scope q) (pq_key q) s) (\<lambda>(_, _, status) s1.
        if status = ''paused'' then (Inr poll_paused, s1)
        else case observer_require_aware now ''clock'' of
          Inl e \<Rightarrow> (Inl e, s1)
        | Inr _ \<Rightarrow>
            (case pq_acquire q (pq_scope q) (pq_key q) (pq_worker_id q) now (pq_lease_seconds q) s1 of
               (Inl _, s2) \<Rightarrow> poll_failure q now ''lease_unavailable'' False s2
             | (Inr _, s2) \<Rightarrow> leased_section q limit now s2)))"

section \<open>The checkpoint follows durable acceptance\<close>

text \<open>
  What the scheduler relies on, for an observed checkpoint \<open>cursor_of\<close> and an observed set of durably
  accepted deliveries: loading returns the checkpoint, no call but a successful advance moves the checkpoint, an advance that returns sets
  the given cursor, an acceptance that returns has stored its delivery, and stored deliveries stay.
\<close>

definition keeps_world :: "('s \<Rightarrow> string option) \<Rightarrow> ('s \<Rightarrow> raw_delivery set) \<Rightarrow> ('s \<Rightarrow> ('a, 's) poll_call) \<Rightarrow> bool" where
  "keeps_world cursor_of accepted f =
     (\<forall>s. cursor_of (snd (f s)) = cursor_of s \<and> accepted s \<subseteq> accepted (snd (f s)))"

definition durable_polling ::
  "'s poll_scheduler \<Rightarrow> ('s \<Rightarrow> string option) \<Rightarrow> ('s \<Rightarrow> raw_delivery set) \<Rightarrow> bool" where
  "durable_polling q cursor_of accepted =
     ((\<forall>sc k. keeps_world cursor_of accepted (pq_load_checkpoint q sc k))
      \<and> (\<forall>sc k ow now n. keeps_world cursor_of accepted (pq_acquire q sc k ow now n))
      \<and> (\<forall>sc k ow now. keeps_world cursor_of accepted (pq_release q sc k ow now))
      \<and> (\<forall>sc k st e now. keeps_world cursor_of accepted (pq_update_health q sc k st e now))
      \<and> (\<forall>c n. keeps_world cursor_of accepted (pq_poll q c n))
      \<and> (\<forall>sc k d. keeps_world cursor_of accepted (pq_accept_delivery q sc k d))
      \<and> (\<forall>sc k s x s'. pq_load_checkpoint q sc k s = (Inr x, s') \<longrightarrow> fst x = cursor_of s)
      \<and> (\<forall>sc k d s s'. pq_accept_delivery q sc k d s = (Inr (), s') \<longrightarrow> d \<in> accepted s')
      \<and> (\<forall>sc k v c now s r s'. pq_advance_checkpoint q sc k v c now s = (r, s') \<longrightarrow>
            accepted s \<subseteq> accepted s' \<and> cursor_of s' = (if isl r then cursor_of s else c)))"

lemma keeps_worldD:
  "keeps_world cursor_of accepted f \<Longrightarrow> f s = (r, s') \<Longrightarrow> cursor_of s' = cursor_of s \<and> accepted s \<subseteq> accepted s'"
  unfolding keeps_world_def by (metis snd_conv)

lemma durable_pollingD:
  assumes "durable_polling q cursor_of accepted"
  shows "keeps_world cursor_of accepted (pq_load_checkpoint q sc k)"
    and "keeps_world cursor_of accepted (pq_acquire q sc k ow now n)"
    and "keeps_world cursor_of accepted (pq_release q sc k ow now)"
    and "keeps_world cursor_of accepted (pq_update_health q sc k st e now)"
    and "keeps_world cursor_of accepted (pq_poll q c n)"
    and "keeps_world cursor_of accepted (pq_accept_delivery q sc k d)"
    and "pq_accept_delivery q sc k d s = (Inr u, s') \<Longrightarrow> d \<in> accepted s'"
    and "pq_advance_checkpoint q sc k v c now s = (r, s')
       \<Longrightarrow> accepted s \<subseteq> accepted s' \<and> cursor_of s' = (if isl r then cursor_of s else c)"
  using assms unfolding durable_polling_def by auto

lemma loads_checkpoint:
  assumes "durable_polling q cursor_of accepted" and "pq_load_checkpoint q sc k s = (Inr x, s')"
  shows "fst x = cursor_of s"
proof -
  have "\<forall>sc k s x s'. pq_load_checkpoint q sc k s = (Inr x, s') \<longrightarrow> fst x = cursor_of s"
    using assms(1) unfolding durable_polling_def by (elim conjE)
  then show ?thesis using assms(2) by metis
qed

lemma accept_all:
  assumes "durable_polling q cursor_of accepted" and "call_each (pq_accept_delivery q sc k) ds s = (r, s')"
  shows "cursor_of s' = cursor_of s \<and> accepted s \<subseteq> accepted s' \<and> (r = Inr () \<longrightarrow> set ds \<subseteq> accepted s')"
  using assms(2)
proof (induction ds arbitrary: s)
  case (Cons d ds)
  obtain r1 s1 where d: "pq_accept_delivery q sc k d s = (r1, s1)" by (cases "pq_accept_delivery q sc k d s")
  note k = keeps_worldD [OF durable_pollingD(6) [OF assms(1)] d]
  show ?case
  proof (cases r1)
    case (Inl e)
    then show ?thesis using Cons.prems k d by auto
  next
    case (Inr u)
    then have "d \<in> accepted s1" "call_each (pq_accept_delivery q sc k) ds s1 = (r, s')"
      using durable_pollingD(7) [OF assms(1)] d Cons.prems by auto
    then show ?thesis using Cons.IH k by auto
  qed
qed simp

lemma poll_failure_keeps:
  assumes "durable_polling q cursor_of accepted" and "poll_failure q now code paused s = (r, s')"
  shows "cursor_of s' = cursor_of s \<and> accepted s \<subseteq> accepted s'
     \<and> (\<forall>res. r = Inr res \<longrightarrow> \<not> plr_checkpoint_advanced res)"
proof -
  obtain h s1 where h: "pq_update_health q (pq_scope q) (pq_key q) (if paused then ''paused'' else ''degraded'')
      (Some code) now s = (h, s1)"
    by (cases "pq_update_health q (pq_scope q) (pq_key q) (if paused then ''paused'' else ''degraded'') (Some code) now s")
  show ?thesis
    using keeps_worldD [OF durable_pollingD(4) [OF assms(1)] h] assms(2) h by (cases h) (auto simp: poll_failure_def)
qed

lemma report_healthy_keeps:
  assumes "durable_polling q cursor_of accepted" and "report_healthy q now n adv s = (r, s')"
  shows "cursor_of s' = cursor_of s \<and> accepted s \<subseteq> accepted s' \<and> (\<forall>res. r = Inr res \<longrightarrow> plr_checkpoint_advanced res = adv)"
proof -
  obtain h s1 where h: "pq_update_health q (pq_scope q) (pq_key q) ''healthy'' None now s = (h, s1)"
    by (cases "pq_update_health q (pq_scope q) (pq_key q) ''healthy'' None now s")
  show ?thesis
    using keeps_worldD [OF durable_pollingD(4) [OF assms(1)] h] assms(2) h by (cases h) (auto simp: report_healthy_def)
qed

text \<open>The relation between the worlds before and after: the checkpoint stayed, or it moved to the candidate
  of a batch polled from the old checkpoint all of whose deliveries are stored.\<close>

definition checkpoint_step ::
  "'s poll_scheduler \<Rightarrow> ('s \<Rightarrow> string option) \<Rightarrow> ('s \<Rightarrow> raw_delivery set) \<Rightarrow> int \<Rightarrow> 's \<Rightarrow> 's \<Rightarrow> bool" where
  "checkpoint_step q cursor_of accepted limit s s' =
     (accepted s \<subseteq> accepted s' \<and>
      (cursor_of s' = cursor_of s \<or>
       (\<exists>s1 batch s2. pq_poll q (cursor_of s) limit s1 = (Inr batch, s2) \<and> pb_disposition batch = POLL_OK
          \<and> pb_expected_cursor batch = cursor_of s \<and> pb_deliveries batch \<noteq> []
          \<and> set (pb_deliveries batch) \<subseteq> accepted s' \<and> cursor_of s' = pb_candidate_cursor batch)))"

lemma checkpoint_stays: "cursor_of s' = cursor_of s \<Longrightarrow> accepted s \<subseteq> accepted s' \<Longrightarrow> checkpoint_step q cursor_of accepted limit s s'"
  by (simp add: checkpoint_step_def)

lemma checkpoint_step_frame:
  assumes "checkpoint_step q cursor_of accepted limit s1 s2"
    and "cursor_of s1 = cursor_of s0" "accepted s0 \<subseteq> accepted s1" "cursor_of s3 = cursor_of s2" "accepted s2 \<subseteq> accepted s3"
  shows "checkpoint_step q cursor_of accepted limit s0 s3"
  using assms unfolding checkpoint_step_def by (metis order_trans)

lemma commit_batch_steps:
  assumes d: "durable_polling q cursor_of accepted" and "commit_batch q version now batch s = (r, s')"
    and p: "pq_poll q (cursor_of s) limit s0 = (Inr batch, s)" "pb_disposition batch = POLL_OK"
      "pb_expected_cursor batch = cursor_of s"
  shows "checkpoint_step q cursor_of accepted limit s s'"
proof -
  obtain a s1 where a: "call_each (pq_accept_delivery q (pq_scope q) (pq_key q)) (pb_deliveries batch) s = (a, s1)"
    by (cases "call_each (pq_accept_delivery q (pq_scope q) (pq_key q)) (pb_deliveries batch) s")
  note acc = accept_all [OF d a]
  obtain v s2 where v: "pq_advance_checkpoint q (pq_scope q) (pq_key q) version (pb_candidate_cursor batch) now s1 = (v, s2)"
    by (cases "pq_advance_checkpoint q (pq_scope q) (pq_key q) version (pb_candidate_cursor batch) now s1")
  note adv = durable_pollingD(8) [OF d v]
  consider (refused) e where "a = Inl e" | (empty) "a = Inr ()" "pb_deliveries batch = []"
    | (conflict) e where "a = Inr ()" "pb_deliveries batch \<noteq> []" "v = Inl e"
    | (advanced) "a = Inr ()" "pb_deliveries batch \<noteq> []" "v = Inr ()"
    by (cases a; cases v) auto
  then show ?thesis
  proof cases
    case refused
    then have "poll_failure q now ''durable_accept_failed'' False s1 = (r, s')"
      using assms(2) a by (simp add: commit_batch_def)
    from poll_failure_keeps [OF d this] show ?thesis using acc by (intro checkpoint_stays) auto
  next
    case empty
    then have "report_healthy q now 0 False s1 = (r, s')"
      using assms(2) a by (simp add: commit_batch_def)
    from report_healthy_keeps [OF d this] show ?thesis using acc by (intro checkpoint_stays) auto
  next
    case conflict
    then have "poll_failure q now ''checkpoint_conflict'' False s2 = (r, s')"
      using assms(2) a v by (simp add: commit_batch_def Let_def)
    from poll_failure_keeps [OF d this] show ?thesis using acc adv conflict by (intro checkpoint_stays) auto
  next
    case advanced
    then have "report_healthy q now (int (length (pb_deliveries batch))) True s2 = (r, s')"
      using assms(2) a v by (simp add: commit_batch_def Let_def)
    from report_healthy_keeps [OF d this]
    have "cursor_of s' = pb_candidate_cursor batch" "accepted s \<subseteq> accepted s'" "set (pb_deliveries batch) \<subseteq> accepted s'"
      using acc adv advanced by auto
    then show ?thesis using p advanced(2) unfolding checkpoint_step_def by blast
  qed
qed

lemma run_leased_steps:
  assumes d: "durable_polling q cursor_of accepted" and "run_leased q (cursor_of s) version limit now s = (r, s')"
  shows "checkpoint_step q cursor_of accepted limit s s'"
proof -
  obtain b s1 where b: "pq_poll q (cursor_of s) limit s = (b, s1)" by (cases "pq_poll q (cursor_of s) limit s")
  note k = keeps_worldD [OF durable_pollingD(5) [OF d] b]
  have failing: "checkpoint_step q cursor_of accepted limit s s'" if "poll_failure q now code paused s1 = (r, s')" for code paused
    using poll_failure_keeps [OF d that] k by (intro checkpoint_stays) auto
  show ?thesis
  proof (cases b)
    case (Inl e)
    then show ?thesis using assms(2) b failing by (simp add: run_leased_def)
  next
    case (Inr batch)
    show ?thesis
    proof (cases "pb_expected_cursor batch = cursor_of s \<and> pb_disposition batch = POLL_OK")
      case True
      then have "commit_batch q version now batch s1 = (r, s')" using assms(2) b Inr by (simp add: run_leased_def)
      moreover have "pq_poll q (cursor_of s1) limit s = (Inr batch, s1)" using b Inr k by simp
      ultimately have "checkpoint_step q cursor_of accepted limit s1 s'"
        using commit_batch_steps [OF d] True k by metis
      then show ?thesis using k by (auto intro: checkpoint_step_frame)
    next
      case False
      then show ?thesis using assms(2) b Inr failing by (auto simp: run_leased_def split: if_splits)
    qed
  qed
qed

lemma leased_section_steps:
  assumes d: "durable_polling q cursor_of accepted" and "leased_section q limit now s = (r, s')"
  shows "checkpoint_step q cursor_of accepted limit s s'"
proof -
  let ?inner = "and_then (pq_load_checkpoint q (pq_scope q) (pq_key q) s) (\<lambda>(cursor, version, leased_status) s1.
    if leased_status = ''paused'' then (Inr poll_paused, s1) else run_leased q cursor version limit now s1)"
  obtain c s1 where l: "pq_load_checkpoint q (pq_scope q) (pq_key q) s = (c, s1)"
    by (cases "pq_load_checkpoint q (pq_scope q) (pq_key q) s")
  note k1 = keeps_worldD [OF durable_pollingD(1) [OF d] l]
  obtain res s2 where i: "?inner = (res, s2)" by (cases ?inner)
  obtain f s3 where f: "pq_release q (pq_scope q) (pq_key q) (pq_worker_id q) now s2 = (f, s3)"
    by (cases "pq_release q (pq_scope q) (pq_key q) (pq_worker_id q) now s2")
  note k3 = keeps_worldD [OF durable_pollingD(3) [OF d] f]
  have "checkpoint_step q cursor_of accepted limit s1 s2"
  proof (cases c)
    case (Inl e)
    then show ?thesis using i l by (auto intro: checkpoint_stays)
  next
    case (Inr x)
    obtain cursor version status where x: "x = (cursor, version, status)" by (cases x)
    have "cursor = cursor_of s1" using loads_checkpoint [OF d l [unfolded Inr]] x k1 by simp
    then show ?thesis
      using i l Inr x run_leased_steps [OF d] by (auto intro: checkpoint_stays split: if_splits)
  qed
  moreover have "s3 = s'" using assms(2) i f by (cases f) (auto simp: leased_section_def)
  ultimately show ?thesis using k1 k3 by (auto intro: checkpoint_step_frame)
qed

text \<open>
  C20. No delivery is skipped. Over a polling state that stores what it accepts and moves its checkpoint only
  by an advance, a run that changes the checkpoint, whether it returns or raises, moved it to the candidate of
  a batch that was polled successfully from the old checkpoint and every delivery of which is durably stored;
  and no stored delivery is lost.
\<close>
theorem checkpoint_follows_durable_acceptance:
  assumes "durable_polling q cursor_of accepted" and "poll_run_once q limit now s = (r, s')"
  shows "checkpoint_step q cursor_of accepted limit s s'"
proof (cases "1 \<le> limit \<and> limit \<le> 1000")
  case False
  then show ?thesis using assms(2) by (auto simp: poll_run_once_def intro: checkpoint_stays)
next
  case True
  note d = assms(1)
  obtain c1 s1 where l1: "pq_load_checkpoint q (pq_scope q) (pq_key q) s = (c1, s1)"
    by (cases "pq_load_checkpoint q (pq_scope q) (pq_key q) s")
  obtain a s2 where ac: "pq_acquire q (pq_scope q) (pq_key q) (pq_worker_id q) now (pq_lease_seconds q) s1 = (a, s2)"
    by (cases "pq_acquire q (pq_scope q) (pq_key q) (pq_worker_id q) now (pq_lease_seconds q) s1")
  note k1 = keeps_worldD [OF durable_pollingD(1) [OF d] l1] and k2 = keeps_worldD [OF durable_pollingD(2) [OF d] ac]
  have "s' = s1 \<or> poll_failure q now ''lease_unavailable'' False s2 = (r, s') \<or> leased_section q limit now s2 = (r, s')"
  proof (cases c1)
    case (Inl e)
    then show ?thesis using assms(2) True l1 by (simp add: poll_run_once_def)
  next
    case (Inr x)
    then show ?thesis
      using assms(2) True l1 ac
      by (cases x; cases a; cases "observer_require_aware now ''clock''")
        (simp_all add: poll_run_once_def split: if_splits)
  qed
  then consider (early) "s' = s1" | (busy) "poll_failure q now ''lease_unavailable'' False s2 = (r, s')"
    | (leased) "leased_section q limit now s2 = (r, s')" by blast
  then show ?thesis
  proof cases
    case early
    then show ?thesis using k1 by (auto intro: checkpoint_stays)
  next
    case busy
    then show ?thesis using k1 k2 poll_failure_keeps [OF d busy] by (intro checkpoint_stays) auto
  next
    case leased
    have "checkpoint_step q cursor_of accepted limit s2 s'" by (rule leased_section_steps [OF d leased])
    then show ?thesis
      by (rule checkpoint_step_frame) (use k1 k2 in \<open>simp_all, blast\<close>)
  qed
qed

text \<open>A polling state in memory: the checkpoint with its version, and the stored deliveries.\<close>

definition demo_delivery :: raw_delivery where
  "demo_delivery = \<lparr>rd_delivery_id = ''m1'', rd_exact_bytes = ''body'', rd_media_type = ''message/rfc822'',
     rd_received_at = Aware 0\<rparr>"

definition demo_poller :: "((string option \<times> int) \<times> raw_delivery set) poll_scheduler" where
  "demo_poller = \<lparr>pq_acquire = (\<lambda>_ _ _ _ _ s. (Inr (), s)), pq_release = (\<lambda>_ _ _ _ s. (Inr (), s)),
     pq_load_checkpoint = (\<lambda>_ _ s. (Inr (fst (fst s), snd (fst s), ''healthy''), s)),
     pq_accept_delivery = (\<lambda>_ _ d s. (Inr (), (fst s, insert d (snd s)))),
     pq_advance_checkpoint = (\<lambda>_ _ v c _ s. if snd (fst s) = v then (Inr (), ((c, v + 1), snd s)) else (Inl ObsOtherError, s)),
     pq_update_health = (\<lambda>_ _ _ _ _ s. (Inr (), s)),
     pq_poll = (\<lambda>c _ s. (Inr \<lparr>pb_disposition = POLL_OK, pb_expected_cursor = c, pb_candidate_cursor = Some ''42'',
        pb_deliveries = [demo_delivery], pb_error_code = None\<rparr>, s)),
     pq_scope = \<lparr>ts_site_id = ''a'', ts_processing_purpose = ''observation_processing''\<rparr>,
     pq_key = \<lparr>ck_connector = ''email'', ck_instance_id = ''inbox''\<rparr>, pq_worker_id = ''w'', pq_lease_seconds = 60\<rparr>"

theorem checkpoint_follows_durable_acceptance_witness:
  "\<exists>r s'. poll_run_once demo_poller 10 (Aware 5) ((None, 0), {}) = (r, s')
     \<and> fst (fst s') = Some ''42'' \<and> demo_delivery \<in> snd s'"
proof -
  have run: "poll_run_once demo_poller 10 (Aware 5) ((None, 0), {})
      = (Inr \<lparr>plr_status = ''ok'', plr_accepted_count = 1, plr_checkpoint_advanced = True, plr_safe_error_code = None\<rparr>,
         ((Some ''42'', 1), {demo_delivery}))"
    by (simp add: poll_run_once_def leased_section_def run_leased_def commit_batch_def report_healthy_def demo_poller_def
        observer_require_aware_def Let_def)
  have "durable_polling demo_poller (\<lambda>s. fst (fst s)) snd"
    by (auto simp: durable_polling_def keeps_world_def demo_poller_def split: if_splits)
  from checkpoint_follows_durable_acceptance [OF this run] run show ?thesis
    by (auto simp: checkpoint_step_def demo_poller_def)
qed

end
