(* ===== verification/Evidence_Store.thy ===== *)
theory Evidence_Store
  imports Observer_Models "HOL-Library.AList"
begin

text \<open>
  The content-addressed evidence store (\<open>services/observer/observer/evidence_store.py\<close>). The directory
  tree is a dictionary from a site partition and a digest to the bytes of the file; anything outside the
  store may have changed those bytes, so nothing is assumed of them. The guards against symbolic links
  and path escapes concern the file system itself and are not modelled: a partition and a digest consist
  of hexadecimal digits.
\<close>

section \<open>References\<close>

type_synonym object_files = "((string \<times> string) \<times> string) list"

definition partition_of :: "tenant_scope \<Rightarrow> string" where
  "partition_of scope = take 32 (sha256_hex (''site:'' @ ts_site_id scope))"

definition object_ref_of :: "tenant_scope \<Rightarrow> string \<Rightarrow> string" where
  "object_ref_of scope digest = ''obs:v1:'' @ partition_of scope @ '':sha256:'' @ digest"

definition parse_ref :: "tenant_scope \<Rightarrow> string \<Rightarrow> string observer_result" where
  "parse_ref scope object_ref =
     (let parts = split_on (CHR '':'') object_ref in
      if length parts \<noteq> 5 \<or> take 2 parts \<noteq> [''obs'', ''v1''] \<or> parts ! 3 \<noteq> ''sha256''
      then Inl (EvidenceStoreError ''invalid opaque object reference'')
      else if parts ! 2 \<noteq> partition_of scope
      then Inl (SiteIsolationError ''object reference belongs to another site'')
      else if \<not> is_sha256_text (parts ! 4) then Inl (EvidenceStoreError ''invalid object digest'')
      else Inr (parts ! 4))"

section \<open>Operations\<close>

definition verify_object :: "string \<Rightarrow> string \<Rightarrow> string observer_result" where
  "verify_object content expected_digest =
     (if sha256_hex content \<noteq> expected_digest
      then Inl (EvidenceIntegrityError ''stored object sha256 verification failed'')
      else Inr content)"

definition store_put ::
  "tenant_scope \<Rightarrow> string \<Rightarrow> string \<Rightarrow> object_files \<Rightarrow> (observer_error, stored_object, object_files) call" where
  "store_put scope content media_type fs =
     (let digest = sha256_hex content;
          key = (partition_of scope, digest);
          stored = \<lparr>so_object_ref = object_ref_of scope digest, so_sha256 = digest, so_size = int (length content),
                    so_media_type = media_type\<rparr> in
      if media_type = [] then (Inl (ObsValueError ''media_type is required''), fs)
      else case map_of fs key of
        Some existing \<Rightarrow>
          (case verify_object existing digest of Inl e \<Rightarrow> (Inl e, fs) | Inr _ \<Rightarrow> (Inr stored, fs))
      | None \<Rightarrow> (Inr stored, AList.update key content fs))"

definition store_read :: "tenant_scope \<Rightarrow> string \<Rightarrow> object_files \<Rightarrow> string observer_result" where
  "store_read scope object_ref fs =
     (case parse_ref scope object_ref of
        Inl e \<Rightarrow> Inl e
      | Inr digest \<Rightarrow>
          (case map_of fs (partition_of scope, digest) of
             None \<Rightarrow> Inl (FileNotFoundError ''evidence object not found'')
           | Some content \<Rightarrow> verify_object content digest))"

definition store_delete ::
  "tenant_scope \<Rightarrow> string \<Rightarrow> object_files \<Rightarrow> (observer_error, unit, object_files) call" where
  "store_delete scope object_ref fs =
     (case parse_ref scope object_ref of
        Inl e \<Rightarrow> (Inl e, fs)
      | Inr digest \<Rightarrow>
          (case map_of fs (partition_of scope, digest) of
             None \<Rightarrow> (Inr (), fs)
           | Some content \<Rightarrow>
               (case verify_object content digest of
                  Inl e \<Rightarrow> (Inl e, fs)
                | Inr _ \<Rightarrow> (Inr (), AList.delete (partition_of scope, digest) fs))))"

definition store_exists :: "tenant_scope \<Rightarrow> string \<Rightarrow> object_files \<Rightarrow> bool observer_result" where
  "store_exists scope object_ref fs =
     (case parse_ref scope object_ref of
        Inl e \<Rightarrow> Inl e
      | Inr digest \<Rightarrow>
          (case map_of fs (partition_of scope, digest) of
             None \<Rightarrow> Inr False
           | Some content \<Rightarrow> (case verify_object content digest of Inl e \<Rightarrow> Inl e | Inr _ \<Rightarrow> Inr True)))"

section \<open>References parse back\<close>

lemma hex_no_colon: "CHR '':'' \<notin> set (sha256_hex s)"
proof
  assume "CHR '':'' \<in> set (sha256_hex s)"
  then have "is_hex_char (CHR '':'')" by (rule sha256_hex_chars)
  then show False by code_simp
qed

lemma partition_no_colon: "CHR '':'' \<notin> set (partition_of scope)"
  using hex_no_colon set_take_subset unfolding partition_of_def by fast

lemma sha_text_no_colon: "is_sha256_text d \<Longrightarrow> CHR '':'' \<notin> set d"
proof
  assume "is_sha256_text d" and "CHR '':'' \<in> set d"
  then have "is_hex_char (CHR '':'')" by (auto simp: is_sha256_text_def list_all_iff)
  then show False by code_simp
qed

lemma split_object_ref:
  assumes "is_sha256_text d"
  shows "split_on (CHR '':'') (object_ref_of scope d) = [''obs'', ''v1'', partition_of scope, ''sha256'', d]"
proof -
  have "object_ref_of scope d = ''obs'' @ CHR '':'' # ''v1'' @ CHR '':'' # partition_of scope @ CHR '':'' # ''sha256'' @ CHR '':'' # d"
    by (simp add: object_ref_of_def)
  then show ?thesis
    using partition_no_colon [of scope] sha_text_no_colon [OF assms]
    by (simp only: split_on_append split_on_plain set_simps) (simp add: split_on_append split_on_plain)
qed

lemma parse_own_ref: "is_sha256_text d \<Longrightarrow> parse_ref scope (object_ref_of scope d) = Inr d"
  by (simp add: parse_ref_def split_object_ref)

lemma parse_foreign_ref:
  "is_sha256_text d \<Longrightarrow> partition_of other \<noteq> partition_of scope
     \<Longrightarrow> parse_ref other (object_ref_of scope d) = Inl (SiteIsolationError ''object reference belongs to another site'')"
  by (simp add: parse_ref_def split_object_ref)

lemma parse_ref_sha: "parse_ref scope ref = Inr d \<Longrightarrow> is_sha256_text d"
  by (auto simp: parse_ref_def Let_def split: if_splits)

section \<open>Integrity, round trip and isolation\<close>

lemma store_read_sound:
  "store_read scope ref fs = Inr content \<Longrightarrow> \<exists>d. parse_ref scope ref = Inr d \<and> sha256_hex content = d
     \<and> map_of fs (partition_of scope, d) = Some content"
  by (auto simp: store_read_def verify_object_def split: sum.splits option.splits if_splits)

lemma store_put_ok:
  assumes "store_put scope content media_type fs = (Inr stored, fs')"
  shows "so_object_ref stored = object_ref_of scope (sha256_hex content)" and "so_sha256 stored = sha256_hex content"
    and "so_size stored = int (length content)"
    and "fs' = fs \<and> (\<exists>c. map_of fs (partition_of scope, sha256_hex content) = Some c \<and> sha256_hex c = sha256_hex content)
       \<or> map_of fs (partition_of scope, sha256_hex content) = None
         \<and> fs' = AList.update (partition_of scope, sha256_hex content) content fs"
  using assms
  by (auto simp: store_put_def Let_def verify_object_def split: if_splits option.splits sum.splits)

lemma map_of_delete [simp]: "map_of (AList.delete k al) k' = (if k' = k then None else map_of al k')"
  by (simp add: delete_conv')

text \<open>
  C21. What the store returns is what was stored, or an error. Whatever happened to the files, a read
  returns only bytes whose SHA-256 digest is the one in the reference. After a successful put, reading
  the returned reference in the same site yields bytes of the same digest, which are exactly the bytes
  put when the object was new; and the reference reads in no site with another partition.
\<close>
theorem evidence_store_round_trip:
  assumes "store_put scope content media_type fs = (Inr stored, fs')"
  shows "\<exists>bytes. store_read scope (so_object_ref stored) fs' = Inr bytes
     \<and> sha256_hex bytes = so_sha256 stored \<and> so_sha256 stored = sha256_hex content
     \<and> (map_of fs (partition_of scope, sha256_hex content) = None \<longrightarrow> bytes = content)
     \<and> (\<forall>other. partition_of other \<noteq> partition_of scope \<longrightarrow>
          store_read other (so_object_ref stored) fs' = Inl (SiteIsolationError ''object reference belongs to another site''))
     \<and> (\<forall>tampered b. store_read scope (so_object_ref stored) tampered = Inr b \<longrightarrow> sha256_hex b = sha256_hex content)"
proof -
  note put = store_put_ok [OF assms]
  have own: "parse_ref scope (so_object_ref stored) = Inr (sha256_hex content)"
    by (simp add: put(1) parse_own_ref)
  have "\<exists>bytes. store_read scope (so_object_ref stored) fs' = Inr bytes \<and> sha256_hex bytes = sha256_hex content
     \<and> (map_of fs (partition_of scope, sha256_hex content) = None \<longrightarrow> bytes = content)"
    using put(4) by (auto simp: store_read_def own verify_object_def)
  moreover have "store_read other (so_object_ref stored) fs'
      = Inl (SiteIsolationError ''object reference belongs to another site'')"
    if "partition_of other \<noteq> partition_of scope" for other
    using that by (simp add: store_read_def put(1) parse_foreign_ref)
  moreover have "sha256_hex b = sha256_hex content" if "store_read scope (so_object_ref stored) tampered = Inr b" for tampered b
    using store_read_sound [OF that] own by auto
  ultimately show ?thesis using put(2) by auto
qed

definition demo_scope :: tenant_scope where
  "demo_scope = \<lparr>ts_site_id = ''a'', ts_processing_purpose = ''risk_review''\<rparr>"

theorem evidence_store_round_trip_witness:
  "\<exists>stored fs'. store_put demo_scope ''bytes'' ''text/plain'' [] = (Inr stored, fs')
     \<and> store_read demo_scope (so_object_ref stored) fs' = Inr ''bytes''"
proof -
  obtain stored fs' where p: "store_put demo_scope ''bytes'' ''text/plain'' [] = (Inr stored, fs')"
    by (simp add: store_put_def Let_def)
  from evidence_store_round_trip [OF p] p show ?thesis by auto
qed

section \<open>The store as an object store\<close>

text \<open>
  What the evidence lifecycle relies on: a deletion that returns leaves no readable object behind the
  reference, makes no object readable, and a deletion that raises changes nothing.
\<close>

locale object_store =
  fixes remove :: "tenant_scope \<Rightarrow> string \<Rightarrow> 's \<Rightarrow> (observer_error, unit, 's) call"
    and readable :: "tenant_scope \<Rightarrow> string \<Rightarrow> 's \<Rightarrow> bool"
  assumes removed: "remove scope ref s = (Inr (), s') \<Longrightarrow> \<not> readable scope ref s'"
    and only_removes: "remove scope ref s = (res, s') \<Longrightarrow> readable other ref' s' \<Longrightarrow> readable other ref' s"
    and failed_remove: "remove scope ref s = (Inl e, s') \<Longrightarrow> s' = s"

definition store_readable :: "tenant_scope \<Rightarrow> string \<Rightarrow> object_files \<Rightarrow> bool" where
  "store_readable scope ref fs = (\<exists>bytes. store_read scope ref fs = Inr bytes)"

interpretation evidence_files: object_store store_delete store_readable
proof
  fix scope ref s s'
  assume "store_delete scope ref s = (Inr (), s')"
  then show "\<not> store_readable scope ref s'"
    by (auto simp: store_delete_def store_readable_def store_read_def split: sum.splits option.splits)
next
  fix scope ref s res s' other ref'
  assume "store_delete scope ref s = (res, s')" and "store_readable other ref' s'"
  then show "store_readable other ref' s"
    by (auto simp: store_delete_def store_readable_def store_read_def split: sum.splits option.splits if_splits)
next
  fix scope ref s e s'
  assume "store_delete scope ref s = (Inl e, s')"
  then show "s' = s"
    by (auto simp: store_delete_def split: sum.splits option.splits)
qed

end
