(* ===== verification/Evidence_Lifecycle.thy ===== *)
theory Evidence_Lifecycle
  imports Evidence_Store
begin

text \<open>
  Retention, withdrawal, legal hold and deletion of evidence (\<open>services/observer/observer/lifecycle.py\<close>).
  The object store the lifecycle deletes from is an argument of \<open>life_delete\<close>; the general results are
  proved for every object store and apply to the content-addressed one.
\<close>

declare split_paired_All [simp del] split_paired_Ex [simp del]

section \<open>State\<close>

record deletion_tombstone =
  dt_site_id :: string
  dt_evidence_id :: string
  dt_sha256 :: string
  dt_retention_class :: string
  dt_deleted_at :: datetime
  dt_reason :: string

record lifecycle_record =
  lr_scope :: tenant_scope
  lr_evidence_id :: string
  lr_stored :: stored_object
  lr_retention_class :: string
  lr_recorded_at :: datetime
  lr_withdrawn_at :: "datetime option"
  lr_withdrawal_reason :: "string option"
  lr_hold_id :: "string option"
  lr_tombstone :: "deletion_tombstone option"

definition microseconds_per_day :: int where
  "microseconds_per_day = 86400 * 1000000"

definition retention_windows :: "(string \<times> int option) list" where
  "retention_windows =
     [(''R0-ephemeral'', Some 0), (''R1-operational'', Some (30 * microseconds_per_day)),
      (''R2-record'', None), (''R3-legal-hold'', None)]"

record 's evidence_lifecycle =
  el_records :: "((string \<times> string) \<times> lifecycle_record) list"
  el_store :: 's

definition lifecycle_new :: "'s \<Rightarrow> 's evidence_lifecycle" where
  "lifecycle_new store = \<lparr>el_records = [], el_store = store\<rparr>"

type_synonym ('a, 's) life_call = "(observer_error, 'a, 's evidence_lifecycle) call"

definition put_record :: "lifecycle_record \<Rightarrow> string \<times> string \<Rightarrow> 's evidence_lifecycle \<Rightarrow> 's evidence_lifecycle" where
  "put_record rec key l = l\<lparr>el_records := AList.update key rec (el_records l)\<rparr>"

section \<open>Operations\<close>

definition life_get :: "tenant_scope \<Rightarrow> string \<Rightarrow> 's evidence_lifecycle \<Rightarrow> lifecycle_record observer_result" where
  "life_get scope evidence_id l =
     (case map_of (el_records l) (ts_site_id scope, evidence_id) of
        None \<Rightarrow> Inl (EvidenceNotFound ''evidence lifecycle not found in tenant scope'')
      | Some rec \<Rightarrow>
          if ts_processing_purpose (lr_scope rec) \<noteq> ts_processing_purpose scope
          then Inl (EvidenceNotFound ''evidence lifecycle not found in tenant scope'')
          else Inr rec)"

definition life_register ::
  "tenant_scope \<Rightarrow> string \<Rightarrow> stored_object \<Rightarrow> string \<Rightarrow> datetime \<Rightarrow> 's evidence_lifecycle \<Rightarrow> (unit, 's) life_call" where
  "life_register scope evidence_id stored retention_class recorded_at l =
     (let key = (ts_site_id scope, evidence_id) in
      if retention_class \<notin> set (map fst retention_windows) then (Inl (ObsValueError ''unknown retention_class''), l)
      else if map_of (el_records l) key \<noteq> None then (Inl (LifecycleError ''evidence lifecycle already registered''), l)
      else (Inr (), put_record
             \<lparr>lr_scope = scope, lr_evidence_id = evidence_id, lr_stored = stored,
              lr_retention_class = retention_class, lr_recorded_at = recorded_at, lr_withdrawn_at = None,
              lr_withdrawal_reason = None, lr_hold_id = None, lr_tombstone = None\<rparr> key l))"

definition record_due_at :: "lifecycle_record \<Rightarrow> datetime option" where
  "record_due_at rec =
     (case map_of retention_windows (lr_retention_class rec) of
        Some (Some window) \<Rightarrow> Some (shift_time (lr_recorded_at rec) window)
      | _ \<Rightarrow> None)"

definition retention_due_at ::
  "tenant_scope \<Rightarrow> string \<Rightarrow> 's evidence_lifecycle \<Rightarrow> datetime option observer_result" where
  "retention_due_at scope evidence_id l =
     (case life_get scope evidence_id l of
        Inl e \<Rightarrow> Inl e
      | Inr rec \<Rightarrow> Inr (record_due_at rec))"

definition life_withdraw ::
  "tenant_scope \<Rightarrow> string \<Rightarrow> datetime \<Rightarrow> string \<Rightarrow> 's evidence_lifecycle \<Rightarrow> (unit, 's) life_call" where
  "life_withdraw scope evidence_id at reason l =
     (if strip reason = [] then (Inl (ObsValueError ''withdrawal reason is required''), l)
      else case life_get scope evidence_id l of
        Inl e \<Rightarrow> (Inl e, l)
      | Inr rec \<Rightarrow>
          (Inr (), put_record (rec\<lparr>lr_withdrawn_at := Some at, lr_withdrawal_reason := Some reason\<rparr>)
                     (ts_site_id scope, evidence_id) l))"

definition place_legal_hold ::
  "tenant_scope \<Rightarrow> string \<Rightarrow> string \<Rightarrow> datetime \<Rightarrow> 's evidence_lifecycle \<Rightarrow> (unit, 's) life_call" where
  "place_legal_hold scope evidence_id hold_id at l =
     (if hold_id = [] then (Inl (ObsValueError ''hold_id is required''), l)
      else case life_get scope evidence_id l of
        Inl e \<Rightarrow> (Inl e, l)
      | Inr rec \<Rightarrow>
          if lr_tombstone rec \<noteq> None then (Inl (LifecycleError ''cannot hold deleted evidence''), l)
          else if lr_hold_id rec \<noteq> None \<and> lr_hold_id rec \<noteq> Some hold_id
          then (Inl (LegalHoldError ''another legal hold is already active''), l)
          else (Inr (), put_record (rec\<lparr>lr_hold_id := Some hold_id\<rparr>) (ts_site_id scope, evidence_id) l))"

definition release_legal_hold ::
  "tenant_scope \<Rightarrow> string \<Rightarrow> string \<Rightarrow> datetime \<Rightarrow> 's evidence_lifecycle \<Rightarrow> (unit, 's) life_call" where
  "release_legal_hold scope evidence_id hold_id at l =
     (case life_get scope evidence_id l of
        Inl e \<Rightarrow> (Inl e, l)
      | Inr rec \<Rightarrow>
          if lr_hold_id rec \<noteq> Some hold_id then (Inl (LegalHoldError ''legal hold identity mismatch''), l)
          else (Inr (), put_record (rec\<lparr>lr_hold_id := None\<rparr>) (ts_site_id scope, evidence_id) l))"

text \<open>Comparing a naive with an aware time raises.\<close>

fun time_before :: "datetime \<Rightarrow> datetime \<Rightarrow> bool observer_result" where
  "time_before (Aware a) (Aware b) = Inr (a < b)"
| "time_before (Naive a) (Naive b) = Inr (a < b)"
| "time_before _ _ = Inl (ObsTypeError ''can't compare offset-naive and offset-aware datetimes'')"

definition not_yet_eligible :: "lifecycle_record \<Rightarrow> datetime \<Rightarrow> bool observer_result" where
  "not_yet_eligible rec at =
     (if lr_withdrawn_at rec \<noteq> None then Inr False
      else case record_due_at rec of
        None \<Rightarrow> Inr True
      | Some due \<Rightarrow> time_before at due)"

definition deletion_reason :: "string option \<Rightarrow> lifecycle_record \<Rightarrow> string" where
  "deletion_reason reason rec =
     (case reason of Some (c # cs) \<Rightarrow> c # cs
      | _ \<Rightarrow> (case lr_withdrawal_reason rec of Some (c # cs) \<Rightarrow> c # cs | _ \<Rightarrow> ''retention expired''))"

definition life_delete ::
  "(tenant_scope \<Rightarrow> string \<Rightarrow> 's \<Rightarrow> (observer_error, unit, 's) call)
     \<Rightarrow> tenant_scope \<Rightarrow> string \<Rightarrow> datetime \<Rightarrow> string option \<Rightarrow> 's evidence_lifecycle \<Rightarrow> (deletion_tombstone, 's) life_call" where
  "life_delete remove scope evidence_id at reason l =
     (case life_get scope evidence_id l of
        Inl e \<Rightarrow> (Inl e, l)
      | Inr rec \<Rightarrow>
     (case lr_tombstone rec of
        Some t \<Rightarrow> (Inr t, l)
      | None \<Rightarrow>
     if lr_hold_id rec \<noteq> None then (Inl (LegalHoldError ''legal hold blocks deletion''), l)
     else case not_yet_eligible rec at of
        Inl e \<Rightarrow> (Inl e, l)
      | Inr True \<Rightarrow> (Inl (LifecycleError ''evidence is not eligible for deletion''), l)
      | Inr False \<Rightarrow>
     (case remove scope (so_object_ref (lr_stored rec)) (el_store l) of
        (Inl e, store) \<Rightarrow> (Inl e, l\<lparr>el_store := store\<rparr>)
      | (Inr _, store) \<Rightarrow>
          (let t = \<lparr>dt_site_id = ts_site_id scope, dt_evidence_id = evidence_id,
                    dt_sha256 = so_sha256 (lr_stored rec), dt_retention_class = lr_retention_class rec,
                    dt_deleted_at = at, dt_reason = deletion_reason reason rec\<rparr> in
           (Inr t, put_record (rec\<lparr>lr_tombstone := Some t\<rparr>) (ts_site_id scope, evidence_id)
                     (l\<lparr>el_store := store\<rparr>))))))"

section \<open>Histories\<close>

datatype life_op =
    Register tenant_scope string stored_object string datetime
  | Withdraw tenant_scope string datetime string
  | Hold tenant_scope string string datetime
  | Release tenant_scope string string datetime
  | Delete tenant_scope string datetime "string option"

fun run_life ::
  "(tenant_scope \<Rightarrow> string \<Rightarrow> 's \<Rightarrow> (observer_error, unit, 's) call)
     \<Rightarrow> life_op \<Rightarrow> 's evidence_lifecycle \<Rightarrow> 's evidence_lifecycle" where
  "run_life remove (Register sc i st rc at) l = snd (life_register sc i st rc at l)"
| "run_life remove (Withdraw sc i at r) l = snd (life_withdraw sc i at r l)"
| "run_life remove (Hold sc i h at) l = snd (place_legal_hold sc i h at l)"
| "run_life remove (Release sc i h at) l = snd (release_legal_hold sc i h at l)"
| "run_life remove (Delete sc i at r) l = snd (life_delete remove sc i at r l)"

text \<open>Between two operations of the lifecycle the store may change in any way (new evidence is put).\<close>

inductive life_step ::
  "(tenant_scope \<Rightarrow> string \<Rightarrow> 's \<Rightarrow> (observer_error, unit, 's) call) \<Rightarrow> 's evidence_lifecycle \<Rightarrow> 's evidence_lifecycle \<Rightarrow> bool"
  for remove where
  life_op: "life_step remove l (run_life remove op l)"
| store_change: "life_step remove l (l\<lparr>el_store := s\<rparr>)"

definition life_reachable ::
  "(tenant_scope \<Rightarrow> string \<Rightarrow> 's \<Rightarrow> (observer_error, unit, 's) call) \<Rightarrow> 's evidence_lifecycle \<Rightarrow> bool" where
  "life_reachable remove l = (\<exists>s. (life_step remove)\<^sup>*\<^sup>* (lifecycle_new s) l)"

text \<open>What a record may become in one operation.\<close>

definition eligible_at :: "lifecycle_record \<Rightarrow> datetime \<Rightarrow> bool" where
  "eligible_at rec at = (not_yet_eligible rec at = Inr False)"

inductive record_move :: "lifecycle_record \<Rightarrow> lifecycle_record \<Rightarrow> bool" where
  stay: "record_move rec rec"
| withdrawn: "record_move rec (rec\<lparr>lr_withdrawn_at := Some at, lr_withdrawal_reason := Some reason\<rparr>)"
| held: "lr_tombstone rec = None \<Longrightarrow> lr_hold_id rec = None \<or> lr_hold_id rec = Some h
     \<Longrightarrow> record_move rec (rec\<lparr>lr_hold_id := Some h\<rparr>)"
| released: "record_move rec (rec\<lparr>lr_hold_id := None\<rparr>)"
| deleted: "lr_tombstone rec = None \<Longrightarrow> lr_hold_id rec = None \<Longrightarrow> eligible_at rec at
     \<Longrightarrow> record_move rec (rec\<lparr>lr_tombstone := Some
          \<lparr>dt_site_id = ts_site_id (lr_scope rec), dt_evidence_id = lr_evidence_id rec,
           dt_sha256 = so_sha256 (lr_stored rec), dt_retention_class = lr_retention_class rec,
           dt_deleted_at = at, dt_reason = deletion_reason reason rec\<rparr>\<rparr>)"

inductive_simps record_move_simps: "record_move rec rec'"

definition fresh_record :: "string \<times> string \<Rightarrow> lifecycle_record \<Rightarrow> bool" where
  "fresh_record key rec =
     (key = (ts_site_id (lr_scope rec), lr_evidence_id rec) \<and> lr_withdrawn_at rec = None
      \<and> lr_hold_id rec = None \<and> lr_tombstone rec = None)"

lemma life_get_Inr:
  "life_get scope i l = Inr rec \<longleftrightarrow>
     map_of (el_records l) (ts_site_id scope, i) = Some rec
     \<and> ts_processing_purpose (lr_scope rec) = ts_processing_purpose scope"
  by (auto simp: life_get_def split: option.splits)

lemma put_record_map: "map_of (el_records (put_record rec k l)) k' = (if k' = k then Some rec else map_of (el_records l) k')"
  by (simp add: put_record_def)

definition keyed :: "'s evidence_lifecycle \<Rightarrow> bool" where
  "keyed l = (\<forall>k rec. map_of (el_records l) k = Some rec \<longrightarrow> k = (ts_site_id (lr_scope rec), lr_evidence_id rec))"

text \<open>Every operation leaves each existing record as it is or moves it, and adds only fresh records.\<close>

definition moves_records :: "'s evidence_lifecycle \<Rightarrow> 's evidence_lifecycle \<Rightarrow> bool" where
  "moves_records l l' =
     (\<forall>k. case map_of (el_records l) k of
            None \<Rightarrow> (\<forall>rec. map_of (el_records l') k = Some rec \<longrightarrow> fresh_record k rec)
          | Some rec \<Rightarrow> (\<exists>rec'. map_of (el_records l') k = Some rec' \<and> record_move rec rec'))"

lemma moves_new:
  assumes "moves_records l l'" and "map_of (el_records l) k = None" and "map_of (el_records l') k = Some rec"
  shows "fresh_record k rec"
  using assms(1) [unfolded moves_records_def, rule_format, of k] assms(2,3) by simp

lemma moves_old:
  assumes "moves_records l l'" and "map_of (el_records l) k = Some rec"
  shows "\<exists>rec'. map_of (el_records l') k = Some rec' \<and> record_move rec rec'"
  using assms(1) [unfolded moves_records_def, rule_format, of k] assms(2) by simp

lemma moves_refl: "moves_records l l"
  by (auto simp: moves_records_def intro: record_move.stay split: option.splits)

lemma moves_store: "moves_records l (l\<lparr>el_store := s\<rparr>)"
  by (auto simp: moves_records_def intro: record_move.stay split: option.splits)

lemma moves_one:
  assumes "map_of (el_records l) k = Some rec" and "record_move rec rec'"
  shows "moves_records l (put_record rec' k l)" and "moves_records l (put_record rec' k (l\<lparr>el_store := s\<rparr>))"
  using assms
  by (auto simp: moves_records_def put_record_def intro: record_move.stay split: option.splits)

lemma keyed_get:
  assumes "keyed l" and "life_get scope i l = Inr rec"
  shows "ts_site_id scope = ts_site_id (lr_scope rec)" and "i = lr_evidence_id rec"
  using assms by (auto simp: keyed_def life_get_Inr)

lemma run_life_moves:
  assumes "keyed l"
  shows "moves_records l (run_life remove op l)"
proof (cases op)
  case (Register sc i st rc at)
  then show ?thesis
    by (auto simp: life_register_def Let_def moves_records_def put_record_def fresh_record_def
        intro: record_move.stay split: option.splits)
next
  case (Withdraw sc i at r)
  then show ?thesis
    by (auto simp: life_withdraw_def moves_refl life_get_Inr intro!: moves_one(1) record_move.withdrawn split: sum.splits)
next
  case (Hold sc i h at)
  then show ?thesis
    by (auto simp: place_legal_hold_def moves_refl life_get_Inr intro!: moves_one(1) record_move.held split: sum.splits)
next
  case (Release sc i h at)
  then show ?thesis
    by (auto simp: release_legal_hold_def moves_refl life_get_Inr intro!: moves_one(1) record_move.released split: sum.splits)
next
  case (Delete sc i at r)
  show ?thesis
  proof (cases "\<exists>rec. life_get sc i l = Inr rec \<and> lr_tombstone rec = None \<and> lr_hold_id rec = None \<and> eligible_at rec at")
    case True
    then obtain rec where rec: "life_get sc i l = Inr rec" "lr_tombstone rec = None" "lr_hold_id rec = None" "eligible_at rec at"
      by blast
    note k = keyed_get [OF assms rec(1)]
    have m: "map_of (el_records l) (ts_site_id sc, i) = Some rec" using rec(1) by (simp add: life_get_Inr)
    show ?thesis
      using Delete rec moves_one(2) [OF m record_move.deleted [OF rec(2-4)]] k
      by (auto simp: life_delete_def eligible_at_def Let_def moves_store split: sum.splits prod.splits)
  next
    case False
    then show ?thesis
      using Delete by (auto simp: life_delete_def eligible_at_def moves_refl split: sum.splits option.splits bool.splits)
  qed
qed

section \<open>Invariant\<close>

text \<open>
  A deleted record is under no hold, its tombstone describes it, and it was withdrawn or due when it was
  deleted.
\<close>

definition record_ok :: "lifecycle_record \<Rightarrow> bool" where
  "record_ok rec =
     (case lr_tombstone rec of
        None \<Rightarrow> True
      | Some t \<Rightarrow> lr_hold_id rec = None \<and> eligible_at rec (dt_deleted_at t)
          \<and> dt_site_id t = ts_site_id (lr_scope rec) \<and> dt_evidence_id t = lr_evidence_id rec
          \<and> dt_sha256 t = so_sha256 (lr_stored rec) \<and> dt_retention_class t = lr_retention_class rec)"

definition life_inv :: "'s evidence_lifecycle \<Rightarrow> bool" where
  "life_inv l = (keyed l \<and> (\<forall>k rec. map_of (el_records l) k = Some rec \<longrightarrow> record_ok rec))"

lemma record_move_ok: "record_move rec rec' \<Longrightarrow> record_ok rec \<Longrightarrow> record_ok rec'"
  by (induction rule: record_move.induct)
    (auto simp: record_ok_def eligible_at_def not_yet_eligible_def record_due_at_def split: option.splits if_splits)

lemma record_move_keeps:
  "record_move rec rec' \<Longrightarrow> lr_scope rec' = lr_scope rec \<and> lr_evidence_id rec' = lr_evidence_id rec
     \<and> lr_stored rec' = lr_stored rec \<and> (\<forall>t. lr_tombstone rec = Some t \<longrightarrow> lr_tombstone rec' = Some t)"
  by (induction rule: record_move.induct) auto

lemma moves_inv:
  assumes "moves_records l l'" and "life_inv l"
  shows "life_inv l'"
proof -
  have "k = (ts_site_id (lr_scope rec'), lr_evidence_id rec') \<and> record_ok rec'"
    if r: "map_of (el_records l') k = Some rec'" for k rec'
  proof (cases "map_of (el_records l) k")
    case None
    then have "fresh_record k rec'" by (rule moves_new [OF assms(1) _ r])
    then show ?thesis by (simp add: fresh_record_def record_ok_def)
  next
    case (Some rec)
    then have m: "record_move rec rec'" using moves_old [OF assms(1) Some] r by auto
    have "k = (ts_site_id (lr_scope rec), lr_evidence_id rec)" "record_ok rec"
      using assms(2) Some by (auto simp: life_inv_def keyed_def)
    then show ?thesis using record_move_ok [OF m] record_move_keeps [OF m] by simp
  qed
  then show ?thesis unfolding life_inv_def keyed_def by blast
qed

lemma life_step_moves: "life_step remove l l' \<Longrightarrow> life_inv l \<Longrightarrow> moves_records l l'"
  by (induction rule: life_step.induct) (auto simp: life_inv_def run_life_moves moves_store)

lemma life_reachable_inv: "life_reachable remove l \<Longrightarrow> life_inv l"
proof -
  have "life_inv l" if "(life_step remove)\<^sup>*\<^sup>* (lifecycle_new s) l" for s
    using that
  proof (induction rule: rtranclp_induct)
    case base
    show ?case by (simp add: life_inv_def keyed_def lifecycle_new_def)
  next
    case (step y z)
    then show ?case using life_step_moves moves_inv by blast
  qed
  then show "life_reachable remove l \<Longrightarrow> life_inv l" by (auto simp: life_reachable_def)
qed

lemma tombstone_persists:
  assumes "(life_step remove)\<^sup>*\<^sup>* l l'" and "life_inv l" and "map_of (el_records l) k = Some rec" and "lr_tombstone rec = Some t"
  shows "life_inv l' \<and> (\<exists>rec'. map_of (el_records l') k = Some rec' \<and> lr_tombstone rec' = Some t \<and> lr_scope rec' = lr_scope rec)"
  using assms(1)
proof (induction rule: rtranclp_induct)
  case base
  then show ?case using assms by blast
next
  case (step y z)
  then obtain rec' where rec': "map_of (el_records y) k = Some rec'" "lr_tombstone rec' = Some t" "lr_scope rec' = lr_scope rec"
    by blast
  have m: "moves_records y z" using step life_step_moves by blast
  then obtain rec2 where "map_of (el_records z) k = Some rec2" "record_move rec' rec2"
    using moves_old [OF m rec'(1)] by blast
  then show ?case using rec' record_move_keeps [of rec' rec2] moves_inv [OF m] step.IH by auto
qed

section \<open>Deletion\<close>

lemma life_delete_cases:
  assumes "life_delete remove scope i at reason l = (Inr t, l')"
  obtains (again) rec where "life_get scope i l = Inr rec" and "lr_tombstone rec = Some t" and "l' = l"
  | (first) rec store where "life_get scope i l = Inr rec" and "lr_tombstone rec = None" and "lr_hold_id rec = None"
      and "eligible_at rec at" and "remove scope (so_object_ref (lr_stored rec)) (el_store l) = (Inr (), store)"
      and "l' = put_record (rec\<lparr>lr_tombstone := Some t\<rparr>) (ts_site_id scope, i) (l\<lparr>el_store := store\<rparr>)"
proof -
  obtain rec where g: "life_get scope i l = Inr rec"
    using assms by (cases "life_get scope i l") (simp_all add: life_delete_def)
  show thesis
  proof (cases "lr_tombstone rec")
    case (Some t')
    show thesis by (rule again [OF g]) (use assms g Some in \<open>simp_all add: life_delete_def\<close>)
  next
    case None
    have h: "lr_hold_id rec = None" using assms g None by (simp add: life_delete_def split: if_splits)
    have e: "not_yet_eligible rec at = Inr False"
      using assms g None h by (auto simp: life_delete_def split: sum.splits bool.splits)
    obtain res store where r: "remove scope (so_object_ref (lr_stored rec)) (el_store l) = (res, store)"
      by (cases "remove scope (so_object_ref (lr_stored rec)) (el_store l)")
    show thesis
    proof (cases res)
      case (Inl err)
      then show thesis using assms by (simp add: life_delete_def g None h e r)
    next
      case (Inr u)
      have stored: "l' = put_record (rec\<lparr>lr_tombstone := Some t\<rparr>) (ts_site_id scope, i) (l\<lparr>el_store := store\<rparr>)"
        using assms Inr by (auto simp: life_delete_def g None h e r Let_def)
      show thesis by (rule first [OF g None h]) (use e r Inr stored in \<open>simp_all add: eligible_at_def\<close>)
    qed
  qed
qed

context object_store
begin

text \<open>For every object store: a first deletion that returns leaves the object unreadable, and a deletion
  that raises leaves everything as it was.\<close>

lemma first_deletion_removes:
  assumes "life_delete remove scope i at reason l = (Inr t, l')" and "life_get scope i l = Inr rec"
    and "lr_tombstone rec = None"
  shows "\<not> readable scope (so_object_ref (lr_stored rec)) (el_store l')"
  using assms(1)
proof (cases rule: life_delete_cases)
  case (again rec')
  then show ?thesis using assms by simp
next
  case (first rec' store)
  then show ?thesis using removed assms by (simp add: put_record_def)
qed

lemma refused_deletion_keeps:
  assumes "life_delete remove scope i at reason l = (Inl e, l')"
  shows "l' = l"
  using assms failed_remove
  by (auto simp: life_delete_def Let_def split: sum.splits option.splits if_splits bool.splits prod.splits)

end

text \<open>
  C22. Deletion is justified and final. When the lifecycle over the content-addressed store returns a
  tombstone, then in every later state the record keeps exactly that tombstone, is under no legal hold, was
  withdrawn or past its retention window at the time of deletion, deleting it again returns the same
  tombstone and changes nothing, and no legal hold can be placed on it any more; and right after the first
  deletion its object can no longer be read.
\<close>
theorem deletion_is_justified_and_final:
  assumes "life_reachable store_delete l" and "life_delete store_delete scope i at reason l = (Inr t, l')"
    and "(life_step store_delete)\<^sup>*\<^sup>* l' l2"
  shows "\<exists>rec. map_of (el_records l2) (ts_site_id scope, i) = Some rec
     \<and> lr_tombstone rec = Some t \<and> lr_hold_id rec = None
     \<and> eligible_at rec (dt_deleted_at t) \<and> dt_sha256 t = so_sha256 (lr_stored rec) \<and> dt_evidence_id t = i
     \<and> life_delete store_delete scope i at' reason' l2 = (Inr t, l2)
     \<and> snd (place_legal_hold scope i h at'' l2) = l2 \<and> isl (fst (place_legal_hold scope i h at'' l2))
     \<and> (\<forall>rec0. life_get scope i l = Inr rec0 \<and> lr_tombstone rec0 = None
          \<longrightarrow> \<not> store_readable scope (so_object_ref (lr_stored rec0)) (el_store l'))"
proof -
  have inv: "life_inv l" by (rule life_reachable_inv [OF assms(1)])
  have step: "life_step store_delete l l'"
    using life_step.life_op [of store_delete l "Delete scope i at reason"] assms(2) by simp
  have inv': "life_inv l'" using moves_inv [OF life_step_moves [OF step inv] inv] .
  obtain rec where rec: "map_of (el_records l') (ts_site_id scope, i) = Some rec" "lr_tombstone rec = Some t"
    "ts_processing_purpose (lr_scope rec) = ts_processing_purpose scope"
    using assms(2) by (cases rule: life_delete_cases) (auto simp: life_get_Inr put_record_map)
  obtain rec2 where rec2: "map_of (el_records l2) (ts_site_id scope, i) = Some rec2" "lr_tombstone rec2 = Some t"
    "lr_scope rec2 = lr_scope rec" "life_inv l2"
    using tombstone_persists [OF assms(3) inv' rec(1,2)] by blast
  have ok: "record_ok rec2" "i = lr_evidence_id rec2" using rec2(1,4) by (auto simp: life_inv_def keyed_def)
  have get: "life_get scope i l2 = Inr rec2" using rec2(1,3) rec(3) by (simp add: life_get_Inr)
  show ?thesis
    using rec2(1,2) ok get evidence_files.first_deletion_removes [OF assms(2)]
    by (auto simp: record_ok_def life_delete_def place_legal_hold_def)
qed

section \<open>Shared objects\<close>

definition share_history :: "tenant_scope \<Rightarrow> stored_object \<Rightarrow> string \<Rightarrow> string \<Rightarrow> datetime \<Rightarrow> life_op list" where
  "share_history scope stored a b at =
     [Register scope a stored ''R2-record'' at, Register scope b stored ''R2-record'' at,
      Hold scope b ''case-7'' at, Withdraw scope a at ''consent withdrawn'', Delete scope a at None]"

definition after_sharing :: "tenant_scope \<Rightarrow> stored_object \<Rightarrow> string \<Rightarrow> string \<Rightarrow> datetime \<Rightarrow> object_files \<Rightarrow> object_files evidence_lifecycle" where
  "after_sharing scope stored a b at fs = fold (run_life store_delete) (share_history scope stored a b at) (lifecycle_new fs)"

lemma fold_life_reachable:
  "(life_step remove)\<^sup>*\<^sup>* l (fold (run_life remove) ops l)"
proof (induction ops arbitrary: l)
  case (Cons op ops)
  have "life_step remove l (run_life remove op l)" by (rule life_step.life_op)
  then show ?case using Cons by (auto intro: converse_rtranclp_into_rtranclp)
qed simp

text \<open>
  C23. A legal hold does not protect the bytes of evidence that shares its content. For any content put
  once and registered as two items of evidence in the same site, placing a legal hold on the second,
  withdrawing the first and deleting it is accepted in every step; afterwards the second item is still held
  and not deleted, but its object can no longer be read.
\<close>
theorem held_evidence_loses_shared_bytes:
  assumes "store_put scope content media_type [] = (Inr stored, fs)" and "a \<noteq> b"
  shows "life_reachable store_delete (after_sharing scope stored a b at fs) \<and> store_read scope (so_object_ref stored) fs = Inr content
     \<and> (\<exists>rec. map_of (el_records (after_sharing scope stored a b at fs)) (ts_site_id scope, b) = Some rec \<and> lr_hold_id rec = Some ''case-7''
          \<and> lr_tombstone rec = None \<and> lr_stored rec = stored)
     \<and> store_read scope (so_object_ref stored) (el_store (after_sharing scope stored a b at fs)) = Inl (FileNotFoundError ''evidence object not found'')"
proof -
  note put = store_put_ok [OF assms(1)]
  let ?l = "after_sharing scope stored a b at fs"
  have parse: "parse_ref scope (so_object_ref stored) = Inr (sha256_hex content)"
    by (simp add: put(1) parse_own_ref)
  have fs: "fs = AList.update (partition_of scope, sha256_hex content) content []" using put(4) by auto
  have del: "store_delete scope (so_object_ref stored) fs = (Inr (), AList.delete (partition_of scope, sha256_hex content) fs)"
    by (simp add: store_delete_def parse fs verify_object_def)
  have strip: "strip ''consent withdrawn'' \<noteq> []" by code_simp
  have run: "?l = \<lparr>el_records = el_records ?l, el_store = AList.delete (partition_of scope, sha256_hex content) fs\<rparr>
     \<and> (\<exists>rec. map_of (el_records ?l) (ts_site_id scope, b) = Some rec \<and> lr_hold_id rec = Some ''case-7''
          \<and> lr_tombstone rec = None \<and> lr_stored rec = stored)"
    using assms(2) strip
    by (auto simp: after_sharing_def share_history_def lifecycle_new_def life_register_def retention_windows_def Let_def
        put_record_def place_legal_hold_def life_withdraw_def life_delete_def life_get_def not_yet_eligible_def del)
  then have store: "el_store ?l = AList.delete (partition_of scope, sha256_hex content) fs"
    by (metis evidence_lifecycle.select_convs(2))
  show ?thesis
    using run store fold_life_reachable [of store_delete "lifecycle_new fs" "share_history scope stored a b at"]
    unfolding life_reachable_def after_sharing_def [symmetric]
    by (auto simp: store_read_def parse fs verify_object_def)
qed

theorem held_evidence_loses_shared_bytes_witness:
  "\<exists>stored fs. store_put demo_scope ''bytes'' ''text/plain'' [] = (Inr stored, fs)
     \<and> life_reachable store_delete (after_sharing demo_scope stored ''e1'' ''e2'' (Aware 0) fs)
     \<and> store_read demo_scope (so_object_ref stored) (el_store (after_sharing demo_scope stored ''e1'' ''e2'' (Aware 0) fs))
         = Inl (FileNotFoundError ''evidence object not found'')"
proof -
  obtain stored fs where p: "store_put demo_scope ''bytes'' ''text/plain'' [] = (Inr stored, fs)"
    by (simp add: store_put_def Let_def)
  from held_evidence_loses_shared_bytes [OF p, of "''e1''" "''e2''" "Aware 0"] p show ?thesis by auto
qed

theorem deletion_is_justified_and_final_witness:
  "\<exists>l t l'. life_delete store_delete demo_scope ''e'' (Aware 5) None l = (Inr t, l')
     \<and> life_delete store_delete demo_scope ''e'' (Naive 9) (Some ''again'') l' = (Inr t, l')
     \<and> isl (fst (place_legal_hold demo_scope ''e'' ''h'' (Aware 6) l'))"
proof -
  obtain stored fs where p: "store_put demo_scope ''bytes'' ''text/plain'' [] = (Inr stored, fs)"
    by (simp add: store_put_def Let_def)
  note put = store_put_ok [OF p]
  have fs: "fs = AList.update (partition_of demo_scope, sha256_hex ''bytes'') ''bytes'' []" using put(4) by auto
  have del: "\<exists>fs'. store_delete demo_scope (so_object_ref stored) fs = (Inr (), fs')"
    by (simp add: store_delete_def put(1) parse_own_ref fs verify_object_def)
  define l where "l = run_life store_delete (Register demo_scope ''e'' stored ''R0-ephemeral'' (Aware 0)) (lifecycle_new fs)"
  have reach: "life_reachable store_delete l"
    unfolding life_reachable_def l_def using life_step.life_op by blast
  obtain t l' where d: "life_delete store_delete demo_scope ''e'' (Aware 5) None l = (Inr t, l')"
    using del
    by (auto simp: l_def life_register_def lifecycle_new_def retention_windows_def put_record_def life_delete_def
        life_get_def not_yet_eligible_def record_due_at_def Let_def)
  show ?thesis
    using d deletion_is_justified_and_final [OF reach d rtranclp.rtrancl_refl, of "Naive 9" "Some ''again''" "''h''" "Aware 6"]
    by auto
qed

end
