(* ===== verification/Kingdee_Policy.thy ===== *)
theory Kingdee_Policy
  imports GBOS_Prelude Py_Json Py_Regex
begin

text \<open>
  The frozen read-only policy of the Kingdee adapter (\<open>kingdee_adapter/policy.py\<close> with the values
  of \<open>models.py\<close>). The three contract documents are the JSON values \<open>json.loads\<close> gives for the
  files, \<^term>\<open>None\<close> where the file cannot be read or parsed. A \<open>frozenset\<close> is a set, a mapping an
  association list in insertion order.
\<close>

section \<open>Values\<close>

datatype kingdee_error =
    Contract_error string
  | Request_rejected string
  | Request_keys_rejected "string list" "string list"
  | Transport_raised string
  | Response_invalid string

fun is_rejection :: "kingdee_error \<Rightarrow> bool" where
  "is_rejection (Request_rejected _) = True"
| "is_rejection (Request_keys_rejected _ _) = True"
| "is_rejection _ = False"

record auth_context =
  authenticated :: bool
  granted_scopes :: "string list"

definition auth_post_init :: "auth_context \<Rightarrow> kingdee_error + auth_context" where
  "auth_post_init a =
     (if length (granted_scopes a) \<noteq> card (set (granted_scopes a))
      then Inl (Contract_error ''granted_scopes must be unique'')
      else if \<exists>s \<in> set (granted_scopes a). s = []
      then Inl (Contract_error ''granted_scopes must be non-empty strings'')
      else Inr a)"

record validated_request =
  vr_request_id :: string
  vr_site_id :: string
  vr_account_set_ref :: string
  vr_purpose :: string
  vr_logical_object :: string
  vr_limit :: int
  vr_offset :: int
  vr_timeout_ms :: int

record query_plan =
  qp_tool_name :: string
  qp_logical_object :: string
  qp_source_form :: string
  qp_fields :: "string list"
  qp_source_fields :: "string list"
  qp_field_types :: "string list"
  qp_filters :: "(string \<times> string \<times> json) list"
  qp_order :: "(string \<times> string) list"

record kingdee_policy =
  allowlist_version :: string
  dictionary_version :: string
  kp_max_rows :: int
  read_tools :: "string set"
  kp_tools :: "string set"
  forbidden_operation_tokens :: "string set"
  tool_to_object :: "(string \<times> string) list"
  object_plans :: "(string \<times> query_plan) list"

section \<open>Loading the frozen contracts\<close>

definition read_object :: "string \<Rightarrow> json option \<Rightarrow> kingdee_error + fields" where
  "read_object name doc =
     (case doc of
        None \<Rightarrow> Inl (Contract_error (''cannot load frozen Kingdee contract: '' @ name))
      | Some (JObj kvs) \<Rightarrow> Inr kvs
      | Some _ \<Rightarrow> Inl (Contract_error (''frozen Kingdee contract must be an object: '' @ name)))"

definition contract_objects :: "json \<Rightarrow> kingdee_error + fields list" where
  "contract_objects v =
     (if is_list v \<and> list_all is_obj (items_of_json v)
      then Inr (map fields_of_json (items_of_json v))
      else Inl (Contract_error ''frozen Kingdee contract list is invalid''))"

fun tool_entries ::
  "string \<Rightarrow> fields list \<Rightarrow> (string \<times> string) list \<Rightarrow> kingdee_error + (string \<times> string) list" where
  "tool_entries source [] result = Inr result"
| "tool_entries source (item # items) result =
     (case (jget item ''name'', jget item ''logical_object'') of
        (JStr name, JStr obj) \<Rightarrow>
          (if map_of result name \<noteq> None
           then Inl (Contract_error (''duplicate '' @ source @ '' tool''))
           else tool_entries source items (AList.update name obj result))
      | _ \<Rightarrow> Inl (Contract_error (''invalid '' @ source @ '' tool entry'')))"

definition tool_mapping :: "json \<Rightarrow> string \<Rightarrow> kingdee_error + (string \<times> string) list" where
  "tool_mapping v source =
     (case contract_objects v of
        Inl e \<Rightarrow> Inl e
      | Inr items \<Rightarrow>
          (case tool_entries source items [] of
             Inl e \<Rightarrow> Inl e
           | Inr result \<Rightarrow>
               (if length result \<noteq> 7
                then Inl (Contract_error (source @ '' must freeze exactly seven Kingdee read tools''))
                else Inr result)))"

text \<open>Equality of two dictionaries of texts.\<close>

definition dict_eq :: "(string \<times> string) list \<Rightarrow> (string \<times> string) list \<Rightarrow> bool" where
  "dict_eq a b = (length a = length b \<and> (\<forall>(k, v) \<in> set a. map_of b k = Some v))"

text \<open>One field of a dictionary entry: logical name, source field and data type.\<close>

definition dictionary_field :: "fields \<Rightarrow> kingdee_error + string \<times> string \<times> string" where
  "dictionary_field field =
     (case (jget field ''logical_name'', jget field ''data_type'', jget field ''candidate_field'') of
        (JStr name, JStr ty, JObj candidate) \<Rightarrow>
          (if jget candidate ''verification_status'' \<noteq> JStr ''gate5_metadata_required''
             \<or> \<not> is_str (jget candidate ''value'')
           then Inl (Contract_error ''invalid frozen Kingdee dictionary field'')
           else Inr (name, str_of_json (jget candidate ''value''), ty))
      | _ \<Rightarrow> Inl (Contract_error ''invalid frozen Kingdee dictionary field''))"

definition dictionary_plan :: "(string \<times> string) list \<Rightarrow> fields \<Rightarrow> kingdee_error + query_plan" where
  "dictionary_plan tools item =
     (case (jget item ''logical_object'', jget item ''candidate_form'') of
        (JStr obj, JObj form) \<Rightarrow>
          (if jget form ''verification_status'' \<noteq> JStr ''gate5_metadata_required''
           then Inl (Contract_error ''invalid frozen Kingdee dictionary object'')
           else case jget form ''value'' of
             JStr source_form \<Rightarrow>
               (if source_form = []
                then Inl (Contract_error ''invalid frozen Kingdee candidate form'')
                else case contract_objects (jget item ''fields'') of
                  Inl e \<Rightarrow> Inl e
                | Inr rows \<Rightarrow>
                    (case map_raise dictionary_field rows of
                       Inl e \<Rightarrow> Inl e
                     | Inr entries \<Rightarrow>
                         (let names = map fst entries
                          in if names = [] \<or> length names \<noteq> card (set names)
                             then Inl (Contract_error ''frozen Kingdee fields must be unique and non-empty'')
                             else case map_of (rev (map (\<lambda>(tool, lobj). (lobj, tool)) tools)) obj of
                               None \<Rightarrow> Inl (Contract_error ''dictionary contains an object without a frozen read tool'')
                             | Some tool \<Rightarrow>
                                 Inr \<lparr>qp_tool_name = tool, qp_logical_object = obj,
                                      qp_source_form = source_form, qp_fields = names,
                                      qp_source_fields = map (fst \<circ> snd) entries,
                                      qp_field_types = map (snd \<circ> snd) entries,
                                      qp_filters = [], qp_order = [(hd names, ''asc'')]\<rparr>)))
           | _ \<Rightarrow> Inl (Contract_error ''invalid frozen Kingdee candidate form''))
      | _ \<Rightarrow> Inl (Contract_error ''invalid frozen Kingdee dictionary object''))"

fun dictionary_entries ::
  "(string \<times> string) list \<Rightarrow> fields list \<Rightarrow> (string \<times> query_plan) list
    \<Rightarrow> kingdee_error + (string \<times> query_plan) list" where
  "dictionary_entries tools [] result = Inr result"
| "dictionary_entries tools (item # items) result =
     (case dictionary_plan tools item of
        Inl e \<Rightarrow> Inl e
      | Inr plan \<Rightarrow> dictionary_entries tools items (AList.update (qp_logical_object plan) plan result))"

definition dictionary_plans ::
  "json \<Rightarrow> (string \<times> string) list \<Rightarrow> kingdee_error + (string \<times> query_plan) list" where
  "dictionary_plans v tools =
     (case contract_objects v of Inl e \<Rightarrow> Inl e | Inr items \<Rightarrow> dictionary_entries tools items [])"

definition required_forbidden :: "string set" where
  "required_forbidden =
     {''create'', ''update'', ''save'', ''submit'', ''audit'', ''unaudit'', ''delete'', ''payment'',
      ''write'', ''execute'', ''push''}"

definition token_list :: "json \<Rightarrow> kingdee_error + string set" where
  "token_list v =
     (if is_list v \<and> list_all (\<lambda>x. is_str x \<and> str_of_json x \<noteq> []) (items_of_json v)
      then Inr (set (map str_of_json (items_of_json v)))
      else Inl (Contract_error ''invalid frozen forbidden operation tokens''))"

text \<open>The second half of \<open>load\<close>: rows, tokens and versions, once tools and plans agree.\<close>

definition freeze_policy ::
  "fields \<Rightarrow> fields \<Rightarrow> (string \<times> string) list \<Rightarrow> (string \<times> query_plan) list
    \<Rightarrow> kingdee_error + kingdee_policy" where
  "freeze_policy allowlist dictionary tools plans =
     (case jget allowlist ''max_rows'' of
        JInt max_rows \<Rightarrow>
     (if max_rows \<noteq> 50 then Inl (Contract_error ''frozen Kingdee max_rows must be exactly 50'')
      else case token_list (jget allowlist ''forbidden_operation_tokens'') of
        Inl e \<Rightarrow> Inl e
      | Inr tokens \<Rightarrow>
          (if \<not> required_forbidden \<subseteq> tokens
           then Inl (Contract_error ''frozen forbidden operation tokens are incomplete'')
           else case (jget allowlist ''allowlist_version'', jget dictionary ''dictionary_version'') of
             (JStr av, JStr dv) \<Rightarrow>
               Inr \<lparr>allowlist_version = av, dictionary_version = dv, kp_max_rows = max_rows,
                    read_tools = set (map fst tools),
                    kp_tools = insert ''metadata.get'' (set (map fst tools)),
                    forbidden_operation_tokens = tokens, tool_to_object = tools,
                    object_plans = plans\<rparr>
           | _ \<Rightarrow> Inl (Contract_error ''invalid frozen Kingdee contract versions'')))
      | _ \<Rightarrow> Inl (Contract_error ''frozen Kingdee max_rows must be exactly 50''))"

definition load_policy ::
  "json option \<Rightarrow> json option \<Rightarrow> json option \<Rightarrow> kingdee_error + kingdee_policy" where
  "load_policy allow_doc manifest_doc dictionary_doc =
     (case read_object ''kingdee-query-allowlist-v0.json'' allow_doc of
        Inl e \<Rightarrow> Inl e
      | Inr allowlist \<Rightarrow>
     (case read_object ''mcp-tool-manifest-v0.json'' manifest_doc of
        Inl e \<Rightarrow> Inl e
      | Inr manifest \<Rightarrow>
     (case read_object ''kingdee-field-dictionary-v0.json'' dictionary_doc of
        Inl e \<Rightarrow> Inl e
      | Inr dictionary \<Rightarrow>
     (case tool_mapping (jget allowlist ''tools'') ''allowlist'' of
        Inl e \<Rightarrow> Inl e
      | Inr tools \<Rightarrow>
     (case tool_mapping (jget manifest ''tools'') ''manifest'' of
        Inl e \<Rightarrow> Inl e
      | Inr manifest_tools \<Rightarrow>
          (if \<not> dict_eq tools manifest_tools
           then Inl (Contract_error ''Gate 2 Kingdee tool contracts disagree'')
           else if \<exists>t \<in> set (map fst tools). \<not> ends_with t ''.get''
           then Inl (Contract_error ''frozen Kingdee surface contains a non-read tool'')
           else case contract_objects (jget manifest ''tools'') of
             Inl e \<Rightarrow> Inl e
           | Inr items \<Rightarrow>
               (if \<exists>item \<in> set items. jget item ''mutates'' \<noteq> JBool False
                then Inl (Contract_error ''frozen Kingdee manifest contains a mutating tool'')
                else case dictionary_plans (jget dictionary ''objects'') tools of
                  Inl e \<Rightarrow> Inl e
                | Inr plans \<Rightarrow>
                    (if set (map fst plans) \<noteq> set (map snd tools)
                     then Inl (Contract_error ''Gate 2 Kingdee dictionary and tool objects disagree'')
                     else freeze_policy allowlist dictionary tools plans))))))))"

section \<open>Choosing a plan\<close>

definition token_char :: "char \<Rightarrow> bool" where
  "token_char c = (is_lower c \<or> is_digit c)"

text \<open>
  \<open>re.split(r"[^a-z0-9]+", s)\<close> without its empty parts: the maximal runs of token characters.
\<close>

fun token_runs :: "string \<Rightarrow> string \<Rightarrow> string list" where
  "token_runs run [] = (if run = [] then [] else [rev run])"
| "token_runs run (c # s) =
     (if token_char c then token_runs (c # run) s
      else (if run = [] then [] else [rev run]) @ token_runs [] s)"

definition operation_tokens :: "string \<Rightarrow> string list" where
  "operation_tokens name = token_runs [] (lower name)"

definition reject_mutation_shape :: "kingdee_policy \<Rightarrow> json \<Rightarrow> kingdee_error + string" where
  "reject_mutation_shape p tool =
     (case tool of
        JStr name \<Rightarrow>
          (if name = [] then Inl (Request_rejected ''tool_name must be a non-empty string'')
           else if set (operation_tokens name) \<inter> forbidden_operation_tokens p \<noteq> {}
           then Inl (Request_rejected ''forbidden mutation-shaped Kingdee tool'')
           else Inr name)
      | _ \<Rightarrow> Inl (Request_rejected ''tool_name must be a non-empty string''))"

definition plan_for :: "kingdee_policy \<Rightarrow> json \<Rightarrow> string \<Rightarrow> kingdee_error + query_plan" where
  "plan_for p tool obj =
     (case reject_mutation_shape p tool of
        Inl e \<Rightarrow> Inl e
      | Inr name \<Rightarrow>
          (case map_of (object_plans p) obj of
             None \<Rightarrow> Inl (Request_rejected ''unsupported logical object'')
           | Some base \<Rightarrow>
               (if name = ''metadata.get'' then Inr (base\<lparr>qp_tool_name := name\<rparr>)
                else case map_of (tool_to_object p) name of
                  None \<Rightarrow> Inl (Request_rejected ''unsupported Kingdee read tool'')
                | Some expected \<Rightarrow>
                    (if expected \<noteq> obj
                     then Inl (Request_rejected ''tool and logical object do not match'')
                     else Inr base))))"

section \<open>Validating a request\<close>

definition request_keys :: "string list" where
  "request_keys =
     [''request_id'', ''site_id'', ''account_set_ref'', ''processing_purpose'', ''logical_object'',
      ''limit'', ''offset'', ''timeout_ms'']"

definition safe_request_id :: "string \<Rightarrow> bool" where
  "safe_request_id = shape_match is_lower
     (\<lambda>c. is_lower c \<or> is_digit c \<or> c \<in> set ''._:-'') 7 127"

definition safe_site_id :: "string \<Rightarrow> bool" where
  "safe_site_id = shape_match (\<lambda>c. is_lower c \<or> is_digit c)
     (\<lambda>c. is_lower c \<or> is_digit c \<or> c \<in> set ''.-'') 0 139"

definition safe_account_set :: "string \<Rightarrow> bool" where
  "safe_account_set = shape_match is_alnum (\<lambda>c. is_alnum c \<or> c \<in> set ''._:-'') 0 255"

definition safe_purpose :: "string \<Rightarrow> bool" where
  "safe_purpose = shape_match is_lower (\<lambda>c. is_lower c \<or> is_digit c \<or> c = CHR ''_'') 2 127"

definition match_text :: "json \<Rightarrow> (string \<Rightarrow> bool) \<Rightarrow> string \<Rightarrow> kingdee_error + string" where
  "match_text v pattern name =
     (case v of
        JStr s \<Rightarrow> (if pattern s then Inr s else Inl (Request_rejected (''invalid '' @ name)))
      | _ \<Rightarrow> Inl (Request_rejected (''invalid '' @ name)))"

definition bounded_int :: "json \<Rightarrow> string \<Rightarrow> int \<Rightarrow> int \<Rightarrow> kingdee_error + int" where
  "bounded_int v name lo hi =
     (case v of
        JInt i \<Rightarrow>
          (if lo \<le> i \<and> i \<le> hi then Inr i
           else Inl (Request_rejected
             (name @ '' must be an integer in '' @ int_text lo @ ''..'' @ int_text hi)))
      | _ \<Rightarrow> Inl (Request_rejected
             (name @ '' must be an integer in '' @ int_text lo @ ''..'' @ int_text hi)))"

definition max_timeout_ms :: int where
  "max_timeout_ms = 30000"

text \<open>The field checks of \<open>validate_request\<close>, once the keys and the caller are accepted.\<close>

definition request_fields :: "kingdee_policy \<Rightarrow> fields \<Rightarrow> kingdee_error + validated_request" where
  "request_fields p r =
     (case match_text (jget r ''request_id'') safe_request_id ''request_id'' of Inl e \<Rightarrow> Inl e | Inr rid \<Rightarrow>
     (case match_text (jget r ''site_id'') safe_site_id ''site_id'' of Inl e \<Rightarrow> Inl e | Inr site \<Rightarrow>
     (case match_text (jget r ''account_set_ref'') safe_account_set ''account_set_ref'' of Inl e \<Rightarrow> Inl e | Inr acct \<Rightarrow>
     (case match_text (jget r ''processing_purpose'') safe_purpose ''processing_purpose'' of Inl e \<Rightarrow> Inl e | Inr purpose \<Rightarrow>
     (case jget r ''logical_object'' of
        JStr obj \<Rightarrow>
          (if map_of (object_plans p) obj = None then Inl (Request_rejected ''unsupported logical_object'')
           else
     (case bounded_int (jget r ''limit'') ''limit'' 1 (kp_max_rows p) of Inl e \<Rightarrow> Inl e | Inr limit \<Rightarrow>
     (case bounded_int (jget r ''offset'') ''offset'' 0 1000000 of Inl e \<Rightarrow> Inl e | Inr offset \<Rightarrow>
     (case bounded_int (jget r ''timeout_ms'') ''timeout_ms'' 1 max_timeout_ms of Inl e \<Rightarrow> Inl e | Inr timeout \<Rightarrow>
        Inr \<lparr>vr_request_id = rid, vr_site_id = site, vr_account_set_ref = acct,
             vr_purpose = purpose, vr_logical_object = obj, vr_limit = limit, vr_offset = offset,
             vr_timeout_ms = timeout\<rparr>))))
      | _ \<Rightarrow> Inl (Request_rejected ''unsupported logical_object''))))))"

definition kingdee_validate_request ::
  "kingdee_policy \<Rightarrow> json \<Rightarrow> auth_context \<Rightarrow> kingdee_error + validated_request" where
  "kingdee_validate_request p request auth =
     (case request of
        JObj r \<Rightarrow>
          (if \<not> keys_are r request_keys
           then Inl (Request_keys_rejected
             (sort (filter (\<lambda>k. k \<notin> set (map fst r)) request_keys))
             (sort (remdups (filter (\<lambda>k. k \<notin> set request_keys) (map fst r)))))
           else if \<not> authenticated auth then Inl (Request_rejected ''authenticated request required'')
           else if ''kingdee-read'' \<notin> set (granted_scopes auth)
           then Inl (Request_rejected ''kingdee-read scope required'')
           else request_fields p r)
      | _ \<Rightarrow> Inl (Request_rejected ''request must be an object''))"

section \<open>What a loaded policy guarantees\<close>

text \<open>A plan names its fields once, aligned with their sources and types, and never filters.\<close>

definition plan_wf :: "query_plan \<Rightarrow> bool" where
  "plan_wf q =
     (qp_source_form q \<noteq> [] \<and> qp_fields q \<noteq> [] \<and> distinct (qp_fields q) \<and>
      length (qp_source_fields q) = length (qp_fields q) \<and>
      length (qp_field_types q) = length (qp_fields q) \<and>
      qp_filters q = [] \<and> qp_order q = [(hd (qp_fields q), ''asc'')])"

text \<open>Seven read tools, one plan per object they name, at most fifty rows.\<close>

definition policy_wf :: "kingdee_policy \<Rightarrow> bool" where
  "policy_wf p =
     (kp_max_rows p = 50 \<and>
      length (tool_to_object p) = 7 \<and> distinct_keys (tool_to_object p) \<and>
      read_tools p = set (map fst (tool_to_object p)) \<and>
      kp_tools p = insert ''metadata.get'' (read_tools p) \<and>
      (\<forall>t \<in> kp_tools p. ends_with t ''.get'') \<and>
      required_forbidden \<subseteq> forbidden_operation_tokens p \<and>
      set (map fst (object_plans p)) = set (map snd (tool_to_object p)) \<and>
      (\<forall>obj q. map_of (object_plans p) obj = Some q \<longrightarrow>
         plan_wf q \<and> qp_logical_object q = obj \<and> map_of (tool_to_object p) (qp_tool_name q) = Some obj))"

lemma tool_entries_distinct:
  "tool_entries src items acc = Inr r \<Longrightarrow> distinct_keys acc \<Longrightarrow> distinct_keys r"
  by (induction src items acc rule: tool_entries.induct)
    (auto split: json.splits if_splits prod.splits)

lemma tool_mapping_wf:
  assumes "tool_mapping v src = Inr tools"
  shows "length tools = 7" and "distinct_keys tools"
  using assms by (auto simp: tool_mapping_def split: sum.splits if_splits intro: tool_entries_distinct)

lemma dictionary_plan_wf:
  assumes "dictionary_plan tools item = Inr q" and d: "distinct_keys tools"
  shows "plan_wf q \<and> map_of tools (qp_tool_name q) = Some (qp_logical_object q)"
proof -
  from assms(1) obtain obj form sf rows es tool where
    q: "q = \<lparr>qp_tool_name = tool, qp_logical_object = obj, qp_source_form = sf,
           qp_fields = map fst es, qp_source_fields = map (fst \<circ> snd) es,
           qp_field_types = map (snd \<circ> snd) es, qp_filters = [],
           qp_order = [(hd (map fst es), ''asc'')]\<rparr>"
    and c: "sf \<noteq> []" "map fst es \<noteq> []" "distinct (map fst es)"
      "map_of (rev (map (\<lambda>(tool, lobj). (lobj, tool)) tools)) obj = Some tool"
    by (auto simp: dictionary_plan_def Let_def simp flip: length_map split: json.splits sum.splits if_splits option.splits)
  from c(4) have "(tool, obj) \<in> set tools"
    by (auto dest!: map_of_SomeD)
  with d have "map_of tools tool = Some obj"
    by (simp add: in_set_dict_iff)
  with q c show ?thesis
    by (simp add: plan_wf_def)
qed

lemma dictionary_entries_wf:
  assumes "dictionary_entries tools items acc = Inr plans" and d: "distinct_keys tools"
    and "\<forall>obj q. map_of acc obj = Some q \<longrightarrow>
      plan_wf q \<and> qp_logical_object q = obj \<and> map_of tools (qp_tool_name q) = Some obj"
  shows "map_of plans obj = Some q \<Longrightarrow>
      plan_wf q \<and> qp_logical_object q = obj \<and> map_of tools (qp_tool_name q) = Some obj"
  using assms
proof (induction tools items acc rule: dictionary_entries.induct)
  case (2 tools item items acc)
  from "2.prems"(2) obtain plan where plan: "dictionary_plan tools item = Inr plan"
    and rest: "dictionary_entries tools items (AList.update (qp_logical_object plan) plan acc) = Inr plans"
    by (cases "dictionary_plan tools item") simp_all
  have wf: "plan_wf plan \<and> map_of tools (qp_tool_name plan) = Some (qp_logical_object plan)"
    by (rule dictionary_plan_wf [OF plan "2.prems"(3)])
  have acc: "\<forall>obj q. map_of (AList.update (qp_logical_object plan) plan acc) obj = Some q \<longrightarrow>
      plan_wf q \<and> qp_logical_object q = obj \<and> map_of tools (qp_tool_name q) = Some obj"
    using "2.prems"(4) wf by simp
  show ?case
    by (rule "2.IH" [OF plan "2.prems"(1) rest "2.prems"(3) acc])
qed auto

text \<open>A plan says what one object of the dictionary document says, and nothing else.\<close>

definition plan_of_item :: "fields \<Rightarrow> query_plan \<Rightarrow> bool" where
  "plan_of_item item q =
     (let rows = map fields_of_json (items_of_json (jget item ''fields'')) in
      jget item ''logical_object'' = JStr (qp_logical_object q) \<and>
      jget (fields_of_json (jget item ''candidate_form'')) ''value'' = JStr (qp_source_form q) \<and>
      map (\<lambda>f. jget f ''logical_name'') rows = map JStr (qp_fields q) \<and>
      map (\<lambda>f. jget (fields_of_json (jget f ''candidate_field'')) ''value'') rows = map JStr (qp_source_fields q) \<and>
      map (\<lambda>f. jget f ''data_type'') rows = map JStr (qp_field_types q))"

definition frozen_plan :: "fields \<Rightarrow> query_plan \<Rightarrow> bool" where
  "frozen_plan dictionary q =
     (\<exists>item \<in> set (items_of_json (jget dictionary ''objects'')). plan_of_item (fields_of_json item) q)"

lemma dictionary_field_says:
  "dictionary_field f = Inr e \<Longrightarrow> jget f ''logical_name'' = JStr (fst e) \<and>
     jget (fields_of_json (jget f ''candidate_field'')) ''value'' = JStr (fst (snd e)) \<and>
     jget f ''data_type'' = JStr (snd (snd e))"
  by (auto simp: dictionary_field_def split: json.splits if_splits)
    (metis is_str.elims(2) str_of_json.simps(1))

lemma dictionary_fields_say:
  "map_raise dictionary_field rows = Inr es \<Longrightarrow>
     map (\<lambda>f. jget f ''logical_name'') rows = map (JStr \<circ> fst) es \<and>
     map (\<lambda>f. jget (fields_of_json (jget f ''candidate_field'')) ''value'') rows = map (JStr \<circ> (fst \<circ> snd)) es \<and>
     map (\<lambda>f. jget f ''data_type'') rows = map (JStr \<circ> (snd \<circ> snd)) es"
  by (induction rows arbitrary: es) (auto dest: dictionary_field_says split: sum.splits)

lemma dictionary_plan_says:
  assumes "dictionary_plan tools item = Inr q"
  shows "plan_of_item item q"
proof -
  from assms obtain obj form sf rows es tool where
    q: "q = \<lparr>qp_tool_name = tool, qp_logical_object = obj, qp_source_form = sf,
           qp_fields = map fst es, qp_source_fields = map (fst \<circ> snd) es,
           qp_field_types = map (snd \<circ> snd) es, qp_filters = [],
           qp_order = [(hd (map fst es), ''asc'')]\<rparr>"
    and c: "jget item ''logical_object'' = JStr obj" "jget item ''candidate_form'' = JObj form"
      "jget form ''value'' = JStr sf" "contract_objects (jget item ''fields'') = Inr rows"
      "map_raise dictionary_field rows = Inr es"
    by (auto simp: dictionary_plan_def Let_def split: json.splits sum.splits if_splits option.splits)
  have "rows = map fields_of_json (items_of_json (jget item ''fields''))"
    using c(4) by (simp add: contract_objects_def split: if_splits)
  then show ?thesis
    using dictionary_fields_say [OF c(5)] c(1-3) unfolding plan_of_item_def q Let_def by simp
qed

lemma dictionary_entries_say:
  assumes "dictionary_entries tools items acc = Inr plans" and "map_of plans obj = Some q"
    and "\<forall>q. map_of acc obj = Some q \<longrightarrow> P q" and "\<And>item q. item \<in> set items \<Longrightarrow> plan_of_item item q \<Longrightarrow> P q"
  shows "P q"
  using assms
proof (induction tools items acc rule: dictionary_entries.induct)
  case (2 tools item items acc)
  then obtain plan where plan: "dictionary_plan tools item = Inr plan"
    and rest: "dictionary_entries tools items (AList.update (qp_logical_object plan) plan acc) = Inr plans"
    by (cases "dictionary_plan tools item") simp_all
  have "P plan" using "2.prems"(4) dictionary_plan_says [OF plan] by auto
  then have "\<forall>q. map_of (AList.update (qp_logical_object plan) plan acc) obj = Some q \<longrightarrow> P q"
    using "2.prems"(3) by (auto split: if_splits)
  then show ?case
    using "2.IH" [OF plan rest "2.prems"(2)] "2.prems"(4) by auto
qed auto

lemma dictionary_plans_frozen:
  assumes "dictionary_plans (jget dictionary ''objects'') tools = Inr plans" and "map_of plans obj = Some q"
  shows "frozen_plan dictionary q"
proof -
  let ?items = "map fields_of_json (items_of_json (jget dictionary ''objects''))"
  have "dictionary_entries tools ?items [] = Inr plans"
    using assms(1) by (simp add: dictionary_plans_def contract_objects_def split: if_splits)
  from dictionary_entries_say [OF this assms(2), of "frozen_plan dictionary"] show ?thesis
    by (auto simp: frozen_plan_def)
qed

lemma freeze_policy_fields:
  assumes "freeze_policy a d tools plans = Inr p"
  shows "kp_max_rows p = 50 \<and> read_tools p = set (map fst tools) \<and>
    kp_tools p = insert ''metadata.get'' (set (map fst tools)) \<and>
    required_forbidden \<subseteq> forbidden_operation_tokens p \<and> tool_to_object p = tools \<and> object_plans p = plans"
proof (cases "jget a ''max_rows''")
  case (JInt i)
  with assms show ?thesis
    by (simp add: freeze_policy_def split: sum.splits if_splits json.splits) (clarify, simp)
qed (use assms in \<open>simp_all add: freeze_policy_def\<close>)

lemma read_object_Inr_iff: "read_object name doc = Inr kvs \<longleftrightarrow> doc = Some (JObj kvs)"
  by (auto simp: read_object_def split: option.splits json.splits)

lemma load_policy_cases:
  assumes "load_policy a m d = Inr p"
  obtains allowlist manifest dictionary tools plans where
    "a = Some (JObj allowlist)" "m = Some (JObj manifest)" "d = Some (JObj dictionary)"
    "tool_mapping (jget allowlist ''tools'') ''allowlist'' = Inr tools"
    "\<forall>t \<in> set (map fst tools). ends_with t ''.get''"
    "dictionary_plans (jget dictionary ''objects'') tools = Inr plans"
    "set (map fst plans) = set (map snd tools)"
    "freeze_policy allowlist dictionary tools plans = Inr p"
  using assms unfolding load_policy_def sum_case_Inr_iff read_object_Inr_iff if_Inl_Inr_iff
  by (elim exE conjE) (rule that, blast+)

lemma load_policy_wf:
  assumes "load_policy a m d = Inr p"
  shows "policy_wf p"
  using assms
proof (rule load_policy_cases)
  fix allowlist manifest dictionary tools plans
  assume t: "tool_mapping (jget allowlist ''tools'') ''allowlist'' = Inr tools"
    and g: "\<forall>t \<in> set (map fst tools). ends_with t ''.get''"
    and pl: "dictionary_plans (jget dictionary ''objects'') tools = Inr plans"
    and ks: "set (map fst plans) = set (map snd tools)"
    and f: "freeze_policy allowlist dictionary tools plans = Inr p"
  from pl obtain items where items: "dictionary_entries tools items [] = Inr plans"
    by (auto simp: dictionary_plans_def split: sum.splits)
  have wf: "plan_wf q \<and> qp_logical_object q = obj \<and> map_of tools (qp_tool_name q) = Some obj"
    if "map_of plans obj = Some q" for obj q
    by (rule dictionary_entries_wf [OF items tool_mapping_wf(2) [OF t] _ that]) simp
  have "ends_with ''metadata.get'' ''.get''" by code_simp
  then show ?thesis
    using freeze_policy_fields [OF f] g ks wf tool_mapping_wf [OF t] by (simp add: policy_wf_def)
qed

lemma loaded_plans_frozen:
  assumes "load_policy a m d = Inr p"
  obtains dictionary where "d = Some (JObj dictionary)"
    and "\<forall>obj q. map_of (object_plans p) obj = Some q \<longrightarrow> frozen_plan dictionary q"
  using assms
proof (rule load_policy_cases)
  fix allowlist manifest dictionary tools plans
  assume d: "d = Some (JObj dictionary)" and pl: "dictionary_plans (jget dictionary ''objects'') tools = Inr plans"
    and f: "freeze_policy allowlist dictionary tools plans = Inr p"
  show thesis
    using that [OF d] dictionary_plans_frozen [OF pl] freeze_policy_fields [OF f] by simp
qed

lemma match_text_Inr_iff: "match_text v pat name = Inr s \<longleftrightarrow> v = JStr s \<and> pat s"
  by (auto simp: match_text_def split: json.splits)

lemma bounded_int_Inr_iff: "bounded_int v name lo hi = Inr i \<longleftrightarrow> v = JInt i \<and> lo \<le> i \<and> i \<le> hi"
  by (auto simp: bounded_int_def split: json.splits)

lemma request_fields_bounds:
  assumes "request_fields p kvs = Inr r"
  shows "1 \<le> vr_limit r \<and> vr_limit r \<le> kp_max_rows p \<and> 0 \<le> vr_offset r \<and> vr_offset r \<le> 1000000 \<and>
    1 \<le> vr_timeout_ms r \<and> vr_timeout_ms r \<le> 30000 \<and>
    map_of (object_plans p) (vr_logical_object r) \<noteq> None"
proof (cases "jget kvs ''logical_object''")
  case (JStr obj)
  with assms show ?thesis
    unfolding request_fields_def
    by (clarsimp simp: sum_case_Inr_iff if_Inl_Inr_iff bounded_int_Inr_iff max_timeout_ms_def)
qed (use assms in \<open>simp_all add: request_fields_def split: sum.splits\<close>)

text \<open>A validated request says what the request says.\<close>

lemma request_fields_values:
  assumes "request_fields p kvs = Inr r"
  shows "jget kvs ''request_id'' = JStr (vr_request_id r) \<and> jget kvs ''site_id'' = JStr (vr_site_id r) \<and>
    jget kvs ''account_set_ref'' = JStr (vr_account_set_ref r) \<and>
    jget kvs ''processing_purpose'' = JStr (vr_purpose r) \<and>
    jget kvs ''logical_object'' = JStr (vr_logical_object r) \<and> jget kvs ''limit'' = JInt (vr_limit r) \<and>
    jget kvs ''offset'' = JInt (vr_offset r) \<and> jget kvs ''timeout_ms'' = JInt (vr_timeout_ms r)"
proof (cases "jget kvs ''logical_object''")
  case (JStr obj)
  with assms show ?thesis
    unfolding request_fields_def
    by (clarsimp simp: sum_case_Inr_iff if_Inl_Inr_iff bounded_int_Inr_iff match_text_Inr_iff max_timeout_ms_def)
qed (use assms in \<open>simp_all add: request_fields_def split: sum.splits\<close>)

lemma validate_request_admits:
  assumes "kingdee_validate_request p request auth = Inr r"
  shows "(\<exists>kvs. request = JObj kvs \<and> set (map fst kvs) = set request_keys \<and> request_fields p kvs = Inr r) \<and>
    authenticated auth \<and> ''kingdee-read'' \<in> set (granted_scopes auth)"
  using assms by (auto simp: kingdee_validate_request_def keys_are_def split: json.splits if_splits)

lemma validate_request_rejects:
  "kingdee_validate_request p request auth = Inl e \<Longrightarrow> is_rejection e"
  by (auto simp: kingdee_validate_request_def request_fields_def match_text_def bounded_int_def
      split: json.splits if_splits sum.splits)

lemma reject_mutation_shape_Inr_iff:
  "reject_mutation_shape p tool = Inr name \<longleftrightarrow> tool = JStr name \<and> name \<noteq> [] \<and>
    set (operation_tokens name) \<inter> forbidden_operation_tokens p = {}"
  by (auto simp: reject_mutation_shape_def split: json.splits)

text \<open>A chosen plan is the frozen one of the object, renamed only for \<open>metadata.get\<close>.\<close>

lemma plan_for_Inr_iff:
  "plan_for p tool obj = Inr q \<longleftrightarrow>
     (\<exists>name base. tool = JStr name \<and> name \<noteq> [] \<and>
        set (operation_tokens name) \<inter> forbidden_operation_tokens p = {} \<and>
        map_of (object_plans p) obj = Some base \<and>
        (if name = ''metadata.get'' then q = base\<lparr>qp_tool_name := name\<rparr>
         else map_of (tool_to_object p) name = Some obj \<and> q = base))"
proof (cases "reject_mutation_shape p tool")
  case (Inl e)
  then show ?thesis
    by (auto simp: plan_for_def reject_mutation_shape_def split: json.splits if_splits)
next
  case (Inr name)
  then have "tool = JStr name \<and> name \<noteq> [] \<and> set (operation_tokens name) \<inter> forbidden_operation_tokens p = {}"
    by (simp add: reject_mutation_shape_Inr_iff)
  with Inr show ?thesis
    by (auto simp: plan_for_def split: option.splits if_splits)
qed

lemma plan_for_rejects: "plan_for p tool obj = Inl e \<Longrightarrow> is_rejection e"
  by (auto simp: plan_for_def reject_mutation_shape_def split: json.splits if_splits sum.splits option.splits)

lemma plan_for_wf:
  assumes "policy_wf p" and "plan_for p tool obj = Inr q"
  shows "plan_wf q \<and> qp_logical_object q = obj \<and>
    (\<exists>name. tool = JStr name \<and> name \<in> kp_tools p \<and> ends_with name ''.get'' \<and>
       set (operation_tokens name) \<inter> required_forbidden = {})"
proof -
  from assms(2) obtain name base where n: "tool = JStr name"
    "set (operation_tokens name) \<inter> forbidden_operation_tokens p = {}"
    "map_of (object_plans p) obj = Some base"
    "if name = ''metadata.get'' then q = base\<lparr>qp_tool_name := name\<rparr>
     else map_of (tool_to_object p) name = Some obj \<and> q = base"
    by (auto simp: plan_for_Inr_iff)
  have base: "plan_wf base \<and> qp_logical_object base = obj"
    using assms(1) n(3) by (simp add: policy_wf_def)
  have "plan_wf q \<and> qp_logical_object q = obj"
    using n(4) base by (auto simp: plan_wf_def split: if_splits)
  moreover have "name \<in> kp_tools p"
  proof (cases "name = ''metadata.get''")
    case False
    with n(4) have "map_of (tool_to_object p) name \<noteq> None" by simp
    then have "name \<in> set (map fst (tool_to_object p))"
      by (simp add: map_of_eq_None_iff)
    then show ?thesis
      using assms(1) unfolding policy_wf_def by simp
  qed (use assms(1) in \<open>simp add: policy_wf_def\<close>)
  ultimately show ?thesis
    using assms(1) n(1,2) by (auto simp: policy_wf_def)
qed

section \<open>Loaded policies\<close>

text \<open>C39. A policy that loads from the three frozen contracts is a read-only surface: exactly seven
  tools plus \<open>metadata.get\<close>, all ending in \<open>.get\<close>, the mutation words all forbidden, at most fifty
  rows, and for exactly the objects the tools name one plan whose fields are distinct and aligned
  with their sources and types, without filters, and whose own tool reads that object.\<close>

theorem loaded_policy_is_read_only:
  assumes "load_policy allow_doc manifest_doc dictionary_doc = Inr p"
  shows "policy_wf p"
  using assms by (rule load_policy_wf)

text \<open>The contracts of the repository, with one field kept for each object.\<close>

definition sample_tools :: "(string \<times> string \<times> string) list" where
  "sample_tools =
     [(''kingdee.material.get'', ''material'', ''BD_MATERIAL''),
      (''kingdee.customer.get'', ''customer'', ''BD_Customer''),
      (''kingdee.supplier.get'', ''supplier'', ''BD_Supplier''),
      (''kingdee.sales_order.get'', ''sales_order'', ''SAL_SaleOrder''),
      (''kingdee.purchase_order.get'', ''purchase_order'', ''PUR_PurchaseOrder''),
      (''kingdee.inventory.get'', ''inventory'', ''STK_Inventory''),
      (''kingdee.receivable.get'', ''receivable'', ''AR_receivable'')]"

definition sample_allowlist :: json where
  "sample_allowlist = JObj
     [(''allowlist_version'', JStr ''0.1.0''), (''max_rows'', JInt 50),
      (''forbidden_operation_tokens'', JList (map JStr
         [''create'', ''update'', ''save'', ''submit'', ''audit'', ''unaudit'', ''delete'', ''payment'',
          ''write'', ''execute'', ''push''])),
      (''tools'', JList (map (\<lambda>(t, obj, _). JObj [(''name'', JStr t), (''logical_object'', JStr obj)])
         sample_tools))]"

definition sample_manifest :: json where
  "sample_manifest = JObj
     [(''tools'', JList (map (\<lambda>(t, obj, _). JObj [(''name'', JStr t), (''logical_object'', JStr obj),
         (''mutates'', JBool False)]) sample_tools))]"

definition sample_candidate :: "string \<Rightarrow> json" where
  "sample_candidate v = JObj [(''value'', JStr v), (''verification_status'', JStr ''gate5_metadata_required'')]"

definition sample_dictionary :: json where
  "sample_dictionary = JObj
     [(''dictionary_version'', JStr ''0.1.0''),
      (''objects'', JList (map (\<lambda>(_, obj, form). JObj [(''logical_object'', JStr obj),
         (''candidate_form'', sample_candidate form),
         (''fields'', JList [JObj [(''logical_name'', JStr (obj @ ''_number'')),
            (''data_type'', JStr ''string''), (''candidate_field'', sample_candidate ''FNumber'')]])])
         sample_tools))]"

definition sample_policy :: kingdee_policy where
  "sample_policy = projr (load_policy (Some sample_allowlist) (Some sample_manifest) (Some sample_dictionary))"

lemma sample_policy_loads:
  "load_policy (Some sample_allowlist) (Some sample_manifest) (Some sample_dictionary) = Inr sample_policy"
proof -
  have "\<not> isl (load_policy (Some sample_allowlist) (Some sample_manifest) (Some sample_dictionary))"
    by code_simp
  then show ?thesis by (simp add: sample_policy_def)
qed

lemma loaded_policy_is_read_only_witness: "policy_wf sample_policy"
  by (rule loaded_policy_is_read_only [OF sample_policy_loads])

end
