(* ===== verification/Kingdee_Adapter.thy ===== *)
theory Kingdee_Adapter
  imports Kingdee_Policy Py_Time
begin

text \<open>
  The read boundary itself: transports (\<open>transport.py\<close>), audit events (\<open>audit.py\<close>) and
  \<open>KingdeeAdapter.invoke\<close> (\<open>adapter.py\<close>). A transport is a call on a world it may change, which may
  raise; the synthetic and the gate-locked live transport are the two of the source. The audit sink
  is the in-memory one, a list of events. The URL checks of \<open>LiveDestination\<close> (\<open>urllib\<close>,
  \<open>ipaddress\<close>) are outside the model: the destination is part of the injected backend.
\<close>

section \<open>Transport results\<close>

record transport_result =
  tr_available :: bool
  tr_rows :: "fields list"
  tr_metadata :: fields
  tr_reason_code :: "string option"
  tr_network_calls :: int
  tr_startup :: bool
  tr_metadata_available :: bool

definition transport_post_init :: "transport_result \<Rightarrow> kingdee_error + transport_result" where
  "transport_post_init r =
     (if tr_network_calls r < 0 then Inl (Transport_raised ''network_calls cannot be negative'')
      else Inr r)"

definition result_available :: "fields list \<Rightarrow> fields \<Rightarrow> int \<Rightarrow> kingdee_error + transport_result" where
  "result_available rows metadata calls =
     transport_post_init \<lparr>tr_available = True, tr_rows = rows, tr_metadata = metadata,
       tr_reason_code = None, tr_network_calls = calls, tr_startup = True,
       tr_metadata_available = True\<rparr>"

definition result_unavailable ::
  "string \<Rightarrow> int \<Rightarrow> bool \<Rightarrow> bool \<Rightarrow> kingdee_error + transport_result" where
  "result_unavailable reason calls startup metadata =
     transport_post_init \<lparr>tr_available = False, tr_rows = [], tr_metadata = [],
       tr_reason_code = Some reason, tr_network_calls = calls, tr_startup = startup,
       tr_metadata_available = metadata\<rparr>"

record 'w kingdee_transport =
  tp_synthetic :: bool
  tp_execute :: "query_plan \<Rightarrow> validated_request \<Rightarrow> 'w \<Rightarrow> (kingdee_error, transport_result, 'w) call"

section \<open>The synthetic transport\<close>

text \<open>\<open>zip(..., strict=True)\<close> raises when the lengths differ.\<close>

fun zip_strict :: "'a list \<Rightarrow> 'b list \<Rightarrow> kingdee_error + ('a \<times> 'b) list" where
  "zip_strict [] [] = Inr []"
| "zip_strict (x # xs) (y # ys) =
     (case zip_strict xs ys of Inl e \<Rightarrow> Inl e | Inr ps \<Rightarrow> Inr ((x, y) # ps))"
| "zip_strict _ _ = Inl (Response_invalid ''zip() arguments have different lengths'')"

definition plan_metadata :: "query_plan \<Rightarrow> string \<Rightarrow> kingdee_error + fields" where
  "plan_metadata q status =
     (case zip_strict (qp_fields q) (qp_source_fields q) of
        Inl e \<Rightarrow> Inl e
      | Inr ps \<Rightarrow>
     (case zip_strict ps (qp_field_types q) of
        Inl e \<Rightarrow> Inl e
      | Inr ts \<Rightarrow>
          Inr [(''logical_object'', JStr (qp_logical_object q)),
               (''source_form'', JStr (qp_source_form q)),
               (''fields'', JList (map (\<lambda>((name, src), ty).
                  JObj [(''logical_name'', JStr name), (''source_field'', JStr src),
                        (''data_type'', JStr ty), (''verification_status'', JStr status)]) ts))]))"

definition synthetic_value :: "string \<Rightarrow> int \<Rightarrow> string \<times> string \<Rightarrow> string \<times> json" where
  "synthetic_value obj ordinal p =
     (let (field, ty) = p in
      (field,
       if ty = ''number'' then JFloat (int_text (ordinal * 100) @ ''.0'')
       else if ty = ''date''
       then JStr (''2026-08-'' @ pad_digits 2 (nat ((ordinal - 1) mod 28 + 1)))
       else JStr (''Synthetic '' @ obj @ '' '' @ field @ '' '' @ pad_digits 4 (nat ordinal))))"

definition synthetic_row :: "query_plan \<Rightarrow> int \<Rightarrow> kingdee_error + fields" where
  "synthetic_row q index =
     (case zip_strict (qp_fields q) (qp_field_types q) of
        Inl e \<Rightarrow> Inl e
      | Inr ps \<Rightarrow>
          Inr [(''record_ref'',
                 JStr (qp_logical_object q @ ''-synthetic-'' @ pad_digits 4 (nat (index + 1)))),
               (''synthetic'', JBool True),
               (''values'',
                 JObj (foldl (\<lambda>d (k, v). AList.update k v d) []
                   (map (synthetic_value (qp_logical_object q) (index + 1)) ps)))])"

definition synthetic_total_rows :: int where
  "synthetic_total_rows = 100"

definition synthetic_execute ::
  "query_plan \<Rightarrow> validated_request \<Rightarrow> 'w \<Rightarrow> (kingdee_error, transport_result, 'w) call" where
  "synthetic_execute q r w =
     ((if qp_tool_name q = ''metadata.get''
       then case plan_metadata q ''synthetic_only'' of
              Inl e \<Rightarrow> Inl e
            | Inr metadata \<Rightarrow> result_available [] metadata 0
       else case map_raise (synthetic_row q)
                   [vr_offset r .. min (vr_offset r + vr_limit r) synthetic_total_rows - 1] of
              Inl e \<Rightarrow> Inl e
            | Inr rows \<Rightarrow>
                result_available rows [(''source'', JStr ''gate5_deterministic_synthetic'')] 0), w)"

definition synthetic_transport :: "'w kingdee_transport" where
  "synthetic_transport = \<lparr>tp_synthetic = True, tp_execute = synthetic_execute\<rparr>"

section \<open>The gate-locked live transport\<close>

record live_entry_gates =
  lg_enabled :: bool
  lg_gate :: int
  lg_runtime_mode :: string
  lg_network_allowed :: bool
  lg_credentials :: bool
  lg_metadata_verified :: bool
  lg_business_reads :: bool

definition gates_ready :: "live_entry_gates \<Rightarrow> bool" where
  "gates_ready g =
     (lg_enabled g \<and> lg_gate g \<ge> 5 \<and> lg_runtime_mode g = ''live'' \<and> lg_network_allowed g \<and>
      lg_credentials g \<and> lg_metadata_verified g \<and> lg_business_reads g)"

text \<open>What the injected backend does: it raises, returns some other object, or a result.\<close>

datatype live_reply = Backend_raised | Not_a_result | Live_result transport_result

definition live_execute ::
  "live_entry_gates \<Rightarrow> (query_plan \<Rightarrow> validated_request \<Rightarrow> 'w \<Rightarrow> live_reply \<times> 'w)
    \<Rightarrow> query_plan \<Rightarrow> validated_request \<Rightarrow> 'w \<Rightarrow> (kingdee_error, transport_result, 'w) call" where
  "live_execute g backend q r w =
     (if \<not> gates_ready g then (result_unavailable ''live_entry_gates_closed'' 0 False False, w)
      else case backend q r w of
        (Backend_raised, w') \<Rightarrow>
          (result_unavailable ''live_transport_unavailable'' 1 True (lg_metadata_verified g), w')
      | (Not_a_result, w') \<Rightarrow>
          (result_unavailable ''live_transport_invalid_response'' 1 True (lg_metadata_verified g), w')
      | (Live_result res, w') \<Rightarrow> (Inr res, w'))"

definition live_transport ::
  "live_entry_gates \<Rightarrow> (query_plan \<Rightarrow> validated_request \<Rightarrow> 'w \<Rightarrow> live_reply \<times> 'w)
    \<Rightarrow> 'w kingdee_transport" where
  "live_transport g backend = \<lparr>tp_synthetic = False, tp_execute = live_execute g backend\<rparr>"

section \<open>Responses and audit events\<close>

datatype verification_status = Verified | Unavailable | Not_attempted

fun verification_text :: "verification_status \<Rightarrow> string" where
  "verification_text Verified = ''verified''"
| "verification_text Unavailable = ''unavailable''"
| "verification_text Not_attempted = ''not_attempted''"

datatype adapter_status = Read_available | Read_unavailable

fun adapter_status_text :: "adapter_status \<Rightarrow> string" where
  "adapter_status_text Read_available = ''available''"
| "adapter_status_text Read_unavailable = ''unavailable''"

record verification_snapshot =
  vs_startup :: verification_status
  vs_authentication :: verification_status
  vs_metadata :: verification_status
  vs_business :: verification_status

record control_metrics =
  cm_network_calls :: int
  cm_writer_tools :: int
  cm_mutation_attempts :: int
  cm_synthetic_fallbacks :: int

record adapter_response =
  ar_status :: adapter_status
  ar_request_id :: string
  ar_site_id :: string
  ar_logical_object :: string
  ar_tool_name :: string
  ar_synthetic :: bool
  ar_rows :: "fields list"
  ar_metadata :: fields
  ar_page :: fields
  ar_verification :: verification_snapshot
  ar_controls :: control_metrics
  ar_reason_code :: "string option"

fun text_or_null :: "string option \<Rightarrow> json" where
  "text_or_null None = JNull"
| "text_or_null (Some s) = JStr s"

definition response_to_dict :: "adapter_response \<Rightarrow> json" where
  "response_to_dict r = JObj
     [(''status'', JStr (adapter_status_text (ar_status r))),
      (''request_id'', JStr (ar_request_id r)),
      (''site_id'', JStr (ar_site_id r)),
      (''logical_object'', JStr (ar_logical_object r)),
      (''tool_name'', JStr (ar_tool_name r)),
      (''synthetic'', JBool (ar_synthetic r)),
      (''rows'', JList (map JObj (ar_rows r))),
      (''metadata'', JObj (ar_metadata r)),
      (''page'', JObj (ar_page r)),
      (''verification'', JObj
        [(''startup'', JStr (verification_text (vs_startup (ar_verification r)))),
         (''authentication'', JStr (verification_text (vs_authentication (ar_verification r)))),
         (''metadata'', JStr (verification_text (vs_metadata (ar_verification r)))),
         (''business'', JStr (verification_text (vs_business (ar_verification r))))]),
      (''controls'', JObj
        [(''network_calls'', JInt (cm_network_calls (ar_controls r))),
         (''writer_tools_discovered'', JInt (cm_writer_tools (ar_controls r))),
         (''mutation_attempts'', JInt (cm_mutation_attempts (ar_controls r))),
         (''synthetic_fallbacks'', JInt (cm_synthetic_fallbacks (ar_controls r)))]),
      (''reason_code'', text_or_null (ar_reason_code r))]"

record kingdee_event =
  ke_event_type :: string
  ke_request_id :: string
  ke_site_id :: string
  ke_fingerprint :: string
  ke_purpose :: string
  ke_tool_name :: string
  ke_logical_object :: string
  ke_status :: string
  ke_reason_code :: "string option"
  ke_returned_rows :: int
  ke_synthetic :: bool
  ke_network_calls :: int
  ke_writer_tools :: int
  ke_mutation_attempts :: int

definition account_set_fingerprint :: "string \<Rightarrow> string" where
  "account_set_fingerprint ref = ''sha256:'' @ take 16 (sha256_hex ref)"

text \<open>\<open>InMemoryAuditSink.record\<close>\<close>

definition record_event :: "kingdee_event \<Rightarrow> kingdee_event list \<Rightarrow> kingdee_event list" where
  "record_event e events = events @ [e]"

section \<open>Checking what a transport returned\<close>

definition value_matches_type :: "json \<Rightarrow> string \<Rightarrow> bool" where
  "value_matches_type v ty =
     (if ty = ''string'' \<or> ty = ''date'' then is_str v
      else if ty = ''number'' then (case v of JInt _ \<Rightarrow> True | JFloat _ \<Rightarrow> True | _ \<Rightarrow> False)
      else (case v of JStr _ \<Rightarrow> True | JInt _ \<Rightarrow> True | JFloat _ \<Rightarrow> True | JBool _ \<Rightarrow> True
            | JNull \<Rightarrow> True | _ \<Rightarrow> False))"

text \<open>\<open>all(f(x, y) for x, y in zip(xs, ys, strict=True))\<close> stops at the first failure.\<close>

fun all_strict :: "('a \<Rightarrow> 'b \<Rightarrow> bool) \<Rightarrow> 'a list \<Rightarrow> 'b list \<Rightarrow> kingdee_error + bool" where
  "all_strict f [] [] = Inr True"
| "all_strict f (x # xs) (y # ys) = (if f x y then all_strict f xs ys else Inr False)"
| "all_strict f _ _ = Inl (Response_invalid ''zip() arguments have different lengths'')"

definition valid_row :: "bool \<Rightarrow> query_plan \<Rightarrow> fields \<Rightarrow> kingdee_error + bool" where
  "valid_row synthetic q row =
     (if \<not> keys_are row (if synthetic then [''record_ref'', ''values'', ''synthetic'']
                        else [''record_ref'', ''values''])
      then Inr False
      else if synthetic \<and> jget row ''synthetic'' \<noteq> JBool True then Inr False
      else case jget row ''record_ref'' of
        JStr ref \<Rightarrow>
          (if \<not> (1 \<le> length ref \<and> length ref \<le> 256) then Inr False
           else case jget row ''values'' of
             JObj values \<Rightarrow>
               (if \<not> keys_are values (qp_fields q) then Inr False
                else all_strict (\<lambda>field ty. value_matches_type (jget values field) ty)
                       (qp_fields q) (qp_field_types q))
           | _ \<Rightarrow> Inr False)
      | _ \<Rightarrow> Inr False)"

fun valid_rows :: "bool \<Rightarrow> query_plan \<Rightarrow> fields list \<Rightarrow> kingdee_error + bool" where
  "valid_rows synthetic q [] = Inr True"
| "valid_rows synthetic q (row # rows) =
     (case valid_row synthetic q row of
        Inl e \<Rightarrow> Inl e
      | Inr ok \<Rightarrow> (if ok then valid_rows synthetic q rows else Inr False))"

definition validate_transport_result ::
  "bool \<Rightarrow> query_plan \<Rightarrow> validated_request \<Rightarrow> transport_result \<Rightarrow> kingdee_error + transport_result" where
  "validate_transport_result synthetic q r res =
     (if \<not> tr_available res then Inr res
      else case (if qp_tool_name q = ''metadata.get'' then Inr (tr_rows res = [])
                 else if int (length (tr_rows res)) \<le> vr_limit r
                 then valid_rows synthetic q (tr_rows res)
                 else Inr False) of
        Inl e \<Rightarrow> Inl e
      | Inr ok \<Rightarrow>
          (if ok then Inr res
           else result_unavailable ''transport_result_rejected'' (tr_network_calls res)
                  (tr_startup res) (tr_metadata_available res)))"

section \<open>The adapter\<close>

definition verified_if :: "bool \<Rightarrow> verification_status" where
  "verified_if b = (if b then Verified else Unavailable)"

definition adapter_metadata :: "bool \<Rightarrow> query_plan \<Rightarrow> transport_result \<Rightarrow> kingdee_error + fields" where
  "adapter_metadata synthetic q res =
     (if tr_available res \<and> qp_tool_name q = ''metadata.get''
      then plan_metadata q (if synthetic then ''synthetic_only'' else ''live_verified'')
      else if tr_available res
      then Inr [(''source'', JStr (if synthetic then ''gate5_deterministic_synthetic''
                                else ''kingdee_live_read''))]
      else Inr [])"

definition adapter_response_for ::
  "bool \<Rightarrow> query_plan \<Rightarrow> validated_request \<Rightarrow> transport_result \<Rightarrow> kingdee_error + adapter_response" where
  "adapter_response_for synthetic q r res =
     (let is_metadata = (qp_tool_name q = ''metadata.get'');
          rows = (if tr_available res then tr_rows res else []);
          returned = int (length rows)
      in case adapter_metadata synthetic q res of
        Inl e \<Rightarrow> Inl e
      | Inr metadata \<Rightarrow>
          Inr \<lparr>ar_status = (if tr_available res then Read_available else Read_unavailable),
               ar_request_id = vr_request_id r, ar_site_id = vr_site_id r,
               ar_logical_object = vr_logical_object r, ar_tool_name = qp_tool_name q,
               ar_synthetic = synthetic, ar_rows = rows, ar_metadata = metadata,
               ar_page = [(''limit'', JInt (vr_limit r)), (''offset'', JInt (vr_offset r)),
                          (''returned_rows'', JInt returned),
                          (''has_more'', JBool (tr_available res \<and> \<not> is_metadata \<and> returned = vr_limit r))],
               ar_verification = \<lparr>vs_startup = verified_if (tr_startup res),
                 vs_authentication = Verified, vs_metadata = verified_if (tr_metadata_available res),
                 vs_business = (if is_metadata then Not_attempted else verified_if (tr_available res))\<rparr>,
               ar_controls = \<lparr>cm_network_calls = tr_network_calls res, cm_writer_tools = 0,
                 cm_mutation_attempts = 0, cm_synthetic_fallbacks = 0\<rparr>,
               ar_reason_code = tr_reason_code res\<rparr>)"

definition rejection_event :: "kingdee_policy \<Rightarrow> bool \<Rightarrow> json \<Rightarrow> kingdee_event" where
  "rejection_event p synthetic tool =
     \<lparr>ke_event_type = ''kingdee_read_rejected'', ke_request_id = ''rejected-request'',
      ke_site_id = ''unknown'', ke_fingerprint = ''sha256:unavailable'', ke_purpose = ''unknown'',
      ke_tool_name = (case tool of JStr t \<Rightarrow> (if t \<in> kp_tools p then t else ''rejected-tool'')
                      | _ \<Rightarrow> ''rejected-tool''),
      ke_logical_object = ''unknown'', ke_status = ''denied'',
      ke_reason_code = Some ''request_rejected'', ke_returned_rows = 0, ke_synthetic = synthetic,
      ke_network_calls = 0, ke_writer_tools = 0, ke_mutation_attempts = 0\<rparr>"

definition read_event :: "string \<Rightarrow> validated_request \<Rightarrow> adapter_response \<Rightarrow> kingdee_event" where
  "read_event tool r res =
     \<lparr>ke_event_type = ''kingdee_read'', ke_request_id = vr_request_id r,
      ke_site_id = vr_site_id r, ke_fingerprint = account_set_fingerprint (vr_account_set_ref r),
      ke_purpose = vr_purpose r, ke_tool_name = tool, ke_logical_object = vr_logical_object r,
      ke_status = adapter_status_text (ar_status res), ke_reason_code = ar_reason_code res,
      ke_returned_rows = int (length (ar_rows res)), ke_synthetic = ar_synthetic res,
      ke_network_calls = cm_network_calls (ar_controls res), ke_writer_tools = 0,
      ke_mutation_attempts = 0\<rparr>"

text \<open>The two checks before the transport: both raise \<open>RequestRejected\<close>.\<close>

definition admit_request ::
  "kingdee_policy \<Rightarrow> json \<Rightarrow> json \<Rightarrow> auth_context \<Rightarrow> kingdee_error + query_plan \<times> validated_request" where
  "admit_request p tool request auth =
     (case kingdee_validate_request p request auth of
        Inl e \<Rightarrow> Inl e
      | Inr r \<Rightarrow> (case plan_for p tool (vr_logical_object r) of Inl e \<Rightarrow> Inl e | Inr q \<Rightarrow> Inr (q, r)))"

definition kingdee_invoke ::
  "kingdee_policy \<Rightarrow> 'w kingdee_transport \<Rightarrow> json \<Rightarrow> json \<Rightarrow> auth_context \<Rightarrow> 'w \<times> kingdee_event list
    \<Rightarrow> (kingdee_error, adapter_response, 'w \<times> kingdee_event list) call" where
  "kingdee_invoke p transport tool request auth st =
     (let (w, events) = st; synthetic = tp_synthetic transport in
      case admit_request p tool request auth of
        Inl e \<Rightarrow> (Inl e, w, record_event (rejection_event p synthetic tool) events)
      | Inr (q, r) \<Rightarrow>
          (case tp_execute transport q r w of
             (Inl e, w') \<Rightarrow> (Inl e, w', events)
           | (Inr res, w') \<Rightarrow>
               (case validate_transport_result synthetic q r res of
                  Inl e \<Rightarrow> (Inl e, w', events)
                | Inr res' \<Rightarrow>
                    (case adapter_response_for synthetic q r res' of
                       Inl e \<Rightarrow> (Inl e, w', events)
                     | Inr response \<Rightarrow>
                         (Inr response, w',
                          record_event (read_event (str_of_json tool) r response) events)))))"

section \<open>What the checks establish\<close>

text \<open>The rows a plan allows: its fields, all of them and no others, each of its type.\<close>

definition row_fits :: "query_plan \<Rightarrow> fields \<Rightarrow> bool" where
  "row_fits q row =
     (\<exists>ref values. jget row ''record_ref'' = JStr ref \<and> 1 \<le> length ref \<and> length ref \<le> 256 \<and>
        jget row ''values'' = JObj values \<and> set (map fst values) = set (qp_fields q) \<and>
        length (qp_field_types q) = length (qp_fields q) \<and>
        (\<forall>i < length (qp_fields q).
           value_matches_type (jget values (qp_fields q ! i)) (qp_field_types q ! i)))"

lemma zip_strict_equal [simp]: "length xs = length ys \<Longrightarrow> zip_strict xs ys = Inr (zip xs ys)"
  by (induction xs ys rule: zip_strict.induct) simp_all

lemma all_strict_Inr_iff:
  "all_strict f xs ys = Inr True \<longleftrightarrow>
     length xs = length ys \<and> (\<forall>i < length xs. f (xs ! i) (ys ! i))"
  by (induction f xs ys rule: all_strict.induct) (auto simp: less_Suc_eq_0_disj)

lemma valid_row_fits: "valid_row synthetic q row = Inr True \<Longrightarrow> row_fits q row"
  by (auto simp: valid_row_def row_fits_def keys_are_def all_strict_Inr_iff
      split: if_splits json.splits)

lemma valid_rows_Inr_iff:
  "valid_rows synthetic q rows = Inr True \<longleftrightarrow> (\<forall>row \<in> set rows. valid_row synthetic q row = Inr True)"
  by (induction rows) (auto split: sum.splits)

lemma validate_transport_result_rows:
  assumes "validate_transport_result synthetic q r res = Inr res'" and "tr_available res'"
  shows "if qp_tool_name q = ''metadata.get'' then tr_rows res' = []
    else int (length (tr_rows res')) \<le> vr_limit r \<and> (\<forall>row \<in> set (tr_rows res'). row_fits q row)"
  using assms
  by (auto simp: validate_transport_result_def result_unavailable_def transport_post_init_def
      valid_rows_Inr_iff dest: valid_row_fits split: if_splits sum.splits)

lemma adapter_response_fields:
  assumes "adapter_response_for synthetic q r res = Inr response"
  shows "ar_rows response = (if tr_available res then tr_rows res else []) \<and>
    ar_logical_object response = vr_logical_object r \<and> ar_synthetic response = synthetic \<and>
    ar_tool_name response = qp_tool_name q \<and> ar_status response = (if tr_available res then Read_available else Read_unavailable)"
  using assms by (simp add: adapter_response_for_def Let_def split: sum.splits) (clarify, simp)

lemma admit_request_admits:
  assumes "policy_wf p" and "admit_request p tool request auth = Inr (q, r)"
  shows "authenticated auth \<and> ''kingdee-read'' \<in> set (granted_scopes auth) \<and>
    1 \<le> vr_limit r \<and> vr_limit r \<le> 50 \<and> 0 \<le> vr_offset r \<and> vr_offset r \<le> 1000000 \<and>
    1 \<le> vr_timeout_ms r \<and> vr_timeout_ms r \<le> 30000 \<and> plan_for p tool (vr_logical_object r) = Inr q"
proof -
  from assms(2) have v: "kingdee_validate_request p request auth = Inr r"
    and q: "plan_for p tool (vr_logical_object r) = Inr q"
    by (auto simp: admit_request_def split: sum.splits)
  from validate_request_admits [OF v] obtain kvs where "request_fields p kvs = Inr r"
    and a: "authenticated auth" "''kingdee-read'' \<in> set (granted_scopes auth)" by blast
  from request_fields_bounds [OF this(1)] a q assms(1) show ?thesis
    by (simp add: policy_wf_def)
qed

lemma admit_request_rejects: "admit_request p tool request auth = Inl e \<Longrightarrow> is_rejection e"
  by (auto simp: admit_request_def split: sum.splits dest: validate_request_rejects plan_for_rejects)

lemma kingdee_invoke_cases:
  assumes "kingdee_invoke p t tool request auth (w, events) = (out, w', events')"
  obtains (rejected) e where "admit_request p tool request auth = Inl e" "out = Inl e" "w' = w"
      "events' = events @ [rejection_event p (tp_synthetic t) tool]"
  | (failed) q r e where "admit_request p tool request auth = Inr (q, r)" "out = Inl e"
      "w' = snd (tp_execute t q r w)" "events' = events"
  | (returned) q r res res' response where "admit_request p tool request auth = Inr (q, r)"
      "tp_execute t q r w = (Inr res, w')"
      "validate_transport_result (tp_synthetic t) q r res = Inr res'"
      "adapter_response_for (tp_synthetic t) q r res' = Inr response" "out = Inr response"
      "events' = events @ [read_event (str_of_json tool) r response]"
proof (cases "admit_request p tool request auth")
  case (Inl e)
  with assms show ?thesis
    by (intro rejected [of e]) (simp_all add: kingdee_invoke_def record_event_def)
next
  case (Inr qr)
  obtain q r where qr: "qr = (q, r)" by (cases qr)
  obtain x w1 where x: "tp_execute t q r w = (x, w1)" by (cases "tp_execute t q r w")
  note base = assms [unfolded kingdee_invoke_def, simplified, unfolded Inr qr]
  show ?thesis
  proof (cases x)
    case (Inl e)
    with base x \<open>admit_request p tool request auth = Inr qr\<close> qr show ?thesis
      by (intro failed [of q r e]) simp_all
  next
    case res: (Inr res)
    show ?thesis
    proof (cases "validate_transport_result (tp_synthetic t) q r res")
      case (Inl e)
      with base x res \<open>admit_request p tool request auth = Inr qr\<close> qr show ?thesis
        by (intro failed [of q r e]) simp_all
    next
      case res': (Inr res')
      show ?thesis
      proof (cases "adapter_response_for (tp_synthetic t) q r res'")
        case (Inl e)
        with base x res res' \<open>admit_request p tool request auth = Inr qr\<close> qr show ?thesis
          by (intro failed [of q r e]) simp_all
      next
        case (Inr response)
        with base x res res' \<open>admit_request p tool request auth = Inr qr\<close> qr show ?thesis
          by (intro returned [of q r res res' response]) (simp_all add: record_event_def)
      qed
    qed
  qed
qed

section \<open>The synthetic transport passes its own checks\<close>

lemma length_nat_digits_3: "n < 1000 \<Longrightarrow> length (nat_digits n) \<le> 3"
  by (subst nat_digits.simps, simp, subst nat_digits.simps, simp, subst nat_digits.simps, simp)

lemma length_pad_digits_4: "n < 1000 \<Longrightarrow> length (pad_digits 4 n) = 4"
  using length_nat_digits_3 [of n] by (simp add: pad_digits_def Let_def)

definition synthetic_ref :: "string \<Rightarrow> int \<Rightarrow> string" where
  "synthetic_ref obj index = obj @ ''-synthetic-'' @ pad_digits 4 (nat (index + 1))"

lemma synthetic_row_values:
  assumes "plan_wf q"
  shows "synthetic_row q index = Inr
    [(''record_ref'', JStr (synthetic_ref (qp_logical_object q) index)), (''synthetic'', JBool True),
     (''values'', JObj (map (synthetic_value (qp_logical_object q) (index + 1))
        (zip (qp_fields q) (qp_field_types q))))]"
proof -
  let ?ps = "zip (qp_fields q) (qp_field_types q)"
  let ?vs = "map (synthetic_value (qp_logical_object q) (index + 1)) ?ps"
  have eq: "length (qp_fields q) = length (qp_field_types q)" "distinct (qp_fields q)"
    using assms by (simp_all add: plan_wf_def)
  have "map fst ?vs = map fst ?ps"
    by (simp add: synthetic_value_def split_beta comp_def)
  then have "distinct (map fst ?vs)" using eq by simp
  then have "foldl (\<lambda>d (k, v). AList.update k v d) [] ?vs = ?vs"
    using foldl_update_fresh [of ?vs "[]"] by simp
  with eq show ?thesis by (simp add: synthetic_row_def synthetic_ref_def)
qed

lemma jget_nth:
  assumes "distinct (map fst kvs)" and "i < length kvs"
  shows "jget kvs (fst (kvs ! i)) = snd (kvs ! i)"
proof -
  have "(fst (kvs ! i), snd (kvs ! i)) \<in> set kvs" using assms(2) by simp
  with assms(1) have "map_of kvs (fst (kvs ! i)) = Some (snd (kvs ! i))" by (rule map_of_is_SomeI)
  then show ?thesis by (simp add: jget_def)
qed

lemma valid_row_intro:
  assumes "keys_are vs (qp_fields q)" and "1 \<le> length ref" and "length ref \<le> 256"
    and "all_strict (\<lambda>field ty. value_matches_type (jget vs field) ty) (qp_fields q) (qp_field_types q) = Inr True"
  shows "valid_row True q [(''record_ref'', JStr ref), (''synthetic'', JBool True), (''values'', JObj vs)]
    = Inr True"
proof -
  have "keys_are [(''record_ref'', JStr ref), (''synthetic'', JBool True), (''values'', JObj vs)]
    [''record_ref'', ''values'', ''synthetic'']"
    unfolding keys_are_def by auto
  then show ?thesis
    using assms by (simp add: valid_row_def)
qed

lemma synthetic_row_valid:
  assumes q: "plan_wf q" and ix: "0 \<le> index" "index < 100"
    and len: "length (qp_logical_object q) \<le> 240" and row: "synthetic_row q index = Inr row"
  shows "valid_row True q row = Inr True"
proof -
  let ?vs = "map (synthetic_value (qp_logical_object q) (index + 1)) (zip (qp_fields q) (qp_field_types q))"
  have eq: "length (qp_field_types q) = length (qp_fields q)" and d: "distinct (qp_fields q)"
    using q by (simp_all add: plan_wf_def)
  have fst_vs: "map fst ?vs = qp_fields q"
    using eq by (simp add: synthetic_value_def split_beta comp_def)
  have at_i: "jget ?vs (qp_fields q ! i) = snd (synthetic_value (qp_logical_object q) (index + 1) (qp_fields q ! i, qp_field_types q ! i))"
    if "i < length (qp_fields q)" for i
  proof -
    have "fst (?vs ! i) = qp_fields q ! i" using that eq by (simp add: synthetic_value_def)
    with jget_nth [of ?vs i] fst_vs d that eq show ?thesis by simp
  qed
  have ok: "all_strict (\<lambda>field ty. value_matches_type (jget ?vs field) ty) (qp_fields q) (qp_field_types q) = Inr True"
    using eq by (simp add: all_strict_Inr_iff at_i) (simp add: synthetic_value_def value_matches_type_def)
  have "length (synthetic_ref (qp_logical_object q) index) \<le> 256"
    using len ix length_pad_digits_4 [of "nat (index + 1)"] by (simp add: synthetic_ref_def)
  moreover have "1 \<le> length (synthetic_ref (qp_logical_object q) index)"
    by (simp add: synthetic_ref_def)
  moreover have "keys_are ?vs (qp_fields q)"
    unfolding keys_are_def fst_vs ..
  ultimately have "valid_row True q [(''record_ref'', JStr (synthetic_ref (qp_logical_object q) index)),
      (''synthetic'', JBool True), (''values'', JObj ?vs)] = Inr True"
    using ok by (intro valid_row_intro)
  with row show ?thesis unfolding synthetic_row_values [OF q] by (simp only: sum.inject)
qed

section \<open>Properties\<close>

text \<open>C40. Under a loaded policy a call either is denied, and then the transport is not invoked (its
  world is unchanged) and exactly one rejection is recorded, or the caller is authenticated with the
  read scope, the tool is a frozen \<open>.get\<close> tool without a mutation word, and the transport runs once,
  with the request as it was made (its eight fields and no others, within the bounds) and with the
  plan the policy froze for the requested object: the form and fields the dictionary document gives
  that object, without filters, under its own tool name, or \<open>metadata.get\<close> when that was called. A
  business tool must be the one mapped to the requested object.\<close>

theorem kingdee_call_is_frozen:
  assumes "load_policy allow_doc manifest_doc dictionary_doc = Inr p"
    and "kingdee_invoke p t tool request auth (w, events) = (out, w', events')"
  shows "(w' = w \<and> (\<exists>e. out = Inl e \<and> is_rejection e) \<and>
      events' = events @ [rejection_event p (tp_synthetic t) tool]) \<or>
    (\<exists>name kvs base q r dictionary.
      tool = JStr name \<and> name \<in> kp_tools p \<and> ends_with name ''.get'' \<and>
      set (operation_tokens name) \<inter> required_forbidden = {} \<and>
      authenticated auth \<and> ''kingdee-read'' \<in> set (granted_scopes auth) \<and>
      w' = snd (tp_execute t q r w) \<and>
      request = JObj kvs \<and> set (map fst kvs) = set request_keys \<and>
      jget kvs ''request_id'' = JStr (vr_request_id r) \<and> jget kvs ''site_id'' = JStr (vr_site_id r) \<and>
      jget kvs ''account_set_ref'' = JStr (vr_account_set_ref r) \<and>
      jget kvs ''processing_purpose'' = JStr (vr_purpose r) \<and>
      jget kvs ''logical_object'' = JStr (vr_logical_object r) \<and> jget kvs ''limit'' = JInt (vr_limit r) \<and>
      jget kvs ''offset'' = JInt (vr_offset r) \<and> jget kvs ''timeout_ms'' = JInt (vr_timeout_ms r) \<and>
      1 \<le> vr_limit r \<and> vr_limit r \<le> 50 \<and> 0 \<le> vr_offset r \<and> vr_offset r \<le> 1000000 \<and>
      1 \<le> vr_timeout_ms r \<and> vr_timeout_ms r \<le> 30000 \<and>
      map_of (object_plans p) (vr_logical_object r) = Some base \<and>
      dictionary_doc = Some (JObj dictionary) \<and> frozen_plan dictionary base \<and>
      qp_logical_object base = vr_logical_object r \<and> qp_filters base = [] \<and>
      (if name = ''metadata.get'' then q = base\<lparr>qp_tool_name := name\<rparr>
       else q = base \<and> map_of (tool_to_object p) name = Some (vr_logical_object r)))"
proof -
  note wf = load_policy_wf [OF assms(1)]
  obtain dictionary where d: "dictionary_doc = Some (JObj dictionary)"
    and frozen: "\<forall>obj q. map_of (object_plans p) obj = Some q \<longrightarrow> frozen_plan dictionary q"
    by (rule loaded_plans_frozen [OF assms(1)])
  have admitted: ?thesis if a: "admit_request p tool request auth = Inr (q, r)"
    and w: "w' = snd (tp_execute t q r w)" for q r
  proof -
    note adm = admit_request_admits [OF wf a]
    have v: "kingdee_validate_request p request auth = Inr r"
      using a by (auto simp: admit_request_def split: sum.splits)
    obtain kvs where kvs: "request = JObj kvs" "set (map fst kvs) = set request_keys" "request_fields p kvs = Inr r"
      using validate_request_admits [OF v] by blast
    obtain name base where n: "tool = JStr name" "map_of (object_plans p) (vr_logical_object r) = Some base"
      "if name = ''metadata.get'' then q = base\<lparr>qp_tool_name := name\<rparr>
       else q = base \<and> map_of (tool_to_object p) name = Some (vr_logical_object r)"
      using adm by (auto simp: plan_for_Inr_iff)
    have tool: "name \<in> kp_tools p" "ends_with name ''.get''" "set (operation_tokens name) \<inter> required_forbidden = {}"
      using plan_for_wf [OF wf, of tool "vr_logical_object r" q] adm n(1) by simp_all
    have plan: "qp_logical_object base = vr_logical_object r" "qp_filters base = []"
      using wf n(2) by (simp_all add: policy_wf_def plan_wf_def)
    have bounds: "authenticated auth" "''kingdee-read'' \<in> set (granted_scopes auth)" "1 \<le> vr_limit r" "vr_limit r \<le> 50"
      "0 \<le> vr_offset r" "vr_offset r \<le> 1000000" "1 \<le> vr_timeout_ms r" "vr_timeout_ms r \<le> 30000"
      using adm by simp_all
    have said: "jget kvs ''request_id'' = JStr (vr_request_id r)" "jget kvs ''site_id'' = JStr (vr_site_id r)"
      "jget kvs ''account_set_ref'' = JStr (vr_account_set_ref r)"
      "jget kvs ''processing_purpose'' = JStr (vr_purpose r)"
      "jget kvs ''logical_object'' = JStr (vr_logical_object r)" "jget kvs ''limit'' = JInt (vr_limit r)"
      "jget kvs ''offset'' = JInt (vr_offset r)" "jget kvs ''timeout_ms'' = JInt (vr_timeout_ms r)"
      using request_fields_values [OF kvs(3)] by simp_all
    show ?thesis
      by (rule disjI2, rule exI [of _ name], rule exI [of _ kvs], rule exI [of _ base], rule exI [of _ q],
          rule exI [of _ r], rule exI [of _ dictionary])
        (intro conjI tool plan bounds n d w kvs(1,2) frozen [rule_format, OF n(2)]
          said)
  qed
  from assms(2) show ?thesis
  proof (cases rule: kingdee_invoke_cases)
    case (rejected e)
    then show ?thesis by (auto dest: admit_request_rejects)
  next
    case (failed q r e)
    then show ?thesis by (intro admitted)
  next
    case (returned q r res res' response)
    show ?thesis by (rule admitted [OF returned(1)]) (simp add: returned(2))
  qed
qed

text \<open>Whatever a transport returns, the rows that leave the adapter are at most the requested
  limit, never more than fifty, and each has exactly the fields of the frozen plan of the object,
  every value of the declared type; a metadata call returns no rows. The call leaves exactly one
  audit event, with the number of rows and the account set only as a fingerprint.\<close>

theorem kingdee_rows_are_typed:
  assumes "load_policy allow_doc manifest_doc dictionary_doc = Inr p"
    and "kingdee_invoke p t tool request auth (w, events) = (Inr response, w', events')"
  shows "\<exists>q r event. kingdee_validate_request p request auth = Inr r \<and>
    map_of (object_plans p) (ar_logical_object response) = Some q \<and>
    int (length (ar_rows response)) \<le> vr_limit r \<and> vr_limit r \<le> 50 \<and>
    (\<forall>row \<in> set (ar_rows response). row_fits q row) \<and>
    (tool = JStr ''metadata.get'' \<longrightarrow> ar_rows response = []) \<and>
    events' = events @ [event] \<and> ke_returned_rows event = int (length (ar_rows response)) \<and>
    ke_fingerprint event = ''sha256:'' @ take 16 (sha256_hex (vr_account_set_ref r))"
proof -
  note wf = load_policy_wf [OF assms(1)]
  from assms(2) show ?thesis
  proof (cases rule: kingdee_invoke_cases)
    case (returned q r res res' response')
    note adm = admit_request_admits [OF wf returned(1)]
    note rf = adapter_response_fields [OF returned(4)]
    note rows = validate_transport_result_rows [OF returned(3)]
    from adm obtain name base where n: "tool = JStr name"
      "map_of (object_plans p) (vr_logical_object r) = Some base"
      "if name = ''metadata.get'' then q = base\<lparr>qp_tool_name := name\<rparr>
       else map_of (tool_to_object p) name = Some (vr_logical_object r) \<and> q = base"
      by (auto simp: plan_for_Inr_iff)
    have fits: "row_fits base = row_fits q"
      using n(3) by (auto simp: row_fits_def fun_eq_iff split: if_splits)
    have resp: "response = response'" using returned by simp
    have "\<forall>row \<in> set (ar_rows response). row_fits base row"
      using rf rows fits resp by (auto split: if_splits)
    moreover have "int (length (ar_rows response)) \<le> vr_limit r"
      using rf rows adm resp by (auto split: if_splits)
    moreover have "tool = JStr ''metadata.get'' \<longrightarrow> ar_rows response = []"
      using rf rows n resp by (auto split: if_splits)
    moreover have "kingdee_validate_request p request auth = Inr r"
      using returned(1) by (auto simp: admit_request_def split: sum.splits)
    moreover define event where "event = read_event (str_of_json tool) r response"
    moreover have "events' = events @ [event]"
      "ke_returned_rows event = int (length (ar_rows response))"
      "ke_fingerprint event = ''sha256:'' @ take 16 (sha256_hex (vr_account_set_ref r))"
      using returned(6) resp by (simp_all add: event_def read_event_def account_set_fingerprint_def)
    moreover have "ar_logical_object response = vr_logical_object r"
      using rf resp by simp
    ultimately show ?thesis
      using n(2) adm by metis
  qed simp_all
qed

text \<open>Over the synthetic transport an admitted business read is always served, never rejected by
  the adapter's own row checks: the answer is available, changes nothing, is audited once, and its
  rows are exactly the synthetic records from the offset up to the limit or the hundredth record.\<close>

theorem synthetic_page_is_served:
  assumes "load_policy allow_doc manifest_doc dictionary_doc = Inr p"
    and "admit_request p tool request auth = Inr (q, r)" and "qp_tool_name q \<noteq> ''metadata.get''"
    and "length (vr_logical_object r) \<le> 240"
  shows "\<exists>response. kingdee_invoke p synthetic_transport tool request auth (w, events) =
      (Inr response, w, events @ [read_event (str_of_json tool) r response]) \<and>
    ar_status response = Read_available \<and>
    map (\<lambda>row. jget row ''record_ref'') (ar_rows response) =
      map (\<lambda>i. JStr (vr_logical_object r @ ''-synthetic-'' @ pad_digits 4 (nat (i + 1))))
        [vr_offset r .. min (vr_offset r + vr_limit r) 100 - 1]"
proof -
  note wf = load_policy_wf [OF assms(1)]
  note adm = admit_request_admits [OF wf assms(2)]
  have q: "plan_wf q" and obj: "qp_logical_object q = vr_logical_object r"
    using plan_for_wf [OF wf] adm by blast+
  define ixs where "ixs = [vr_offset r .. min (vr_offset r + vr_limit r) 100 - 1]"
  define g where "g = (\<lambda>i. projr (synthetic_row q i))"
  have g: "synthetic_row q i = Inr (g i)" for i
    by (simp add: g_def synthetic_row_values [OF q])
  define rows where "rows = map g ixs"
  have ixs: "0 \<le> i \<and> i < 100" if "i \<in> set ixs" for i
    using that adm by (auto simp: ixs_def)
  have "valid_rows True q rows = Inr True"
    unfolding valid_rows_Inr_iff rows_def
    using synthetic_row_valid [OF q _ _ _ g] ixs assms(4) obj by auto
  moreover have "int (length rows) \<le> vr_limit r"
    using adm by (simp add: rows_def ixs_def min_def)
  moreover have "tp_execute synthetic_transport q r w =
      (Inr \<lparr>tr_available = True, tr_rows = rows,
        tr_metadata = [(''source'', JStr ''gate5_deterministic_synthetic'')], tr_reason_code = None,
        tr_network_calls = 0, tr_startup = True, tr_metadata_available = True\<rparr>, w)"
    using assms(3) map_raise_total [of ixs "synthetic_row q" g] g
    by (simp add: synthetic_transport_def synthetic_execute_def result_available_def
        transport_post_init_def ixs_def rows_def synthetic_total_rows_def)
  moreover have "map (\<lambda>row. jget row ''record_ref'') rows =
      map (\<lambda>i. JStr (vr_logical_object r @ ''-synthetic-'' @ pad_digits 4 (nat (i + 1)))) ixs"
    by (simp add: rows_def g_def synthetic_row_values [OF q] synthetic_ref_def obj)
  ultimately show ?thesis
    using assms(2,3) unfolding ixs_def [symmetric]
    by (simp add: kingdee_invoke_def validate_transport_result_def adapter_response_for_def
        adapter_metadata_def Let_def record_event_def synthetic_transport_def)
qed

section \<open>The properties on a concrete call\<close>

definition sample_auth :: auth_context where
  "sample_auth = \<lparr>authenticated = True, granted_scopes = [''kingdee-read'']\<rparr>"

definition sample_request :: json where
  "sample_request = JObj
     [(''request_id'', JStr ''req-00000001''), (''site_id'', JStr ''esan.localhost''),
      (''account_set_ref'', JStr ''acct-1''), (''processing_purpose'', JStr ''reporting''),
      (''logical_object'', JStr ''material''), (''limit'', JInt 3), (''offset'', JInt 98),
      (''timeout_ms'', JInt 1000)]"

definition sample_material_plan :: query_plan where
  "sample_material_plan =
     \<lparr>qp_tool_name = ''kingdee.material.get'', qp_logical_object = ''material'',
      qp_source_form = ''BD_MATERIAL'', qp_fields = [''material_number''],
      qp_source_fields = [''FNumber''], qp_field_types = [''string''], qp_filters = [],
      qp_order = [(''material_number'', ''asc'')]\<rparr>"

definition sample_validated :: validated_request where
  "sample_validated =
     \<lparr>vr_request_id = ''req-00000001'', vr_site_id = ''esan.localhost'', vr_account_set_ref = ''acct-1'',
      vr_purpose = ''reporting'', vr_logical_object = ''material'', vr_limit = 3, vr_offset = 98,
      vr_timeout_ms = 1000\<rparr>"

lemma sample_admitted:
  "admit_request sample_policy (JStr ''kingdee.material.get'') sample_request sample_auth
    = Inr (sample_material_plan, sample_validated)"
  by code_simp

lemma synthetic_page_is_served_witness:
  "\<exists>response. kingdee_invoke sample_policy synthetic_transport (JStr ''kingdee.material.get'')
      sample_request sample_auth ((), []) =
      (Inr response, (), [] @ [read_event ''kingdee.material.get'' sample_validated response]) \<and>
    ar_status response = Read_available \<and>
    map (\<lambda>row. jget row ''record_ref'') (ar_rows response) =
      [JStr ''material-synthetic-0099'', JStr ''material-synthetic-0100'']"
proof -
  have rows: "map (\<lambda>i. JStr (''material-synthetic-'' @ pad_digits 4 (nat (i + 1)))) [98 .. (100::int) - 1]
      = [JStr ''material-synthetic-0099'', JStr ''material-synthetic-0100'']"
    by code_simp
  show ?thesis
    using synthetic_page_is_served [OF sample_policy_loads sample_admitted, of "()" "[]"] rows
    by (simp add: sample_material_plan_def sample_validated_def)
qed

text \<open>A transport that only writes down what it is given.\<close>

definition noting_transport :: "(query_plan \<times> validated_request) list kingdee_transport" where
  "noting_transport = \<lparr>tp_synthetic = False,
     tp_execute = (\<lambda>q r w. (result_unavailable ''noted'' 1 True True, w @ [(q, r)]))\<rparr>"

lemma kingdee_call_is_frozen_witness:
  "(\<exists>out. kingdee_invoke sample_policy synthetic_transport (JStr ''kingdee.material.delete'')
      sample_request sample_auth ((), []) =
     (out, (), [rejection_event sample_policy True (JStr ''kingdee.material.delete'')]) \<and>
     (\<exists>e. out = Inl e \<and> is_rejection e)) \<and>
   (\<exists>out events' base r. kingdee_invoke sample_policy noting_transport (JStr ''kingdee.material.get'')
      sample_request sample_auth ([], []) = (out, [(base, r)], events') \<and>
     map_of (object_plans sample_policy) ''material'' = Some base \<and> vr_logical_object r = ''material'' \<and>
     vr_limit r = 3 \<and> vr_offset r = 98)"
proof
  obtain out w' events' where inv: "kingdee_invoke sample_policy synthetic_transport
      (JStr ''kingdee.material.delete'') sample_request sample_auth ((), []) = (out, w', events')"
    using prod_cases3 by blast
  have "\<not> ends_with ''kingdee.material.delete'' ''.get''" by code_simp
  with kingdee_call_is_frozen [OF sample_policy_loads inv] inv
  show "\<exists>out. kingdee_invoke sample_policy synthetic_transport (JStr ''kingdee.material.delete'')
      sample_request sample_auth ((), []) =
     (out, (), [rejection_event sample_policy True (JStr ''kingdee.material.delete'')]) \<and>
     (\<exists>e. out = Inl e \<and> is_rejection e)"
    by (auto simp: synthetic_transport_def)
next
  obtain out w' events' where inv: "kingdee_invoke sample_policy noting_transport
      (JStr ''kingdee.material.get'') sample_request sample_auth ([], []) = (out, w', events')"
    using prod_cases3 by blast
  have "w' \<noteq> []"
    using inv sample_admitted
    by (auto simp: kingdee_invoke_def noting_transport_def split: sum.splits)
  then obtain kvs base r where r: "w' = [(base, r)]" "sample_request = JObj kvs"
    "jget kvs ''logical_object'' = JStr (vr_logical_object r)" "jget kvs ''limit'' = JInt (vr_limit r)"
    "jget kvs ''offset'' = JInt (vr_offset r)"
    "map_of (object_plans sample_policy) (vr_logical_object r) = Some base"
    using kingdee_call_is_frozen [OF sample_policy_loads inv] by (auto simp: noting_transport_def)
  then have "vr_logical_object r = ''material''" "vr_limit r = 3" "vr_offset r = 98"
    by (auto simp: sample_request_def)
  then show "\<exists>out events' base r. kingdee_invoke sample_policy noting_transport (JStr ''kingdee.material.get'')
      sample_request sample_auth ([], []) = (out, [(base, r)], events') \<and>
     map_of (object_plans sample_policy) ''material'' = Some base \<and> vr_logical_object r = ''material'' \<and>
     vr_limit r = 3 \<and> vr_offset r = 98"
    using inv r by auto
qed

lemma kingdee_rows_are_typed_witness:
  "\<exists>response events' q. kingdee_invoke sample_policy synthetic_transport (JStr ''kingdee.material.get'')
      sample_request sample_auth ((), []) = (Inr response, (), events') \<and>
    map_of (object_plans sample_policy) (ar_logical_object response) = Some q \<and>
    (\<forall>row \<in> set (ar_rows response). row_fits q row) \<and> length events' = 1"
proof -
  let ?answer = "case fst (synthetic_execute sample_material_plan sample_validated ()) of
      Inl e \<Rightarrow> Inl e
    | Inr res \<Rightarrow> (case validate_transport_result True sample_material_plan sample_validated res of
        Inl e \<Rightarrow> Inl e
      | Inr res' \<Rightarrow> adapter_response_for True sample_material_plan sample_validated res')"
  have "\<not> isl ?answer" by code_simp
  then obtain response where "?answer = Inr response" by (cases ?answer) auto
  then obtain res res' where r: "fst (synthetic_execute sample_material_plan sample_validated ()) = Inr res"
    "validate_transport_result True sample_material_plan sample_validated res = Inr res'"
    "adapter_response_for True sample_material_plan sample_validated res' = Inr response"
    by (auto simp: sum_case_Inr_iff)
  from r(1) have "synthetic_execute sample_material_plan sample_validated () = (Inr res, ())"
    by (metis prod.exhaust_sel unit.exhaust)
  with r(2,3) sample_admitted obtain events' where inv: "kingdee_invoke sample_policy synthetic_transport
      (JStr ''kingdee.material.get'') sample_request sample_auth ((), []) = (Inr response, (), events')"
    by (simp add: kingdee_invoke_def synthetic_transport_def)
  from kingdee_rows_are_typed [OF sample_policy_loads inv] inv show ?thesis by auto
qed

end
