(* ===== verification/Metrics_Models.thy ===== *)
theory Metrics_Models
  imports GBOS_Prelude Py_Json Py_Regex Py_Decimal Py_Time
begin

text \<open>
  The governed values of the metrics service (\<open>metrics/models.py\<close>): definitions and their registry,
  queries, projection rows and batches, audits. The service insists on UTC, so a datetime carries
  its offset here.
\<close>

section \<open>Checked primitives\<close>

datatype unavailable_reason =
    Definition_unavailable
  | Source_unavailable
  | Stale
  | Insufficient_coverage
  | Reconciliation_failed
  | Ungoverned_source

fun reason_text :: "unavailable_reason \<Rightarrow> string" where
  "reason_text Definition_unavailable = ''definition_unavailable''"
| "reason_text Source_unavailable = ''source_unavailable''"
| "reason_text Stale = ''stale''"
| "reason_text Insufficient_coverage = ''insufficient_coverage''"
| "reason_text Reconciliation_failed = ''reconciliation_failed''"
| "reason_text Ungoverned_source = ''ungoverned_source''"

text \<open>\<open>Python_error\<close> stands for the exceptions of the language itself (\<open>TypeError\<close>, \<open>InvalidOperation\<close>).\<close>

datatype metric_error =
    Metric_invalid string
  | Immutable_conflict string
  | Projection_rejected unavailable_reason string
  | Python_error string

datatype source_mode = Synthetic | Live

fun mode_text :: "source_mode \<Rightarrow> string" where
  "mode_text Synthetic = ''synthetic''"
| "mode_text Live = ''live''"

text \<open>A datetime: its instant in UTC and its offset, or a local time without one.\<close>

datatype moment = Local int | Zoned instant int

fun m_instant :: "moment \<Rightarrow> int" where
  "m_instant (Local t) = t"
| "m_instant (Zoned t _) = t"

definition metric_require_utc :: "moment \<Rightarrow> string \<Rightarrow> metric_error + unit" where
  "metric_require_utc v name =
     (case v of
        Zoned _ off \<Rightarrow>
          (if off \<noteq> 0 then Inl (Metric_invalid (name @ '' must be UTC timezone-aware'')) else Inr ())
      | Local _ \<Rightarrow> Inl (Metric_invalid (name @ '' must be UTC timezone-aware'')))"

definition metric_identifier :: "string \<Rightarrow> string \<Rightarrow> metric_error + unit" where
  "metric_identifier v name =
     (if v = [] \<or> 256 < length v \<or> strip v \<noteq> v
      then Inl (Metric_invalid (name @ '' is required and must not contain outer whitespace''))
      else Inr ())"

definition metric_key_shape :: "string \<Rightarrow> bool" where
  "metric_key_shape = shape_match is_lower
     (\<lambda>c. is_lower c \<or> is_digit c \<or> c = CHR ''_'' \<or> c = CHR ''.'') 2 79"

definition metric_site_shape :: "string \<Rightarrow> bool" where
  "metric_site_shape = shape_match is_alnum (\<lambda>c. is_alnum c \<or> c = CHR ''.'' \<or> c = CHR ''-'') 0 139"

definition metric_source_ref_shape :: "string \<Rightarrow> bool" where
  "metric_source_ref_shape = shape_match is_alnum (\<lambda>c. is_alnum c \<or> c \<in> set ''._:-'') 0 255"

definition require_metric_key :: "string \<Rightarrow> metric_error + unit" where
  "require_metric_key v =
     (if \<not> metric_key_shape v
      then Inl (Metric_invalid ''metric_key is not a registered exact governed key'') else Inr ())"

definition metric_site_id :: "string \<Rightarrow> metric_error + unit" where
  "metric_site_id v = (if \<not> metric_site_shape v then Inl (Metric_invalid ''site_id is invalid'') else Inr ())"

definition max_query_window :: int where
  "max_query_window = 366 * day_us"

text \<open>Checks in sequence: the first that fails raises.\<close>

fun in_order :: "('e + unit) list \<Rightarrow> 'e + unit" where
  "in_order [] = Inr ()"
| "in_order (c # cs) = (case c of Inl e \<Rightarrow> Inl e | Inr _ \<Rightarrow> in_order cs)"

lemma in_order_Inr_iff: "in_order cs = Inr u \<longleftrightarrow> (\<forall>c \<in> set cs. c = Inr ())"
  by (induction cs) (auto split: sum.splits)

definition metric_unless :: "bool \<Rightarrow> string \<Rightarrow> metric_error + unit" where
  "metric_unless bad message = (if bad then Inl (Metric_invalid message) else Inr ())"

lemma metric_unless_Inr [simp]: "metric_unless bad message = Inr u \<longleftrightarrow> \<not> bad"
  by (simp add: metric_unless_def)

definition metric_window :: "moment \<Rightarrow> moment \<Rightarrow> metric_error + unit" where
  "metric_window start end' =
     in_order [metric_require_utc start ''window_start'', metric_require_utc end' ''window_end'',
       metric_unless (m_instant end' < m_instant start) ''metric window end cannot precede its start'',
       metric_unless (m_instant end' - m_instant start > max_query_window)
         ''metric window exceeds the 366 day maximum'']"

text \<open>\<open>utc_iso\<close> of a value that is already UTC.\<close>

definition utc_iso :: "moment \<Rightarrow> string" where
  "utc_iso v = isoformat_z (m_instant v)"

section \<open>Definitions and their registry\<close>

record metric_definition =
  md_metric_key :: string
  md_definition_version :: string
  md_unit :: string
  md_freshness_slo :: int
  md_minimum_coverage :: decimal
  md_tolerance :: decimal
  md_window_type :: string
  md_window_grain :: string
  md_display_name :: "string option"

definition definition_post_init :: "metric_definition \<Rightarrow> metric_error + metric_definition" where
  "definition_post_init d =
     (case in_order
        [require_metric_key (md_metric_key d),
         metric_identifier (md_definition_version d) ''definition_version'',
         metric_identifier (md_unit d) ''unit'',
         (case md_display_name d of
            None \<Rightarrow> Inr ()
          | Some n \<Rightarrow> in_order [metric_identifier n ''display_name'',
              metric_unless (160 < length n) ''display_name exceeds 160 characters'']),
         metric_unless (md_freshness_slo d < 1) ''freshness_slo_seconds must be positive'',
         (if md_minimum_coverage d = DecNaN then Inl (Python_error ''InvalidOperation'')
          else metric_unless (\<not> (dec_le (dec_of_int 0) (md_minimum_coverage d) \<and>
                                dec_le (md_minimum_coverage d) (dec_of_int 1)))
                 ''minimum_coverage must be between 0 and 1''),
         (if md_tolerance d = DecNaN then Inl (Python_error ''InvalidOperation'')
          else metric_unless (dec_less (md_tolerance d) (dec_of_int 0))
                 ''reconciliation_tolerance must be non-negative''),
         metric_unless (md_window_type d \<notin> {''rolling'', ''calendar'', ''point_in_time''})
           ''window_type is not governed'',
         metric_unless (md_window_grain d \<notin>
             {''hour'', ''day'', ''week'', ''month'', ''quarter'', ''year'', ''instant''})
           ''window_grain is not governed'']
      of Inl e \<Rightarrow> Inl e | Inr _ \<Rightarrow> Inr d)"

record metric_registry =
  mr_definitions :: "(string \<times> metric_definition) list"
  mr_enabled_modes :: "source_mode set"

definition registry_init :: "metric_definition list \<Rightarrow> source_mode set \<Rightarrow> metric_error + metric_registry" where
  "registry_init ds modes =
     (let keyed = foldl (\<lambda>m d. AList.update (md_metric_key d) d m) [] ds in
      if ds = [] then Inl (Metric_invalid ''metric registry cannot be empty'')
      else if length keyed \<noteq> length ds then Inl (Metric_invalid ''metric registry keys must be unique'')
      else if card modes \<noteq> 1
      then Inl (Metric_invalid ''exactly one registry source mode must be enabled'')
      else Inr \<lparr>mr_definitions = keyed, mr_enabled_modes = modes\<rparr>)"

definition registry_metric_keys :: "metric_registry \<Rightarrow> string list" where
  "registry_metric_keys r = map fst (mr_definitions r)"

definition registry_require :: "metric_registry \<Rightarrow> string \<Rightarrow> metric_error + metric_definition" where
  "registry_require r key =
     (case map_of (mr_definitions r) key of
        None \<Rightarrow> Inl (Metric_invalid ''metric_key is not registered'')
      | Some d \<Rightarrow> Inr d)"

text \<open>\<open>int(v)\<close> and \<open>Decimal(str(v))\<close> of a decoded JSON value.\<close>

definition py_int :: "json \<Rightarrow> metric_error + int" where
  "py_int v =
     (case v of
        JInt i \<Rightarrow> Inr i
      | JBool b \<Rightarrow> Inr (if b then 1 else 0)
      | JFloat t \<Rightarrow> (case int_of_float_text t of None \<Rightarrow> Inl (Python_error ''ValueError'') | Some i \<Rightarrow> Inr i)
      | JStr s \<Rightarrow> (case int_of_text s of None \<Rightarrow> Inl (Python_error ''ValueError'') | Some i \<Rightarrow> Inr i)
      | _ \<Rightarrow> Inl (Python_error ''TypeError''))"

definition py_decimal :: "json \<Rightarrow> metric_error + decimal" where
  "py_decimal v =
     (case dec_of_text (py_str v) of
        None \<Rightarrow> Inl (Python_error ''InvalidOperation'') | Some d \<Rightarrow> Inr d)"

definition registry_entry :: "json \<Rightarrow> metric_error + metric_definition" where
  "registry_entry v =
     (case v of
        JObj item \<Rightarrow>
          (case (jget_or item ''window'' (JObj []), jget_or item ''reconciliation'' (JObj [])) of
             (JObj window, JObj reconciliation) \<Rightarrow>
               (let coverage = jget_or item ''minimum_coverage''
                      (jget_or item ''coverage_threshold''
                        (jget_or item ''minimum_coverage_ratio'' (JInt 1)))
                in case py_int (jget_or item ''freshness_slo_seconds'' (JInt 0)) of
                     Inl e \<Rightarrow> Inl e
                   | Inr slo \<Rightarrow>
                (case py_decimal coverage of
                     Inl e \<Rightarrow> Inl e
                   | Inr cov \<Rightarrow>
                (case py_decimal (jget_or item ''reconciliation_tolerance''
                        (jget_or reconciliation ''tolerance'' (JInt 0))) of
                     Inl e \<Rightarrow> Inl e
                   | Inr tol \<Rightarrow>
                  definition_post_init
                    \<lparr>md_metric_key = py_str (jget_or item ''metric_key'' (JStr [])),
                     md_definition_version = py_str (jget_or item ''definition_version'' (JStr [])),
                     md_unit = py_str (jget_or item ''unit'' (JStr [])),
                     md_freshness_slo = slo, md_minimum_coverage = cov, md_tolerance = tol,
                     md_window_type = py_str (jget_or window ''type'' (JStr ''calendar'')),
                     md_window_grain = py_str (jget_or window ''grain'' (JStr ''day'')),
                     md_display_name = Some (py_str (jget_or item ''display_name''
                       (jget_or item ''metric_key'' (JStr []))))\<rparr>)))
           | _ \<Rightarrow> Inl (Metric_invalid ''registry window and reconciliation must be objects''))
      | _ \<Rightarrow> Inl (Metric_invalid ''metric registry entries must be objects''))"

definition registry_document_keys :: "string list" where
  "registry_document_keys =
     [''registry_version'', ''gate'', ''official_interface'', ''runtime_enabled'', ''synthetic_only'',
      ''synthetic_mode_enabled'', ''live_mode_enabled'', ''llm_calculation_allowed'',
      ''arbitrary_query_allowed'', ''allowed_query_keys'', ''source_mode'', ''metrics'']"

definition governed_query_keys :: json where
  "governed_query_keys = JList [JStr ''metric_key'', JStr ''window_start'', JStr ''window_end'']"

definition registry_from_document :: "json \<Rightarrow> metric_error + metric_registry" where
  "registry_from_document v =
     (case v of
        JObj doc \<Rightarrow>
          (if \<not> set (map fst doc) \<subseteq> set registry_document_keys
           then Inl (Metric_invalid ''metric registry contains unsupported top-level fields'')
           else case in_order
             [metric_unless (jget doc ''runtime_enabled'' \<noteq> JBool True) ''metric registry runtime is disabled'',
              metric_unless (jget doc ''arbitrary_query_allowed'' \<noteq> JBool False)
                ''metric registry must disable arbitrary queries'',
              metric_unless (jget doc ''allowed_query_keys'' \<noteq> JNull \<and>
                             jget doc ''allowed_query_keys'' \<noteq> governed_query_keys)
                ''metric registry query keys are not the governed exact set'',
              metric_unless (jget doc ''synthetic_mode_enabled'' = JBool True \<and>
                             jget doc ''live_mode_enabled'' = JBool True)
                ''synthetic and live registry modes are mutually exclusive'',
              metric_unless (\<not> is_list (jget doc ''metrics'')) ''metric registry metrics must be a list''] of
             Inl e \<Rightarrow> Inl e
           | Inr _ \<Rightarrow>
               (case map_raise registry_entry (items_of_json (jget doc ''metrics'')) of
                  Inl e \<Rightarrow> Inl e
                | Inr ds \<Rightarrow>
                    registry_init ds
                      ((if jget_or doc ''synthetic_mode_enabled''
                             (jget_or doc ''synthetic_only'' (JBool True)) = JBool True
                        then {Synthetic} else {}) \<union>
                       (if jget_or doc ''live_mode_enabled'' (JBool False) = JBool True
                        then {Live} else {}))))
      | _ \<Rightarrow> Inl (Metric_invalid ''metric registry contains unsupported top-level fields''))"

section \<open>Queries, projections and audits\<close>

record metric_query =
  mq_site_id :: string
  mq_metric_key :: string
  mq_window_start :: moment
  mq_window_end :: moment
  mq_queried_at :: moment
  mq_request_id :: string

definition query_post_init :: "metric_query \<Rightarrow> metric_error + metric_query" where
  "query_post_init q =
     (case in_order
        [metric_site_id (mq_site_id q), require_metric_key (mq_metric_key q),
         metric_window (mq_window_start q) (mq_window_end q),
         metric_require_utc (mq_queried_at q) ''queried_at'',
         metric_identifier (mq_request_id q) ''request_id'',
         metric_unless (m_instant (mq_queried_at q) < m_instant (mq_window_start q))
           ''metric window cannot start after queried_at'']
      of Inl e \<Rightarrow> Inl e | Inr _ \<Rightarrow> Inr q)"

record projection_row =
  pr_row_id :: string
  pr_metric_key :: string
  pr_window_start :: moment
  pr_window_end :: moment
  pr_as_of :: moment
  pr_value :: decimal
  pr_included_count :: int
  pr_total_count :: int
  pr_reference :: string
  pr_variance :: decimal
  pr_checked_at :: moment
  pr_source_refs :: "string list"
  pr_governed :: bool
  pr_definition_version :: string

definition row_post_init :: "projection_row \<Rightarrow> metric_error + projection_row" where
  "row_post_init r =
     (case in_order
        [metric_identifier (pr_row_id r) ''row_id'', require_metric_key (pr_metric_key r),
         metric_window (pr_window_start r) (pr_window_end r),
         metric_require_utc (pr_as_of r) ''as_of'',
         metric_require_utc (pr_checked_at r) ''reconciliation_checked_at'',
         metric_identifier (pr_definition_version r) ''definition_version'',
         metric_identifier (pr_reference r) ''reconciliation_reference'',
         metric_unless (\<not> decimal_finite (pr_value r) \<or> \<not> decimal_finite (pr_variance r))
           ''metric and reconciliation values must be finite'',
         metric_unless (pr_included_count r < 0 \<or> pr_total_count r < 0)
           ''coverage counts must be non-negative'',
         metric_unless (pr_total_count r < pr_included_count r) ''included_count cannot exceed total_count'',
         metric_unless (pr_source_refs r = [] \<or> length (remdups (pr_source_refs r)) \<noteq> length (pr_source_refs r))
           ''source_record_refs must be non-empty and unique'',
         metric_unless (\<exists>s \<in> set (pr_source_refs r). \<not> metric_source_ref_shape s)
           ''source_record_ref is invalid'']
      of Inl e \<Rightarrow> Inl e | Inr _ \<Rightarrow> Inr r)"

record projection_batch =
  pb_batch_id :: string
  pb_site_id :: string
  pb_source_mode :: source_mode
  pb_checkpoint :: string
  pb_source_system :: string
  pb_transformation_version :: string
  pb_retrieved_at :: moment
  pb_rows :: "projection_row list"

definition batch_post_init :: "projection_batch \<Rightarrow> metric_error + projection_batch" where
  "batch_post_init b =
     (case in_order
        [metric_identifier (pb_batch_id b) ''batch_id'', metric_identifier (pb_checkpoint b) ''checkpoint'',
         metric_identifier (pb_source_system b) ''source_system'',
         metric_identifier (pb_transformation_version b) ''transformation_version'',
         metric_site_id (pb_site_id b), metric_require_utc (pb_retrieved_at b) ''retrieved_at'',
         metric_unless (pb_rows b = []) ''projection batch must contain rows'',
         metric_unless (length (remdups (map pr_row_id (pb_rows b))) \<noteq> length (pb_rows b))
           ''projection row ids must be unique within a batch'',
         metric_unless (contains_text (lower (pb_source_system b)) ''synthetic'' \<noteq> (pb_source_mode b = Synthetic))
           ''synthetic and live projection modes are mutually exclusive'']
      of Inl e \<Rightarrow> Inl e | Inr _ \<Rightarrow> Inr b)"

record query_audit =
  qa_site_id :: string
  qa_audit_id :: string
  qa_request_id :: string
  qa_metric_key :: string
  qa_source_mode :: source_mode
  qa_window_start :: moment
  qa_window_end :: moment
  qa_queried_at :: moment
  qa_outcome :: string
  qa_reason :: "string option"
  qa_batch_id :: "string option"
  qa_row_id :: "string option"

definition audit_post_init :: "query_audit \<Rightarrow> metric_error + query_audit" where
  "audit_post_init a =
     (case in_order
        [metric_site_id (qa_site_id a), metric_identifier (qa_audit_id a) ''audit_id'',
         metric_identifier (qa_request_id a) ''request_id'', require_metric_key (qa_metric_key a),
         metric_window (qa_window_start a) (qa_window_end a),
         metric_require_utc (qa_queried_at a) ''queried_at'',
         metric_unless (qa_outcome a \<notin> {''available'', ''unavailable''}) ''query audit outcome is invalid'',
         metric_unless ((qa_outcome a = ''available'') \<noteq> (qa_reason a = None))
           ''query audit reason must match outcome'']
      of Inl e \<Rightarrow> Inl e | Inr _ \<Rightarrow> Inr a)"

end
