(* ===== verification/Metrics_Repository.thy ===== *)
theory Metrics_Repository
  imports Metrics_Models Agent_Invocations
begin

text \<open>
  The append-only metrics repository (\<open>InMemoryMetricsRepository\<close> of \<open>metrics/repository.py\<close>): batches
  with their row index and their two checkpoint indexes, and query audits. Decimals compare by
  value in Python, so equality of batches is a function of its own.
\<close>

declare split_paired_All [simp del] split_paired_Ex [simp del]

section \<open>State and equality\<close>

record metrics_repo =
  rp_batches :: "((string \<times> string) \<times> projection_batch) list"
  rp_row_ids :: "((string \<times> string) \<times> string \<times> projection_row) list"
  rp_checkpoints :: "((string \<times> source_mode) \<times> string) list"
  rp_checkpoint_batches :: "((string \<times> source_mode \<times> string) \<times> string) list"
  rp_audits :: "((string \<times> string) \<times> query_audit) list"

definition metrics_repo_init :: metrics_repo where
  "metrics_repo_init =
     \<lparr>rp_batches = [], rp_row_ids = [], rp_checkpoints = [], rp_checkpoint_batches = [], rp_audits = []\<rparr>"

definition row_eq :: "projection_row \<Rightarrow> projection_row \<Rightarrow> bool" where
  "row_eq a b =
     (a\<lparr>pr_value := DecNaN, pr_variance := DecNaN\<rparr> = b\<lparr>pr_value := DecNaN, pr_variance := DecNaN\<rparr> \<and>
      dec_eq (pr_value a) (pr_value b) \<and> dec_eq (pr_variance a) (pr_variance b))"

definition batch_eq :: "projection_batch \<Rightarrow> projection_batch \<Rightarrow> bool" where
  "batch_eq a b =
     (a\<lparr>pb_rows := []\<rparr> = b\<lparr>pb_rows := []\<rparr> \<and> list_all2 row_eq (pb_rows a) (pb_rows b))"

definition batch_key :: "projection_batch \<Rightarrow> string \<times> string" where
  "batch_key b = (pb_site_id b, pb_batch_id b)"

section \<open>Operations\<close>

definition record_batch :: "projection_batch \<Rightarrow> metrics_repo \<Rightarrow> metrics_repo" where
  "record_batch b s = s\<lparr>
     rp_batches := AList.update (batch_key b) b (rp_batches s),
     rp_row_ids := foldl (\<lambda>m r. AList.update (pb_site_id b, pr_row_id r) (pb_batch_id b, r) m)
       (rp_row_ids s) (pb_rows b),
     rp_checkpoints := AList.update (pb_site_id b, pb_source_mode b) (pb_checkpoint b) (rp_checkpoints s),
     rp_checkpoint_batches := AList.update (pb_site_id b, pb_source_mode b, pb_checkpoint b)
       (pb_batch_id b) (rp_checkpoint_batches s)\<rparr>"

definition append_batch ::
  "projection_batch \<Rightarrow> metrics_repo \<Rightarrow> (metric_error, projection_batch, metrics_repo) call" where
  "append_batch b s =
     (case map_of (rp_batches s) (batch_key b) of
        Some existing \<Rightarrow>
          (if \<not> batch_eq existing b
           then (Inl (Immutable_conflict ''batch_id was reused with different immutable content''), s)
           else (Inr existing, s))
      | None \<Rightarrow>
          (if \<exists>x \<in> set (map snd (rp_batches s)).
                pb_site_id x = pb_site_id b \<and> pb_source_mode x \<noteq> pb_source_mode b
           then (Inl (Metric_invalid ''synthetic and live projection modes are mutually exclusive per site''), s)
           else if map_of (rp_checkpoint_batches s) (pb_site_id b, pb_source_mode b, pb_checkpoint b) \<noteq> None
           then (Inl (Immutable_conflict ''checkpoint was already recorded by another batch''), s)
           else if \<exists>r \<in> set (pb_rows b). map_of (rp_row_ids s) (pb_site_id b, pr_row_id r) \<noteq> None
           then (Inl (Immutable_conflict ''row_id was already used by another immutable batch''), s)
           else (Inr b, record_batch b s)))"

definition projection_candidates ::
  "string \<Rightarrow> string \<Rightarrow> source_mode \<Rightarrow> moment \<Rightarrow> moment \<Rightarrow> metrics_repo
    \<Rightarrow> (projection_batch \<times> projection_row) list" where
  "projection_candidates site key mode start end' s =
     concat (map (\<lambda>b. map (Pair b) (filter (\<lambda>r. pr_metric_key r = key \<and>
         m_instant (pr_window_start r) = m_instant start \<and> m_instant (pr_window_end r) = m_instant end')
         (pb_rows b)))
       (filter (\<lambda>b. pb_site_id b = site \<and> pb_source_mode b = mode) (map snd (rp_batches s))))"

definition projection_order :: "projection_batch \<times> projection_row \<Rightarrow> int \<times> string \<times> string" where
  "projection_order p = (m_instant (pb_retrieved_at (fst p)), pb_batch_id (fst p), pr_row_id (snd p))"

definition find_projection ::
  "string \<Rightarrow> string \<Rightarrow> source_mode \<Rightarrow> moment \<Rightarrow> moment \<Rightarrow> metrics_repo
    \<Rightarrow> (projection_batch \<times> projection_row) option" where
  "find_projection site key mode start end' s =
     (let candidates = projection_candidates site key mode start end' s in
      if candidates = [] then None else Some (arg_max_list projection_order candidates))"

definition metrics_checkpoint :: "string \<Rightarrow> source_mode \<Rightarrow> metrics_repo \<Rightarrow> string option" where
  "metrics_checkpoint site mode s = map_of (rp_checkpoints s) (site, mode)"

definition append_audit ::
  "query_audit \<Rightarrow> metrics_repo \<Rightarrow> (metric_error, query_audit, metrics_repo) call" where
  "append_audit a s =
     (case audit_post_init a of
        Inl e \<Rightarrow> (Inl e, s)
      | Inr _ \<Rightarrow>
          (case map_of (rp_audits s) (qa_site_id a, qa_audit_id a) of
             Some existing \<Rightarrow>
               (if existing \<noteq> a
                then (Inl (Immutable_conflict ''audit_id was reused with different immutable content''), s)
                else (Inr existing, s))
           | None \<Rightarrow> (Inr a, s\<lparr>rp_audits := AList.update (qa_site_id a, qa_audit_id a) a (rp_audits s)\<rparr>)))"

definition site_audits :: "string \<Rightarrow> metrics_repo \<Rightarrow> query_audit list" where
  "site_audits site s = filter (\<lambda>a. qa_site_id a = site) (map snd (rp_audits s))"

section \<open>Invariant\<close>

text \<open>
  The indexes agree with the batches: every batch under its key, one mode per site, every row and
  every checkpoint of a site recorded by the one batch that carries it.
\<close>

definition batch_index_inv :: "metrics_repo \<Rightarrow> bool" where
  "batch_index_inv s =
     (distinct_keys (rp_batches s) \<and>
      (\<forall>k b. map_of (rp_batches s) k = Some b \<longrightarrow> k = batch_key b) \<and>
      (\<forall>k b k' b'. map_of (rp_batches s) k = Some b \<longrightarrow> map_of (rp_batches s) k' = Some b' \<longrightarrow>
         pb_site_id b = pb_site_id b' \<longrightarrow> pb_source_mode b = pb_source_mode b') \<and>
      (\<forall>k b. map_of (rp_batches s) k = Some b \<longrightarrow>
         map_of (rp_checkpoint_batches s) (pb_site_id b, pb_source_mode b, pb_checkpoint b) = Some (pb_batch_id b)) \<and>
      (\<forall>k b r. map_of (rp_batches s) k = Some b \<longrightarrow> r \<in> set (pb_rows b) \<longrightarrow>
         (\<exists>r'. map_of (rp_row_ids s) (pb_site_id b, pr_row_id r) = Some (pb_batch_id b, r'))))"

definition metrics_inv :: "metrics_repo \<Rightarrow> bool" where
  "metrics_inv s =
     (batch_index_inv s \<and>
      (\<forall>k a. map_of (rp_audits s) k = Some a \<longrightarrow> k = (qa_site_id a, qa_audit_id a)))"

lemma metrics_inv_init: "metrics_inv metrics_repo_init"
  by (simp add: metrics_inv_def batch_index_inv_def metrics_repo_init_def)

lemma append_batch_cases:
  assumes "append_batch b s = (Inr v, s')"
  obtains (known) "map_of (rp_batches s) (batch_key b) = Some v" "batch_eq v b" "s' = s"
  | (fresh) "map_of (rp_batches s) (batch_key b) = None" "v = b" "s' = record_batch b s"
    "\<forall>x \<in> set (map snd (rp_batches s)). pb_site_id x = pb_site_id b \<longrightarrow> pb_source_mode x = pb_source_mode b"
    "map_of (rp_checkpoint_batches s) (pb_site_id b, pb_source_mode b, pb_checkpoint b) = None"
    "\<forall>r \<in> set (pb_rows b). map_of (rp_row_ids s) (pb_site_id b, pr_row_id r) = None"
proof (cases "map_of (rp_batches s) (batch_key b)")
  case (Some existing)
  with assms show ?thesis
    by (intro known) (auto simp: append_batch_def split: if_splits)
next
  case None
  note a = assms [unfolded append_batch_def None option.case if_raise_Inr_iff]
  show ?thesis
    by (rule fresh [OF None]) (use a in \<open>simp_all only: prod.inject sum.inject, blast+\<close>)
qed

lemma append_batch_error: "append_batch b s = (Inl e, s') \<Longrightarrow> s' = s"
  by (auto simp: append_batch_def split: option.splits if_splits)

lemma foldl_update_keep:
  "k \<notin> (\<lambda>r. f r) ` set rs \<Longrightarrow> map_of (foldl (\<lambda>m r. AList.update (f r) (g r) m) al rs) k = map_of al k"
  by (induction rs arbitrary: al) auto

lemma foldl_update_set:
  "k \<in> f ` set rs \<Longrightarrow> \<exists>r \<in> set rs. map_of (foldl (\<lambda>m r. AList.update (f r) (g r) m) al rs) k = Some (g r)"
proof (induction rs arbitrary: al)
  case (Cons x rs)
  show ?case
  proof (cases "k \<in> f ` set rs")
    case True
    from Cons.IH [OF this, of "AList.update (f x) (g x) al"] show ?thesis by auto
  next
    case False
    with Cons.prems have "k = f x" by auto
    with False show ?thesis by (simp add: foldl_update_keep)
  qed
qed simp

lemma record_batch_simps [simp]:
  "rp_batches (record_batch b s) = AList.update (batch_key b) b (rp_batches s)"
  "rp_checkpoint_batches (record_batch b s) = AList.update (pb_site_id b, pb_source_mode b, pb_checkpoint b)
       (pb_batch_id b) (rp_checkpoint_batches s)"
  "rp_audits (record_batch b s) = rp_audits s"
  "rp_checkpoints (record_batch b s) = AList.update (pb_site_id b, pb_source_mode b) (pb_checkpoint b) (rp_checkpoints s)"
  by (simp_all add: record_batch_def)

lemma record_batch_rows:
  "map_of (rp_row_ids (record_batch b s)) k =
     (if k \<in> (\<lambda>r. (pb_site_id b, pr_row_id r)) ` set (pb_rows b)
      then map_of (rp_row_ids (record_batch b s)) k else map_of (rp_row_ids s) k)"
  by (simp add: record_batch_def foldl_update_keep)

lemma record_batch_own_rows:
  assumes "r \<in> set (pb_rows b)"
  shows "\<exists>r'. map_of (rp_row_ids (record_batch b s)) (pb_site_id b, pr_row_id r) = Some (pb_batch_id b, r')"
  using foldl_update_set [of "(pb_site_id b, pr_row_id r)" "\<lambda>r. (pb_site_id b, pr_row_id r)" "pb_rows b"
      "\<lambda>r. (pb_batch_id b, r)" "rp_row_ids s"] assms
  by (auto simp: record_batch_def)

lemma metrics_invD:
  assumes "metrics_inv s"
  shows "distinct_keys (rp_batches s)"
    and "map_of (rp_batches s) k = Some b \<Longrightarrow> k = batch_key b"
    and "map_of (rp_batches s) k = Some b \<Longrightarrow> map_of (rp_batches s) k' = Some b' \<Longrightarrow>
      pb_site_id b = pb_site_id b' \<Longrightarrow> pb_source_mode b = pb_source_mode b'"
    and "map_of (rp_batches s) k = Some b \<Longrightarrow>
      map_of (rp_checkpoint_batches s) (pb_site_id b, pb_source_mode b, pb_checkpoint b) = Some (pb_batch_id b)"
    and "map_of (rp_batches s) k = Some b \<Longrightarrow> r \<in> set (pb_rows b) \<Longrightarrow>
      \<exists>r'. map_of (rp_row_ids s) (pb_site_id b, pr_row_id r) = Some (pb_batch_id b, r')"
    and "map_of (rp_audits s) j = Some a \<Longrightarrow> j = (qa_site_id a, qa_audit_id a)"
  using assms unfolding metrics_inv_def batch_index_inv_def by blast+

lemma metrics_inv_fresh_batch:
  assumes i: "metrics_inv s" and new: "map_of (rp_batches s) (batch_key b) = None"
    and mode: "\<forall>x \<in> set (map snd (rp_batches s)). pb_site_id x = pb_site_id b \<longrightarrow> pb_source_mode x = pb_source_mode b"
    and cp: "map_of (rp_checkpoint_batches s) (pb_site_id b, pb_source_mode b, pb_checkpoint b) = None"
    and rows: "\<forall>r \<in> set (pb_rows b). map_of (rp_row_ids s) (pb_site_id b, pr_row_id r) = None"
  shows "metrics_inv (record_batch b s)"
proof -
  note d = metrics_invD [OF i]
  let ?t = "record_batch b s"
  have old: "x = b \<and> k = batch_key b \<or> map_of (rp_batches s) k = Some x"
    if "map_of (rp_batches ?t) k = Some x" for k x
    using that by (auto split: if_splits)
  have same_mode: "pb_source_mode x = pb_source_mode b"
    if "map_of (rp_batches s) k = Some x" "pb_site_id x = pb_site_id b" for k x
    using mode that by (force dest: map_of_SomeD)
  have "pb_source_mode x = pb_source_mode y"
    if "map_of (rp_batches ?t) k = Some x" "map_of (rp_batches ?t) k' = Some y" "pb_site_id x = pb_site_id y"
    for k x k' y
    using old [OF that(1)] old [OF that(2)] that(3) same_mode d(3) by metis
  moreover have "k = batch_key x" if "map_of (rp_batches ?t) k = Some x" for k x
    using old [OF that] d(2) by blast
  moreover have "map_of (rp_checkpoint_batches ?t) (pb_site_id x, pb_source_mode x, pb_checkpoint x) = Some (pb_batch_id x)"
    if "map_of (rp_batches ?t) k = Some x" for k x
    using old [OF that]
  proof
    assume x: "map_of (rp_batches s) k = Some x"
    from d(4) [OF x] cp show ?thesis by (simp, metis option.distinct(1))
  qed simp
  moreover have "\<exists>r'. map_of (rp_row_ids ?t) (pb_site_id x, pr_row_id r) = Some (pb_batch_id x, r')"
    if "map_of (rp_batches ?t) k = Some x" "r \<in> set (pb_rows x)" for k x r
    using old [OF that(1)]
  proof
    assume "x = b \<and> k = batch_key b"
    then show ?thesis using record_batch_own_rows that(2) by blast
  next
    assume x: "map_of (rp_batches s) k = Some x"
    from d(5) [OF x that(2)] obtain r' where r': "map_of (rp_row_ids s) (pb_site_id x, pr_row_id r) = Some (pb_batch_id x, r')"
      by blast
    then have "(pb_site_id x, pr_row_id r) \<notin> (\<lambda>r. (pb_site_id b, pr_row_id r)) ` set (pb_rows b)"
      using rows by auto
    then show ?thesis
      using r' record_batch_rows [of b s "(pb_site_id x, pr_row_id r)"] by simp
  qed
  moreover have "distinct_keys (rp_batches ?t)" using d(1) by simp
  moreover have "map_of (rp_audits ?t) k = Some a \<longrightarrow> k = (qa_site_id a, qa_audit_id a)" for k a
    using d(6) by simp
  ultimately show ?thesis
    unfolding metrics_inv_def batch_index_inv_def by blast
qed

lemma append_batch_inv: "metrics_inv s \<Longrightarrow> append_batch b s = (out, s') \<Longrightarrow> metrics_inv s'"
proof (cases out)
  case (Inl e)
  then show "metrics_inv s \<Longrightarrow> append_batch b s = (out, s') \<Longrightarrow> metrics_inv s'"
    using append_batch_error by blast
next
  case (Inr v)
  assume i: "metrics_inv s" and a: "append_batch b s = (out, s')"
  from a [unfolded Inr] show "metrics_inv s'"
    by (cases rule: append_batch_cases) (use i metrics_inv_fresh_batch in auto)
qed

section \<open>Audits are an idempotent store\<close>

lemma audit_post_init_same: "audit_post_init a = Inr b \<Longrightarrow> b = a"
  unfolding audit_post_init_def sum_case_Inr_iff by simp

lemma append_audit_cases:
  assumes "append_audit a s = (Inr v, s')"
  shows "v = a \<and> audit_post_init a = Inr a \<and>
    (s' = s \<and> map_of (rp_audits s) (qa_site_id a, qa_audit_id a) = Some a \<or>
     map_of (rp_audits s) (qa_site_id a, qa_audit_id a) = None \<and>
     s' = s\<lparr>rp_audits := AList.update (qa_site_id a, qa_audit_id a) a (rp_audits s)\<rparr>)"
proof (cases "audit_post_init a")
  case (Inr b)
  with audit_post_init_same [OF Inr] assms show ?thesis
    by (cases "map_of (rp_audits s) (qa_site_id a, qa_audit_id a)")
      (simp_all add: append_audit_def split: if_splits, blast)
qed (use assms in \<open>simp add: append_audit_def\<close>)

lemma metrics_inv_audit:
  assumes "metrics_inv s"
  shows "metrics_inv (s\<lparr>rp_audits := AList.update (qa_site_id a, qa_audit_id a) a (rp_audits s)\<rparr>)"
proof -
  have "map_of (AList.update (qa_site_id a, qa_audit_id a) a (rp_audits s)) k = Some x \<longrightarrow>
      k = (qa_site_id x, qa_audit_id x)" for k x
    using metrics_invD(6) [OF assms, of k x] by simp
  moreover have "batch_index_inv (s\<lparr>rp_audits := al\<rparr>) = batch_index_inv s" for al
    by (cases s) (simp only: batch_index_inv_def metrics_repo.update_convs metrics_repo.select_convs)
  moreover have r: "rp_audits (s\<lparr>rp_audits := al\<rparr>) = al" for al by simp
  ultimately show ?thesis
    using assms unfolding metrics_inv_def r by blast
qed

interpretation query_audits: idempotent_store append_audit "\<lambda>s. ran (map_of (rp_audits s))"
  "\<lambda>a. audit_post_init a = Inr a" metrics_inv
proof unfold_locales
  fix r v s s'
  assume i: "metrics_inv s" and a: "append_audit r s = (Inr v, s')"
  note c = append_audit_cases [OF a]
  show "metrics_inv s'"
    using c i metrics_inv_audit [OF i, of r] by blast
  have "ran (map_of (rp_audits s')) = insert r (ran (map_of (rp_audits s)))"
  proof (cases "map_of (rp_audits s) (qa_site_id r, qa_audit_id r)")
    case None
    with c have "rp_audits s' = AList.update (qa_site_id r, qa_audit_id r) r (rp_audits s)" by simp
    then show ?thesis by (simp only: ran_update_new [OF None])
  next
    case (Some x)
    with c have "s' = s" "map_of (rp_audits s) (qa_site_id r, qa_audit_id r) = Some r" by simp_all
    then show ?thesis by (simp add: insert_absorb ranI)
  qed
  then show "v = r \<and> audit_post_init r = Inr r \<and>
      ran (map_of (rp_audits s')) = insert r (ran (map_of (rp_audits s)))"
    using c by blast
next
  fix r s e s'
  assume "append_audit r s = (Inl e, s')"
  then show "s' = s"
    by (simp add: append_audit_def split: sum.splits option.splits if_splits)
next
  fix r s
  assume i: "metrics_inv s" and r: "audit_post_init r = Inr r" "r \<in> ran (map_of (rp_audits s))"
  then obtain k where "map_of (rp_audits s) k = Some r" by (auto simp: ran_def)
  with metrics_invD(6) [OF i this] r show "append_audit r s = (Inr r, s)"
    by (simp add: append_audit_def)
qed

section \<open>Histories\<close>

datatype metrics_call = Append_batch projection_batch | Append_audit query_audit

fun metrics_step :: "metrics_repo \<Rightarrow> metrics_call \<Rightarrow> metrics_repo" where
  "metrics_step s (Append_batch b) = snd (append_batch b s)"
| "metrics_step s (Append_audit a) = snd (append_audit a s)"

definition metrics_run :: "metrics_call list \<Rightarrow> metrics_repo \<Rightarrow> metrics_repo" where
  "metrics_run calls s = foldl metrics_step s calls"

lemma metrics_run_simps [simp]:
  "metrics_run [] s = s"
  "metrics_run (c # cs) s = metrics_run cs (metrics_step s c)"
  by (simp_all add: metrics_run_def)

lemma append_audit_inv: "metrics_inv s \<Longrightarrow> append_audit a s = (out, s') \<Longrightarrow> metrics_inv s'"
  using query_audits.append_inv query_audits.append_error by (cases out) blast+

lemma metrics_step_inv: "metrics_inv s \<Longrightarrow> metrics_inv (metrics_step s c)"
  by (cases c) (simp_all add: append_batch_inv [OF _ surjective_pairing] append_audit_inv [OF _ surjective_pairing])

lemma metrics_run_inv: "metrics_inv s \<Longrightarrow> metrics_inv (metrics_run cs s)"
  by (induction cs arbitrary: s) (simp_all add: metrics_step_inv)

lemma append_audit_batches: "rp_batches (snd (append_audit a s)) = rp_batches s"
  by (simp add: append_audit_def split: sum.split option.split)

lemma metrics_step_keeps: "map_of (rp_batches s) k = Some v \<Longrightarrow> map_of (rp_batches (metrics_step s c)) k = Some v"
proof (cases c)
  case (Append_batch b)
  assume k: "map_of (rp_batches s) k = Some v"
  obtain out s' where a: "append_batch b s = (out, s')" by (cases "append_batch b s")
  show ?thesis
  proof (cases out)
    case (Inl e)
    with append_batch_error a k Append_batch show ?thesis by auto
  next
    case (Inr w)
    from a [unfolded Inr] show ?thesis
      by (cases rule: append_batch_cases) (use k a Append_batch in auto)
  qed
qed (simp add: append_audit_batches)

lemma metrics_run_keeps: "map_of (rp_batches s) k = Some v \<Longrightarrow> map_of (rp_batches (metrics_run cs s)) k = Some v"
  by (induction cs arbitrary: s) (simp_all add: metrics_step_keeps)

lemma dec_eq_refl: "decimal_finite d \<Longrightarrow> dec_eq d d"
  by (cases d) simp_all

lemma row_post_init_finite:
  "row_post_init r = Inr r' \<Longrightarrow> decimal_finite (pr_value r) \<and> decimal_finite (pr_variance r)"
  unfolding row_post_init_def sum_case_Inr_iff in_order_Inr_iff by (simp, blast)

lemma batch_eq_refl: "\<forall>r \<in> set (pb_rows b). row_post_init r = Inr r \<Longrightarrow> batch_eq b b"
  using row_post_init_finite dec_eq_refl unfolding batch_eq_def row_eq_def list_all2_same by blast

lemma append_batch_stored:
  assumes "append_batch b s = (Inr v, s')" and "\<forall>r \<in> set (pb_rows b). row_post_init r = Inr r"
  shows "map_of (rp_batches s') (batch_key b) = Some v \<and> batch_eq v b"
  using assms(1) by (cases rule: append_batch_cases) (simp_all add: batch_eq_refl [OF assms(2)])

lemma append_batch_replay:
  "map_of (rp_batches s) (batch_key b) = Some v \<Longrightarrow> batch_eq v b \<Longrightarrow> append_batch b s = (Inr v, s)"
  by (simp add: append_batch_def)

lemma same_checkpoint_same_batch:
  assumes "metrics_inv s" and "map_of (rp_batches s) k = Some x" and "map_of (rp_batches s) k' = Some y"
    and "pb_site_id x = pb_site_id y" and "pb_checkpoint x = pb_checkpoint y"
  shows "x = y"
proof -
  note d = metrics_invD [OF assms(1)]
  have m: "pb_source_mode x = pb_source_mode y" by (rule d(3) [OF assms(2,3,4)])
  from d(4) [OF assms(2)] d(4) [OF assms(3)] m assms(4,5) have "pb_batch_id x = pb_batch_id y" by simp
  with assms d(2) [OF assms(2)] d(2) [OF assms(3)] show ?thesis by (simp add: batch_key_def)
qed

lemma same_row_same_batch:
  assumes "metrics_inv s" and "map_of (rp_batches s) k = Some x" and "map_of (rp_batches s) k' = Some y"
    and "pb_site_id x = pb_site_id y" and "r \<in> set (pb_rows x)" "q \<in> set (pb_rows y)" "pr_row_id r = pr_row_id q"
  shows "x = y"
proof -
  note d = metrics_invD [OF assms(1)]
  from d(5) [OF assms(2,5)] d(5) [OF assms(3,6)] assms(4,7) have "pb_batch_id x = pb_batch_id y" by auto
  with assms d(2) [OF assms(2)] d(2) [OF assms(3)] show ?thesis by (simp add: batch_key_def)
qed

text \<open>C38. The metrics repository is append-only and idempotent. Whatever calls precede and follow, a
  batch that was accepted is kept under its key for good, the same batch offered again is answered
  from the store and changes nothing, and at every moment all batches of its site have its source
  mode, no other batch of the site carries its checkpoint and none shares a row with it.\<close>

theorem metrics_history_is_immutable:
  assumes s: "s = metrics_run before metrics_repo_init"
    and a: "append_batch b s = (Inr v, s1)" and rows: "\<forall>r \<in> set (pb_rows b). row_post_init r = Inr r"
    and s2: "s2 = metrics_run after' s1"
  shows "map_of (rp_batches s2) (pb_site_id b, pb_batch_id b) = Some v \<and> batch_eq v b \<and>
    append_batch b s2 = (Inr v, s2) \<and>
    (\<forall>k x. map_of (rp_batches s2) k = Some x \<and> pb_site_id x = pb_site_id v \<longrightarrow>
       pb_source_mode x = pb_source_mode v \<and>
       (x \<noteq> v \<longrightarrow> pb_checkpoint x \<noteq> pb_checkpoint v \<and>
          pr_row_id ` set (pb_rows x) \<inter> pr_row_id ` set (pb_rows v) = {}))"
proof -
  have i: "metrics_inv s2"
    using append_batch_inv [OF _ a] metrics_run_inv metrics_inv_init s s2 by simp
  note st = append_batch_stored [OF a rows]
  then have v: "map_of (rp_batches s2) (batch_key b) = Some v"
    using metrics_run_keeps s2 by blast
  have "pb_source_mode x = pb_source_mode v \<and>
      (x \<noteq> v \<longrightarrow> pb_checkpoint x \<noteq> pb_checkpoint v \<and>
        pr_row_id ` set (pb_rows x) \<inter> pr_row_id ` set (pb_rows v) = {})"
    if x: "map_of (rp_batches s2) k = Some x" "pb_site_id x = pb_site_id v" for k x
    using metrics_invD(3) [OF i x(1) v x(2)] same_checkpoint_same_batch [OF i x(1) v x(2)]
      same_row_same_batch [OF i x(1) v x(2)] by blast
  moreover have "append_batch b s2 = (Inr v, s2)"
    using append_batch_replay [OF v] st by blast
  ultimately show ?thesis
    using v st unfolding batch_key_def by blast
qed

definition sample_row :: projection_row where
  "sample_row = \<lparr>pr_row_id = ''row-1'', pr_metric_key = ''sales.order_value'',
     pr_window_start = Zoned 0 0, pr_window_end = Zoned 3600000000 0, pr_as_of = Zoned 3600000000 0,
     pr_value = Dec False 125 (- 1), pr_included_count = 1, pr_total_count = 1,
     pr_reference = ''recon-1'', pr_variance = Dec False 0 0, pr_checked_at = Zoned 3600000000 0,
     pr_source_refs = [''so-1''], pr_governed = True, pr_definition_version = ''1.0.0''\<rparr>"

definition sample_batch :: projection_batch where
  "sample_batch = \<lparr>pb_batch_id = ''batch-1'', pb_site_id = ''site-a'', pb_source_mode = Synthetic,
     pb_checkpoint = ''cp-1'', pb_source_system = ''kingdee-gate5-synthetic'',
     pb_transformation_version = ''v1'', pb_retrieved_at = Zoned 3600000000 0, pb_rows = [sample_row]\<rparr>"

definition sample_later_batch :: projection_batch where
  "sample_later_batch = sample_batch\<lparr>pb_batch_id := ''batch-2'', pb_checkpoint := ''cp-2'',
     pb_rows := [sample_row\<lparr>pr_row_id := ''row-2''\<rparr>]\<rparr>"

lemma sample_row_ok: "row_post_init sample_row = Inr sample_row"
  by code_simp

lemma sample_batch_appended:
  "append_batch sample_batch metrics_repo_init = (Inr sample_batch, record_batch sample_batch metrics_repo_init)"
  by (simp add: append_batch_def metrics_repo_init_def)

lemma metrics_history_is_immutable_witness:
  "append_batch sample_batch (metrics_run [Append_batch sample_later_batch, Append_batch sample_batch]
       (record_batch sample_batch metrics_repo_init)) =
     (Inr sample_batch, metrics_run [Append_batch sample_later_batch, Append_batch sample_batch]
       (record_batch sample_batch metrics_repo_init))"
proof -
  have init: "metrics_repo_init = metrics_run [] metrics_repo_init" by simp
  have rows: "\<forall>r \<in> set (pb_rows sample_batch). row_post_init r = Inr r"
    by (simp add: sample_batch_def sample_row_ok)
  from metrics_history_is_immutable [OF init sample_batch_appended rows refl] show ?thesis by blast
qed

end
