(* ===== verification/Metrics_Service.thy ===== *)
theory Metrics_Service
  imports Metrics_Repository
begin

text \<open>
  Answering metric queries (\<open>metrics/service.py\<close>) and the promotion gate in front of the repository
  (\<open>metrics/exceptions.py\<close>). The gate and the query judge a projection by the same policy; the
  theorems relate the two and say what an available answer guarantees. The random part of an audit
  identifier is an argument.
\<close>

declare split_paired_All [simp del] split_paired_Ex [simp del]

section \<open>Evaluating a projection\<close>

definition age_seconds :: "moment \<Rightarrow> moment \<Rightarrow> int" where
  "age_seconds now as_of = max 0 (ceil_seconds (m_instant now - m_instant as_of))"

definition coverage_ratio :: "projection_row \<Rightarrow> decimal" where
  "coverage_ratio r =
     (if pr_total_count r \<noteq> 0 then dec_div_counts (nat (pr_included_count r)) (nat (pr_total_count r))
      else dec_of_int 0)"

definition reconciled :: "metric_definition \<Rightarrow> projection_row \<Rightarrow> moment \<Rightarrow> bool" where
  "reconciled d r now =
     (dec_le (dec_abs (pr_variance r)) (md_tolerance d) \<and> m_instant (pr_checked_at r) \<le> m_instant now)"

definition query_reason :: "metric_definition \<Rightarrow> projection_row \<Rightarrow> moment \<Rightarrow> unavailable_reason option" where
  "query_reason d r now =
     (if \<not> pr_governed r then Some Ungoverned_source
      else if pr_definition_version r \<noteq> md_definition_version d then Some Definition_unavailable
      else if m_instant now < m_instant (pr_as_of r) \<or> md_freshness_slo d < age_seconds now (pr_as_of r)
      then Some Stale
      else if dec_less (coverage_ratio r) (md_minimum_coverage d) then Some Insufficient_coverage
      else if \<not> reconciled d r now then Some Reconciliation_failed
      else None)"

text \<open>The fields of a response that depend on the projection, or on its absence.\<close>

record response_source =
  rs_as_of :: moment
  rs_retrieved_at :: moment
  rs_system :: string
  rs_transformation :: string
  rs_refs :: "string list"
  rs_included :: int
  rs_total :: int
  rs_checked_at :: moment
  rs_reference :: string
  rs_variance :: string

definition response_source_of ::
  "source_mode \<Rightarrow> metric_query \<Rightarrow> (projection_batch \<times> projection_row) option \<Rightarrow> response_source" where
  "response_source_of mode q projection =
     (case projection of
        None \<Rightarrow> \<lparr>rs_as_of = mq_queried_at q, rs_retrieved_at = mq_queried_at q,
          rs_system = mode_text mode @ ''_projection_unavailable'',
          rs_transformation = ''metrics-projection-v1'',
          rs_refs = [''unavailable-'' @ take 24 (sha256_hex (mq_request_id q))],
          rs_included = 0, rs_total = 0, rs_checked_at = mq_queried_at q,
          rs_reference = ''source-unavailable'', rs_variance = ''0.0''\<rparr>
      | Some (b, r) \<Rightarrow> \<lparr>rs_as_of = pr_as_of r, rs_retrieved_at = pb_retrieved_at b,
          rs_system = pb_source_system b, rs_transformation = pb_transformation_version b,
          rs_refs = pr_source_refs r, rs_included = pr_included_count r, rs_total = pr_total_count r,
          rs_checked_at = pr_checked_at r, rs_reference = pr_reference r,
          rs_variance = float_text (pr_variance r)\<rparr>)"

definition base_response ::
  "source_mode \<Rightarrow> metric_definition \<Rightarrow> metric_query \<Rightarrow> (projection_batch \<times> projection_row) option
    \<Rightarrow> int \<Rightarrow> decimal \<Rightarrow> bool \<Rightarrow> fields" where
  "base_response mode d q projection age coverage recon =
     (let src = response_source_of mode q projection;
          freshness = (case projection of None \<Rightarrow> ''unknown''
            | Some (b, r) \<Rightarrow> (if m_instant (pr_as_of r) \<le> m_instant (mq_queried_at q) \<and> age \<le> md_freshness_slo d
                             then ''fresh'' else ''stale''));
          covered = (case projection of None \<Rightarrow> ''unknown''
            | Some _ \<Rightarrow> (if dec_le (md_minimum_coverage d) coverage then ''sufficient'' else ''insufficient''));
          recon_status = (if recon then ''passed'' else if projection \<noteq> None then ''failed'' else ''not_run'')
      in
      [(''schema_version'', JStr ''3.0''),
       (''metric_key'', JStr (md_metric_key d)),
       (''display_name'', JStr (case md_display_name d of None \<Rightarrow> md_metric_key d
          | Some n \<Rightarrow> (if n = [] then md_metric_key d else n))),
       (''definition_version'', JStr (md_definition_version d)),
       (''site_id'', JStr (mq_site_id q)),
       (''as_of'', JStr (utc_iso (rs_as_of src))),
       (''queried_at'', JStr (utc_iso (mq_queried_at q))),
       (''window'', JObj
         [(''type'', JStr (md_window_type d)), (''grain'', JStr (md_window_grain d)),
          (''start'', JStr (utc_iso (mq_window_start q))), (''end'', JStr (utc_iso (mq_window_end q)))]),
       (''freshness'', JObj
         [(''status'', JStr freshness), (''age_seconds'', JInt age), (''slo_seconds'', JInt (md_freshness_slo d))]),
       (''coverage'', JObj
         [(''status'', JStr covered), (''ratio'', JFloat (float_text coverage)),
          (''included_count'', JInt (rs_included src)), (''total_count'', JInt (rs_total src))]),
       (''reconciliation'', JObj
         [(''status'', JStr recon_status), (''checked_at'', JStr (utc_iso (rs_checked_at src))),
          (''reference'', JStr (rs_reference src)), (''variance'', JFloat (rs_variance src))]),
       (''source_lineage'', JList [JObj
         [(''source_system'', JStr (rs_system src)),
          (''source_record_refs'', JList (map JStr (rs_refs src))),
          (''retrieved_at'', JStr (utc_iso (rs_retrieved_at src))),
          (''transformation_version'', JStr (rs_transformation src)),
          (''evidence_status'', JStr (if mode = Synthetic then ''synthetic'' else ''verified''))]]),
       (''source_mode'', JStr (mode_text mode)),
       (''synthetic'', JBool (mode = Synthetic)),
       (''governed_sources'', JBool (case projection of None \<Rightarrow> False
          | Some (b, r) \<Rightarrow> pr_governed r \<and> pr_definition_version r = md_definition_version d))])"

definition unavailable_response ::
  "source_mode \<Rightarrow> metric_definition \<Rightarrow> metric_query \<Rightarrow> (projection_batch \<times> projection_row) option
    \<Rightarrow> unavailable_reason \<Rightarrow> fields \<times> unavailable_reason option" where
  "unavailable_response mode d q projection reason =
     (base_response mode d q projection 0 (dec_of_int 0) False
        @ [(''status'', JStr ''unavailable''), (''unavailable_reason'', JStr (reason_text reason))], Some reason)"

definition metrics_evaluate ::
  "source_mode \<Rightarrow> metric_definition \<Rightarrow> metric_query \<Rightarrow> (projection_batch \<times> projection_row) option
    \<Rightarrow> fields \<times> unavailable_reason option" where
  "metrics_evaluate mode d q projection =
     (case projection of
        None \<Rightarrow> unavailable_response mode d q None Source_unavailable
      | Some (b, r) \<Rightarrow>
          (let base = base_response mode d q projection (age_seconds (mq_queried_at q) (pr_as_of r))
                 (coverage_ratio r) (reconciled d r (mq_queried_at q))
           in case query_reason d r (mq_queried_at q) of
                Some reason \<Rightarrow>
                  (base @ [(''status'', JStr ''unavailable''), (''unavailable_reason'', JStr (reason_text reason))],
                   Some reason)
              | None \<Rightarrow>
                  (base @ [(''status'', JStr ''available''), (''value'', JFloat (float_text (pr_value r))),
                           (''unit'', JStr (md_unit d))], None)))"

section \<open>The query\<close>

record metrics_service =
  ms_registry :: metric_registry
  ms_source_mode :: source_mode

definition metrics_service_init ::
  "metric_registry \<Rightarrow> source_mode \<Rightarrow> metric_error + metrics_service" where
  "metrics_service_init reg mode =
     (if mode \<notin> mr_enabled_modes reg
      then Inl (Metric_invalid ''source mode is disabled by the governed registry'')
      else Inr \<lparr>ms_registry = reg, ms_source_mode = mode\<rparr>)"

definition query_audit_for ::
  "source_mode \<Rightarrow> metric_query \<Rightarrow> string \<Rightarrow> (projection_batch \<times> projection_row) option
    \<Rightarrow> fields \<times> unavailable_reason option \<Rightarrow> query_audit" where
  "query_audit_for mode q uuid projection answer =
     \<lparr>qa_site_id = mq_site_id q, qa_audit_id = ''metrics-query-'' @ uuid, qa_request_id = mq_request_id q,
      qa_metric_key = mq_metric_key q, qa_source_mode = mode, qa_window_start = mq_window_start q,
      qa_window_end = mq_window_end q, qa_queried_at = mq_queried_at q,
      qa_outcome = str_of_json (jget (fst answer) ''status''),
      qa_reason = map_option reason_text (snd answer),
      qa_batch_id = map_option (pb_batch_id \<circ> fst) projection,
      qa_row_id = map_option (pr_row_id \<circ> snd) projection\<rparr>"

definition metrics_query ::
  "metrics_service \<Rightarrow> metric_query \<Rightarrow> string \<Rightarrow> metrics_repo \<Rightarrow> (metric_error, fields, metrics_repo) call" where
  "metrics_query svc q uuid s =
     (case registry_require (ms_registry svc) (mq_metric_key q) of
        Inl e \<Rightarrow> (Inl e, s)
      | Inr d \<Rightarrow>
          (if (md_window_type d = ''point_in_time'') \<noteq>
              (m_instant (mq_window_start q) = m_instant (mq_window_end q))
           then (Inl (Metric_invalid ''query window does not match the registered window type''), s)
           else let projection = find_projection (mq_site_id q) (mq_metric_key q) (ms_source_mode svc)
                      (mq_window_start q) (mq_window_end q) s;
                    answer = metrics_evaluate (ms_source_mode svc) d q projection
                in and_then (append_audit (query_audit_for (ms_source_mode svc) q uuid projection answer) s)
                     (\<lambda>_ s'. (Inr (fst answer), s'))))"

section \<open>Promotion\<close>

record metric_exception =
  me_exception_id :: string
  me_reason :: unavailable_reason
  me_site_id :: string
  me_metric_key :: string
  me_source_mode :: source_mode
  me_detected_at :: moment
  me_batch_id :: "string option"
  me_row_id :: "string option"
  me_details :: "(string \<times> string) list"

definition exception_reasons :: "unavailable_reason set" where
  "exception_reasons =
     {Stale, Insufficient_coverage, Reconciliation_failed, Source_unavailable, Ungoverned_source}"

definition exception_post_init :: "metric_exception \<Rightarrow> metric_error + metric_exception" where
  "exception_post_init x =
     (case in_order
        [metric_identifier (me_exception_id x) ''exception_id'', metric_site_id (me_site_id x),
         require_metric_key (me_metric_key x), metric_require_utc (me_detected_at x) ''detected_at'',
         metric_unless (me_reason x \<notin> exception_reasons)
           ''metric exception reason is not a deterministic Gate 5 policy'',
         metric_unless ((me_batch_id x = None) \<noteq> (me_row_id x = None))
           ''metric exception batch_id and row_id must be supplied together'',
         (case me_batch_id x of
            None \<Rightarrow> Inr ()
          | Some b \<Rightarrow> in_order [metric_identifier b ''batch_id'',
              metric_identifier (case me_row_id x of None \<Rightarrow> [] | Some r \<Rightarrow> r) ''row_id'']),
         metric_unless (length (remdups (map fst (me_details x))) \<noteq> length (me_details x))
           ''metric exception detail keys must be unique'']
      of Inl e \<Rightarrow> Inl e | Inr _ \<Rightarrow> Inr x)"

fun id_or_null :: "string option \<Rightarrow> json" where
  "id_or_null None = JNull"
| "id_or_null (Some s) = JStr s"

definition make_exception ::
  "unavailable_reason \<Rightarrow> string \<Rightarrow> string \<Rightarrow> source_mode \<Rightarrow> moment \<Rightarrow> string option \<Rightarrow> string option
    \<Rightarrow> (string \<times> string) list \<Rightarrow> metric_error + metric_exception" where
  "make_exception reason site key mode detected batch_id row_id details =
     (let canonical = sort details;
          identity = JObj
            [(''reason'', JStr (reason_text reason)), (''site_id'', JStr site), (''metric_key'', JStr key),
             (''source_mode'', JStr (mode_text mode)), (''detected_at'', JStr (utc_iso detected)),
             (''batch_id'', id_or_null batch_id), (''row_id'', id_or_null row_id),
             (''details'', JTuple (map (\<lambda>(k, v). JTuple [JStr k, JStr v]) canonical))]
      in exception_post_init
           \<lparr>me_exception_id = ''metric-exception-'' @ take 24 (json_digest identity),
            me_reason = reason, me_site_id = site, me_metric_key = key, me_source_mode = mode,
            me_detected_at = detected, me_batch_id = batch_id, me_row_id = row_id,
            me_details = canonical\<rparr>)"

definition promotion_reason ::
  "metric_definition \<Rightarrow> projection_row \<Rightarrow> moment \<Rightarrow> unavailable_reason option" where
  "promotion_reason d r now =
     (if \<not> pr_governed r \<or> pr_definition_version r \<noteq> md_definition_version d then Some Ungoverned_source
      else if m_instant now < m_instant (pr_as_of r) \<or> md_freshness_slo d < age_seconds now (pr_as_of r)
      then Some Stale
      else if dec_less (coverage_ratio r) (md_minimum_coverage d) then Some Insufficient_coverage
      else if m_instant now < m_instant (pr_checked_at r) \<or>
              dec_less (md_tolerance d) (dec_abs (pr_variance r))
      then Some Reconciliation_failed
      else None)"

record promotion_result =
  po_batch :: "projection_batch option"
  po_exceptions :: "metric_exception list"

definition promotion_post_init :: "promotion_result \<Rightarrow> metric_error + promotion_result" where
  "promotion_post_init r =
     (if (po_batch r = None) \<noteq> (po_exceptions r \<noteq> [])
      then Inl (Metric_invalid ''promotion must contain either a batch or exceptions'') else Inr r)"

definition promoted :: "promotion_result \<Rightarrow> bool" where
  "promoted r = (po_batch r \<noteq> None)"

definition promote_row ::
  "metric_registry \<Rightarrow> projection_batch \<Rightarrow> moment \<Rightarrow> projection_row \<Rightarrow> metric_error + metric_exception option" where
  "promote_row reg b now r =
     (case registry_require reg (pr_metric_key r) of
        Inl e \<Rightarrow> Inl e
      | Inr d \<Rightarrow>
          (case (if pb_source_mode b \<notin> mr_enabled_modes reg then Some Ungoverned_source
                 else promotion_reason d r now) of
             None \<Rightarrow> Inr None
           | Some reason \<Rightarrow>
               (case make_exception reason (pb_site_id b) (pr_metric_key r) (pb_source_mode b) now
                       (Some (pb_batch_id b)) (Some (pr_row_id r))
                       [(''checkpoint'', pb_checkpoint b),
                        (''included_count'', int_text (pr_included_count r)),
                        (''total_count'', int_text (pr_total_count r)),
                        (''reconciliation_variance'', decimal_text (pr_variance r))] of
                  Inl e \<Rightarrow> Inl e
                | Inr x \<Rightarrow> Inr (Some x))))"

definition promote :: "metric_registry \<Rightarrow> projection_batch \<Rightarrow> moment \<Rightarrow> metric_error + promotion_result" where
  "promote reg b now =
     (case metric_require_utc now ''evaluated_at'' of
        Inl e \<Rightarrow> Inl e
      | Inr _ \<Rightarrow>
          (case map_raise (promote_row reg b now) (pb_rows b) of
             Inl e \<Rightarrow> Inl e
           | Inr outcomes \<Rightarrow>
               (let exceptions = map the (filter (\<lambda>x. x \<noteq> None) outcomes) in
                promotion_post_init
                  \<lparr>po_batch = (if exceptions \<noteq> [] then None else Some b), po_exceptions = exceptions\<rparr>)))"

definition promotion_source_unavailable ::
  "metric_registry \<Rightarrow> string \<Rightarrow> string \<Rightarrow> source_mode \<Rightarrow> string \<Rightarrow> string \<Rightarrow> moment
    \<Rightarrow> metric_error + promotion_result" where
  "promotion_source_unavailable reg site key mode request_id reason_code detected =
     (case registry_require reg key of
        Inl e \<Rightarrow> Inl e
      | Inr _ \<Rightarrow>
     (case in_order [metric_identifier request_id ''request_id'', metric_identifier reason_code ''reason_code''] of
        Inl e \<Rightarrow> Inl e
      | Inr _ \<Rightarrow>
     (case make_exception Source_unavailable site key mode detected None None
             [(''reason_code'', reason_code), (''request_id'', request_id)] of
        Inl e \<Rightarrow> Inl e
      | Inr x \<Rightarrow> promotion_post_init \<lparr>po_batch = None, po_exceptions = [x]\<rparr>)))"

section \<open>One policy, twice\<close>

lemma dec_less_linear: "x \<noteq> DecNaN \<Longrightarrow> y \<noteq> DecNaN \<Longrightarrow> dec_le x y \<longleftrightarrow> \<not> dec_less y x"
proof (cases x; cases y)
  fix a n e b k f
  assume "x = Dec a n e" "y = Dec b k f"
  then show ?thesis by (auto simp: dec_le_def Let_def min.commute)
qed (auto simp: dec_le_def)

lemma dec_abs_not_nan: "decimal_finite d \<Longrightarrow> dec_abs d \<noteq> DecNaN"
  by (cases d) (simp_all add: Let_def)

lemma definition_post_init_tolerance: "definition_post_init d = Inr d' \<Longrightarrow> md_tolerance d \<noteq> DecNaN"
  unfolding definition_post_init_def sum_case_Inr_iff in_order_Inr_iff by (auto split: if_splits)

lemma reason_agreement:
  assumes "definition_post_init d = Inr d'" and "row_post_init r = Inr r'"
  shows "promotion_reason d r now =
    map_option (\<lambda>x. if x = Definition_unavailable then Ungoverned_source else x) (query_reason d r now)"
proof -
  have "dec_abs (pr_variance r) \<noteq> DecNaN"
    using row_post_init_finite [OF assms(2)] dec_abs_not_nan by blast
  from dec_less_linear [OF this definition_post_init_tolerance [OF assms(1)]] show ?thesis
    by (auto simp: promotion_reason_def query_reason_def reconciled_def)
qed

lemma jget_append: "k \<notin> set (map fst a) \<Longrightarrow> jget (a @ b) k = jget b k"
  by (induction a) auto

lemma base_response_keys:
  "map fst (base_response mode d q projection age coverage recon) =
     [''schema_version'', ''metric_key'', ''display_name'', ''definition_version'', ''site_id'', ''as_of'',
      ''queried_at'', ''window'', ''freshness'', ''coverage'', ''reconciliation'', ''source_lineage'',
      ''source_mode'', ''synthetic'', ''governed_sources'']"
  unfolding base_response_def Let_def by (simp only: list.map fst_conv)

lemma base_response_lookup [simp]:
  "jget (base_response mode d q projection age coverage recon @ xs) ''status'' = jget xs ''status''"
  "jget (base_response mode d q projection age coverage recon @ xs) ''value'' = jget xs ''value''"
  by (rule jget_append, unfold base_response_keys, simp)+

lemma evaluate_reason: "snd (metrics_evaluate mode d q (Some (b, r))) = query_reason d r (mq_queried_at q)"
  by (cases "query_reason d r (mq_queried_at q)") (simp_all add: metrics_evaluate_def Let_def)

lemma evaluate_status:
  "jget (fst (metrics_evaluate mode d q projection)) ''status'' =
    JStr (if snd (metrics_evaluate mode d q projection) = None then ''available'' else ''unavailable'')"
proof (cases projection)
  case None
  then show ?thesis by (simp add: metrics_evaluate_def unavailable_response_def)
next
  case (Some p)
  then show ?thesis
    by (cases p; cases "query_reason d (snd p) (mq_queried_at q)") (simp_all add: metrics_evaluate_def Let_def)
qed

lemma evaluate_value:
  "query_reason d r (mq_queried_at q) = None \<Longrightarrow>
    jget (fst (metrics_evaluate mode d q (Some (b, r)))) ''value'' = JFloat (float_text (pr_value r))"
  by (simp add: metrics_evaluate_def Let_def)

lemma find_projection_Some:
  assumes "find_projection site key mode start end' s = Some (b, r)"
  shows "(b, r) \<in> set (projection_candidates site key mode start end' s) \<and>
    (\<forall>p \<in> set (projection_candidates site key mode start end' s). projection_order p \<le> projection_order (b, r))"
  using assms arg_max_list_in [of _ projection_order] arg_max_list_greatest [of _ _ projection_order]
  by (auto simp: find_projection_def Let_def split: if_splits) (metis arg_max_list_in)+

lemma projection_candidates_iff:
  "(b, r) \<in> set (projection_candidates site key mode start end' s) \<longleftrightarrow>
    b \<in> set (map snd (rp_batches s)) \<and> pb_site_id b = site \<and> pb_source_mode b = mode \<and>
    r \<in> set (pb_rows b) \<and> pr_metric_key r = key \<and>
    m_instant (pr_window_start r) = m_instant start \<and> m_instant (pr_window_end r) = m_instant end'"
  by (auto simp: projection_candidates_def)

lemma promote_row_cases:
  assumes "promote_row reg b now r = Inr x"
  obtains d where "registry_require reg (pr_metric_key r) = Inr d"
    "x = None \<longleftrightarrow> pb_source_mode b \<in> mr_enabled_modes reg \<and> promotion_reason d r now = None"
  using assms by (auto simp: promote_row_def split: sum.splits option.splits if_splits)

lemma promote_cases:
  assumes "promote reg b now = Inr res"
  obtains outcomes where "list_all2 (\<lambda>r x. promote_row reg b now r = Inr x) (pb_rows b) outcomes"
    "promoted res \<longleftrightarrow> (\<forall>x \<in> set outcomes. x = None)"
proof -
  from assms obtain outcomes where o1: "map_raise (promote_row reg b now) (pb_rows b) = Inr outcomes"
    and o2: "promotion_post_init \<lparr>po_batch = (if map the (filter (\<lambda>x. x \<noteq> None) outcomes) \<noteq> [] then None else Some b),
      po_exceptions = map the (filter (\<lambda>x. x \<noteq> None) outcomes)\<rparr> = Inr res"
    by (auto simp: promote_def Let_def split: sum.splits)
  have "promoted res \<longleftrightarrow> filter (\<lambda>x. x \<noteq> None) outcomes = []"
    using o2 by (simp add: promotion_post_init_def promoted_def split: if_splits) auto
  moreover have "filter (\<lambda>x. x \<noteq> None) outcomes = [] \<longleftrightarrow> (\<forall>x \<in> set outcomes. x = None)"
    by (simp add: filter_empty_conv)
  ultimately show ?thesis
    using o1 that by (simp add: map_raise_Inr_iff)
qed

section \<open>The query for a row\<close>

text \<open>What a client asks, at one instant, to read the metric a row carries.\<close>

definition row_query :: "projection_batch \<Rightarrow> moment \<Rightarrow> string \<Rightarrow> projection_row \<Rightarrow> metric_query" where
  "row_query b now request_id r =
     \<lparr>mq_site_id = pb_site_id b, mq_metric_key = pr_metric_key r, mq_window_start = pr_window_start r,
      mq_window_end = pr_window_end r, mq_queried_at = now, mq_request_id = request_id\<rparr>"

text \<open>
  The row can be asked for: its query is a valid one (so its window does not start later), its window is
  of the registered type, and the repository answers it with this row (no newer one was stored).
\<close>

definition askable :: "metric_registry \<Rightarrow> projection_batch \<Rightarrow> moment \<Rightarrow> string \<Rightarrow> metrics_repo \<Rightarrow> projection_row \<Rightarrow> bool" where
  "askable reg b now request_id s r =
     (query_post_init (row_query b now request_id r) = Inr (row_query b now request_id r) \<and>
      (\<forall>d. map_of (mr_definitions reg) (pr_metric_key r) = Some d \<longrightarrow>
         (md_window_type d = ''point_in_time'' \<longleftrightarrow> m_instant (pr_window_start r) = m_instant (pr_window_end r))) \<and>
      find_projection (pb_site_id b) (pr_metric_key r) (pb_source_mode b) (pr_window_start r) (pr_window_end r) s
        = Some (b, r))"

text \<open>The random part of an audit identifier was not used before.\<close>

definition fresh_audit :: "string \<Rightarrow> string \<Rightarrow> metrics_repo \<Rightarrow> bool" where
  "fresh_audit site uuid s =
     (metric_identifier (''metrics-query-'' @ uuid) ''audit_id'' = Inr () \<and>
      map_of (rp_audits s) (site, ''metrics-query-'' @ uuid) = None)"

lemma query_audit_valid:
  assumes "query_post_init q = Inr q" and "metric_identifier (''metrics-query-'' @ uuid) ''audit_id'' = Inr ()"
  shows "audit_post_init (query_audit_for mode q uuid p (metrics_evaluate mode d q p))
    = Inr (query_audit_for mode q uuid p (metrics_evaluate mode d q p))"
proof -
  have "\<forall>c \<in> {metric_site_id (mq_site_id q), require_metric_key (mq_metric_key q),
      metric_window (mq_window_start q) (mq_window_end q), metric_require_utc (mq_queried_at q) ''queried_at'',
      metric_identifier (mq_request_id q) ''request_id''}. c = Inr ()"
    using assms(1) by (auto simp: query_post_init_def in_order_Inr_iff simp del: in_order.simps split: sum.splits)
  note valid = this
  let ?a = "query_audit_for mode q uuid p (metrics_evaluate mode d q p)"
  have "in_order
        [metric_site_id (qa_site_id ?a), metric_identifier (qa_audit_id ?a) ''audit_id'',
         metric_identifier (qa_request_id ?a) ''request_id'', require_metric_key (qa_metric_key ?a),
         metric_window (qa_window_start ?a) (qa_window_end ?a),
         metric_require_utc (qa_queried_at ?a) ''queried_at'',
         metric_unless (qa_outcome ?a \<notin> {''available'', ''unavailable''}) ''query audit outcome is invalid'',
         metric_unless ((qa_outcome ?a = ''available'') \<noteq> (qa_reason ?a = None))
           ''query audit reason must match outcome''] = Inr ()"
    unfolding in_order_Inr_iff using valid assms(2) by (simp add: query_audit_for_def evaluate_status)
  then show ?thesis by (simp only: audit_post_init_def sum.case)
qed

lemma row_answer:
  assumes "askable reg b now request_id s r" and "fresh_audit (pb_site_id b) uuid s"
    and "map_of (mr_definitions reg) (pr_metric_key r) = Some d"
  shows "\<exists>s'. metrics_query \<lparr>ms_registry = reg, ms_source_mode = pb_source_mode b\<rparr> (row_query b now request_id r) uuid s
    = (Inr (fst (metrics_evaluate (pb_source_mode b) d (row_query b now request_id r) (Some (b, r)))), s')"
proof -
  let ?q = "row_query b now request_id r" and ?mode = "pb_source_mode b"
  have q: "mq_site_id ?q = pb_site_id b" "mq_metric_key ?q = pr_metric_key r" "mq_window_start ?q = pr_window_start r"
    "mq_window_end ?q = pr_window_end r"
    by (simp_all add: row_query_def)
  let ?a = "query_audit_for ?mode ?q uuid (Some (b, r)) (metrics_evaluate ?mode d ?q (Some (b, r)))"
  have "audit_post_init ?a = Inr ?a"
    using assms(1,2) by (intro query_audit_valid) (simp_all add: askable_def fresh_audit_def)
  moreover have "qa_site_id ?a = pb_site_id b" "qa_audit_id ?a = ''metrics-query-'' @ uuid"
    by (simp_all add: query_audit_for_def q)
  ultimately obtain s' where "append_audit ?a s = (Inr ?a, s')"
    using assms(2) by (simp add: append_audit_def fresh_audit_def)
  then show ?thesis
    using assms(1,3) by (auto simp: metrics_query_def registry_require_def askable_def q Let_def)
qed

section \<open>Properties\<close>

text \<open>C36. The promotion gate and the query service judge by one policy: provided the rows of a batch can be
  asked for at an instant (\<open>askable\<close>: each has a valid query at that instant, of the registered window type,
  and no newer row answers it), the batch passes the gate at that instant exactly when the service for its
  mode starts and answers the query for every one of its rows, asked at that same instant, as available. The
  gate itself does not check that a row can be asked for.\<close>

theorem promoted_iff_servable:
  assumes "\<forall>k d. map_of (mr_definitions reg) k = Some d \<longrightarrow> definition_post_init d = Inr d"
    and "\<forall>r \<in> set (pb_rows b). row_post_init r = Inr r" and "pb_rows b \<noteq> []"
    and "promote reg b now = Inr res"
    and "\<forall>r \<in> set (pb_rows b). askable reg b now request_id s r" and "fresh_audit (pb_site_id b) uuid s"
  shows "promoted res \<longleftrightarrow> (\<exists>svc. metrics_service_init reg (pb_source_mode b) = Inr svc \<and>
    (\<forall>r \<in> set (pb_rows b). \<exists>response s'.
       metrics_query svc (row_query b now request_id r) uuid s = (Inr response, s') \<and>
       jget response ''status'' = JStr ''available''))"
proof -
  let ?svc = "\<lparr>ms_registry = reg, ms_source_mode = pb_source_mode b\<rparr>"
  from assms(4) obtain outcomes where
    rows: "list_all2 (\<lambda>r x. promote_row reg b now r = Inr x) (pb_rows b) outcomes"
    and p: "promoted res \<longleftrightarrow> (\<forall>x \<in> set outcomes. x = None)"
    by (rule promote_cases)
  have row: "x = None \<longleftrightarrow> pb_source_mode b \<in> mr_enabled_modes reg \<and>
      (\<exists>response s'. metrics_query ?svc (row_query b now request_id r) uuid s = (Inr response, s') \<and>
         jget response ''status'' = JStr ''available'')"
    if "promote_row reg b now r = Inr x" "r \<in> set (pb_rows b)" for r x
    using that(1)
  proof (rule promote_row_cases)
    fix d
    assume d: "registry_require reg (pr_metric_key r) = Inr d"
      and x: "x = None \<longleftrightarrow> pb_source_mode b \<in> mr_enabled_modes reg \<and> promotion_reason d r now = None"
    then have m: "map_of (mr_definitions reg) (pr_metric_key r) = Some d"
      by (simp add: registry_require_def split: option.splits)
    with assms(1,2) that(2) have "promotion_reason d r now = None \<longleftrightarrow> query_reason d r now = None"
      using reason_agreement [of d d r r now] by simp
    moreover have now: "mq_queried_at (row_query b now request_id r) = now" by (simp add: row_query_def)
    moreover have "askable reg b now request_id s r" using assms(5) that(2) by blast
    from row_answer [OF this assms(6) m] have
      "(\<exists>response s'. metrics_query ?svc (row_query b now request_id r) uuid s = (Inr response, s') \<and>
         jget response ''status'' = JStr ''available'') \<longleftrightarrow> query_reason d r now = None"
      by (auto simp: evaluate_status evaluate_reason now split: if_splits)
    ultimately show ?thesis using x by simp
  qed
  have "(\<forall>x \<in> set outcomes. x = None) \<longleftrightarrow> (\<forall>r \<in> set (pb_rows b). pb_source_mode b \<in> mr_enabled_modes reg \<and>
      (\<exists>response s'. metrics_query ?svc (row_query b now request_id r) uuid s = (Inr response, s') \<and>
         jget response ''status'' = JStr ''available''))"
    using rows row unfolding list_all2_conv_all_nth all_set_conv_all_nth by (metis nth_mem)
  then show ?thesis
    using p assms(3) by (auto simp: metrics_service_init_def)
qed

text \<open>
  What the gate does not check: a row whose window is not of the registered type passes it like any other, and
  every query for that window raises.
\<close>

lemma mismatched_window_never_answered:
  assumes "map_of (mr_definitions reg) (mq_metric_key q) = Some d"
    and "(md_window_type d = ''point_in_time'') \<noteq> (m_instant (mq_window_start q) = m_instant (mq_window_end q))"
  shows "metrics_query \<lparr>ms_registry = reg, ms_source_mode = mode\<rparr> q uuid s
    = (Inl (Metric_invalid ''query window does not match the registered window type''), s)"
  using assms by (simp add: metrics_query_def registry_require_def)

lemma promotion_ignores_window:
  "promote_row reg b now (r\<lparr>pr_window_start := a, pr_window_end := e\<rparr>) = promote_row reg b now r"
  by (simp add: promote_row_def promotion_reason_def coverage_ratio_def
      cong del: sum.case_cong_weak option.case_cong_weak if_weak_cong)

text \<open>C37. An available answer is backed by the repository: it carries the value of the newest
  projection stored for exactly that site, metric, mode and window, and this projection is governed,
  of the registered definition version, not from the future and within the freshness objective,
  sufficiently covered and reconciled in time. The query adds one audit record of the answer and
  leaves the batches alone.\<close>

theorem metric_answer_is_governed:
  assumes "metrics_inv s" and "metrics_query svc q uuid s = (Inr response, s')"
    and "jget response ''status'' = JStr ''available''"
  shows "\<exists>d b r. map_of (mr_definitions (ms_registry svc)) (mq_metric_key q) = Some d \<and>
    map_of (rp_batches s) (mq_site_id q, pb_batch_id b) = Some b \<and> r \<in> set (pb_rows b) \<and>
    pb_site_id b = mq_site_id q \<and> pb_source_mode b = ms_source_mode svc \<and> pr_metric_key r = mq_metric_key q \<and>
    m_instant (pr_window_start r) = m_instant (mq_window_start q) \<and>
    m_instant (pr_window_end r) = m_instant (mq_window_end q) \<and>
    (\<forall>p \<in> set (projection_candidates (mq_site_id q) (mq_metric_key q) (ms_source_mode svc)
        (mq_window_start q) (mq_window_end q) s).
       m_instant (pb_retrieved_at (fst p)) \<le> m_instant (pb_retrieved_at b)) \<and>
    pr_governed r \<and> pr_definition_version r = md_definition_version d \<and>
    m_instant (pr_as_of r) \<le> m_instant (mq_queried_at q) \<and>
    ceil_seconds (m_instant (mq_queried_at q) - m_instant (pr_as_of r)) \<le> md_freshness_slo d \<and>
    \<not> dec_less (coverage_ratio r) (md_minimum_coverage d) \<and>
    dec_le (dec_abs (pr_variance r)) (md_tolerance d) \<and>
    m_instant (pr_checked_at r) \<le> m_instant (mq_queried_at q) \<and>
    jget response ''value'' = JFloat (float_text (pr_value r)) \<and>
    rp_batches s' = rp_batches s \<and>
    (\<exists>a. ran (map_of (rp_audits s')) = insert a (ran (map_of (rp_audits s))) \<and>
       qa_request_id a = mq_request_id q \<and> qa_outcome a = ''available'' \<and> qa_row_id a = Some (pr_row_id r))"
proof -
  let ?p = "find_projection (mq_site_id q) (mq_metric_key q) (ms_source_mode svc)
    (mq_window_start q) (mq_window_end q) s"
  from assms(2) obtain d v where d: "map_of (mr_definitions (ms_registry svc)) (mq_metric_key q) = Some d"
    and a: "append_audit (query_audit_for (ms_source_mode svc) q uuid ?p
        (metrics_evaluate (ms_source_mode svc) d q ?p)) s = (Inr v, s')"
    and resp: "response = fst (metrics_evaluate (ms_source_mode svc) d q ?p)"
    by (auto simp: metrics_query_def registry_require_def Let_def and_then_Inr_iff
        split: option.splits sum.splits if_splits)
  have ok: "snd (metrics_evaluate (ms_source_mode svc) d q ?p) = None"
    using assms(3) resp evaluate_status [of "ms_source_mode svc" d q ?p] by (auto split: if_splits)
  then obtain b r where p: "?p = Some (b, r)"
    by (cases ?p) (auto simp: metrics_evaluate_def unavailable_response_def)
  note f = find_projection_Some [OF p]
  have c: "b \<in> set (map snd (rp_batches s))" "pb_site_id b = mq_site_id q" "pb_source_mode b = ms_source_mode svc"
    "r \<in> set (pb_rows b)" "pr_metric_key r = mq_metric_key q"
    "m_instant (pr_window_start r) = m_instant (mq_window_start q)"
    "m_instant (pr_window_end r) = m_instant (mq_window_end q)"
    using f unfolding projection_candidates_iff by blast+
  then obtain k where "(k, b) \<in> set (rp_batches s)" by auto
  then have k: "map_of (rp_batches s) k = Some b"
    using metrics_invD(1) [OF assms(1)] by (simp add: in_set_dict_iff)
  then have b: "map_of (rp_batches s) (mq_site_id q, pb_batch_id b) = Some b"
    using metrics_invD(2) [OF assms(1) k] c(2) by (simp add: batch_key_def)
  have newest: "m_instant (pb_retrieved_at (fst x)) \<le> m_instant (pb_retrieved_at b)"
    if "projection_order x \<le> projection_order (b, r)" for x
    using that by (auto simp: projection_order_def less_eq_prod_def less_prod_def)
  have reason: "query_reason d r (mq_queried_at q) = None" using ok p by (simp add: evaluate_reason)
  note au = query_audits.append_ok [OF assms(1) a]
  have "rp_batches s' = rp_batches s"
    using a append_audit_batches by (metis snd_conv)
  moreover have "qa_request_id v = mq_request_id q" "qa_outcome v = ''available''" "qa_row_id v = Some (pr_row_id r)"
    using au p ok by (simp_all add: query_audit_for_def evaluate_status)
  moreover have "ran (map_of (rp_audits s')) = insert v (ran (map_of (rp_audits s)))" using au by blast
  moreover have "jget response ''value'' = JFloat (float_text (pr_value r))"
    using evaluate_value [OF reason] resp p by simp
  ultimately show ?thesis
    using d b c f newest reason
    by (intro exI [of _ d] exI [of _ b] exI [of _ r])
      (auto simp: query_reason_def reconciled_def age_seconds_def split: if_splits)
qed

section \<open>The properties on a concrete metric\<close>

definition sample_definition :: metric_definition where
  "sample_definition = \<lparr>md_metric_key = ''sales.order_value'', md_definition_version = ''1.0.0'',
     md_unit = ''CNY'', md_freshness_slo = 86400, md_minimum_coverage = Dec False 95 (- 2),
     md_tolerance = Dec False 1 (- 2), md_window_type = ''calendar'', md_window_grain = ''day'',
     md_display_name = None\<rparr>"

definition sample_registry :: metric_registry where
  "sample_registry = \<lparr>mr_definitions = [(''sales.order_value'', sample_definition)],
     mr_enabled_modes = {Synthetic}\<rparr>"

definition sample_query :: metric_query where
  "sample_query = \<lparr>mq_site_id = ''site-a'', mq_metric_key = ''sales.order_value'',
     mq_window_start = Zoned 0 0, mq_window_end = Zoned 3600000000 0,
     mq_queried_at = Zoned 3601000000 0, mq_request_id = ''req-1''\<rparr>"

lemma sample_definition_ok: "definition_post_init sample_definition = Inr sample_definition"
  by code_simp

lemma dec_div_counts_one: "dec_div_counts (Suc 0) (Suc 0) = Dec False 1 0"
  by (simp add: dec_div_counts_def Let_def dec_prec_def nat_digits_eval strip_zeros_numeral)

lemma sample_query_reason: "query_reason sample_definition sample_row (Zoned 3601000000 0) = None"
proof -
  have "ceil_seconds 1000000 = 1"
    by (simp add: ceil_seconds_def float_of_ratio_def scaled_ratio_def div_half_even_def bit_length.simps
        float_ceil_def Let_def)
  then show ?thesis
    by (simp add: query_reason_def sample_definition_def sample_row_def age_seconds_def coverage_ratio_def
        dec_div_counts_one reconciled_def dec_le_def Let_def dec_scaled_def dec_prec_def nat_digits_eval)
qed

lemma sample_promotion_reason: "promotion_reason sample_definition sample_row (Zoned 3601000000 0) = None"
  using reason_agreement [OF sample_definition_ok sample_row_ok] sample_query_reason by simp

lemma sample_found:
  "find_projection ''site-a'' ''sales.order_value'' Synthetic (Zoned 0 0) (Zoned 3600000000 0)
     (record_batch sample_batch metrics_repo_init) = Some (sample_batch, sample_row)"
proof -
  have "projection_candidates ''site-a'' ''sales.order_value'' Synthetic (Zoned 0 0) (Zoned 3600000000 0)
      (record_batch sample_batch metrics_repo_init) = [(sample_batch, sample_row)]"
    by (simp add: projection_candidates_def metrics_repo_init_def sample_batch_def sample_row_def)
  then show ?thesis by (simp add: find_projection_def)
qed

lemma promoted_iff_servable_witness:
  "\<exists>res response s'. promote sample_registry sample_batch (Zoned 3601000000 0) = Inr res \<and> promoted res \<and>
    metrics_query \<lparr>ms_registry = sample_registry, ms_source_mode = Synthetic\<rparr> sample_query ''u1''
      (record_batch sample_batch metrics_repo_init) = (Inr response, s') \<and>
    jget response ''status'' = JStr ''available''"
proof -
  have lookup: "registry_require sample_registry ''sales.order_value'' = Inr sample_definition"
    by (simp add: registry_require_def sample_registry_def)
  have rows: "pb_rows sample_batch = [sample_row]" "pr_metric_key sample_row = ''sales.order_value''"
    "pb_source_mode sample_batch = Synthetic" "pb_site_id sample_batch = ''site-a''"
    "pr_window_start sample_row = Zoned 0 0" "pr_window_end sample_row = Zoned 3600000000 0"
    by (simp_all add: sample_batch_def sample_row_def)
  obtain res where res: "promote sample_registry sample_batch (Zoned 3601000000 0) = Inr res" "promoted res"
    using lookup rows sample_promotion_reason
    by (simp add: promote_def promote_row_def metric_require_utc_def promotion_post_init_def promoted_def
        sample_registry_def)
  have q: "row_query sample_batch (Zoned 3601000000 0) ''req-1'' sample_row = sample_query"
    by (simp add: row_query_def sample_query_def rows)
  have "query_post_init sample_query = Inr sample_query" by code_simp
  then have ask: "\<forall>r \<in> set (pb_rows sample_batch). askable sample_registry sample_batch (Zoned 3601000000 0) ''req-1''
      (record_batch sample_batch metrics_repo_init) r"
    using q rows sample_found by (simp add: askable_def sample_registry_def sample_definition_def)
  have "metric_identifier (''metrics-query-'' @ ''u1'') ''audit_id'' = Inr ()" by code_simp
  then have fresh: "fresh_audit (pb_site_id sample_batch) ''u1'' (record_batch sample_batch metrics_repo_init)"
    by (simp add: fresh_audit_def metrics_repo_init_def)
  have "\<forall>k d. map_of (mr_definitions sample_registry) k = Some d \<longrightarrow> definition_post_init d = Inr d"
    by (simp add: sample_registry_def sample_definition_ok)
  moreover have "\<forall>r \<in> set (pb_rows sample_batch). row_post_init r = Inr r" "pb_rows sample_batch \<noteq> []"
    using rows sample_row_ok by simp_all
  ultimately obtain svc where "metrics_service_init sample_registry (pb_source_mode sample_batch) = Inr svc"
    "\<forall>r \<in> set (pb_rows sample_batch). \<exists>response s'.
       metrics_query svc (row_query sample_batch (Zoned 3601000000 0) ''req-1'' r) ''u1''
         (record_batch sample_batch metrics_repo_init) = (Inr response, s') \<and>
       jget response ''status'' = JStr ''available''"
    using promoted_iff_servable [OF _ _ _ res(1) ask fresh] res(2) by blast
  then show ?thesis
    using res by (auto simp: rows q metrics_service_init_def split: if_splits)
qed

lemma metric_answer_is_governed_witness:
  "\<exists>response s'. metrics_query \<lparr>ms_registry = sample_registry, ms_source_mode = Synthetic\<rparr> sample_query ''u1''
       (record_batch sample_batch metrics_repo_init) = (Inr response, s') \<and>
     jget response ''value'' = JFloat (float_text (Dec False 125 (- 1)))"
proof -
  let ?s = "record_batch sample_batch metrics_repo_init"
  let ?svc = "\<lparr>ms_registry = sample_registry, ms_source_mode = Synthetic\<rparr>"
  define ans where "ans = metrics_evaluate Synthetic sample_definition sample_query (Some (sample_batch, sample_row))"
  let ?a = "query_audit_for Synthetic sample_query ''u1'' (Some (sample_batch, sample_row)) ans"
  have cand: "projection_candidates ''site-a'' ''sales.order_value'' Synthetic (Zoned 0 0) (Zoned 3600000000 0) ?s
      = [(sample_batch, sample_row)]"
    by (simp add: projection_candidates_def metrics_repo_init_def sample_batch_def sample_row_def)
  then have find: "find_projection ''site-a'' ''sales.order_value'' Synthetic (Zoned 0 0) (Zoned 3600000000 0) ?s
      = Some (sample_batch, sample_row)"
    by (simp add: find_projection_def)
  have now: "mq_queried_at sample_query = Zoned 3601000000 0" by (simp add: sample_query_def)
  have ev: "snd ans = None"
    by (simp add: ans_def evaluate_reason now sample_query_reason)
  have st: "jget (fst ans) ''status'' = JStr ''available''"
    using ev unfolding ans_def evaluate_status by simp
  have audit: "?a = \<lparr>qa_site_id = ''site-a'', qa_audit_id = ''metrics-query-u1'', qa_request_id = ''req-1'',
      qa_metric_key = ''sales.order_value'', qa_source_mode = Synthetic, qa_window_start = Zoned 0 0,
      qa_window_end = Zoned 3600000000 0, qa_queried_at = Zoned 3601000000 0, qa_outcome = ''available'',
      qa_reason = None, qa_batch_id = Some ''batch-1'', qa_row_id = Some ''row-1''\<rparr>"
    by (simp add: query_audit_for_def st ev sample_query_def sample_batch_def sample_row_def)
  have "audit_post_init ?a = Inr ?a" unfolding audit by code_simp
  then have au: "append_audit ?a ?s = (Inr ?a, ?s\<lparr>rp_audits := [((''site-a'', ''metrics-query-u1''), ?a)]\<rparr>)"
    using audit by (simp add: append_audit_def metrics_repo_init_def)
  have req: "registry_require sample_registry (mq_metric_key sample_query) = Inr sample_definition"
    "md_window_type sample_definition \<noteq> ''point_in_time''"
    "m_instant (mq_window_start sample_query) \<noteq> m_instant (mq_window_end sample_query)"
    by (simp_all add: registry_require_def sample_registry_def sample_query_def sample_definition_def)
  have fq: "find_projection (mq_site_id sample_query) (mq_metric_key sample_query) Synthetic
      (mq_window_start sample_query) (mq_window_end sample_query) ?s = Some (sample_batch, sample_row)"
    using find by (simp add: sample_query_def)
  obtain s' where q: "metrics_query ?svc sample_query ''u1'' ?s = (Inr (fst ans), s')"
    using req fq au by (simp add: metrics_query_def Let_def ans_def [symmetric])
  have inv: "metrics_inv ?s"
    using append_batch_inv [OF metrics_inv_init sample_batch_appended] .
  from metric_answer_is_governed [OF inv q st] obtain b rw where
    b: "map_of (rp_batches ?s) (mq_site_id sample_query, pb_batch_id b) = Some b" "rw \<in> set (pb_rows b)"
    and v: "jget (fst ans) ''value'' = JFloat (float_text (pr_value rw))" by blast
  from b have "rw = sample_row"
    by (auto simp: metrics_repo_init_def sample_batch_def split: if_splits)
  with q v show ?thesis by (auto simp: sample_row_def)
qed

end
