(* ===== verification/Metrics_Projector.thy ===== *)
theory Metrics_Projector
  imports Metrics_Service Kingdee_Adapter "HOL-Library.Multiset"
begin

text \<open>
  The bridge from a Kingdee response to a projection batch (\<open>metrics/projector.py\<close>): the exact
  recipes, the checks on a response and the projection itself. The crosswalk is a dictionary of
  values, \<open>None\<close> for a reference it does not know.
\<close>

section \<open>Recipes and inputs\<close>

record metric_recipe =
  re_metric_key :: string
  re_logical_object :: string
  re_tool_name :: string
  re_value_field :: string
  re_source_fields :: "string list"
  re_aggregation :: string

definition metric_recipes :: "(string \<times> metric_recipe) list" where
  "metric_recipes = map (\<lambda>r. (re_metric_key r, r))
     [\<lparr>re_metric_key = ''sales.order_value'', re_logical_object = ''sales_order'',
       re_tool_name = ''kingdee.sales_order.get'', re_value_field = ''total_amount'',
       re_source_fields = [''order_number'', ''customer_number'', ''order_date'', ''total_amount''],
       re_aggregation = ''sum''\<rparr>,
      \<lparr>re_metric_key = ''inventory.on_hand_quantity'', re_logical_object = ''inventory'',
       re_tool_name = ''kingdee.inventory.get'', re_value_field = ''base_quantity'',
       re_source_fields = [''material_number'', ''warehouse_number'', ''base_quantity''],
       re_aggregation = ''balance''\<rparr>,
      \<lparr>re_metric_key = ''receivables.balance'', re_logical_object = ''receivable'',
       re_tool_name = ''kingdee.receivable.get'', re_value_field = ''open_amount'',
       re_source_fields = [''bill_number'', ''customer_number'', ''due_date'', ''open_amount''],
       re_aggregation = ''balance''\<rparr>]"

record projection_inputs =
  pi_metric_key :: string
  pi_window_start :: moment
  pi_window_end :: moment
  pi_as_of :: moment
  pi_retrieved_at :: moment
  pi_checkpoint :: string
  pi_total_count :: int
  pi_reference :: string
  pi_variance :: decimal
  pi_checked_at :: moment
  pi_definition_version :: string

definition inputs_post_init :: "projection_inputs \<Rightarrow> metric_error + projection_inputs" where
  "inputs_post_init i =
     (case in_order
        [metric_window (pi_window_start i) (pi_window_end i), metric_require_utc (pi_as_of i) ''as_of'',
         metric_require_utc (pi_retrieved_at i) ''retrieved_at'',
         metric_require_utc (pi_checked_at i) ''reconciliation_checked_at'',
         metric_identifier (pi_checkpoint i) ''checkpoint'',
         metric_identifier (pi_reference i) ''reconciliation_reference'',
         metric_identifier (pi_definition_version i) ''definition_version'',
         metric_unless (pi_total_count i < 0) ''total_count must be non-negative'',
         metric_unless (\<not> decimal_finite (pi_variance i)) ''reconciliation_variance must be finite'']
      of Inl e \<Rightarrow> Inl e | Inr _ \<Rightarrow> Inr i)"

section \<open>Checking a response\<close>

definition reject_unless :: "bool \<Rightarrow> unavailable_reason \<Rightarrow> string \<Rightarrow> metric_error + unit" where
  "reject_unless ok reason message = (if ok then Inr () else Inl (Projection_rejected reason message))"

lemma reject_unless_Inr [simp]: "reject_unless ok reason message = Inr u \<longleftrightarrow> ok"
  by (simp add: reject_unless_def)

definition valid_crosswalk_ref :: "json \<Rightarrow> bool" where
  "valid_crosswalk_ref v =
     (case v of JStr s \<Rightarrow> s \<noteq> [] \<and> strip s = s \<and> length s \<le> 256 | _ \<Rightarrow> False)"

definition decimal_value :: "json \<Rightarrow> metric_error + decimal" where
  "decimal_value v =
     (case v of
        JInt i \<Rightarrow> Inr (dec_of_int i)
      | JFloat t \<Rightarrow>
          (case dec_of_text t of
             None \<Rightarrow> Inl (Projection_rejected Ungoverned_source ''metric recipe value is not numeric'')
           | Some d \<Rightarrow>
               (if \<not> decimal_finite d
                then Inl (Projection_rejected Ungoverned_source ''metric recipe value must be finite'')
                else Inr d))
      | _ \<Rightarrow> Inl (Projection_rejected Ungoverned_source ''metric recipe value is not numeric''))"

definition max_projection_rows :: int where
  "max_projection_rows = 50"

definition page_consistent :: "adapter_response \<Rightarrow> projection_inputs \<Rightarrow> bool" where
  "page_consistent resp i =
     (let n = int (length (ar_rows resp)) in
      case (jget (ar_page resp) ''returned_rows'', jget (ar_page resp) ''limit'',
            jget (ar_page resp) ''offset'', jget (ar_page resp) ''has_more'') of
        (JInt returned, JInt limit, JInt offset, JBool has_more) \<Rightarrow>
          returned = n \<and> 1 \<le> limit \<and> limit \<le> max_projection_rows \<and> n \<le> limit \<and> 0 \<le> offset \<and>
          offset + n \<le> pi_total_count i \<and> (has_more \<longrightarrow> offset + n < pi_total_count i)
      | _ \<Rightarrow> False)"

definition row_matches_recipe :: "bool \<Rightarrow> metric_recipe \<Rightarrow> fields \<Rightarrow> bool" where
  "row_matches_recipe synthetic recipe row =
     (keys_are row (if synthetic then [''record_ref'', ''values'', ''synthetic''] else [''record_ref'', ''values'']) \<and>
      (synthetic \<longrightarrow> jget row ''synthetic'' = JBool True) \<and> is_str (jget row ''record_ref'') \<and>
      is_obj (jget row ''values'') \<and> keys_are (fields_of_json (jget row ''values'')) (re_source_fields recipe))"

definition row_ref :: "fields \<Rightarrow> string" where
  "row_ref row = py_str (jget row ''record_ref'')"

definition row_value :: "metric_recipe \<Rightarrow> fields \<Rightarrow> metric_error + decimal" where
  "row_value recipe row = decimal_value (jget (fields_of_json (jget row ''values'')) (re_value_field recipe))"

text \<open>The loop over the rows, with the references observed so far.\<close>

fun check_rows :: "bool \<Rightarrow> metric_recipe \<Rightarrow> fields list \<Rightarrow> string set \<Rightarrow> metric_error + unit" where
  "check_rows synthetic recipe [] observed = Inr ()"
| "check_rows synthetic recipe (row # rows) observed =
     (if \<not> row_matches_recipe synthetic recipe row \<or> row_ref row \<in> observed
      then Inl (Projection_rejected Ungoverned_source
        ''adapter row does not match the exact governed field recipe'')
      else case row_value recipe row of
        Inl e \<Rightarrow> Inl e
      | Inr _ \<Rightarrow> check_rows synthetic recipe rows (insert (row_ref row) observed))"

definition validate_response ::
  "adapter_response \<Rightarrow> metric_recipe \<Rightarrow> projection_inputs \<Rightarrow> metric_error + unit" where
  "validate_response resp recipe i =
     (let v = ar_verification resp; c = ar_controls resp in
      in_order
        [reject_unless (ar_status resp = Read_available) Source_unavailable
           ''unavailable adapter response cannot produce a projection'',
         reject_unless (ar_reason_code resp = None) Source_unavailable
           ''available adapter response cannot carry a failure reason'',
         reject_unless (ar_logical_object resp = re_logical_object recipe \<and> ar_tool_name resp = re_tool_name recipe)
           Ungoverned_source ''adapter response does not match the exact metric recipe'',
         reject_unless (vs_startup v = Verified \<and> vs_authentication v = Verified \<and>
                        vs_metadata v = Verified \<and> vs_business v = Verified)
           Source_unavailable ''adapter verification is incomplete'',
         reject_unless (cm_writer_tools c = 0 \<and> cm_mutation_attempts c = 0 \<and> cm_synthetic_fallbacks c = 0)
           Ungoverned_source ''adapter controls do not prove a read-only non-fallback response'',
         reject_unless (\<not> (ar_synthetic resp \<and> cm_network_calls c \<noteq> 0))
           Ungoverned_source ''synthetic adapter response cannot contain network calls'',
         reject_unless (1 \<le> int (length (ar_rows resp)) \<and> int (length (ar_rows resp)) \<le> max_projection_rows)
           Source_unavailable ''adapter response row count is outside the projection budget'',
         reject_unless (page_consistent resp i)
           Ungoverned_source ''adapter page metadata is inconsistent or unbounded'',
         check_rows (ar_synthetic resp) recipe (ar_rows resp) {}])"

section \<open>Projecting\<close>

definition ordered_rows :: "adapter_response \<Rightarrow> fields list" where
  "ordered_rows resp = sort_key row_ref (ar_rows resp)"

definition projection_identity ::
  "adapter_response \<Rightarrow> source_mode \<Rightarrow> projection_inputs \<Rightarrow> string list \<Rightarrow> json list \<Rightarrow> decimal \<Rightarrow> json" where
  "projection_identity resp mode i refs resolved v = JObj
     [(''request_id'', JStr (ar_request_id resp)), (''site_id'', JStr (ar_site_id resp)),
      (''source_mode'', JStr (mode_text mode)), (''metric_key'', JStr (pi_metric_key i)),
      (''definition_version'', JStr (pi_definition_version i)),
      (''window_start'', JStr (utc_iso (pi_window_start i))), (''window_end'', JStr (utc_iso (pi_window_end i))),
      (''as_of'', JStr (utc_iso (pi_as_of i))), (''retrieved_at'', JStr (utc_iso (pi_retrieved_at i))),
      (''checkpoint'', JStr (pi_checkpoint i)), (''total_count'', JInt (pi_total_count i)),
      (''reconciliation_reference'', JStr (pi_reference i)),
      (''reconciliation_variance'', JStr (decimal_text (pi_variance i))),
      (''reconciliation_checked_at'', JStr (utc_iso (pi_checked_at i))),
      (''source_refs'', JTuple (map JStr refs)), (''crosswalk_refs'', JTuple resolved),
      (''value'', JStr (decimal_text v))]"

definition governed_refs :: "fields \<Rightarrow> string list \<Rightarrow> json list" where
  "governed_refs crosswalk refs = filter valid_crosswalk_ref (map (jget crosswalk) refs)"

definition projection_row_for ::
  "projection_inputs \<Rightarrow> fields \<Rightarrow> string list \<Rightarrow> decimal \<Rightarrow> string \<Rightarrow> projection_row" where
  "projection_row_for i crosswalk refs v digest =
     \<lparr>pr_row_id = ''metric-row-'' @ take 24 digest, pr_metric_key = pi_metric_key i,
      pr_window_start = pi_window_start i, pr_window_end = pi_window_end i, pr_as_of = pi_as_of i,
      pr_value = v, pr_included_count = int (length (governed_refs crosswalk refs)),
      pr_total_count = pi_total_count i, pr_reference = pi_reference i, pr_variance = pi_variance i,
      pr_checked_at = pi_checked_at i, pr_source_refs = refs,
      pr_governed = (length (governed_refs crosswalk refs) = length refs \<and>
        length (remdups (governed_refs crosswalk refs)) = length (governed_refs crosswalk refs)),
      pr_definition_version = pi_definition_version i\<rparr>"

definition projection_batch_of ::
  "adapter_response \<Rightarrow> source_mode \<Rightarrow> projection_inputs \<Rightarrow> string \<Rightarrow> projection_row \<Rightarrow> projection_batch" where
  "projection_batch_of resp mode i digest row =
     \<lparr>pb_batch_id = ''metric-batch-'' @ take 24 (drop 24 digest), pb_site_id = ar_site_id resp,
      pb_source_mode = mode, pb_checkpoint = pi_checkpoint i,
      pb_source_system = (if mode = Synthetic then ''kingdee-gate5-synthetic'' else ''kingdee-live-read''),
      pb_transformation_version = ''metrics-projection-v1'',
      pb_retrieved_at = pi_retrieved_at i, pb_rows = [row]\<rparr>"

text \<open>The rows whose reference the crosswalk resolves, and the sum of their values in row order.\<close>

definition counted_rows :: "fields \<Rightarrow> fields list \<Rightarrow> fields list" where
  "counted_rows crosswalk rows =
     map fst (filter (valid_crosswalk_ref \<circ> snd) (zip rows (map (jget crosswalk) (map row_ref rows))))"

definition projection_batch_for ::
  "adapter_response \<Rightarrow> source_mode \<Rightarrow> metric_recipe \<Rightarrow> projection_inputs \<Rightarrow> fields
    \<Rightarrow> metric_error + projection_batch" where
  "projection_batch_for resp mode recipe i crosswalk =
     (let rows = ordered_rows resp;
          refs = map row_ref rows
      in case map_raise (row_value recipe) (counted_rows crosswalk rows) of
           Inl e \<Rightarrow> Inl e
         | Inr vs \<Rightarrow>
             (let v = foldl dec_add (dec_of_int 0) vs;
                  digest = json_digest
                    (projection_identity resp mode i refs (map (jget crosswalk) refs) v)
              in case row_post_init (projection_row_for i crosswalk refs v digest) of
                   Inl e \<Rightarrow> Inl e
                 | Inr row \<Rightarrow> batch_post_init (projection_batch_of resp mode i digest row)))"

definition project ::
  "metric_registry \<Rightarrow> adapter_response \<Rightarrow> projection_inputs \<Rightarrow> fields \<Rightarrow> metric_error + projection_batch" where
  "project reg resp i crosswalk =
     (case registry_require reg (pi_metric_key i) of
        Inl e \<Rightarrow> Inl e
      | Inr d \<Rightarrow>
     (case map_of metric_recipes (pi_metric_key i) of
        None \<Rightarrow> Inl (Projection_rejected Ungoverned_source ''metric has no exact governed projection recipe'')
      | Some recipe \<Rightarrow>
          (let mode = (if ar_synthetic resp then Synthetic else Live) in
           case in_order
             [reject_unless (pi_definition_version i = md_definition_version d) Ungoverned_source
                ''projection definition version is not governed'',
              reject_unless (mode \<in> mr_enabled_modes reg) Ungoverned_source
                ''adapter source mode is disabled by the governed registry'',
              validate_response resp recipe i] of
             Inl e \<Rightarrow> Inl e
           | Inr _ \<Rightarrow> projection_batch_for resp mode recipe i crosswalk)))"

section \<open>Row order\<close>

lemma check_rows_Inr_iff:
  "check_rows syn recipe rows obs = Inr u \<longleftrightarrow>
     distinct (map row_ref rows) \<and> set (map row_ref rows) \<inter> obs = {} \<and>
     (\<forall>row \<in> set rows. row_matches_recipe syn recipe row \<and> (\<exists>v. row_value recipe row = Inr v))"
  by (induction rows arbitrary: obs) (auto split: sum.splits)

lemma validate_response_distinct:
  "validate_response resp recipe i = Inr u \<Longrightarrow> distinct (map row_ref (ar_rows resp))"
  unfolding validate_response_def Let_def in_order_Inr_iff by (simp add: check_rows_Inr_iff)

lemma validate_response_permuted:
  assumes "mset rows = mset (ar_rows resp)" and "validate_response resp recipe i = Inr ()"
  shows "validate_response (resp\<lparr>ar_rows := rows\<rparr>) recipe i = Inr ()"
proof -
  have len: "length rows = length (ar_rows resp)" and set: "set rows = set (ar_rows resp)"
    using assms(1) by (metis size_mset, metis set_mset_mset)
  have d: "distinct (map row_ref rows) = distinct (map row_ref (ar_rows resp))"
    using assms(1) by (intro mset_eq_imp_distinct_iff) simp
  have "page_consistent (resp\<lparr>ar_rows := rows\<rparr>) i = page_consistent resp i"
    by (simp add: page_consistent_def len)
  moreover have "check_rows syn recipe rows {} = Inr () \<longleftrightarrow> check_rows syn recipe (ar_rows resp) {} = Inr ()" for syn
    by (simp add: check_rows_Inr_iff d set)
  ultimately show ?thesis
    using assms(2) unfolding validate_response_def Let_def in_order_Inr_iff by (simp add: len)
qed

lemma ordered_rows_permuted:
  assumes "mset rows = mset (ar_rows resp)" and "distinct (map row_ref (ar_rows resp))"
  shows "ordered_rows (resp\<lparr>ar_rows := rows\<rparr>) = ordered_rows resp"
proof -
  have d: "distinct (map row_ref rows)"
    using assms mset_eq_imp_distinct_iff [of "map row_ref rows" "map row_ref (ar_rows resp)"] by simp
  have set: "set rows = set (ar_rows resp)"
    using assms(1) by (rule mset_eq_setD)
  have sorted_distinct: "distinct (map row_ref (sort_key row_ref xs)) = distinct (map row_ref xs)" for xs
    by (rule mset_eq_imp_distinct_iff) simp
  have inj: "inj_on row_ref (set (ar_rows resp))"
    using assms(2) by (simp add: distinct_map)
  show ?thesis
    unfolding ordered_rows_def
  proof (rule map_sorted_distinct_set_unique [of row_ref])
    show "inj_on row_ref (set (sort_key row_ref (ar_rows (resp\<lparr>ar_rows := rows\<rparr>))) \<union>
        set (sort_key row_ref (ar_rows resp)))"
      using inj set by simp
  qed (use d assms(2) set in \<open>simp_all add: sorted_distinct\<close>)
qed

lemma project_cases:
  assumes "project reg resp i cw = Inr b"
  obtains d recipe where "registry_require reg (pi_metric_key i) = Inr d"
    "map_of metric_recipes (pi_metric_key i) = Some recipe"
    "pi_definition_version i = md_definition_version d"
    "(if ar_synthetic resp then Synthetic else Live) \<in> mr_enabled_modes reg"
    "validate_response resp recipe i = Inr ()"
    "projection_batch_for resp (if ar_synthetic resp then Synthetic else Live) recipe i cw = Inr b"
proof -
  from assms obtain d recipe where dr: "registry_require reg (pi_metric_key i) = Inr d"
    "map_of metric_recipes (pi_metric_key i) = Some recipe"
    by (auto simp: project_def split: sum.splits option.splits)
  note p = assms [unfolded project_def dr sum.case option.case Let_def sum_case_Inr_iff in_order_Inr_iff]
  show ?thesis
    by (rule that [OF dr]) (use p in auto)
qed

lemma project_intro:
  assumes "registry_require reg (pi_metric_key i) = Inr d"
    "map_of metric_recipes (pi_metric_key i) = Some recipe"
    "pi_definition_version i = md_definition_version d"
    "(if ar_synthetic resp then Synthetic else Live) \<in> mr_enabled_modes reg"
    "validate_response resp recipe i = Inr ()"
  shows "project reg resp i cw = projection_batch_for resp (if ar_synthetic resp then Synthetic else Live) recipe i cw"
proof -
  have "in_order
     [reject_unless (pi_definition_version i = md_definition_version d) Ungoverned_source
        ''projection definition version is not governed'',
      reject_unless ((if ar_synthetic resp then Synthetic else Live) \<in> mr_enabled_modes reg) Ungoverned_source
        ''adapter source mode is disabled by the governed registry'',
      validate_response resp recipe i] = Inr ()"
    using assms(3-5) by (simp add: in_order_Inr_iff del: in_order.simps)
  then show ?thesis
    by (simp only: project_def assms(1,2) sum.case option.case Let_def)
qed

lemma row_post_init_same: "row_post_init r = Inr r' \<Longrightarrow> r' = r"
  unfolding row_post_init_def sum_case_Inr_iff by simp

lemma batch_post_init_same: "batch_post_init b = Inr b' \<Longrightarrow> b' = b"
  unfolding batch_post_init_def sum_case_Inr_iff by simp

lemma projection_batch_row:
  assumes "projection_batch_for resp mode recipe i cw = Inr b"
  shows "\<exists>vs digest row. map_raise (row_value recipe) (counted_rows cw (ordered_rows resp)) = Inr vs \<and>
    row = projection_row_for i cw (map row_ref (ordered_rows resp)) (foldl dec_add (dec_of_int 0) vs) digest \<and>
    row_post_init row = Inr row \<and> b = projection_batch_of resp mode i digest row"
  using assms unfolding projection_batch_for_def Let_def sum_case_Inr_iff
  by (metis row_post_init_same batch_post_init_same)

lemma distinct_filter_map:
  assumes "distinct xs"
  shows "length (filter P (map f xs)) = length xs \<and> length (remdups (filter P (map f xs))) = length (filter P (map f xs))
    \<longleftrightarrow> (\<forall>x \<in> set xs. P (f x)) \<and> inj_on f (set xs)"
proof -
  have "length (filter P (map f xs)) = length xs \<longleftrightarrow> (\<forall>x \<in> set xs. P (f x))"
    using filter_id_conv [of P "map f xs"] length_filter_less [of _ "map f xs" P]
    by (metis (no_types, lifting) filter_True image_eqI length_map less_not_refl list.set_map imageE)
  moreover have "length (remdups (map f xs)) = length xs \<longleftrightarrow> distinct (map f xs)"
    by (metis length_remdups_card_conv length_card_set length_map)
  moreover have "filter P (map f xs) = map f xs" if "\<forall>x \<in> set xs. P (f x)"
    using that by (simp add: filter_id_conv)
  ultimately show ?thesis
    using assms by (simp add: distinct_map cong: conj_cong)
qed

section \<open>Properties\<close>

text \<open>A projection does not depend on the order in which the adapter returned the rows: any
  permutation of them gives the same batch, down to the identifiers derived from its digest.\<close>

theorem projection_ignores_row_order:
  assumes "mset rows = mset (ar_rows resp)" and "project reg resp i crosswalk = Inr b"
  shows "project reg (resp\<lparr>ar_rows := rows\<rparr>) i crosswalk = Inr b"
  using assms(2)
proof (rule project_cases)
  let ?resp = "resp\<lparr>ar_rows := rows\<rparr>" and ?mode = "if ar_synthetic resp then Synthetic else Live"
  fix d recipe
  assume a: "registry_require reg (pi_metric_key i) = Inr d"
    "map_of metric_recipes (pi_metric_key i) = Some recipe" "pi_definition_version i = md_definition_version d"
    "?mode \<in> mr_enabled_modes reg" and v: "validate_response resp recipe i = Inr ()"
    and b: "projection_batch_for resp ?mode recipe i crosswalk = Inr b"
  have "ordered_rows ?resp = ordered_rows resp"
    using ordered_rows_permuted [OF assms(1) validate_response_distinct [OF v]] .
  moreover have "projection_identity ?resp = projection_identity resp" "projection_batch_of ?resp = projection_batch_of resp"
    by (simp_all add: projection_identity_def projection_batch_of_def fun_eq_iff)
  ultimately have "projection_batch_for ?resp ?mode recipe i crosswalk = Inr b"
    using b by (simp only: projection_batch_for_def)
  then show ?thesis
    using project_intro [OF a(1,2,3) _ validate_response_permuted [OF assms(1) v], of crosswalk] a(4) by simp
qed

text \<open>A promoted projection is traceable: if the batch projected from a response passes the gate,
  the response was available, verified and read-only, of an enabled mode and at most fifty rows, its
  references are distinct, and the crosswalk resolves every one of them to a governed reference of
  its own; all of the rows are counted.\<close>

theorem promoted_projection_is_traceable:
  assumes "project reg resp i crosswalk = Inr b" and "promote reg b now = Inr res" and "promoted res"
  shows "ar_status resp = Read_available \<and> vs_business (ar_verification resp) = Verified \<and>
    cm_mutation_attempts (ar_controls resp) = 0 \<and>
    (if ar_synthetic resp then Synthetic else Live) \<in> mr_enabled_modes reg \<and>
    1 \<le> length (ar_rows resp) \<and> length (ar_rows resp) \<le> 50 \<and> distinct (map row_ref (ar_rows resp)) \<and>
    (\<forall>row \<in> set (ar_rows resp). valid_crosswalk_ref (jget crosswalk (row_ref row))) \<and>
    inj_on (\<lambda>row. jget crosswalk (row_ref row)) (set (ar_rows resp)) \<and>
    map pr_included_count (pb_rows b) = [int (length (ar_rows resp))]"
  using assms(1)
proof (rule project_cases)
  let ?mode = "if ar_synthetic resp then Synthetic else Live"
  fix d recipe
  assume d: "registry_require reg (pi_metric_key i) = Inr d" and m: "?mode \<in> mr_enabled_modes reg"
    and v: "validate_response resp recipe i = Inr ()"
    and b: "projection_batch_for resp ?mode recipe i crosswalk = Inr b"
  let ?refs = "map row_ref (ordered_rows resp)"
  note dist = validate_response_distinct [OF v]
  from projection_batch_row [OF b] obtain s digest row where
    row: "row = projection_row_for i crosswalk ?refs s digest" and rb: "b = projection_batch_of resp ?mode i digest row"
    by blast
  have "promote_row reg b now row = Inr None"
    using assms(2)
  proof (rule promote_cases)
    fix outcomes
    assume "list_all2 (\<lambda>r x. promote_row reg b now r = Inr x) (pb_rows b) outcomes"
      and "promoted res = (\<forall>x \<in> set outcomes. x = None)"
    then show ?thesis
      using assms(3) rb by (auto simp: projection_batch_of_def list_all2_Cons1)
  qed
  then obtain d' where "promotion_reason d' row now = None"
    by (rule promote_row_cases) auto
  then have "pr_governed row"
    by (auto simp: promotion_reason_def split: if_splits)
  moreover have "distinct ?refs" "set ?refs = row_ref ` set (ar_rows resp)" "length ?refs = length (ar_rows resp)"
    using dist by (auto simp: ordered_rows_def intro: mset_eq_imp_distinct_iff [THEN iffD1, rotated])
  ultimately have g: "\<forall>ref \<in> row_ref ` set (ar_rows resp). valid_crosswalk_ref (jget crosswalk ref)"
    "inj_on (jget crosswalk) (row_ref ` set (ar_rows resp))"
    "length (governed_refs crosswalk ?refs) = length (ar_rows resp)"
    using distinct_filter_map [of ?refs valid_crosswalk_ref "jget crosswalk"] row
    by (simp_all add: projection_row_for_def governed_refs_def)
  moreover have "inj_on row_ref (set (ar_rows resp))" using dist by (simp add: distinct_map)
  ultimately have "inj_on (\<lambda>row. jget crosswalk (row_ref row)) (set (ar_rows resp))"
    using comp_inj_on [of row_ref "set (ar_rows resp)" "jget crosswalk"] by (simp add: comp_def)
  then show ?thesis
    using v m g dist rb row unfolding validate_response_def Let_def in_order_Inr_iff
    by (simp add: projection_batch_of_def projection_row_for_def max_projection_rows_def)
qed

section \<open>The properties on a concrete response\<close>

definition sample_response_row :: "string \<Rightarrow> int \<Rightarrow> fields" where
  "sample_response_row ref amount =
     [(''record_ref'', JStr ref), (''synthetic'', JBool True),
      (''values'', JObj [(''order_number'', JStr ref), (''customer_number'', JStr ''c''),
        (''order_date'', JStr ''d''), (''total_amount'', JInt amount)])]"

definition sample_response :: adapter_response where
  "sample_response = \<lparr>ar_status = Read_available, ar_request_id = ''req-1'', ar_site_id = ''site-a'',
     ar_logical_object = ''sales_order'', ar_tool_name = ''kingdee.sales_order.get'', ar_synthetic = True,
     ar_rows = [sample_response_row ''so-2'' 5, sample_response_row ''so-1'' 7], ar_metadata = [],
     ar_page = [(''limit'', JInt 50), (''offset'', JInt 0), (''returned_rows'', JInt 2), (''has_more'', JBool False)],
     ar_verification = \<lparr>vs_startup = Verified, vs_authentication = Verified, vs_metadata = Verified,
       vs_business = Verified\<rparr>,
     ar_controls = \<lparr>cm_network_calls = 0, cm_writer_tools = 0, cm_mutation_attempts = 0,
       cm_synthetic_fallbacks = 0\<rparr>,
     ar_reason_code = None\<rparr>"

definition sample_inputs :: projection_inputs where
  "sample_inputs = \<lparr>pi_metric_key = ''sales.order_value'', pi_window_start = Zoned 0 0,
     pi_window_end = Zoned 3600000000 0, pi_as_of = Zoned 3600000000 0, pi_retrieved_at = Zoned 3600000000 0,
     pi_checkpoint = ''cp-1'', pi_total_count = 2, pi_reference = ''recon-1'', pi_variance = Dec False 0 0,
     pi_checked_at = Zoned 3600000000 0, pi_definition_version = ''1.0.0''\<rparr>"

definition sample_crosswalk :: fields where
  "sample_crosswalk = [(''so-1'', JStr ''gov-1''), (''so-2'', JStr ''gov-2'')]"

definition sample_recipe :: metric_recipe where
  "sample_recipe = the (map_of metric_recipes ''sales.order_value'')"

lemma digest_identifier:
  assumes "list_all (\<lambda>c. \<not> is_space c) p" and "p \<noteq> []" and "length p \<le> 192"
  shows "metric_identifier (p @ take 24 (json_digest v)) name = Inr ()"
    and "metric_identifier (p @ take 24 (drop 24 (json_digest v))) name = Inr ()"
proof -
  have "\<not> is_space c" if "c \<in> set (json_digest v)" for c
    using that unfolding json_digest_def by (intro hex_not_space sha256_hex_chars)
  then have "list_all (\<lambda>c. \<not> is_space c) (p @ take 24 (json_digest v))"
    "list_all (\<lambda>c. \<not> is_space c) (p @ take 24 (drop 24 (json_digest v)))"
    using assms(1) by (auto simp: list_all_iff dest: in_set_takeD in_set_dropD)
  with strip_plain assms(2,3) show "metric_identifier (p @ take 24 (json_digest v)) name = Inr ()"
    and "metric_identifier (p @ take 24 (drop 24 (json_digest v))) name = Inr ()"
    by (auto simp: metric_identifier_def)
qed

definition sample_projected_row :: "string \<Rightarrow> projection_row" where
  "sample_projected_row digest = projection_row_for sample_inputs sample_crosswalk [''so-1'', ''so-2''] (Dec False 12 0) digest"

lemma sample_projected_row_ok:
  "row_post_init (sample_projected_row (json_digest v)) = Inr (sample_projected_row (json_digest v))"
proof -
  have rest: "row_post_init (sample_projected_row ''x'') = Inr (sample_projected_row ''x'')"
    by code_simp
  have "metric_identifier (pr_row_id (sample_projected_row (json_digest v))) ''row_id'' = Inr ()"
    unfolding sample_projected_row_def projection_row_for_def projection_row.select_convs
    by (rule digest_identifier) (code_simp, simp, simp)
  with rest show ?thesis
    unfolding row_post_init_def sum_case_Inr_iff in_order_Inr_iff
    by (simp add: sample_projected_row_def projection_row_for_def)
qed

lemma sample_projected:
  "\<exists>digest. project sample_registry sample_response sample_inputs sample_crosswalk =
     Inr (projection_batch_of sample_response Synthetic sample_inputs digest (sample_projected_row digest))"
proof -
  have reg: "registry_require sample_registry (pi_metric_key sample_inputs) = Inr sample_definition"
    "pi_definition_version sample_inputs = md_definition_version sample_definition"
    "(if ar_synthetic sample_response then Synthetic else Live) \<in> mr_enabled_modes sample_registry"
    by (simp_all add: registry_require_def sample_registry_def sample_inputs_def sample_definition_def sample_response_def)
  have rec: "map_of metric_recipes (pi_metric_key sample_inputs) = Some sample_recipe"
    by (simp add: sample_recipe_def sample_inputs_def metric_recipes_def)
  have v: "validate_response sample_response sample_recipe sample_inputs = Inr ()"
    by code_simp
  have rows: "map row_ref (ordered_rows sample_response) = [''so-1'', ''so-2'']"
    by code_simp
  have vs: "map_raise (row_value sample_recipe) (counted_rows sample_crosswalk (ordered_rows sample_response)) =
      Inr [Dec False 7 0, Dec False 5 0]"
    by code_simp
  have sum: "foldl dec_add (dec_of_int 0) [Dec False 7 0, Dec False 5 0] = Dec False 12 0"
    by code_simp
  define digest where "digest = json_digest (projection_identity sample_response Synthetic sample_inputs
      [''so-1'', ''so-2''] (map (jget sample_crosswalk) [''so-1'', ''so-2'']) (Dec False 12 0))"
  have syn: "ar_synthetic sample_response" by (simp add: sample_response_def)
  have batch: "batch_post_init (projection_batch_of sample_response Synthetic sample_inputs digest (sample_projected_row digest))
      = Inr (projection_batch_of sample_response Synthetic sample_inputs digest (sample_projected_row digest))"
  proof -
    have rest: "batch_post_init (projection_batch_of sample_response Synthetic sample_inputs ''x'' (sample_projected_row ''x''))
      = Inr (projection_batch_of sample_response Synthetic sample_inputs ''x'' (sample_projected_row ''x''))"
      by code_simp
    have "metric_identifier (''metric-batch-'' @ take 24 (drop 24 digest)) ''batch_id'' = Inr ()"
      unfolding digest_def by (rule digest_identifier) (code_simp, simp, simp)
    with rest show ?thesis
      unfolding batch_post_init_def sum_case_Inr_iff in_order_Inr_iff
      by (simp add: projection_batch_of_def)
  qed
  have "project sample_registry sample_response sample_inputs sample_crosswalk =
      projection_batch_for sample_response Synthetic sample_recipe sample_inputs sample_crosswalk"
    using project_intro [OF reg(1) rec reg(2,3) v] syn by simp
  also have "\<dots> = Inr (projection_batch_of sample_response Synthetic sample_inputs digest (sample_projected_row digest))"
    unfolding projection_batch_for_def Let_def rows vs sum.case sum digest_def [symmetric]
      sample_projected_row_def [symmetric]
    using sample_projected_row_ok batch digest_def by simp
  finally show ?thesis by blast
qed

lemma projection_ignores_row_order_witness:
  "\<exists>b. project sample_registry sample_response sample_inputs sample_crosswalk = Inr b \<and>
    project sample_registry (sample_response\<lparr>ar_rows := rev (ar_rows sample_response)\<rparr>) sample_inputs sample_crosswalk = Inr b"
  using sample_projected projection_ignores_row_order [of "rev (ar_rows sample_response)" sample_response]
  by fastforce

lemma promoted_projection_is_traceable_witness:
  "\<exists>b res. project sample_registry sample_response sample_inputs sample_crosswalk = Inr b \<and>
    promote sample_registry b (Zoned 3601000000 0) = Inr res \<and> promoted res \<and>
    map pr_included_count (pb_rows b) = [2]"
proof -
  from sample_projected obtain digest where p: "project sample_registry sample_response sample_inputs sample_crosswalk =
      Inr (projection_batch_of sample_response Synthetic sample_inputs digest (sample_projected_row digest))"
    by blast
  let ?b = "projection_batch_of sample_response Synthetic sample_inputs digest (sample_projected_row digest)"
  have refs: "governed_refs sample_crosswalk [''so-1'', ''so-2''] = [JStr ''gov-1'', JStr ''gov-2'']"
    by code_simp
  have "ceil_seconds 1000000 = 1"
    by (simp add: ceil_seconds_def float_of_ratio_def scaled_ratio_def div_half_even_def bit_length.simps
        float_ceil_def Let_def)
  moreover have "dec_div_counts 2 2 = Dec False 1 0"
    by (simp add: dec_div_counts_def Let_def dec_prec_def nat_digits_eval strip_zeros_numeral)
  ultimately have "promotion_reason sample_definition (sample_projected_row digest) (Zoned 3601000000 0) = None"
    by (simp add: promotion_reason_def sample_definition_def sample_projected_row_def projection_row_for_def
        refs sample_inputs_def age_seconds_def coverage_ratio_def Let_def dec_scaled_def dec_prec_def nat_digits_eval)
  then obtain res where r: "promote sample_registry ?b (Zoned 3601000000 0) = Inr res" "promoted res"
    by (simp add: promote_def promote_row_def metric_require_utc_def promotion_post_init_def promoted_def
        sample_registry_def projection_batch_of_def registry_require_def sample_projected_row_def
        projection_row_for_def sample_inputs_def)
  from promoted_projection_is_traceable [OF p r] p r show ?thesis
    by (auto simp: sample_response_def)
qed

end
