(* ===== verification/Context_Store.thy ===== *)
theory Context_Store
  imports GBOS_Prelude Py_Json Py_Time
begin

text \<open>
  The decision store of the context service: the snapshots of \<open>decision_storage.py\<close> and the
  transactions of \<open>PostgresDecisionStorage\<close> (\<open>decision_postgres.py\<close>) over the tables and constraints of
  \<open>migrations/001\<close> to \<open>004\<close>. A table is the list of its rows in the order of insertion; an \<open>INSERT\<close>
  checks the keys, foreign keys and \<open>CHECK\<close> clauses of its table; a transaction that raises leaves
  the tables as they were. A \<open>jsonb\<close> document is the value that was written (Python equality cannot
  tell the two apart). Text is ordered by the collation of the database, a key function.

  A nested document that is itself a text of JSON, which the readers would decode, is an error here:
  the records are validated to hold objects. Row-level security repeats the condition \<open>site_id = \<dots>\<close> that every statement has anyway.
\<close>

section \<open>Errors and snapshots\<close>

datatype decision_error =
    Invalid_decision string
  | Stale_revision string
  | Evidence_missing string
  | Explicit_supersession string
  | Trace_integrity string
  | Document_error string
  | Database_error string

record proposal_snapshot =
  ps_site_id :: string
  ps_purpose :: string
  ps_proposal_ref :: string
  ps_version :: string
  ps_revision :: int
  ps_subject_ref :: string
  ps_predicate :: string
  ps_value :: fields
  ps_evidence_refs :: "string list"
  ps_valid_start :: datetime
  ps_valid_end :: "datetime option"
  ps_recorded_time :: datetime
  ps_source_lineage :: fields
  ps_payload_digest :: string

record evidence_snapshot =
  es_site_id :: string
  es_evidence_id :: string
  es_document :: fields

record fact_snapshot =
  fs_site_id :: string
  fs_fact_id :: string
  fs_fact_version :: int
  fs_document :: fields

definition fact_from_document :: "fields \<Rightarrow> decision_error + fact_snapshot" where
  "fact_from_document doc =
     (case jget doc ''site_id'' of
        JStr site \<Rightarrow>
          (if site = [] then Inl (Document_error ''fact site_id is required'')
           else case jget doc ''fact_id'' of
             JStr fid \<Rightarrow>
               (if fid = [] then Inl (Document_error ''fact_id is required'')
                else case jget doc ''fact_version'' of
                  JInt v \<Rightarrow> Inr \<lparr>fs_site_id = site, fs_fact_id = fid, fs_fact_version = v, fs_document = doc\<rparr>
                | _ \<Rightarrow> Inl (Document_error ''fact_version must be an integer''))
           | _ \<Rightarrow> Inl (Document_error ''fact_id is required''))
      | _ \<Rightarrow> Inl (Document_error ''fact site_id is required''))"

definition fact_evidence_refs :: "fact_snapshot \<Rightarrow> string list" where
  "fact_evidence_refs f = map str_of_json (items_of_json (jget (fs_document f) ''evidence_refs''))"

section \<open>Tables\<close>

record proposal_rec =
  pp_site :: string
  pp_ref :: string
  pp_purpose :: string
  pp_version :: "string option"
  pp_revision :: int
  pp_subject :: string
  pp_predicate :: string
  pp_document :: json
  pp_digest :: string
  pp_recorded_at :: datetime

record fact_rec =
  vf_site :: string
  vf_fact_id :: string
  vf_version :: int
  vf_proposal :: "string \<times> string \<times> int"
  vf_subject :: string
  vf_predicate :: string
  vf_decision :: "string \<times> int"
  vf_super_id :: "string option"
  vf_super_version :: "int option"
  vf_document :: json

record decision_rec =
  dr_site :: string
  dr_decision_id :: string
  dr_revision :: int
  dr_document :: json

record context_db =
  db_evidence :: "((string \<times> string) \<times> json) list"
  db_proposals :: "proposal_rec list"
  db_fact_evidence :: "(string \<times> string \<times> string) list"
  db_decisions :: "decision_rec list"
  db_facts :: "fact_rec list"
  db_decision_facts :: "((string \<times> string \<times> int) \<times> string \<times> string \<times> int) list"
  db_decision_evidence :: "((string \<times> string \<times> int) \<times> string) list"
  db_fact_evidence_refs :: "((string \<times> string \<times> int) \<times> string) list"
  db_conflicts :: "((string \<times> string) \<times> json) list"
  db_conflict_facts :: "((string \<times> string) \<times> string \<times> int) list"
  db_conflict_evidence :: "((string \<times> string) \<times> string) list"

definition fact_pk :: "fact_rec \<Rightarrow> string \<times> string \<times> int" where
  "fact_pk f = (vf_site f, vf_fact_id f, vf_version f)"

definition decision_pk :: "decision_rec \<Rightarrow> string \<times> string \<times> int" where
  "decision_pk d = (dr_site d, dr_decision_id d, dr_revision d)"

definition proposal_key :: "proposal_rec \<Rightarrow> string \<times> string \<times> string option \<times> int" where
  "proposal_key p = (pp_site p, pp_ref p, pp_version p, pp_revision p)"

text \<open>A collation gives every text its key; equal keys are ordered by the text itself.\<close>

type_synonym collation = "string \<Rightarrow> int list"

definition order_texts :: "collation \<Rightarrow> string list \<Rightarrow> string list" where
  "order_texts c xs = sort_key (\<lambda>s. (c s, s)) xs"

definition order_fact_refs :: "collation \<Rightarrow> (string \<times> string \<times> int) list \<Rightarrow> (string \<times> string \<times> int) list" where
  "order_fact_refs c xs = sort_key (\<lambda>(role, fid, v). ((c role, role), (c fid, fid), v)) xs"

text \<open>The collation of the C locale orders by code points, as Python does.\<close>

definition c_locale :: collation where
  "c_locale = map of_char"

section \<open>Reading\<close>

definition db_document :: "json \<Rightarrow> decision_error + fields" where
  "db_document v =
     (case v of JObj kvs \<Rightarrow> Inr kvs
      | _ \<Rightarrow> Inl (Document_error ''database document must be a JSON object''))"

definition db_timestamp :: "json \<Rightarrow> string \<Rightarrow> decision_error + datetime" where
  "db_timestamp v name =
     (case v of
        JStr s \<Rightarrow>
          (case fromisoformat (concat (map (\<lambda>c. if c = CHR ''Z'' then ''+00:00'' else [c]) s)) of
             None \<Rightarrow> Inl (Document_error ''Invalid isoformat string'')
           | Some t \<Rightarrow>
               (if \<not> is_aware t then Inl (Document_error (name @ '' must include a timezone'')) else Inr t))
      | _ \<Rightarrow> Inl (Document_error (name @ '' must be a timestamp'')))"

definition proposal_from_row :: "string list \<Rightarrow> proposal_rec \<Rightarrow> decision_error + proposal_snapshot" where
  "proposal_from_row evidence_refs row =
     (case db_document (pp_document row) of Inl e \<Rightarrow> Inl e | Inr doc \<Rightarrow>
     (case db_document (jget doc ''fact'') of Inl e \<Rightarrow> Inl e | Inr fdoc \<Rightarrow>
     (case db_document (jget doc ''valid_time'') of Inl e \<Rightarrow> Inl e | Inr valid_time \<Rightarrow>
     (case db_document (jget doc ''source_lineage'') of Inl e \<Rightarrow> Inl e | Inr lineage \<Rightarrow>
     (if pp_version row = None \<or> pp_version row = Some []
      then Inl (Document_error ''proposal_version is missing from the governed proposal'')
      else
     (case db_document (jget fdoc ''value'') of Inl e \<Rightarrow> Inl e | Inr v \<Rightarrow>
     (case db_timestamp (jget valid_time ''start'') ''valid_time.start'' of Inl e \<Rightarrow> Inl e | Inr start \<Rightarrow>
     (case (if jget valid_time ''end'' = JNull then Inr None
            else map_sum id Some (db_timestamp (jget valid_time ''end'') ''valid_time.end'')) of
        Inl e \<Rightarrow> Inl e | Inr end' \<Rightarrow>
     (case (case map_of doc ''recorded_time'' of
              None \<Rightarrow> (if \<not> is_aware (pp_recorded_at row)
                       then Inl (Document_error ''recorded_time must include a timezone'')
                       else Inr (pp_recorded_at row))
            | Some t \<Rightarrow> db_timestamp t ''recorded_time'') of
        Inl e \<Rightarrow> Inl e | Inr recorded \<Rightarrow>
        Inr \<lparr>ps_site_id = pp_site row, ps_purpose = pp_purpose row, ps_proposal_ref = pp_ref row,
             ps_version = the (pp_version row), ps_revision = pp_revision row,
             ps_subject_ref = pp_subject row, ps_predicate = pp_predicate row, ps_value = v,
             ps_evidence_refs = evidence_refs, ps_valid_start = start, ps_valid_end = end',
             ps_recorded_time = recorded, ps_source_lineage = lineage,
             ps_payload_digest = pp_digest row\<rparr>)))))))))"

definition find_proposal_row :: "string \<Rightarrow> string \<Rightarrow> context_db \<Rightarrow> proposal_rec option" where
  "find_proposal_row site ref db = find (\<lambda>p. pp_site p = site \<and> pp_ref p = ref) (db_proposals db)"

definition db_get_proposal ::
  "collation \<Rightarrow> string \<Rightarrow> string \<Rightarrow> context_db \<Rightarrow> decision_error + proposal_snapshot option" where
  "db_get_proposal c site ref db =
     (case find_proposal_row site ref db of
        None \<Rightarrow> Inr None
      | Some row \<Rightarrow>
          map_sum id Some (proposal_from_row
            (order_texts c (map (snd \<circ> snd) (filter (\<lambda>(s, p, e). s = site \<and> p = ref) (db_fact_evidence db))))
            row))"

definition db_get_evidence :: "string \<Rightarrow> string \<Rightarrow> context_db \<Rightarrow> decision_error + evidence_snapshot option" where
  "db_get_evidence site ref db =
     (case map_of (db_evidence db) (site, ref) of
        None \<Rightarrow> Inr None
      | Some doc \<Rightarrow> map_sum id (\<lambda>d. Some \<lparr>es_site_id = site, es_evidence_id = ref, es_document = d\<rparr>)
          (db_document doc))"

definition snapshot_of_row :: "fact_rec \<Rightarrow> decision_error + fact_snapshot" where
  "snapshot_of_row f = (case db_document (vf_document f) of Inl e \<Rightarrow> Inl e | Inr doc \<Rightarrow> fact_from_document doc)"

definition db_get_fact ::
  "string \<Rightarrow> string \<Rightarrow> int \<Rightarrow> context_db \<Rightarrow> decision_error + fact_snapshot option" where
  "db_get_fact site fid v db =
     (case find (\<lambda>f. fact_pk f = (site, fid, v)) (db_facts db) of
        None \<Rightarrow> Inr None
      | Some f \<Rightarrow> map_sum id Some (snapshot_of_row f))"

text \<open>The current fact of a subject and predicate: not superseded, the greatest version first.\<close>

definition same_history :: "string \<Rightarrow> string \<Rightarrow> string \<Rightarrow> fact_rec \<Rightarrow> bool" where
  "same_history site subject predicate f =
     (vf_site f = site \<and> vf_subject f = subject \<and> vf_predicate f = predicate)"

definition superseded :: "context_db \<Rightarrow> fact_rec \<Rightarrow> bool" where
  "superseded db f =
     (\<exists>g \<in> set (db_facts db). vf_site g = vf_site f \<and> vf_super_id g = Some (vf_fact_id f) \<and>
        vf_super_version g = Some (vf_version f))"

definition current_row :: "string \<Rightarrow> string \<Rightarrow> string \<Rightarrow> context_db \<Rightarrow> fact_rec option" where
  "current_row site subject predicate db =
     (let rows = filter (\<lambda>f. same_history site subject predicate f \<and> \<not> superseded db f) (db_facts db)
      in if rows = [] then None else Some (arg_max_list vf_version rows))"

definition db_get_current_fact ::
  "string \<Rightarrow> string \<Rightarrow> string \<Rightarrow> context_db \<Rightarrow> decision_error + fact_snapshot option" where
  "db_get_current_fact site subject predicate db =
     (case current_row site subject predicate db of
        None \<Rightarrow> Inr None
      | Some f \<Rightarrow> map_sum id Some (snapshot_of_row f))"

definition db_get_decision :: "string \<Rightarrow> string \<Rightarrow> context_db \<Rightarrow> decision_error + fields option" where
  "db_get_decision site did db =
     (let rows = filter (\<lambda>d. dr_site d = site \<and> dr_decision_id d = did) (db_decisions db)
      in if rows = [] then Inr None
         else map_sum id Some (db_document (dr_document (arg_max_list dr_revision rows))))"

definition db_decision_fact_refs ::
  "collation \<Rightarrow> string \<Rightarrow> string \<Rightarrow> int \<Rightarrow> context_db \<Rightarrow> (string \<times> string \<times> int) list" where
  "db_decision_fact_refs c site did n db =
     order_fact_refs c (map snd (filter (\<lambda>(k, r). k = (site, did, n)) (db_decision_facts db)))"

definition db_decision_evidence_refs ::
  "collation \<Rightarrow> string \<Rightarrow> string \<Rightarrow> int \<Rightarrow> context_db \<Rightarrow> string list" where
  "db_decision_evidence_refs c site did n db =
     order_texts c (map snd (filter (\<lambda>(k, e). k = (site, did, n)) (db_decision_evidence db)))"

definition db_get_fact_evidence_refs ::
  "collation \<Rightarrow> string \<Rightarrow> string \<Rightarrow> int \<Rightarrow> context_db \<Rightarrow> string list" where
  "db_get_fact_evidence_refs c site fid v db =
     order_texts c (map snd (filter (\<lambda>(k, e). k = (site, fid, v)) (db_fact_evidence_refs db)))"

section \<open>Inserting\<close>

text \<open>A constraint that does not hold aborts the transaction.\<close>

definition db_require :: "bool \<Rightarrow> string \<Rightarrow> decision_error + unit" where
  "db_require ok constraint = (if ok then Inr () else Inl (Database_error constraint))"

lemma db_require_Inr [simp]: "db_require ok name = Inr u \<longleftrightarrow> ok"
  by (simp add: db_require_def)

definition column_instant :: "json \<Rightarrow> int option" where
  "column_instant v =
     (case v of JStr s \<Rightarrow> map_option instant_of (fromisoformat s) | _ \<Rightarrow> None)"

text \<open>\<open>CHECK (valid_end IS NULL OR valid_end > valid_start)\<close> on the texts of a document.\<close>

definition valid_period :: "fields \<Rightarrow> bool" where
  "valid_period doc =
     (let vt = fields_of_json (jget doc ''valid_time'') in
      column_instant (jget vt ''start'') \<noteq> None \<and>
      (jget vt ''end'' = JNull \<or>
       (column_instant (jget vt ''end'') \<noteq> None \<and>
        the (column_instant (jget vt ''end'')) > the (column_instant (jget vt ''start'')))))"

definition doc_text :: "fields \<Rightarrow> string \<Rightarrow> string" where
  "doc_text doc k = str_of_json (jget doc k)"

definition doc_int :: "fields \<Rightarrow> string \<Rightarrow> int" where
  "doc_int doc k = int_of_json (jget doc k)"

definition doc_proposal :: "fields \<Rightarrow> string \<times> string \<times> int" where
  "doc_proposal doc = (doc_text doc ''proposal_ref'', doc_text doc ''proposal_version'', doc_int doc ''proposal_revision'')"

definition proposal_exists :: "string \<Rightarrow> string \<times> string \<times> int \<Rightarrow> context_db \<Rightarrow> bool" where
  "proposal_exists site p db =
     (let (ref, version, revision) = p in
      (site, ref, Some version, revision) \<in> set (map proposal_key (db_proposals db)))"

definition insert_decision :: "string \<Rightarrow> fields \<Rightarrow> context_db \<Rightarrow> decision_error + context_db" where
  "insert_decision site doc db =
     (let row = \<lparr>dr_site = site, dr_decision_id = doc_text doc ''decision_id'',
            dr_revision = doc_int doc ''decision_revision'', dr_document = JObj doc\<rparr> in
      if decision_pk row \<in> set (map decision_pk (db_decisions db))
      then Inl (Database_error ''decisions_pkey'')
      else if dr_revision row < 1 \<or> doc_int doc ''proposal_revision'' < 1
      then Inl (Database_error ''decisions_revision_check'')
      else if \<not> proposal_exists site (doc_proposal doc) db
      then Inl (Database_error ''decisions_proposal_fkey'')
      else if \<not> valid_period doc \<or> column_instant (jget doc ''effective_at'') = None
      then Inl (Database_error ''decisions_check'')
      else if \<not> (doc_text doc ''decision_type'' = ''rule'' \<and> jget doc ''rule_version'' \<noteq> JNull \<or>
                 doc_text doc ''decision_type'' = ''human'')
      then Inl (Database_error ''decisions_rule_check'')
      else Inr (db\<lparr>db_decisions := db_decisions db @ [row]\<rparr>))"

definition null_text :: "json \<Rightarrow> string option" where
  "null_text v = (case v of JStr s \<Rightarrow> Some s | _ \<Rightarrow> None)"

definition null_int :: "json \<Rightarrow> int option" where
  "null_int v = (case v of JInt i \<Rightarrow> Some i | _ \<Rightarrow> None)"

definition fact_row :: "string \<Rightarrow> int \<Rightarrow> fields \<Rightarrow> fact_rec" where
  "fact_row site decision_revision doc =
     \<lparr>vf_site = site, vf_fact_id = doc_text doc ''fact_id'', vf_version = doc_int doc ''fact_version'',
      vf_proposal = doc_proposal doc, vf_subject = doc_text doc ''subject_ref'',
      vf_predicate = doc_text doc ''predicate'',
      vf_decision = (doc_text doc ''confirmation_decision_ref'', decision_revision),
      vf_super_id = null_text (jget doc ''supersedes_fact_ref''),
      vf_super_version = null_int (jget doc ''supersedes_fact_version''), vf_document = JObj doc\<rparr>"

text \<open>A \<open>CHECK\<close> that evaluates to NULL passes, and a foreign key with a NULL column is not checked.\<close>

definition supersession_check :: "fact_rec \<Rightarrow> bool" where
  "supersession_check f =
     (vf_version f = 1 \<and> vf_super_id f = None \<and> vf_super_version f = None \<or>
      vf_version f > 1 \<and> vf_super_id f \<noteq> None \<and>
        (vf_super_version f = None \<or> vf_super_version f = Some (vf_version f - 1)))"

definition insert_fact :: "string \<Rightarrow> int \<Rightarrow> fields \<Rightarrow> context_db \<Rightarrow> decision_error + context_db" where
  "insert_fact site decision_revision doc db =
     (let row = fact_row site decision_revision doc in
      if fact_pk row \<in> set (map fact_pk (db_facts db)) then Inl (Database_error ''verified_facts_pkey'')
      else if \<exists>f \<in> set (db_facts db). vf_site f = site \<and> vf_proposal f = vf_proposal row
      then Inl (Database_error ''verified_facts_proposal_key'')
      else if \<exists>f \<in> set (db_facts db). same_history site (vf_subject row) (vf_predicate row) f \<and> vf_version f = vf_version row
      then Inl (Database_error ''verified_facts_subject_predicate_version_uq'')
      else if \<exists>f \<in> set (db_facts db). vf_site f = site \<and> vf_super_id row \<noteq> None \<and> vf_super_version row \<noteq> None \<and>
            vf_super_id f = vf_super_id row \<and> vf_super_version f = vf_super_version row
      then Inl (Database_error ''verified_facts_one_successor'')
      else if vf_version row < 1 \<or> doc_int doc ''proposal_revision'' < 1 \<or> \<not> supersession_check row \<or> \<not> valid_period doc
      then Inl (Database_error ''verified_facts_check'')
      else if \<not> proposal_exists site (vf_proposal row) db
      then Inl (Database_error ''verified_facts_proposal_fkey'')
      else if (site, vf_decision row) \<notin> set (map decision_pk (db_decisions db))
      then Inl (Database_error ''verified_facts_decision_fkey'')
      else if vf_super_id row \<noteq> None \<and> vf_super_version row \<noteq> None \<and>
            (site, the (vf_super_id row), the (vf_super_version row)) \<notin> set (map fact_pk (db_facts db))
      then Inl (Database_error ''verified_facts_supersedes_fkey'')
      else Inr (db\<lparr>db_facts := db_facts db @ [row]\<rparr>))"

definition insert_decision_fact ::
  "(string \<times> string \<times> int) \<Rightarrow> (string \<times> string \<times> int) \<Rightarrow> context_db \<Rightarrow> decision_error + context_db" where
  "insert_decision_fact k r db =
     (if (k, r) \<in> set (db_decision_facts db) then Inl (Database_error ''decision_fact_refs_pkey'')
      else if k \<notin> set (map decision_pk (db_decisions db)) then Inl (Database_error ''decision_fact_refs_decision_fkey'')
      else if (fst k, snd r) \<notin> set (map fact_pk (db_facts db)) then Inl (Database_error ''decision_fact_refs_fact_fkey'')
      else Inr (db\<lparr>db_decision_facts := db_decision_facts db @ [(k, r)]\<rparr>))"

definition evidence_exists :: "string \<Rightarrow> string \<Rightarrow> context_db \<Rightarrow> bool" where
  "evidence_exists site ref db = (map_of (db_evidence db) (site, ref) \<noteq> None)"

definition insert_decision_evidence ::
  "(string \<times> string \<times> int) \<Rightarrow> string \<Rightarrow> context_db \<Rightarrow> decision_error + context_db" where
  "insert_decision_evidence k e db =
     (if (k, e) \<in> set (db_decision_evidence db) then Inl (Database_error ''decision_evidence_refs_pkey'')
      else if k \<notin> set (map decision_pk (db_decisions db)) \<or> \<not> evidence_exists (fst k) e db
      then Inl (Database_error ''decision_evidence_refs_fkey'')
      else Inr (db\<lparr>db_decision_evidence := db_decision_evidence db @ [(k, e)]\<rparr>))"

definition insert_fact_evidence ::
  "(string \<times> string \<times> int) \<Rightarrow> string \<Rightarrow> context_db \<Rightarrow> decision_error + context_db" where
  "insert_fact_evidence k e db =
     (if (k, e) \<in> set (db_fact_evidence_refs db) then Inl (Database_error ''fact_evidence_refs_pkey'')
      else if k \<notin> set (map fact_pk (db_facts db)) \<or> \<not> evidence_exists (fst k) e db
      then Inl (Database_error ''fact_evidence_refs_fkey'')
      else Inr (db\<lparr>db_fact_evidence_refs := db_fact_evidence_refs db @ [(k, e)]\<rparr>))"

text \<open>A loop of inserts within one transaction.\<close>

fun each_insert :: "('a \<Rightarrow> context_db \<Rightarrow> decision_error + context_db) \<Rightarrow> 'a list \<Rightarrow> context_db
    \<Rightarrow> decision_error + context_db" where
  "each_insert f [] db = Inr db"
| "each_insert f (x # xs) db = (case f x db of Inl e \<Rightarrow> Inl e | Inr db' \<Rightarrow> each_insert f xs db')"

definition lock_proposal :: "string \<Rightarrow> string \<Rightarrow> string \<Rightarrow> int \<Rightarrow> context_db \<Rightarrow> decision_error + unit" where
  "lock_proposal site ref version revision db =
     (case find_proposal_row site ref db of
        None \<Rightarrow> Inl (Stale_revision ''proposal changed during decision persistence'')
      | Some row \<Rightarrow>
          (if (case pp_version row of None \<Rightarrow> ''None'' | Some v \<Rightarrow> v) \<noteq> version \<or> pp_revision row \<noteq> revision
           then Inl (Stale_revision ''proposal changed during decision persistence'') else Inr ()))"

definition lock_current_fact :: "string \<Rightarrow> string \<Rightarrow> string \<Rightarrow> context_db \<Rightarrow> string option \<times> int option" where
  "lock_current_fact site subject predicate db =
     (case current_row site subject predicate db of
        None \<Rightarrow> (None, None)
      | Some f \<Rightarrow> (Some (vf_fact_id f), Some (vf_version f)))"

definition doc_fact_refs :: "fields \<Rightarrow> string \<Rightarrow> (string \<times> int) list" where
  "doc_fact_refs doc k =
     map (\<lambda>r. (doc_text (fields_of_json r) ''fact_id'', doc_int (fields_of_json r) ''fact_version''))
       (items_of_json (jget doc k))"

definition doc_texts :: "fields \<Rightarrow> string \<Rightarrow> string list" where
  "doc_texts doc k = map str_of_json (items_of_json (jget doc k))"

definition save_confirmation ::
  "fields \<Rightarrow> fields \<Rightarrow> string \<Rightarrow> int \<Rightarrow> string option \<Rightarrow> int option \<Rightarrow> context_db
    \<Rightarrow> decision_error + context_db" where
  "save_confirmation decision fdoc version revision current_ref current_version db =
     (let site = doc_text decision ''site_id'';
          dk = (site, doc_text decision ''decision_id'', doc_int decision ''decision_revision'');
          fk = (site, doc_text fdoc ''fact_id'', doc_int fdoc ''fact_version'') in
      case lock_proposal site (doc_text decision ''proposal_ref'') version revision db of
        Inl e \<Rightarrow> Inl e
      | Inr _ \<Rightarrow>
          (if lock_current_fact site (doc_text fdoc ''subject_ref'') (doc_text fdoc ''predicate'') db
              \<noteq> (current_ref, current_version)
           then Inl (Stale_revision ''current fact changed during confirmation'')
           else
     (case insert_decision site decision db of Inl e \<Rightarrow> Inl e | Inr db1 \<Rightarrow>
     (case insert_fact site (doc_int decision ''decision_revision'') fdoc db1 of Inl e \<Rightarrow> Inl e | Inr db2 \<Rightarrow>
     (case each_insert (\<lambda>(fid, v). insert_decision_fact dk (''input'', fid, v))
             (doc_fact_refs decision ''input_fact_refs'') db2 of Inl e \<Rightarrow> Inl e | Inr db3 \<Rightarrow>
     (case each_insert (\<lambda>(fid, v). insert_decision_fact dk (''output'', fid, v))
             (doc_fact_refs decision ''output_fact_refs'') db3 of Inl e \<Rightarrow> Inl e | Inr db4 \<Rightarrow>
        each_insert (\<lambda>e d. case insert_decision_evidence dk e d of
            Inl x \<Rightarrow> Inl x | Inr d' \<Rightarrow> insert_fact_evidence fk e d')
          (doc_texts decision ''evidence_refs'') db4))))))"

definition insert_conflict :: "string \<Rightarrow> fields \<Rightarrow> string \<Rightarrow> context_db \<Rightarrow> decision_error + context_db" where
  "insert_conflict site doc proposal_ref db =
     (let k = (site, doc_text doc ''conflict_id'') in
      if k \<in> set (map fst (db_conflicts db)) then Inl (Database_error ''conflicts_pkey'')
      else if doc_text doc ''status'' \<notin> {''open'', ''resolved'', ''dismissed''}
      then Inl (Database_error ''conflicts_status_check'')
      else if find_proposal_row site proposal_ref db = None then Inl (Database_error ''conflicts_proposal_fkey'')
      else Inr (db\<lparr>db_conflicts := db_conflicts db @ [(k, JObj doc)]\<rparr>))"

definition insert_conflict_fact ::
  "string \<times> string \<Rightarrow> string \<times> int \<Rightarrow> context_db \<Rightarrow> decision_error + context_db" where
  "insert_conflict_fact k f db =
     (if (k, f) \<in> set (db_conflict_facts db) then Inl (Database_error ''conflict_fact_refs_pkey'')
      else if k \<notin> set (map fst (db_conflicts db)) \<or> (fst k, f) \<notin> set (map fact_pk (db_facts db))
      then Inl (Database_error ''conflict_fact_refs_fkey'')
      else Inr (db\<lparr>db_conflict_facts := db_conflict_facts db @ [(k, f)]\<rparr>))"

definition insert_conflict_evidence ::
  "string \<times> string \<Rightarrow> string \<Rightarrow> context_db \<Rightarrow> decision_error + context_db" where
  "insert_conflict_evidence k e db =
     (if (k, e) \<in> set (db_conflict_evidence db) then Inl (Database_error ''conflict_evidence_refs_pkey'')
      else if k \<notin> set (map fst (db_conflicts db)) \<or> \<not> evidence_exists (fst k) e db
      then Inl (Database_error ''conflict_evidence_refs_fkey'')
      else Inr (db\<lparr>db_conflict_evidence := db_conflict_evidence db @ [(k, e)]\<rparr>))"

definition save_conflict :: "fields \<Rightarrow> string \<Rightarrow> int \<Rightarrow> context_db \<Rightarrow> decision_error + context_db" where
  "save_conflict conflict version revision db =
     (let site = doc_text conflict ''site_id'';
          candidates = map fields_of_json (items_of_json (jget conflict ''candidates''));
          ref = doc_text (candidates ! 1) ''record_ref'';
          k = (site, doc_text conflict ''conflict_id'') in
      case lock_proposal site ref version revision db of
        Inl e \<Rightarrow> Inl e
      | Inr _ \<Rightarrow>
     (case insert_conflict site conflict ref db of Inl e \<Rightarrow> Inl e | Inr db1 \<Rightarrow>
     (case each_insert (\<lambda>c. insert_conflict_fact k (doc_text c ''record_ref'', doc_int c ''record_revision''))
             (filter (\<lambda>c. doc_text c ''record_kind'' = ''verified_fact'') candidates) db1 of Inl e \<Rightarrow> Inl e | Inr db2 \<Rightarrow>
        each_insert (insert_conflict_evidence k) (doc_texts conflict ''evidence_refs'') db2)))"

end
