(* ===== verification/Context_Decision.thy ===== *)
theory Context_Decision
  imports Context_Store
begin

text \<open>
  The decision service (\<open>decision.py\<close>): confirming a proposal into a verified fact, recording a
  conflict and tracing a decision back. \<open>confirm\<close> reads in transactions of its own and writes in a
  last one, so preparing and saving are two steps; other transactions may run between them. The
  service trusts the shape of the documents it wrote itself.
\<close>

section \<open>Requests\<close>

datatype decision_kind = Human | Rule

fun decision_kind_text :: "decision_kind \<Rightarrow> string" where
  "decision_kind_text Human = ''human''"
| "decision_kind_text Rule = ''rule''"

record confirmation_request =
  cr_site_id :: string
  cr_purpose :: string
  cr_proposal_ref :: string
  cr_proposal_version :: string
  cr_proposal_revision :: int
  cr_decision_id :: string
  cr_fact_id :: string
  cr_kind :: decision_kind
  cr_operator :: string
  cr_basis :: string
  cr_evidence_refs :: "string list"
  cr_valid_start :: datetime
  cr_valid_end :: "datetime option"
  cr_effective_at :: datetime
  cr_correlation_id :: string
  cr_rule_version :: "string option"
  cr_super_ref :: "string option"
  cr_super_version :: "int option"
  cr_current_version :: "int option"

record conflict_request =
  cf_site_id :: string
  cf_purpose :: string
  cf_conflict_id :: string
  cf_proposal_ref :: string
  cf_proposal_version :: string
  cf_proposal_revision :: int
  cf_fact_id :: string
  cf_fact_version :: int
  cf_correlation_id :: string

section \<open>Checks\<close>

definition decision_timestamp :: "datetime \<Rightarrow> string \<Rightarrow> decision_error + string" where
  "decision_timestamp t name =
     (if \<not> is_aware t then Inl (Invalid_decision (name @ '' must include a timezone''))
      else Inr (isoformat_z (instant_of t)))"

definition decision_valid_time :: "datetime \<Rightarrow> datetime option \<Rightarrow> decision_error + fields" where
  "decision_valid_time start end' =
     (case decision_timestamp start ''valid_time.start'' of Inl e \<Rightarrow> Inl e | Inr s \<Rightarrow>
     (case end' of
        None \<Rightarrow> Inr [(''start'', JStr s), (''end'', JNull)]
      | Some t \<Rightarrow>
          (case decision_timestamp t ''valid_time.end'' of Inl e \<Rightarrow> Inl e | Inr v \<Rightarrow>
             (if instant_of t \<le> instant_of start
              then Inl (Invalid_decision ''valid_time.end must be after valid_time.start'')
              else Inr [(''start'', JStr s), (''end'', JStr v)]))))"

definition checked_proposal ::
  "collation \<Rightarrow> string \<Rightarrow> string \<Rightarrow> string \<Rightarrow> string \<Rightarrow> int \<Rightarrow> context_db \<Rightarrow> decision_error + proposal_snapshot" where
  "checked_proposal c site purpose ref version revision db =
     (case db_get_proposal c site ref db of
        Inl e \<Rightarrow> Inl e
      | Inr None \<Rightarrow> Inl (Invalid_decision ''proposal does not exist in site scope'')
      | Inr (Some p) \<Rightarrow>
          (if ps_purpose p \<noteq> purpose then Inl (Invalid_decision ''processing purpose does not match proposal'')
           else if ps_version p \<noteq> version \<or> ps_revision p \<noteq> revision
           then Inl (Stale_revision ''proposal version or revision is stale'')
           else Inr p))"

definition check_confirmation :: "confirmation_request \<Rightarrow> proposal_snapshot \<Rightarrow> decision_error + unit" where
  "check_confirmation r p =
     (if cr_operator r = [] \<or> cr_basis r = []
      then Inl (Invalid_decision ''operator and decision_basis are required'')
      else if cr_kind r = Rule \<and> (cr_rule_version r = None \<or> cr_rule_version r = Some [])
      then Inl (Invalid_decision ''rule confirmation requires rule_version'')
      else if set (cr_evidence_refs r) \<noteq> set (ps_evidence_refs p)
      then Inl (Invalid_decision ''evidence_refs must exactly match the proposal evidence'')
      else if cr_evidence_refs r = [] then Inl (Invalid_decision ''confirmation requires evidence'')
      else if cr_valid_start r \<noteq> ps_valid_start p \<or> cr_valid_end r \<noteq> ps_valid_end p
      then Inl (Invalid_decision ''valid_time must exactly match the proposal'')
      else map_sum id (\<lambda>_. ()) (decision_timestamp (cr_effective_at r) ''effective_at''))"

fun check_evidence :: "string \<Rightarrow> string list \<Rightarrow> context_db \<Rightarrow> decision_error + unit" where
  "check_evidence site [] db = Inr ()"
| "check_evidence site (e # es) db =
     (case db_get_evidence site e db of
        Inl x \<Rightarrow> Inl x
      | Inr None \<Rightarrow> Inl (Evidence_missing (''evidence record is missing: '' @ e))
      | Inr (Some _) \<Rightarrow> check_evidence site es db)"

definition check_supersession :: "confirmation_request \<Rightarrow> fact_snapshot option \<Rightarrow> decision_error + unit" where
  "check_supersession r current =
     (case current of
        None \<Rightarrow>
          (if cr_current_version r \<noteq> None \<or> cr_super_ref r \<noteq> None \<or> cr_super_version r \<noteq> None
           then Inl (Stale_revision ''no current fact exists for requested supersession'') else Inr ())
      | Some f \<Rightarrow>
          (if cr_super_ref r \<noteq> Some (fs_fact_id f) \<or> cr_super_version r \<noteq> Some (fs_fact_version f)
           then Inl (Explicit_supersession ''current fact requires an explicit exact supersession'')
           else if cr_current_version r \<noteq> Some (fs_fact_version f)
           then Inl (Stale_revision ''current fact version is stale'') else Inr ()))"

section \<open>Building the documents\<close>

text \<open>\<open>list(v)\<close> of a decoded value.\<close>

definition py_list :: "json \<Rightarrow> decision_error + json list" where
  "py_list v =
     (case v of
        JList xs \<Rightarrow> Inr xs
      | JTuple xs \<Rightarrow> Inr xs
      | JStr s \<Rightarrow> Inr (map (\<lambda>ch. JStr [ch]) s)
      | JObj kvs \<Rightarrow> Inr (map (JStr \<circ> fst) kvs)
      | _ \<Rightarrow> Inl (Document_error ''TypeError''))"

definition review_status :: "decision_kind \<Rightarrow> string" where
  "review_status k = (if k = Human then ''human_reviewed'' else ''rule_reviewed'')"

fun null_or_text :: "string option \<Rightarrow> json" where
  "null_or_text None = JNull"
| "null_or_text (Some s) = JStr s"

fun null_or_int :: "int option \<Rightarrow> json" where
  "null_or_int None = JNull"
| "null_or_int (Some i) = JInt i"

definition fact_lineage :: "proposal_snapshot \<Rightarrow> decision_error + fields" where
  "fact_lineage p =
     (case map_of (ps_source_lineage p) ''source_record_refs'' of
        None \<Rightarrow> Inl (Document_error ''KeyError'')
      | Some v \<Rightarrow>
          (case py_list v of Inl e \<Rightarrow> Inl e | Inr refs \<Rightarrow>
             Inr (AList.update ''transformation_version'' (JStr ''gate4-confirm-v1'')
               (AList.update ''source_record_refs''
                 (JList (if JStr (ps_proposal_ref p) \<in> set refs then refs else refs @ [JStr (ps_proposal_ref p)]))
                 (ps_source_lineage p)))))"

definition build_fact ::
  "confirmation_request \<Rightarrow> proposal_snapshot \<Rightarrow> int \<Rightarrow> fields \<Rightarrow> datetime \<Rightarrow> decision_error + fields" where
  "build_fact r p version valid_time recorded =
     (case fact_lineage p of Inl e \<Rightarrow> Inl e | Inr lineage \<Rightarrow>
     (case decision_timestamp recorded ''recorded_time'' of Inl e \<Rightarrow> Inl e | Inr recorded_text \<Rightarrow>
        Inr ([(''schema_version'', JStr ''1.0''),
              (''fact_id'', JStr (cr_fact_id r)),
              (''site_id'', JStr (cr_site_id r)),
              (''processing_purpose'', JStr (cr_purpose r)),
              (''proposal_ref'', JStr (ps_proposal_ref p)),
              (''proposal_version'', JStr (ps_version p)),
              (''proposal_revision'', JInt (ps_revision p)),
              (''subject_ref'', JStr (ps_subject_ref p)),
              (''predicate'', JStr (ps_predicate p)),
              (''value'', JObj (ps_value p)),
              (''fact_version'', JInt version),
              (''status'', JStr ''confirmed''),
              (''evidence_refs'', JList (map JStr (cr_evidence_refs r))),
              (''confirmation_decision_ref'', JStr (cr_decision_id r)),
              (''valid_time'', JObj valid_time),
              (''recorded_time'', JStr recorded_text),
              (''review_status'', JStr (review_status (cr_kind r))),
              (''source_lineage'', JObj lineage),
              (''correlation_id'', JStr (cr_correlation_id r))]
             @ (case cr_super_ref r of
                  None \<Rightarrow> []
                | Some s \<Rightarrow> [(''supersedes_fact_ref'', JStr s),
                             (''supersedes_fact_version'', null_or_int (cr_super_version r))]))))"

definition json_fact_ref :: "string \<Rightarrow> int \<Rightarrow> json" where
  "json_fact_ref fid v = JObj [(''fact_id'', JStr fid), (''fact_version'', JInt v)]"

definition build_decision ::
  "confirmation_request \<Rightarrow> fact_snapshot option \<Rightarrow> int \<Rightarrow> fields \<Rightarrow> datetime \<Rightarrow> decision_error + fields" where
  "build_decision r current version valid_time recorded =
     (case decision_timestamp (cr_effective_at r) ''effective_at'' of Inl e \<Rightarrow> Inl e | Inr effective \<Rightarrow>
     (case decision_timestamp recorded ''recorded_time'' of Inl e \<Rightarrow> Inl e | Inr recorded_text \<Rightarrow>
        Inr ([(''schema_version'', JStr ''1.0''),
              (''decision_id'', JStr (cr_decision_id r)),
              (''site_id'', JStr (cr_site_id r)),
              (''processing_purpose'', JStr (cr_purpose r)),
              (''decision_version'', JStr ''gate4-decision-v1''),
              (''decision_revision'', JInt 1),
              (''decision_type'', JStr (decision_kind_text (cr_kind r))),
              (''proposal_ref'', JStr (cr_proposal_ref r)),
              (''proposal_version'', JStr (cr_proposal_version r)),
              (''proposal_revision'', JInt (cr_proposal_revision r)),
              (''input_fact_refs'', JList (case current of None \<Rightarrow> []
                 | Some f \<Rightarrow> [json_fact_ref (fs_fact_id f) (fs_fact_version f)])),
              (''output_fact_refs'', JList [json_fact_ref (cr_fact_id r) version]),
              (''evidence_refs'', JList (map JStr (cr_evidence_refs r))),
              (''operator'', JStr (cr_operator r)),
              (''decision_basis'', JStr (cr_basis r)),
              (''outcome'', JStr ''confirmed''),
              (''effective_at'', JStr effective),
              (''valid_time'', JObj valid_time),
              (''recorded_time'', JStr recorded_text),
              (''review_status'', JStr (review_status (cr_kind r))),
              (''correlation_id'', JStr (cr_correlation_id r))]
             @ (case cr_rule_version r of None \<Rightarrow> [] | Some v \<Rightarrow> [(''rule_version'', JStr v)]))))"

section \<open>Confirming\<close>

record prepared_confirmation =
  pc_decision :: fields
  pc_fact :: fields
  pc_version :: string
  pc_revision :: int
  pc_current_ref :: "string option"
  pc_current_version :: "int option"

definition prepare_confirmation ::
  "collation \<Rightarrow> datetime \<Rightarrow> confirmation_request \<Rightarrow> context_db \<Rightarrow> decision_error + prepared_confirmation" where
  "prepare_confirmation c now r db =
     (case checked_proposal c (cr_site_id r) (cr_purpose r) (cr_proposal_ref r) (cr_proposal_version r)
             (cr_proposal_revision r) db of Inl e \<Rightarrow> Inl e | Inr p \<Rightarrow>
     (case check_confirmation r p of Inl e \<Rightarrow> Inl e | Inr _ \<Rightarrow>
     (case check_evidence (cr_site_id r) (cr_evidence_refs r) db of Inl e \<Rightarrow> Inl e | Inr _ \<Rightarrow>
     (case db_get_current_fact (cr_site_id r) (ps_subject_ref p) (ps_predicate p) db of
        Inl e \<Rightarrow> Inl e | Inr current \<Rightarrow>
     (case check_supersession r current of Inl e \<Rightarrow> Inl e | Inr _ \<Rightarrow>
     (if \<not> is_aware now then Inl (Document_error ''TypeError'')
      else if instant_of now < instant_of (ps_recorded_time p)
      then Inl (Invalid_decision ''recorded_time cannot precede the proposal recorded_time'')
      else
     (case decision_valid_time (cr_valid_start r) (cr_valid_end r) of Inl e \<Rightarrow> Inl e | Inr valid_time \<Rightarrow>
       (let version = (case current of None \<Rightarrow> 1 | Some f \<Rightarrow> fs_fact_version f + 1) in
     (case build_fact r p version valid_time now of Inl e \<Rightarrow> Inl e | Inr fdoc \<Rightarrow>
     (case build_decision r current version valid_time now of Inl e \<Rightarrow> Inl e | Inr decision \<Rightarrow>
        Inr \<lparr>pc_decision = decision, pc_fact = fdoc, pc_version = cr_proposal_version r,
             pc_revision = cr_proposal_revision r, pc_current_ref = map_option fs_fact_id current,
             pc_current_version = cr_current_version r\<rparr>))))))))))"

definition apply_confirmation :: "prepared_confirmation \<Rightarrow> context_db \<Rightarrow> decision_error + context_db" where
  "apply_confirmation pc db =
     save_confirmation (pc_decision pc) (pc_fact pc) (pc_version pc) (pc_revision pc)
       (pc_current_ref pc) (pc_current_version pc) db"

definition confirm ::
  "collation \<Rightarrow> datetime \<Rightarrow> confirmation_request \<Rightarrow> context_db
    \<Rightarrow> (decision_error, fields \<times> fields, context_db) call" where
  "confirm c now r db =
     (case prepare_confirmation c now r db of
        Inl e \<Rightarrow> (Inl e, db)
      | Inr pc \<Rightarrow>
          (case apply_confirmation pc db of
             Inl e \<Rightarrow> (Inl e, db)
           | Inr db' \<Rightarrow> (Inr (pc_decision pc, pc_fact pc), db')))"

section \<open>Conflicts\<close>

definition conflict_document ::
  "conflict_request \<Rightarrow> proposal_snapshot \<Rightarrow> fact_snapshot \<Rightarrow> string list \<Rightarrow> string \<Rightarrow> fields" where
  "conflict_document r p f evidence now_text =
     [(''schema_version'', JStr ''1.0''),
      (''conflict_id'', JStr (cf_conflict_id r)),
      (''site_id'', JStr (cf_site_id r)),
      (''processing_purpose'', JStr (cf_purpose r)),
      (''candidates'', JList
        [JObj [(''record_kind'', JStr ''verified_fact''), (''record_ref'', JStr (fs_fact_id f)),
               (''record_version'', JStr (int_text (fs_fact_version f))),
               (''record_revision'', JInt (fs_fact_version f)),
               (''evidence_refs'', JList (map JStr (fact_evidence_refs f)))],
         JObj [(''record_kind'', JStr ''fact_proposal''), (''record_ref'', JStr (ps_proposal_ref p)),
               (''record_version'', JStr (ps_version p)),
               (''record_revision'', JInt (ps_revision p)),
               (''evidence_refs'', JList (map JStr (ps_evidence_refs p)))]]),
      (''status'', JStr ''open''),
      (''evidence_refs'', JList (map JStr evidence)),
      (''detected_at'', JStr now_text),
      (''recorded_time'', JStr now_text),
      (''correlation_id'', JStr (cf_correlation_id r))]"

text \<open>\<open>tuple(dict.fromkeys(xs))\<close> keeps the first occurrence of every element.\<close>

definition unique_refs :: "string list \<Rightarrow> string list" where
  "unique_refs xs = rev (remdups (rev xs))"

definition prepare_conflict ::
  "collation \<Rightarrow> datetime \<Rightarrow> conflict_request \<Rightarrow> context_db \<Rightarrow> decision_error + fields" where
  "prepare_conflict c now r db =
     (case checked_proposal c (cf_site_id r) (cf_purpose r) (cf_proposal_ref r) (cf_proposal_version r)
             (cf_proposal_revision r) db of Inl e \<Rightarrow> Inl e | Inr p \<Rightarrow>
     (case db_get_fact (cf_site_id r) (cf_fact_id r) (cf_fact_version r) db of
        Inl e \<Rightarrow> Inl e
      | Inr None \<Rightarrow> Inl (Invalid_decision ''conflicting fact version does not exist in site scope'')
      | Inr (Some f) \<Rightarrow>
          (let evidence = unique_refs (fact_evidence_refs f @ ps_evidence_refs p) in
           case check_evidence (cf_site_id r) evidence db of Inl e \<Rightarrow> Inl e | Inr _ \<Rightarrow>
           (case decision_timestamp now ''detected_at'' of Inl e \<Rightarrow> Inl e | Inr t \<Rightarrow>
              Inr (conflict_document r p f evidence t)))))"

definition create_conflict ::
  "collation \<Rightarrow> datetime \<Rightarrow> conflict_request \<Rightarrow> context_db \<Rightarrow> (decision_error, fields, context_db) call" where
  "create_conflict c now r db =
     (case prepare_conflict c now r db of
        Inl e \<Rightarrow> (Inl e, db)
      | Inr doc \<Rightarrow>
          (case save_conflict doc (cf_proposal_version r) (cf_proposal_revision r) db of
             Inl e \<Rightarrow> (Inl e, db)
           | Inr db' \<Rightarrow> (Inr doc, db')))"

section \<open>Tracing\<close>

definition trace_fact_refs :: "fields \<Rightarrow> (string \<times> string \<times> int) list" where
  "trace_fact_refs decision =
     sort (map (Pair ''input'') (doc_fact_refs decision ''input_fact_refs'') @
           map (Pair ''output'') (doc_fact_refs decision ''output_fact_refs''))"

definition trace_fact ::
  "collation \<Rightarrow> string \<Rightarrow> string \<Rightarrow> fields \<Rightarrow> context_db \<Rightarrow> string \<times> int \<Rightarrow> decision_error + json" where
  "trace_fact c site did decision db ref =
     (case db_get_fact site (fst ref) (snd ref) db of
        Inl e \<Rightarrow> Inl e
      | Inr None \<Rightarrow> Inl (Trace_integrity ''decision fact version is missing'')
      | Inr (Some f) \<Rightarrow>
          (if jget (fs_document f) ''confirmation_decision_ref'' \<noteq> JStr did
           then Inl (Trace_integrity ''fact does not point back to decision'')
           else if \<not> py_eq (jget (fs_document f) ''proposal_ref'') (jget decision ''proposal_ref'') \<or>
                   \<not> py_eq (jget (fs_document f) ''proposal_version'') (jget decision ''proposal_version'') \<or>
                   \<not> py_eq (jget (fs_document f) ''proposal_revision'') (jget decision ''proposal_revision'')
           then Inl (Trace_integrity ''fact proposal lineage is not exact'')
           else if db_get_fact_evidence_refs c site (fs_fact_id f) (fs_fact_version f) db
                   \<noteq> sort (fact_evidence_refs f)
           then Inl (Trace_integrity ''fact relational evidence lineage disagrees'')
           else Inr (JObj (fs_document f))))"

definition trace_evidence :: "string \<Rightarrow> context_db \<Rightarrow> string \<Rightarrow> decision_error + json" where
  "trace_evidence site db ref =
     (case db_get_evidence site ref db of
        Inl e \<Rightarrow> Inl e
      | Inr None \<Rightarrow> Inl (Trace_integrity ''decision evidence record is missing'')
      | Inr (Some e) \<Rightarrow> Inr (JObj (es_document e)))"

definition trace_proposal :: "proposal_snapshot \<Rightarrow> json" where
  "trace_proposal p = JObj
     [(''proposal_ref'', JStr (ps_proposal_ref p)), (''proposal_version'', JStr (ps_version p)),
      (''proposal_revision'', JInt (ps_revision p)), (''payload_digest'', JStr (ps_payload_digest p))]"

definition trace :: "collation \<Rightarrow> string \<Rightarrow> string \<Rightarrow> context_db \<Rightarrow> decision_error + fields" where
  "trace c site did db =
     (case db_get_decision site did db of
        Inl e \<Rightarrow> Inl e
      | Inr None \<Rightarrow> Inl (Trace_integrity ''decision does not exist in site scope'')
      | Inr (Some decision) \<Rightarrow>
          (let revision = doc_int decision ''decision_revision'' in
           if db_decision_fact_refs c site did revision db \<noteq> trace_fact_refs decision
           then Inl (Trace_integrity ''decision relational fact lineage disagrees'')
           else if db_decision_evidence_refs c site did revision db \<noteq> sort (doc_texts decision ''evidence_refs'')
           then Inl (Trace_integrity ''decision relational evidence lineage disagrees'')
           else case db_get_proposal c site (doc_text decision ''proposal_ref'') db of
             Inl e \<Rightarrow> Inl e
           | Inr None \<Rightarrow> Inl (Trace_integrity ''decision proposal is missing'')
           | Inr (Some p) \<Rightarrow>
               (if \<not> py_eq (JStr (ps_version p)) (jget decision ''proposal_version'') \<or>
                   \<not> py_eq (JInt (ps_revision p)) (jget decision ''proposal_revision'')
                then Inl (Trace_integrity ''decision proposal version is not exact'')
                else case map_raise (trace_fact c site did decision db) (doc_fact_refs decision ''output_fact_refs'') of
                  Inl e \<Rightarrow> Inl e
                | Inr facts \<Rightarrow>
                    (case map_raise (trace_evidence site db) (doc_texts decision ''evidence_refs'') of
                       Inl e \<Rightarrow> Inl e
                     | Inr evidence \<Rightarrow>
                         Inr [(''schema_version'', JStr ''1.0''), (''site_id'', JStr site),
                              (''decision'', JObj decision), (''proposal'', trace_proposal p),
                              (''facts'', JList facts), (''evidence'', JList evidence)]))))"

end
