(* ===== verification/Context_Records.thy ===== *)
theory Context_Records
  imports Context_Store Agent_Invocations Py_Decimal
begin

text \<open>
  Governed records of the context service: scopes, envelopes and record kinds (\<open>models.py\<close>), the
  rules of a proposal-only boundary (\<open>repositories.py\<close>) and the two repositories behind one protocol,
  \<open>InMemoryContextRepository\<close> and \<open>PostgresContextRepository\<close> (\<open>storage.py\<close>). The latter writes the
  tables that the decision store reads. \<open>pg_text\<close> is PostgreSQL's text of a JSON value that is not a
  string, an integer or a boolean.
\<close>

section \<open>Models\<close>

datatype context_error =
    Context_validation string
  | Idempotency_conflict string
  | Context_database string

type_synonym 'a context_result = "context_error + 'a"

datatype record_kind = Evidence_record | Fact_proposal | Entity_resolution_proposal

fun record_kind_value :: "record_kind \<Rightarrow> string" where
  "record_kind_value Evidence_record = ''evidence_record''"
| "record_kind_value Fact_proposal = ''fact_proposal''"
| "record_kind_value Entity_resolution_proposal = ''entity_resolution_proposal''"

fun record_id_field :: "record_kind \<Rightarrow> string" where
  "record_id_field Evidence_record = ''evidence_record_id''"
| "record_id_field Fact_proposal = ''fact_proposal_record_id''"
| "record_id_field Entity_resolution_proposal = ''entity_resolution_proposal_id''"

definition allowed_purposes :: "string list" where
  "allowed_purposes = [''business_operations'', ''observation_processing'', ''entity_resolution'',
     ''customer_service'', ''sales_follow_up'', ''procurement_coordination'', ''product_sample_management'',
     ''risk_review'', ''metric_reporting'', ''audit_compliance'']"

record context_scope =
  sc_site_id :: string
  sc_purpose :: string

definition context_scope_post_init :: "context_scope \<Rightarrow> context_scope context_result" where
  "context_scope_post_init s =
     (if sc_site_id s = [] \<or> length (sc_site_id s) > 140
      then Inl (Context_validation ''site_id must be present and at most 140 characters'')
      else if sc_purpose s \<notin> set allowed_purposes
      then Inl (Context_validation ''processing_purpose is not governed or recognized'')
      else Inr s)"

record governed_envelope =
  ge_site_id :: string
  ge_purpose :: string
  ge_key :: string
  ge_digest :: string
  ge_payload :: fields

definition context_payload_digest :: "fields \<Rightarrow> string" where
  "context_payload_digest payload = json_digest (JObj payload)"

definition envelope_post_init :: "governed_envelope \<Rightarrow> governed_envelope context_result" where
  "envelope_post_init e =
     (case context_scope_post_init \<lparr>sc_site_id = ge_site_id e, sc_purpose = ge_purpose e\<rparr> of
        Inl x \<Rightarrow> Inl x
      | Inr _ \<Rightarrow>
          (if ge_key e = [] \<or> length (ge_key e) > 256
           then Inl (Context_validation ''idempotency_key must be present and at most 256 characters'')
           else if ge_digest e \<noteq> context_payload_digest (ge_payload e)
           then Inl (Context_validation ''payload_digest does not match canonical payload'')
           else if jget (ge_payload e) ''site_id'' \<noteq> JStr (ge_site_id e)
           then Inl (Context_validation ''payload site_id does not match envelope site'')
           else if jget (ge_payload e) ''processing_purpose'' \<noteq> JStr (ge_purpose e)
           then Inl (Context_validation ''payload processing_purpose does not match envelope purpose'')
           else Inr e))"

definition envelope_from_payload ::
  "string \<Rightarrow> string \<Rightarrow> string \<Rightarrow> fields \<Rightarrow> governed_envelope context_result" where
  "envelope_from_payload site purpose key payload =
     envelope_post_init \<lparr>ge_site_id = site, ge_purpose = purpose, ge_key = key,
       ge_digest = context_payload_digest payload, ge_payload = payload\<rparr>"

record record_metadata =
  rm_kind :: record_kind
  rm_record_id :: string
  rm_site_id :: string
  rm_purpose :: string
  rm_key :: string
  rm_digest :: string
  rm_recorded_at :: datetime

definition metadata_create :: "record_kind \<Rightarrow> string \<Rightarrow> governed_envelope \<Rightarrow> datetime \<Rightarrow> record_metadata" where
  "metadata_create kind rid e now =
     \<lparr>rm_kind = kind, rm_record_id = rid, rm_site_id = ge_site_id e, rm_purpose = ge_purpose e,
      rm_key = ge_key e, rm_digest = ge_digest e, rm_recorded_at = now\<rparr>"

definition record_id_for :: "record_kind \<Rightarrow> fields \<Rightarrow> string context_result" where
  "record_id_for kind payload =
     (case jget payload (record_id_field kind) of
        JStr s \<Rightarrow> (if s = [] then Inl (Context_validation (record_id_field kind @ '' must be a non-empty string''))
                  else Inr s)
      | _ \<Rightarrow> Inl (Context_validation (record_id_field kind @ '' must be a non-empty string'')))"

section \<open>The boundary\<close>

definition forbidden_gate4_fields :: "string list" where
  "forbidden_gate4_fields = [''verified_fact'', ''verified_facts'', ''conflict'', ''conflicts'', ''decision'',
     ''decisions'', ''action'', ''actions'', ''action_proposal'', ''draft'', ''draft_mutation'',
     ''approved_command'', ''command'', ''review_case'', ''agent_task'']"

definition validate_governed_record ::
  "context_scope \<Rightarrow> record_kind \<Rightarrow> governed_envelope \<Rightarrow> string context_result" where
  "validate_governed_record scope kind e =
     (if sc_site_id scope \<noteq> ge_site_id e
      then Inl (Context_validation ''TenantScope site does not match governed envelope'')
      else if sc_purpose scope \<noteq> ge_purpose e
      then Inl (Context_validation ''TenantScope purpose does not match governed envelope'')
      else
     (let forbidden = filter (\<lambda>f. f \<in> fst ` set (ge_payload e)) forbidden_gate4_fields in
      if forbidden \<noteq> []
      then Inl (Context_validation (''Gate 4 fields are forbidden at Gate 3: '' @ join '', '' (sort forbidden)))
      else if kind = Fact_proposal \<and>
              \<not> (case jget (ge_payload e) ''fact'' of JObj f \<Rightarrow> jget f ''status'' = JStr ''proposed'' | _ \<Rightarrow> False)
      then Inl (Context_validation ''fact status must remain proposed'')
      else if kind = Entity_resolution_proposal \<and> jget (ge_payload e) ''status'' \<noteq> JStr ''proposed''
      then Inl (Context_validation ''entity resolution status must remain proposed'')
      else record_id_for kind (ge_payload e)))"

section \<open>The in-memory repository\<close>

record context_memory =
  cm_records :: "((string \<times> record_kind \<times> string) \<times> record_metadata) list"
  cm_payloads :: "((string \<times> record_kind \<times> string) \<times> governed_envelope) list"
  cm_idempotency :: "((string \<times> string) \<times> record_metadata) list"

definition context_memory_init :: context_memory where
  "context_memory_init = \<lparr>cm_records = [], cm_payloads = [], cm_idempotency = []\<rparr>"

definition memory_save ::
  "datetime \<Rightarrow> context_scope \<Rightarrow> record_kind \<Rightarrow> governed_envelope \<Rightarrow> context_memory
    \<Rightarrow> (context_error, record_metadata, context_memory) call" where
  "memory_save now scope kind e s =
     (case validate_governed_record scope kind e of
        Inl x \<Rightarrow> (Inl x, s)
      | Inr rid \<Rightarrow>
          (let ik = (sc_site_id scope, ge_key e); rk = (sc_site_id scope, kind, rid) in
           case map_of (cm_idempotency s) ik of
             Some existing \<Rightarrow>
               (if rm_digest existing \<noteq> ge_digest e
                then (Inl (Idempotency_conflict ''idempotency key was already used with a different payload''), s)
                else (Inr existing, s))
           | None \<Rightarrow>
               (if rk \<in> fst ` set (cm_records s)
                then (Inl (Context_validation ''record_id already exists with another request''), s)
                else
                  (let m = metadata_create kind rid e now in
                   (Inr m, s\<lparr>cm_records := AList.update rk m (cm_records s),
                              cm_payloads := AList.update rk e (cm_payloads s),
                              cm_idempotency := AList.update ik m (cm_idempotency s)\<rparr>)))))"

definition memory_get :: "context_scope \<Rightarrow> record_kind \<Rightarrow> string \<Rightarrow> context_memory \<Rightarrow> record_metadata option" where
  "memory_get scope kind rid s = map_of (cm_records s) (sc_site_id scope, kind, rid)"

section \<open>The PostgreSQL repository\<close>

text \<open>The columns that the three tables share are one list; the table of a row is its kind.\<close>

record candidate_rec =
  cd_site :: string
  cd_proposal :: string
  cd_candidate_id :: string
  cd_entity_ref :: string
  cd_confidence :: json
  cd_attributes :: "json list"

record context_tables =
  ct_db :: context_db
  ct_metadata :: "record_metadata list"
  ct_candidates :: "candidate_rec list"
  ct_observed :: "(string \<times> string) list"

definition empty_db :: context_db where
  "empty_db = \<lparr>db_evidence = [], db_proposals = [], db_fact_evidence = [], db_decisions = [], db_facts = [],
     db_decision_facts = [], db_decision_evidence = [], db_fact_evidence_refs = [], db_conflicts = [],
     db_conflict_facts = [], db_conflict_evidence = []\<rparr>"

definition empty_tables :: context_tables where
  "empty_tables = \<lparr>ct_db = empty_db, ct_metadata = [], ct_candidates = [], ct_observed = []\<rparr>"

datatype child_row =
    Fact_evidence_child string
  | Candidate_child candidate_rec

definition evidence_children :: "json list \<Rightarrow> child_row list context_result" where
  "evidence_children refs =
     map_raise (\<lambda>v. case v of
         JStr s \<Rightarrow> (if s = [] then Inl (Context_validation ''fact evidence_refs must contain strings'')
                   else Inr (Fact_evidence_child s))
       | _ \<Rightarrow> Inl (Context_validation ''fact evidence_refs must contain strings'')) refs"

definition candidate_child :: "string \<Rightarrow> string \<Rightarrow> nat \<times> json \<Rightarrow> child_row context_result" where
  "candidate_child site rid ic =
     (case snd ic of
        JObj candidate \<Rightarrow>
          (let conf = jget candidate ''confidence'' in
           case jget candidate ''entity_ref'' of
             JStr ref \<Rightarrow>
               (if ref = [] then Inl (Context_validation ''candidate entity_ref must be a non-empty string'')
                else if \<not> (case conf of JInt _ \<Rightarrow> True | JFloat _ \<Rightarrow> True | _ \<Rightarrow> False)
                then Inl (Context_validation ''candidate confidence must be numeric'')
                else case jget candidate ''matching_attributes'' of
                  JList attrs \<Rightarrow>
                    (if attrs = [] \<or> \<not> list_all is_str attrs
                     then Inl (Context_validation ''candidate matching_attributes must be a non-empty string list'')
                     else Inr (Candidate_child \<lparr>cd_site = site, cd_proposal = rid,
                            cd_candidate_id = ''candidate-'' @ pad_digits 4 (fst ic), cd_entity_ref = ref,
                            cd_confidence = conf, cd_attributes = attrs\<rparr>))
                | _ \<Rightarrow> Inl (Context_validation ''candidate matching_attributes must be a non-empty string list''))
           | _ \<Rightarrow> Inl (Context_validation ''candidate entity_ref must be a non-empty string''))
      | _ \<Rightarrow> Inl (Context_validation ''entity candidates must contain objects''))"

definition child_insertions :: "context_scope \<Rightarrow> record_kind \<Rightarrow> string \<Rightarrow> fields \<Rightarrow> child_row list context_result" where
  "child_insertions scope kind rid payload =
     (case kind of
        Evidence_record \<Rightarrow> Inr []
      | Fact_proposal \<Rightarrow>
          (case jget payload ''fact'' of
             JObj f \<Rightarrow>
               (case jget f ''evidence_refs'' of
                  JList refs \<Rightarrow>
                    (if refs = [] then Inl (Context_validation ''fact evidence_refs must be a non-empty list'')
                     else evidence_children refs)
                | _ \<Rightarrow> Inl (Context_validation ''fact evidence_refs must be a non-empty list''))
           | _ \<Rightarrow> Inl (Context_validation ''fact is required''))
      | Entity_resolution_proposal \<Rightarrow>
          (case jget payload ''candidates'' of
             JList cs \<Rightarrow>
               (if cs = [] then Inl (Context_validation ''entity candidates must be a non-empty list'')
                else map_raise (candidate_child (sc_site_id scope) rid) (enumerate 1 cs))
           | _ \<Rightarrow> Inl (Context_validation ''entity candidates must be a non-empty list'')))"

text \<open>A text column takes text; a confidence takes a number, or a text that is one, from 0 to 1.\<close>

definition text_columns :: "json list \<Rightarrow> bool" where
  "text_columns vs = list_all is_str vs"

definition column_number :: "json \<Rightarrow> decimal option" where
  "column_number v =
     (case v of JInt i \<Rightarrow> Some (dec_of_int i) | JFloat t \<Rightarrow> dec_of_text t | JStr t \<Rightarrow> dec_of_text t | _ \<Rightarrow> None)"

definition confidence_column :: "json \<Rightarrow> bool" where
  "confidence_column v =
     (case column_number v of None \<Rightarrow> False
      | Some d \<Rightarrow> dec_le (dec_of_int 0) d \<and> dec_le d (dec_of_int 1))"

definition json_text_column :: "(json \<Rightarrow> string) \<Rightarrow> json \<Rightarrow> string option" where
  "json_text_column pg_text v =
     (case v of
        JNull \<Rightarrow> None
      | JStr s \<Rightarrow> Some s
      | JInt i \<Rightarrow> Some (int_text i)
      | JBool b \<Rightarrow> Some (if b then ''true'' else ''false'')
      | _ \<Rightarrow> Some (pg_text v))"

text \<open>The insert of the record itself: the columns of its table and their constraints.\<close>

definition insert_record ::
  "(json \<Rightarrow> string) \<Rightarrow> datetime \<Rightarrow> context_scope \<Rightarrow> record_kind \<Rightarrow> string \<Rightarrow> governed_envelope \<Rightarrow> context_tables
    \<Rightarrow> context_tables context_result" where
  "insert_record pg_text now scope kind rid e t =
     (let site = sc_site_id scope; payload = ge_payload e; db = ct_db t;
          meta = ct_metadata t @ [metadata_create kind rid e now] in
      case kind of
        Evidence_record \<Rightarrow>
          (case jget payload ''evidence_ref'' of
             JObj ref \<Rightarrow>
               (if \<not> text_columns [jget ref ''evidence_id'', jget payload ''review_status'', jget payload ''data_classification'']
                then Inl (Context_database ''evidence_records columns'')
                else if (site, rid) \<in> fst ` set (db_evidence db) then Inl (Context_database ''evidence_records_pkey'')
                else if (site, str_of_json (jget ref ''evidence_id'')) \<notin> set (ct_observed t)
                then Inl (Context_database ''evidence_records_observer_fkey'')
                else Inr (t\<lparr>ct_metadata := meta, ct_db := db\<lparr>db_evidence := db_evidence db @ [((site, rid), JObj payload)]\<rparr>\<rparr>))
           | _ \<Rightarrow> Inl (Context_validation ''evidence_ref is required''))
      | Fact_proposal \<Rightarrow>
          (case jget payload ''fact'' of
             JObj f \<Rightarrow>
               (let version = json_text_column pg_text (jget payload ''output_version'') in
                if \<not> text_columns [jget f ''subject_ref'', jget f ''predicate''] \<or> \<not> confidence_column (jget f ''confidence'')
                then Inl (Context_database ''fact_proposals columns'')
                else if find_proposal_row site rid db \<noteq> None then Inl (Context_database ''fact_proposals_pkey'')
                else if version = None \<or> strip_by (\<lambda>c. c = CHR '' '') (the version) = []
                then Inl (Context_database ''fact_proposals_version_required'')
                else Inr (t\<lparr>ct_metadata := meta,
                      ct_db := db\<lparr>db_proposals := db_proposals db @
                        [\<lparr>pp_site = site, pp_ref = rid, pp_purpose = sc_purpose scope, pp_version = version,
                          pp_revision = 1, pp_subject = str_of_json (jget f ''subject_ref''),
                          pp_predicate = str_of_json (jget f ''predicate''), pp_document = JObj payload,
                          pp_digest = ge_digest e, pp_recorded_at = now\<rparr>]\<rparr>\<rparr>))
           | _ \<Rightarrow> Inl (Context_validation ''fact is required''))
      | Entity_resolution_proposal \<Rightarrow>
          (if \<not> text_columns [jget payload ''entity_type'', jget payload ''source_entity_ref'']
           then Inl (Context_database ''entity_resolution_proposals columns'')
           else if \<exists>m \<in> set (ct_metadata t). rm_kind m = kind \<and> rm_site_id m = site \<and> rm_record_id m = rid
           then Inl (Context_database ''entity_resolution_proposals_pkey'')
           else Inr (t\<lparr>ct_metadata := meta\<rparr>)))"

definition insert_child :: "string \<Rightarrow> string \<Rightarrow> child_row \<Rightarrow> context_tables \<Rightarrow> context_tables context_result" where
  "insert_child site rid child t =
     (let db = ct_db t in
      case child of
        Fact_evidence_child ev \<Rightarrow>
          (if (site, rid, ev) \<in> set (db_fact_evidence db) then Inl (Context_database ''fact_evidence_pkey'')
           else if \<not> evidence_exists site ev db then Inl (Context_database ''fact_evidence_evidence_fkey'')
           else Inr (t\<lparr>ct_db := db\<lparr>db_fact_evidence := db_fact_evidence db @ [(site, rid, ev)]\<rparr>\<rparr>))
      | Candidate_child c \<Rightarrow>
          (if \<not> confidence_column (cd_confidence c) then Inl (Context_database ''candidates_confidence_check'')
           else Inr (t\<lparr>ct_candidates := ct_candidates t @ [c]\<rparr>)))"

fun insert_children :: "string \<Rightarrow> string \<Rightarrow> child_row list \<Rightarrow> context_tables \<Rightarrow> context_tables context_result" where
  "insert_children site rid [] t = Inr t"
| "insert_children site rid (c # cs) t =
     (case insert_child site rid c t of Inl x \<Rightarrow> Inl x | Inr t' \<Rightarrow> insert_children site rid cs t')"

definition stored_under :: "record_kind \<Rightarrow> string \<Rightarrow> string \<Rightarrow> context_tables \<Rightarrow> record_metadata option" where
  "stored_under kind site key t =
     find (\<lambda>m. rm_kind m = kind \<and> rm_site_id m = site \<and> rm_key m = key) (ct_metadata t)"

definition context_save ::
  "(json \<Rightarrow> string) \<Rightarrow> datetime \<Rightarrow> context_scope \<Rightarrow> record_kind \<Rightarrow> governed_envelope \<Rightarrow> context_tables
    \<Rightarrow> (context_error, record_metadata, context_tables) call" where
  "context_save pg_text now scope kind e t =
     (case validate_governed_record scope kind e of
        Inl x \<Rightarrow> (Inl x, t)
      | Inr rid \<Rightarrow>
     (case child_insertions scope kind rid (ge_payload e) of
        Inl x \<Rightarrow> (Inl x, t)
      | Inr children \<Rightarrow>
     (case stored_under kind (sc_site_id scope) (ge_key e) t of
        Some existing \<Rightarrow>
          (if rm_digest existing \<noteq> ge_digest e
           then (Inl (Idempotency_conflict ''idempotency key was already used with a different payload''), t)
           else (Inr existing, t))
      | None \<Rightarrow>
     (case insert_record pg_text now scope kind rid e t of
        Inl x \<Rightarrow> (Inl x, t)
      | Inr t1 \<Rightarrow>
          (case insert_children (sc_site_id scope) rid children t1 of
             Inl x \<Rightarrow> (Inl x, t)
           | Inr t2 \<Rightarrow> (Inr (metadata_create kind rid e now), t2))))))"

definition context_get :: "context_scope \<Rightarrow> record_kind \<Rightarrow> string \<Rightarrow> context_tables \<Rightarrow> record_metadata option" where
  "context_get scope kind rid t =
     find (\<lambda>m. rm_kind m = kind \<and> rm_site_id m = sc_site_id scope \<and> rm_record_id m = rid) (ct_metadata t)"

end
