(* ===== verification/Context_Runs.thy ===== *)
theory Context_Runs
  imports Context_Decision Context_Records
begin

text \<open>
  Runs of the context store: governed records are saved, confirmations and conflicts that were
  prepared against an earlier state are applied to the current one. Every history of a subject and
  predicate is a single chain of versions, each superseding the one before.
\<close>

declare split_paired_All [simp del] split_paired_Ex [simp del]

section \<open>Chains of versions\<close>

definition fact_history :: "string \<Rightarrow> string \<Rightarrow> string \<Rightarrow> context_db \<Rightarrow> fact_rec list" where
  "fact_history site subject predicate db = filter (same_history site subject predicate) (db_facts db)"

definition fact_super :: "fact_rec \<Rightarrow> (string option \<times> int option)" where
  "fact_super f = (vf_super_id f, vf_super_version f)"

definition next_super :: "fact_rec list \<Rightarrow> string option \<times> int option" where
  "next_super fs =
     (if fs = [] then (None, None) else (Some (vf_fact_id (last fs)), Some (vf_version (last fs))))"

definition chained :: "fact_rec list \<Rightarrow> bool" where
  "chained fs = (\<forall>i < length fs. vf_version (fs ! i) = int i + 1 \<and> fact_super (fs ! i) = next_super (take i fs))"

definition histories_chained :: "context_db \<Rightarrow> bool" where
  "histories_chained db = (\<forall>site subject predicate. chained (fact_history site subject predicate db))"

definition facts_distinct :: "context_db \<Rightarrow> bool" where
  "facts_distinct db = distinct (map fact_pk (db_facts db))"

lemma chained_Nil [simp]: "chained []"
  by (simp add: chained_def)

lemma chained_snoc:
  "chained (fs @ [f]) \<longleftrightarrow> chained fs \<and> vf_version f = int (length fs) + 1 \<and> fact_super f = next_super fs"
  by (auto simp: chained_def nth_append less_Suc_eq)

lemma next_super_take: "0 < i \<Longrightarrow> i \<le> length fs \<Longrightarrow>
   next_super (take i fs) = (Some (vf_fact_id (fs ! (i - 1))), Some (vf_version (fs ! (i - 1))))"
  by (auto simp: next_super_def last_conv_nth min_def)

lemma chained_last_version: "chained fs \<Longrightarrow> fs \<noteq> [] \<Longrightarrow> vf_version (last fs) = int (length fs)"
  by (cases fs rule: rev_cases) (simp_all add: chained_snoc)

lemma chainedD:
  assumes "histories_chained db" and "i < length (fact_history site subject predicate db)"
  shows "vf_version (fact_history site subject predicate db ! i) = int i + 1"
    and "fact_super (fact_history site subject predicate db ! i) =
      next_super (take i (fact_history site subject predicate db))"
  using assms by (simp_all add: histories_chained_def chained_def)

lemma fact_history_set: "f \<in> set (db_facts db) \<Longrightarrow> f \<in> set (fact_history (vf_site f) (vf_subject f) (vf_predicate f) db)"
  by (simp add: fact_history_def same_history_def)

section \<open>The current fact\<close>

lemma same_pk:
  assumes "facts_distinct db" and "f \<in> set (db_facts db)" and "g \<in> set (db_facts db)" and "fact_pk f = fact_pk g"
  shows "f = g"
  using assms by (auto simp: facts_distinct_def distinct_map inj_on_def)

text \<open>A fact is superseded exactly when it is not the last of its history.\<close>

lemma superseded_nth:
  assumes chain: "histories_chained db" and distinct: "facts_distinct db"
    and fs: "fs = fact_history site subject predicate db" and i: "i < length fs"
  shows "superseded db (fs ! i) \<longleftrightarrow> Suc i < length fs"
proof
  assume "Suc i < length fs"
  then have "fact_super (fs ! Suc i) = next_super (take (Suc i) fs)"
    unfolding fs by (intro chainedD(2) [OF chain])
  moreover have "fs ! Suc i \<in> set fs" "fs ! i \<in> set fs" using \<open>Suc i < length fs\<close> by simp_all
  ultimately show "superseded db (fs ! i)"
    using next_super_take [of "Suc i" fs] \<open>Suc i < length fs\<close>
    by (auto simp: superseded_def fact_super_def fs fact_history_def same_history_def intro!: bexI [of _ "fs ! Suc i"])
next
  assume "superseded db (fs ! i)"
  then obtain g where g: "g \<in> set (db_facts db)" "vf_site g = vf_site (fs ! i)"
      "fact_super g = (Some (vf_fact_id (fs ! i)), Some (vf_version (fs ! i)))"
    by (auto simp: superseded_def fact_super_def)
  let ?gs = "fact_history (vf_site g) (vf_subject g) (vf_predicate g) db"
  obtain j where j: "j < length ?gs" "?gs ! j = g"
    using fact_history_set [OF g(1)] by (auto simp: in_set_conv_nth)
  have sup: "fact_super g = next_super (take j ?gs)" and vg: "vf_version g = int j + 1"
    using chainedD [OF chain j(1)] unfolding j(2) by simp_all
  have "0 < j" using sup g(3) by (cases j) (auto simp: next_super_def)
  let ?p = "?gs ! (j - 1)"
  have p: "?p \<in> set ?gs" using j by simp
  have "fact_pk ?p = fact_pk (fs ! i)"
    using sup g(2,3) next_super_take [of j ?gs] \<open>0 < j\<close> j(1) p
    by (auto simp: fact_pk_def fact_history_def same_history_def)
  moreover have "fs ! i \<in> set fs" using i by simp
  ultimately have eq: "?p = fs ! i"
    using p unfolding fs by (intro same_pk [OF distinct]) (auto simp: fact_history_def)
  have "?gs = fs"
    using eq p \<open>fs ! i \<in> set fs\<close> unfolding fs fact_history_def same_history_def by simp
  moreover have "vf_version ?p = int (j - 1) + 1" "vf_version (fs ! i) = int i + 1"
    using chainedD(1) [OF chain] j(1) i unfolding fs by (simp_all add: less_imp_diff_less)
  ultimately show "Suc i < length fs" using eq j(1) \<open>0 < j\<close> by simp
qed

lemma current_row_last:
  assumes "histories_chained db" and "facts_distinct db"
  shows "current_row site subject predicate db =
    (let fs = fact_history site subject predicate db in if fs = [] then None else Some (last fs))"
proof -
  let ?fs = "fact_history site subject predicate db"
  have rows: "filter (\<lambda>f. same_history site subject predicate f \<and> \<not> superseded db f) (db_facts db)
      = filter (\<lambda>f. \<not> superseded db f) ?fs"
    by (simp add: fact_history_def conj_commute)
  have "filter (\<lambda>f. \<not> superseded db f) ?fs = (if ?fs = [] then [] else [last ?fs])"
  proof (cases ?fs rule: rev_cases)
    case (snoc ys y)
    have "superseded db x" if "x \<in> set ys" for x
    proof -
      from that obtain i where "i < length ys" "x = ys ! i" by (auto simp: in_set_conv_nth)
      then show ?thesis
        using superseded_nth [OF assms refl, of i site subject predicate] snoc by (simp add: nth_append)
    qed
    then have "filter (\<lambda>f. \<not> superseded db f) ys = []" by (simp add: filter_empty_conv)
    moreover have "\<not> superseded db y"
      using superseded_nth [OF assms refl, of "length ys" site subject predicate] snoc by simp
    ultimately show ?thesis by (simp add: snoc)
  qed simp
  then show ?thesis by (simp add: current_row_def rows Let_def)
qed

lemma lock_current_fact_next:
  assumes "histories_chained db" and "facts_distinct db"
  shows "lock_current_fact site subject predicate db = next_super (fact_history site subject predicate db)"
  by (simp add: lock_current_fact_def current_row_last [OF assms] next_super_def Let_def)

section \<open>What a saved confirmation adds\<close>

lemma insert_decision_fact_Inr:
  "insert_decision_fact k r db = Inr db' \<Longrightarrow> db' = db\<lparr>db_decision_facts := db_decision_facts db @ [(k, r)]\<rparr>"
  unfolding insert_decision_fact_def if_Inl_Inr_iff by simp

lemma each_insert_Cons_Inr:
  "each_insert f (x # xs) db = Inr db' \<longleftrightarrow> (\<exists>db1. f x db = Inr db1 \<and> each_insert f xs db1 = Inr db')"
  by (simp add: sum_case_Inr_iff)

lemma each_insert_decision_fact:
  "each_insert (\<lambda>(fid, v). insert_decision_fact dk (role, fid, v)) refs db = Inr db' \<Longrightarrow>
   db' = db\<lparr>db_decision_facts := db_decision_facts db @ map (\<lambda>(fid, v). (dk, role, fid, v)) refs\<rparr>"
proof (induction refs arbitrary: db)
  case (Cons ref refs)
  obtain fid v where ref: "ref = (fid, v)" by (cases ref)
  from Cons.prems obtain db1 where db1: "insert_decision_fact dk (role, fid, v) db = Inr db1"
    and rest: "each_insert (\<lambda>(fid, v). insert_decision_fact dk (role, fid, v)) refs db1 = Inr db'"
    unfolding each_insert_Cons_Inr ref by auto
  from Cons.IH [OF rest] insert_decision_fact_Inr [OF db1] show ?case by (simp add: ref)
qed simp

lemma insert_decision_evidence_Inr:
  "insert_decision_evidence k e db = Inr db' \<longleftrightarrow>
     (k, e) \<notin> set (db_decision_evidence db) \<and> k \<in> set (map decision_pk (db_decisions db)) \<and>
     evidence_exists (fst k) e db \<and> db' = db\<lparr>db_decision_evidence := db_decision_evidence db @ [(k, e)]\<rparr>"
  unfolding insert_decision_evidence_def if_Inl_Inr_iff by auto

lemma insert_fact_evidence_Inr:
  "insert_fact_evidence k e db = Inr db' \<longleftrightarrow>
     (k, e) \<notin> set (db_fact_evidence_refs db) \<and> k \<in> set (map fact_pk (db_facts db)) \<and>
     evidence_exists (fst k) e db \<and> db' = db\<lparr>db_fact_evidence_refs := db_fact_evidence_refs db @ [(k, e)]\<rparr>"
  unfolding insert_fact_evidence_def if_Inl_Inr_iff by auto

lemma evidence_exists_cong: "db_evidence db' = db_evidence db \<Longrightarrow> evidence_exists site e db' = evidence_exists site e db"
  by (simp add: evidence_exists_def)

lemma each_insert_evidence:
  "each_insert (\<lambda>e d. case insert_decision_evidence dk e d of
      Inl x \<Rightarrow> Inl x | Inr d' \<Rightarrow> insert_fact_evidence fk e d') es db = Inr db' \<Longrightarrow>
   db' = db\<lparr>db_decision_evidence := db_decision_evidence db @ map (Pair dk) es,
            db_fact_evidence_refs := db_fact_evidence_refs db @ map (Pair fk) es\<rparr> \<and>
   distinct es \<and> (\<forall>e \<in> set es. (dk, e) \<notin> set (db_decision_evidence db) \<and> evidence_exists (fst dk) e db)"
proof (induction es arbitrary: db)
  case (Cons e es)
  from Cons.prems obtain db1 db2 where step: "insert_decision_evidence dk e db = Inr db1"
    and step2: "insert_fact_evidence fk e db1 = Inr db2"
    and tail: "each_insert (\<lambda>e d. case insert_decision_evidence dk e d of
        Inl x \<Rightarrow> Inl x | Inr d' \<Rightarrow> insert_fact_evidence fk e d') es db2 = Inr db'"
    unfolding each_insert_Cons_Inr sum_case_Inr_iff by blast
  have db2: "db2 = db\<lparr>db_decision_evidence := db_decision_evidence db @ [(dk, e)],
      db_fact_evidence_refs := db_fact_evidence_refs db @ [(fk, e)]\<rparr>"
    using step step2 by (simp add: insert_decision_evidence_Inr insert_fact_evidence_Inr)
  have ex: "evidence_exists site x db2 = evidence_exists site x db" for site x
    by (rule evidence_exists_cong) (simp add: db2)
  from Cons.IH [OF tail] have db': "db' = db2\<lparr>db_decision_evidence := db_decision_evidence db2 @ map (Pair dk) es,
      db_fact_evidence_refs := db_fact_evidence_refs db2 @ map (Pair fk) es\<rparr>" and d: "distinct es"
    and fresh: "\<forall>x \<in> set es. (dk, x) \<notin> set (db_decision_evidence db2) \<and> evidence_exists (fst dk) x db2" by blast+
  have "db' = db\<lparr>db_decision_evidence := db_decision_evidence db @ map (Pair dk) (e # es),
      db_fact_evidence_refs := db_fact_evidence_refs db @ map (Pair fk) (e # es)\<rparr>" by (simp add: db' db2)
  moreover have "set (db_decision_evidence db2) = insert (dk, e) (set (db_decision_evidence db))" by (simp add: db2)
  then have "distinct (e # es)" "\<forall>x \<in> set (e # es). (dk, x) \<notin> set (db_decision_evidence db) \<and> evidence_exists (fst dk) x db"
    using fresh d step unfolding ex insert_decision_evidence_Inr by auto
  ultimately show ?case by blast
qed simp

lemma insert_decision_Inr:
  "insert_decision site doc db = Inr db' \<Longrightarrow>
     (site, doc_text doc ''decision_id'', doc_int doc ''decision_revision'') \<notin> set (map decision_pk (db_decisions db)) \<and>
     db' = db\<lparr>db_decisions := db_decisions db @ [\<lparr>dr_site = site, dr_decision_id = doc_text doc ''decision_id'',
            dr_revision = doc_int doc ''decision_revision'', dr_document = JObj doc\<rparr>]\<rparr>"
  unfolding insert_decision_def Let_def if_Inl_Inr_iff by (auto simp: decision_pk_def)

lemma insert_fact_Inr:
  "insert_fact site n doc db = Inr db' \<Longrightarrow>
     fact_pk (fact_row site n doc) \<notin> set (map fact_pk (db_facts db)) \<and>
     db' = db\<lparr>db_facts := db_facts db @ [fact_row site n doc]\<rparr>"
  unfolding insert_fact_def Let_def if_Inl_Inr_iff by auto

definition confirmed_db :: "fields \<Rightarrow> fields \<Rightarrow> context_db \<Rightarrow> context_db" where
  "confirmed_db decision fdoc db =
     (let site = doc_text decision ''site_id''; n = doc_int decision ''decision_revision'';
          did = doc_text decision ''decision_id''; dk = (site, did, n); row = fact_row site n fdoc;
          es = doc_texts decision ''evidence_refs'' in
      db\<lparr>db_decisions := db_decisions db @
           [\<lparr>dr_site = site, dr_decision_id = did, dr_revision = n, dr_document = JObj decision\<rparr>],
         db_facts := db_facts db @ [row],
         db_decision_facts := db_decision_facts db @
           map (\<lambda>(fid, v). (dk, ''input'', fid, v)) (doc_fact_refs decision ''input_fact_refs'') @
           map (\<lambda>(fid, v). (dk, ''output'', fid, v)) (doc_fact_refs decision ''output_fact_refs''),
         db_decision_evidence := db_decision_evidence db @ map (Pair dk) es,
         db_fact_evidence_refs := db_fact_evidence_refs db @ map (Pair (fact_pk row)) es\<rparr>)"

definition fresh_confirmation :: "fields \<Rightarrow> fields \<Rightarrow> context_db \<Rightarrow> bool" where
  "fresh_confirmation decision fdoc db =
     (let site = doc_text decision ''site_id''; n = doc_int decision ''decision_revision'';
          es = doc_texts decision ''evidence_refs'' in
      (site, doc_text decision ''decision_id'', n) \<notin> set (map decision_pk (db_decisions db)) \<and>
      fact_pk (fact_row site n fdoc) \<notin> set (map fact_pk (db_facts db)) \<and>
      distinct es \<and> (\<forall>e \<in> set es. evidence_exists site e db))"

lemma fact_pk_fact_row [simp]:
  "fact_pk (fact_row site n doc) = (site, doc_text doc ''fact_id'', doc_int doc ''fact_version'')"
  by (simp add: fact_pk_def fact_row_def)

lemma save_confirmation_Inr:
  assumes "save_confirmation decision fdoc version revision cref cver db = Inr db'"
  shows "lock_proposal (doc_text decision ''site_id'') (doc_text decision ''proposal_ref'') version revision db = Inr ()"
    and "lock_current_fact (doc_text decision ''site_id'') (doc_text fdoc ''subject_ref'') (doc_text fdoc ''predicate'') db
      = (cref, cver)"
    and "db' = confirmed_db decision fdoc db"
    and "fresh_confirmation decision fdoc db"
proof -
  let ?site = "doc_text decision ''site_id''" and ?n = "doc_int decision ''decision_revision''"
  let ?dk = "(?site, doc_text decision ''decision_id'', ?n)"
  let ?fk = "(?site, doc_text fdoc ''fact_id'', doc_int fdoc ''fact_version'')"
  from assms obtain u db1 db2 db3 db4 where
    lock: "lock_proposal ?site (doc_text decision ''proposal_ref'') version revision db = Inr u"
    and cur: "lock_current_fact ?site (doc_text fdoc ''subject_ref'') (doc_text fdoc ''predicate'') db = (cref, cver)"
    and s1: "insert_decision ?site decision db = Inr db1"
    and s2: "insert_fact ?site ?n fdoc db1 = Inr db2"
    and s3: "each_insert (\<lambda>(fid, v). insert_decision_fact ?dk (''input'', fid, v))
      (doc_fact_refs decision ''input_fact_refs'') db2 = Inr db3"
    and s4: "each_insert (\<lambda>(fid, v). insert_decision_fact ?dk (''output'', fid, v))
      (doc_fact_refs decision ''output_fact_refs'') db3 = Inr db4"
    and s5: "each_insert (\<lambda>e d. case insert_decision_evidence ?dk e d of
      Inl x \<Rightarrow> Inl x | Inr d' \<Rightarrow> insert_fact_evidence ?fk e d') (doc_texts decision ''evidence_refs'') db4 = Inr db'"
    unfolding save_confirmation_def Let_def sum_case_Inr_iff if_Inl_Inr_iff not_not by blast
  note d1 = insert_decision_Inr [OF s1] and d2 = insert_fact_Inr [OF s2] and d5 = each_insert_evidence [OF s5]
    and d3 = each_insert_decision_fact [OF s3] and d4 = each_insert_decision_fact [OF s4]
  show "lock_proposal ?site (doc_text decision ''proposal_ref'') version revision db = Inr ()"
    and "lock_current_fact ?site (doc_text fdoc ''subject_ref'') (doc_text fdoc ''predicate'') db = (cref, cver)"
    using lock cur by simp_all
  have ev: "db_evidence db4 = db_evidence db" using d1 d2 d3 d4 by simp
  show "db' = confirmed_db decision fdoc db"
    using d1 d2 d3 d4 d5 by (simp add: confirmed_db_def Let_def)
  have "evidence_exists ?site e db4 = evidence_exists ?site e db" for e
    by (rule evidence_exists_cong [OF ev])
  then show "fresh_confirmation decision fdoc db"
    using d1 d2 d5 by (simp add: fresh_confirmation_def Let_def)
qed

section \<open>What a preparation promises\<close>

lemma build_fact_fields:
  assumes "build_fact r p version valid_time now = Inr doc"
  shows "jget doc ''site_id'' = JStr (cr_site_id r)" "jget doc ''fact_id'' = JStr (cr_fact_id r)"
    "jget doc ''proposal_ref'' = JStr (ps_proposal_ref p)" "jget doc ''proposal_version'' = JStr (ps_version p)"
    "jget doc ''proposal_revision'' = JInt (ps_revision p)" "jget doc ''subject_ref'' = JStr (ps_subject_ref p)"
    "jget doc ''predicate'' = JStr (ps_predicate p)" "jget doc ''fact_version'' = JInt version"
    "jget doc ''evidence_refs'' = JList (map JStr (cr_evidence_refs r))"
    "jget doc ''confirmation_decision_ref'' = JStr (cr_decision_id r)"
    "jget doc ''supersedes_fact_ref'' = null_or_text (cr_super_ref r)"
    "cr_super_ref r \<noteq> None \<Longrightarrow> jget doc ''supersedes_fact_version'' = null_or_int (cr_super_version r)"
    "cr_super_ref r = None \<Longrightarrow> jget doc ''supersedes_fact_version'' = JNull"
  using assms unfolding build_fact_def sum_case_Inr_iff by (auto split: option.splits)

lemma build_decision_fields:
  assumes "build_decision r current version valid_time now = Inr doc"
  shows "jget doc ''site_id'' = JStr (cr_site_id r)" "jget doc ''decision_id'' = JStr (cr_decision_id r)"
    "jget doc ''decision_revision'' = JInt 1" "jget doc ''proposal_ref'' = JStr (cr_proposal_ref r)"
    "jget doc ''proposal_version'' = JStr (cr_proposal_version r)"
    "jget doc ''proposal_revision'' = JInt (cr_proposal_revision r)"
    "jget doc ''input_fact_refs'' = JList (case current of None \<Rightarrow> []
       | Some f \<Rightarrow> [json_fact_ref (fs_fact_id f) (fs_fact_version f)])"
    "jget doc ''output_fact_refs'' = JList [json_fact_ref (cr_fact_id r) version]"
    "jget doc ''evidence_refs'' = JList (map JStr (cr_evidence_refs r))"
  using assms unfolding build_decision_def sum_case_Inr_iff by (auto split: option.splits)

lemma prepare_confirmation_Inr:
  assumes "prepare_confirmation c now r db = Inr pc"
  obtains p current valid_time where
    "checked_proposal c (cr_site_id r) (cr_purpose r) (cr_proposal_ref r) (cr_proposal_version r)
       (cr_proposal_revision r) db = Inr p"
    "check_confirmation r p = Inr ()" "check_evidence (cr_site_id r) (cr_evidence_refs r) db = Inr ()"
    "db_get_current_fact (cr_site_id r) (ps_subject_ref p) (ps_predicate p) db = Inr current"
    "check_supersession r current = Inr ()"
    "build_fact r p (case current of None \<Rightarrow> 1 | Some f \<Rightarrow> fs_fact_version f + 1) valid_time now = Inr (pc_fact pc)"
    "build_decision r current (case current of None \<Rightarrow> 1 | Some f \<Rightarrow> fs_fact_version f + 1) valid_time now
       = Inr (pc_decision pc)"
    "pc_version pc = cr_proposal_version r" "pc_revision pc = cr_proposal_revision r"
    "pc_current_ref pc = map_option fs_fact_id current" "pc_current_version pc = cr_current_version r"
proof -
  from assms obtain p u1 u2 current u3 valid_time fdoc decision where
    "checked_proposal c (cr_site_id r) (cr_purpose r) (cr_proposal_ref r) (cr_proposal_version r)
       (cr_proposal_revision r) db = Inr p"
    "check_confirmation r p = Inr u1" "check_evidence (cr_site_id r) (cr_evidence_refs r) db = Inr u2"
    "db_get_current_fact (cr_site_id r) (ps_subject_ref p) (ps_predicate p) db = Inr current"
    "check_supersession r current = Inr u3"
    "build_fact r p (case current of None \<Rightarrow> 1 | Some f \<Rightarrow> fs_fact_version f + 1) valid_time now = Inr fdoc"
    "build_decision r current (case current of None \<Rightarrow> 1 | Some f \<Rightarrow> fs_fact_version f + 1) valid_time now
       = Inr decision"
    "Inr \<lparr>pc_decision = decision, pc_fact = fdoc, pc_version = cr_proposal_version r,
             pc_revision = cr_proposal_revision r, pc_current_ref = map_option fs_fact_id current,
             pc_current_version = cr_current_version r\<rparr> = (Inr pc :: decision_error + prepared_confirmation)"
    unfolding prepare_confirmation_def Let_def sum_case_Inr_iff if_Inl_Inr_iff by blast
  then show thesis by (intro that) (auto simp del: One_nat_def)
qed

lemma checked_proposal_Inr:
  assumes "checked_proposal c site purpose ref version revision db = Inr p"
  shows "db_get_proposal c site ref db = Inr (Some p)" "ps_version p = version" "ps_revision p = revision"
  using assms by (auto simp: checked_proposal_def split: sum.splits option.splits if_splits)

lemma check_supersession_Inr:
  assumes "check_supersession r current = Inr ()"
  shows "cr_super_ref r = map_option fs_fact_id current" "cr_super_version r = map_option fs_fact_version current"
    "cr_current_version r = map_option fs_fact_version current"
  using assms by (auto simp: check_supersession_def split: option.splits if_splits)

end
