(* ===== verification/Context_Properties.thy ===== *)
theory Context_Properties
  imports Context_Runs
begin

text \<open>
  The step relation of the context store and what every run keeps: one chain of versions per subject
  and predicate, and decisions that trace back to exactly what they were made of.
\<close>

section \<open>Steps\<close>

inductive context_step :: "(json \<Rightarrow> string) \<Rightarrow> collation \<Rightarrow> context_tables \<Rightarrow> context_tables \<Rightarrow> bool"
  for pg_text c where
  observe: "context_step pg_text c t (t\<lparr>ct_observed := ct_observed t @ [k]\<rparr>)"
| save: "context_save pg_text now scope kind e t = (Inr m, t') \<Longrightarrow> context_step pg_text c t t'"
| confirm: "prepare_confirmation c now r db0 = Inr pc \<Longrightarrow> apply_confirmation pc (ct_db t) = Inr db' \<Longrightarrow>
    context_step pg_text c t (t\<lparr>ct_db := db'\<rparr>)"
| conflict: "prepare_conflict c now cr db0 = Inr doc \<Longrightarrow>
    save_conflict doc (cf_proposal_version cr) (cf_proposal_revision cr) (ct_db t) = Inr db' \<Longrightarrow>
    context_step pg_text c t (t\<lparr>ct_db := db'\<rparr>)"

abbreviation context_run :: "(json \<Rightarrow> string) \<Rightarrow> collation \<Rightarrow> context_tables \<Rightarrow> context_tables \<Rightarrow> bool" where
  "context_run pg_text c \<equiv> rtranclp (context_step pg_text c)"

section \<open>What the other steps add\<close>

text \<open>Saving a record appends an evidence document or a proposal with its links, and nothing else.\<close>

definition records_added :: "context_db \<Rightarrow> context_db \<Rightarrow> bool" where
  "records_added db db' =
     (\<exists>ev ps links.
        db' = db\<lparr>db_evidence := db_evidence db @ ev, db_proposals := db_proposals db @ ps,
                db_fact_evidence := db_fact_evidence db @ links\<rparr> \<and>
        (\<forall>(site, rid, e) \<in> set links. find_proposal_row site rid db = None))"

lemma insert_children_db:
  "insert_children site rid cs t = Inr t' \<Longrightarrow>
   \<exists>es. ct_db t' = (ct_db t)\<lparr>db_fact_evidence := db_fact_evidence (ct_db t) @ map (\<lambda>e. (site, rid, e)) es\<rparr> \<and>
     (es \<noteq> [] \<longrightarrow> (\<exists>e. Fact_evidence_child e \<in> set cs))"
proof (induction cs arbitrary: t)
  case Nil
  then show ?case by (intro exI [of _ "[]"]) simp
next
  case (Cons c cs)
  from Cons.prems obtain t1 where t1: "insert_child site rid c t = Inr t1"
    and rest: "insert_children site rid cs t1 = Inr t'" by (auto simp: sum_case_Inr_iff)
  from Cons.IH [OF rest] obtain es where
    es: "ct_db t' = (ct_db t1)\<lparr>db_fact_evidence := db_fact_evidence (ct_db t1) @ map (\<lambda>e. (site, rid, e)) es\<rparr>"
      "es \<noteq> [] \<longrightarrow> (\<exists>e. Fact_evidence_child e \<in> set cs)" by blast
  show ?case
  proof (cases c)
    case (Fact_evidence_child e)
    with t1 have "ct_db t1 = (ct_db t)\<lparr>db_fact_evidence := db_fact_evidence (ct_db t) @ [(site, rid, e)]\<rparr>"
      by (auto simp: insert_child_def Let_def split: if_splits)
    then show ?thesis using es Fact_evidence_child by (intro exI [of _ "e # es"]) auto
  next
    case (Candidate_child x)
    with t1 have "ct_db t1 = ct_db t" by (auto simp: insert_child_def Let_def split: if_splits)
    then show ?thesis using es by (intro exI [of _ es]) auto
  qed
qed

lemma candidate_child_kind: "candidate_child site rid ic = Inr ch \<Longrightarrow> ch \<noteq> Fact_evidence_child e"
  by (auto simp: candidate_child_def Let_def split: json.splits if_splits)

lemma map_raise_member: "map_raise f xs = Inr ys \<Longrightarrow> y \<in> set ys \<Longrightarrow> \<exists>x \<in> set xs. f x = Inr y"
  by (induction xs arbitrary: ys) (auto split: sum.splits)

lemma context_save_records:
  assumes "context_save pg_text now scope kind e t = (Inr m, t')"
  shows "records_added (ct_db t) (ct_db t')"
proof -
  have same: "records_added (ct_db t) (ct_db t)"
    unfolding records_added_def by (intro exI [of _ "[]"]) simp
  from assms consider "t' = t"
    | rid children t1 where "child_insertions scope kind rid (ge_payload e) = Inr children"
      "insert_record pg_text now scope kind rid e t = Inr t1"
      "insert_children (sc_site_id scope) rid children t1 = Inr t'"
    by (auto simp: context_save_def split: sum.splits option.splits if_splits)
  then show ?thesis
  proof cases
    case 1
    with same show ?thesis by simp
  next
    case (2 rid children t1)
    let ?site = "sc_site_id scope"
    from insert_children_db [OF 2(3)] obtain es where
      es: "ct_db t' = (ct_db t1)\<lparr>db_fact_evidence := db_fact_evidence (ct_db t1) @ map (\<lambda>e. (?site, rid, e)) es\<rparr>"
        "es \<noteq> [] \<longrightarrow> (\<exists>e. Fact_evidence_child e \<in> set children)" by blast
    show ?thesis
    proof (cases kind)
      case Evidence_record
      with 2(1) have "children = []" by (simp add: child_insertions_def)
      moreover from 2(2) Evidence_record obtain ev where
        "ct_db t1 = (ct_db t)\<lparr>db_evidence := db_evidence (ct_db t) @ ev\<rparr>"
        by (auto simp: insert_record_def Let_def split: json.splits if_splits)
      ultimately show ?thesis using es unfolding records_added_def
        by (intro exI [of _ ev] exI [of _ "[]"]) simp
    next
      case Fact_proposal
      with 2(2) obtain p where
        t1: "ct_db t1 = (ct_db t)\<lparr>db_proposals := db_proposals (ct_db t) @ [p]\<rparr>" "find_proposal_row ?site rid (ct_db t) = None"
        by (auto simp: insert_record_def Let_def split: json.splits if_splits)
      with es show ?thesis unfolding records_added_def
        by (intro exI [of _ "[]"] exI [of _ "[p]"] exI [of _ "map (\<lambda>e. (?site, rid, e)) es"]) auto
    next
      case Entity_resolution_proposal
      with 2(2) have "ct_db t1 = ct_db t" by (auto simp: insert_record_def Let_def split: if_splits)
      moreover have "Fact_evidence_child e \<notin> set children" for e
        using 2(1) Entity_resolution_proposal
        by (auto simp: child_insertions_def split: json.splits if_splits
            dest!: map_raise_member dest: candidate_child_kind)
      ultimately show ?thesis using es same by auto
    qed
  qed
qed

text \<open>Saving a conflict touches the three tables of conflicts alone.\<close>

definition decision_tables where
  "decision_tables db = (db_evidence db, db_proposals db, db_fact_evidence db, db_decisions db, db_facts db,
     db_decision_facts db, db_decision_evidence db, db_fact_evidence_refs db)"

lemma each_insert_decision_tables:
  assumes "\<And>x db db'. f x db = Inr db' \<Longrightarrow> decision_tables db' = decision_tables db"
  shows "each_insert f xs db = Inr db' \<Longrightarrow> decision_tables db' = decision_tables db"
proof (induction xs arbitrary: db)
  case (Cons x xs)
  then show ?case unfolding each_insert_Cons_Inr using assms by metis
qed simp

lemma insert_conflict_tables:
  "insert_conflict site doc ref db = Inr db' \<Longrightarrow> decision_tables db' = decision_tables db"
  "insert_conflict_fact k f db = Inr db' \<Longrightarrow> decision_tables db' = decision_tables db"
  "insert_conflict_evidence k e db = Inr db' \<Longrightarrow> decision_tables db' = decision_tables db"
  unfolding insert_conflict_def insert_conflict_fact_def insert_conflict_evidence_def Let_def if_Inl_Inr_iff
  by (auto simp: decision_tables_def)

lemma save_conflict_tables:
  assumes "save_conflict doc version revision db = Inr db'"
  shows "decision_tables db' = decision_tables db"
proof -
  from assms obtain site ref k cs es db1 db2 where s1: "insert_conflict site doc ref db = Inr db1"
    and s2: "each_insert (\<lambda>c. insert_conflict_fact k (doc_text c ''record_ref'', doc_int c ''record_revision'')) cs db1 = Inr db2"
    and s3: "each_insert (insert_conflict_evidence k) es db2 = Inr db'"
    unfolding save_conflict_def Let_def sum_case_Inr_iff by blast
  note insert_conflict_tables(1) [OF s1]
  moreover have "decision_tables db2 = decision_tables db1"
    by (rule each_insert_decision_tables [OF insert_conflict_tables(2) s2])
  moreover have "decision_tables db' = decision_tables db2"
    by (rule each_insert_decision_tables [OF insert_conflict_tables(3) s3])
  ultimately show ?thesis by simp
qed

section \<open>Applying a prepared confirmation\<close>

lemma null_text_null_or_text [simp]: "null_text (null_or_text x) = x"
  by (cases x) (simp_all add: null_text_def)

lemma null_int_null_or_int [simp]: "null_int (null_or_int x) = x"
  by (cases x) (simp_all add: null_int_def)

lemma doc_text_JStr: "jget doc k = JStr s \<Longrightarrow> doc_text doc k = s"
  by (simp add: doc_text_def)

lemma doc_int_JInt: "jget doc k = JInt i \<Longrightarrow> doc_int doc k = i"
  by (simp add: doc_int_def)

definition next_version :: "int option \<Rightarrow> int" where
  "next_version v = (case v of None \<Rightarrow> 1 | Some n \<Rightarrow> n + 1)"

text \<open>The row that a confirmation inserts: it is the next one after what it supersedes.\<close>

lemma prepared_row:
  assumes "prepare_confirmation c now r db0 = Inr pc"
  obtains p where
    "db_get_proposal c (cr_site_id r) (cr_proposal_ref r) db0 = Inr (Some p)"
    "check_confirmation r p = Inr ()" "check_evidence (cr_site_id r) (cr_evidence_refs r) db0 = Inr ()"
    "vf_subject (fact_row (cr_site_id r) 1 (pc_fact pc)) = ps_subject_ref p"
    "vf_predicate (fact_row (cr_site_id r) 1 (pc_fact pc)) = ps_predicate p"
    "vf_version (fact_row (cr_site_id r) 1 (pc_fact pc)) = next_version (cr_super_version r)"
    "fact_super (fact_row (cr_site_id r) 1 (pc_fact pc)) = (cr_super_ref r, cr_super_version r)"
    "(pc_current_ref pc, pc_current_version pc) = (cr_super_ref r, cr_super_version r)"
    "doc_text (pc_fact pc) ''subject_ref'' = ps_subject_ref p"
    "doc_text (pc_fact pc) ''predicate'' = ps_predicate p"
    "ps_version p = cr_proposal_version r" "ps_revision p = cr_proposal_revision r"
proof -
  from assms obtain p current vt where
    checked: "checked_proposal c (cr_site_id r) (cr_purpose r) (cr_proposal_ref r) (cr_proposal_version r)
      (cr_proposal_revision r) db0 = Inr p"
    and chk: "check_confirmation r p = Inr ()" "check_evidence (cr_site_id r) (cr_evidence_refs r) db0 = Inr ()"
    and sup: "check_supersession r current = Inr ()"
    and fct: "build_fact r p (case current of None \<Rightarrow> 1 | Some f \<Rightarrow> fs_fact_version f + 1) vt now = Inr (pc_fact pc)"
    and cur: "pc_current_ref pc = map_option fs_fact_id current" "pc_current_version pc = cr_current_version r"
    by (rule prepare_confirmation_Inr)
  note f = build_fact_fields [OF fct] and s = check_supersession_Inr [OF sup]
  have super: "jget (pc_fact pc) ''supersedes_fact_version'' = null_or_int (cr_super_version r)"
    using f(12,13) s(1,2) by (cases current) auto
  have "vf_version (fact_row (cr_site_id r) 1 (pc_fact pc)) = next_version (cr_super_version r)"
    using doc_int_JInt [OF f(8)] s(2) by (cases current) (auto simp: fact_row_def next_version_def)
  then show thesis
    using checked_proposal_Inr [OF checked] chk doc_text_JStr [OF f(6)] doc_text_JStr [OF f(7)] f(11) super cur s
    by (intro that [of p]) (auto simp: fact_row_def fact_super_def)
qed

lemma prepared_keys:
  assumes "prepare_confirmation c now r db0 = Inr pc"
  shows "doc_text (pc_decision pc) ''site_id'' = cr_site_id r"
    and "doc_text (pc_decision pc) ''decision_id'' = cr_decision_id r"
    and "doc_int (pc_decision pc) ''decision_revision'' = 1"
    and "doc_text (pc_decision pc) ''proposal_ref'' = cr_proposal_ref r"
    and "doc_texts (pc_decision pc) ''evidence_refs'' = cr_evidence_refs r"
    and "doc_text (pc_fact pc) ''fact_id'' = cr_fact_id r"
    and "doc_int (pc_fact pc) ''fact_version'' = next_version (cr_super_version r)"
    and "jget (pc_fact pc) ''fact_id'' = JStr (cr_fact_id r)"
    and "jget (pc_fact pc) ''fact_version'' = JInt (next_version (cr_super_version r))"
    and "doc_fact_refs (pc_decision pc) ''output_fact_refs'' = [(cr_fact_id r, next_version (cr_super_version r))]"
    and "length (doc_fact_refs (pc_decision pc) ''input_fact_refs'') \<le> 1"
    and "jget (pc_fact pc) ''confirmation_decision_ref'' = JStr (cr_decision_id r)"
    and "jget (pc_fact pc) ''proposal_version'' = jget (pc_decision pc) ''proposal_version''"
    and "jget (pc_fact pc) ''proposal_revision'' = jget (pc_decision pc) ''proposal_revision''"
    and "jget (pc_decision pc) ''proposal_version'' = JStr (cr_proposal_version r)"
    and "jget (pc_decision pc) ''proposal_revision'' = JInt (cr_proposal_revision r)"
    and "jget (pc_fact pc) ''evidence_refs'' = JList (map JStr (cr_evidence_refs r))"
    and "jget (pc_fact pc) ''site_id'' = JStr (cr_site_id r)"
proof -
  from assms obtain p current vt where
    checked: "checked_proposal c (cr_site_id r) (cr_purpose r) (cr_proposal_ref r) (cr_proposal_version r)
      (cr_proposal_revision r) db0 = Inr p"
    and sup: "check_supersession r current = Inr ()"
    and fct: "build_fact r p (case current of None \<Rightarrow> 1 | Some f \<Rightarrow> fs_fact_version f + 1) vt now = Inr (pc_fact pc)"
    and dec: "build_decision r current (case current of None \<Rightarrow> 1 | Some f \<Rightarrow> fs_fact_version f + 1) vt now
      = Inr (pc_decision pc)"
    by (rule prepare_confirmation_Inr)
  note f = build_fact_fields [OF fct] and d = build_decision_fields [OF dec] and s = check_supersession_Inr [OF sup]
  have v: "(case current of None \<Rightarrow> 1 | Some f \<Rightarrow> fs_fact_version f + 1) = next_version (cr_super_version r)"
    using s(2) by (cases current) (auto simp: next_version_def)
  show "doc_text (pc_decision pc) ''site_id'' = cr_site_id r"
    and "doc_text (pc_decision pc) ''decision_id'' = cr_decision_id r"
    and "doc_int (pc_decision pc) ''decision_revision'' = 1"
    and "doc_text (pc_decision pc) ''proposal_ref'' = cr_proposal_ref r"
    and "doc_texts (pc_decision pc) ''evidence_refs'' = cr_evidence_refs r"
    using d by (simp_all add: doc_text_def doc_int_def doc_texts_def comp_def)
  show "doc_text (pc_fact pc) ''fact_id'' = cr_fact_id r"
    and "doc_int (pc_fact pc) ''fact_version'' = next_version (cr_super_version r)"
    and "jget (pc_fact pc) ''fact_id'' = JStr (cr_fact_id r)"
    and "jget (pc_fact pc) ''fact_version'' = JInt (next_version (cr_super_version r))"
    and "jget (pc_fact pc) ''confirmation_decision_ref'' = JStr (cr_decision_id r)"
    and "jget (pc_fact pc) ''evidence_refs'' = JList (map JStr (cr_evidence_refs r))"
    and "jget (pc_fact pc) ''site_id'' = JStr (cr_site_id r)"
    using f v by (simp_all add: doc_text_def doc_int_def)
  show "doc_fact_refs (pc_decision pc) ''output_fact_refs'' = [(cr_fact_id r, next_version (cr_super_version r))]"
    and "length (doc_fact_refs (pc_decision pc) ''input_fact_refs'') \<le> 1"
    using d v by (simp_all add: doc_fact_refs_def json_fact_ref_def doc_text_def doc_int_def split: option.split)
  show "jget (pc_decision pc) ''proposal_version'' = JStr (cr_proposal_version r)"
    and "jget (pc_decision pc) ''proposal_revision'' = JInt (cr_proposal_revision r)"
    and "jget (pc_fact pc) ''proposal_version'' = jget (pc_decision pc) ''proposal_version''"
    and "jget (pc_fact pc) ''proposal_revision'' = jget (pc_decision pc) ''proposal_revision''"
    using d f checked_proposal_Inr [OF checked] by simp_all
qed

section \<open>The invariant of a run\<close>

definition decision_row_ok :: "decision_rec \<Rightarrow> bool" where
  "decision_row_ok d =
     (dr_revision d = 1 \<and> (\<exists>doc. dr_document d = JObj doc \<and> doc_int doc ''decision_revision'' = 1))"

definition fact_row_ok :: "fact_rec \<Rightarrow> bool" where
  "fact_row_ok f =
     (\<exists>doc. vf_document f = JObj doc \<and> jget doc ''fact_id'' = JStr (vf_fact_id f) \<and>
        jget doc ''fact_version'' = JInt (vf_version f))"

definition refs_keyed :: "context_db \<Rightarrow> bool" where
  "refs_keyed db =
     (fst ` set (db_decision_facts db) \<subseteq> decision_pk ` set (db_decisions db) \<and>
      fst ` set (db_decision_evidence db) \<subseteq> decision_pk ` set (db_decisions db) \<and>
      fst ` set (db_fact_evidence_refs db) \<subseteq> fact_pk ` set (db_facts db))"

definition context_ok :: "context_db \<Rightarrow> bool" where
  "context_ok db =
     (histories_chained db \<and> facts_distinct db \<and> refs_keyed db \<and>
      (\<forall>d \<in> set (db_decisions db). decision_row_ok d) \<and> (\<forall>f \<in> set (db_facts db). fact_row_ok f))"

lemma context_ok_cong:
  assumes "db_facts db' = db_facts db" and "db_decisions db' = db_decisions db"
    and "db_decision_facts db' = db_decision_facts db" and "db_decision_evidence db' = db_decision_evidence db"
    and "db_fact_evidence_refs db' = db_fact_evidence_refs db"
  shows "context_ok db' = context_ok db"
  by (simp add: context_ok_def histories_chained_def fact_history_def facts_distinct_def refs_keyed_def assms)

lemma context_ok_empty: "context_ok (ct_db empty_tables)"
  by (simp add: context_ok_def histories_chained_def fact_history_def facts_distinct_def refs_keyed_def
      empty_tables_def empty_db_def)

lemma fact_history_snoc:
  assumes "db_facts db' = db_facts db @ [f]"
  shows "fact_history site subject predicate db' =
    fact_history site subject predicate db @ (if same_history site subject predicate f then [f] else [])"
  by (simp add: fact_history_def assms)

lemma histories_chained_snoc:
  assumes chain: "histories_chained db" and facts: "db_facts db' = db_facts db @ [f]"
    and version: "vf_version f = next_version (snd (fact_super f))"
    and super: "fact_super f = next_super (fact_history (vf_site f) (vf_subject f) (vf_predicate f) db)"
  shows "histories_chained db'"
  unfolding histories_chained_def
proof (intro allI)
  fix site subject predicate
  let ?fs = "fact_history site subject predicate db"
  have fs: "chained ?fs" using chain by (simp add: histories_chained_def)
  show "chained (fact_history site subject predicate db')"
  proof (cases "same_history site subject predicate f")
    case True
    then have super: "fact_super f = next_super ?fs" using super by (simp add: same_history_def)
    have "vf_version f = int (length ?fs) + 1"
      using version super chained_last_version [OF fs] by (auto simp: next_super_def next_version_def)
    with super fs True show ?thesis by (simp add: fact_history_snoc [OF facts] chained_snoc)
  qed (simp add: fact_history_snoc [OF facts] fs)
qed

lemma confirm_keeps_ok:
  assumes ok: "context_ok db" and prep: "prepare_confirmation c now r db0 = Inr pc"
    and app: "apply_confirmation pc db = Inr db'"
  shows "context_ok db'"
proof -
  let ?row = "fact_row (cr_site_id r) 1 (pc_fact pc)"
  note k = prepared_keys [OF prep] and saved = save_confirmation_Inr [OF app [unfolded apply_confirmation_def], unfolded prepared_keys [OF prep]]
  have row: "vf_version ?row = next_version (cr_super_version r)" by (rule prepared_row [OF prep])
  have super: "fact_super ?row = (cr_super_ref r, cr_super_version r)" by (rule prepared_row [OF prep])
  have cur: "(pc_current_ref pc, pc_current_version pc) = (cr_super_ref r, cr_super_version r)"
    by (rule prepared_row [OF prep])
  have site: "vf_site ?row = cr_site_id r" "vf_subject ?row = doc_text (pc_fact pc) ''subject_ref''"
    "vf_predicate ?row = doc_text (pc_fact pc) ''predicate''" by (simp_all add: fact_row_def)
  have db': "db' = confirmed_db (pc_decision pc) (pc_fact pc) db" by (fact saved(3))
  have facts: "db_facts db' = db_facts db @ [?row]" by (simp add: db' confirmed_db_def Let_def k)
  have fresh: "fact_pk ?row \<notin> set (map fact_pk (db_facts db))"
    using saved(4) by (simp add: fresh_confirmation_def Let_def k)
  have okd: "histories_chained db" "facts_distinct db" "refs_keyed db"
    "\<forall>d \<in> set (db_decisions db). decision_row_ok d" "\<forall>f \<in> set (db_facts db). fact_row_ok f"
    using ok by (simp_all add: context_ok_def)
  have "fact_super ?row = next_super (fact_history (vf_site ?row) (vf_subject ?row) (vf_predicate ?row) db)"
    using saved(2) super cur site lock_current_fact_next [OF okd(1,2)] by simp
  moreover have "vf_version ?row = next_version (snd (fact_super ?row))" unfolding super by (simp add: row)
  ultimately have "histories_chained db'" by (intro histories_chained_snoc [OF okd(1) facts])
  moreover have "facts_distinct db'" using okd(2) fresh by (simp add: facts_distinct_def facts)
  moreover have "fact_row_ok ?row" using k(8,9) by (simp add: fact_row_ok_def fact_row_def k)
  then have "\<forall>f \<in> set (db_facts db'). fact_row_ok f" using okd(5) by (simp add: facts)
  moreover have "\<forall>d \<in> set (db_decisions db'). decision_row_ok d"
    using okd(4) by (simp add: db' confirmed_db_def Let_def k decision_row_ok_def)
  moreover have "refs_keyed db'"
    using okd(3) by (auto simp: refs_keyed_def db' confirmed_db_def Let_def k decision_pk_def split_beta)
  ultimately show ?thesis by (simp add: context_ok_def)
qed

lemma context_step_ok:
  assumes "context_step pg_text c t t'" and "context_ok (ct_db t)"
  shows "context_ok (ct_db t')"
  using assms
proof (cases rule: context_step.cases)
  case (save now scope kind e m)
  from context_save_records [OF save] show ?thesis
    using assms(2) context_ok_cong [of "ct_db t'" "ct_db t"] by (auto simp: records_added_def)
next
  case (confirm now r db0 pc db')
  with confirm_keeps_ok [OF assms(2)] show ?thesis by simp
next
  case (conflict now cr db0 doc db')
  from save_conflict_tables [OF conflict(3)] assms(2) conflict(1) show ?thesis
    by (simp add: decision_tables_def context_ok_cong [of db' "ct_db t"])
qed simp

lemma context_run_ok:
  assumes "context_run pg_text c t t'" and "context_ok (ct_db t)"
  shows "context_ok (ct_db t')"
  using assms by (induction rule: rtranclp_induct) (auto intro: context_step_ok)

section \<open>Reads are kept\<close>

text \<open>Every step only appends, and what it appends hangs on keys that were not there before.\<close>

definition grows :: "context_db \<Rightarrow> context_db \<Rightarrow> bool" where
  "grows db db' =
     (\<exists>ev ps links ds fs dfs des fes.
        db_evidence db' = db_evidence db @ ev \<and> db_proposals db' = db_proposals db @ ps \<and>
        db_fact_evidence db' = db_fact_evidence db @ links \<and> db_decisions db' = db_decisions db @ ds \<and>
        db_facts db' = db_facts db @ fs \<and> db_decision_facts db' = db_decision_facts db @ dfs \<and>
        db_decision_evidence db' = db_decision_evidence db @ des \<and>
        db_fact_evidence_refs db' = db_fact_evidence_refs db @ fes \<and>
        (\<forall>(site, rid, e) \<in> set links. find_proposal_row site rid db = None) \<and>
        (\<forall>d \<in> set ds. dr_revision d = 1 \<and> decision_pk d \<notin> decision_pk ` set (db_decisions db)) \<and>
        (\<forall>x \<in> set dfs. fst x \<notin> decision_pk ` set (db_decisions db)) \<and>
        (\<forall>x \<in> set des. fst x \<notin> decision_pk ` set (db_decisions db)) \<and>
        (\<forall>x \<in> set fes. fst x \<notin> fact_pk ` set (db_facts db)))"

lemma map_sum_Inr_iff: "map_sum f g x = Inr y \<longleftrightarrow> (\<exists>z. x = Inr z \<and> y = g z)"
  by (cases x) auto

lemma filter_none: "(\<And>x. x \<in> set ys \<Longrightarrow> \<not> P x) \<Longrightarrow> filter P (xs @ ys) = filter P xs"
  by (simp add: filter_empty_conv)

lemma find_append_Some: "find P xs = Some x \<Longrightarrow> find P (xs @ ys) = Some x"
  by (induction xs) (auto split: if_splits)

lemma find_Some_in: "find P xs = Some x \<Longrightarrow> x \<in> set xs \<and> P x"
  by (induction xs) (auto split: if_splits)

lemma evidence_kept:
  "grows db db' \<Longrightarrow> db_get_evidence site ref db = Inr (Some e) \<Longrightarrow> db_get_evidence site ref db' = Inr (Some e)"
  by (auto simp: grows_def db_get_evidence_def map_add_def split: option.splits)

lemma proposal_kept:
  assumes grows: "grows db db'" and get: "db_get_proposal c site ref db = Inr (Some p)"
  shows "db_get_proposal c site ref db' = Inr (Some p)"
proof -
  from get obtain row where row: "find_proposal_row site ref db = Some row"
    by (auto simp: db_get_proposal_def split: option.splits)
  then have "find_proposal_row site ref db' = Some row"
    using grows by (auto simp: grows_def find_proposal_row_def find_append_Some)
  moreover from grows row obtain links where "db_fact_evidence db' = db_fact_evidence db @ links"
    "\<forall>(s, r, e) \<in> set links. find_proposal_row s r db = None" by (auto simp: grows_def)
  then have "filter (\<lambda>(s, p, e). s = site \<and> p = ref) (db_fact_evidence db')
      = filter (\<lambda>(s, p, e). s = site \<and> p = ref) (db_fact_evidence db)"
    using row by (simp only:, intro filter_none) fastforce
  ultimately show ?thesis using get row by (simp add: db_get_proposal_def)
qed

lemma decision_kept:
  assumes grows: "grows db db'" and ok: "context_ok db" and get: "db_get_decision site did db = Inr (Some d)"
  shows "db_get_decision site did db' = Inr (Some d)"
    and "db_decision_fact_refs c site did (doc_int d ''decision_revision'') db'
      = db_decision_fact_refs c site did (doc_int d ''decision_revision'') db"
    and "db_decision_evidence_refs c site did (doc_int d ''decision_revision'') db'
      = db_decision_evidence_refs c site did (doc_int d ''decision_revision'') db"
proof -
  let ?P = "\<lambda>d. dr_site d = site \<and> dr_decision_id d = did"
  let ?rows = "filter ?P (db_decisions db)"
  from get have "?rows \<noteq> []" by (auto simp: db_get_decision_def split: if_splits)
  then have "arg_max_list dr_revision ?rows \<in> set ?rows" by (rule arg_max_list_in)
  then obtain row where row: "row \<in> set (db_decisions db)" "?P row" "row = arg_max_list dr_revision ?rows" by auto
  with ok have rok: "decision_row_ok row" by (simp add: context_ok_def)
  with row get \<open>?rows \<noteq> []\<close> have n: "doc_int d ''decision_revision'' = 1"
    by (auto simp: decision_row_ok_def db_get_decision_def db_document_def Let_def)
  have pk: "(site, did, 1) \<in> decision_pk ` set (db_decisions db)"
    using row rok by (force simp: decision_pk_def decision_row_ok_def)
  from grows obtain ds dfs des where new: "db_decisions db' = db_decisions db @ ds"
    "db_decision_facts db' = db_decision_facts db @ dfs" "db_decision_evidence db' = db_decision_evidence db @ des"
    "\<forall>d \<in> set ds. dr_revision d = 1 \<and> decision_pk d \<notin> decision_pk ` set (db_decisions db)"
    "\<forall>x \<in> set dfs. fst x \<notin> decision_pk ` set (db_decisions db)"
    "\<forall>x \<in> set des. fst x \<notin> decision_pk ` set (db_decisions db)" unfolding grows_def by blast
  have "filter ?P (db_decisions db') = ?rows"
    unfolding new(1) using new(4) pk by (intro filter_none) (auto simp: decision_pk_def)
  then show "db_get_decision site did db' = Inr (Some d)" using get by (simp add: db_get_decision_def)
  have "filter (\<lambda>(k, r). k = (site, did, 1)) (db_decision_facts db')
      = filter (\<lambda>(k, r). k = (site, did, 1)) (db_decision_facts db)"
    unfolding new(2) using new(5) pk by (intro filter_none) auto
  then show "db_decision_fact_refs c site did (doc_int d ''decision_revision'') db'
      = db_decision_fact_refs c site did (doc_int d ''decision_revision'') db"
    by (simp add: db_decision_fact_refs_def n)
  have "filter (\<lambda>(k, e). k = (site, did, 1)) (db_decision_evidence db')
      = filter (\<lambda>(k, e). k = (site, did, 1)) (db_decision_evidence db)"
    unfolding new(3) using new(6) pk by (intro filter_none) auto
  then show "db_decision_evidence_refs c site did (doc_int d ''decision_revision'') db'
      = db_decision_evidence_refs c site did (doc_int d ''decision_revision'') db"
    by (simp add: db_decision_evidence_refs_def n)
qed

lemma fact_kept:
  assumes grows: "grows db db'" and ok: "context_ok db" and get: "db_get_fact site fid v db = Inr (Some f)"
  shows "db_get_fact site fid v db' = Inr (Some f)"
    and "db_get_fact_evidence_refs c site (fs_fact_id f) (fs_fact_version f) db'
      = db_get_fact_evidence_refs c site (fs_fact_id f) (fs_fact_version f) db"
proof -
  from get obtain row where row: "find (\<lambda>f. fact_pk f = (site, fid, v)) (db_facts db) = Some row"
    and f: "snapshot_of_row row = Inr f" by (auto simp: db_get_fact_def map_sum_Inr_iff split: option.splits)
  from grows obtain fs fes where new: "db_facts db' = db_facts db @ fs"
    "db_fact_evidence_refs db' = db_fact_evidence_refs db @ fes"
    "\<forall>x \<in> set fes. fst x \<notin> fact_pk ` set (db_facts db)" unfolding grows_def by blast
  show "db_get_fact site fid v db' = Inr (Some f)"
    using f find_append_Some [OF row] by (simp add: db_get_fact_def new(1))
  from find_Some_in [OF row] have mem: "row \<in> set (db_facts db)" and pk: "fact_pk row = (site, fid, v)" by auto
  with ok have "fact_row_ok row" by (simp add: context_ok_def)
  then have "fs_fact_id f = fid \<and> fs_fact_version f = v"
    using f pk by (auto simp: fact_row_ok_def snapshot_of_row_def db_document_def fact_from_document_def fact_pk_def
        split: json.splits if_splits)
  moreover have "(site, fid, v) \<in> fact_pk ` set (db_facts db)" using mem pk by force
  then have "filter (\<lambda>(k, e). k = (site, fid, v)) (db_fact_evidence_refs db')
      = filter (\<lambda>(k, e). k = (site, fid, v)) (db_fact_evidence_refs db)"
    unfolding new(2) using new(3) by (intro filter_none) auto
  ultimately show "db_get_fact_evidence_refs c site (fs_fact_id f) (fs_fact_version f) db'
      = db_get_fact_evidence_refs c site (fs_fact_id f) (fs_fact_version f) db"
    by (simp add: db_get_fact_evidence_refs_def)
qed

lemma decision_pk_row [simp]:
  "decision_pk \<lparr>dr_site = s, dr_decision_id = d, dr_revision = n, dr_document = j\<rparr> = (s, d, n)"
  by (simp add: decision_pk_def)

lemma context_step_grows:
  assumes "context_step pg_text c t t'"
  shows "grows (ct_db t) (ct_db t')"
  using assms
proof (cases rule: context_step.cases)
  case (observe k)
  then show ?thesis unfolding grows_def by (intro exI [of _ "[]"]) simp
next
  case (save now scope kind e m)
  from context_save_records [OF save] obtain ev ps links where
    "ct_db t' = (ct_db t)\<lparr>db_evidence := db_evidence (ct_db t) @ ev, db_proposals := db_proposals (ct_db t) @ ps,
                db_fact_evidence := db_fact_evidence (ct_db t) @ links\<rparr>"
    "\<forall>(site, rid, e) \<in> set links. find_proposal_row site rid (ct_db t) = None" by (auto simp: records_added_def)
  then show ?thesis unfolding grows_def
    by (intro exI [of _ ev] exI [of _ ps] exI [of _ links] exI [of _ "[]"]) simp
next
  case (confirm now r db0 pc db')
  note k = prepared_keys [OF confirm(2)]
    and saved = save_confirmation_Inr(3,4) [OF confirm(3) [unfolded apply_confirmation_def]]
  have fresh: "(cr_site_id r, cr_decision_id r, 1) \<notin> decision_pk ` set (db_decisions (ct_db t))"
    "(cr_site_id r, cr_fact_id r, next_version (cr_super_version r)) \<notin> fact_pk ` set (db_facts (ct_db t))"
    using saved(2) by (simp_all add: fresh_confirmation_def Let_def k)
  have "grows (ct_db t) (confirmed_db (pc_decision pc) (pc_fact pc) (ct_db t))"
    unfolding grows_def confirmed_db_def Let_def k
    by (rule exI [of _ "[]"], rule exI [of _ "[]"], rule exI [of _ "[]"], intro exI conjI)
      (simp_all add: fresh split_beta k, auto simp: fresh)
  then show ?thesis using confirm(1) saved(1) by simp
next
  case (conflict now cr db0 doc db')
  from save_conflict_tables [OF conflict(3)] conflict(1) show ?thesis
    unfolding grows_def decision_tables_def by (intro exI [of _ "[]"]) simp
qed

lemma context_run_keeps:
  assumes run: "context_run pg_text c t t'" and ok: "context_ok (ct_db t)" and start: "P (ct_db t)"
    and kept: "\<And>db db'. grows db db' \<Longrightarrow> context_ok db \<Longrightarrow> P db \<Longrightarrow> P db'"
  shows "P (ct_db t')"
  using run start
proof (induction rule: rtranclp_induct)
  case (step t1 t2)
  show ?case
    using kept [OF context_step_grows [OF step(2)] context_run_ok [OF step(1) ok] step(3) [OF step(4)]] .
qed simp

lemma map_raise_mono:
  assumes "map_raise f xs = Inr ys" and "\<And>x y. f x = Inr y \<Longrightarrow> g x = Inr y"
  shows "map_raise g xs = Inr ys"
  using assms unfolding map_raise_Inr_iff by (auto elim: list_all2_mono)

lemma trace_fact_kept:
  assumes "grows db db'" and "context_ok db" and "trace_fact c site did decision db ref = Inr v"
  shows "trace_fact c site did decision db' ref = Inr v"
proof -
  from assms(3) obtain f where f: "db_get_fact site (fst ref) (snd ref) db = Inr (Some f)"
    by (auto simp: trace_fact_def split: sum.splits option.splits)
  from assms(3) show ?thesis
    unfolding trace_fact_def f fact_kept [OF assms(1,2) f] sum.case option.case .
qed

lemma trace_evidence_kept:
  assumes "grows db db'" and "trace_evidence site db ref = Inr v"
  shows "trace_evidence site db' ref = Inr v"
proof -
  from assms(2) obtain e where e: "db_get_evidence site ref db = Inr (Some e)"
    by (auto simp: trace_evidence_def split: sum.splits option.splits)
  from assms(2) show ?thesis unfolding trace_evidence_def e evidence_kept [OF assms(1) e] .
qed

lemma trace_kept:
  assumes "grows db db'" and "context_ok db" and "trace c site did db = Inr t"
  shows "trace c site did db' = Inr t"
proof -
  from assms(3) obtain d p fs es where
    d: "db_get_decision site did db = Inr (Some d)"
    and refs: "db_decision_fact_refs c site did (doc_int d ''decision_revision'') db = trace_fact_refs d"
      "db_decision_evidence_refs c site did (doc_int d ''decision_revision'') db = sort (doc_texts d ''evidence_refs'')"
    and p: "db_get_proposal c site (doc_text d ''proposal_ref'') db = Inr (Some p)"
    and exact: "py_eq (JStr (ps_version p)) (jget d ''proposal_version'')"
      "py_eq (JInt (ps_revision p)) (jget d ''proposal_revision'')"
    and fs: "map_raise (trace_fact c site did d db) (doc_fact_refs d ''output_fact_refs'') = Inr fs"
    and es: "map_raise (trace_evidence site db) (doc_texts d ''evidence_refs'') = Inr es"
    and t: "t = [(''schema_version'', JStr ''1.0''), (''site_id'', JStr site), (''decision'', JObj d),
      (''proposal'', trace_proposal p), (''facts'', JList fs), (''evidence'', JList es)]"
    by (auto simp: trace_def Let_def split: sum.splits option.splits if_splits)
  have "map_raise (trace_fact c site did d db') (doc_fact_refs d ''output_fact_refs'') = Inr fs"
    by (rule map_raise_mono [OF fs]) (rule trace_fact_kept [OF assms(1,2)])
  moreover have "map_raise (trace_evidence site db') (doc_texts d ''evidence_refs'') = Inr es"
    by (rule map_raise_mono [OF es]) (rule trace_evidence_kept [OF assms(1)])
  ultimately show ?thesis
    unfolding trace_def decision_kept [OF assms(1,2) d] proposal_kept [OF assms(1) p] refs Let_def sum.case option.case
    by (simp add: exact t del: py_eq.simps py_eq_JStr)
qed

end
