(* ===== verification/Context_Trace.thy ===== *)
theory Context_Trace
  imports Context_Properties "HOL-Library.Multiset"
begin

text \<open>
  Tracing a decision back. Once a confirmation is saved, the trace of its decision returns the decision,
  its proposal, the fact and the evidence documents, whatever happens later, provided that the database
  orders text by code points; under a collation that orders the references otherwise, the comparison
  with Python's \<open>sorted\<close> fails.
\<close>

section \<open>Collations\<close>

lemma map_less_iff:
  fixes f :: "'a::linorder \<Rightarrow> 'b::linorder"
  assumes "\<And>x y. f x < f y \<longleftrightarrow> x < y"
  shows "map f xs < map f ys \<longleftrightarrow> xs < ys"
proof -
  have eq: "f x = f y \<longleftrightarrow> x = y" for x y using assms by (metis less_irrefl linorder_cases)
  show ?thesis by (induction xs ys rule: list_induct2') (simp_all add: assms eq)
qed

lemma c_locale_less: "c_locale s < c_locale t \<longleftrightarrow> s < t"
proof -
  have "(of_char x :: int) < of_char y \<longleftrightarrow> x < y" for x y :: char
    by (simp add: less_char_def flip: of_nat_of_char [where 'a = int])
  then show ?thesis unfolding c_locale_def by (rule map_less_iff)
qed

lemma c_locale_eq [simp]: "c_locale s = c_locale t \<longleftrightarrow> s = t"
  using c_locale_less by (metis less_irrefl linorder_cases)

lemma sort_key_monotone:
  assumes "\<And>x y. f x \<le> f y \<longleftrightarrow> x \<le> y"
  shows "sort_key f xs = sort xs"
proof (rule sort_key_inj_key_eq)
  show "inj_on f (set xs)" using assms by (intro inj_onI) (metis antisym order_refl)
  show "sorted (map f (sort xs))" by (simp add: sorted_map assms)
qed simp

lemma order_texts_c_locale: "order_texts c_locale xs = sort xs"
  unfolding order_texts_def
  by (rule sort_key_monotone) (auto simp: less_eq_prod_def c_locale_less le_less)

lemma order_fact_refs_c_locale: "order_fact_refs c_locale xs = sort xs"
  unfolding order_fact_refs_def
  by (rule sort_key_monotone) (auto simp: less_eq_prod_def less_prod_def c_locale_less le_less)

section \<open>A saved decision\<close>

text \<open>What the reads of a decision return as soon as it is saved, under any collation.\<close>

definition decision_saved :: "collation \<Rightarrow> confirmation_request \<Rightarrow> prepared_confirmation \<Rightarrow> context_db \<Rightarrow> bool" where
  "decision_saved c r pc db =
     (let site = cr_site_id r; did = cr_decision_id r; v = next_version (cr_super_version r);
          es = cr_evidence_refs r; f = \<lparr>fs_site_id = site, fs_fact_id = cr_fact_id r, fs_fact_version = v,
            fs_document = pc_fact pc\<rparr> in
      db_get_decision site did db = Inr (Some (pc_decision pc)) \<and>
      db_decision_fact_refs c site did 1 db =
        order_fact_refs c (map (Pair ''input'') (doc_fact_refs (pc_decision pc) ''input_fact_refs'') @
          [(''output'', cr_fact_id r, v)]) \<and>
      db_decision_evidence_refs c site did 1 db = order_texts c es \<and>
      db_get_fact site (cr_fact_id r) v db = Inr (Some f) \<and>
      db_get_fact_evidence_refs c site (cr_fact_id r) v db = order_texts c es)"

lemma filter_keyed:
  "k \<notin> fst ` set xs \<Longrightarrow> filter (\<lambda>(k', x). k' = k) xs = []"
  by (force simp: filter_empty_conv)

lemma filter_keyed_map [simp]: "filter (\<lambda>(k', x). k' = k) (map (Pair k) xs) = map (Pair k) xs"
  by (simp add: filter_map comp_def)

lemma find_append_None: "find P xs = None \<Longrightarrow> find P (xs @ ys) = find P ys"
  by (induction xs) (auto split: if_splits)

lemma confirmation_saved:
  assumes ok: "context_ok db" and prep: "prepare_confirmation c now r db0 = Inr pc"
    and app: "apply_confirmation pc db = Inr db'" and ids: "cr_site_id r \<noteq> []" "cr_fact_id r \<noteq> []"
  shows "decision_saved c r pc db'"
proof -
  let ?site = "cr_site_id r" and ?did = "cr_decision_id r" and ?v = "next_version (cr_super_version r)"
  let ?dec = "pc_decision pc" and ?fct = "pc_fact pc" and ?es = "cr_evidence_refs r"
  let ?dk = "(?site, ?did, 1 :: int)" and ?fk = "(?site, cr_fact_id r, ?v)"
  let ?ins = "doc_fact_refs ?dec ''input_fact_refs''"
  note k = prepared_keys [OF prep]
    and saved = save_confirmation_Inr(3,4) [OF app [unfolded apply_confirmation_def]]
  have db': "db' = db\<lparr>db_decisions := db_decisions db @
        [\<lparr>dr_site = ?site, dr_decision_id = ?did, dr_revision = 1, dr_document = JObj ?dec\<rparr>],
      db_facts := db_facts db @ [fact_row ?site 1 ?fct],
      db_decision_facts := db_decision_facts db @ map (Pair ?dk) (map (Pair ''input'') ?ins @ [(''output'', cr_fact_id r, ?v)]),
      db_decision_evidence := db_decision_evidence db @ map (Pair ?dk) ?es,
      db_fact_evidence_refs := db_fact_evidence_refs db @ map (Pair ?fk) ?es\<rparr>"
    using saved(1) by (simp add: confirmed_db_def Let_def k comp_def split_beta)
  have fresh: "?dk \<notin> decision_pk ` set (db_decisions db)" "?fk \<notin> fact_pk ` set (db_facts db)"
    using saved(2) by (simp_all add: fresh_confirmation_def Let_def k)
  have rows: "\<forall>d \<in> set (db_decisions db). dr_revision d = 1" and keyed: "refs_keyed db"
    using ok by (auto simp: context_ok_def decision_row_ok_def)
  have "filter (\<lambda>d. dr_site d = ?site \<and> dr_decision_id d = ?did) (db_decisions db) = []"
    using rows fresh(1) by (force simp: filter_empty_conv decision_pk_def)
  then have "db_get_decision ?site ?did db' = Inr (Some ?dec)"
    by (simp add: db_get_decision_def db' db_document_def)
  moreover have "filter (\<lambda>(k, x). k = ?dk) (db_decision_facts db) = []"
    "filter (\<lambda>(k, x). k = ?dk) (db_decision_evidence db) = []" "filter (\<lambda>(k, x). k = ?fk) (db_fact_evidence_refs db) = []"
    using keyed fresh by (auto simp: refs_keyed_def intro!: filter_keyed)
  then have "db_decision_fact_refs c ?site ?did 1 db' =
        order_fact_refs c (map (Pair ''input'') ?ins @ [(''output'', cr_fact_id r, ?v)])"
    "db_decision_evidence_refs c ?site ?did 1 db' = order_texts c ?es"
    "db_get_fact_evidence_refs c ?site (cr_fact_id r) ?v db' = order_texts c ?es"
    unfolding db_decision_fact_refs_def db_decision_evidence_refs_def db_get_fact_evidence_refs_def db'
    by (simp_all only: filter_append filter_keyed_map context_db.simps append_Nil map_map map_append list.simps) (simp_all add: comp_def)
  moreover have "find (\<lambda>f. fact_pk f = ?fk) (db_facts db) = None"
    using fresh(2) unfolding find_None_iff by force
  then have "db_get_fact ?site (cr_fact_id r) ?v db' = Inr (Some \<lparr>fs_site_id = ?site, fs_fact_id = cr_fact_id r,
      fs_fact_version = ?v, fs_document = ?fct\<rparr>)"
    using k ids by (simp add: db_get_fact_def db' find_append_None snapshot_of_row_def fact_row_def fact_pk_def
        db_document_def fact_from_document_def)
  ultimately show ?thesis by (simp add: decision_saved_def Let_def)
qed

lemma decision_saved_kept:
  assumes "grows db db'" and "context_ok db" and "decision_saved c r pc db"
    and "doc_int (pc_decision pc) ''decision_revision'' = 1"
  shows "decision_saved c r pc db'"
proof -
  from assms(3) have d: "db_get_decision (cr_site_id r) (cr_decision_id r) db = Inr (Some (pc_decision pc))"
    and f: "db_get_fact (cr_site_id r) (cr_fact_id r) (next_version (cr_super_version r)) db =
      Inr (Some \<lparr>fs_site_id = cr_site_id r, fs_fact_id = cr_fact_id r,
        fs_fact_version = next_version (cr_super_version r), fs_document = pc_fact pc\<rparr>)"
    by (simp_all add: decision_saved_def Let_def)
  show ?thesis
    using assms(3) decision_kept [OF assms(1,2) d] fact_kept [OF assms(1,2) f]
    by (simp add: decision_saved_def Let_def assms(4))
qed

section \<open>Its trace\<close>

lemma get_proposal_ref: "db_get_proposal c site ref db = Inr (Some p) \<Longrightarrow> ps_proposal_ref p = ref"
  unfolding db_get_proposal_def find_proposal_row_def
  by (auto split: option.splits dest!: find_Some_in simp: map_sum_Inr_iff proposal_from_row_def if_Inl_Inr_iff
      sum_case_Inr_iff simp del: if_split)

lemma check_evidence_Inr:
  assumes "check_evidence site es db = Inr u"
  shows "\<exists>docs. list_all2 (\<lambda>e doc. db_get_evidence site e db =
    Inr (Some \<lparr>es_site_id = site, es_evidence_id = e, es_document = doc\<rparr>)) es docs"
  using assms
proof (induction es)
  case (Cons e es)
  from Cons.prems obtain x where x: "db_get_evidence site e db = Inr (Some x)" and rest: "check_evidence site es db = Inr u"
    by (auto split: sum.splits option.splits)
  from x have "db_get_evidence site e db =
      Inr (Some \<lparr>es_site_id = site, es_evidence_id = e, es_document = es_document x\<rparr>)"
    by (auto simp: db_get_evidence_def map_sum_Inr_iff split: option.splits)
  with Cons.IH [OF rest] show ?case by blast
qed auto

definition saved_trace :: "confirmation_request \<Rightarrow> prepared_confirmation \<Rightarrow> proposal_snapshot \<Rightarrow> fields list \<Rightarrow> fields" where
  "saved_trace r pc p docs =
     [(''schema_version'', JStr ''1.0''), (''site_id'', JStr (cr_site_id r)),
      (''decision'', JObj (pc_decision pc)), (''proposal'', trace_proposal p),
      (''facts'', JList [JObj (pc_fact pc)]), (''evidence'', JList (map JObj docs))]"

lemma trace_saved:
  assumes prep: "prepare_confirmation c now r db0 = Inr pc" and saved: "decision_saved c r pc db"
    and p: "db_get_proposal c (cr_site_id r) (cr_proposal_ref r) db = Inr (Some p)"
    and exact: "ps_version p = cr_proposal_version r" "ps_revision p = cr_proposal_revision r"
      "jget (pc_fact pc) ''proposal_ref'' = jget (pc_decision pc) ''proposal_ref''"
    and docs: "list_all2 (\<lambda>e doc. db_get_evidence (cr_site_id r) e db =
      Inr (Some \<lparr>es_site_id = cr_site_id r, es_evidence_id = e, es_document = doc\<rparr>)) (cr_evidence_refs r) docs"
  shows "trace c (cr_site_id r) (cr_decision_id r) db =
    (if order_fact_refs c (map (Pair ''input'') (doc_fact_refs (pc_decision pc) ''input_fact_refs'') @
          [(''output'', cr_fact_id r, next_version (cr_super_version r))]) \<noteq> trace_fact_refs (pc_decision pc)
     then Inl (Trace_integrity ''decision relational fact lineage disagrees'')
     else if order_texts c (cr_evidence_refs r) \<noteq> sort (cr_evidence_refs r)
     then Inl (Trace_integrity ''decision relational evidence lineage disagrees'')
     else Inr (saved_trace r pc p docs))"
proof -
  let ?site = "cr_site_id r" and ?did = "cr_decision_id r" and ?es = "cr_evidence_refs r"
  let ?dec = "pc_decision pc"
  note k = prepared_keys [OF prep]
  have reads: "db_get_decision ?site ?did db = Inr (Some ?dec)"
    "db_decision_fact_refs c ?site ?did 1 db = order_fact_refs c (map (Pair ''input'') (doc_fact_refs ?dec ''input_fact_refs'') @
          [(''output'', cr_fact_id r, next_version (cr_super_version r))])"
    "db_decision_evidence_refs c ?site ?did 1 db = order_texts c ?es"
    "db_get_fact ?site (cr_fact_id r) (next_version (cr_super_version r)) db = Inr (Some \<lparr>fs_site_id = ?site,
      fs_fact_id = cr_fact_id r, fs_fact_version = next_version (cr_super_version r), fs_document = pc_fact pc\<rparr>)"
    "db_get_fact_evidence_refs c ?site (cr_fact_id r) (next_version (cr_super_version r)) db = order_texts c ?es"
    using saved by (simp_all add: decision_saved_def Let_def)
  have "map_raise (trace_evidence ?site db) ?es = Inr (map JObj docs)"
    unfolding map_raise_Inr_iff list_all2_map2 using docs
    by (rule list_all2_mono) (simp add: trace_evidence_def)
  moreover have "trace_fact c ?site ?did ?dec db (cr_fact_id r, next_version (cr_super_version r)) = Inr (JObj (pc_fact pc))"
    if "order_texts c ?es = sort ?es"
  proof -
    have "py_eq (jget (pc_fact pc) ''proposal_ref'') (jget ?dec ''proposal_ref'')"
      using exact(3) prepare_confirmation_Inr [OF prep] build_decision_fields(4) by (metis py_eq_JStr)
    moreover have "fact_evidence_refs \<lparr>fs_site_id = ?site, fs_fact_id = cr_fact_id r,
        fs_fact_version = next_version (cr_super_version r), fs_document = pc_fact pc\<rparr> = ?es"
      by (simp add: fact_evidence_refs_def k comp_def)
    ultimately show ?thesis using reads that by (simp add: trace_fact_def k)
  qed
  ultimately show ?thesis
    by (simp add: trace_def reads k Let_def p exact saved_trace_def)
qed

lemma prepared_proposal:
  assumes "prepare_confirmation c now r db = Inr pc"
  obtains p docs where "db_get_proposal c (cr_site_id r) (cr_proposal_ref r) db = Inr (Some p)"
    "ps_version p = cr_proposal_version r" "ps_revision p = cr_proposal_revision r"
    "jget (pc_fact pc) ''proposal_ref'' = jget (pc_decision pc) ''proposal_ref''"
    "list_all2 (\<lambda>e doc. db_get_evidence (cr_site_id r) e db =
      Inr (Some \<lparr>es_site_id = cr_site_id r, es_evidence_id = e, es_document = doc\<rparr>)) (cr_evidence_refs r) docs"
proof -
  obtain p current vt where checked: "checked_proposal c (cr_site_id r) (cr_purpose r) (cr_proposal_ref r)
      (cr_proposal_version r) (cr_proposal_revision r) db = Inr p"
    and ev: "check_evidence (cr_site_id r) (cr_evidence_refs r) db = Inr ()"
    and fct: "build_fact r p (case current of None \<Rightarrow> 1 | Some f \<Rightarrow> fs_fact_version f + 1) vt now = Inr (pc_fact pc)"
    and dec: "build_decision r current (case current of None \<Rightarrow> 1 | Some f \<Rightarrow> fs_fact_version f + 1) vt now
      = Inr (pc_decision pc)"
    by (rule prepare_confirmation_Inr [OF assms])
  note p = checked_proposal_Inr [OF checked]
  have "jget (pc_fact pc) ''proposal_ref'' = jget (pc_decision pc) ''proposal_ref''"
    using build_fact_fields(3) [OF fct] build_decision_fields(4) [OF dec] get_proposal_ref [OF p(1)] by simp
  with p check_evidence_Inr [OF ev] show thesis using that by blast
qed

text \<open>The trace at any later time: both comparisons of references, then the saved documents.\<close>

lemma later_trace:
  assumes prep: "prepare_confirmation c now r (ct_db t0) = Inr pc" and reach: "context_run pg_text c empty_tables t0"
    and wait: "context_run pg_text c t0 t" and app: "apply_confirmation pc (ct_db t) = Inr db"
    and later: "context_run pg_text c (t\<lparr>ct_db := db\<rparr>) t'" and ids: "cr_site_id r \<noteq> []" "cr_fact_id r \<noteq> []"
    and p: "db_get_proposal c (cr_site_id r) (cr_proposal_ref r) (ct_db t0) = Inr (Some p)"
    and docs: "list_all2 (\<lambda>e doc. db_get_evidence (cr_site_id r) e (ct_db t0) =
      Inr (Some \<lparr>es_site_id = cr_site_id r, es_evidence_id = e, es_document = doc\<rparr>)) (cr_evidence_refs r) docs"
  shows "trace c (cr_site_id r) (cr_decision_id r) (ct_db t') =
    (if order_fact_refs c (map (Pair ''input'') (doc_fact_refs (pc_decision pc) ''input_fact_refs'') @
          [(''output'', cr_fact_id r, next_version (cr_super_version r))]) \<noteq> trace_fact_refs (pc_decision pc)
     then Inl (Trace_integrity ''decision relational fact lineage disagrees'')
     else if order_texts c (cr_evidence_refs r) \<noteq> sort (cr_evidence_refs r)
     then Inl (Trace_integrity ''decision relational evidence lineage disagrees'')
     else Inr (saved_trace r pc p docs))"
proof -
  have ok0: "context_ok (ct_db t0)" by (rule context_run_ok [OF reach context_ok_empty])
  have ok: "context_ok (ct_db t)" by (rule context_run_ok [OF wait ok0])
  have ok1: "context_ok (ct_db (t\<lparr>ct_db := db\<rparr>))" using confirm_keeps_ok [OF ok prep app] by simp
  have run: "context_run pg_text c t0 t'"
    using wait context_step.confirm [OF prep app] later by (meson rtranclp.rtrancl_into_rtrancl rtranclp_trans)
  have saved: "decision_saved c r pc (ct_db t')"
    by (rule context_run_keeps [OF later ok1, where P = "decision_saved c r pc"])
      (use confirmation_saved [OF ok prep app ids] decision_saved_kept prepared_keys(3) [OF prep] in auto)
  have p': "db_get_proposal c (cr_site_id r) (cr_proposal_ref r) (ct_db t') = Inr (Some p)"
    by (rule context_run_keeps [OF run ok0, where P = "\<lambda>db. db_get_proposal c (cr_site_id r) (cr_proposal_ref r) db =
      Inr (Some p)"]) (fact p, rule proposal_kept)
  have docs': "list_all2 (\<lambda>e doc. db_get_evidence (cr_site_id r) e (ct_db t') =
      Inr (Some \<lparr>es_site_id = cr_site_id r, es_evidence_id = e, es_document = doc\<rparr>)) (cr_evidence_refs r) docs"
    by (rule context_run_keeps [OF run ok0, where P = "\<lambda>db. list_all2 (\<lambda>e doc. db_get_evidence (cr_site_id r) e db =
      Inr (Some \<lparr>es_site_id = cr_site_id r, es_evidence_id = e, es_document = doc\<rparr>)) (cr_evidence_refs r) docs"])
      (fact docs, erule list_all2_mono, erule (1) evidence_kept)
  obtain p0 where p0: "db_get_proposal c (cr_site_id r) (cr_proposal_ref r) (ct_db t0) = Inr (Some p0)"
    "ps_version p0 = cr_proposal_version r" "ps_revision p0 = cr_proposal_revision r"
    "jget (pc_fact pc) ''proposal_ref'' = jget (pc_decision pc) ''proposal_ref''"
    by (rule prepared_proposal [OF prep]) (rule that)
  with p have "p0 = p" by simp
  with p0 show ?thesis by (intro trace_saved [OF prep saved p' _ _ _ docs']) simp_all
qed

section \<open>An example\<close>

text \<open>Two pieces of evidence, one proposal resting on both, and the request that confirms it.\<close>

definition demo_scope :: context_scope where
  "demo_scope = \<lparr>sc_site_id = ''esan'', sc_purpose = ''business_operations''\<rparr>"

definition demo_governed :: "string \<Rightarrow> fields \<Rightarrow> governed_envelope" where
  "demo_governed key payload = \<lparr>ge_site_id = ''esan'', ge_purpose = ''business_operations'', ge_key = key,
     ge_digest = ''digest of '' @ key, ge_payload = payload\<rparr>"

definition demo_evidence_payload :: "string \<Rightarrow> fields" where
  "demo_evidence_payload ref =
     [(''evidence_record_id'', JStr ref), (''evidence_ref'', JObj [(''evidence_id'', JStr ''obs-1'')]),
      (''review_status'', JStr ''raw''), (''data_classification'', JStr ''internal'')]"

definition demo_proposal_payload :: fields where
  "demo_proposal_payload =
     [(''fact_proposal_record_id'', JStr ''fp-1''), (''output_version'', JStr ''v1''),
      (''fact'', JObj [(''status'', JStr ''proposed''), (''subject_ref'', JStr ''customer-1''),
         (''predicate'', JStr ''prefers''), (''confidence'', JInt 1), (''value'', JObj [(''colour'', JStr ''red'')]),
         (''evidence_refs'', JList [JStr ''a'', JStr ''B''])]),
      (''valid_time'', JObj [(''start'', JStr ''2026-01-01T00:00:00Z''), (''end'', JNull)]),
      (''source_lineage'', JObj [(''source_record_refs'', JList [])]),
      (''recorded_time'', JStr ''2026-01-01T00:00:00Z'')]"

definition demo_tables :: context_tables where
  "demo_tables =
     \<lparr>ct_db = empty_db\<lparr>
        db_evidence := [((''esan'', ''a''), JObj (demo_evidence_payload ''a'')),
          ((''esan'', ''B''), JObj (demo_evidence_payload ''B''))],
        db_proposals := [\<lparr>pp_site = ''esan'', pp_ref = ''fp-1'', pp_purpose = ''business_operations'',
          pp_version = Some ''v1'', pp_revision = 1, pp_subject = ''customer-1'', pp_predicate = ''prefers'',
          pp_document = JObj demo_proposal_payload, pp_digest = ''digest of p'', pp_recorded_at = Aware 0\<rparr>],
        db_fact_evidence := [(''esan'', ''fp-1'', ''a''), (''esan'', ''fp-1'', ''B'')]\<rparr>,
      ct_metadata = [metadata_create Evidence_record ''a'' (demo_governed ''a'' (demo_evidence_payload ''a'')) (Aware 0),
        metadata_create Evidence_record ''B'' (demo_governed ''B'' (demo_evidence_payload ''B'')) (Aware 0),
        metadata_create Fact_proposal ''fp-1'' (demo_governed ''p'' demo_proposal_payload) (Aware 0)],
      ct_candidates = [], ct_observed = [(''esan'', ''obs-1'')]\<rparr>"

definition demo_request :: confirmation_request where
  "demo_request =
     \<lparr>cr_site_id = ''esan'', cr_purpose = ''business_operations'', cr_proposal_ref = ''fp-1'',
      cr_proposal_version = ''v1'', cr_proposal_revision = 1, cr_decision_id = ''d-1'', cr_fact_id = ''f-1'',
      cr_kind = Human, cr_operator = ''ann'', cr_basis = ''read both'', cr_evidence_refs = [''a'', ''B''],
      cr_valid_start = Aware 1767225600000000, cr_valid_end = None, cr_effective_at = Aware 1767225600000000,
      cr_correlation_id = ''c-1'', cr_rule_version = None, cr_super_ref = None, cr_super_version = None,
      cr_current_version = None\<rparr>"

definition demo_now :: datetime where
  "demo_now = Aware 1767312000000000"

lemmas demo_record_defs = context_save_def validate_governed_record_def record_id_for_def child_insertions_def
  evidence_children_def stored_under_def insert_record_def insert_child_def metadata_create_def Let_def
  demo_scope_def demo_governed_def demo_evidence_payload_def demo_proposal_payload_def forbidden_gate4_fields_def
  text_columns_def evidence_exists_def find_proposal_row_def json_text_column_def

definition demo_saved :: "string \<Rightarrow> fields \<Rightarrow> context_tables \<Rightarrow> context_tables" where
  "demo_saved ref payload t = t\<lparr>
     ct_metadata := ct_metadata t @ [metadata_create Evidence_record ref (demo_governed ref payload) (Aware 0)],
     ct_db := (ct_db t)\<lparr>db_evidence := db_evidence (ct_db t) @ [((''esan'', ref), JObj payload)]\<rparr>\<rparr>"

lemma demo_context_run: "context_run pg_text c empty_tables demo_tables"
proof -
  let ?t1 = "empty_tables\<lparr>ct_observed := [(''esan'', ''obs-1'')]\<rparr>"
  let ?t2 = "demo_saved ''a'' (demo_evidence_payload ''a'') ?t1"
  let ?t3 = "demo_saved ''B'' (demo_evidence_payload ''B'') ?t2"
  have s2: "context_save pg_text (Aware 0) demo_scope Evidence_record (demo_governed ''a'' (demo_evidence_payload ''a'')) ?t1
      = (Inr (metadata_create Evidence_record ''a'' (demo_governed ''a'' (demo_evidence_payload ''a'')) (Aware 0)), ?t2)"
    by (simp add: demo_record_defs demo_saved_def empty_tables_def empty_db_def)
  have s3: "context_save pg_text (Aware 0) demo_scope Evidence_record (demo_governed ''B'' (demo_evidence_payload ''B'')) ?t2
      = (Inr (metadata_create Evidence_record ''B'' (demo_governed ''B'' (demo_evidence_payload ''B'')) (Aware 0)), ?t3)"
    by (simp add: demo_record_defs demo_saved_def empty_tables_def empty_db_def)
  have confidence: "confidence_column (JInt 1)"
    by (simp add: confidence_column_def column_number_def dec_of_int_def dec_le_def dec_scaled_def)
  have s4: "context_save pg_text (Aware 0) demo_scope Fact_proposal (demo_governed ''p'' demo_proposal_payload) ?t3
      = (Inr (metadata_create Fact_proposal ''fp-1'' (demo_governed ''p'' demo_proposal_payload) (Aware 0)), demo_tables)"
    by (simp add: demo_record_defs demo_saved_def empty_tables_def empty_db_def demo_tables_def confidence strip_by_def)
  have "context_step pg_text c empty_tables ?t1"
    using context_step.observe [of pg_text c empty_tables "(''esan'', ''obs-1'')"] by (simp add: empty_tables_def)
  with context_step.save [OF s2] context_step.save [OF s3] context_step.save [OF s4] show ?thesis
    by (meson rtranclp.intros)
qed

definition demo_confirms :: "collation \<Rightarrow> bool" where
  "demo_confirms c =
     (case prepare_confirmation c demo_now demo_request (ct_db demo_tables) of
        Inl _ \<Rightarrow> False
      | Inr pc \<Rightarrow> (case apply_confirmation pc (ct_db demo_tables) of Inl _ \<Rightarrow> False | Inr _ \<Rightarrow> True))"

lemma demo_confirmsE:
  assumes "demo_confirms c"
  obtains pc db where "prepare_confirmation c demo_now demo_request (ct_db demo_tables) = Inr pc"
    "apply_confirmation pc (ct_db demo_tables) = Inr db"
  using assms by (auto simp: demo_confirms_def split: sum.splits)

text \<open>A collation that ignores case, as the default locales of a database server do at first.\<close>

definition caseless :: collation where
  "caseless = map (of_char \<circ> char_lower)"

lemma demo_confirms_c_locale: "demo_confirms c_locale" by code_simp
lemma demo_confirms_caseless: "demo_confirms caseless" by code_simp
lemma caseless_order: "order_texts caseless [''a'', ''B''] \<noteq> sort [''a'', ''B'']" by code_simp

lemma demo_fields: "cr_site_id demo_request = ''esan''" "cr_fact_id demo_request = ''f-1''"
  "cr_evidence_refs demo_request = [''a'', ''B'']" by (simp_all add: demo_request_def)

section \<open>Properties\<close>

text \<open>
  C24. Whatever records, confirmations and conflicts are saved, and however stale the state was that a
  confirmation was prepared against, the facts of a subject and predicate form one chain: versions
  1, 2, 3 and so on, each superseding exactly the one before, and the current fact is the last one.
\<close>

theorem fact_history_is_linear:
  assumes run: "context_run pg_text c empty_tables t"
    and fs: "fs = fact_history site subject predicate (ct_db t)"
  shows "distinct (map fact_pk (db_facts (ct_db t))) \<and>
    (\<forall>i < length fs. vf_version (fs ! i) = int i + 1 \<and>
       (vf_super_id (fs ! i), vf_super_version (fs ! i)) =
         (if i = 0 then (None, None) else (Some (vf_fact_id (fs ! (i - 1))), Some (int i)))) \<and>
    current_row site subject predicate (ct_db t) = (if fs = [] then None else Some (last fs))"
proof -
  have ok: "histories_chained (ct_db t)" "facts_distinct (ct_db t)"
    using context_run_ok [OF run context_ok_empty] by (simp_all add: context_ok_def)
  have "fact_super (fs ! i) = (if i = 0 then (None, None) else (Some (vf_fact_id (fs ! (i - 1))), Some (int i)))"
    if "i < length fs" for i
    using chainedD(2) [OF ok(1) that [unfolded fs]] chainedD(1) [OF ok(1), of "i - 1" site subject predicate] that
      next_super_take [of i fs] by (auto simp: fs next_super_def)
  then show ?thesis
    using chainedD(1) [OF ok(1), of _ site subject predicate] current_row_last [OF ok, of site subject predicate] ok(2)
    by (simp add: fs facts_distinct_def fact_super_def Let_def)
qed

lemma demo_tables_confirmed:
  obtains pc db where "apply_confirmation pc (ct_db demo_tables) = Inr db"
    "prepare_confirmation c_locale demo_now demo_request (ct_db demo_tables) = Inr pc"
    "context_run pg_text c_locale empty_tables (demo_tables\<lparr>ct_db := db\<rparr>)"
    "fact_history ''esan'' ''customer-1'' ''prefers'' db = [fact_row ''esan'' 1 (pc_fact pc)]"
proof -
  obtain pc db where pc: "prepare_confirmation c_locale demo_now demo_request (ct_db demo_tables) = Inr pc"
    and db: "apply_confirmation pc (ct_db demo_tables) = Inr db"
    by (rule demo_confirmsE [OF demo_confirms_c_locale])
  note k = prepared_keys [OF pc] and saved = save_confirmation_Inr(3) [OF db [unfolded apply_confirmation_def]]
  obtain p where p: "db_get_proposal c_locale ''esan'' ''fp-1'' (ct_db demo_tables) = Inr (Some p)"
    "doc_text (pc_fact pc) ''subject_ref'' = ps_subject_ref p" "doc_text (pc_fact pc) ''predicate'' = ps_predicate p"
    by (rule prepared_row [OF pc]) (rule that, simp_all add: demo_request_def)
  have "ps_subject_ref p = ''customer-1'' \<and> ps_predicate p = ''prefers''"
    using p(1) by (auto simp: db_get_proposal_def demo_tables_def find_proposal_row_def map_sum_Inr_iff
        proposal_from_row_def if_Inl_Inr_iff sum_case_Inr_iff simp del: if_split)
  then have "fact_history ''esan'' ''customer-1'' ''prefers'' db = [fact_row ''esan'' 1 (pc_fact pc)]"
    using saved p by (simp add: confirmed_db_def Let_def k demo_fields fact_history_def same_history_def
        demo_tables_def empty_db_def fact_row_def)
  with context_step.confirm [OF pc db] demo_context_run show thesis
    by (intro that [OF db pc]) (auto intro: rtranclp.intros)
qed

theorem fact_history_is_linear_witness:
  "\<exists>t f. context_run dumps c_locale empty_tables t \<and>
     fact_history ''esan'' ''customer-1'' ''prefers'' (ct_db t) = [f] \<and> vf_version f = 1 \<and>
     current_row ''esan'' ''customer-1'' ''prefers'' (ct_db t) = Some f"
proof -
  obtain pc db where "apply_confirmation pc (ct_db demo_tables) = Inr db"
    "prepare_confirmation c_locale demo_now demo_request (ct_db demo_tables) = Inr pc"
    and run: "context_run dumps c_locale empty_tables (demo_tables\<lparr>ct_db := db\<rparr>)"
    and hist: "fact_history ''esan'' ''customer-1'' ''prefers'' db = [fact_row ''esan'' 1 (pc_fact pc)]"
    by (rule demo_tables_confirmed)
  with fact_history_is_linear [OF run refl, of "''esan''" "''customer-1''" "''prefers''"] show ?thesis
    by (intro exI [of _ "demo_tables\<lparr>ct_db := db\<rparr>"] exI [of _ "fact_row ''esan'' 1 (pc_fact pc)"]) simp
qed

text \<open>
  C25. When the database orders text by code points, a saved decision can be traced for ever: whatever
  happened between preparing and saving it and whatever is saved afterwards, its trace returns the
  decision, its proposal, exactly the fact that it confirmed and the evidence documents as they were.
\<close>

theorem decision_trace_is_permanent:
  assumes "prepare_confirmation c_locale now r (ct_db t0) = Inr pc" and "context_run pg_text c_locale empty_tables t0"
    and "context_run pg_text c_locale t0 t" and "apply_confirmation pc (ct_db t) = Inr db"
    and "context_run pg_text c_locale (t\<lparr>ct_db := db\<rparr>) t'" and "cr_site_id r \<noteq> []" and "cr_fact_id r \<noteq> []"
  shows "\<exists>p docs. db_get_proposal c_locale (cr_site_id r) (cr_proposal_ref r) (ct_db t0) = Inr (Some p) \<and>
    list_all2 (\<lambda>e doc. map_of (db_evidence (ct_db t0)) (cr_site_id r, e) = Some (JObj doc)) (cr_evidence_refs r) docs \<and>
    trace c_locale (cr_site_id r) (cr_decision_id r) (ct_db t') = Inr (saved_trace r pc p docs)"
proof -
  obtain p docs where p: "db_get_proposal c_locale (cr_site_id r) (cr_proposal_ref r) (ct_db t0) = Inr (Some p)"
    and docs: "list_all2 (\<lambda>e doc. db_get_evidence (cr_site_id r) e (ct_db t0) =
      Inr (Some \<lparr>es_site_id = cr_site_id r, es_evidence_id = e, es_document = doc\<rparr>)) (cr_evidence_refs r) docs"
    by (rule prepared_proposal [OF assms(1)]) (rule that)
  have "list_all2 (\<lambda>e doc. map_of (db_evidence (ct_db t0)) (cr_site_id r, e) = Some (JObj doc)) (cr_evidence_refs r) docs"
    using docs by (rule list_all2_mono)
      (auto simp: db_get_evidence_def map_sum_Inr_iff db_document_def split: option.splits json.splits)
  moreover have "map (Pair ''output'') (doc_fact_refs (pc_decision pc) ''output_fact_refs'') =
      [(''output'', cr_fact_id r, next_version (cr_super_version r))]"
    by (simp add: prepared_keys [OF assms(1)])
  ultimately show ?thesis
    using later_trace [OF assms p docs] p
    by (auto simp: order_fact_refs_c_locale order_texts_c_locale trace_fact_refs_def)
qed

theorem decision_trace_is_permanent_witness:
  "\<exists>pc db t. trace c_locale ''esan'' (cr_decision_id demo_request) db = Inr t \<and>
     apply_confirmation pc (ct_db demo_tables) = Inr db \<and> jget t ''decision'' = JObj (pc_decision pc)"
proof -
  obtain pc db where "apply_confirmation pc (ct_db demo_tables) = Inr db"
    "prepare_confirmation c_locale demo_now demo_request (ct_db demo_tables) = Inr pc" by (rule demo_tables_confirmed)
  with decision_trace_is_permanent [of demo_now demo_request demo_tables pc dumps demo_tables db "demo_tables\<lparr>ct_db := db\<rparr>"]
    demo_context_run [of dumps c_locale]
  show ?thesis by (auto simp: demo_fields saved_trace_def intro!: exI [of _ pc] exI [of _ db])
qed

text \<open>
  C26. The trace compares the order of the database with the order of Python. Under a collation that
  orders the evidence references of a decision differently from their code points, the trace of that
  decision, although saved correctly and completely, always ends in an integrity error.
\<close>

theorem trace_depends_on_collation:
  assumes "prepare_confirmation c now r (ct_db t0) = Inr pc" and "context_run pg_text c empty_tables t0"
    and "context_run pg_text c t0 t" and "apply_confirmation pc (ct_db t) = Inr db"
    and "context_run pg_text c (t\<lparr>ct_db := db\<rparr>) t'" and "cr_site_id r \<noteq> []" and "cr_fact_id r \<noteq> []"
    and "order_texts c (cr_evidence_refs r) \<noteq> sort (cr_evidence_refs r)"
  shows "\<exists>message. trace c (cr_site_id r) (cr_decision_id r) (ct_db t') = Inl (Trace_integrity message)"
proof -
  obtain p docs where p: "db_get_proposal c (cr_site_id r) (cr_proposal_ref r) (ct_db t0) = Inr (Some p)"
    and docs: "list_all2 (\<lambda>e doc. db_get_evidence (cr_site_id r) e (ct_db t0) =
      Inr (Some \<lparr>es_site_id = cr_site_id r, es_evidence_id = e, es_document = doc\<rparr>)) (cr_evidence_refs r) docs"
    by (rule prepared_proposal [OF assms(1)]) (rule that)
  show ?thesis using later_trace [OF assms(1-7) p docs] assms(8) by auto
qed

theorem trace_depends_on_collation_witness:
  "\<exists>pc db message. apply_confirmation pc (ct_db demo_tables) = Inr db \<and>
     trace caseless ''esan'' (cr_decision_id demo_request) db = Inl (Trace_integrity message)"
proof -
  obtain pc db where pc: "prepare_confirmation caseless demo_now demo_request (ct_db demo_tables) = Inr pc"
    and db: "apply_confirmation pc (ct_db demo_tables) = Inr db"
    by (rule demo_confirmsE [OF demo_confirms_caseless])
  with trace_depends_on_collation [of caseless demo_now demo_request demo_tables pc dumps demo_tables db
      "demo_tables\<lparr>ct_db := db\<rparr>"] demo_context_run [of dumps caseless] caseless_order
  show ?thesis by (auto simp: demo_fields)
qed

end
