(* ===== verification/Observation_Projection.thy ===== *)
theory Observation_Projection
  imports Evidence_Store Py_Decimal Py_Json Context_Store
begin

text \<open>
  From a stored observation to the model and back (\<open>services/observer/observer/model_projection.py\<close>): the
  evidence text loader, the records with their validation, the closed contract of the model's output
  (\<open>contracts/local_pilot/communication-intelligence-v1.0.schema.json\<close>) and the publisher that calls the
  tokenizer, the model and the context service. The parsers of the standard library (UTF-8, HTML, MIME
  and JSON) are arguments; everything injected may raise and change the world \<open>'w\<close>.
\<close>

datatype projection_error =
    Projection_failure string
  | Projection_value string
  | Projection_observer observer_error

section \<open>Evidence text\<close>

record evidence_lineage =
  el_evidence_ref :: string
  el_object_ref :: string
  el_media_type :: string
  el_raw_sha256 :: string

definition trimmed :: "nat \<Rightarrow> string \<Rightarrow> bool" where
  "trimmed maximum s = (s \<noteq> [] \<and> s = strip s \<and> length s \<le> maximum)"

definition lineage_post_init :: "evidence_lineage \<Rightarrow> (projection_error + evidence_lineage)" where
  "lineage_post_init e =
     (case check_all (\<lambda>(value, name, maximum).
          if trimmed maximum value then Inr () else Inl (Projection_value (''invalid '' @ name)))
        [(el_evidence_ref e, ''evidence_ref'', 512), (el_object_ref e, ''content_object_ref'', 512),
         (el_media_type e, ''media_type'', 255)] of
        Inl x \<Rightarrow> Inl x
      | Inr _ \<Rightarrow>
          (if \<not> is_sha256_text (el_raw_sha256 e) then Inl (Projection_value ''invalid raw_sha256'') else Inr e))"

record loaded_text =
  lx_evidence_ref :: string
  lx_text :: string

definition loaded_text_post_init :: "loaded_text \<Rightarrow> (projection_error + loaded_text)" where
  "loaded_text_post_init t =
     (if \<not> trimmed 512 (lx_evidence_ref t) \<or> lx_text t = [] \<or> length (lx_text t) > 1000000
      then Inl (Projection_value ''invalid loaded evidence text'') else Inr t)"

text \<open>\<open>_SafeHTMLTextParser\<close> reacts to the events of the HTML parser.\<close>

datatype html_event = Start_tag string | End_tag string | Html_data string

definition blocked_tags :: "string list" where
  "blocked_tags = [''script'', ''style'', ''template'', ''noscript'']"

fun html_step :: "html_event \<Rightarrow> nat \<times> string list \<Rightarrow> nat \<times> string list" where
  "html_step (Start_tag tag) (depth, parts) =
     (if lower tag \<in> set blocked_tags then (depth + 1, parts) else (depth, parts))"
| "html_step (End_tag tag) (depth, parts) =
     (if lower tag \<in> set blocked_tags then (depth - 1, parts) else (depth, parts))"
| "html_step (Html_data text) (depth, parts) = (depth, if depth = 0 then parts @ [text] else parts)"

text \<open>\<open>s.split()\<close>: the maximal runs without white space.\<close>

fun words_of :: "string \<Rightarrow> string \<Rightarrow> string list" where
  "words_of acc [] = (if acc = [] then [] else [acc])"
| "words_of acc (c # cs) =
     (if is_space c then (if acc = [] then words_of [] cs else acc # words_of [] cs)
      else words_of (acc @ [c]) cs)"

definition html_text :: "html_event list \<Rightarrow> string" where
  "html_text events = join '' '' (words_of [] (join '' '' (snd (fold html_step events (0, [])))))"

record mail_part =
  mp_content_type :: string
  mp_multipart :: bool
  mp_disposition :: "string option"
  mp_filename :: "string option"
  mp_decoded :: "string option"
  mp_charset :: "string option"

record text_parsers =
  tp_utf8 :: "string \<Rightarrow> string option"
  tp_html :: "string \<Rightarrow> html_event list"
  tp_mail :: "string \<Rightarrow> (bool \<times> mail_part list) option"
  tp_json :: "string \<Rightarrow> json option"

record text_loader =
  tl_max_object_bytes :: nat
  tl_max_text_characters :: nat
  tl_max_mime_parts :: nat

definition text_loader_init :: "text_loader \<Rightarrow> (projection_error + text_loader)" where
  "text_loader_init l =
     (if \<not> (1 \<le> tl_max_object_bytes l \<and> tl_max_object_bytes l \<le> 10000000)
         \<or> \<not> (1 \<le> tl_max_text_characters l \<and> tl_max_text_characters l \<le> 1000000)
         \<or> \<not> (1 \<le> tl_max_mime_parts l \<and> tl_max_mime_parts l \<le> 1000)
      then Inl (Projection_value ''invalid evidence text loader configuration'') else Inr l)"

definition decode_text :: "text_parsers \<Rightarrow> string \<Rightarrow> string \<Rightarrow> (projection_error + string)" where
  "decode_text ps content charset =
     (if lower charset \<notin> {''utf-8'', ''us-ascii'', ''ascii''}
      then Inl (Projection_value ''evidence text charset is not allowed'')
      else case (if lower charset = ''utf-8'' then tp_utf8 ps content
                 else if list_all is_ascii content then Some content else None) of
        None \<Rightarrow> Inl (Projection_value ''evidence text is not valid declared text'')
      | Some text \<Rightarrow>
          (if char_of (0 :: nat) \<in> set text
           then Inl (Projection_value ''evidence text contains forbidden control bytes'') else Inr text))"

fun mail_texts :: "text_parsers \<Rightarrow> text_loader \<Rightarrow> mail_part list \<Rightarrow> nat \<Rightarrow> (projection_error + string list)" where
  "mail_texts ps l [] sofar = Inr []"
| "mail_texts ps l (p # parts) sofar =
     (if lower (mp_content_type p) = ''message/rfc822''
      then Inl (Projection_value ''email evidence is a complex MIME message'')
      else if mp_multipart p \<or> lower (mp_content_type p) \<noteq> ''text/plain''
          \<or> mp_disposition p = Some ''attachment'' \<or> mp_filename p \<noteq> None
      then mail_texts ps l parts sofar
      else case mp_decoded p of
        None \<Rightarrow> Inl (Projection_value ''email evidence failed strict parsing'')
      | Some decoded \<Rightarrow>
          (let sofar' = sofar + length decoded in
           if sofar' > tl_max_object_bytes l
           then Inl (Projection_value ''email evidence is outside the bounded model input'')
           else case decode_text ps decoded
                (case mp_charset p of None \<Rightarrow> ''us-ascii'' | Some c \<Rightarrow> if c = [] then ''us-ascii'' else c) of
             Inl x \<Rightarrow> Inl x
           | Inr text \<Rightarrow>
               (case mail_texts ps l parts sofar' of Inl x \<Rightarrow> Inl x | Inr texts \<Rightarrow> Inr (text # texts))))"

definition blank_line :: string where
  "blank_line = [char_of (10 :: nat), char_of (10 :: nat)]"

definition email_text :: "text_parsers \<Rightarrow> text_loader \<Rightarrow> string \<Rightarrow> (projection_error + string)" where
  "email_text ps l content =
     (case tp_mail ps content of
        None \<Rightarrow> Inl (Projection_value ''email evidence failed strict parsing'')
      | Some (defects, parts) \<Rightarrow>
          (if defects then Inl (Projection_value ''email evidence failed strict parsing'')
           else if length parts > tl_max_mime_parts l
           then Inl (Projection_value ''email evidence is a complex MIME message'')
           else map_sum id (join blank_line) (mail_texts ps l parts 0)))"

definition json_text_fields :: "string list" where
  "json_text_fields = [''subject'', ''body'', ''text'', ''message'', ''content'']"

definition json_text :: "text_parsers \<Rightarrow> string \<Rightarrow> (projection_error + string)" where
  "json_text ps content =
     (case decode_text ps content ''utf-8'' of
        Inl x \<Rightarrow> Inl x
      | Inr text \<Rightarrow>
          (case tp_json ps text of
             None \<Rightarrow> Inl (Projection_value ''JSON evidence failed strict parsing'')
           | Some (JObj kvs) \<Rightarrow>
               (let values = filter (\<lambda>v. v \<noteq> JNull) (map (jget kvs) json_text_fields) in
                if \<not> list_all is_str values
                then Inl (Projection_value ''JSON evidence controlled text field is invalid'')
                else if values = [] then Inl (Projection_value ''JSON evidence has no controlled text fields'')
                else Inr (join blank_line (map str_of_json values)))
           | Some _ \<Rightarrow> Inl (Projection_value ''JSON evidence must be an object with controlled text fields'')))"

definition media_kind :: "string \<Rightarrow> string" where
  "media_kind media_type = lower (strip (takeWhile (\<lambda>c. c \<noteq> CHR '';'') media_type))"

definition load_text ::
  "text_parsers \<Rightarrow> text_loader \<Rightarrow> object_files \<Rightarrow> tenant_scope \<Rightarrow> evidence_lineage
    \<Rightarrow> (projection_error + loaded_text option)" where
  "load_text ps l fs scope e =
     (case store_read scope (el_object_ref e) fs of
        Inl x \<Rightarrow> Inl (Projection_observer x)
      | Inr content \<Rightarrow>
          (if length content > tl_max_object_bytes l
           then Inl (Projection_value ''evidence object is outside the bounded model input'')
           else if sha256_hex content \<noteq> el_raw_sha256 e
           then Inl (Projection_value ''evidence digest does not match lineage'')
           else case (let kind = media_kind (el_media_type e) in
               if kind = ''text/plain'' then map_sum id Some (decode_text ps content ''utf-8'')
               else if kind = ''text/html''
               then map_sum id (\<lambda>t. Some (html_text (tp_html ps t))) (decode_text ps content ''utf-8'')
               else if kind = ''message/rfc822'' then map_sum id Some (email_text ps l content)
               else if kind = ''application/json'' then map_sum id Some (json_text ps content)
               else Inr None) of
             Inl x \<Rightarrow> Inl x
           | Inr None \<Rightarrow> Inr None
           | Inr (Some raw) \<Rightarrow>
               (let text = strip raw in
                if text = [] then Inr None
                else if length text > tl_max_text_characters l
                then Inl (Projection_value ''evidence text is outside the bounded model input'')
                else map_sum id Some (loaded_text_post_init \<lparr>lx_evidence_ref = el_evidence_ref e, lx_text = text\<rparr>))))"

text \<open>What the loader returns belongs to the evidence: its bytes have the digest of the lineage.\<close>

lemma load_text_bound:
  assumes "load_text ps l fs scope e = Inr (Some t)"
  shows "lx_evidence_ref t = el_evidence_ref e" and "lx_text t \<noteq> []" and "length (lx_text t) \<le> tl_max_text_characters l"
    and "\<exists>content. store_read scope (el_object_ref e) fs = Inr content \<and> sha256_hex content = el_raw_sha256 e"
  using assms
  by (auto simp: load_text_def Let_def loaded_text_post_init_def split: sum.splits option.splits if_splits)

section \<open>Records\<close>

record projection_source =
  os_site_id :: string
  os_observation_id :: string
  os_channel :: string
  os_occurred_at :: datetime
  os_classification :: string
  os_team_ref :: "string option"
  os_party_ref :: "string option"
  os_participants :: "string list"
  os_evidence :: "evidence_lineage list"

definition classifications :: "string list" where
  "classifications = [''Public'', ''Internal'', ''Confidential'', ''Restricted'']"

definition projection_aware :: "datetime \<Rightarrow> string \<Rightarrow> (projection_error + unit)" where
  "projection_aware t name =
     (if is_aware t then Inr () else Inl (Projection_value (name @ '' must be timezone-aware'')))"

definition source_post_init :: "projection_source \<Rightarrow> (projection_error + projection_source)" where
  "source_post_init s =
     (case projection_aware (os_occurred_at s) ''occurred_at'' of
        Inl x \<Rightarrow> Inl x
      | Inr _ \<Rightarrow>
          (if os_classification s \<notin> set classifications then Inl (Projection_value ''invalid classification'')
           else if os_site_id s = [] \<or> os_observation_id s = [] \<or> os_channel s = [] \<or> os_evidence s = []
           then Inl (Projection_value ''invalid observation projection source'')
           else if length (os_evidence s) > 100
           then Inl (Projection_value ''observation evidence is outside the model budget'')
           else if \<not> distinct (map el_evidence_ref (os_evidence s))
           then Inl (Projection_value ''duplicate observation evidence'')
           else if \<not> list_all (trimmed 256) (os_participants s)
           then Inl (Projection_value ''invalid participant reference'')
           else Inr s))"

record tokenization_result =
  tz_text :: string
  tz_receipt_ref :: string
  tz_version :: string
  tz_mapping_digest :: string

definition tokenization_post_init :: "tokenization_result \<Rightarrow> (projection_error + tokenization_result)" where
  "tokenization_post_init t =
     (if tz_text t = [] \<or> length (tz_text t) > 1000000 \<or> \<not> trimmed 256 (tz_receipt_ref t) \<or> \<not> trimmed 80 (tz_version t)
      then Inl (Projection_value ''invalid local tokenization result'')
      else if \<not> is_sha256_text (tz_mapping_digest t)
      then Inl (Projection_value ''invalid tokenization mapping digest'') else Inr t)"

record model_request =
  oq_site :: string
  oq_purpose :: string
  oq_observation :: string
  oq_channel :: string
  oq_classification :: string
  oq_occurred_at :: datetime
  oq_input_mode :: string
  oq_input_text :: string
  oq_evidence_refs :: "string list"
  oq_participant_refs :: "string list"
  oq_tokenization_refs :: "string list"
  oq_tokenizer_version :: "string option"
  oq_mapping_digest :: "string option"
  oq_idempotency_key :: string

definition model_request_post_init :: "model_request \<Rightarrow> (projection_error + model_request)" where
  "model_request_post_init q =
     (case projection_aware (oq_occurred_at q) ''occurred_at'' of
        Inl x \<Rightarrow> Inl x
      | Inr _ \<Rightarrow>
          (if oq_purpose q \<notin> set processing_purposes
           then Inl (Projection_value ''invalid observation processing purpose'')
           else if oq_input_mode q \<notin> {''raw'', ''local_tokenized''} \<or> oq_input_text q = []
             \<or> length (oq_input_text q) > 1000000 \<or> oq_evidence_refs q = [] \<or> \<not> distinct (oq_evidence_refs q)
             \<or> oq_idempotency_key q = [] \<or> length (oq_idempotency_key q) > 256
           then Inl (Projection_value ''invalid observation model request'')
           else if oq_input_mode q = ''local_tokenized''
           then (if length (oq_tokenization_refs q) \<noteq> 1 \<or> \<not> trimmed 256 (hd (oq_tokenization_refs q))
                   \<or> (case oq_tokenizer_version q of None \<Rightarrow> True | Some v \<Rightarrow> \<not> trimmed 80 v)
                   \<or> (case oq_mapping_digest q of None \<Rightarrow> True | Some d \<Rightarrow> \<not> is_sha256_text d)
                 then Inl (Projection_value ''tokenized model input requires a receipt'') else Inr q)
           else if oq_tokenization_refs q \<noteq> [] \<or> oq_tokenizer_version q \<noteq> None \<or> oq_mapping_digest q \<noteq> None
           then Inl (Projection_value ''raw model input cannot claim tokenization'') else Inr q))"

record model_response =
  rs_output :: json
  rs_model_name :: string
  rs_model_version :: string
  rs_invocation_refs :: "string list"

definition model_response_post_init :: "model_response \<Rightarrow> (projection_error + model_response)" where
  "model_response_post_init r =
     (if \<not> is_obj (rs_output r) then Inl (Projection_value ''model output must be a mapping'')
      else if \<not> trimmed 160 (rs_model_name r) \<or> \<not> trimmed 160 (rs_model_version r) \<or> rs_invocation_refs r = []
        \<or> \<not> distinct (rs_invocation_refs r) \<or> \<not> list_all (trimmed 256) (rs_invocation_refs r)
      then Inl (Projection_value ''invalid communication intelligence response'') else Inr r)"

definition approved_model :: string where
  "approved_model = ''deepseek-v4-flash''"

record publication =
  pn_site_id :: string
  pn_observation_id :: string
  pn_team_ref :: "string option"
  pn_evidence_refs :: "string list"
  pn_summary :: string
  pn_language :: string
  pn_confidence :: json
  pn_review_status :: string
  pn_facts :: "fields list"
  pn_associations :: "fields list"
  pn_model_name :: string
  pn_model_version :: string
  pn_invocation_refs :: "string list"

text \<open>A number and whether it lies from 0 to 1; a float that is not a number does not.\<close>

definition json_number :: "json \<Rightarrow> decimal option" where
  "json_number v = (case v of JInt i \<Rightarrow> Some (dec_of_int i) | JFloat t \<Rightarrow> dec_of_text t | _ \<Rightarrow> None)"

definition in_unit :: "json \<Rightarrow> bool" where
  "in_unit v = (case json_number v of None \<Rightarrow> False | Some d \<Rightarrow> dec_le (dec_of_int 0) d \<and> dec_le d (dec_of_int 1))"

definition breaks_line :: "char \<Rightarrow> bool" where
  "breaks_line c = (c \<in> {char_of (13 :: nat), char_of (10 :: nat), char_of (0 :: nat)})"

definition publication_post_init :: "publication \<Rightarrow> (projection_error + publication)" where
  "publication_post_init p =
     (if \<not> trimmed 140 (pn_site_id p) \<or> \<not> trimmed 256 (pn_observation_id p)
      then Inl (Projection_value ''invalid Context site binding'')
      else if (case pn_team_ref p of None \<Rightarrow> False | Some t \<Rightarrow> \<not> trimmed 256 t \<or> list_ex breaks_line t)
      then Inl (Projection_value ''invalid Context team binding'')
      else if pn_evidence_refs p = [] \<or> length (pn_evidence_refs p) > 100 \<or> \<not> distinct (pn_evidence_refs p)
        \<or> \<not> list_all (trimmed 512) (pn_evidence_refs p)
      then Inl (Projection_value ''invalid Context evidence binding'')
      else if pn_summary p = [] \<or> length (pn_summary p) > 2000 \<or> pn_language p = [] \<or> length (pn_language p) > 35
        \<or> \<not> in_unit (pn_confidence p) \<or> pn_review_status p \<noteq> ''AI Draft''
      then Inl (Projection_value ''invalid Context AI Draft projection'')
      else if pn_facts p = [] \<or> length (pn_facts p) > 100
        \<or> \<not> list_all (\<lambda>f. jget f ''status'' = JStr ''proposed'') (pn_facts p)
      then Inl (Projection_value ''Context facts must remain proposed'')
      else if length (pn_associations p) > 100
      then Inl (Projection_value ''invalid Context association suggestions'')
      else if pn_model_name p \<noteq> approved_model \<or> pn_model_version p = []
      then Inl (Projection_value ''invalid Context model binding'')
      else if pn_invocation_refs p = [] \<or> \<not> distinct (pn_invocation_refs p)
        \<or> \<not> list_all (trimmed 256) (pn_invocation_refs p)
      then Inl (Projection_value ''invalid Context invocation binding'')
      else Inr p)"

text \<open>The row of the read model (\<open>read_service.py\<close>).\<close>

record communication_detail =
  cn_observation_id :: string
  cn_channel :: string
  cn_occurred_at :: datetime
  cn_summary :: string
  cn_language :: string
  cn_classification :: string
  cn_review_status :: string
  cn_team_ref :: "string option"
  cn_party_ref :: "string option"
  cn_evidence_count :: nat
  cn_actor_refs :: "string list"
  cn_evidence :: "(string \<times> string) list"
  cn_facts :: "fields list"
  cn_associations :: "fields list"
  cn_model_name :: string
  cn_model_version :: string
  cn_original_text :: "string option"

definition detail_post_init :: "communication_detail \<Rightarrow> (projection_error + communication_detail)" where
  "detail_post_init d =
     (if cn_observation_id d = [] \<or> length (cn_observation_id d) > 256
      then Inl (Projection_value ''invalid observation_id'')
      else case projection_aware (cn_occurred_at d) ''occurred_at'' of
        Inl x \<Rightarrow> Inl x
      | Inr _ \<Rightarrow>
          (if cn_classification d \<notin> set classifications then Inl (Projection_value ''invalid classification'')
           else if cn_model_name d \<noteq> approved_model \<or> cn_model_version d = []
           then Inl (Projection_value ''invalid communication model metadata'') else Inr d))"

section \<open>The closed contract of the output\<close>

text \<open>\<open>^[first][rest]*$\<close> as a search: \<open>$\<close> also matches before a final line break.\<close>

definition matches_line :: "(char \<Rightarrow> bool) \<Rightarrow> (char \<Rightarrow> bool) \<Rightarrow> string \<Rightarrow> bool" where
  "matches_line first rest s =
     (let t = (if s \<noteq> [] \<and> last s = char_of (10 :: nat) then butlast s else s)
      in t \<noteq> [] \<and> first (hd t) \<and> list_all rest (tl t))"

definition output_text :: "nat \<Rightarrow> nat \<Rightarrow> json \<Rightarrow> bool" where
  "output_text lo hi v = (case v of JStr s \<Rightarrow> lo \<le> length s \<and> length s \<le> hi | _ \<Rightarrow> False)"

definition schema_line :: "(char \<Rightarrow> bool) \<Rightarrow> (char \<Rightarrow> bool) \<Rightarrow> nat \<Rightarrow> nat \<Rightarrow> json \<Rightarrow> bool" where
  "schema_line first rest lo hi v = (output_text lo hi v \<and> matches_line first rest (str_of_json v))"

definition schema_code :: "nat \<Rightarrow> json \<Rightarrow> bool" where
  "schema_code hi =
     schema_line is_lower (\<lambda>c. is_lower c \<or> is_digit c \<or> c \<in> {CHR ''_'', CHR ''.'', CHR ''-''}) 1 hi"

text \<open>\<open>minimum\<close> and \<open>maximum\<close> reject what is below or above, which a float that is not a number is not.\<close>

definition schema_unit :: "json \<Rightarrow> bool" where
  "schema_unit v =
     (case json_number v of None \<Rightarrow> False
      | Some d \<Rightarrow> \<not> dec_less d (dec_of_int 0) \<and> \<not> dec_less (dec_of_int 1) d)"

definition schema_refs :: "json \<Rightarrow> bool" where
  "schema_refs v =
     (case v of
        JList xs \<Rightarrow> 1 \<le> length xs \<and> length xs \<le> 100 \<and> list_all (output_text 1 512) xs \<and> distinct xs
      | _ \<Rightarrow> False)"

definition fact_keys :: "string list" where
  "fact_keys = [''subject_ref'', ''predicate'', ''value_display'', ''type'', ''unit'', ''confidence'', ''evidence_refs'', ''status'']"

definition association_keys :: "string list" where
  "association_keys = [''type'', ''target_ref'', ''confidence'', ''evidence_refs'']"

definition schema_fact :: "json \<Rightarrow> bool" where
  "schema_fact v =
     (case v of
        JObj f \<Rightarrow>
          keys_are f fact_keys \<and> output_text 1 512 (jget f ''subject_ref'') \<and> schema_code 160 (jget f ''predicate'') \<and>
          output_text 1 2000 (jget f ''value_display'') \<and> schema_code 80 (jget f ''type'') \<and>
          (jget f ''unit'' = JNull \<or> output_text 1 80 (jget f ''unit'')) \<and> schema_unit (jget f ''confidence'') \<and>
          schema_refs (jget f ''evidence_refs'') \<and> jget f ''status'' = JStr ''proposed''
      | _ \<Rightarrow> False)"

definition schema_association :: "json \<Rightarrow> bool" where
  "schema_association v =
     (case v of
        JObj f \<Rightarrow>
          keys_are f association_keys \<and> schema_code 80 (jget f ''type'') \<and> output_text 1 512 (jget f ''target_ref'') \<and>
          schema_unit (jget f ''confidence'') \<and> schema_refs (jget f ''evidence_refs'')
      | _ \<Rightarrow> False)"

definition output_keys :: "string list" where
  "output_keys = [''schema_version'', ''site_id'', ''observation_id'', ''evidence_refs'', ''summary_zh'',
     ''original_language'', ''confidence'', ''review_status'', ''fact_proposals'', ''association_suggestions'']"

definition intelligence_schema :: "json \<Rightarrow> bool" where
  "intelligence_schema v =
     (case v of
        JObj out \<Rightarrow>
          keys_are out output_keys \<and> jget out ''schema_version'' = JStr ''1.0'' \<and>
          schema_line is_alnum (\<lambda>c. is_alnum c \<or> c \<in> {CHR ''.'', CHR ''-''}) 1 140 (jget out ''site_id'') \<and>
          output_text 1 256 (jget out ''observation_id'') \<and> schema_refs (jget out ''evidence_refs'') \<and>
          output_text 1 2000 (jget out ''summary_zh'') \<and>
          schema_line (\<lambda>c. is_upper c \<or> is_lower c) (\<lambda>c. is_alnum c \<or> c = CHR ''-'') 2 35 (jget out ''original_language'') \<and>
          schema_unit (jget out ''confidence'') \<and> jget out ''review_status'' = JStr ''AI Draft'' \<and>
          (case jget out ''fact_proposals'' of
             JList fs \<Rightarrow> 1 \<le> length fs \<and> length fs \<le> 100 \<and> list_all schema_fact fs | _ \<Rightarrow> False) \<and>
          (case jget out ''association_suggestions'' of
             JList xs \<Rightarrow> length xs \<le> 100 \<and> list_all schema_association xs | _ \<Rightarrow> False)
      | _ \<Rightarrow> False)"

end
