(* ===== verification/Projection_Publisher.thy ===== *)
theory Projection_Publisher
  imports Observation_Projection
begin

text \<open>
  The publisher of \<open>services/observer/observer/model_projection.py\<close>: the source is loaded, its evidence
  read and tokenized, the model asked, its output checked against the closed contract and bound to the
  evidence, and only then is it published and stored. Everything injected is a function that changes the
  world \<open>'w\<close> and may raise; the rows of the observer's tables are lists.
\<close>

section \<open>Loading the source\<close>

record event_row =
  ev_site :: string
  ev_event_id :: string
  ev_channel :: string
  ev_occurred_at :: datetime
  ev_classification :: string
  ev_team_ref :: "string option"
  ev_party_ref :: "string option"
  ev_purpose :: string
  ev_retention_until :: "datetime option"

record evidence_row =
  er_site :: string
  er_evidence_id :: string
  er_object_ref :: "string option"
  er_media_type :: string
  er_raw_sha256 :: string

record observer_tables =
  ot_events :: "event_row list"
  ot_participants :: "(string \<times> string \<times> string) list"
  ot_edges :: "(string \<times> string \<times> int \<times> string) list"
  ot_evidence :: "evidence_row list"

definition select_event :: "datetime \<Rightarrow> tenant_scope \<Rightarrow> string \<Rightarrow> observer_tables \<Rightarrow> event_row option" where
  "select_event now scope oid db =
     find (\<lambda>e. ev_site e = ts_site_id scope \<and> ev_purpose e = ts_processing_purpose scope \<and> ev_event_id e = oid \<and>
          (case ev_retention_until e of None \<Rightarrow> True | Some t \<Rightarrow> instant_of now < instant_of t)) (ot_events db)"

definition select_participants :: "collation \<Rightarrow> event_row \<Rightarrow> observer_tables \<Rightarrow> string list" where
  "select_participants c e db =
     order_texts c (map (\<lambda>(_, _, ref). ref)
       (filter (\<lambda>(site, event, _). site = ev_site e \<and> event = ev_event_id e) (ot_participants db)))"

definition select_evidence :: "collation \<Rightarrow> tenant_scope \<Rightarrow> string \<Rightarrow> observer_tables \<Rightarrow> evidence_row list" where
  "select_evidence c scope oid db =
     take 101 (map snd (sort_key (\<lambda>((ordinal, ref), _). (ordinal, c ref, ref))
       [((ordinal, ref), e). (site, event, ordinal, ref) \<leftarrow> ot_edges db, site = ts_site_id scope \<and> event = oid,
                             e \<leftarrow> ot_evidence db, er_site e = site \<and> er_evidence_id e = ref]))"

definition load_projection_source ::
  "collation \<Rightarrow> datetime \<Rightarrow> observer_tables \<Rightarrow> tenant_scope \<Rightarrow> string \<Rightarrow> (projection_error + projection_source)" where
  "load_projection_source c now db scope oid =
     (case select_event now scope oid db of
        None \<Rightarrow> Inl (Projection_value ''observation is unavailable'')
      | Some e \<Rightarrow>
          (let rows = select_evidence c scope oid db in
           if rows = [] \<or> length rows > 100
           then Inl (Projection_value ''observation evidence is unavailable or unbounded'')
           else if list_ex (\<lambda>r. er_object_ref r = None) rows
           then Inl (Projection_value ''observation evidence content is unavailable'')
           else case map_raise (\<lambda>r. lineage_post_init
                  \<lparr>el_evidence_ref = er_evidence_id r, el_object_ref = the (er_object_ref r),
                   el_media_type = er_media_type r, el_raw_sha256 = er_raw_sha256 r\<rparr>) rows of
             Inl x \<Rightarrow> Inl x
           | Inr evidence \<Rightarrow>
               source_post_init
                 \<lparr>os_site_id = ev_site e, os_observation_id = ev_event_id e, os_channel = ev_channel e,
                  os_occurred_at = ev_occurred_at e, os_classification = ev_classification e,
                  os_team_ref = ev_team_ref e, os_party_ref = ev_party_ref e,
                  os_participants = select_participants c e db, os_evidence = evidence\<rparr>))"

lemma select_event_sound:
  assumes "select_event now scope oid db = Some e"
  shows "e \<in> set (ot_events db)" and "ev_site e = ts_site_id scope"
    and "ev_purpose e = ts_processing_purpose scope" and "ev_event_id e = oid"
    and "case ev_retention_until e of None \<Rightarrow> True | Some t \<Rightarrow> instant_of now < instant_of t"
  using assms by (auto simp: select_event_def find_Some_iff)

lemma source_post_init_id: "source_post_init s = Inr s' \<Longrightarrow> s' = s"
  by (auto simp: source_post_init_def split: sum.splits if_splits)

lemma load_projection_source_sound:
  assumes "load_projection_source c now db scope oid = Inr s"
  shows "os_site_id s = ts_site_id scope" and "os_observation_id s = oid"
    and "\<exists>e \<in> set (ot_events db). select_event now scope oid db = Some e"
  using assms source_post_init_id select_event_sound
  by (auto simp: load_projection_source_def Let_def split: option.splits if_splits sum.splits)
    (force dest!: source_post_init_id dest: select_event_sound)+

section \<open>The output of the model\<close>

text \<open>\<open>json.loads(json.dumps(value, sort_keys=True))\<close>: tuples become lists, keys are sorted.\<close>

fun json_copy :: "json \<Rightarrow> json"
  and copy_items :: "json list \<Rightarrow> json list"
  and copy_fields :: "fields \<Rightarrow> fields" where
  "json_copy (JList xs) = JList (copy_items xs)"
| "json_copy (JTuple xs) = JList (copy_items xs)"
| "json_copy (JObj kvs) = JObj (sort_key fst (copy_fields kvs))"
| "json_copy v = v"
| "copy_items [] = []"
| "copy_items (x # xs) = json_copy x # copy_items xs"
| "copy_fields [] = []"
| "copy_fields ((k, v) # kvs) = (k, json_copy v) # copy_fields kvs"

definition validated_output :: "json \<Rightarrow> (projection_error + fields)" where
  "validated_output value =
     (let copied = json_copy value in
      if intelligence_schema copied then Inr (fields_of_json copied)
      else Inl (Projection_failure ''invalid_model_output''))"

definition nested_items :: "fields \<Rightarrow> json list" where
  "nested_items out = items_of_json (jget out ''fact_proposals'') @ items_of_json (jget out ''association_suggestions'')"

definition refs_of :: "fields \<Rightarrow> json list" where
  "refs_of kvs = items_of_json (jget kvs ''evidence_refs'')"

definition validate_binding :: "projection_source \<Rightarrow> fields \<Rightarrow> string list \<Rightarrow> (projection_error + unit)" where
  "validate_binding s out refs =
     (if jget out ''site_id'' \<noteq> JStr (os_site_id s) \<or> jget out ''observation_id'' \<noteq> JStr (os_observation_id s)
         \<or> refs_of out \<noteq> map JStr refs \<or> \<not> set refs \<subseteq> set (map el_evidence_ref (os_evidence s))
      then Inl (Projection_failure ''model_binding_mismatch'')
      else if list_ex (\<lambda>item. \<not> set (refs_of (fields_of_json item)) \<subseteq> set (map JStr refs)) (nested_items out)
      then Inl (Projection_failure ''model_binding_mismatch'') else Inr ())"

text \<open>\<open>float(v)\<close> of a number the contract has bounded: an integer there is 0 or 1.\<close>

definition float_json :: "json \<Rightarrow> json" where
  "float_json v = (case v of JInt i \<Rightarrow> JFloat (float_text (dec_of_int i)) | _ \<Rightarrow> v)"

definition context_publication ::
  "projection_source \<Rightarrow> fields \<Rightarrow> model_response \<Rightarrow> (projection_error + publication)" where
  "context_publication s out r =
     publication_post_init
       \<lparr>pn_site_id = py_str (jget out ''site_id''), pn_observation_id = py_str (jget out ''observation_id''),
        pn_team_ref = os_team_ref s, pn_evidence_refs = map py_str (refs_of out),
        pn_summary = py_str (jget out ''summary_zh''), pn_language = py_str (jget out ''original_language''),
        pn_confidence = float_json (jget out ''confidence''), pn_review_status = ''AI Draft'',
        pn_facts = map fields_of_json (items_of_json (jget out ''fact_proposals'')),
        pn_associations = map fields_of_json (items_of_json (jget out ''association_suggestions'')),
        pn_model_name = rs_model_name r, pn_model_version = rs_model_version r,
        pn_invocation_refs = rs_invocation_refs r\<rparr>"

definition communication_detail_of ::
  "projection_source \<Rightarrow> fields \<Rightarrow> model_response \<Rightarrow> (projection_error + communication_detail)" where
  "communication_detail_of s out r =
     detail_post_init
       \<lparr>cn_observation_id = os_observation_id s, cn_channel = os_channel s, cn_occurred_at = os_occurred_at s,
        cn_summary = py_str (jget out ''summary_zh''), cn_language = py_str (jget out ''original_language''),
        cn_classification = os_classification s, cn_review_status = ''AI Draft'', cn_team_ref = os_team_ref s,
        cn_party_ref = os_party_ref s, cn_evidence_count = length (os_evidence s),
        cn_actor_refs = remdups (os_participants s),
        cn_evidence = map (\<lambda>e. (el_evidence_ref e, el_object_ref e)) (os_evidence s),
        cn_facts = map (\<lambda>v. let f = fields_of_json v in
            [(''status'', JStr (py_str (jget f ''status''))), (''confidence'', float_json (jget f ''confidence'')),
             (''type'', JStr (py_str (jget f ''type''))), (''value_display'', JStr (py_str (jget f ''value_display'')))])
          (items_of_json (jget out ''fact_proposals'')),
        cn_associations = map (\<lambda>v. let f = fields_of_json v in
            [(''type'', JStr (py_str (jget f ''type''))), (''target_ref'', JStr (py_str (jget f ''target_ref''))),
             (''confidence'', float_json (jget f ''confidence''))])
          (items_of_json (jget out ''association_suggestions'')),
        cn_model_name = rs_model_name r, cn_model_version = rs_model_version r, cn_original_text = None\<rparr>"

section \<open>The publisher\<close>

text \<open>A call of an injected function raises, returns an object of another class, or returns its value.\<close>

datatype 'a outcome = Raised | Foreign | Returned 'a

record 'w publisher =
  pb_load_source :: "tenant_scope \<Rightarrow> string \<Rightarrow> 'w \<Rightarrow> projection_source option \<times> 'w"
  pb_raw_loader :: "(tenant_scope \<Rightarrow> evidence_lineage \<Rightarrow> 'w \<Rightarrow> loaded_text option outcome \<times> 'w) option"
  pb_tokenizer :: "(tenant_scope \<Rightarrow> string \<Rightarrow> string \<Rightarrow> 'w \<Rightarrow> tokenization_result outcome \<times> 'w) option"
  pb_provider :: "(model_request \<Rightarrow> 'w \<Rightarrow> model_response outcome \<times> 'w) option"
  pb_publish :: "tenant_scope \<Rightarrow> publication \<Rightarrow> string \<Rightarrow> 'w \<Rightarrow> bool \<times> 'w"
  pb_clock :: "'w \<Rightarrow> datetime \<times> 'w"
  pb_store :: "tenant_scope \<Rightarrow> communication_detail \<Rightarrow> datetime \<Rightarrow> 'w \<Rightarrow> bool \<times> 'w"
  pb_restricted :: string

record projection_result =
  jr_observation_id :: string
  jr_status :: string
  jr_model_version :: string

definition fail_with :: "string \<Rightarrow> 'w \<Rightarrow> (projection_error, 'a, 'w) call" where
  "fail_with code w = (Inl (Projection_failure code), w)"

definition load_source ::
  "'w publisher \<Rightarrow> tenant_scope \<Rightarrow> string \<Rightarrow> 'w \<Rightarrow> (projection_error, projection_source, 'w) call" where
  "load_source p scope oid w =
     (case pb_load_source p scope oid w of
        (None, w') \<Rightarrow> fail_with ''observation_source_unavailable'' w'
      | (Some s, w') \<Rightarrow>
          (if os_site_id s \<noteq> ts_site_id scope \<or> os_observation_id s \<noteq> oid
           then fail_with ''observation_binding_mismatch'' w' else (Inr s, w')))"

text \<open>
  The loop over the evidence: \<open>None\<close> when it raises, otherwise the parts with their references.
\<close>

fun gather_text ::
  "(tenant_scope \<Rightarrow> evidence_lineage \<Rightarrow> 'w \<Rightarrow> loaded_text option outcome \<times> 'w) \<Rightarrow> tenant_scope
    \<Rightarrow> evidence_lineage list \<Rightarrow> nat \<Rightarrow> 'w \<Rightarrow> (string \<times> string) list option \<times> 'w" where
  "gather_text load scope [] taken w = (Some [], w)"
| "gather_text load scope (e # es) taken w =
     (case load scope e w of
        (Raised, w') \<Rightarrow> (None, w')
      | (Foreign, w') \<Rightarrow> (None, w')
      | (Returned None, w') \<Rightarrow> gather_text load scope es taken w'
      | (Returned (Some t), w') \<Rightarrow>
          (if lx_evidence_ref t \<noteq> el_evidence_ref e \<or> taken + length (lx_text t) > 1000000 then (None, w')
           else case gather_text load scope es (taken + length (lx_text t)) w' of
             (None, w'') \<Rightarrow> (None, w'')
           | (Some parts, w'') \<Rightarrow> (Some ((el_evidence_ref e, lx_text t) # parts), w'')))"

definition build_request ::
  "'w publisher \<Rightarrow> tenant_scope \<Rightarrow> projection_source \<Rightarrow> string \<Rightarrow> 'w \<Rightarrow> (projection_error, model_request, 'w) call" where
  "build_request p scope s key w =
     (if os_classification s = ''Restricted'' \<and> pb_restricted p \<noteq> ''local_tokenized''
      then fail_with ''restricted_input_denied'' w
      else case pb_tokenizer p of
        None \<Rightarrow> fail_with ''pii_tokenization_failed'' w
      | Some tokenize \<Rightarrow>
          (case pb_raw_loader p of
             None \<Rightarrow> fail_with ''raw_loader_unconfigured'' w
           | Some load \<Rightarrow>
               (case gather_text load scope (os_evidence s) 0 w of
                  (None, w1) \<Rightarrow> fail_with ''raw_input_unavailable'' w1
                | (Some parts, w1) \<Rightarrow>
                    (if parts = [] then fail_with ''raw_input_unavailable'' w1
                     else case tokenize scope (os_observation_id s) (join blank_line (map snd parts)) w1 of
                       (Raised, w2) \<Rightarrow> fail_with ''pii_tokenization_failed'' w2
                     | (Foreign, w2) \<Rightarrow> fail_with ''pii_tokenization_failed'' w2
                     | (Returned t, w2) \<Rightarrow>
                         (model_request_post_init
                            \<lparr>oq_site = ts_site_id scope, oq_purpose = ts_processing_purpose scope,
                             oq_observation = os_observation_id s, oq_channel = os_channel s,
                             oq_classification = os_classification s, oq_occurred_at = os_occurred_at s,
                             oq_input_mode = ''local_tokenized'', oq_input_text = tz_text t,
                             oq_evidence_refs = map fst parts, oq_participant_refs = os_participants s,
                             oq_tokenization_refs = [tz_receipt_ref t], oq_tokenizer_version = Some (tz_version t),
                             oq_mapping_digest = Some (tz_mapping_digest t), oq_idempotency_key = key\<rparr>, w2)))))"

definition checked_response ::
  "model_request \<Rightarrow> projection_source \<Rightarrow> model_response
    \<Rightarrow> projection_error + fields \<times> publication" where
  "checked_response q s r =
     (if rs_model_name r \<noteq> approved_model then Inl (Projection_failure ''model_mismatch'')
      else case validated_output (rs_output r) of
        Inl x \<Rightarrow> Inl x
      | Inr out \<Rightarrow>
          (case validate_binding s out (oq_evidence_refs q) of
             Inl x \<Rightarrow> Inl x
           | Inr _ \<Rightarrow>
               (case context_publication s out r of Inl x \<Rightarrow> Inl x | Inr pub \<Rightarrow> Inr (out, pub))))"

definition store_and_return ::
  "'w publisher \<Rightarrow> tenant_scope \<Rightarrow> projection_source \<Rightarrow> fields \<Rightarrow> model_response \<Rightarrow> 'w
    \<Rightarrow> (projection_error, projection_result, 'w) call" where
  "store_and_return p scope s out r w =
     (case communication_detail_of s out r of
        Inl x \<Rightarrow> (Inl x, w)
      | Inr detail \<Rightarrow>
          (case pb_clock p w of
             (now, w1) \<Rightarrow>
               (case projection_aware now ''clock'' of
                  Inl x \<Rightarrow> (Inl x, w1)
                | Inr _ \<Rightarrow>
                    (case pb_store p scope detail now w1 of
                       (False, w2) \<Rightarrow> fail_with ''projection_store_failed'' w2
                     | (True, w2) \<Rightarrow>
                         (Inr \<lparr>jr_observation_id = os_observation_id s, jr_status = ''projected'',
                               jr_model_version = rs_model_version r\<rparr>, w2)))))"

definition publish_projection ::
  "'w publisher \<Rightarrow> tenant_scope \<Rightarrow> string \<Rightarrow> string \<Rightarrow> 'w \<Rightarrow> (projection_error, projection_result, 'w) call" where
  "publish_projection p scope oid key w =
     (case pb_provider p of
        None \<Rightarrow> fail_with ''provider_unconfigured'' w
      | Some project \<Rightarrow>
          and_then (load_source p scope oid w) (\<lambda>s w1.
          and_then (build_request p scope s key w1) (\<lambda>q w2.
            case project q w2 of
              (Raised, w3) \<Rightarrow> fail_with ''model_provider_failed'' w3
            | (Foreign, w3) \<Rightarrow> fail_with ''invalid_model_output'' w3
            | (Returned r, w3) \<Rightarrow>
                (case checked_response q s r of
                   Inl x \<Rightarrow> (Inl x, w3)
                 | Inr (out, pub) \<Rightarrow>
                     (case pb_publish p scope pub key w3 of
                        (False, w4) \<Rightarrow> fail_with ''context_publication_failed'' w4
                      | (True, w4) \<Rightarrow> store_and_return p scope s out r w4)))))"

end
