(* ===== verification/Projection_Properties.thy ===== *)
theory Projection_Properties
  imports Projection_Publisher
begin

text \<open>
  What leaves the publisher. \<open>observed\<close> runs any publisher and writes down what its tokenizer answered,
  what the model, the context service and the read model were given, and which publications the context
  service accepted; the invariant of that log holds however the call ends.
\<close>

section \<open>The log of a publisher\<close>

record exchange =
  xc_tokenized :: "(string \<times> tokenization_result) list"
  xc_requests :: "model_request list"
  xc_offered :: "publication list"
  xc_published :: "publication list"
  xc_stored :: "communication_detail list"

definition quiet :: exchange where
  "quiet = \<lparr>xc_tokenized = [], xc_requests = [], xc_offered = [], xc_published = [], xc_stored = []\<rparr>"

definition carry :: "exchange \<Rightarrow> 'a \<times> 'w \<Rightarrow> 'a \<times> exchange \<times> 'w" where
  "carry x r = (fst r, x, snd r)"

lemma carry_iff: "carry x r = (a, y, w) \<longleftrightarrow> y = x \<and> r = (a, w)"
  by (cases r) (auto simp: carry_def)

definition note_tokenized :: "string \<Rightarrow> exchange \<Rightarrow> tokenization_result outcome \<Rightarrow> exchange" where
  "note_tokenized text x r =
     (case r of Returned t \<Rightarrow> x\<lparr>xc_tokenized := (text, t) # xc_tokenized x\<rparr> | _ \<Rightarrow> x)"

text \<open>Every publication given to the context service is offered; it is published when the call succeeds.\<close>

definition note_published :: "publication \<Rightarrow> exchange \<Rightarrow> bool \<Rightarrow> exchange" where
  "note_published pub x succeeded =
     x\<lparr>xc_offered := pub # xc_offered x,
       xc_published := (if succeeded then pub # xc_published x else xc_published x)\<rparr>"

definition observed :: "'w publisher \<Rightarrow> (exchange \<times> 'w) publisher" where
  "observed p =
     \<lparr>pb_load_source = (\<lambda>scope oid (x, w). carry x (pb_load_source p scope oid w)),
      pb_raw_loader = map_option (\<lambda>f scope e (x, w). carry x (f scope e w)) (pb_raw_loader p),
      pb_tokenizer = map_option (\<lambda>f scope oid text (x, w).
          carry (note_tokenized text x (fst (f scope oid text w))) (f scope oid text w)) (pb_tokenizer p),
      pb_provider = map_option (\<lambda>f q (x, w). carry (x\<lparr>xc_requests := q # xc_requests x\<rparr>) (f q w)) (pb_provider p),
      pb_publish = (\<lambda>scope pub key (x, w).
          carry (note_published pub x (fst (pb_publish p scope pub key w))) (pb_publish p scope pub key w)),
      pb_clock = (\<lambda>(x, w). carry x (pb_clock p w)),
      pb_store = (\<lambda>scope d now (x, w). carry (x\<lparr>xc_stored := d # xc_stored x\<rparr>) (pb_store p scope d now w)),
      pb_restricted = pb_restricted p\<rparr>"

text \<open>The three things that leave, each judged by what came before it.\<close>

definition request_ok :: "string \<Rightarrow> exchange \<Rightarrow> model_request \<Rightarrow> bool" where
  "request_ok policy x q =
     (oq_input_mode q = ''local_tokenized'' \<and> (oq_classification q = ''Restricted'' \<longrightarrow> policy = ''local_tokenized'') \<and>
      (\<exists>(text, t) \<in> set (xc_tokenized x). oq_input_text q = tz_text t \<and> oq_tokenization_refs q = [tz_receipt_ref t] \<and>
        oq_mapping_digest q = Some (tz_mapping_digest t)))"

definition publication_ok :: "exchange \<Rightarrow> publication \<Rightarrow> bool" where
  "publication_ok x pub =
     (pn_review_status pub = ''AI Draft'' \<and> pn_model_name pub = approved_model \<and>
      list_all (\<lambda>f. jget f ''status'' = JStr ''proposed'') (pn_facts pub) \<and>
      (\<exists>q \<in> set (xc_requests x). pn_site_id pub = oq_site q \<and> pn_observation_id pub = oq_observation q \<and>
         pn_evidence_refs pub = oq_evidence_refs q \<and>
         list_all (\<lambda>f. set (refs_of f) \<subseteq> JStr ` set (oq_evidence_refs q)) (pn_facts pub @ pn_associations pub)))"

definition detail_ok :: "exchange \<Rightarrow> communication_detail \<Rightarrow> bool" where
  "detail_ok x d =
     (cn_review_status d = ''AI Draft'' \<and> cn_original_text d = None \<and>
      (\<exists>pub \<in> set (xc_published x). cn_observation_id d = pn_observation_id pub \<and> cn_summary d = pn_summary pub))"

definition exchange_ok :: "string \<Rightarrow> exchange \<Rightarrow> bool" where
  "exchange_ok policy x =
     (list_all (request_ok policy x) (xc_requests x) \<and> list_all (publication_ok x) (xc_offered x) \<and>
      set (xc_published x) \<subseteq> set (xc_offered x) \<and> list_all (detail_ok x) (xc_stored x))"

lemma quiet_ok: "exchange_ok policy quiet"
  by (simp add: exchange_ok_def quiet_def)

text \<open>Each port, seen through the log.\<close>

lemma observed_fields:
  "pb_load_source (observed p) scope oid (x, w) = carry x (pb_load_source p scope oid w)"
  "pb_restricted (observed p) = pb_restricted p"
  "pb_publish (observed p) scope pub key (x, w)
     = carry (note_published pub x (fst (pb_publish p scope pub key w))) (pb_publish p scope pub key w)"
  "pb_clock (observed p) (x, w) = carry x (pb_clock p w)"
  "pb_store (observed p) scope d now (x, w) = carry (x\<lparr>xc_stored := d # xc_stored x\<rparr>) (pb_store p scope d now w)"
  "pb_provider (observed p) =
     map_option (\<lambda>f q (x, w). carry (x\<lparr>xc_requests := q # xc_requests x\<rparr>) (f q w)) (pb_provider p)"
  by (simp_all add: observed_def)

lemma gather_text_carry:
  "gather_text (\<lambda>scope e (x, w). carry x (f scope e w)) scope es taken (x, w)
     = carry x (gather_text f scope es taken w)"
  by (induction es arbitrary: taken w)
    (auto simp: carry_def split: prod.splits outcome.splits option.splits)

text \<open>A log in which the tokenizer alone was called again is still in order.\<close>

lemma exchange_ok_tokenized:
  "exchange_ok policy x \<Longrightarrow> exchange_ok policy (note_tokenized text x r)"
  by (cases r)
    (auto simp: exchange_ok_def note_tokenized_def list_all_iff request_ok_def publication_ok_def detail_ok_def)

lemma exchange_ok_request:
  "exchange_ok policy x \<Longrightarrow> request_ok policy x q \<Longrightarrow> exchange_ok policy (x\<lparr>xc_requests := q # xc_requests x\<rparr>)"
  by (auto simp: exchange_ok_def list_all_iff request_ok_def publication_ok_def detail_ok_def)

lemma exchange_ok_published:
  "exchange_ok policy x \<Longrightarrow> publication_ok x pub \<Longrightarrow> exchange_ok policy (note_published pub x succeeded)"
  by (auto simp: exchange_ok_def note_published_def list_all_iff request_ok_def publication_ok_def detail_ok_def)

lemma exchange_ok_stored:
  "exchange_ok policy x \<Longrightarrow> detail_ok x d \<Longrightarrow> exchange_ok policy (x\<lparr>xc_stored := d # xc_stored x\<rparr>)"
  by (auto simp: exchange_ok_def list_all_iff request_ok_def publication_ok_def detail_ok_def)

section \<open>The request\<close>

lemma model_request_post_init_id: "model_request_post_init q = Inr q' \<Longrightarrow> q' = q"
  by (auto simp: model_request_post_init_def split: sum.splits if_splits)

lemma gather_text_refs:
  "gather_text f scope es taken w = (Some parts, w') \<Longrightarrow> set (map fst parts) \<subseteq> set (map el_evidence_ref es)"
proof (induction es arbitrary: taken w parts w')
  case (Cons e es)
  obtain r w1 where r: "f scope e w = (r, w1)"
    by fastforce
  show ?case
  proof (cases "gather_text f scope es taken w1 = (Some parts, w')")
    case True
    then show ?thesis
      using Cons.IH [OF True] by auto
  next
    case False
    then obtain t parts' where step: "r = Returned (Some t)" "parts = (el_evidence_ref e, lx_text t) # parts'"
      "gather_text f scope es (taken + length (lx_text t)) w1 = (Some parts', w')"
      using Cons.prems r by (auto split: prod.splits outcome.splits option.splits if_splits)
    then show ?thesis
      using Cons.IH [OF step(3)] by auto
  qed
qed simp

lemma build_request_observed:
  assumes "exchange_ok (pb_restricted p) x"
    and "build_request (observed p) scope s key (x, w) = (res, (x', w'))"
  shows "exchange_ok (pb_restricted p) x'"
  using assms
  by (auto simp: build_request_def observed_def fail_with_def gather_text_carry carry_iff exchange_ok_tokenized
      split: if_splits option.splits prod.splits outcome.splits)

lemma build_request_ok:
  assumes "build_request (observed p) scope s key (x, w) = (Inr q, (x', w'))"
  shows "request_ok (pb_restricted p) x' q" and "oq_site q = ts_site_id scope"
    and "oq_observation q = os_observation_id s"
  using assms
  by (auto simp: build_request_def observed_def fail_with_def gather_text_carry carry_iff request_ok_def note_tokenized_def
      split: if_splits option.splits prod.splits outcome.splits dest!: model_request_post_init_id)

section \<open>The publication\<close>

lemma publication_post_init_sound:
  assumes "publication_post_init pub = Inr pub'"
  shows "pub' = pub" and "pn_review_status pub = ''AI Draft''" and "pn_model_name pub = approved_model"
    and "list_all (\<lambda>f. jget f ''status'' = JStr ''proposed'') (pn_facts pub)"
  using assms by (auto simp: publication_post_init_def split: if_splits)

lemma checked_response_sound:
  assumes "checked_response q s r = Inr (out, pub)"
  shows "validated_output (rs_output r) = Inr out" and "validate_binding s out (oq_evidence_refs q) = Inr ()"
    and "context_publication s out r = Inr pub"
  using assms by (auto simp: checked_response_def split: if_splits sum.splits)

lemma validate_binding_sound:
  assumes "validate_binding s out refs = Inr ()"
  shows "jget out ''site_id'' = JStr (os_site_id s)" and "jget out ''observation_id'' = JStr (os_observation_id s)"
    and "refs_of out = map JStr refs"
    and "list_all (\<lambda>item. set (refs_of (fields_of_json item)) \<subseteq> JStr ` set refs) (nested_items out)"
  using assms by (auto simp: validate_binding_def list_all_iff list_ex_iff split: if_splits)

lemma map_py_str_JStr [simp]: "map (py_str \<circ> JStr) xs = xs"
  by (induction xs) auto

lemma checked_publication_ok:
  assumes checked: "checked_response q s r = Inr (out, pub)"
    and request: "q \<in> set (xc_requests x)" "oq_site q = os_site_id s" "oq_observation q = os_observation_id s"
  shows "publication_ok x pub" and "pn_observation_id pub = os_observation_id s"
    and "pn_summary pub = py_str (jget out ''summary_zh'')"
proof -
  note bound = validate_binding_sound [OF checked_response_sound(2) [OF checked]]
  have made: "context_publication s out r = Inr pub"
    by (rule checked_response_sound(3) [OF checked])
  note post = publication_post_init_sound [OF made [unfolded context_publication_def]]
  show "pn_observation_id pub = os_observation_id s" and "pn_summary pub = py_str (jget out ''summary_zh'')"
    using bound by (simp_all add: post(1))
  have "pn_site_id pub = oq_site q" and "pn_observation_id pub = oq_observation q"
    and "pn_evidence_refs pub = oq_evidence_refs q"
    using bound request by (simp_all add: post(1))
  moreover have "list_all (\<lambda>f. set (refs_of f) \<subseteq> JStr ` set (oq_evidence_refs q)) (pn_facts pub @ pn_associations pub)"
    using bound(4) by (auto simp: post(1) nested_items_def list_all_iff)
  moreover have "pn_review_status pub = ''AI Draft''" and "pn_model_name pub = approved_model"
    and "list_all (\<lambda>f. jget f ''status'' = JStr ''proposed'') (pn_facts pub)"
    using post by (simp_all only: post(1))
  ultimately show "publication_ok x pub"
    using request(1) unfolding publication_ok_def by blast
qed

lemma communication_detail_ok:
  assumes "communication_detail_of s out r = Inr d" and "pub \<in> set (xc_published x)"
    and "pn_observation_id pub = os_observation_id s" and "pn_summary pub = py_str (jget out ''summary_zh'')"
  shows "detail_ok x d"
proof -
  have "cn_review_status d = ''AI Draft''" and "cn_original_text d = None"
    and "cn_observation_id d = os_observation_id s" and "cn_summary d = py_str (jget out ''summary_zh'')"
    using assms(1) by (auto simp: communication_detail_of_def detail_post_init_def split: if_splits sum.splits)
  then show ?thesis
    using assms(2-) unfolding detail_ok_def by metis
qed

lemma store_and_return_ok:
  assumes "exchange_ok policy x" and "store_and_return (observed p) scope s out r (x, w) = (res, (x', w'))"
    and pub: "pub \<in> set (xc_published x)" "pn_observation_id pub = os_observation_id s"
      "pn_summary pub = py_str (jget out ''summary_zh'')"
  shows "exchange_ok policy x'"
proof -
  have ok: "communication_detail_of s out r = Inr d \<Longrightarrow> detail_ok x d" for d
    using communication_detail_ok pub by blast
  then show ?thesis
    using assms(1,2)
    by (auto simp: store_and_return_def observed_fields carry_iff fail_with_def exchange_ok_stored
        split: sum.splits prod.splits bool.splits)
qed

section \<open>The whole call\<close>

lemma load_source_observed:
  assumes "load_source (observed p) scope oid (x, w) = (res, (x', w'))"
  shows "x' = x" and "res = Inr s \<Longrightarrow> os_site_id s = ts_site_id scope \<and> os_observation_id s = oid"
  using assms
  by (auto simp: load_source_def observed_fields carry_iff fail_with_def split: prod.splits option.splits if_splits)

lemma publish_projection_observed:
  assumes "exchange_ok (pb_restricted p) x"
    and run: "publish_projection (observed p) scope oid key (x, w) = (res, (x', w'))"
  shows "exchange_ok (pb_restricted p) x'"
proof (cases "pb_provider p")
  case None
  then show ?thesis
    using assms by (simp add: publish_projection_def observed_fields fail_with_def)
next
  case (Some project)
  obtain a x1 w1 where source: "load_source (observed p) scope oid (x, w) = (a, (x1, w1))"
    by (metis surj_pair)
  note x1 = load_source_observed(1) [OF source]
  show ?thesis
  proof (cases a)
    case (Inl e)
    then show ?thesis
      using run source x1 assms(1) by (simp add: publish_projection_def observed_fields Some)
  next
    case (Inr s)
    note ids = load_source_observed(2) [OF source Inr]
    obtain b x2 w2 where request: "build_request (observed p) scope s key (x1, w1) = (b, (x2, w2))"
      by (metis surj_pair)
    have x2: "exchange_ok (pb_restricted p) x2"
      by (rule build_request_observed [OF _ request]) (simp add: x1 assms(1))
    show ?thesis
    proof (cases b)
      case (Inl e)
      then show ?thesis
        using run source Inr request x2 by (simp add: publish_projection_def observed_fields Some)
    next
      case req: (Inr q)
      let ?x3 = "x2\<lparr>xc_requests := q # xc_requests x2\<rparr>"
      note q = build_request_ok [OF request [unfolded req]]
      obtain c w3 where answer: "project q w2 = (c, w3)"
        by (metis surj_pair)
      have x3: "exchange_ok (pb_restricted p) ?x3"
        by (rule exchange_ok_request [OF x2 q(1)])
      have pub_ok: "publication_ok ?x3 pub"
        if "checked_response q s r = Inr (out, pub)" for r out pub
        by (rule checked_publication_ok(1) [OF that]) (simp_all add: q ids)
      have stored: "exchange_ok (pb_restricted p) y"
        if "checked_response q s r = Inr (out, pub)"
          and "store_and_return (observed p) scope s out r (note_published pub ?x3 True, v) = (res, (y, v'))"
        for r out pub y v v'
      proof (rule store_and_return_ok [OF _ that(2), of _ pub])
        show "exchange_ok (pb_restricted p) (note_published pub ?x3 True)"
          by (rule exchange_ok_published [OF x3 pub_ok [OF that(1)]])
        show "pn_observation_id pub = os_observation_id s" "pn_summary pub = py_str (jget out ''summary_zh'')"
          by (rule checked_publication_ok [OF that(1), of ?x3]; simp add: q ids)+
      qed (simp add: note_published_def)
      have published: "exchange_ok (pb_restricted p) (note_published pub ?x3 succeeded)"
        if "checked_response q s r = Inr (out, pub)" for r out pub succeeded
        by (rule exchange_ok_published [OF x3 pub_ok [OF that]])
      show ?thesis
        using run source Inr request req answer x3 stored published
        by (auto simp: publish_projection_def observed_fields Some carry_iff fail_with_def carry_def
            split: outcome.splits sum.splits prod.splits bool.splits)
    qed
  qed
qed

text \<open>A projection that returns has stored the detail of its observation.\<close>

lemma store_and_return_stores:
  assumes "store_and_return (observed p) scope s out r (x, w) = (Inr j, (x', w'))"
  shows "jr_observation_id j = os_observation_id s \<and>
     (\<exists>d \<in> set (xc_stored x'). cn_observation_id d = os_observation_id s)"
  using assms
  by (auto simp: store_and_return_def observed_fields carry_iff carry_def fail_with_def communication_detail_of_def
      detail_post_init_def split: sum.splits prod.splits bool.splits if_splits)

lemma returned_projection_stores:
  assumes "publish_projection (observed p) scope oid key (x, w) = (Inr j, (x', w'))"
  shows "jr_observation_id j = oid \<and> (\<exists>d \<in> set (xc_stored x'). cn_observation_id d = oid)"
proof -
  obtain project where pr: "pb_provider (observed p) = Some project"
    using assms by (auto simp: publish_projection_def fail_with_def split: option.splits)
  obtain s v0 q v where load: "load_source (observed p) scope oid (x, w) = (Inr s, v0)"
    and rest: "(case project q v of
              (Raised, w3) \<Rightarrow> fail_with ''model_provider_failed'' w3
            | (Foreign, w3) \<Rightarrow> fail_with ''invalid_model_output'' w3
            | (Returned r, w3) \<Rightarrow>
                (case checked_response q s r of
                   Inl x \<Rightarrow> (Inl x, w3)
                 | Inr (out, pub) \<Rightarrow>
                     (case pb_publish (observed p) scope pub key w3 of
                        (False, w4) \<Rightarrow> fail_with ''context_publication_failed'' w4
                      | (True, w4) \<Rightarrow> store_and_return (observed p) scope s out r w4))) = (Inr j, (x', w'))"
    using assms unfolding publish_projection_def pr option.case and_then_Inr_iff by blast
  obtain c v3 where c: "project q v = (c, v3)" by (metis surj_pair)
  obtain r where r: "c = Returned r"
    using rest unfolding c by (cases c) (simp_all add: fail_with_def)
  obtain out pub where out: "checked_response q s r = Inr (out, pub)"
    using rest unfolding c r by (cases "checked_response q s r") auto
  obtain ok x4 w4 where "pb_publish (observed p) scope pub key v3 = (ok, (x4, w4))" by (metis surj_pair)
  then have "store_and_return (observed p) scope s out r (x4, w4) = (Inr j, (x', w'))"
    using rest unfolding c r by (cases ok) (simp_all add: out fail_with_def)
  moreover obtain x1 w1 where "v0 = (x1, w1)" by (metis surj_pair)
  ultimately show ?thesis
    using load
    using load_source_observed(2) store_and_return_stores by metis
qed

section \<open>Properties\<close>

text \<open>
  C27. However a projection ends, the model was given only locally tokenized text, and restricted input only
  under the policy that allows it; whatever was offered to the context service for publication is an AI draft
  by the approved model whose facts are proposals and whose references, nested ones too, are those of a
  request the model was given; and whatever was given to the read model holds no original text and carries the
  observation and summary of a publication that the context service accepted. A projection that
  returns a result has given the read model such a detail of its observation.
\<close>
theorem projection_releases_only_bound_drafts:
  "publish_projection (observed p) scope oid key (quiet, w) = (res, (x, w')) \<Longrightarrow>
     exchange_ok (pb_restricted p) x \<and>
     (\<forall>j. res = Inr j \<longrightarrow> jr_observation_id j = oid \<and> (\<exists>d \<in> set (xc_stored x). cn_observation_id d = oid))"
  using publish_projection_observed [OF quiet_ok] returned_projection_stores by metis

definition demo_time :: datetime where
  "demo_time = Aware 1767225600000000"

definition demo_lineage :: evidence_lineage where
  "demo_lineage = \<lparr>el_evidence_ref = ''ev-1'', el_object_ref = ''obs:v1'', el_media_type = ''text/plain'',
     el_raw_sha256 = replicate 64 (CHR ''a'')\<rparr>"

definition demo_source :: projection_source where
  "demo_source = \<lparr>os_site_id = ''a'', os_observation_id = ''obs-1'', os_channel = ''email'', os_occurred_at = demo_time,
     os_classification = ''Restricted'', os_team_ref = Some ''team-1'', os_party_ref = None,
     os_participants = [''p-1''], os_evidence = [demo_lineage]\<rparr>"

definition demo_intelligence :: json where
  "demo_intelligence = JObj [(''schema_version'', JStr ''1.0''), (''site_id'', JStr ''a''), (''observation_id'', JStr ''obs-1''),
     (''evidence_refs'', JList [JStr ''ev-1'']), (''summary_zh'', JStr ''price asked''), (''original_language'', JStr ''en''),
     (''confidence'', JFloat ''0.9''), (''review_status'', JStr ''AI Draft''),
     (''fact_proposals'', JList [JObj [(''subject_ref'', JStr ''party-1''), (''predicate'', JStr ''asks''),
        (''value_display'', JStr ''price''), (''type'', JStr ''intent''), (''unit'', JNull), (''confidence'', JInt 1),
        (''evidence_refs'', JTuple [JStr ''ev-1'']), (''status'', JStr ''proposed'')]]),
     (''association_suggestions'', JList [])]"

definition demo_tokenized :: tokenization_result where
  "demo_tokenized = \<lparr>tz_text = ''[P1] hello'', tz_receipt_ref = ''r-1'', tz_version = ''1'',
     tz_mapping_digest = replicate 64 (CHR ''a'')\<rparr>"

definition demo_response :: model_response where
  "demo_response = \<lparr>rs_output = demo_intelligence, rs_model_name = approved_model, rs_model_version = ''1'',
     rs_invocation_refs = [''inv-1'']\<rparr>"

definition demo_model_request :: model_request where
  "demo_model_request =
     \<lparr>oq_site = ''a'', oq_purpose = ''risk_review'', oq_observation = ''obs-1'', oq_channel = ''email'',
      oq_classification = ''Restricted'', oq_occurred_at = demo_time, oq_input_mode = ''local_tokenized'',
      oq_input_text = ''[P1] hello'', oq_evidence_refs = [''ev-1''], oq_participant_refs = [''p-1''],
      oq_tokenization_refs = [''r-1''], oq_tokenizer_version = Some ''1'',
      oq_mapping_digest = Some (replicate 64 (CHR ''a'')), oq_idempotency_key = ''k''\<rparr>"

definition demo_publisher :: "string \<Rightarrow> unit publisher" where
  "demo_publisher policy =
     \<lparr>pb_load_source = (\<lambda>_ _ w. (Some demo_source, w)),
      pb_raw_loader = Some (\<lambda>_ e w. (Returned (Some \<lparr>lx_evidence_ref = el_evidence_ref e, lx_text = ''hello''\<rparr>), w)),
      pb_tokenizer = Some (\<lambda>_ _ _ w. (Returned demo_tokenized, w)),
      pb_provider = Some (\<lambda>_ w. (Returned demo_response, w)),
      pb_publish = (\<lambda>_ _ _ w. (True, w)), pb_clock = (\<lambda>w. (demo_time, w)),
      pb_store = (\<lambda>_ _ _ w. (True, w)), pb_restricted = policy\<rparr>"

lemma demo_checked:
  obtains out pub where "checked_response demo_model_request demo_source demo_response = Inr (out, pub)"
proof -
  have "\<not> isl (checked_response demo_model_request demo_source demo_response)"
    by code_simp
  then show ?thesis
    using that by (metis isl_def sum.exhaust surj_pair)
qed

lemma demo_shapes:
  "trimmed 256 ''r-1''" "trimmed 80 ''1''" "is_sha256_text (replicate 64 (CHR ''a''))"
  "''risk_review'' \<in> set processing_purposes" "is_aware demo_time"
  by (code_simp, code_simp, code_simp, code_simp, code_simp)

lemma demo_request_built:
  "build_request (observed (demo_publisher ''local_tokenized'')) demo_scope demo_source ''k'' (quiet, ())
     = (Inr demo_model_request, (note_tokenized ''hello'' quiet (Returned demo_tokenized), ()))"
  using demo_shapes
  by (simp add: build_request_def demo_publisher_def observed_def demo_source_def demo_lineage_def carry_def
      model_request_post_init_def demo_model_request_def demo_scope_def demo_tokenized_def projection_aware_def)

lemma demo_ports:
  "pb_provider (demo_publisher policy) = Some (\<lambda>_ w. (Returned demo_response, w))"
  "pb_publish (demo_publisher policy) = (\<lambda>_ _ _ w. (True, w))"
  "pb_store (demo_publisher policy) = (\<lambda>_ _ _ w. (True, w))"
  "pb_clock (demo_publisher policy) = (\<lambda>w. (demo_time, w))"
  by (simp_all add: demo_publisher_def)

lemma demo_projection_runs:
  obtains r x where "publish_projection (observed (demo_publisher ''local_tokenized'')) demo_scope ''obs-1'' ''k'' (quiet, ())
     = (Inr r, (x, ()))" and "length (xc_published x) = 1"
proof -
  obtain out pub where checked: "checked_response demo_model_request demo_source demo_response = Inr (out, pub)"
    by (rule demo_checked)
  have source: "load_source (observed (demo_publisher ''local_tokenized'')) demo_scope ''obs-1'' (quiet, ())
      = (Inr demo_source, (quiet, ()))"
    by (simp add: load_source_def observed_fields demo_publisher_def carry_def demo_source_def demo_scope_def)
  have run: "publish_projection (observed (demo_publisher ''local_tokenized'')) demo_scope ''obs-1'' ''k'' (quiet, ())
      = store_and_return (observed (demo_publisher ''local_tokenized'')) demo_scope demo_source out demo_response
          ((note_tokenized ''hello'' quiet (Returned demo_tokenized))
             \<lparr>xc_requests := [demo_model_request], xc_offered := [pub], xc_published := [pub]\<rparr>, ())"
    by (simp add: publish_projection_def source demo_request_built observed_fields demo_ports carry_def checked)
      (simp add: note_tokenized_def note_published_def quiet_def)
  have "fst (store_and_return (observed (demo_publisher ''local_tokenized'')) demo_scope demo_source out demo_response (x, ()))
        = Inr \<lparr>jr_observation_id = ''obs-1'', jr_status = ''projected'', jr_model_version = ''1''\<rparr>
      \<and> xc_published (fst (snd (store_and_return (observed (demo_publisher ''local_tokenized'')) demo_scope demo_source out
            demo_response (x, ())))) = xc_published x" for x
    by (simp add: store_and_return_def observed_fields communication_detail_of_def detail_post_init_def demo_source_def
        demo_response_def projection_aware_def demo_shapes classifications_def demo_ports carry_def)
  then have "\<exists>r y. store_and_return (observed (demo_publisher ''local_tokenized'')) demo_scope demo_source out
      demo_response (x, ()) = (Inr r, (y, ())) \<and> xc_published y = xc_published x" for x
    by (simp add: prod_eq_iff)
  from this [of "(note_tokenized ''hello'' quiet (Returned demo_tokenized))
      \<lparr>xc_requests := [demo_model_request], xc_offered := [pub], xc_published := [pub]\<rparr>"]
  obtain r y where "store_and_return (observed (demo_publisher ''local_tokenized'')) demo_scope demo_source out demo_response
      ((note_tokenized ''hello'' quiet (Returned demo_tokenized))
         \<lparr>xc_requests := [demo_model_request], xc_offered := [pub], xc_published := [pub]\<rparr>, ()) = (Inr r, (y, ()))"
    and "xc_published y = [pub]"
    by auto
  then show ?thesis
    by (intro that [of r y]) (simp_all add: run)
qed

theorem projection_releases_only_bound_drafts_witness:
  "\<exists>r x. publish_projection (observed (demo_publisher ''local_tokenized'')) demo_scope ''obs-1'' ''k'' (quiet, ())
     = (Inr r, (x, ())) \<and> length (xc_published x) = 1 \<and> exchange_ok ''local_tokenized'' x"
proof -
  obtain r x where run: "publish_projection (observed (demo_publisher ''local_tokenized'')) demo_scope ''obs-1'' ''k''
      (quiet, ()) = (Inr r, (x, ()))" and "length (xc_published x) = 1"
    by (rule demo_projection_runs)
  with projection_releases_only_bound_drafts [OF run] show ?thesis
    by (simp add: demo_publisher_def)
qed

section \<open>The content-addressed loader\<close>

definition cas_loader ::
  "text_parsers \<Rightarrow> text_loader \<Rightarrow> object_files \<Rightarrow> tenant_scope \<Rightarrow> evidence_lineage \<Rightarrow> 'w
    \<Rightarrow> loaded_text option outcome \<times> 'w" where
  "cas_loader ps l fs scope e w = (case load_text ps l fs scope e of Inl _ \<Rightarrow> Raised | Inr t \<Rightarrow> Returned t, w)"

definition evidence_backed :: "tenant_scope \<Rightarrow> object_files \<Rightarrow> evidence_lineage \<Rightarrow> bool" where
  "evidence_backed scope fs e =
     (case store_read scope (el_object_ref e) fs of Inl _ \<Rightarrow> False | Inr bytes \<Rightarrow> sha256_hex bytes = el_raw_sha256 e)"

lemma gather_cas_backed:
  "gather_text (cas_loader ps l fs) scope es taken w = (Some parts, w') \<Longrightarrow> (ref, text) \<in> set parts \<Longrightarrow>
     \<exists>e \<in> set es. el_evidence_ref e = ref \<and> evidence_backed scope fs e"
proof (induction es arbitrary: taken parts w')
  case (Cons e es)
  obtain r v where r: "cas_loader ps l fs scope e w = (r, v)"
    by fastforce
  then have v: "v = w" "r = (case load_text ps l fs scope e of Inl _ \<Rightarrow> Raised | Inr t \<Rightarrow> Returned t)"
    by (simp_all add: cas_loader_def)
  show ?case
  proof (cases "gather_text (cas_loader ps l fs) scope es taken w = (Some parts, w')")
    case True
    then show ?thesis
      using Cons.IH [OF True Cons.prems(2)] by auto
  next
    case False
    then obtain t parts' where step: "load_text ps l fs scope e = Inr (Some t)" "parts = (el_evidence_ref e, lx_text t) # parts'"
      "gather_text (cas_loader ps l fs) scope es (taken + length (lx_text t)) w = (Some parts', w')"
      using Cons.prems(1) r v
      by (auto split: sum.splits prod.splits outcome.splits option.splits if_splits)
    have "evidence_backed scope fs e"
      using load_text_bound(4) [OF step(1)] by (auto simp: evidence_backed_def)
    then show ?thesis
      using Cons.IH [OF step(3)] Cons.prems(2) step(2) by auto
  qed
qed simp

text \<open>
  C28. With the content-addressed loader, every evidence reference of a request to the model belongs to the
  observation, and the store holds for it bytes whose digest is the one of its lineage.
\<close>
theorem model_reads_verified_evidence:
  assumes "pb_raw_loader p = Some (cas_loader ps l fs)" and "build_request p scope s key w = (Inr q, w')"
  shows "\<forall>ref \<in> set (oq_evidence_refs q). \<exists>e \<in> set (os_evidence s). el_evidence_ref e = ref \<and> evidence_backed scope fs e"
proof -
  obtain parts v where "gather_text (cas_loader ps l fs) scope (os_evidence s) 0 w = (Some parts, v)"
    "oq_evidence_refs q = map fst parts"
    using assms
    by (auto simp: build_request_def fail_with_def split: if_splits option.splits prod.splits outcome.splits
        dest!: model_request_post_init_id)
  then show ?thesis
    using gather_cas_backed by fastforce
qed

definition demo_parsers :: text_parsers where
  "demo_parsers = \<lparr>tp_utf8 = Some, tp_html = (\<lambda>t. [Html_data t]), tp_mail = (\<lambda>_. None), tp_json = (\<lambda>_. None)\<rparr>"

definition demo_text_loader :: text_loader where
  "demo_text_loader = \<lparr>tl_max_object_bytes = 2000000, tl_max_text_characters = 1000000, tl_max_mime_parts = 100\<rparr>"

definition demo_object_files :: object_files where
  "demo_object_files = [((partition_of demo_scope, sha256_hex ''hello''), ''hello'')]"

definition cas_lineage :: evidence_lineage where
  "cas_lineage = demo_lineage\<lparr>el_object_ref := object_ref_of demo_scope (sha256_hex ''hello''),
     el_raw_sha256 := sha256_hex ''hello''\<rparr>"

definition cas_publisher :: "unit publisher" where
  "cas_publisher = (demo_publisher ''local_tokenized'')
     \<lparr>pb_raw_loader := Some (cas_loader demo_parsers demo_text_loader demo_object_files)\<rparr>"

lemma demo_text_shapes:
  "media_kind ''text/plain'' = ''text/plain''" "strip ''hello'' = ''hello''" "trimmed 512 ''ev-1''"
  "lower ''utf-8'' = ''utf-8''" "char_of (0 :: nat) \<notin> set ''hello''"
  by (code_simp, code_simp, code_simp, code_simp, code_simp)

lemma cas_text:
  "load_text demo_parsers demo_text_loader demo_object_files demo_scope cas_lineage
     = Inr (Some \<lparr>lx_evidence_ref = ''ev-1'', lx_text = ''hello''\<rparr>)"
proof -
  have "store_read demo_scope (el_object_ref cas_lineage) demo_object_files = Inr ''hello''"
    by (simp add: store_read_def cas_lineage_def parse_own_ref demo_object_files_def verify_object_def)
  moreover have "el_raw_sha256 cas_lineage = sha256_hex ''hello''" "el_media_type cas_lineage = ''text/plain''"
    "el_evidence_ref cas_lineage = ''ev-1''"
    by (simp_all add: cas_lineage_def demo_lineage_def)
  ultimately show ?thesis
    using demo_text_shapes
    by (simp add: load_text_def demo_text_loader_def decode_text_def demo_parsers_def loaded_text_post_init_def)
qed

theorem model_reads_verified_evidence_witness:
  "\<exists>q. fst (build_request cas_publisher demo_scope (demo_source\<lparr>os_evidence := [cas_lineage]\<rparr>) ''k'' ()) = Inr q
     \<and> oq_evidence_refs q = [''ev-1''] \<and> evidence_backed demo_scope demo_object_files cas_lineage"
proof -
  have built: "build_request cas_publisher demo_scope (demo_source\<lparr>os_evidence := [cas_lineage]\<rparr>) ''k'' ()
      = (Inr demo_model_request, ())"
    using demo_shapes cas_text
    by (simp add: build_request_def cas_publisher_def demo_publisher_def demo_source_def cas_loader_def
        cas_lineage_def demo_lineage_def model_request_post_init_def demo_model_request_def demo_scope_def
        demo_tokenized_def projection_aware_def)
  have "\<forall>ref \<in> set (oq_evidence_refs demo_model_request). \<exists>e \<in> set (os_evidence (demo_source\<lparr>os_evidence := [cas_lineage]\<rparr>)).
      el_evidence_ref e = ref \<and> evidence_backed demo_scope demo_object_files e"
    by (rule model_reads_verified_evidence [OF _ built]) (simp add: cas_publisher_def)
  then show ?thesis
    by (simp add: built demo_model_request_def)
qed

end
