(* ===== verification/Frappe_Materialization.thy ===== *)
theory Frappe_Materialization
  imports Projection_Publisher Domain_Access
begin

text \<open>
  The Frappe side of materialization (\<open>apps/esan_gbos/esan_gbos/api/internal/materialization.py\<close>): an
  authenticated request resolves the controlled context of a subject or applies one draft. The framework
  is a parameter (\<open>frappe_site\<close>): permissions, roles, the JSON parser and the document hooks that name,
  validate and complete a document when it is inserted or saved. Documents are JSON objects with dates as
  text; the two JSON columns of the audit record hold the documents they print. A request is one
  transaction, rolled back when it raises.
\<close>

datatype api_error =
    Api_error string int
  | Permission_denied
  | Does_not_exist
  | Duplicate_entry
  | Frappe_invalid
  | Internal_failure

section \<open>The site\<close>

record audit_row =
  au_request_id :: string
  au_status :: string
  au_data :: fields
  au_output :: "json option"
  au_reference :: "(string \<times> string) option"

record frappe_db =
  fx_docs :: "((string \<times> string) \<times> fields) list"
  fx_audits :: "(string \<times> audit_row) list"

record frappe_request =
  fq_method :: "string option"
  fq_headers :: "(string \<times> string) list"
  fq_user :: string

record frappe_site =
  fe_site :: string
  fe_identities :: json
  fe_roles :: "string \<Rightarrow> string list"
  fe_user_enabled :: "string \<Rightarrow> bool"
  fe_permits :: "string \<Rightarrow> string \<Rightarrow> string \<Rightarrow> string \<Rightarrow> fields \<Rightarrow> bool"
  fe_parse_json :: "string \<Rightarrow> json option"
  fe_insert :: "string \<Rightarrow> fields \<Rightarrow> frappe_db \<Rightarrow> api_error + string \<times> fields"
  fe_save :: "string list \<Rightarrow> fields \<Rightarrow> fields \<Rightarrow> frappe_db \<Rightarrow> api_error + fields"

section \<open>Request values\<close>

definition json_object :: "frappe_site \<Rightarrow> json \<Rightarrow> string \<Rightarrow> api_error + fields" where
  "json_object env v name =
     (case (case v of JStr s \<Rightarrow> fe_parse_json env s | _ \<Rightarrow> Some v) of
        Some (JObj kvs) \<Rightarrow> Inr kvs
      | _ \<Rightarrow> Inl (Api_error (''invalid_'' @ name) 422))"

definition exact_fields :: "fields \<Rightarrow> string list \<Rightarrow> string \<Rightarrow> api_error + unit" where
  "exact_fields kvs expected code = (if keys_are kvs expected then Inr () else Inl (Api_error code 422))"

definition line_break :: "char \<Rightarrow> bool" where
  "line_break c = (c = char_of (13 :: nat) \<or> c = char_of (10 :: nat))"

definition api_text :: "json \<Rightarrow> nat \<Rightarrow> api_error + string" where
  "api_text v maximum =
     (case v of
        JStr s \<Rightarrow>
          (if strip s = [] \<or> length s > maximum \<or> list_ex line_break s then Inl (Api_error ''invalid_request'' 422)
           else Inr (strip s))
      | _ \<Rightarrow> Inl (Api_error ''invalid_request'' 422))"

definition positive_integer :: "json \<Rightarrow> api_error + int" where
  "positive_integer v =
     (case v of JInt i \<Rightarrow> if i < 1 then Inl (Api_error ''invalid_request'' 422) else Inr i
      | _ \<Rightarrow> Inl (Api_error ''invalid_request'' 422))"

definition list_of_text :: "frappe_site \<Rightarrow> json \<Rightarrow> string \<Rightarrow> api_error + json list" where
  "list_of_text env v name =
     (case (case v of JStr s \<Rightarrow> fe_parse_json env s | _ \<Rightarrow> Some v) of
        Some (JList xs) \<Rightarrow>
          (if xs = [] \<or> \<not> list_all (\<lambda>x. is_str x \<and> str_of_json x \<noteq> []) xs \<or> \<not> distinct xs
           then Inl (Api_error (''invalid_'' @ name) 422) else Inr xs)
      | _ \<Rightarrow> Inl (Api_error (''invalid_'' @ name) 422))"

text \<open>\<open>int(v or 0)\<close> of an integer column.\<close>

definition int_or_zero :: "json \<Rightarrow> api_error + int" where
  "int_or_zero v =
     (case v of
        JNull \<Rightarrow> Inr 0
      | JInt i \<Rightarrow> Inr i
      | JBool b \<Rightarrow> Inr (if b then 1 else 0)
      | JStr s \<Rightarrow> (if s = [] then Inr 0 else case int_of_text s of None \<Rightarrow> Inl Internal_failure | Some i \<Rightarrow> Inr i)
      | _ \<Rightarrow> Inl Internal_failure)"

fun json_value :: "json \<Rightarrow> json"
  and value_items :: "json list \<Rightarrow> json list"
  and value_fields :: "fields \<Rightarrow> fields" where
  "json_value (JList xs) = JList (value_items xs)"
| "json_value (JTuple xs) = JList (value_items xs)"
| "json_value (JObj kvs) = JObj (value_fields kvs)"
| "json_value v = v"
| "value_items [] = []"
| "value_items (x # xs) = json_value x # value_items xs"
| "value_fields [] = []"
| "value_fields ((k, v) # kvs) = (k, json_value v) # value_fields kvs"

section \<open>Authentication\<close>

definition header :: "frappe_request \<Rightarrow> string \<Rightarrow> string" where
  "header rq name = (case map_of (fq_headers rq) name of None \<Rightarrow> [] | Some v \<Rightarrow> v)"

text \<open>\<open>token key:secret\<close> with both parts present.\<close>

definition token_shape :: "string \<Rightarrow> bool" where
  "token_shape s =
     (take 6 s = ''token '' \<and> CHR '':'' \<in> set (drop 6 s) \<and> takeWhile (\<lambda>c. c \<noteq> CHR '':'') (drop 6 s) \<noteq> [] \<and>
      tl (dropWhile (\<lambda>c. c \<noteq> CHR '':'') (drop 6 s)) \<noteq> [])"

definition identity_fields :: "string list" where
  "identity_fields = [''user'', ''site_id'', ''processing_purposes'']"

definition identity_matches ::
  "frappe_site \<Rightarrow> frappe_request \<Rightarrow> fields \<Rightarrow> string \<Rightarrow> string \<Rightarrow> string \<Rightarrow> string \<Rightarrow> bool" where
  "identity_matches env rq identity site purpose request auth_ref =
     (jget identity ''user'' = JStr (fq_user rq) \<and> jget identity ''site_id'' = JStr site \<and> site = fe_site env \<and>
      (case jget identity ''processing_purposes'' of
         JList ps \<Rightarrow> list_all is_str ps \<and> JStr purpose \<in> set ps | _ \<Rightarrow> False) \<and>
      map_of (fq_headers rq) ''X-Site-ID'' = Some site \<and> map_of (fq_headers rq) ''X-Processing-Purpose'' = Some purpose \<and>
      map_of (fq_headers rq) ''X-Request-ID'' = Some request \<and>
      map_of (fq_headers rq) ''X-GBOS-Frappe-Auth-Ref'' = Some auth_ref)"

definition authenticate :: "frappe_site \<Rightarrow> frappe_request \<Rightarrow> fields \<Rightarrow> api_error + fields" where
  "authenticate env rq payload =
     (if (case fq_method rq of None \<Rightarrow> True | Some m \<Rightarrow> upper m \<noteq> ''POST'') then Inl (Api_error ''method_not_allowed'' 405)
      else case fe_identities env of
        JObj identities \<Rightarrow>
          (if identities = [] then Inl (Api_error ''service_unconfigured'' 503)
           else if \<not> token_shape (header rq ''Authorization'') \<or> fq_user rq = ''Guest''
             \<or> materializer_role \<notin> set (fe_roles env (fq_user rq))
           then Inl (Api_error ''authentication_required'' 401)
           else case api_text (jget payload ''auth_ref'') 140 of
             Inl x \<Rightarrow> Inl x
           | Inr auth_ref \<Rightarrow>
               (case jget identities auth_ref of
                  JObj identity \<Rightarrow>
                    (if \<not> keys_are identity identity_fields then Inl (Api_error ''identity_scope_mismatch'' 403)
                     else case api_text (jget payload ''site_id'') 140 of
                       Inl x \<Rightarrow> Inl x
                     | Inr site \<Rightarrow>
                    (case api_text (jget payload ''processing_purpose'') 80 of
                       Inl x \<Rightarrow> Inl x
                     | Inr purpose \<Rightarrow>
                    (case api_text (jget payload ''request_id'') 256 of
                       Inl x \<Rightarrow> Inl x
                     | Inr request \<Rightarrow>
                         (if identity_matches env rq identity site purpose request auth_ref then Inr identity
                          else Inl (Api_error ''identity_scope_mismatch'' 403)))))
                | _ \<Rightarrow> Inl (Api_error ''identity_scope_mismatch'' 403)))
      | _ \<Rightarrow> Inl (Api_error ''service_unconfigured'' 503))"

section \<open>The controlled context\<close>

definition allowed_subject_fields :: "(string \<times> string list) list" where
  "allowed_subject_fields =
     [(''GBOS Demand Signal'', [''title'', ''team'', ''party_profile'', ''product_brief'', ''quantity'', ''uom'', ''needed_by'',
         ''origin'', ''origin_reference'', ''business_status'', ''review_status'']),
      (''GBOS Party Profile'', [''party_name'', ''team'', ''crm_organization'', ''contact'', ''crm_lead'', ''crm_deal'',
         ''origin'', ''origin_reference'', ''business_status'', ''review_status'']),
      (''GBOS Product Brief'', [''title'', ''team'', ''party_profile'', ''deal'', ''description'', ''target_quantity'',
         ''target_uom'', ''target_date'', ''origin'', ''origin_reference'', ''business_status'', ''review_status'']),
      (''GBOS Sample Feedback'', [''team'', ''sample_project'', ''sample_iteration'', ''summary'', ''rating'', ''received_on'',
         ''received_from_contact'', ''origin'', ''origin_reference'', ''business_status'', ''review_status'']),
      (''GBOS Sample Iteration'', [''team'', ''sample_project'', ''iteration_number'', ''summary'', ''started_on'',
         ''completed_on'', ''origin'', ''origin_reference'', ''business_status'', ''review_status'']),
      (''GBOS Sample Project'', [''title'', ''team'', ''party_profile'', ''product_brief'', ''owner_user'', ''origin'',
         ''origin_reference'', ''business_status'', ''review_status'']),
      (''GBOS Sample Shipment'', [''team'', ''sample_project'', ''sample_iteration'', ''carrier'', ''tracking_number'',
         ''shipped_on'', ''delivered_on'', ''origin'', ''origin_reference'', ''business_status'', ''review_status'']),
      (''GBOS Sourcing Event'', [''title'', ''team'', ''demand_signal'', ''selected_supplier'', ''owner_user'', ''origin'',
         ''origin_reference'', ''business_status'', ''review_status'']),
      (''GBOS Work Item'', [''title'', ''team'', ''assigned_to'', ''priority'', ''due_date'', ''reference_doctype'',
         ''reference_name'', ''blocked_reason'', ''origin'', ''origin_reference'', ''business_status'', ''review_status''])]"

text \<open>\<open>frappe.get_doc(...)\<close> followed by \<open>check_permission\<close> under the mode of the permission scope.\<close>

definition get_permitted ::
  "frappe_site \<Rightarrow> string \<Rightarrow> string \<Rightarrow> string \<Rightarrow> string \<Rightarrow> string \<Rightarrow> frappe_db \<Rightarrow> api_error + fields" where
  "get_permitted env mode user permission doctype name db =
     (case map_of (fx_docs db) (doctype, name) of
        None \<Rightarrow> Inl Does_not_exist
      | Some doc \<Rightarrow> if fe_permits env mode user permission doctype doc then Inr doc else Inl Permission_denied)"

definition member_text :: "json \<Rightarrow> string \<Rightarrow> string" where
  "member_text m name = (case jget (fields_of_json m) name of JStr s \<Rightarrow> s | _ \<Rightarrow> [])"

text \<open>One member of the team: an enabled reviewer, not one, or an enabled column that is no number.\<close>

definition member_reviewer :: "frappe_site \<Rightarrow> json \<Rightarrow> api_error + string option" where
  "member_reviewer env m =
     (if member_text m ''team_role'' \<noteq> ''Reviewer'' then Inr None
      else case int_or_zero (jget (fields_of_json m) ''enabled'') of
        Inl x \<Rightarrow> Inl x
      | Inr i \<Rightarrow>
          (let user = member_text m ''user'' in
           if i = 1 \<and> user \<noteq> [] \<and> fe_user_enabled env user \<and> ''Reviewer'' \<in> set (fe_roles env user)
           then Inr (Some user) else Inr None))"

definition team_reviewers :: "frappe_site \<Rightarrow> fields \<Rightarrow> api_error + string list" where
  "team_reviewers env team =
     (case map_raise (member_reviewer env) (items_of_json (jget team ''members'')) of
        Inl x \<Rightarrow> Inl x
      | Inr found \<Rightarrow> Inr (remdups (map the (filter (\<lambda>x. x \<noteq> None) found))))"

definition subject_snapshot :: "string \<Rightarrow> string \<Rightarrow> int \<Rightarrow> string list \<Rightarrow> fields \<Rightarrow> fields" where
  "subject_snapshot doctype name revision names doc =
     [(''doctype'', JStr doctype), (''name'', JStr name), (''revision'', JInt revision)]
       @ map (\<lambda>n. (n, json_value (jget doc n))) names"

record controlled_context =
  xc_snapshot :: fields
  xc_digest :: string
  xc_team :: string
  xc_reviewer :: string

definition resolve_controlled ::
  "frappe_site \<Rightarrow> string \<Rightarrow> string \<Rightarrow> string \<Rightarrow> string \<Rightarrow> int \<Rightarrow> frappe_db \<Rightarrow> api_error + controlled_context" where
  "resolve_controlled env mode user doctype name revision db =
     (case map_of allowed_subject_fields doctype of
        None \<Rightarrow> Inl (Api_error ''subject_not_allowed'' 422)
      | Some names \<Rightarrow>
     (case get_permitted env mode user ''read'' doctype name db of
        Inl x \<Rightarrow> Inl x
      | Inr doc \<Rightarrow>
     (case int_or_zero (jget doc ''revision'') of
        Inl x \<Rightarrow> Inl x
      | Inr current \<Rightarrow>
     (if current \<noteq> revision then Inl (Api_error ''revision_conflict'' 409)
      else case api_text (jget doc ''team'') 140 of
        Inl x \<Rightarrow> Inl x
      | Inr team \<Rightarrow>
     (case get_permitted env mode user ''read'' ''GBOS Team'' team db of
        Inl x \<Rightarrow> Inl x
      | Inr team_doc \<Rightarrow>
     (case team_reviewers env team_doc of
        Inl x \<Rightarrow> Inl x
      | Inr reviewers \<Rightarrow>
          (if length reviewers \<noteq> 1 then Inl (Api_error ''reviewer_scope_ambiguous'' 409)
           else let snapshot = subject_snapshot doctype name revision names doc in
             Inr \<lparr>xc_snapshot = snapshot, xc_digest = json_digest (JObj snapshot), xc_team = team,
                  xc_reviewer = hd reviewers\<rparr>)))))))"

definition resolve_fields :: "string list" where
  "resolve_fields = [''site_id'', ''processing_purpose'', ''request_id'', ''auth_ref'', ''task_id'', ''proposal_id'',
     ''subject_type'', ''subject_ref'', ''subject_revision'']"

definition resolve_context_body :: "frappe_site \<Rightarrow> frappe_request \<Rightarrow> fields \<Rightarrow> frappe_db \<Rightarrow> api_error + fields" where
  "resolve_context_body env rq payload db =
     (case exact_fields payload resolve_fields ''invalid_context_request'' of
        Inl x \<Rightarrow> Inl x
      | Inr _ \<Rightarrow>
     (case authenticate env rq payload of
        Inl x \<Rightarrow> Inl x
      | Inr _ \<Rightarrow>
     (case api_text (jget payload ''subject_type'') 140 of
        Inl x \<Rightarrow> Inl x
      | Inr doctype \<Rightarrow>
     (case api_text (jget payload ''subject_ref'') 256 of
        Inl x \<Rightarrow> Inl x
      | Inr name \<Rightarrow>
     (case positive_integer (jget payload ''subject_revision'') of
        Inl x \<Rightarrow> Inl x
      | Inr revision \<Rightarrow>
     (case resolve_controlled env ''resolve'' (fq_user rq) doctype name revision db of
        Inl x \<Rightarrow> Inl x
      | Inr c \<Rightarrow>
          Inr [(''site_id'', jget payload ''site_id''), (''request_id'', jget payload ''request_id''),
               (''subject_type'', JStr doctype), (''subject_ref'', JStr name), (''subject_revision'', JInt revision),
               (''team'', JStr (xc_team c)), (''assigned_reviewer'', JStr (xc_reviewer c)),
               (''subject_snapshot'', JObj (xc_snapshot c)), (''subject_payload_digest'', JStr (xc_digest c))]))))))"

section \<open>The intent\<close>

text \<open>Asking whether a table has an object or a list as a key raises a type error.\<close>

definition create_fields :: "(string \<times> string list) list" where
  "create_fields =
     [(''GBOS Work Item'', [''title'', ''team'', ''reference_doctype'', ''reference_name'', ''origin'', ''origin_reference'',
         ''business_status'', ''review_status'']),
      (''GBOS Review Case'', [''title'', ''team'', ''assigned_reviewer'', ''subject_doctype'', ''subject_name'',
         ''subject_revision'', ''subject_payload_sha256'', ''subject_snapshot'', ''case_payload_sha256'', ''evidence_refs'',
         ''policy_version'', ''origin'', ''origin_reference'', ''business_status'', ''review_status'']),
      (''GBOS Informal Observation'', [''subject'', ''summary_zh'', ''team'', ''evidence_refs'', ''model_name'',
         ''model_version'', ''is_official_metric'', ''origin'', ''origin_reference'', ''review_status''])]"

definition invalid_intent :: api_error where
  "invalid_intent = Api_error ''invalid_intent'' 422"

definition validate_work_item ::
  "frappe_site \<Rightarrow> string \<Rightarrow> string \<Rightarrow> fields \<Rightarrow> frappe_db \<Rightarrow> api_error + unit" where
  "validate_work_item env user team values db =
     (if jget values ''business_status'' \<noteq> JStr ''Open'' then Inl invalid_intent
      else case api_text (jget values ''reference_doctype'') 140 of
        Inl x \<Rightarrow> Inl x
      | Inr doctype \<Rightarrow>
     (case api_text (jget values ''reference_name'') 256 of
        Inl x \<Rightarrow> Inl x
      | Inr name \<Rightarrow>
          (if map_of allowed_subject_fields doctype = None then Inl invalid_intent
           else case get_permitted env ''apply'' user ''read'' doctype name db of
             Inl x \<Rightarrow> Inl x
           | Inr reference \<Rightarrow>
               (if jget reference ''team'' \<noteq> JStr team then Inl (Api_error ''identity_scope_mismatch'' 403)
                else map_sum id (\<lambda>_. ()) (api_text (jget values ''title'') 140)))))"

definition evidence_pair_ok :: "json \<Rightarrow> bool" where
  "evidence_pair_ok v =
     (case v of
        JObj p \<Rightarrow>
          keys_are p [''evidence_ref'', ''locator_ref''] \<and> py_eq (jget p ''evidence_ref'') (jget p ''locator_ref'') \<and>
          is_str (jget p ''evidence_ref'') \<and> jget p ''evidence_ref'' \<noteq> JStr []
      | _ \<Rightarrow> False)"

definition validate_observation :: "fields \<Rightarrow> api_error + unit" where
  "validate_observation values =
     (if jget values ''model_name'' \<noteq> JStr approved_model \<or> jget values ''model_version'' \<noteq> JStr approved_model
         \<or> jget values ''is_official_metric'' \<noteq> JBool False
      then Inl invalid_intent
      else case api_text (jget values ''subject'') 140 of
        Inl x \<Rightarrow> Inl x
      | Inr _ \<Rightarrow>
     (case api_text (jget values ''summary_zh'') 2000 of
        Inl x \<Rightarrow> Inl x
      | Inr _ \<Rightarrow>
          (case jget values ''evidence_refs'' of
             JList xs \<Rightarrow> if xs = [] \<or> \<not> list_all evidence_pair_ok xs then Inl invalid_intent else Inr ()
           | _ \<Rightarrow> Inl invalid_intent)))"

definition case_payload :: "fields \<Rightarrow> string \<Rightarrow> string \<Rightarrow> int \<Rightarrow> controlled_context \<Rightarrow> json list \<Rightarrow> fields" where
  "case_payload values doctype name revision c evidence =
     [(''title'', jget values ''title''), (''team'', jget values ''team''),
      (''assigned_reviewer'', jget values ''assigned_reviewer''), (''subject_doctype'', JStr doctype),
      (''subject_name'', JStr name), (''subject_revision'', JInt revision),
      (''subject_payload_sha256'', JStr (xc_digest c)), (''subject_snapshot'', JObj (xc_snapshot c)),
      (''evidence_refs'', JList evidence), (''policy_version'', jget values ''policy_version'')]"

definition validate_review_case ::
  "frappe_site \<Rightarrow> string \<Rightarrow> string \<Rightarrow> fields \<Rightarrow> frappe_db \<Rightarrow> api_error + unit" where
  "validate_review_case env user team values db =
     (if jget values ''business_status'' \<noteq> JStr ''Pending'' then Inl invalid_intent
      else case api_text (jget values ''subject_doctype'') 140 of
        Inl x \<Rightarrow> Inl x
      | Inr doctype \<Rightarrow>
     (case api_text (jget values ''subject_name'') 256 of
        Inl x \<Rightarrow> Inl x
      | Inr name \<Rightarrow>
     (case positive_integer (jget values ''subject_revision'') of
        Inl x \<Rightarrow> Inl x
      | Inr revision \<Rightarrow>
     (case resolve_controlled env ''apply'' user doctype name revision db of
        Inl x \<Rightarrow> Inl x
      | Inr c \<Rightarrow>
     (case json_object env (jget values ''subject_snapshot'') ''subject_snapshot'' of
        Inl x \<Rightarrow> Inl x
      | Inr stored \<Rightarrow>
     (case list_of_text env (jget values ''evidence_refs'') ''evidence_refs'' of
        Inl x \<Rightarrow> Inl x
      | Inr evidence \<Rightarrow>
          (if team \<noteq> xc_team c \<or> jget values ''assigned_reviewer'' \<noteq> JStr (xc_reviewer c)
             \<or> \<not> py_eq (JObj stored) (JObj (xc_snapshot c))
             \<or> jget values ''subject_payload_sha256'' \<noteq> JStr (xc_digest c)
             \<or> jget values ''case_payload_sha256'' \<noteq> JStr (json_digest (JObj (case_payload values doctype name revision c evidence)))
           then Inl invalid_intent
           else case api_text (jget values ''title'') 140 of
             Inl x \<Rightarrow> Inl x
           | Inr _ \<Rightarrow> map_sum id (\<lambda>_. ()) (api_text (jget values ''policy_version'') 140))))))))"

definition validate_create :: "frappe_site \<Rightarrow> string \<Rightarrow> string \<Rightarrow> fields \<Rightarrow> frappe_db \<Rightarrow> api_error + unit" where
  "validate_create env user doctype values db =
     (if jget values ''origin'' \<noteq> JStr ''AI'' \<or> jget values ''review_status'' \<noteq> JStr ''AI Draft'' then Inl invalid_intent
      else case api_text (jget values ''origin_reference'') 256 of
        Inl x \<Rightarrow> Inl x
      | Inr _ \<Rightarrow>
     (case api_text (jget values ''team'') 140 of
        Inl x \<Rightarrow> Inl x
      | Inr team \<Rightarrow>
     (case get_permitted env ''apply'' user ''read'' ''GBOS Team'' team db of
        Inl x \<Rightarrow> Inl x
      | Inr _ \<Rightarrow>
          (if doctype = ''GBOS Work Item'' then validate_work_item env user team values db
           else if doctype = ''GBOS Informal Observation'' then validate_observation values
           else validate_review_case env user team values db))))"

record checked_intent =
  ci_operation :: string
  ci_doctype :: string
  ci_values :: fields

definition validate_intent :: "frappe_site \<Rightarrow> string \<Rightarrow> fields \<Rightarrow> frappe_db \<Rightarrow> api_error + checked_intent" where
  "validate_intent env user intent db =
     (case json_object env (jget intent ''values'') ''values'' of
        Inl x \<Rightarrow> Inl x
      | Inr values \<Rightarrow>
          (if jget intent ''operation'' \<in> {JStr ''create'', JStr ''submit''} \<and>
             (is_obj (jget intent ''doctype'') \<or> is_list (jget intent ''doctype'')) then Inl Internal_failure
           else case (jget intent ''operation'', jget intent ''doctype'') of
             (JStr operation, JStr doctype) \<Rightarrow>
               (if operation = ''create''
                then (case map_of create_fields doctype of
                    None \<Rightarrow> Inl invalid_intent
                  | Some names \<Rightarrow>
                      (case exact_fields values names ''invalid_intent'' of
                         Inl x \<Rightarrow> Inl x
                       | Inr _ \<Rightarrow>
                           map_sum id (\<lambda>_. \<lparr>ci_operation = operation, ci_doctype = doctype, ci_values = values\<rparr>)
                             (validate_create env user doctype values db)))
                else if operation = ''submit''
                then (if doctype \<notin> {''GBOS Work Item'', ''GBOS Review Case''} then Inl invalid_intent
                      else case exact_fields values [''name'', ''origin'', ''review_status''] ''invalid_intent'' of
                        Inl x \<Rightarrow> Inl x
                      | Inr _ \<Rightarrow>
                          (if jget values ''origin'' \<noteq> JStr ''AI'' \<or> jget values ''review_status'' \<noteq> JStr ''Pending''
                           then Inl invalid_intent
                           else map_sum id (\<lambda>_. \<lparr>ci_operation = operation, ci_doctype = doctype, ci_values = values\<rparr>)
                             (api_text (jget values ''name'') 256)))
                else Inl invalid_intent)
           | _ \<Rightarrow> Inl invalid_intent))"

section \<open>Applying once\<close>

definition set_field :: "string \<Rightarrow> json \<Rightarrow> fields \<Rightarrow> fields" where
  "set_field k v kvs = AList.update k v kvs"

definition receipt_of :: "frappe_site \<Rightarrow> string \<Rightarrow> string \<Rightarrow> fields \<Rightarrow> string \<Rightarrow> string \<Rightarrow> api_error + fields" where
  "receipt_of env doctype name doc request_id digest =
     (case int_or_zero (jget doc ''revision'') of
        Inl x \<Rightarrow> Inl x
      | Inr revision \<Rightarrow>
          Inr [(''site_id'', JStr (fe_site env)), (''doctype'', JStr doctype), (''name'', JStr name),
               (''revision'', JInt revision), (''request_id'', JStr request_id), (''request_digest'', JStr digest)])"

definition create_document ::
  "frappe_site \<Rightarrow> string \<Rightarrow> checked_intent \<Rightarrow> string \<Rightarrow> frappe_db \<Rightarrow> api_error + (string \<times> fields) \<times> frappe_db" where
  "create_document env user i request_id db =
     (let doc = set_field ''last_request_id'' (JStr request_id) ((''doctype'', JStr (ci_doctype i)) # ci_values i) in
      if \<not> fe_permits env ''apply'' user ''create'' (ci_doctype i) doc then Inl Permission_denied
      else case fe_insert env (ci_doctype i) doc db of
        Inl x \<Rightarrow> Inl x
      | Inr (name, stored) \<Rightarrow>
          (if map_of (fx_docs db) (ci_doctype i, name) \<noteq> None then Inl Duplicate_entry
           else Inr ((name, stored), db\<lparr>fx_docs := ((ci_doctype i, name), stored) # fx_docs db\<rparr>)))"

definition submit_document ::
  "frappe_site \<Rightarrow> string \<Rightarrow> checked_intent \<Rightarrow> string \<Rightarrow> frappe_db \<Rightarrow> api_error + (string \<times> fields) \<times> frappe_db" where
  "submit_document env user i request_id db =
     (let name = str_of_json (jget (ci_values i) ''name'');
          open_states = (if ci_doctype i = ''GBOS Work Item'' then [''Open'', ''In Progress'', ''Blocked''] else [''Pending'']);
          flags = ''gbos_ai_draft_command'' # (if ci_doctype i = ''GBOS Review Case'' then [''gbos_review_command''] else []) in
      case get_permitted env ''apply'' user ''write'' (ci_doctype i) name db of
        Inl x \<Rightarrow> Inl x
      | Inr doc \<Rightarrow>
          (if jget doc ''origin'' \<noteq> JStr ''AI'' \<or> jget doc ''review_status'' \<noteq> JStr ''AI Draft''
             \<or> jget doc ''business_status'' \<notin> JStr ` set open_states
           then Inl (Api_error ''invalid_transition'' 409)
           else case fe_save env flags doc
               (set_field ''last_request_id'' (JStr request_id) (set_field ''review_status'' (JStr ''Pending'') doc)) db of
             Inl x \<Rightarrow> Inl x
           | Inr stored \<Rightarrow> Inr ((name, stored), db\<lparr>fx_docs := AList.update (ci_doctype i, name) stored (fx_docs db)\<rparr>)))"

definition execute_intent ::
  "frappe_site \<Rightarrow> string \<Rightarrow> checked_intent \<Rightarrow> string \<Rightarrow> string \<Rightarrow> frappe_db \<Rightarrow> api_error + fields \<times> frappe_db" where
  "execute_intent env user i request_id digest db =
     (case (if ci_operation i = ''create'' then create_document env user i request_id db
            else submit_document env user i request_id db) of
        Inl x \<Rightarrow> Inl x
      | Inr ((name, stored), db') \<Rightarrow>
          map_sum id (\<lambda>r. (r, db')) (receipt_of env (ci_doctype i) name stored request_id digest))"

definition audit_name :: "string \<Rightarrow> string \<Rightarrow> string \<Rightarrow> string" where
  "audit_name site auth_ref request_id =
     ''GBOS-MATERIALIZE-'' @ take 44 (sha256_hex (join [char_of (0 :: nat)] [site, auth_ref, request_id]))"

definition audit_fields :: "audit_row \<Rightarrow> fields" where
  "audit_fields a =
     [(''doctype'', JStr ''Integration Request''), (''request_id'', JStr (au_request_id a)), (''status'', JStr (au_status a))]"

definition integration_request :: string where
  "integration_request = ''Integration Request''"

definition new_audit :: "frappe_request \<Rightarrow> fields \<Rightarrow> string \<Rightarrow> string \<Rightarrow> audit_row" where
  "new_audit rq payload request_id digest =
     \<lparr>au_request_id = request_id, au_status = ''Authorized'',
      au_data = [(''site_id'', jget payload ''site_id''), (''processing_purpose'', jget payload ''processing_purpose''),
        (''auth_ref'', jget payload ''auth_ref''), (''actor'', JStr (fq_user rq)), (''request_id'', JStr request_id),
        (''request_digest'', JStr digest)],
      au_output = None, au_reference = None\<rparr>"

definition complete_audit :: "fields \<Rightarrow> audit_row \<Rightarrow> audit_row" where
  "complete_audit receipt a =
     a\<lparr>au_status := ''Completed'', au_output := Some (json_copy (JObj receipt)),
       au_reference := Some (str_of_json (jget receipt ''doctype''), str_of_json (jget receipt ''name''))\<rparr>"

definition replay_audit :: "frappe_site \<Rightarrow> string \<Rightarrow> audit_row \<Rightarrow> string \<Rightarrow> api_error + fields" where
  "replay_audit env user a digest =
     (if \<not> fe_permits env ''apply'' user ''read'' integration_request (audit_fields a) then Inl Permission_denied
      else if jget (au_data a) ''request_digest'' \<noteq> JStr digest then Inl (Api_error ''idempotency_conflict'' 409)
      else case (au_status a = ''Completed'', au_output a) of
        (True, Some (JObj out)) \<Rightarrow> Inr out
      | _ \<Rightarrow> Inl (Api_error ''request_in_progress'' 409))"

definition run_idempotent ::
  "frappe_site \<Rightarrow> frappe_request \<Rightarrow> fields \<Rightarrow> string \<Rightarrow> string \<Rightarrow> fields \<Rightarrow> frappe_db \<Rightarrow> api_error + fields \<times> frappe_db" where
  "run_idempotent env rq payload request_id digest intent db =
     (let name = audit_name (py_str (jget payload ''site_id'')) (py_str (jget payload ''auth_ref'')) request_id in
      case map_of (fx_audits db) name of
        Some a \<Rightarrow> map_sum id (\<lambda>r. (r, db)) (replay_audit env (fq_user rq) a digest)
      | None \<Rightarrow>
     (case validate_intent env (fq_user rq) intent db of
        Inl x \<Rightarrow> Inl x
      | Inr i \<Rightarrow>
     (let audit = new_audit rq payload request_id digest in
      if \<not> fe_permits env ''apply'' (fq_user rq) ''create'' integration_request (audit_fields audit) then Inl Permission_denied
      else case execute_intent env (fq_user rq) i request_id digest (db\<lparr>fx_audits := (name, audit) # fx_audits db\<rparr>) of
        Inl x \<Rightarrow> Inl x
      | Inr (receipt, db') \<Rightarrow>
          (if \<not> fe_permits env ''apply'' (fq_user rq) ''write'' integration_request (audit_fields (complete_audit receipt audit))
           then Inl Permission_denied
           else Inr (receipt, db'\<lparr>fx_audits := AList.update name (complete_audit receipt audit) (fx_audits db')\<rparr>)))))"

definition apply_fields :: "string list" where
  "apply_fields = [''site_id'', ''processing_purpose'', ''request_id'', ''auth_ref'', ''request_digest'', ''intent'']"

definition apply_draft_body ::
  "frappe_site \<Rightarrow> frappe_request \<Rightarrow> fields \<Rightarrow> frappe_db \<Rightarrow> api_error + fields \<times> frappe_db" where
  "apply_draft_body env rq payload db =
     (case exact_fields payload apply_fields ''invalid_materialization_request'' of
        Inl x \<Rightarrow> Inl x
      | Inr _ \<Rightarrow>
     (case authenticate env rq payload of
        Inl x \<Rightarrow> Inl x
      | Inr _ \<Rightarrow>
     (case api_text (jget payload ''request_id'') 256 of
        Inl x \<Rightarrow> Inl x
      | Inr request_id \<Rightarrow>
     (case json_object env (jget payload ''intent'') ''intent'' of
        Inl x \<Rightarrow> Inl x
      | Inr intent \<Rightarrow>
     (case exact_fields intent [''operation'', ''doctype'', ''values''] ''invalid_intent'' of
        Inl x \<Rightarrow> Inl x
      | Inr _ \<Rightarrow>
          (let digest = str_of_json (jget payload ''request_digest'') in
           if \<not> is_str (jget payload ''request_digest'') \<or> \<not> is_sha256_text digest \<or> json_digest (JObj intent) \<noteq> digest
           then Inl (Api_error ''invalid_request_digest'' 422)
           else run_idempotent env rq payload request_id digest intent db))))))"

section \<open>The endpoint\<close>

record api_response =
  ar_http_status :: int
  ar_body :: fields

fun api_failure :: "api_error \<Rightarrow> string \<times> int" where
  "api_failure (Api_error code status) = (code, status)"
| "api_failure Permission_denied = (''permission_denied'', 403)"
| "api_failure Does_not_exist = (''not_found'', 404)"
| "api_failure Duplicate_entry = (''request_in_progress'', 409)"
| "api_failure Frappe_invalid = (''validation_error'', 422)"
| "api_failure Internal_failure = (''internal_error'', 500)"

text \<open>What the wrapper answers, and the transaction it leaves.\<close>

definition render :: "api_error + fields \<Rightarrow> api_response" where
  "render r =
     (case r of
        Inl e \<Rightarrow>
          \<lparr>ar_http_status = snd (api_failure e), ar_body = [(''error'', JObj [(''code'', JStr (fst (api_failure e)))])]\<rparr>
      | Inr out \<Rightarrow> \<lparr>ar_http_status = 200, ar_body = out\<rparr>)"

definition endpoint ::
  "frappe_site \<Rightarrow> (fields \<Rightarrow> frappe_db \<Rightarrow> api_error + fields \<times> frappe_db) \<Rightarrow> json \<Rightarrow> frappe_db
    \<Rightarrow> (api_error, fields, frappe_db) call" where
  "endpoint env body payload db =
     (case (case json_object env payload ''payload'' of Inl x \<Rightarrow> Inl x | Inr kvs \<Rightarrow> body kvs db) of
        Inl x \<Rightarrow> (Inl x, db)
      | Inr (out, db') \<Rightarrow> (Inr out, db'))"

definition resolve_context ::
  "frappe_site \<Rightarrow> frappe_request \<Rightarrow> json \<Rightarrow> frappe_db \<Rightarrow> (api_error, fields, frappe_db) call" where
  "resolve_context env rq payload db =
     endpoint env (\<lambda>kvs s. map_sum id (\<lambda>out. (out, s)) (resolve_context_body env rq kvs s)) payload db"

definition apply_draft_endpoint ::
  "frappe_site \<Rightarrow> frappe_request \<Rightarrow> json \<Rightarrow> frappe_db \<Rightarrow> (api_error, fields, frappe_db) call" where
  "apply_draft_endpoint env rq payload db = endpoint env (apply_draft_body env rq) payload db"

end
