(* ===== verification/Draft_Outbox.thy ===== *)
theory Draft_Outbox
  imports Projection_Publisher Agent_Materialization
begin

text \<open>
  Communication intelligence and its outbox of drafts
  (\<open>services/context/context_service/communication_intelligence.py\<close> over the tables of
  \<open>migrations/005_local_pilot_communication_intelligence.sql\<close>): publishing a projection, and claiming,
  renewing, acknowledging and failing a draft. A transaction is one function on the tables; the checks,
  unique keys and triggers of the schema make it raise and leave the tables as they were. The five
  receipt columns, all null or none, are one optional receipt.
\<close>

datatype draft_error =
    Draft_value string
  | Draft_type string
  | Draft_conflict string
  | Draft_lease string
  | Draft_database string

section \<open>Values\<close>

definition draft_text :: "string \<Rightarrow> string \<Rightarrow> nat \<Rightarrow> draft_error + unit" where
  "draft_text s name maximum =
     (if trimmed maximum s \<and> \<not> list_ex breaks_line s then Inr () else Inl (Draft_value (''invalid '' @ name)))"

definition json_draft_text :: "json \<Rightarrow> string \<Rightarrow> nat \<Rightarrow> draft_error + unit" where
  "json_draft_text v name maximum =
     (case v of JStr s \<Rightarrow> draft_text s name maximum | _ \<Rightarrow> Inl (Draft_value (''invalid '' @ name)))"

definition draft_aware :: "datetime \<Rightarrow> string \<Rightarrow> draft_error + unit" where
  "draft_aware t name = (if is_aware t then Inr () else Inl (Draft_value (name @ '' must be timezone-aware'')))"

definition positive_duration :: "int \<Rightarrow> draft_error + unit" where
  "positive_duration d = (if d \<le> 0 then Inl (Draft_value ''lease_duration must be positive'') else Inr ())"

definition unit_separator :: string where
  "unit_separator = [char_of (31 :: nat)]"

definition stable_id :: "string \<Rightarrow> string list \<Rightarrow> string" where
  "stable_id name parts = name @ ''-'' @ take 32 (sha256_hex (join unit_separator (name # parts)))"

definition draft_subject :: "string \<Rightarrow> string" where
  "draft_subject oid =
     (let candidate = ''Communication event '' @ oid in
      if length candidate \<le> 140 then candidate else ''Communication event '' @ take 24 (sha256_hex oid))"

definition draft_purpose :: string where
  "draft_purpose = ''observation_processing''"

definition draft_doctype :: string where
  "draft_doctype = ''GBOS Informal Observation''"

text \<open>\<open>_bound_evidence\<close>: building a set of objects or lists raises a type error.\<close>

definition bound_evidence :: "json \<Rightarrow> string list \<Rightarrow> string \<Rightarrow> draft_error + unit" where
  "bound_evidence v allowed name =
     (case v of
        JList xs \<Rightarrow>
          (if xs = [] then Inl (Draft_value (name @ '' is outside the publication evidence''))
           else if list_ex (\<lambda>x. is_obj x \<or> is_list x) xs then Inl (Draft_type ''unhashable'')
           else if distinct xs \<and> list_all (\<lambda>x. is_str x \<and> str_of_json x \<in> set allowed) xs then Inr ()
           else Inl (Draft_value (name @ '' is outside the publication evidence'')))
      | _ \<Rightarrow> Inl (Draft_value (name @ '' is outside the publication evidence'')))"

definition draft_confidence :: "json \<Rightarrow> string \<Rightarrow> draft_error + unit" where
  "draft_confidence v name = (if in_unit v then Inr () else Inl (Draft_value (''invalid '' @ name)))"

definition closed_fact :: "string list \<Rightarrow> fields \<Rightarrow> draft_error + fields" where
  "closed_fact allowed f =
     (if \<not> keys_are f fact_keys then Inl (Draft_value ''fact proposal must use the closed schema'')
      else if jget f ''status'' \<noteq> JStr ''proposed'' then Inl (Draft_value ''fact proposal must remain proposed'')
      else case check_all id
        [json_draft_text (jget f ''subject_ref'') ''fact subject_ref'' 512,
         json_draft_text (jget f ''predicate'') ''fact predicate'' 160,
         json_draft_text (jget f ''value_display'') ''fact value_display'' 2000,
         json_draft_text (jget f ''type'') ''fact type'' 80,
         (if jget f ''unit'' = JNull then Inr () else json_draft_text (jget f ''unit'') ''fact unit'' 80),
         draft_confidence (jget f ''confidence'') ''fact confidence'',
         bound_evidence (jget f ''evidence_refs'') allowed ''fact evidence''] of
        Inl x \<Rightarrow> Inl x
      | Inr _ \<Rightarrow> Inr f)"

definition closed_association :: "string list \<Rightarrow> fields \<Rightarrow> draft_error + fields" where
  "closed_association allowed f =
     (if \<not> keys_are f association_keys then Inl (Draft_value ''association suggestion must use the closed schema'')
      else case check_all id
        [json_draft_text (jget f ''type'') ''association type'' 80,
         json_draft_text (jget f ''target_ref'') ''association target_ref'' 512,
         draft_confidence (jget f ''confidence'') ''association confidence'',
         bound_evidence (jget f ''evidence_refs'') allowed ''association evidence''] of
        Inl x \<Rightarrow> Inl x
      | Inr _ \<Rightarrow> Inr f)"

section \<open>The prepared publication\<close>

record prepared_publication =
  pd_intelligence_id :: string
  pd_draft_id :: string
  pd_payload_digest :: string
  pd_draft_digest :: string
  pd_subject :: string
  pd_team_ref :: "string option"

definition json_option :: "string option \<Rightarrow> json" where
  "json_option v = (case v of None \<Rightarrow> JNull | Some s \<Rightarrow> JStr s)"

definition publication_payload ::
  "tenant_scope \<Rightarrow> publication \<Rightarrow> string option \<Rightarrow> fields list \<Rightarrow> fields list \<Rightarrow> fields" where
  "publication_payload scope p team facts associations =
     [(''site_id'', JStr (pn_site_id p)), (''processing_purpose'', JStr (ts_processing_purpose scope)),
      (''observation_id'', JStr (pn_observation_id p)), (''team_ref'', json_option team),
      (''evidence_refs'', JList (map JStr (pn_evidence_refs p))), (''summary_zh'', JStr (pn_summary p)),
      (''original_language'', JStr (pn_language p)), (''confidence'', pn_confidence p),
      (''review_status'', JStr (pn_review_status p)), (''fact_proposals'', JList (map JObj facts)),
      (''association_suggestions'', JList (map JObj associations)),
      (''model'', JObj [(''name'', JStr (pn_model_name p)), (''version'', JStr (pn_model_version p))]),
      (''invocation_refs'', JList (map JStr (pn_invocation_refs p)))]"

definition evidence_pair :: "string \<Rightarrow> json" where
  "evidence_pair ref = JObj [(''evidence_ref'', JStr ref), (''locator_ref'', JStr ref)]"

definition draft_values ::
  "string \<Rightarrow> string \<Rightarrow> string \<Rightarrow> string list \<Rightarrow> string \<Rightarrow> string \<Rightarrow> string \<Rightarrow> fields" where
  "draft_values subject summary team refs model_name version oid =
     [(''subject'', JStr subject), (''summary_zh'', JStr summary), (''team'', JStr team),
      (''evidence_refs'', JList (map evidence_pair refs)),
      (''model_name'', JStr model_name), (''model_version'', JStr version), (''is_official_metric'', JBool False),
      (''origin'', JStr ''AI''), (''origin_reference'', JStr oid), (''review_status'', JStr ''AI Draft'')]"

definition draft_payload :: "publication \<Rightarrow> string option \<Rightarrow> fields" where
  "draft_payload p team =
     (case team of
        None \<Rightarrow> []
      | Some t \<Rightarrow>
          [(''operation'', JStr ''create''), (''doctype'', JStr draft_doctype),
           (''values'', JObj (draft_values (draft_subject (pn_observation_id p)) (pn_summary p) t (pn_evidence_refs p)
              (pn_model_name p) (pn_model_version p) (pn_observation_id p)))])"

definition prepare_publication ::
  "tenant_scope \<Rightarrow> publication \<Rightarrow> string \<Rightarrow> string option \<Rightarrow> draft_error + prepared_publication" where
  "prepare_publication scope p key trusted =
     (if ts_site_id scope \<noteq> pn_site_id p then Inl (Draft_value ''publication site does not match trusted scope'')
      else if ts_processing_purpose scope \<noteq> draft_purpose
      then Inl (Draft_value ''publication purpose is not observation processing'')
      else case draft_text key ''idempotency_key'' 256 of
        Inl x \<Rightarrow> Inl x
      | Inr _ \<Rightarrow>
     (case (case trusted of None \<Rightarrow> Inr () | Some t \<Rightarrow> draft_text t ''trusted team_ref'' 256) of
        Inl x \<Rightarrow> Inl x
      | Inr _ \<Rightarrow>
     (if pn_team_ref p \<noteq> None \<and> pn_team_ref p \<noteq> trusted
      then Inl (Draft_value ''publication team does not match trusted source'')
      else
     (case map_raise (closed_fact (pn_evidence_refs p)) (pn_facts p) of
        Inl x \<Rightarrow> Inl x
      | Inr facts \<Rightarrow>
     (case map_raise (closed_association (pn_evidence_refs p)) (pn_associations p) of
        Inl x \<Rightarrow> Inl x
      | Inr associations \<Rightarrow>
          Inr \<lparr>pd_intelligence_id = stable_id ''communication-intelligence'' [pn_site_id p, pn_observation_id p],
               pd_draft_id = stable_id ''communication-draft'' [pn_site_id p, pn_observation_id p],
               pd_payload_digest = json_digest (JObj (publication_payload scope p trusted facts associations)),
               pd_draft_digest = json_digest (JObj (draft_payload p trusted)),
               pd_subject = draft_subject (pn_observation_id p), pd_team_ref = trusted\<rparr>)))))"

section \<open>Tables\<close>

record intelligence_row =
  ir_site :: string
  ir_intelligence_id :: string
  ir_observation_id :: string
  ir_purpose :: string
  ir_key :: string
  ir_digest :: string
  ir_summary :: string
  ir_language :: string
  ir_confidence :: json
  ir_review_status :: string
  ir_team_ref :: "string option"
  ir_model_name :: string
  ir_model_version :: string

text \<open>A fact or an association with its parent: site, intelligence, its identifier and its ordinal.\<close>

record item_row =
  tr_site :: string
  tr_intelligence_id :: string
  tr_item_id :: string
  tr_ordinal :: int
  tr_columns :: fields
  tr_status :: string

record draft_row =
  od_site :: string
  od_draft_id :: string
  od_intelligence_id :: string
  od_observation_id :: string
  od_purpose :: string
  od_subject :: string
  od_summary :: string
  od_team_ref :: string
  od_model_name :: string
  od_model_version :: string
  od_origin :: string
  od_origin_reference :: string
  od_review_status :: string
  od_official_metric :: bool
  od_key :: string
  od_payload_digest :: string
  od_status :: string
  od_attempt :: int
  od_max_attempts :: int
  od_next_attempt_at :: instant
  od_lease_owner :: "string option"
  od_lease_expires_at :: "instant option"
  od_error :: "string option"
  od_receipt :: "draft_receipt option"
  od_created_at :: instant
  od_updated_at :: instant

text \<open>The child tables of references are keyed by site, parent and reference, with an ordinal.\<close>

type_synonym ref_row = "string \<times> string \<times> string \<times> int"

record intelligence_db =
  ib_intelligence :: "intelligence_row list"
  ib_evidence :: "ref_row list"
  ib_invocations :: "ref_row list"
  ib_facts :: "item_row list"
  ib_fact_evidence :: "(string \<times> string \<times> string \<times> string) list"
  ib_associations :: "item_row list"
  ib_association_evidence :: "(string \<times> string \<times> string \<times> string) list"
  ib_drafts :: "draft_row list"
  ib_draft_evidence :: "ref_row list"

text \<open>\<open>char_length(x) BETWEEN lo AND hi\<close> on a text column, which can hold no NUL character.\<close>

definition size_between :: "nat \<Rightarrow> nat \<Rightarrow> string \<Rightarrow> bool" where
  "size_between lo hi s = (lo \<le> length s \<and> length s \<le> hi \<and> CHR 0x00 \<notin> set s)"

definition intelligence_check :: "intelligence_row \<Rightarrow> bool" where
  "intelligence_check r =
     (site_id_shape (ir_site r) \<and> size_between 1 256 (ir_observation_id r) \<and> ir_purpose r = draft_purpose \<and>
      size_between 1 256 (ir_key r) \<and> is_sha256_text (ir_digest r) \<and> size_between 1 2000 (ir_summary r) \<and>
      size_between 1 35 (ir_language r) \<and> in_unit (ir_confidence r) \<and> ir_review_status r = ''AI Draft'' \<and>
      (case ir_team_ref r of None \<Rightarrow> True | Some t \<Rightarrow> size_between 1 256 t) \<and> ir_model_name r = approved_model \<and>
      size_between 1 160 (ir_model_version r))"

definition intelligence_clash :: "intelligence_row \<Rightarrow> intelligence_row \<Rightarrow> bool" where
  "intelligence_clash r x =
     (ir_site x = ir_site r \<and> (ir_intelligence_id x = ir_intelligence_id r \<or> ir_observation_id x = ir_observation_id r
        \<or> ir_key x = ir_key r))"

definition ref_check :: "nat \<Rightarrow> ref_row \<Rightarrow> bool" where
  "ref_check hi r = (case r of (_, _, ref, ordinal) \<Rightarrow> size_between 1 hi ref \<and> 1 \<le> ordinal \<and> ordinal \<le> 100)"

definition ref_clash :: "ref_row \<Rightarrow> ref_row \<Rightarrow> bool" where
  "ref_clash r x =
     (case (r, x) of ((site, parent, ref, ordinal), (site', parent', ref', ordinal')) \<Rightarrow>
        site' = site \<and> parent' = parent \<and> (ref' = ref \<or> ordinal' = ordinal))"

definition item_clash :: "item_row \<Rightarrow> item_row \<Rightarrow> bool" where
  "item_clash r x =
     (tr_site x = tr_site r \<and> tr_intelligence_id x = tr_intelligence_id r \<and>
      (tr_item_id x = tr_item_id r \<or> tr_ordinal x = tr_ordinal r))"

definition item_check :: "(string \<times> nat) list \<Rightarrow> item_row \<Rightarrow> bool" where
  "item_check bounds r =
     (list_all (\<lambda>(name, hi). size_between 1 hi (str_of_json (jget (tr_columns r) name))) bounds \<and>
      in_unit (jget (tr_columns r) ''confidence'') \<and> tr_status r = ''proposed'' \<and> 1 \<le> tr_ordinal r \<and> tr_ordinal r \<le> 100)"

definition fact_check :: "item_row \<Rightarrow> bool" where
  "fact_check r =
     (item_check [(''subject_ref'', 512), (''predicate'', 160), (''value_display'', 2000), (''type'', 80)] r \<and>
      (case jget (tr_columns r) ''unit'' of JNull \<Rightarrow> True | v \<Rightarrow> size_between 1 80 (str_of_json v)))"

definition association_check :: "item_row \<Rightarrow> bool" where
  "association_check = item_check [(''type'', 80), (''target_ref'', 512)]"

definition lease_shape :: "draft_row \<Rightarrow> bool" where
  "lease_shape r =
     (od_status r = ''running'' \<and> 1 \<le> od_attempt r \<and> od_lease_owner r \<noteq> None \<and> od_lease_expires_at r \<noteq> None \<or>
      od_status r \<noteq> ''running'' \<and> od_lease_owner r = None \<and> od_lease_expires_at r = None)"

definition receipt_shape :: "draft_row \<Rightarrow> bool" where
  "receipt_shape r =
     (case od_receipt r of
        None \<Rightarrow> od_status r \<noteq> ''succeeded''
      | Some x \<Rightarrow>
          od_status r = ''succeeded'' \<and> fd_doctype x = draft_doctype \<and> fd_request_id x = od_draft_id r \<and>
          (case fd_revision x of JInt i \<Rightarrow> 0 \<le> i \<and> i < 2 ^ 31 | _ \<Rightarrow> False) \<and> is_sha256_text (fd_request_digest x))"

definition draft_statuses :: "string list" where
  "draft_statuses = [''pending'', ''running'', ''retry'', ''succeeded'', ''dead_letter'']"

definition draft_check :: "draft_row \<Rightarrow> bool" where
  "draft_check r =
     (size_between 1 256 (od_observation_id r) \<and> od_purpose r = draft_purpose \<and> size_between 1 140 (od_subject r) \<and>
      size_between 1 2000 (od_summary r) \<and> size_between 1 256 (od_team_ref r) \<and> od_model_name r = approved_model \<and>
      size_between 1 160 (od_model_version r) \<and> od_origin r = ''AI'' \<and> od_origin_reference r = od_observation_id r \<and>
      od_review_status r = ''AI Draft'' \<and> \<not> od_official_metric r \<and> size_between 1 256 (od_key r) \<and>
      is_sha256_text (od_payload_digest r) \<and> od_status r \<in> set draft_statuses \<and> 0 \<le> od_attempt r \<and>
      od_attempt r \<le> od_max_attempts r \<and> 1 \<le> od_max_attempts r \<and> od_max_attempts r \<le> 5 \<and> lease_shape r \<and>
      receipt_shape r \<and> (case od_error r of None \<Rightarrow> True | Some c \<Rightarrow> is_code c) \<and> od_created_at r \<le> od_updated_at r)"

definition draft_clash :: "draft_row \<Rightarrow> draft_row \<Rightarrow> bool" where
  "draft_clash r x =
     (od_site x = od_site r \<and> (od_draft_id x = od_draft_id r \<or> od_intelligence_id x = od_intelligence_id r \<or> od_key x = od_key r))"

text \<open>The two triggers: what never changes, and the transitions of the status.\<close>

definition draft_identity :: "draft_row \<Rightarrow> draft_row \<Rightarrow> bool" where
  "draft_identity old new =
     (new = old\<lparr>od_status := od_status new, od_attempt := od_attempt new, od_next_attempt_at := od_next_attempt_at new,
        od_lease_owner := od_lease_owner new, od_lease_expires_at := od_lease_expires_at new, od_error := od_error new,
        od_receipt := od_receipt new, od_updated_at := od_updated_at new\<rparr>)"

definition draft_transition :: "draft_row \<Rightarrow> draft_row \<Rightarrow> bool" where
  "draft_transition old new =
     (od_status old \<in> {''pending'', ''retry'', ''running''} \<and> od_status new = ''running'' \<and> od_attempt new = od_attempt old + 1 \<or>
      od_status old = ''running'' \<and> od_status new \<in> {''retry'', ''succeeded'', ''dead_letter''} \<and> od_attempt new = od_attempt old \<or>
      od_status old = ''running'' \<and> od_status new = ''running'' \<and> od_attempt new = od_attempt old \<and>
      od_lease_owner new = od_lease_owner old \<and>
      (case (od_lease_expires_at old, od_lease_expires_at new) of (Some a, Some b) \<Rightarrow> a < b | _ \<Rightarrow> False) \<and>
      od_next_attempt_at new = od_next_attempt_at old \<and> od_error new = od_error old \<and> od_receipt new = od_receipt old \<and>
      od_updated_at old \<le> od_updated_at new)"

section \<open>Statements\<close>

definition insert_row :: "string \<Rightarrow> ('r \<Rightarrow> bool) \<Rightarrow> ('r \<Rightarrow> 'r \<Rightarrow> bool) \<Rightarrow> 'r \<Rightarrow> 'r list \<Rightarrow> draft_error + 'r list" where
  "insert_row table check clash r rows =
     (if check r \<and> \<not> list_ex (clash r) rows then Inr (rows @ [r]) else Inl (Draft_database table))"

fun insert_rows :: "string \<Rightarrow> ('r \<Rightarrow> bool) \<Rightarrow> ('r \<Rightarrow> 'r \<Rightarrow> bool) \<Rightarrow> 'r list \<Rightarrow> 'r list \<Rightarrow> draft_error + 'r list" where
  "insert_rows table check clash [] rows = Inr rows"
| "insert_rows table check clash (r # rs) rows =
     (case insert_row table check clash r rows of Inl x \<Rightarrow> Inl x | Inr rows' \<Rightarrow> insert_rows table check clash rs rows')"

definition update_drafts :: "(draft_row \<Rightarrow> bool) \<Rightarrow> (draft_row \<Rightarrow> draft_row) \<Rightarrow> draft_row list \<Rightarrow> draft_error + draft_row list" where
  "update_drafts sel f rows =
     (if list_all (\<lambda>r. sel r \<longrightarrow> draft_identity r (f r) \<and> draft_transition r (f r) \<and> draft_check (f r)) rows
      then Inr (map (\<lambda>r. if sel r then f r else r) rows)
      else Inl (Draft_database ''communication_draft_outbox''))"

section \<open>Publishing\<close>

definition number_refs :: "string \<Rightarrow> string \<Rightarrow> string list \<Rightarrow> ref_row list" where
  "number_refs site parent refs = map (\<lambda>(n, ref). (site, parent, ref, int n)) (enumerate 1 refs)"

definition item_of :: "string \<Rightarrow> string \<Rightarrow> string \<Rightarrow> nat \<Rightarrow> fields \<Rightarrow> item_row" where
  "item_of kind site iid n f =
     \<lparr>tr_site = site, tr_intelligence_id = iid,
      tr_item_id = stable_id kind [iid, int_text (int n), json_digest (JObj f)], tr_ordinal = int n,
      tr_columns = filter (\<lambda>(k, _). k \<noteq> ''evidence_refs'' \<and> k \<noteq> ''status'') f, tr_status = ''proposed''\<rparr>"

definition item_refs :: "fields \<Rightarrow> string list" where
  "item_refs f = map str_of_json (refs_of f)"

text \<open>One fact or association and then its evidence, each reference of which must be the publication's.\<close>

definition insert_item ::
  "string \<Rightarrow> (item_row \<Rightarrow> bool) \<Rightarrow> ref_row list \<Rightarrow> item_row \<Rightarrow> string list
    \<Rightarrow> item_row list \<times> (string \<times> string \<times> string \<times> string) list
    \<Rightarrow> draft_error + item_row list \<times> (string \<times> string \<times> string \<times> string) list" where
  "insert_item table check evidence r refs t =
     (case insert_row table check item_clash r (fst t) of
        Inl x \<Rightarrow> Inl x
      | Inr items \<Rightarrow>
          map_sum id (Pair items)
            (insert_rows (table @ ''_evidence'')
               (\<lambda>(site, iid, _, ref). list_ex (\<lambda>(site', iid', ref', _). site' = site \<and> iid' = iid \<and> ref' = ref) evidence)
               (=) (map (\<lambda>ref. (tr_site r, tr_intelligence_id r, tr_item_id r, ref)) refs) (snd t)))"

fun insert_items ::
  "string \<Rightarrow> (item_row \<Rightarrow> bool) \<Rightarrow> ref_row list \<Rightarrow> (item_row \<times> string list) list
    \<Rightarrow> item_row list \<times> (string \<times> string \<times> string \<times> string) list
    \<Rightarrow> draft_error + item_row list \<times> (string \<times> string \<times> string \<times> string) list" where
  "insert_items table check evidence [] t = Inr t"
| "insert_items table check evidence ((r, refs) # xs) t =
     (case insert_item table check evidence r refs t of
        Inl x \<Rightarrow> Inl x
      | Inr t' \<Rightarrow> insert_items table check evidence xs t')"

definition intelligence_of :: "tenant_scope \<Rightarrow> publication \<Rightarrow> string \<Rightarrow> prepared_publication \<Rightarrow> intelligence_row" where
  "intelligence_of scope p key d =
     \<lparr>ir_site = ts_site_id scope, ir_intelligence_id = pd_intelligence_id d, ir_observation_id = pn_observation_id p,
      ir_purpose = ts_processing_purpose scope, ir_key = key, ir_digest = pd_payload_digest d,
      ir_summary = pn_summary p, ir_language = pn_language p, ir_confidence = pn_confidence p,
      ir_review_status = ''AI Draft'', ir_team_ref = pd_team_ref d, ir_model_name = pn_model_name p,
      ir_model_version = pn_model_version p\<rparr>"

definition draft_of :: "instant \<Rightarrow> tenant_scope \<Rightarrow> publication \<Rightarrow> prepared_publication \<Rightarrow> string \<Rightarrow> draft_row" where
  "draft_of now scope p d team =
     \<lparr>od_site = ts_site_id scope, od_draft_id = pd_draft_id d, od_intelligence_id = pd_intelligence_id d,
      od_observation_id = pn_observation_id p, od_purpose = ts_processing_purpose scope, od_subject = pd_subject d,
      od_summary = pn_summary p, od_team_ref = team, od_model_name = pn_model_name p,
      od_model_version = pn_model_version p, od_origin = ''AI'', od_origin_reference = pn_observation_id p,
      od_review_status = ''AI Draft'', od_official_metric = False,
      od_key = ''communication-draft:'' @ pn_observation_id p, od_payload_digest = pd_draft_digest d,
      od_status = ''pending'', od_attempt = 0, od_max_attempts = 5, od_next_attempt_at = now, od_lease_owner = None,
      od_lease_expires_at = None, od_error = None, od_receipt = None, od_created_at = now, od_updated_at = now\<rparr>"

definition write_draft ::
  "instant \<Rightarrow> tenant_scope \<Rightarrow> publication \<Rightarrow> prepared_publication \<Rightarrow> intelligence_db \<Rightarrow> draft_error + intelligence_db" where
  "write_draft now scope p d db =
     (case pd_team_ref d of
        None \<Rightarrow> Inr db
      | Some team \<Rightarrow>
          (case insert_row ''communication_draft_outbox'' draft_check draft_clash (draft_of now scope p d team) (ib_drafts db) of
             Inl x \<Rightarrow> Inl x
           | Inr drafts \<Rightarrow>
               (case insert_rows ''communication_draft_evidence'' (ref_check 512) ref_clash
                       (number_refs (ts_site_id scope) (pd_draft_id d) (pn_evidence_refs p)) (ib_draft_evidence db) of
                  Inl x \<Rightarrow> Inl x
                | Inr evidence \<Rightarrow> Inr (db\<lparr>ib_drafts := drafts, ib_draft_evidence := evidence\<rparr>))))"

definition write_items ::
  "tenant_scope \<Rightarrow> publication \<Rightarrow> prepared_publication \<Rightarrow> intelligence_db \<Rightarrow> draft_error + intelligence_db" where
  "write_items scope p d db =
     (case insert_items ''communication_fact_proposals'' fact_check (ib_evidence db)
             (map (\<lambda>(n, f). (item_of ''communication-fact'' (ts_site_id scope) (pd_intelligence_id d) n f, item_refs f))
                (enumerate 1 (pn_facts p))) (ib_facts db, ib_fact_evidence db) of
        Inl x \<Rightarrow> Inl x
      | Inr (facts, fact_evidence) \<Rightarrow>
     (case insert_items ''communication_association_suggestions'' association_check (ib_evidence db)
             (map (\<lambda>(n, f). (item_of ''communication-association'' (ts_site_id scope) (pd_intelligence_id d) n f, item_refs f))
                (enumerate 1 (pn_associations p))) (ib_associations db, ib_association_evidence db) of
        Inl x \<Rightarrow> Inl x
      | Inr (associations, association_evidence) \<Rightarrow>
          Inr (db\<lparr>ib_facts := facts, ib_fact_evidence := fact_evidence, ib_associations := associations,
                  ib_association_evidence := association_evidence\<rparr>)))"

definition write_publication ::
  "instant \<Rightarrow> tenant_scope \<Rightarrow> publication \<Rightarrow> string \<Rightarrow> prepared_publication \<Rightarrow> intelligence_db
    \<Rightarrow> draft_error + intelligence_db" where
  "write_publication now scope p key d db =
     (case insert_row ''communication_intelligence'' intelligence_check intelligence_clash (intelligence_of scope p key d)
             (ib_intelligence db) of
        Inl x \<Rightarrow> Inl x
      | Inr intelligence \<Rightarrow>
     (case insert_rows ''communication_intelligence_evidence'' (ref_check 512) ref_clash
             (number_refs (ts_site_id scope) (pd_intelligence_id d) (pn_evidence_refs p)) (ib_evidence db) of
        Inl x \<Rightarrow> Inl x
      | Inr evidence \<Rightarrow>
     (case insert_rows ''communication_intelligence_invocations'' (ref_check 256) ref_clash
             (number_refs (ts_site_id scope) (pd_intelligence_id d) (pn_invocation_refs p)) (ib_invocations db) of
        Inl x \<Rightarrow> Inl x
      | Inr invocations \<Rightarrow>
     (case write_items scope p d (db\<lparr>ib_intelligence := intelligence, ib_evidence := evidence,
             ib_invocations := invocations\<rparr>) of
        Inl x \<Rightarrow> Inl x
      | Inr db' \<Rightarrow> write_draft now scope p d db'))))"

definition publish_intelligence ::
  "instant \<Rightarrow> (tenant_scope \<Rightarrow> string \<Rightarrow> string option) \<Rightarrow> tenant_scope \<Rightarrow> publication \<Rightarrow> string \<Rightarrow> intelligence_db
    \<Rightarrow> (draft_error, unit, intelligence_db) call" where
  "publish_intelligence now team_of scope p key db =
     (if ts_site_id scope \<noteq> pn_site_id p then (Inl (Draft_value ''publication site does not match trusted scope''), db)
      else if ts_processing_purpose scope \<noteq> draft_purpose
      then (Inl (Draft_value ''publication purpose is not observation processing''), db)
      else case prepare_publication scope p key (team_of scope (pn_observation_id p)) of
        Inl x \<Rightarrow> (Inl x, db)
      | Inr d \<Rightarrow>
          (case find (\<lambda>r. ir_site r = ts_site_id scope \<and> ir_key r = key) (ib_intelligence db) of
             Some r \<Rightarrow>
               (if ir_digest r \<noteq> pd_payload_digest d
                then (Inl (Draft_conflict ''publication idempotency key conflicts with another payload''), db)
                else (Inr (), db))
           | None \<Rightarrow>
               (case write_publication now scope p key d db of Inl x \<Rightarrow> (Inl x, db) | Inr db' \<Rightarrow> (Inr (), db'))))"

section \<open>Claiming\<close>

record draft_claim =
  dk_site :: string
  dk_draft_id :: string
  dk_intelligence_id :: string
  dk_observation_id :: string
  dk_purpose :: string
  dk_subject :: string
  dk_summary :: string
  dk_team_ref :: string
  dk_evidence_refs :: "string list"
  dk_model_name :: string
  dk_model_version :: string
  dk_payload_digest :: string
  dk_attempt :: int
  dk_max_attempts :: int
  dk_lease_owner :: string
  dk_lease_expires_at :: datetime

definition draft_claim_post_init :: "draft_claim \<Rightarrow> draft_error + draft_claim" where
  "draft_claim_post_init c =
     (case check_all (\<lambda>(value, name, maximum). draft_text value name maximum)
        [(dk_site c, ''site_id'', 140), (dk_draft_id c, ''draft_id'', 256),
         (dk_intelligence_id c, ''intelligence_id'', 256), (dk_observation_id c, ''observation_id'', 256),
         (dk_purpose c, ''processing_purpose'', 80), (dk_subject c, ''subject'', 140),
         (dk_summary c, ''summary_zh'', 2000), (dk_team_ref c, ''team_ref'', 256), (dk_model_name c, ''model_name'', 160),
         (dk_model_version c, ''model_version'', 160), (dk_lease_owner c, ''lease_owner'', 256)] of
        Inl x \<Rightarrow> Inl x
      | Inr _ \<Rightarrow>
          (if dk_purpose c \<noteq> draft_purpose then Inl (Draft_value ''invalid draft processing purpose'')
           else if \<not> is_sha256_text (dk_payload_digest c) then Inl (Draft_value ''invalid draft payload digest'')
           else if dk_evidence_refs c = [] \<or> \<not> distinct (dk_evidence_refs c)
           then Inl (Draft_value ''invalid draft evidence_refs'')
           else case check_all (\<lambda>ref. draft_text ref ''evidence_ref'' 512) (dk_evidence_refs c) of
             Inl x \<Rightarrow> Inl x
           | Inr _ \<Rightarrow>
               (if \<not> (1 \<le> dk_attempt c \<and> dk_attempt c \<le> dk_max_attempts c \<and> dk_max_attempts c \<le> 5)
                then Inl (Draft_value ''invalid draft attempt'')
                else case draft_aware (dk_lease_expires_at c) ''lease_expires_at'' of Inl x \<Rightarrow> Inl x | Inr _ \<Rightarrow> Inr c)))"

text \<open>A comparison with a null is not true.\<close>

definition lease_over :: "instant \<Rightarrow> draft_row \<Rightarrow> bool" where
  "lease_over now r = (case od_lease_expires_at r of None \<Rightarrow> False | Some t \<Rightarrow> t \<le> now)"

definition exhausted :: "string \<Rightarrow> instant \<Rightarrow> draft_row \<Rightarrow> bool" where
  "exhausted site now r =
     (od_site r = site \<and> od_status r = ''running'' \<and> lease_over now r \<and> od_max_attempts r \<le> od_attempt r)"

definition bury :: "instant \<Rightarrow> draft_row \<Rightarrow> draft_row" where
  "bury now r = r\<lparr>od_status := ''dead_letter'', od_lease_owner := None, od_lease_expires_at := None,
     od_error := Some ''lease_expired_max_attempts'', od_updated_at := now\<rparr>"

definition claimable :: "string \<Rightarrow> instant \<Rightarrow> draft_row \<Rightarrow> bool" where
  "claimable site now r =
     (od_site r = site \<and> od_attempt r < od_max_attempts r \<and>
      (od_status r \<in> {''pending'', ''retry''} \<and> od_next_attempt_at r \<le> now \<or> od_status r = ''running'' \<and> lease_over now r))"

definition draft_order :: "collation \<Rightarrow> draft_row \<Rightarrow> instant \<times> instant \<times> int list \<times> string" where
  "draft_order c r = (od_next_attempt_at r, od_created_at r, c (od_draft_id r), od_draft_id r)"

definition lease_to :: "string \<Rightarrow> instant \<Rightarrow> int \<Rightarrow> draft_row \<Rightarrow> draft_row" where
  "lease_to worker now duration r = r\<lparr>od_status := ''running'', od_attempt := od_attempt r + 1,
     od_lease_owner := Some worker, od_lease_expires_at := Some (now + duration), od_error := None, od_updated_at := now\<rparr>"

definition row_claim :: "intelligence_db \<Rightarrow> draft_row \<Rightarrow> draft_claim" where
  "row_claim db r =
     \<lparr>dk_site = od_site r, dk_draft_id = od_draft_id r, dk_intelligence_id = od_intelligence_id r,
      dk_observation_id = od_observation_id r, dk_purpose = od_purpose r, dk_subject = od_subject r,
      dk_summary = od_summary r, dk_team_ref = od_team_ref r,
      dk_evidence_refs = map (\<lambda>(_, _, ref, _). ref) (sort_key (\<lambda>(_, _, _, n). n)
        (filter (\<lambda>(site, draft, _, _). site = od_site r \<and> draft = od_draft_id r) (ib_draft_evidence db))),
      dk_model_name = od_model_name r, dk_model_version = od_model_version r, dk_payload_digest = od_payload_digest r,
      dk_attempt = od_attempt r, dk_max_attempts = od_max_attempts r, dk_lease_owner = the (od_lease_owner r),
      dk_lease_expires_at = Aware (the (od_lease_expires_at r))\<rparr>"

definition is_row :: "string \<Rightarrow> string \<Rightarrow> draft_row \<Rightarrow> bool" where
  "is_row site draft r = (od_site r = site \<and> od_draft_id r = draft)"

definition claim_rows ::
  "collation \<Rightarrow> string \<Rightarrow> string \<Rightarrow> instant \<Rightarrow> int \<Rightarrow> draft_row list \<Rightarrow> draft_error + draft_row option \<times> draft_row list" where
  "claim_rows c site worker now duration rows =
     (case update_drafts (exhausted site now) (bury now) rows of
        Inl x \<Rightarrow> Inl x
      | Inr rows1 \<Rightarrow>
          (let free = filter (claimable site now) rows1 in
           if free = [] then Inr (None, rows1)
           else let r = arg_min_list (draft_order c) free in
             map_sum id (Pair (Some (lease_to worker now duration r)))
               (update_drafts (is_row site (od_draft_id r)) (lease_to worker now duration) rows1)))"

definition claim_draft ::
  "collation \<Rightarrow> string \<Rightarrow> string \<Rightarrow> datetime \<Rightarrow> int \<Rightarrow> intelligence_db
    \<Rightarrow> (draft_error, draft_claim option, intelligence_db) call" where
  "claim_draft c site worker now duration db =
     (case check_all id [draft_text site ''site_id'' 140, draft_text worker ''worker_id'' 256,
             draft_aware now ''now'', positive_duration duration] of
        Inl x \<Rightarrow> (Inl x, db)
      | Inr _ \<Rightarrow>
          (case claim_rows c site worker (instant_of now) duration (ib_drafts db) of
             Inl x \<Rightarrow> (Inl x, db)
           | Inr (None, rows) \<Rightarrow> (Inr None, db\<lparr>ib_drafts := rows\<rparr>)
           | Inr (Some r, rows) \<Rightarrow>
               (case draft_claim_post_init (row_claim db r) of
                  Inl x \<Rightarrow> (Inl x, db)
                | Inr claim \<Rightarrow> (Inr (Some claim), db\<lparr>ib_drafts := rows\<rparr>))))"

section \<open>Renewing and ending a lease\<close>

definition held_by :: "string \<Rightarrow> string \<Rightarrow> string \<Rightarrow> int \<Rightarrow> instant \<Rightarrow> draft_row \<Rightarrow> bool" where
  "held_by site draft worker attempt now r =
     (is_row site draft r \<and> od_status r = ''running'' \<and> od_lease_owner r = Some worker \<and> od_attempt r = attempt \<and>
      (case od_lease_expires_at r of None \<Rightarrow> False | Some t \<Rightarrow> now < t))"

definition shorter_than :: "instant \<Rightarrow> draft_row \<Rightarrow> bool" where
  "shorter_than t r = (case od_lease_expires_at r of None \<Rightarrow> False | Some e \<Rightarrow> e < t)"

definition heartbeat_draft ::
  "string \<Rightarrow> string \<Rightarrow> string \<Rightarrow> int \<Rightarrow> datetime \<Rightarrow> int \<Rightarrow> intelligence_db \<Rightarrow> (draft_error, unit, intelligence_db) call" where
  "heartbeat_draft site draft worker attempt now duration db =
     (case check_all id [draft_aware now ''now'', positive_duration duration] of
        Inl x \<Rightarrow> (Inl x, db)
      | Inr _ \<Rightarrow>
          (let t = instant_of now; held = held_by site draft worker attempt t in
           case update_drafts (\<lambda>r. held r \<and> shorter_than (t + duration) r)
                  (\<lambda>r. r\<lparr>od_lease_expires_at := Some (t + duration), od_updated_at := t\<rparr>) (ib_drafts db) of
             Inl x \<Rightarrow> (Inl x, db)
           | Inr rows \<Rightarrow>
               (if list_ex held (ib_drafts db) then (Inr (), db\<lparr>ib_drafts := rows\<rparr>)
                else (Inl (Draft_lease ''communication draft lease lost''), db))))"

definition acknowledge_draft ::
  "string \<Rightarrow> string \<Rightarrow> string \<Rightarrow> int \<Rightarrow> datetime \<Rightarrow> draft_receipt \<Rightarrow> intelligence_db
    \<Rightarrow> (draft_error, draft_receipt, intelligence_db) call" where
  "acknowledge_draft site draft worker attempt now receipt db =
     (case draft_aware now ''now'' of
        Inl x \<Rightarrow> (Inl x, db)
      | Inr _ \<Rightarrow>
     (if fd_request_id receipt \<noteq> draft \<or> fd_doctype receipt \<noteq> draft_doctype
      then (Inl (Draft_conflict ''invalid communication draft receipt''), db)
      else
     (case find (is_row site draft) (ib_drafts db) of
        None \<Rightarrow> (Inl (Draft_conflict ''communication draft is absent''), db)
      | Some r \<Rightarrow>
     (if od_status r = ''succeeded''
      then (if od_receipt r \<noteq> Some receipt
            then (Inl (Draft_conflict ''communication draft receipt replay conflicts''), db)
            else (Inr receipt, db))
      else
     (case update_drafts (held_by site draft worker attempt (instant_of now))
             (\<lambda>x. x\<lparr>od_status := ''succeeded'', od_lease_owner := None, od_lease_expires_at := None, od_error := None,
                od_receipt := Some receipt, od_updated_at := instant_of now\<rparr>) (ib_drafts db) of
        Inl x \<Rightarrow> (Inl x, db)
      | Inr rows \<Rightarrow>
          (if list_ex (held_by site draft worker attempt (instant_of now)) (ib_drafts db)
           then (Inr receipt, db\<lparr>ib_drafts := rows\<rparr>)
           else (Inl (Draft_lease ''communication draft lease lost''), db)))))))"

definition fail_status :: "draft_row \<Rightarrow> string" where
  "fail_status r = (if od_max_attempts r \<le> od_attempt r then ''dead_letter'' else ''retry'')"

definition fail_draft ::
  "string \<Rightarrow> string \<Rightarrow> string \<Rightarrow> int \<Rightarrow> datetime \<Rightarrow> datetime \<Rightarrow> string \<Rightarrow> intelligence_db
    \<Rightarrow> (draft_error, string, intelligence_db) call" where
  "fail_draft site draft worker attempt now retry_at code db =
     (case check_all id [draft_aware now ''now'', draft_aware retry_at ''retry_at''] of
        Inl x \<Rightarrow> (Inl x, db)
      | Inr _ \<Rightarrow>
     (if instant_of retry_at \<le> instant_of now \<or> \<not> is_code code
      then (Inl (Draft_value ''invalid communication draft retry''), db)
      else
     (case update_drafts (held_by site draft worker attempt (instant_of now))
             (\<lambda>x. x\<lparr>od_status := fail_status x, od_lease_owner := None, od_lease_expires_at := None,
                od_next_attempt_at := instant_of retry_at, od_error := Some code, od_updated_at := instant_of now\<rparr>)
             (ib_drafts db) of
        Inl x \<Rightarrow> (Inl x, db)
      | Inr rows \<Rightarrow>
          (case find (held_by site draft worker attempt (instant_of now)) (ib_drafts db) of
             None \<Rightarrow> (Inl (Draft_lease ''communication draft lease lost''), db)
           | Some r \<Rightarrow> (Inr (fail_status r), db\<lparr>ib_drafts := rows\<rparr>)))))"

end
