(* ===== verification/Draft_Runs.thy ===== *)
theory Draft_Runs
  imports Draft_Outbox Lease_Fencing
begin

text \<open>
  Runs of the outbox of drafts. Every operation changes the rows by inserts of fresh drafts and by
  updates the schema lets through; the attempt counter is a fence for the lease
  (\<^theory_text>\<open>fenced_store\<close>), a draft is claimed at most five times, and a claim carries the draft
  that was published.
\<close>

section \<open>Rows\<close>

definition row_key :: "draft_row \<Rightarrow> string \<times> string" where
  "row_key r = (od_site r, od_draft_id r)"

definition rows_inv :: "draft_row list \<Rightarrow> bool" where
  "rows_inv rows = (list_all draft_check rows \<and> distinct (map row_key rows))"

definition row_change :: "draft_row \<Rightarrow> draft_row \<Rightarrow> bool" where
  "row_change r r' = (draft_identity r r' \<and> draft_transition r r' \<and> draft_check r')"

definition draft_at :: "string \<times> string \<Rightarrow> draft_row list \<Rightarrow> draft_row option" where
  "draft_at k rows = find (\<lambda>r. row_key r = k) rows"

lemma is_row_key: "is_row site draft r \<longleftrightarrow> row_key r = (site, draft)"
  by (auto simp: is_row_def row_key_def)

lemma find_is_row: "find (is_row site draft) rows = draft_at (site, draft) rows"
  unfolding draft_at_def by (rule find_cong) (auto simp: is_row_key)

lemma draft_at_mem: "draft_at k rows = Some r \<Longrightarrow> r \<in> set rows \<and> row_key r = k"
  by (auto simp: draft_at_def find_Some_iff)

lemma draft_at_own: "distinct (map row_key rows) \<Longrightarrow> r \<in> set rows \<Longrightarrow> draft_at (row_key r) rows = Some r"
  by (induction rows) (auto simp: draft_at_def)

lemma draft_identity_fields:
  assumes "draft_identity r r'"
  shows "od_site r' = od_site r" and "od_draft_id r' = od_draft_id r" and "od_intelligence_id r' = od_intelligence_id r"
    and "od_observation_id r' = od_observation_id r" and "od_purpose r' = od_purpose r" and "od_subject r' = od_subject r"
    and "od_summary r' = od_summary r" and "od_team_ref r' = od_team_ref r" and "od_model_name r' = od_model_name r"
    and "od_model_version r' = od_model_version r" and "od_payload_digest r' = od_payload_digest r"
    and "od_max_attempts r' = od_max_attempts r" and "od_created_at r' = od_created_at r" and "row_key r' = row_key r"
  using arg_cong [OF assms [unfolded draft_identity_def], of od_site]
    arg_cong [OF assms [unfolded draft_identity_def], of od_draft_id]
    arg_cong [OF assms [unfolded draft_identity_def], of od_intelligence_id]
    arg_cong [OF assms [unfolded draft_identity_def], of od_observation_id]
    arg_cong [OF assms [unfolded draft_identity_def], of od_purpose]
    arg_cong [OF assms [unfolded draft_identity_def], of od_subject]
    arg_cong [OF assms [unfolded draft_identity_def], of od_summary]
    arg_cong [OF assms [unfolded draft_identity_def], of od_team_ref]
    arg_cong [OF assms [unfolded draft_identity_def], of od_model_name]
    arg_cong [OF assms [unfolded draft_identity_def], of od_model_version]
    arg_cong [OF assms [unfolded draft_identity_def], of od_payload_digest]
    arg_cong [OF assms [unfolded draft_identity_def], of od_max_attempts]
    arg_cong [OF assms [unfolded draft_identity_def], of od_created_at]
  by (simp_all add: row_key_def)

lemma update_drafts_Inr:
  "update_drafts sel f rows = Inr rows' \<longleftrightarrow>
     (\<forall>r \<in> set rows. sel r \<longrightarrow> row_change r (f r)) \<and> rows' = map (\<lambda>r. if sel r then f r else r) rows"
  by (auto simp: update_drafts_def list_all_iff row_change_def)

lemma map_row_key:
  "\<forall>r \<in> set rows. sel r \<longrightarrow> row_change r (f r) \<Longrightarrow> map row_key (map (\<lambda>r. if sel r then f r else r) rows) = map row_key rows"
  by (simp add: row_change_def draft_identity_fields)

lemma draft_at_update:
  "\<forall>r \<in> set rows. sel r \<longrightarrow> row_change r (f r) \<Longrightarrow>
     draft_at k (map (\<lambda>r. if sel r then f r else r) rows) = map_option (\<lambda>r. if sel r then f r else r) (draft_at k rows)"
  by (induction rows) (auto simp: draft_at_def row_change_def draft_identity_fields)

lemma insert_row_Inr:
  "insert_row table check clash r rows = Inr rows' \<longleftrightarrow> check r \<and> (\<forall>x \<in> set rows. \<not> clash r x) \<and> rows' = rows @ [r]"
  by (auto simp: insert_row_def list_ex_iff)

section \<open>One statement on the outbox\<close>

inductive rows_step :: "draft_row list \<Rightarrow> draft_row list \<Rightarrow> bool" where
  updated: "update_drafts sel f rows = Inr rows' \<Longrightarrow> rows_step rows rows'"
| inserted: "insert_row table draft_check draft_clash r rows = Inr rows' \<Longrightarrow> od_attempt r = 0 \<Longrightarrow> rows_step rows rows'"

definition attempts :: "string \<times> string \<Rightarrow> draft_row list \<Rightarrow> int" where
  "attempts k rows = (case draft_at k rows of None \<Rightarrow> 0 | Some r \<Rightarrow> od_attempt r)"

definition lease_holder :: "string \<times> string \<Rightarrow> draft_row list \<Rightarrow> string option" where
  "lease_holder k rows = (case draft_at k rows of None \<Rightarrow> None | Some r \<Rightarrow> od_lease_owner r)"

lemma rows_inv_step: "rows_inv rows \<Longrightarrow> rows_step rows rows' \<Longrightarrow> rows_inv rows'"
proof (erule rows_step.cases)
  fix sel f xs xs'
  assume "rows_inv rows" "rows = xs" "rows' = xs'" "update_drafts sel f xs = Inr xs'"
  then show "rows_inv rows'"
    by (auto simp: rows_inv_def update_drafts_Inr list_all_iff row_change_def simp del: map_map
        dest: map_row_key [unfolded row_change_def])
next
  fix table r xs xs'
  assume "rows_inv rows" "rows = xs" "rows' = xs'" "insert_row table draft_check draft_clash r xs = Inr xs'"
  then show "rows_inv rows'"
    by (auto simp: rows_inv_def insert_row_Inr draft_clash_def row_key_def)
qed

lemma row_change_attempt:
  "row_change r r' \<Longrightarrow> od_attempt r' = od_attempt r + 1 \<or> od_attempt r' = od_attempt r \<and> (od_lease_owner r' = od_lease_owner r \<or> od_lease_owner r' = None)"
  by (auto simp: row_change_def draft_transition_def draft_check_def lease_shape_def)

lemma draft_check_attempt: "draft_check r \<Longrightarrow> 0 \<le> od_attempt r \<and> od_attempt r \<le> od_max_attempts r \<and> od_max_attempts r \<le> 5"
  by (simp add: draft_check_def)

lemma draft_at_append:
  "draft_at k (rows @ [r]) = (case draft_at k rows of Some x \<Rightarrow> Some x | None \<Rightarrow> if row_key r = k then Some r else None)"
  by (induction rows) (auto simp: draft_at_def)

lemma rows_step_at:
  assumes "rows_inv rows" and "rows_step rows rows'"
  shows "(case draft_at k rows of
      None \<Rightarrow> (case draft_at k rows' of None \<Rightarrow> True | Some r \<Rightarrow> od_attempt r = 0 \<and> od_lease_owner r = None)
    | Some r \<Rightarrow> (\<exists>r'. draft_at k rows' = Some r' \<and> (r' = r \<or> row_change r r')))"
  using assms(2)
proof cases
  case (updated sel f)
  then show ?thesis
    by (auto simp: update_drafts_Inr draft_at_update split: option.splits dest: draft_at_mem)
next
  case (inserted table r)
  then show ?thesis
    by (auto simp: insert_row_Inr draft_at_append draft_check_def lease_shape_def split: option.splits)
qed

lemma attempts_mono: "rows_inv rows \<Longrightarrow> rows_step rows rows' \<Longrightarrow> attempts k rows \<le> attempts k rows'"
  using rows_step_at [of rows rows' k] row_change_attempt
  by (fastforce simp: attempts_def split: option.splits)

lemma holder_kept:
  "rows_inv rows \<Longrightarrow> rows_step rows rows' \<Longrightarrow> attempts k rows' = attempts k rows \<Longrightarrow>
     lease_holder k rows' = lease_holder k rows \<or> lease_holder k rows' = None"
  using rows_step_at [of rows rows' k] row_change_attempt
  by (fastforce simp: attempts_def lease_holder_def split: option.splits)

text \<open>The attempt counter fences the lease of a draft.\<close>

interpretation draft_leases: fenced_store rows_step rows_inv attempts lease_holder
  by unfold_locales (fact rows_inv_step attempts_mono holder_kept)+

section \<open>The operations in statements\<close>

abbreviation rows_run :: "draft_row list \<Rightarrow> draft_row list \<Rightarrow> bool" where
  "rows_run \<equiv> rows_step\<^sup>*\<^sup>*"

lemma update_run: "update_drafts sel f rows = Inr rows' \<Longrightarrow> rows_run rows rows'"
  by (rule r_into_rtranclp) (rule rows_step.updated)

lemma claim_rows_steps:
  assumes "claim_rows c site worker now duration rows = Inr (res, rows')"
  shows "rows_run rows rows'"
proof -
  obtain rows1 where bury: "update_drafts (exhausted site now) (bury now) rows = Inr rows1"
    using assms by (auto simp: claim_rows_def split: sum.splits)
  then have "rows_run rows rows1"
    by (auto intro: rows_step.updated)
  moreover have "rows_run rows1 rows'"
    using assms bury
    by (auto simp: claim_rows_def Let_def map_sum_def split: if_splits sum.splits intro: rows_step.updated)
  ultimately show ?thesis
    by simp
qed

lemma claim_rows_some:
  assumes inv: "rows_inv rows" and claim: "claim_rows c site worker now duration rows = Inr (Some r, rows')"
  obtains r0 where "row_key r = (site, od_draft_id r0)" and "draft_at (row_key r) rows = Some r0"
    and "claimable site now r0" and "r = lease_to worker now duration r0" and "draft_at (row_key r) rows' = Some r"
    and "row_change r0 r"
proof -
  obtain rows1 where bury: "update_drafts (exhausted site now) (bury now) rows = Inr rows1"
    using claim by (auto simp: claim_rows_def split: sum.splits)
  define r0 where "r0 = arg_min_list (draft_order c) (filter (claimable site now) rows1)"
  have free: "filter (claimable site now) rows1 \<noteq> []"
    using claim bury by (auto simp: claim_rows_def split: if_splits)
  then have r: "r = lease_to worker now duration r0"
    "update_drafts (is_row site (od_draft_id r0)) (lease_to worker now duration) rows1 = Inr rows'"
    using claim bury by (auto simp: claim_rows_def Let_def r0_def map_sum_def split: if_splits sum.splits)
  have mem: "r0 \<in> set rows1" "claimable site now r0"
    using arg_min_list_in [OF free, of "draft_order c"] by (auto simp: r0_def)
  have inv1: "rows_inv rows1"
    using rows_inv_step [OF inv] bury by (auto intro: rows_step.updated)
  have key: "row_key r0 = (site, od_draft_id r0)" "row_key r = row_key r0"
    using mem(2) r(1) by (auto simp: claimable_def row_key_def lease_to_def)
  have at1: "draft_at (row_key r0) rows1 = Some r0"
    using draft_at_own [of rows1 r0] inv1 mem(1) by (simp add: rows_inv_def)
  have change: "row_change r0 r" and at2: "draft_at (row_key r0) rows' = Some r"
    using r mem(1) key(1) at1 by (auto simp: update_drafts_Inr draft_at_update is_row_key)
  obtain q where q: "draft_at (row_key r0) rows = Some q" "r0 = (if exhausted site now q then bury now q else q)"
    using at1 bury by (auto simp: update_drafts_Inr draft_at_update)
  have "od_status r0 \<noteq> ''dead_letter''"
    using mem(2) by (auto simp: claimable_def)
  moreover have "od_status (bury now q) = ''dead_letter''"
    by (simp add: bury_def)
  ultimately have "r0 = q"
    using q(2) by (metis (full_types))
  show ?thesis
  proof (rule that [of r0])
    show "row_key r = (site, od_draft_id r0)" "draft_at (row_key r) rows' = Some r"
      using key at2 by (simp_all only:)
    show "draft_at (row_key r) rows = Some r0"
      unfolding key(2) using q(1) \<open>r0 = q\<close> by (simp only:)
  qed (fact mem(2) r(1) change)+
qed

lemma publish_steps:
  assumes "publish_intelligence now team_of scope p key db = (res, db')"
  shows "rows_run (ib_drafts db) (ib_drafts db')"
proof -
  have items: "ib_drafts d' = ib_drafts d" if "write_items scope p pd d = Inr d'" for pd d d'
    using that by (auto simp: write_items_def split: sum.splits)
  have draft: "rows_run (ib_drafts d) (ib_drafts d')" if "write_draft now scope p pd d = Inr d'" for pd d d'
    using that by (auto simp: write_draft_def draft_of_def split: option.splits sum.splits
        intro!: r_into_rtranclp rows_step.inserted)
  have "rows_run (ib_drafts db) (ib_drafts d')" if "write_publication now scope p key pd db = Inr d'" for pd d'
    using that items draft by (fastforce simp: write_publication_def split: sum.splits)
  then show ?thesis
    using assms by (auto simp: publish_intelligence_def split: if_splits sum.splits option.splits)
qed

lemma claim_steps:
  "claim_draft c site worker now duration db = (res, db') \<Longrightarrow> rows_run (ib_drafts db) (ib_drafts db')"
  by (auto simp: claim_draft_def split: sum.splits option.splits prod.splits dest: claim_rows_steps)

lemma heartbeat_steps:
  "heartbeat_draft site draft worker attempt now duration db = (res, db') \<Longrightarrow> rows_run (ib_drafts db) (ib_drafts db')"
  by (auto simp: heartbeat_draft_def Let_def split: sum.splits if_splits intro: update_run)

lemma acknowledge_steps:
  "acknowledge_draft site draft worker attempt now receipt db = (res, db') \<Longrightarrow> rows_run (ib_drafts db) (ib_drafts db')"
  by (auto simp: acknowledge_draft_def split: sum.splits if_splits option.splits intro: update_run)

lemma fail_steps:
  "fail_draft site draft worker attempt now retry_at code db = (res, db') \<Longrightarrow> rows_run (ib_drafts db) (ib_drafts db')"
  by (auto simp: fail_draft_def split: sum.splits if_splits option.splits intro: update_run)

section \<open>Runs\<close>

text \<open>The label of a run lists the drafts claimed along it.\<close>

inductive draft_run :: "collation \<Rightarrow> intelligence_db \<Rightarrow> (string \<times> string) list \<Rightarrow> intelligence_db \<Rightarrow> bool"
  for c db where
  start: "draft_run c db [] db"
| publish: "draft_run c db tr d \<Longrightarrow> publish_intelligence now team_of scope p key d = (res, d') \<Longrightarrow> draft_run c db tr d'"
| claim: "draft_run c db tr d \<Longrightarrow> claim_draft c site worker now duration d = (Inr (Some k), d') \<Longrightarrow>
    draft_run c db (tr @ [(dk_site k, dk_draft_id k)]) d'"
| no_claim: "draft_run c db tr d \<Longrightarrow> claim_draft c site worker now duration d = (Inr None, d') \<Longrightarrow> draft_run c db tr d'"
| heartbeat: "draft_run c db tr d \<Longrightarrow> heartbeat_draft site draft worker attempt now duration d = (res, d') \<Longrightarrow>
    draft_run c db tr d'"
| acknowledge: "draft_run c db tr d \<Longrightarrow> acknowledge_draft site draft worker attempt now receipt d = (res', d') \<Longrightarrow>
    draft_run c db tr d'"
| fail: "draft_run c db tr d \<Longrightarrow> fail_draft site draft worker attempt now retry_at code d = (res'', d') \<Longrightarrow>
    draft_run c db tr d'"

lemma draft_run_rows: "draft_run c db tr db' \<Longrightarrow> rows_run (ib_drafts db) (ib_drafts db')"
  by (induction rule: draft_run.induct)
    (auto intro: rtranclp_trans publish_steps claim_steps heartbeat_steps acknowledge_steps fail_steps)

lemma draft_claim_post_init_id: "draft_claim_post_init k = Inr k' \<Longrightarrow> k' = k"
  by (auto simp: draft_claim_post_init_def split: sum.splits if_splits)

lemma claim_draft_some:
  assumes inv: "rows_inv (ib_drafts db)" and claim: "claim_draft c site worker now duration db = (Inr (Some k), db')"
  obtains r0 r where "k = row_claim db r" and "dk_site k = site"
    and "draft_at (dk_site k, dk_draft_id k) (ib_drafts db) = Some r0" and "r = lease_to worker (instant_of now) duration r0"
    and "claimable site (instant_of now) r0" and "row_change r0 r"
    and "draft_at (dk_site k, dk_draft_id k) (ib_drafts db') = Some r" and "db' = db\<lparr>ib_drafts := ib_drafts db'\<rparr>"
proof -
  obtain r rows where r: "claim_rows c site worker (instant_of now) duration (ib_drafts db) = Inr (Some r, rows)"
    "draft_claim_post_init (row_claim db r) = Inr k" "db' = db\<lparr>ib_drafts := rows\<rparr>"
    using claim by (auto simp: claim_draft_def split: sum.splits option.splits prod.splits)
  have k: "k = row_claim db r"
    using draft_claim_post_init_id [OF r(2)] .
  then have key: "row_key r = (dk_site k, dk_draft_id k)"
    by (simp add: row_claim_def row_key_def)
  obtain r0 where "row_key r = (site, od_draft_id r0)" "draft_at (row_key r) (ib_drafts db) = Some r0"
    "claimable site (instant_of now) r0" "r = lease_to worker (instant_of now) duration r0" "draft_at (row_key r) rows = Some r"
    "row_change r0 r"
    by (rule claim_rows_some [OF inv r(1)])
  then show ?thesis
    using that [of r r0] k key r(3) by simp
qed

text \<open>Every claim of a draft raises its attempt by one.\<close>

lemma claim_raises_attempt:
  assumes "rows_inv (ib_drafts db)" and "claim_draft c site worker now duration db = (Inr (Some k), db')"
  shows "attempts (dk_site k, dk_draft_id k) (ib_drafts db') = attempts (dk_site k, dk_draft_id k) (ib_drafts db) + 1"
    and "dk_attempt k = attempts (dk_site k, dk_draft_id k) (ib_drafts db')"
    and "lease_holder (dk_site k, dk_draft_id k) (ib_drafts db') = Some worker"
  by (rule claim_draft_some [OF assms]; simp add: attempts_def lease_holder_def lease_to_def row_claim_def)+

lemma draft_run_counts:
  assumes "draft_run c db tr db'" and inv: "rows_inv (ib_drafts db)"
  shows "int (count_list tr k) + attempts k (ib_drafts db) \<le> attempts k (ib_drafts db')"
  using assms(1)
proof induction
  case (claim tr d site worker now duration m d')
  have inv': "rows_inv (ib_drafts d)"
    by (rule draft_leases.inv_steps [OF draft_run_rows [OF claim.hyps(1)] inv])
  have "attempts k (ib_drafts d) \<le> attempts k (ib_drafts d')"
    by (rule draft_leases.fence_mono_steps [OF claim_steps [OF claim.hyps(2)] inv'])
  then show ?case
    using claim.IH claim_raises_attempt(1) [OF inv' claim.hyps(2)] by auto
qed (use inv in \<open>fastforce dest: publish_steps claim_steps heartbeat_steps acknowledge_steps fail_steps
      draft_run_rows draft_leases.inv_steps draft_leases.fence_mono_steps [where k = k]\<close>)+

lemma attempts_at_most: "rows_inv rows \<Longrightarrow> attempts k rows \<le> 5"
  by (cases "draft_at k rows")
    (auto simp: attempts_def rows_inv_def list_all_iff dest!: draft_at_mem dest: draft_check_attempt order_trans)

end
