(* ===== verification/Draft_Worker.thy ===== *)
theory Draft_Worker
  imports Draft_Runs
begin

text \<open>
  The worker that delivers communication drafts (\<open>services/local_pilot_runtime/communication_draft_worker.py\<close>)
  over the outbox of \<^theory_text>\<open>Draft_Outbox\<close>. The Frappe client is injected: it may raise an idempotency
  conflict or anything else, and changes a world \<open>'v\<close>. The clock readings of a cycle are its input.
\<close>

section \<open>One cycle\<close>

datatype client_error = Client_conflict | Client_failed

datatype deliver_error = Store_raised draft_error | Body_conflict | Client_raised

record 'v draft_worker =
  dw_collation :: collation
  dw_worker_id :: string
  dw_client :: "string \<Rightarrow> (materialization_intent \<Rightarrow> string \<Rightarrow> string \<Rightarrow> 'v \<Rightarrow> (client_error, draft_receipt, 'v) call) option"
  dw_lease_duration :: int
  dw_retry_delay :: int

definition draft_worker_init :: "'v draft_worker \<Rightarrow> draft_error + 'v draft_worker" where
  "draft_worker_init w =
     (if dw_worker_id w = [] then Inl (Draft_value ''communication draft worker dependencies are required'')
      else if dw_lease_duration w \<le> 0 \<or> dw_retry_delay w \<le> 0
      then Inl (Draft_value ''communication draft worker durations must be positive'') else Inr w)"

record draft_clock =
  kt_claim :: datetime
  kt_beat :: datetime
  kt_acknowledge :: datetime
  kt_fail :: datetime
  kt_retry_base :: datetime

record draft_run_result =
  dx_status :: string
  dx_draft_id :: "string option"
  dx_attempt :: "int option"
  dx_error_code :: "string option"

definition claim_intent :: "draft_claim \<Rightarrow> materialization_intent" where
  "claim_intent k =
     \<lparr>mn_operation = ''create'', mn_doctype = draft_doctype,
      mn_values = draft_values (dk_subject k) (dk_summary k) (dk_team_ref k) (dk_evidence_refs k) (dk_model_name k)
        (dk_model_version k) (dk_observation_id k)\<rparr>"

definition draft_request_digest :: "materialization_intent \<Rightarrow> string" where
  "draft_request_digest i =
     canonical_payload_digest
       [(''operation'', JStr (mn_operation i)), (''doctype'', JStr (mn_doctype i)), (''values'', JObj (mn_values i))]"

definition lift_store :: "(draft_error, 'a, intelligence_db) call \<Rightarrow> 'v \<Rightarrow> (deliver_error, 'a, intelligence_db \<times> 'v) call" where
  "lift_store r v = (map_sum Store_raised id (fst r), snd r, v)"

definition apply_draft ::
  "'v draft_worker \<Rightarrow> draft_claim \<Rightarrow> intelligence_db \<times> 'v \<Rightarrow> (deliver_error, draft_receipt, intelligence_db \<times> 'v) call" where
  "apply_draft w k s =
     (let i = claim_intent k; digest = draft_request_digest i in
      if digest \<noteq> dk_payload_digest k then (Inl Body_conflict, s)
      else case dw_client w (dk_purpose k) of
        None \<Rightarrow> (Inl Client_raised, s)
      | Some send \<Rightarrow>
          (case send i (dk_draft_id k) digest (snd s) of
             (Inl Client_conflict, v) \<Rightarrow> (Inl Body_conflict, fst s, v)
           | (Inl Client_failed, v) \<Rightarrow> (Inl Client_raised, fst s, v)
           | (Inr receipt, v) \<Rightarrow>
               (if fd_doctype receipt \<noteq> mn_doctype i \<or> fd_request_id receipt \<noteq> dk_draft_id k
                   \<or> fd_request_digest receipt \<noteq> digest
                then (Inl Body_conflict, fst s, v) else (Inr receipt, fst s, v))))"

definition deliver_claim ::
  "'v draft_worker \<Rightarrow> draft_clock \<Rightarrow> draft_claim \<Rightarrow> intelligence_db \<times> 'v
    \<Rightarrow> (deliver_error, draft_receipt, intelligence_db \<times> 'v) call" where
  "deliver_claim w t k s =
     and_then (lift_store (heartbeat_draft (dk_site k) (dk_draft_id k) (dw_worker_id w) (dk_attempt k) (kt_beat t)
                 (dw_lease_duration w) (fst s)) (snd s)) (\<lambda>_ s1.
     and_then (apply_draft w k s1) (\<lambda>receipt s2.
       lift_store (acknowledge_draft (dk_site k) (dk_draft_id k) (dw_worker_id w) (dk_attempt k) (kt_acknowledge t) receipt
         (fst s2)) (snd s2)))"

fun lease_lost :: "deliver_error \<Rightarrow> bool" where
  "lease_lost (Store_raised (Draft_lease _)) = True"
| "lease_lost _ = False"

definition draft_error_code :: "deliver_error \<Rightarrow> string" where
  "draft_error_code e = (if e = Body_conflict then ''frappe_body_conflict'' else ''communication_draft_failed'')"

definition draft_result :: "string \<Rightarrow> draft_claim \<Rightarrow> string option \<Rightarrow> draft_run_result" where
  "draft_result status k code =
     \<lparr>dx_status = status, dx_draft_id = Some (dk_draft_id k), dx_attempt = Some (dk_attempt k), dx_error_code = code\<rparr>"

definition report_draft_failure ::
  "'v draft_worker \<Rightarrow> draft_clock \<Rightarrow> draft_claim \<Rightarrow> deliver_error \<Rightarrow> intelligence_db \<times> 'v
    \<Rightarrow> (deliver_error, draft_run_result, intelligence_db \<times> 'v) call" where
  "report_draft_failure w t k e s =
     (case lift_store (fail_draft (dk_site k) (dk_draft_id k) (dw_worker_id w) (dk_attempt k) (kt_fail t)
             (shift_time (kt_retry_base t) (dw_retry_delay w)) (draft_error_code e) (fst s)) (snd s) of
        (Inl e', s') \<Rightarrow>
          (if lease_lost e' then (Inr (draft_result ''lease_lost'' k (Some ''lease_lost'')), s') else (Inl e', s'))
      | (Inr status, s') \<Rightarrow> (Inr (draft_result status k (Some (draft_error_code e))), s'))"

definition draft_run_once ::
  "'v draft_worker \<Rightarrow> draft_clock \<Rightarrow> string \<Rightarrow> intelligence_db \<times> 'v
    \<Rightarrow> (deliver_error, draft_run_result, intelligence_db \<times> 'v) call" where
  "draft_run_once w t site s =
     (case lift_store (claim_draft (dw_collation w) site (dw_worker_id w) (kt_claim t) (dw_lease_duration w) (fst s)) (snd s) of
        (Inl e, s1) \<Rightarrow> (Inl e, s1)
      | (Inr None, s1) \<Rightarrow> (Inr \<lparr>dx_status = ''idle'', dx_draft_id = None, dx_attempt = None, dx_error_code = None\<rparr>, s1)
      | (Inr (Some k), s1) \<Rightarrow>
          (case deliver_claim w t k s1 of
             (Inr _, s2) \<Rightarrow> (Inr (draft_result ''succeeded'' k None), s2)
           | (Inl e, s2) \<Rightarrow>
               (if lease_lost e then (Inr (draft_result ''lease_lost'' k (Some ''lease_lost'')), s2)
                else report_draft_failure w t k e s2)))"

text \<open>
  \<open>run_worker\<close>, for the cycles until it is stopped: what a cycle raises ends the loop. Sleeping is left out.
\<close>

fun run_draft_worker ::
  "'v draft_worker \<Rightarrow> string \<Rightarrow> draft_clock list \<Rightarrow> intelligence_db \<times> 'v
    \<Rightarrow> (deliver_error, draft_run_result list, intelligence_db \<times> 'v) call" where
  "run_draft_worker w site [] s = (Inr [], s)"
| "run_draft_worker w site (t # ts) s =
     and_then (draft_run_once w t site s) (\<lambda>r s1.
     and_then (run_draft_worker w site ts s1) (\<lambda>rs s2. (Inr (r # rs), s2)))"

section \<open>A claim carries the published draft\<close>

definition draft_refs :: "string \<Rightarrow> string \<Rightarrow> ref_row list \<Rightarrow> string list" where
  "draft_refs site draft rows =
     map (\<lambda>(_, _, ref, _). ref) (sort_key (\<lambda>(_, _, _, n). n) (filter (\<lambda>(s, d, _, _). s = site \<and> d = draft) rows))"

definition row_digest :: "intelligence_db \<Rightarrow> draft_row \<Rightarrow> string" where
  "row_digest db r =
     json_digest (JObj [(''operation'', JStr ''create''), (''doctype'', JStr draft_doctype),
       (''values'', JObj (draft_values (od_subject r) (od_summary r) (od_team_ref r)
          (draft_refs (od_site r) (od_draft_id r) (ib_draft_evidence db)) (od_model_name r) (od_model_version r)
          (od_observation_id r)))])"

definition drafts_linked :: "intelligence_db \<Rightarrow> bool" where
  "drafts_linked db =
     ((\<forall>r \<in> set (ib_drafts db). od_payload_digest r = row_digest db r) \<and>
      (\<forall>(site, draft, _, _) \<in> set (ib_draft_evidence db). draft_at (site, draft) (ib_drafts db) \<noteq> None))"

lemma claim_request_digest: "draft_request_digest (claim_intent (row_claim db r)) = row_digest db r"
  by (simp add: draft_request_digest_def claim_intent_def row_claim_def row_digest_def draft_refs_def
      canonical_payload_digest_def)

lemma row_digest_identity: "draft_identity r r' \<Longrightarrow> row_digest db r' = row_digest db r"
  by (simp add: row_digest_def draft_identity_fields)

lemma row_digest_rows [simp]: "row_digest (db\<lparr>ib_drafts := rows\<rparr>) r = row_digest db r"
  by (simp add: row_digest_def)

lemma linked_update:
  assumes "drafts_linked db" and "update_drafts sel f (ib_drafts db) = Inr rows"
  shows "drafts_linked (db\<lparr>ib_drafts := rows\<rparr>)"
  using assms
  by (fastforce simp: drafts_linked_def update_drafts_Inr draft_at_update row_change_def row_digest_identity
      draft_identity_fields)

lemma number_refs_sorted: "sort_key (\<lambda>(_, _, _, n). n) (number_refs site parent refs) = number_refs site parent refs"
proof (rule sort_key_id_if_sorted)
  have "map (\<lambda>(_, _, _, n). n) (number_refs site parent refs) = map int (map fst (enumerate 1 refs))"
    by (simp only: number_refs_def case_prod_unfold map_map o_def fst_conv snd_conv)
  then show "sorted (map (\<lambda>(_, _, _, n). n) (number_refs site parent refs))"
    by (auto simp: map_fst_enumerate sorted_map sorted_wrt_upt simp del: upt_Suc)
qed

lemma draft_refs_new:
  assumes "\<forall>(s, d, _, _) \<in> set rows. (s, d) \<noteq> (site, draft)"
  shows "draft_refs site draft (rows @ number_refs site draft refs) = refs"
proof -
  have "filter (\<lambda>(s, d, _, _). s = site \<and> d = draft) rows = []"
    using assms by (auto simp: filter_empty_conv)
  moreover have "filter (\<lambda>(s, d, _, _). s = site \<and> d = draft) (number_refs site draft refs) = number_refs site draft refs"
    by (auto simp: number_refs_def filter_id_conv)
  moreover have "map (\<lambda>(_, _, ref, _). ref) (number_refs site draft refs) = map snd (enumerate 1 refs)"
    by (simp only: number_refs_def case_prod_unfold map_map o_def fst_conv snd_conv)
  ultimately show ?thesis
    by (simp add: draft_refs_def number_refs_sorted)
qed

lemma draft_refs_other:
  "(s, d) \<noteq> (site, draft) \<Longrightarrow> draft_refs s d (rows @ number_refs site draft refs) = draft_refs s d rows"
proof -
  assume "(s, d) \<noteq> (site, draft)"
  then have "filter (\<lambda>(x, y, _, _). x = s \<and> y = d) (number_refs site draft refs) = []"
    by (auto simp: number_refs_def filter_empty_conv)
  then show ?thesis
    by (simp add: draft_refs_def)
qed

lemma insert_rows_Inr: "insert_rows table check clash rs rows = Inr rows' \<Longrightarrow> rows' = rows @ rs"
  by (induction rs arbitrary: rows) (fastforce simp: insert_row_Inr split: sum.splits)+

lemma linked_write_draft:
  assumes linked: "drafts_linked db" and prep: "prepare_publication scope p key team = Inr d"
    and written: "write_draft now scope p d db = Inr db'"
  shows "drafts_linked db'"
proof (cases "pd_team_ref d")
  case None
  then show ?thesis
    using linked written by (simp add: write_draft_def)
next
  case (Some t)
  let ?r = "draft_of now scope p d t"
  let ?refs = "number_refs (ts_site_id scope) (pd_draft_id d) (pn_evidence_refs p)"
  have fresh: "\<forall>x \<in> set (ib_drafts db). \<not> draft_clash ?r x"
    and db': "db' = db\<lparr>ib_drafts := ib_drafts db @ [?r], ib_draft_evidence := ib_draft_evidence db @ ?refs\<rparr>"
    using written Some by (auto simp: write_draft_def insert_row_Inr split: sum.splits dest!: insert_rows_Inr)
  have other: "row_key x \<noteq> (ts_site_id scope, pd_draft_id d)" if "x \<in> set (ib_drafts db)" for x
    using fresh that by (auto simp: draft_clash_def row_key_def draft_of_def)
  then have unknown: "draft_at (ts_site_id scope, pd_draft_id d) (ib_drafts db) = None"
    by (auto simp: draft_at_def find_None_iff)
  then have free: "\<forall>(s, k, _, _) \<in> set (ib_draft_evidence db). (s, k) \<noteq> (ts_site_id scope, pd_draft_id d)"
    using linked by (fastforce simp: drafts_linked_def)
  have new: "od_payload_digest ?r = row_digest db' ?r"
    using prep Some draft_refs_new [OF free, of "pn_evidence_refs p"]
    by (auto simp: db' row_digest_def draft_of_def prepare_publication_def draft_payload_def
        split: if_splits sum.splits option.splits)
  have old: "row_digest db' x = row_digest db x" if "x \<in> set (ib_drafts db)" for x
    using other [OF that] draft_refs_other [of "od_site x" "od_draft_id x"]
    by (simp add: db' row_digest_def row_key_def)
  have known: "draft_at (s, k) (ib_drafts db') \<noteq> None" if "(s, k, r, n) \<in> set (ib_draft_evidence db')" for s k r n
    using that linked
    by (auto simp: db' draft_at_append drafts_linked_def number_refs_def row_key_def draft_of_def split: option.splits)
  have "od_payload_digest x = row_digest db' x" if "x \<in> set (ib_drafts db')" for x
    using that new old linked by (auto simp: db' drafts_linked_def simp del: row_digest_rows)
  with known show ?thesis
    by (auto simp: drafts_linked_def)
qed

end
