(* ===== verification/Frappe_Client.thy ===== *)
theory Frappe_Client
  imports Frappe_Materialization Draft_Worker
begin

text \<open>
  The client of the materialization endpoint (\<open>services/agent_runtime/frappe_client.py\<close>):
  \<open>_FrappeHttpBoundary.post\<close> and \<open>HttpFrappeDraftClient\<close> over an injected transport, which is a parameter and
  changes a world \<open>'v\<close>. The transport built on httpx and the check of the base URL are left out.
\<close>

section \<open>The boundary\<close>

datatype http_error =
    Http_client string "int option" "string option"
  | Http_conflict
  | Http_validation string

record http_request =
  hr_url :: string
  hr_headers :: "(string \<times> string) list"
  hr_payload :: fields

type_synonym 'v transport = "http_request \<Rightarrow> 'v \<Rightarrow> (http_error, int \<times> fields, 'v) call"

record frappe_boundary =
  fb_base_url :: string
  fb_api_key :: string
  fb_api_secret :: string
  fb_auth_ref :: string
  fb_site_id :: string

abbreviation client_failure :: "string \<Rightarrow> http_error" where
  "client_failure message \<equiv> Http_client message None None"

definition client_header :: "string \<Rightarrow> string \<Rightarrow> http_error + string" where
  "client_header value name =
     (if value = [] \<or> list_ex line_break value then Inl (client_failure (''a valid Frappe '' @ name @ '' is required''))
      else Inr value)"

definition unwrap_message :: "fields \<Rightarrow> http_error + fields" where
  "unwrap_message response =
     (case jget response ''message'' of
        JNull \<Rightarrow> Inr response
      | JObj message \<Rightarrow> Inr message
      | _ \<Rightarrow> Inl (client_failure ''Frappe response message must be an object''))"

definition boundary_headers :: "frappe_boundary \<Rightarrow> string \<Rightarrow> string \<Rightarrow> (string \<times> string) list" where
  "boundary_headers b purpose request_id =
     [(''Authorization'', ''token '' @ fb_api_key b @ '':'' @ fb_api_secret b),
      (''Content-Type'', ''application/json''), (''Host'', fb_site_id b),
      (''X-GBOS-Frappe-Auth-Ref'', fb_auth_ref b), (''X-Processing-Purpose'', purpose),
      (''X-Request-ID'', request_id), (''X-Site-ID'', fb_site_id b)]"

definition rejected :: "int \<Rightarrow> fields \<Rightarrow> http_error" where
  "rejected status body =
     (let code = (case jget body ''error'' of JObj e \<Rightarrow> jget e ''code'' | _ \<Rightarrow> JNull) in
      if status = 409 \<and> code = JStr ''idempotency_conflict'' then Http_conflict
      else Http_client ''Frappe rejected the governed request'' (Some status)
        (case code of JStr c \<Rightarrow> Some c | _ \<Rightarrow> None))"

definition boundary_post ::
  "'v transport \<Rightarrow> frappe_boundary \<Rightarrow> string \<Rightarrow> string \<Rightarrow> string \<Rightarrow> fields \<Rightarrow> 'v \<Rightarrow> (http_error, fields, 'v) call" where
  "boundary_post net b path purpose request_id payload s =
     (case client_header purpose ''processing purpose'' of
        Inl x \<Rightarrow> (Inl x, s)
      | Inr p \<Rightarrow>
     (case client_header request_id ''request ID'' of
        Inl x \<Rightarrow> (Inl x, s)
      | Inr r \<Rightarrow>
          and_then (net \<lparr>hr_url = fb_base_url b @ path, hr_headers = boundary_headers b p r,
                         hr_payload = [(''payload'', JObj payload)]\<rparr> s) (\<lambda>(status, response) s'.
          case unwrap_message response of
            Inl x \<Rightarrow> (Inl x, s')
          | Inr body \<Rightarrow> if status \<noteq> 200 then (Inl (rejected status body), s') else (Inr body, s'))))"

section \<open>The draft client\<close>

record draft_client =
  hd_boundary :: frappe_boundary
  hd_purpose :: "string option"

definition resolve_purpose :: "string option \<Rightarrow> string option \<Rightarrow> http_error + string" where
  "resolve_purpose fixed requested =
     (case requested of
        None \<Rightarrow>
          (case fixed of None \<Rightarrow> Inl (client_failure ''Frappe processing purpose is required'') | Some p \<Rightarrow> Inr p)
      | Some v \<Rightarrow>
          (case client_header v ''processing purpose'' of
             Inl x \<Rightarrow> Inl x
           | Inr r \<Rightarrow>
               (if fixed \<noteq> None \<and> fixed \<noteq> Some r
                then Inl (client_failure ''Frappe processing purpose conflicts with fixed scope'') else Inr r)))"

definition client_receipt :: "fields \<Rightarrow> http_error + draft_receipt" where
  "client_receipt value =
     (let invalid = Inl (client_failure ''Frappe returned an invalid materialization receipt'') in
      if \<not> list_all (\<lambda>k. is_str (jget value k)) [''doctype'', ''name'', ''request_id'', ''request_digest'']
         \<or> \<not> (case jget value ''revision'' of JInt i \<Rightarrow> 0 \<le> i | _ \<Rightarrow> False)
      then invalid
      else case draft_receipt_post_init
             \<lparr>fd_doctype = str_of_json (jget value ''doctype''), fd_name = str_of_json (jget value ''name''),
              fd_revision = jget value ''revision'', fd_request_id = str_of_json (jget value ''request_id''),
              fd_request_digest = str_of_json (jget value ''request_digest'')\<rparr> of
           Inl _ \<Rightarrow> invalid
         | Inr receipt \<Rightarrow> Inr receipt)"

definition intent_document :: "materialization_intent \<Rightarrow> fields" where
  "intent_document i =
     [(''operation'', JStr (mn_operation i)), (''doctype'', JStr (mn_doctype i)),
      (''values'', thaw_json (JObj (mn_values i)))]"

definition apply_payload :: "frappe_boundary \<Rightarrow> string \<Rightarrow> materialization_intent \<Rightarrow> string \<Rightarrow> string \<Rightarrow> fields" where
  "apply_payload b purpose i request_id digest =
     [(''site_id'', JStr (fb_site_id b)), (''processing_purpose'', JStr purpose), (''request_id'', JStr request_id),
      (''auth_ref'', JStr (fb_auth_ref b)), (''request_digest'', JStr digest), (''intent'', JObj (intent_document i))]"

definition apply_path :: string where
  "apply_path = ''/api/method/esan_gbos.api.internal.materialization.apply_draft''"

definition client_apply ::
  "'v transport \<Rightarrow> draft_client \<Rightarrow> materialization_intent \<Rightarrow> string \<Rightarrow> string \<Rightarrow> string option \<Rightarrow> 'v
    \<Rightarrow> (http_error, draft_receipt, 'v) call" where
  "client_apply net c i request_id digest requested s =
     (case resolve_purpose (hd_purpose c) requested of
        Inl x \<Rightarrow> (Inl x, s)
      | Inr purpose \<Rightarrow>
          (if \<not> is_sha256_text digest \<or> canonical_payload_digest (intent_document i) \<noteq> digest
           then (Inl (Http_validation ''materialization request digest does not match intent''), s)
           else and_then (boundary_post net (hd_boundary c) apply_path purpose request_id
                  (apply_payload (hd_boundary c) purpose i request_id digest) s) (\<lambda>response s'.
             case client_receipt response of
               Inl x \<Rightarrow> (Inl x, s')
             | Inr receipt \<Rightarrow>
                 (if jget response ''site_id'' \<noteq> JStr (fb_site_id (hd_boundary c)) \<or> fd_doctype receipt \<noteq> mn_doctype i
                     \<or> fd_request_id receipt \<noteq> request_id \<or> fd_request_digest receipt \<noteq> digest
                  then (Inl (client_failure ''Frappe returned a mismatched materialization receipt''), s')
                  else (Inr receipt, s')))))"

text \<open>The client the communication worker builds for the purpose of a claim, with the errors it tells apart.\<close>

definition draft_client_init :: "draft_client \<Rightarrow> http_error + draft_client" where
  "draft_client_init c =
     (case check_all (\<lambda>(v, n). map_sum id (\<lambda>_. ()) (client_header v n))
         ([(fb_api_key (hd_boundary c), ''API key''), (fb_api_secret (hd_boundary c), ''API secret''),
           (fb_auth_ref (hd_boundary c), ''authentication reference''), (fb_site_id (hd_boundary c), ''site'')]
          @ (case hd_purpose c of None \<Rightarrow> [] | Some p \<Rightarrow> [(p, ''processing purpose'')])) of
        Inl x \<Rightarrow> Inl x
      | Inr _ \<Rightarrow> Inr c)"

definition client_factory ::
  "'v transport \<Rightarrow> frappe_boundary \<Rightarrow> string
    \<Rightarrow> (materialization_intent \<Rightarrow> string \<Rightarrow> string \<Rightarrow> 'v \<Rightarrow> (client_error, draft_receipt, 'v) call) option" where
  "client_factory net b purpose =
     (case draft_client_init \<lparr>hd_boundary = b, hd_purpose = Some purpose\<rparr> of
        Inl _ \<Rightarrow> None
      | Inr c \<Rightarrow>
          Some (\<lambda>i request_id digest s.
            case client_apply net c i request_id digest None s of
              (Inl x, s') \<Rightarrow> (Inl (if x = Http_conflict then Client_conflict else Client_failed), s')
            | (Inr receipt, s') \<Rightarrow> (Inr receipt, s')))"

end
