(* ===== verification/Frappe_Delivery.thy ===== *)
theory Frappe_Delivery
  imports Frappe_Client
begin

text \<open>
  Delivery across the two services: the client of \<^theory_text>\<open>Frappe_Client\<close> in front of the endpoint of
  \<^theory_text>\<open>Frappe_Materialization\<close>, over a network that may lose requests and answers. A request is keyed by its
  audit record; once that record is written no later request with this key changes the site, and a client
  that never saw the answer gets it on its next attempt.
\<close>

section \<open>What one request leaves\<close>

definition audit_key :: "fields \<Rightarrow> string option" where
  "audit_key payload =
     (case api_text (jget payload ''request_id'') 256 of
        Inl _ \<Rightarrow> None
      | Inr r \<Rightarrow> Some (audit_name (py_str (jget payload ''site_id'')) (py_str (jget payload ''auth_ref'')) r))"

definition applied_as :: "string \<Rightarrow> json \<Rightarrow> fields \<Rightarrow> frappe_db \<Rightarrow> bool" where
  "applied_as name digest receipt db =
     (case map_of (fx_audits db) name of
        None \<Rightarrow> False
      | Some a \<Rightarrow>
          au_status a = ''Completed'' \<and> jget (au_data a) ''request_digest'' = digest \<and>
          au_output a = Some (JObj receipt))"

definition printed :: "fields \<Rightarrow> fields" where
  "printed kvs = sort_key fst (copy_fields kvs)"

lemma json_copy_object: "json_copy (JObj kvs) = JObj (printed kvs)"
  by (simp add: printed_def)

lemma run_idempotent_known:
  assumes "map_of (fx_audits db) (audit_name (py_str (jget payload ''site_id'')) (py_str (jget payload ''auth_ref'')) r) = Some a"
    and "run_idempotent env rq payload r digest intent db = Inr (out, db')"
  shows "db' = db" and "replay_audit env (fq_user rq) a digest = Inr out"
  using assms by (auto simp: run_idempotent_def Let_def map_sum_def split: sum.splits)

lemma execute_intent_audits:
  "execute_intent env user i r digest db = Inr (receipt, db') \<Longrightarrow> fx_audits db' = fx_audits db"
  by (auto simp: execute_intent_def create_document_def submit_document_def Let_def map_sum_def
      split: sum.splits if_splits)

lemma run_idempotent_new:
  assumes "map_of (fx_audits db) name = None"
    and "name = audit_name (py_str (jget payload ''site_id'')) (py_str (jget payload ''auth_ref'')) r"
    and "run_idempotent env rq payload r digest intent db = Inr (out, db')"
  shows "applied_as name (JStr digest) (printed out) db'" and "\<forall>n. n \<noteq> name \<longrightarrow> map_of (fx_audits db') n = map_of (fx_audits db) n"
proof -
  obtain i db1 where exec: "execute_intent env (fq_user rq) i r digest
      (db\<lparr>fx_audits := (name, new_audit rq payload r digest) # fx_audits db\<rparr>) = Inr (out, db1)"
    and db': "db' = db1\<lparr>fx_audits := AList.update name (complete_audit out (new_audit rq payload r digest)) (fx_audits db1)\<rparr>"
    using assms by (auto simp: run_idempotent_def Let_def split: sum.splits if_splits)
  note kept = execute_intent_audits [OF exec]
  show "applied_as name (JStr digest) (printed out) db'"
    by (simp add: applied_as_def db' update_conv' complete_audit_def new_audit_def json_copy_object del: json_copy.simps)
  show "\<forall>n. n \<noteq> name \<longrightarrow> map_of (fx_audits db') n = map_of (fx_audits db) n"
    by (simp add: db' update_conv' kept)
qed

lemma apply_draft_body_Inr:
  assumes "apply_draft_body env rq payload db = Inr (out, db')"
  obtains r digest intent where "api_text (jget payload ''request_id'') 256 = Inr r" and "jget payload ''request_digest'' = JStr digest"
    and "run_idempotent env rq payload r digest intent db = Inr (out, db')"
    and "audit_key payload = Some (audit_name (py_str (jget payload ''site_id'')) (py_str (jget payload ''auth_ref'')) r)"
proof -
  obtain r intent where r: "api_text (jget payload ''request_id'') 256 = Inr r" "is_str (jget payload ''request_digest'')"
    "run_idempotent env rq payload r (str_of_json (jget payload ''request_digest'')) intent db = Inr (out, db')"
    using assms by (auto simp: apply_draft_body_def Let_def split: sum.splits if_splits)
  then show ?thesis
    using that [of r "str_of_json (jget payload ''request_digest'')" intent]
    by (cases "jget payload ''request_digest''") (auto simp: audit_key_def)
qed

lemma endpoint_object:
  "endpoint env body (JObj kvs) db = (case body kvs db of Inl x \<Rightarrow> (Inl x, db) | Inr (out, db') \<Rightarrow> (Inr out, db'))"
  by (simp add: endpoint_def json_object_def)

inductive frappe_step :: "frappe_db \<Rightarrow> frappe_db \<Rightarrow> bool" where
  applied: "apply_draft_endpoint env rq payload db = (res, db') \<Longrightarrow> frappe_step db db'"

abbreviation frappe_run :: "frappe_db \<Rightarrow> frappe_db \<Rightarrow> bool" where
  "frappe_run \<equiv> frappe_step\<^sup>*\<^sup>*"

lemma apply_settled_kept:
  assumes "apply_draft_endpoint env rq payload db = (res, db')" and "applied_as name digest receipt db"
  shows "applied_as name digest receipt db'"
proof -
  have "applied_as name digest receipt d"
    if body: "apply_draft_body env rq kvs db = Inr (out, d)" for kvs out d
  proof -
    obtain r g intent where run: "run_idempotent env rq kvs r g intent db = Inr (out, d)"
      by (rule apply_draft_body_Inr [OF body])
    show ?thesis
    proof (cases "map_of (fx_audits db) (audit_name (py_str (jget kvs ''site_id'')) (py_str (jget kvs ''auth_ref'')) r)")
      case None
      then have "name \<noteq> audit_name (py_str (jget kvs ''site_id'')) (py_str (jget kvs ''auth_ref'')) r"
        using assms(2) by (auto simp: applied_as_def)
      then have "map_of (fx_audits d) name = map_of (fx_audits db) name"
        using run_idempotent_new(2) [OF None refl run] by blast
      then show ?thesis
        using assms(2) by (simp add: applied_as_def)
    next
      case (Some a)
      then show ?thesis
        using run_idempotent_known(1) [OF Some run] assms(2) by simp
    qed
  qed
  then show ?thesis
    using assms by (auto simp: apply_draft_endpoint_def endpoint_def split: sum.splits prod.splits)
qed

lemma run_settled_kept: "frappe_run db db' \<Longrightarrow> applied_as name digest receipt db \<Longrightarrow> applied_as name digest receipt db'"
  by (induction rule: rtranclp_induct) (auto elim!: frappe_step.cases intro: apply_settled_kept)

text \<open>A request that was applied answers with its receipt or raises; it changes nothing.\<close>

lemma apply_settled:
  assumes key: "audit_key kvs = Some name" and settled0: "applied_as name digest receipt db"
    and call: "apply_draft_endpoint env rq (JObj kvs) db = (res, db')"
  shows "db' = db" and "res = Inr out \<Longrightarrow> jget kvs ''request_digest'' = digest \<and> out = receipt"
proof -
  obtain a where a: "map_of (fx_audits db) name = Some a" "jget (au_data a) ''request_digest'' = digest"
    "au_output a = Some (JObj receipt)"
    using settled0 by (auto simp: applied_as_def split: option.splits)
  have known: "d = db \<and> jget kvs ''request_digest'' = digest \<and> o' = receipt"
    if body: "apply_draft_body env rq kvs db = Inr (o', d)" for o' d
  proof -
    obtain r g intent where r: "api_text (jget kvs ''request_id'') 256 = Inr r" "jget kvs ''request_digest'' = JStr g"
      "run_idempotent env rq kvs r g intent db = Inr (o', d)"
      "audit_key kvs = Some (audit_name (py_str (jget kvs ''site_id'')) (py_str (jget kvs ''auth_ref'')) r)"
      by (rule apply_draft_body_Inr [OF body])
    then have found: "map_of (fx_audits db) (audit_name (py_str (jget kvs ''site_id'')) (py_str (jget kvs ''auth_ref'')) r) = Some a"
      using key a(1) by simp
    have "replay_audit env (fq_user rq) a g = Inr o'"
      by (rule run_idempotent_known(2) [OF found r(3)])
    then have "jget (au_data a) ''request_digest'' = JStr g" "au_output a = Some (JObj o')"
      by (auto simp: replay_audit_def split: if_splits bool.splits option.splits json.splits)
    then show ?thesis
      using run_idempotent_known(1) [OF found r(3)] a r(2) by simp
  qed
  show "db' = db" and "res = Inr out \<Longrightarrow> jget kvs ''request_digest'' = digest \<and> out = receipt"
    using call known by (auto simp: apply_draft_endpoint_def endpoint_object split: sum.splits prod.splits)
qed

lemma apply_settles:
  assumes key: "audit_key kvs = Some name" and fresh: "map_of (fx_audits db) name = None"
    and call: "apply_draft_endpoint env rq (JObj kvs) db = (Inr out, db')"
  shows "applied_as name (jget kvs ''request_digest'') (printed out) db'"
proof -
  have body: "apply_draft_body env rq kvs db = Inr (out, db')"
    using call by (auto simp: apply_draft_endpoint_def endpoint_object split: sum.splits)
  obtain r g intent where r: "jget kvs ''request_digest'' = JStr g" "run_idempotent env rq kvs r g intent db = Inr (out, db')"
    "audit_key kvs = Some (audit_name (py_str (jget kvs ''site_id'')) (py_str (jget kvs ''auth_ref'')) r)"
    by (rule apply_draft_body_Inr [OF body])
  then show ?thesis
    using run_idempotent_new(1) [OF fresh _ r(2)] key by simp
qed

section \<open>The network\<close>

text \<open>
  What may happen to one exchange. A request that arrives is answered by the endpoint, under the user Frappe
  finds for the credentials; the framework wraps the result of the endpoint as \<open>message\<close>.
\<close>

datatype net_fault = Delivered | Request_lost | Response_lost

definition server_request :: "(string \<Rightarrow> string) \<Rightarrow> http_request \<Rightarrow> frappe_request" where
  "server_request auth rq =
     \<lparr>fq_method = Some ''POST'', fq_headers = hr_headers rq,
      fq_user = (case map_of (hr_headers rq) ''Authorization'' of None \<Rightarrow> ''Guest'' | Some token \<Rightarrow> auth token)\<rparr>"

definition frappe_network :: "frappe_site \<Rightarrow> (string \<Rightarrow> string) \<Rightarrow> (frappe_db \<times> net_fault list) transport" where
  "frappe_network env auth rq s =
     (let lost = Inl (client_failure ''Frappe is unavailable'');
          fault = (case snd s of [] \<Rightarrow> Delivered | f # _ \<Rightarrow> f) in
      if fault = Request_lost then (lost, fst s, tl (snd s))
      else case apply_draft_endpoint env (server_request auth rq) (jget (hr_payload rq) ''payload'') (fst s) of
        (res, db) \<Rightarrow>
          if fault = Response_lost then (lost, db, tl (snd s))
          else (Inr (ar_http_status (render res), [(''message'', JObj (ar_body (render res)))]), db, tl (snd s)))"

text \<open>What the document controllers promise: a name that fits a receipt and a revision that is no negative number.\<close>

definition revision_ok :: "fields \<Rightarrow> bool" where
  "revision_ok doc = (case int_or_zero (jget doc ''revision'') of Inl _ \<Rightarrow> True | Inr i \<Rightarrow> 0 \<le> i)"

definition hooks_ok :: "frappe_site \<Rightarrow> bool" where
  "hooks_ok env =
     ((\<forall>doctype doc db name stored. fe_insert env doctype doc db = Inr (name, stored) \<longrightarrow>
         name \<noteq> [] \<and> length name \<le> 256 \<and> revision_ok stored) \<and>
      (\<forall>flags old new db stored. fe_save env flags old new db = Inr stored \<longrightarrow> revision_ok stored))"

definition receipt_fields :: "frappe_site \<Rightarrow> string \<Rightarrow> string \<Rightarrow> int \<Rightarrow> string \<Rightarrow> string \<Rightarrow> fields" where
  "receipt_fields env doctype name revision request_id digest =
     [(''site_id'', JStr (fe_site env)), (''doctype'', JStr doctype), (''name'', JStr name),
      (''revision'', JInt revision), (''request_id'', JStr request_id), (''request_digest'', JStr digest)]"

lemma strip_nothing [simp]: "strip [] = []"
  by (simp add: strip_def strip_by_def)

lemma api_text_Inr: "api_text v n = Inr s \<longleftrightarrow> (\<exists>t. v = JStr t \<and> strip t \<noteq> [] \<and> length t \<le> n \<and> \<not> list_ex line_break t \<and> s = strip t)"
  by (auto simp: api_text_def split: json.splits)

lemma create_document_Inr:
  assumes "hooks_ok env" and "create_document env user i r db = Inr ((name, stored), db')"
  shows "name \<noteq> [] \<and> length name \<le> 256 \<and> revision_ok stored"
  using assms unfolding create_document_def hooks_ok_def Let_def
  by (auto split: sum.splits if_splits)

lemma submit_document_Inr:
  assumes "hooks_ok env" and "submit_document env user i r db = Inr ((name, stored), db')"
  shows "name = str_of_json (jget (ci_values i) ''name'') \<and> revision_ok stored"
  using assms unfolding submit_document_def hooks_ok_def Let_def
  by (auto split: sum.splits if_splits)

lemma validate_intent_Inr:
  assumes "validate_intent env user intent db = Inr i"
  shows "jget intent ''doctype'' = JStr (ci_doctype i)" and "ci_doctype i \<noteq> [] \<and> length (ci_doctype i) \<le> 256"
    and "ci_operation i \<noteq> ''create'' \<Longrightarrow> \<exists>s. api_text (jget (ci_values i) ''name'') 256 = Inr s"
  using assms
  by (auto simp: validate_intent_def create_fields_def map_sum_def split: sum.splits if_splits json.splits option.splits)

lemma execute_intent_receipt:
  assumes hooks: "hooks_ok env" and valid: "validate_intent env user intent db0 = Inr i"
    and run: "execute_intent env user i r g db = Inr (out, db')"
  shows "\<exists>name revision. out = receipt_fields env (ci_doctype i) name revision r g \<and> 0 \<le> revision \<and> name \<noteq> [] \<and> length name \<le> 256"
proof -
  obtain name stored d where doc: "(if ci_operation i = ''create'' then create_document env user i r db
      else submit_document env user i r db) = Inr ((name, stored), d)"
    and out: "receipt_of env (ci_doctype i) name stored r g = Inr out"
    using run by (auto simp: execute_intent_def map_sum_def split: sum.splits prod.splits)
  have ok: "name \<noteq> [] \<and> length name \<le> 256 \<and> revision_ok stored"
  proof (cases "ci_operation i = ''create''")
    case True
    then show ?thesis
      using create_document_Inr [OF hooks] doc by simp
  next
    case False
    then show ?thesis
      using submit_document_Inr [OF hooks, of user i r db name stored d] doc validate_intent_Inr(3) [OF valid]
      by (auto simp: api_text_Inr)
  qed
  then show ?thesis
    using out by (auto simp: receipt_of_def receipt_fields_def revision_ok_def split: sum.splits)
qed

lemma map_of_sort_key: "map_of (sort_key fst (kvs :: fields)) k = map_of kvs k"
proof -
  have first: "map_of xs k = (case filter (\<lambda>p. fst p = k) xs of [] \<Rightarrow> None | p # _ \<Rightarrow> Some (snd p))" for xs :: fields
    by (induction xs) auto
  show ?thesis
    by (simp add: first sort_key_stable)
qed

lemma jget_printed: "jget (printed kvs) k = json_copy (jget kvs k)"
proof -
  have "map_of (copy_fields kvs) k = map_option json_copy (map_of kvs k)"
    by (induction kvs) auto
  then show ?thesis
    by (simp add: printed_def jget_def map_of_sort_key split: option.splits)
qed

lemma client_receipt_fields:
  assumes "\<forall>k. jget value k = jget (receipt_fields env doctype name revision r g) k"
    and "doctype \<noteq> [] \<and> length doctype \<le> 256" and "name \<noteq> [] \<and> length name \<le> 256" and "0 \<le> revision"
    and "r \<noteq> [] \<and> length r \<le> 256" and "is_sha256_text g"
  shows "client_receipt value = Inr \<lparr>fd_doctype = doctype, fd_name = name, fd_revision = JInt revision,
    fd_request_id = r, fd_request_digest = g\<rparr>"
  using assms by (simp add: client_receipt_def draft_receipt_post_init_def receipt_fields_def Let_def)

lemma authenticate_headers:
  assumes "authenticate env rq kvs = Inr identity"
  obtains request where "api_text (jget kvs ''request_id'') 256 = Inr request"
    and "map_of (fq_headers rq) ''X-Request-ID'' = Some request" and "map_of (fq_headers rq) ''X-Site-ID'' = Some (fe_site env)"
  using assms
  by (auto simp: authenticate_def identity_matches_def split: if_splits json.splits sum.splits)

lemma apply_draft_body_again:
  assumes "apply_draft_body env rq kvs db = Inr (out, db')"
  obtains identity r intent g where "authenticate env rq kvs = Inr identity"
    and "api_text (jget kvs ''request_id'') 256 = Inr r" and "json_object env (jget kvs ''intent'') ''intent'' = Inr intent"
    and "jget kvs ''request_digest'' = JStr g" and "is_sha256_text g"
    and "\<And>d. apply_draft_body env rq kvs d = run_idempotent env rq kvs r g intent d"
proof -
  obtain identity r intent where found: "exact_fields kvs apply_fields ''invalid_materialization_request'' = Inr ()"
    "authenticate env rq kvs = Inr identity" "api_text (jget kvs ''request_id'') 256 = Inr r"
    "json_object env (jget kvs ''intent'') ''intent'' = Inr intent"
    "exact_fields intent [''operation'', ''doctype'', ''values''] ''invalid_intent'' = Inr ()"
    "is_str (jget kvs ''request_digest'')" "is_sha256_text (str_of_json (jget kvs ''request_digest''))"
    "json_digest (JObj intent) = str_of_json (jget kvs ''request_digest'')"
    using assms by (auto simp: apply_draft_body_def Let_def split: sum.splits if_splits)
  then have "apply_draft_body env rq kvs d = run_idempotent env rq kvs r (str_of_json (jget kvs ''request_digest'')) intent d" for d
    by (simp add: apply_draft_body_def Let_def)
  then show ?thesis
    using found that [of identity r intent "str_of_json (jget kvs ''request_digest'')"]
    by (cases "jget kvs ''request_digest''") auto
qed

lemma run_idempotent_settled:
  assumes "applied_as (audit_name (py_str (jget payload ''site_id'')) (py_str (jget payload ''auth_ref'')) r) (JStr g) receipt db"
    and "\<forall>a. fe_permits env ''apply'' (fq_user rq) ''read'' integration_request (audit_fields a)"
  shows "run_idempotent env rq payload r g intent db = Inr (receipt, db)"
  using assms by (auto simp: applied_as_def run_idempotent_def replay_audit_def Let_def split: option.splits)

lemma run_idempotent_receipt:
  assumes "hooks_ok env"
    and "map_of (fx_audits db) (audit_name (py_str (jget payload ''site_id'')) (py_str (jget payload ''auth_ref'')) r) = None"
    and "run_idempotent env rq payload r g intent db = Inr (out, db')"
  shows "\<exists>doctype name revision. jget intent ''doctype'' = JStr doctype \<and> doctype \<noteq> [] \<and> length doctype \<le> 256
    \<and> out = receipt_fields env doctype name revision r g \<and> 0 \<le> revision \<and> name \<noteq> [] \<and> length name \<le> 256"
proof -
  obtain i d d' where valid: "validate_intent env (fq_user rq) intent db = Inr i"
    and run: "execute_intent env (fq_user rq) i r g d = Inr (out, d')"
    using assms by (auto simp: run_idempotent_def Let_def split: sum.splits if_splits)
  show ?thesis
    using execute_intent_receipt [OF assms(1) valid run] validate_intent_Inr(1,2) [OF valid] by blast
qed

definition sent_by :: "(string \<Rightarrow> string) \<Rightarrow> frappe_boundary \<Rightarrow> string \<Rightarrow> string \<Rightarrow> frappe_request" where
  "sent_by auth b purpose r =
     \<lparr>fq_method = Some ''POST'', fq_headers = boundary_headers b purpose r,
      fq_user = auth (''token '' @ fb_api_key b @ '':'' @ fb_api_secret b)\<rparr>"

lemma server_request_sent:
  "server_request auth \<lparr>hr_url = u, hr_headers = boundary_headers b purpose r, hr_payload = x\<rparr> = sent_by auth b purpose r"
  by (simp add: server_request_def sent_by_def boundary_headers_def)

lemma sent_headers:
  "map_of (fq_headers (sent_by auth b purpose r)) ''X-Site-ID'' = Some (fb_site_id b)"
  "map_of (fq_headers (sent_by auth b purpose r)) ''X-Request-ID'' = Some r"
  by (simp_all add: sent_by_def boundary_headers_def)

text \<open>What the client settles before it sends anything.\<close>

definition ready_to_send :: "draft_client \<Rightarrow> materialization_intent \<Rightarrow> string \<Rightarrow> string \<Rightarrow> string option \<Rightarrow> string \<Rightarrow> bool" where
  "ready_to_send c i r g requested purpose =
     (resolve_purpose (hd_purpose c) requested = Inr purpose \<and> is_sha256_text g
      \<and> canonical_payload_digest (intent_document i) = g
      \<and> client_header purpose ''processing purpose'' = Inr purpose \<and> client_header r ''request ID'' = Inr r)"

lemma client_header_cases: "client_header v n = Inr v \<or> (\<exists>x. client_header v n = Inl x)"
  by (simp add: client_header_def)

lemma client_apply_ready:
  "ready_to_send c i r g requested purpose \<Longrightarrow> client_apply net c i r g requested s =
     and_then (boundary_post net (hd_boundary c) apply_path purpose r (apply_payload (hd_boundary c) purpose i r g) s)
       (\<lambda>response s'. case client_receipt response of
          Inl x \<Rightarrow> (Inl x, s')
        | Inr receipt \<Rightarrow>
            (if jget response ''site_id'' \<noteq> JStr (fb_site_id (hd_boundary c)) \<or> fd_doctype receipt \<noteq> mn_doctype i
                \<or> fd_request_id receipt \<noteq> r \<or> fd_request_digest receipt \<noteq> g
             then (Inl (client_failure ''Frappe returned a mismatched materialization receipt''), s') else (Inr receipt, s')))"
  by (simp add: ready_to_send_def client_apply_def)

lemma client_apply_sends:
  assumes "client_apply net c i r g requested s = (res, s')" and "s' \<noteq> s \<or> isl res = False"
  obtains purpose where "ready_to_send c i r g requested purpose"
proof (cases "resolve_purpose (hd_purpose c) requested")
  case (Inl x)
  then show ?thesis
    using assms by (auto simp: client_apply_def)
next
  case (Inr purpose)
  have "ready_to_send c i r g requested purpose"
  proof (rule ccontr)
    assume blocked: "\<not> ready_to_send c i r g requested purpose"
    consider "\<not> is_sha256_text g \<or> canonical_payload_digest (intent_document i) \<noteq> g"
      | x where "client_header purpose ''processing purpose'' = Inl x"
      | p x where "client_header purpose ''processing purpose'' = Inr p" "client_header r ''request ID'' = Inl x"
      using blocked Inr client_header_cases [of purpose "''processing purpose''"] client_header_cases [of r "''request ID''"]
      unfolding ready_to_send_def by blast
    then show False
      using assms Inr by cases (auto simp: client_apply_def boundary_post_def split: if_splits)
  qed
  then show ?thesis
    by (rule that)
qed

lemma post_delivered:
  assumes "ready_to_send c i r g requested purpose"
    and "apply_draft_body env (sent_by auth b purpose r) payload db = Inr (out, db')"
  shows "boundary_post (frappe_network env auth) b path purpose r payload (db, Delivered # fs) = (Inr out, (db', fs))"
  using assms
  by (simp add: ready_to_send_def boundary_post_def frappe_network_def server_request_sent apply_draft_endpoint_def
      endpoint_object render_def unwrap_message_def Let_def)

lemma post_answer_lost:
  assumes "ready_to_send c i r g requested purpose"
    and "boundary_post (frappe_network env auth) b path purpose r payload (db, Response_lost # fs) = (res, (db', fs'))" and "db' \<noteq> db"
  shows "\<exists>out. apply_draft_body env (sent_by auth b purpose r) payload db = Inr (out, db')"
  using assms
  by (auto simp: ready_to_send_def boundary_post_def frappe_network_def server_request_sent apply_draft_endpoint_def
      endpoint_object Let_def split: sum.splits)

lemma apply_answer_lost:
  assumes "ready_to_send c i r g requested purpose"
    and "client_apply (frappe_network env auth) c i r g requested (db, Response_lost # fs) = (res, (db', fs'))" and "db' \<noteq> db"
  shows "\<exists>out. apply_draft_body env (sent_by auth (hd_boundary c) purpose r) (apply_payload (hd_boundary c) purpose i r g) db
    = Inr (out, db')"
proof -
  obtain res1 s1 where post: "boundary_post (frappe_network env auth) (hd_boundary c) apply_path purpose r
      (apply_payload (hd_boundary c) purpose i r g) (db, Response_lost # fs) = (res1, s1)"
    by (rule prod.exhaust)
  then have "s1 = (db', fs')"
    using assms(2) by (auto simp: client_apply_ready [OF assms(1)] and_then_def split: sum.splits if_splits)
  then show ?thesis
    using post_answer_lost [OF assms(1)] post assms(3) by simp
qed

lemma payload_fields:
  "jget (apply_payload b purpose i r g) ''site_id'' = JStr (fb_site_id b)"
  "jget (apply_payload b purpose i r g) ''auth_ref'' = JStr (fb_auth_ref b)"
  "jget (apply_payload b purpose i r g) ''request_id'' = JStr r"
  "jget (apply_payload b purpose i r g) ''request_digest'' = JStr g"
  "jget (apply_payload b purpose i r g) ''intent'' = JObj (intent_document i)"
  by (simp_all add: apply_payload_def)

text \<open>A request of the client that succeeded: which call it was and what its receipt holds.\<close>

lemma client_body:
  assumes sent: "apply_draft_body env (sent_by auth b purpose r) (apply_payload b purpose i r g) db = Inr (out, db')"
  shows "fe_site env = fb_site_id b" and "r \<noteq> [] \<and> length r \<le> 256" and "is_sha256_text g"
    and "\<And>d. apply_draft_body env (sent_by auth b purpose r) (apply_payload b purpose i r g) d
      = run_idempotent env (sent_by auth b purpose r) (apply_payload b purpose i r g) r g (intent_document i) d"
    and "audit_key (apply_payload b purpose i r g) = Some (audit_name (fb_site_id b) (fb_auth_ref b) r)"
proof -
  obtain identity r' intent g' where body: "authenticate env (sent_by auth b purpose r) (apply_payload b purpose i r g) = Inr identity"
    "api_text (jget (apply_payload b purpose i r g) ''request_id'') 256 = Inr r'"
    "json_object env (jget (apply_payload b purpose i r g) ''intent'') ''intent'' = Inr intent"
    "jget (apply_payload b purpose i r g) ''request_digest'' = JStr g'" "is_sha256_text g'"
    "\<And>d. apply_draft_body env (sent_by auth b purpose r) (apply_payload b purpose i r g) d
      = run_idempotent env (sent_by auth b purpose r) (apply_payload b purpose i r g) r' g' intent d"
    by (rule apply_draft_body_again [OF sent]) blast
  have r': "r' = r" and site: "fe_site env = fb_site_id b"
    using body(1,2) by (auto elim!: authenticate_headers simp: sent_headers)
  have intent: "intent = intent_document i" and g': "g' = g"
    using body(3,4) by (auto simp: payload_fields json_object_def)
  show "fe_site env = fb_site_id b" "is_sha256_text g"
    using site body(5) by (auto simp: g')
  show "r \<noteq> [] \<and> length r \<le> 256"
    using body(2) by (auto simp: payload_fields api_text_Inr)
  show "apply_draft_body env (sent_by auth b purpose r) (apply_payload b purpose i r g) d
      = run_idempotent env (sent_by auth b purpose r) (apply_payload b purpose i r g) r g (intent_document i) d" for d
    using body(6) by (simp add: r' g' intent)
  show "audit_key (apply_payload b purpose i r g) = Some (audit_name (fb_site_id b) (fb_auth_ref b) r)"
    using body(2) by (simp add: audit_key_def payload_fields r')
qed

lemma client_receipt_shape:
  assumes sent: "apply_draft_body env (sent_by auth b purpose r) (apply_payload b purpose i r g) db = Inr (out, db')"
    and new: "map_of (fx_audits db) (audit_name (fb_site_id b) (fb_auth_ref b) r) = None" and hooks: "hooks_ok env"
  shows "\<exists>name revision. mn_doctype i \<noteq> [] \<and> length (mn_doctype i) \<le> 256 \<and> 0 \<le> revision \<and> name \<noteq> [] \<and> length name \<le> 256
    \<and> out = receipt_fields env (mn_doctype i) name revision r g"
proof -
  have unseen: "map_of (fx_audits db) (audit_name (py_str (jget (apply_payload b purpose i r g) ''site_id''))
      (py_str (jget (apply_payload b purpose i r g) ''auth_ref'')) r) = None"
    using new by (simp add: payload_fields)
  have run: "run_idempotent env (sent_by auth b purpose r) (apply_payload b purpose i r g) r g (intent_document i) db = Inr (out, db')"
    using sent client_body(4) [OF sent] by simp
  show ?thesis
    using run_idempotent_receipt [OF hooks unseen run] by (auto simp: intent_document_def)
qed

lemma copied_receipt:
  "json_copy (jget (receipt_fields env doctype name revision r g) k) = jget (receipt_fields env doctype name revision r g) k"
  by (simp add: receipt_fields_def)

lemma receipt_printed:
  assumes "apply_draft_body env (sent_by auth b purpose r) (apply_payload b purpose i r g) db = Inr (out, db')"
    and "map_of (fx_audits db) (audit_name (fb_site_id b) (fb_auth_ref b) r) = None" and "hooks_ok env"
  shows "\<forall>k. jget (printed out) k = jget out k"
  using client_receipt_shape [OF assms] by (metis jget_printed copied_receipt)

text \<open>The receipt of the endpoint, or its stored copy, is one the client accepts.\<close>

lemma client_accepts:
  assumes sent: "apply_draft_body env (sent_by auth b purpose r) (apply_payload b purpose i r g) db = Inr (out, db')"
    and new: "map_of (fx_audits db) (audit_name (fb_site_id b) (fb_auth_ref b) r) = None"
    and hooks: "hooks_ok env" and copy: "\<forall>k. jget answer k = jget out k"
  shows "\<exists>name revision. client_receipt answer = Inr \<lparr>fd_doctype = mn_doctype i, fd_name = name, fd_revision = JInt revision,
      fd_request_id = r, fd_request_digest = g\<rparr>" and "jget answer ''site_id'' = JStr (fb_site_id b)"
proof -
  obtain name revision where shape: "mn_doctype i \<noteq> [] \<and> length (mn_doctype i) \<le> 256" "0 \<le> revision"
    "name \<noteq> [] \<and> length name \<le> 256" "out = receipt_fields env (mn_doctype i) name revision r g"
    using client_receipt_shape [OF sent new hooks] by blast
  show "\<exists>name revision. client_receipt answer = Inr \<lparr>fd_doctype = mn_doctype i, fd_name = name, fd_revision = JInt revision,
      fd_request_id = r, fd_request_digest = g\<rparr>"
    using client_receipt_fields [of answer env "mn_doctype i" name revision r g] copy shape client_body(2,3) [OF sent] by auto
  show "jget answer ''site_id'' = JStr (fb_site_id b)"
    using copy shape(4) client_body(1) [OF sent] by (simp add: receipt_fields_def)
qed

lemma text_value: "is_str v \<Longrightarrow> v = JStr (str_of_json v)"
  by (cases v) auto

lemma client_receipt_Inr:
  "client_receipt answer = Inr x \<Longrightarrow> jget answer ''doctype'' = JStr (fd_doctype x) \<and> jget answer ''name'' = JStr (fd_name x)"
  by (auto simp: client_receipt_def draft_receipt_post_init_def Let_def intro: text_value split: if_splits json.splits)

lemma network_Inr:
  assumes "frappe_network env auth rq (db, fs) = (Inr (status, response), s)"
  shows "\<exists>res. apply_draft_endpoint env (server_request auth rq) (jget (hr_payload rq) ''payload'') db = (res, fst s)
    \<and> status = ar_http_status (render res) \<and> response = [(''message'', JObj (ar_body (render res)))]"
  using assms by (auto simp: frappe_network_def Let_def split: if_splits prod.splits)

lemma post_Inr:
  assumes ready: "ready_to_send c i r g requested purpose"
    and post: "boundary_post (frappe_network env auth) b path purpose r payload (db, fs) = (Inr answer, (db', fs'))"
    and receipt: "client_receipt answer = Inr x"
  shows "apply_draft_body env (sent_by auth b purpose r) payload db = Inr (answer, db')"
proof -
  let ?rq = "\<lparr>hr_url = fb_base_url b @ path, hr_headers = boundary_headers b purpose r, hr_payload = [(''payload'', JObj payload)]\<rparr>"
  obtain status response s where net: "frappe_network env auth ?rq (db, fs) = (Inr (status, response), s)"
    and answer: "(case unwrap_message response of Inl e \<Rightarrow> (Inl e, s)
        | Inr body \<Rightarrow> if status \<noteq> 200 then (Inl (rejected status body), s) else (Inr body, s)) = (Inr answer, (db', fs'))"
    using post ready by (auto simp: boundary_post_def ready_to_send_def and_then_Inr_iff)
  have s: "s = (db', fs')" and body: "unwrap_message response = Inr answer"
    using answer by (auto split: sum.splits if_splits)
  obtain res where res: "apply_draft_endpoint env (sent_by auth b purpose r) (JObj payload) db = (res, db')"
    and response: "response = [(''message'', JObj (ar_body (render res)))]"
    using network_Inr [OF net] by (auto simp: server_request_sent s)
  have "answer = ar_body (render res)"
    using body by (simp add: response unwrap_message_def)
  with receipt have "res = Inr answer"
    by (cases res) (auto simp: render_def client_receipt_def)
  then show ?thesis
    using res by (auto simp: apply_draft_endpoint_def endpoint_object split: sum.splits)
qed

text \<open>What the client reports as applied is recorded as applied at the site, with the receipt the client returns.\<close>

lemma client_apply_settles:
  assumes call: "client_apply (frappe_network env auth) c i r g requested (db, fs) = (Inr receipt, (db', fs'))"
  shows "\<exists>out. applied_as (audit_name (fb_site_id (hd_boundary c)) (fb_auth_ref (hd_boundary c)) r) (JStr g) out db'
    \<and> jget out ''doctype'' = JStr (fd_doctype receipt) \<and> jget out ''name'' = JStr (fd_name receipt)"
proof -
  obtain purpose where ready: "ready_to_send c i r g requested purpose"
    using client_apply_sends [OF call] by auto
  let ?b = "hd_boundary c"
  let ?payload = "apply_payload ?b purpose i r g" and ?rq = "sent_by auth ?b purpose r"
  let ?name = "audit_name (fb_site_id ?b) (fb_auth_ref ?b) r"
  obtain answer s where answered: "boundary_post (frappe_network env auth) ?b apply_path purpose r ?payload (db, fs) = (Inr answer, s)"
    and checked: "(case client_receipt answer of
        Inl x \<Rightarrow> (Inl x, s)
      | Inr x \<Rightarrow>
          (if jget answer ''site_id'' \<noteq> JStr (fb_site_id ?b) \<or> fd_doctype x \<noteq> mn_doctype i \<or> fd_request_id x \<noteq> r
              \<or> fd_request_digest x \<noteq> g
           then (Inl (client_failure ''Frappe returned a mismatched materialization receipt''), s) else (Inr x, s)))
      = (Inr receipt, (db', fs'))"
    using call unfolding client_apply_ready [OF ready] and_then_Inr_iff by blast
  have receipt: "client_receipt answer = Inr receipt" and s: "s = (db', fs')"
    using checked by (auto split: sum.splits if_splits)
  note post = answered [unfolded s]
  note sent = post_Inr [OF ready post receipt] and named = client_receipt_Inr [OF receipt]
  have run: "run_idempotent env ?rq ?payload r g (intent_document i) db = Inr (answer, db')"
    using sent client_body(4) [OF sent] by simp
  show ?thesis
  proof (cases "map_of (fx_audits db) ?name")
    case None
    then have "applied_as ?name (JStr g) (printed answer) db'"
      using run_idempotent_new(1) [OF None _ run] by (simp add: payload_fields)
    with named show ?thesis
      by (auto simp: jget_printed intro!: exI [of _ "printed answer"])
  next
    case (Some a)
    then have known: "map_of (fx_audits db) (audit_name (py_str (jget ?payload ''site_id'')) (py_str (jget ?payload ''auth_ref'')) r)
        = Some a"
      by (simp add: payload_fields)
    have "applied_as ?name (JStr g) answer db'"
      using run_idempotent_known [OF known run] Some
      by (auto simp: applied_as_def replay_audit_def split: if_splits bool.splits option.splits json.splits)
    with named show ?thesis
      by blast
  qed
qed

end
