(* ===== verification/Draft_Properties.thy ===== *)
theory Draft_Properties
  imports Draft_Worker
begin

text \<open>
  The outbox of drafts as a whole: what a claim carries, how often a draft can be claimed, what a worker
  without its lease can do, what a successful cycle wrote, and how one draft blocks the outbox.
\<close>

section \<open>Runs keep the drafts linked\<close>

lemma drafts_linked_cong:
  "ib_drafts db' = ib_drafts db \<Longrightarrow> ib_draft_evidence db' = ib_draft_evidence db \<Longrightarrow> drafts_linked db' = drafts_linked db"
  by (simp add: drafts_linked_def row_digest_def)

lemma linked_publish:
  assumes linked: "drafts_linked db" and publish: "publish_intelligence now team_of scope p key db = (res, db')"
  shows "drafts_linked db'"
proof -
  have items: "drafts_linked d' = drafts_linked d" if "write_items scope p pd d = Inr d'" for pd d d'
    by (rule drafts_linked_cong) (use that in \<open>auto simp: write_items_def split: sum.splits\<close>)
  have head: "drafts_linked (db\<lparr>ib_intelligence := a, ib_evidence := b, ib_invocations := e\<rparr>)" for a b e
    using linked drafts_linked_cong [of "db\<lparr>ib_intelligence := a, ib_evidence := b, ib_invocations := e\<rparr>" db] by simp
  have "drafts_linked d'"
    if prep: "prepare_publication scope p key team = Inr pd" and wrote: "write_publication now scope p key pd db = Inr d'"
    for pd d' team
  proof -
    obtain d where d: "drafts_linked d" "write_draft now scope p pd d = Inr d'"
      using wrote items head by (fastforce simp: write_publication_def split: sum.splits)
    show ?thesis
      by (rule linked_write_draft [OF d(1) prep d(2)])
  qed
  then show ?thesis
    using publish linked by (auto simp: publish_intelligence_def split: if_splits sum.splits option.splits)
qed

lemma linked_claim:
  assumes linked: "drafts_linked db" and claim: "claim_draft c site worker now duration db = (res, db')"
  shows "drafts_linked db'"
proof -
  have "drafts_linked (db\<lparr>ib_drafts := rows\<rparr>)"
    if got: "claim_rows c site worker t duration (ib_drafts db) = Inr (r, rows)" for t r rows
  proof -
    obtain rows1 where rows1: "update_drafts (exhausted site t) (bury t) (ib_drafts db) = Inr rows1"
      using got by (auto simp: claim_rows_def split: sum.splits)
    note mid = linked_update [OF linked rows1]
    from got rows1 consider "rows = rows1"
      | q where "update_drafts (is_row site q) (lease_to worker t duration) rows1 = Inr rows"
      by (auto simp: claim_rows_def Let_def map_sum_def split: if_splits sum.splits)
    then show ?thesis
    proof cases
      case 1
      then show ?thesis using mid by simp
    next
      case (2 q)
      then show ?thesis using linked_update [OF mid, of _ _ rows] by simp
    qed
  qed
  then show ?thesis
    using claim linked by (auto simp: claim_draft_def split: sum.splits option.splits prod.splits)
qed

lemma linked_heartbeat:
  "drafts_linked db \<Longrightarrow> heartbeat_draft site draft worker attempt now duration db = (res, db') \<Longrightarrow> drafts_linked db'"
  by (auto simp: heartbeat_draft_def Let_def split: sum.splits if_splits intro: linked_update)

lemma linked_acknowledge:
  "drafts_linked db \<Longrightarrow> acknowledge_draft site draft worker attempt now receipt db = (res, db') \<Longrightarrow> drafts_linked db'"
  by (auto simp: acknowledge_draft_def split: sum.splits if_splits option.splits intro: linked_update)

lemma linked_fail:
  "drafts_linked db \<Longrightarrow> fail_draft site draft worker attempt now retry_at code db = (res, db') \<Longrightarrow> drafts_linked db'"
  by (auto simp: fail_draft_def split: sum.splits if_splits option.splits intro: linked_update)

lemma draft_run_linked: "draft_run c db tr db' \<Longrightarrow> drafts_linked db \<Longrightarrow> drafts_linked db'"
  by (induction rule: draft_run.induct)
    (blast intro: linked_publish linked_claim linked_heartbeat linked_acknowledge linked_fail)+

definition no_drafts :: "intelligence_db \<Rightarrow> bool" where
  "no_drafts db = (ib_drafts db = [] \<and> ib_draft_evidence db = [])"

lemma no_drafts_inv: "no_drafts db \<Longrightarrow> rows_inv (ib_drafts db) \<and> drafts_linked db"
  by (simp add: no_drafts_def rows_inv_def drafts_linked_def)

section \<open>Who holds a draft\<close>

lemma held_by_holder:
  assumes "rows_inv rows" and "r \<in> set rows" and "held_by site draft worker attempt now r"
  shows "attempts (site, draft) rows = attempt" and "lease_holder (site, draft) rows = Some worker"
  using assms draft_at_own [of rows r]
  by (auto simp: held_by_def is_row_key rows_inv_def attempts_def lease_holder_def)

lemma not_held:
  assumes "rows_inv rows" and "\<not> (attempts (site, draft) rows = attempt \<and> lease_holder (site, draft) rows = Some worker)"
  shows "\<forall>r \<in> set rows. \<not> held_by site draft worker attempt now r"
  using held_by_holder [OF assms(1)] assms(2) by blast

lemma update_none: "\<forall>r \<in> set rows. \<not> sel r \<Longrightarrow> update_drafts sel f rows = Inr rows"
  by (auto simp: update_drafts_Inr map_idI)

lemma unheld_operations:
  assumes "\<forall>r \<in> set (ib_drafts db). \<not> held_by site draft worker attempt (instant_of now) r"
  shows "isl (fst (heartbeat_draft site draft worker attempt now duration db))
      \<and> snd (heartbeat_draft site draft worker attempt now duration db) = db"
    and "isl (fst (fail_draft site draft worker attempt now retry_at code db))
      \<and> snd (fail_draft site draft worker attempt now retry_at code db) = db"
    and "snd (acknowledge_draft site draft worker attempt now receipt db) = db"
    and "fst (acknowledge_draft site draft worker attempt now receipt db) = Inr a \<Longrightarrow>
      \<exists>r. draft_at (site, draft) (ib_drafts db) = Some r \<and> od_status r = ''succeeded'' \<and> od_receipt r = Some a"
proof -
  have none: "find (held_by site draft worker attempt (instant_of now)) (ib_drafts db) = None"
    "\<not> list_ex (held_by site draft worker attempt (instant_of now)) (ib_drafts db)"
    using assms by (auto simp: find_None_iff list_ex_iff)
  have upd: "update_drafts (\<lambda>r. held_by site draft worker attempt (instant_of now) r \<and> P r) f (ib_drafts db) = Inr (ib_drafts db)"
    "update_drafts (held_by site draft worker attempt (instant_of now)) f (ib_drafts db) = Inr (ib_drafts db)" for P f
    using assms by (auto intro!: update_none)
  show "isl (fst (heartbeat_draft site draft worker attempt now duration db))
      \<and> snd (heartbeat_draft site draft worker attempt now duration db) = db"
    by (simp add: heartbeat_draft_def Let_def none upd split: sum.splits)
  show "isl (fst (fail_draft site draft worker attempt now retry_at code db))
      \<and> snd (fail_draft site draft worker attempt now retry_at code db) = db"
    by (simp add: fail_draft_def none upd split: sum.splits)
  show "snd (acknowledge_draft site draft worker attempt now receipt db) = db"
    by (auto simp: acknowledge_draft_def none upd split: sum.splits option.splits)
  show "\<exists>r. draft_at (site, draft) (ib_drafts db) = Some r \<and> od_status r = ''succeeded'' \<and> od_receipt r = Some a"
    if "fst (acknowledge_draft site draft worker attempt now receipt db) = Inr a"
    using that none by (auto simp: acknowledge_draft_def upd find_is_row split: sum.splits option.splits if_splits)
qed

section \<open>Drafts come to rest\<close>

lemma rows_step_keys: "rows_inv rows \<Longrightarrow> rows_step rows rows' \<Longrightarrow> draft_at k rows \<noteq> None \<Longrightarrow> draft_at k rows' \<noteq> None"
  using rows_step_at [of rows rows' k] by (auto split: option.splits)

lemma rows_run_keys: "rows_run rows rows' \<Longrightarrow> rows_inv rows \<Longrightarrow> draft_at k rows \<noteq> None \<Longrightarrow> draft_at k rows' \<noteq> None"
proof (induction rule: rtranclp_induct)
  case (step y z)
  then show ?case
    using rows_step_keys [OF draft_leases.inv_steps [OF step.hyps(1) step.prems(1)] step.hyps(2)] by blast
qed

lemma draft_run_inv: "draft_run c db tr d \<Longrightarrow> rows_inv (ib_drafts db) \<Longrightarrow> rows_inv (ib_drafts d)"
  by (rule draft_leases.inv_steps [OF draft_run_rows])

lemma claimed_present:
  assumes "draft_run c db tr db'" and inv: "rows_inv (ib_drafts db)" and "k \<in> set tr"
  shows "draft_at k (ib_drafts db') \<noteq> None"
proof -
  have keep: "draft_at k (ib_drafts d') \<noteq> None"
    if "rows_run (ib_drafts d) (ib_drafts d')" "draft_run c db tr d" "draft_at k (ib_drafts d) \<noteq> None" for tr d d'
    by (rule rows_run_keys [OF that(1) draft_run_inv [OF that(2) inv] that(3)])
  show ?thesis
    using assms(1,3)
  proof induction
    case (claim tr d site worker now duration m d')
    have inv': "rows_inv (ib_drafts d)"
      by (rule draft_run_inv [OF claim.hyps(1) inv])
    have "draft_at (dk_site m, dk_draft_id m) (ib_drafts d') \<noteq> None"
      by (rule claim_draft_some [OF inv' claim.hyps(2)]) simp
    moreover have "draft_at k (ib_drafts d') \<noteq> None" if "k \<in> set tr"
      by (rule rows_run_keys [OF claim_steps [OF claim.hyps(2)] inv' claim.IH [OF that]])
    ultimately show ?case
      using claim.prems by auto
  next
    case publish
    show ?case
      by (rule keep [OF publish_steps [OF publish.hyps(2)] publish.hyps(1) publish.IH [OF publish.prems]])
  next
    case no_claim
    show ?case
      by (rule keep [OF claim_steps [OF no_claim.hyps(2)] no_claim.hyps(1) no_claim.IH [OF no_claim.prems]])
  next
    case heartbeat
    show ?case
      by (rule keep [OF heartbeat_steps [OF heartbeat.hyps(2)] heartbeat.hyps(1) heartbeat.IH [OF heartbeat.prems]])
  next
    case acknowledge
    show ?case
      by (rule keep [OF acknowledge_steps [OF acknowledge.hyps(2)] acknowledge.hyps(1) acknowledge.IH [OF acknowledge.prems]])
  next
    case fail
    show ?case
      by (rule keep [OF fail_steps [OF fail.hyps(2)] fail.hyps(1) fail.IH [OF fail.prems]])
  qed simp
qed

text \<open>
  C29. However publishing, claiming, renewing, acknowledging and failing interleave from an outbox without
  drafts, a draft is claimed at most five times, so the claims of a whole run are at most five times the
  drafts published: retries end.
\<close>
theorem drafts_come_to_rest:
  assumes "no_drafts db" and "draft_run c db tr db'"
  shows "(\<forall>k. count_list tr k \<le> 5) \<and> length tr \<le> 5 * length (ib_drafts db')"
proof -
  have inv: "rows_inv (ib_drafts db)" and none: "ib_drafts db = []"
    using no_drafts_inv [OF assms(1)] assms(1) by (simp_all add: no_drafts_def)
  have each: "count_list tr k \<le> 5" for k
    using draft_run_counts [OF assms(2) inv, of k] attempts_at_most [OF draft_run_inv [OF assms(2) inv], of k]
    by (simp add: none attempts_def draft_at_def)
  let ?keys = "row_key ` set (ib_drafts db')"
  have keys: "set tr \<subseteq> ?keys"
  proof
    fix k
    assume "k \<in> set tr"
    then obtain r where "draft_at k (ib_drafts db') = Some r"
      using claimed_present [OF assms(2) inv] by blast
    from draft_at_mem [OF this] show "k \<in> ?keys"
      by auto
  qed
  have "length tr = sum (count_list tr) ?keys"
    using sum_count_set [OF keys] by simp
  also have "\<dots> \<le> (\<Sum>k \<in> ?keys. 5)"
    by (rule sum_mono) (rule each)
  also have "\<dots> \<le> 5 * length (ib_drafts db')"
    using card_image_le [of "set (ib_drafts db')" row_key] card_length [of "ib_drafts db'"] by simp
  finally show ?thesis
    using each by blast
qed

section \<open>What a claim carries\<close>

text \<open>
  C30. Along every run from an outbox without drafts, the draft a claim describes has the digest stored when
  the publication was written: the worker's rebuilt request, with its evidence in the published order,
  is the published one.
\<close>
theorem claimed_draft_is_the_published_one:
  assumes "no_drafts db" and "draft_run c db tr d" and "claim_draft c site worker now duration d = (Inr (Some k), d')"
  shows "draft_request_digest (claim_intent k) = dk_payload_digest k"
proof -
  have inv: "rows_inv (ib_drafts d)" and linked: "drafts_linked d"
    using no_drafts_inv [OF assms(1)] draft_run_inv [OF assms(2)] draft_run_linked [OF assms(2)] by blast+
  obtain r0 r where k: "k = row_claim d r" and r0: "draft_at (dk_site k, dk_draft_id k) (ib_drafts d) = Some r0"
    and change: "row_change r0 r"
    by (rule claim_draft_some [OF inv assms(3)])
  have "od_payload_digest r0 = row_digest d r0"
    using linked draft_at_mem [OF r0] by (auto simp: drafts_linked_def)
  moreover have "row_digest d r = row_digest d r0" "od_payload_digest r = od_payload_digest r0"
    using change by (simp_all add: row_change_def row_digest_identity draft_identity_fields)
  ultimately show ?thesis
    by (simp add: k claim_request_digest) (simp add: row_claim_def)
qed

section \<open>A worker without its lease\<close>

text \<open>
  C31. A worker that lost a draft, because another attempt began or the lease passed on, can never again
  renew, acknowledge or fail it under its attempt: in every later state these calls leave the outbox as it
  is, and an acknowledgement returns only the receipt that is stored already.
\<close>
theorem stale_draft_worker_cannot_write:
  assumes "rows_inv (ib_drafts db)" and "draft_run c db tr db'"
    and "attempt < attempts (site, draft) (ib_drafts db)
      \<or> attempts (site, draft) (ib_drafts db) = attempt \<and> lease_holder (site, draft) (ib_drafts db) \<noteq> Some worker"
  shows "isl (fst (heartbeat_draft site draft worker attempt now duration db'))
    \<and> snd (heartbeat_draft site draft worker attempt now duration db') = db'
    \<and> isl (fst (fail_draft site draft worker attempt now retry_at code db'))
    \<and> snd (fail_draft site draft worker attempt now retry_at code db') = db'
    \<and> snd (acknowledge_draft site draft worker attempt now receipt db') = db'
    \<and> (\<forall>a. fst (acknowledge_draft site draft worker attempt now receipt db') = Inr a \<longrightarrow>
         (\<exists>r. draft_at (site, draft) (ib_drafts db') = Some r \<and> od_receipt r = Some a))"
proof -
  note run = draft_run_rows [OF assms(2)]
  have "\<not> (attempts (site, draft) (ib_drafts db') = attempt \<and> lease_holder (site, draft) (ib_drafts db') = Some worker)"
    using assms(3)
  proof
    assume "attempt < attempts (site, draft) (ib_drafts db)"
    then show ?thesis
      using draft_leases.superseded_forever [OF assms(1) _ run] by blast
  next
    assume "attempts (site, draft) (ib_drafts db) = attempt \<and> lease_holder (site, draft) (ib_drafts db) \<noteq> Some worker"
    then show ?thesis
      using draft_leases.stale_forever [OF assms(1) _ _ run] by blast
  qed
  then have free: "\<forall>r \<in> set (ib_drafts db'). \<not> held_by site draft worker attempt (instant_of now) r"
    by (rule not_held [OF draft_run_inv [OF assms(2,1)]])
  show ?thesis
    using unheld_operations [OF free] by blast
qed

section \<open>A cycle that succeeded\<close>

lemma acknowledge_stores:
  assumes "rows_inv (ib_drafts db)"
    and "acknowledge_draft site draft worker attempt now receipt db = (Inr a, db')"
  shows "a = receipt"
    and "\<exists>r. draft_at (site, draft) (ib_drafts db') = Some r \<and> od_status r = ''succeeded'' \<and> od_receipt r = Some receipt"
proof -
  let ?held = "held_by site draft worker attempt (instant_of now)"
  let ?done = "\<lambda>x. x\<lparr>od_status := ''succeeded'', od_lease_owner := None, od_lease_expires_at := None, od_error := None,
    od_receipt := Some receipt, od_updated_at := instant_of now\<rparr>"
  show "a = receipt"
    using assms(2) by (auto simp: acknowledge_draft_def split: sum.splits option.splits if_splits)
  obtain r where r: "draft_at (site, draft) (ib_drafts db) = Some r"
    using assms(2) by (auto simp: acknowledge_draft_def find_is_row split: sum.splits option.splits if_splits)
  have "od_status r = ''succeeded'' \<and> od_receipt r = Some receipt \<and> db' = db
    \<or> (\<exists>rows. update_drafts ?held ?done (ib_drafts db) = Inr rows \<and> list_ex ?held (ib_drafts db)
         \<and> db' = db\<lparr>ib_drafts := rows\<rparr>)"
    using assms(2) by (simp add: acknowledge_draft_def find_is_row r split: sum.splits if_splits)
  then consider "od_status r = ''succeeded''" "od_receipt r = Some receipt" "db' = db"
    | rows where "update_drafts ?held ?done (ib_drafts db) = Inr rows" "list_ex ?held (ib_drafts db)"
        "db' = db\<lparr>ib_drafts := rows\<rparr>"
    by blast
  then show "\<exists>r. draft_at (site, draft) (ib_drafts db') = Some r \<and> od_status r = ''succeeded'' \<and> od_receipt r = Some receipt"
  proof cases
    case 1
    then show ?thesis using r by auto
  next
    case (2 rows)
    obtain q where q: "q \<in> set (ib_drafts db)" "?held q"
      using 2(2) by (auto simp: list_ex_iff)
    then have "row_key q = (site, draft)"
      by (simp add: held_by_def is_row_key)
    then have "q = r"
      using draft_at_own [of "ib_drafts db" q] q(1) assms(1) r by (simp add: rows_inv_def)
    then have "draft_at (site, draft) rows = Some (?done r)"
      using 2(1) r q(2) by (simp add: update_drafts_Inr draft_at_update)
    then show ?thesis
      using 2(3) by simp
  qed
qed

lemma lift_store_Inr: "lift_store r v = (Inr x, s) \<longleftrightarrow> (\<exists>db. r = (Inr x, db) \<and> s = (db, v))"
  by (cases r; cases "fst r") (auto simp: lift_store_def)

lemma fail_status_not_succeeded: "fail_draft site draft worker attempt now retry_at code db = (Inr status, db') \<Longrightarrow> status \<noteq> ''succeeded''"
  by (auto simp: fail_draft_def fail_status_def split: sum.splits option.splits if_splits)

lemma report_draft_failure_not_succeeded: "report_draft_failure w t k e s = (Inr res, s') \<Longrightarrow> dx_status res \<noteq> ''succeeded''"
  by (auto simp: report_draft_failure_def draft_result_def lift_store_Inr split: prod.splits sum.splits if_splits
      dest: fail_status_not_succeeded)

lemma apply_draft_Inr:
  assumes "apply_draft w k s = (Inr receipt, s')"
  shows "draft_request_digest (claim_intent k) = dk_payload_digest k" and "fst s' = fst s"
    and "fd_request_digest receipt = dk_payload_digest k"
    and "\<exists>send. dw_client w (dk_purpose k) = Some send
      \<and> send (claim_intent k) (dk_draft_id k) (dk_payload_digest k) (snd s) = (Inr receipt, snd s')"
  using assms
  by (auto simp: apply_draft_def Let_def split: if_splits option.splits prod.splits sum.splits client_error.splits)

lemma succeeded_draft_cycle:
  assumes "rows_inv (ib_drafts db)" and "draft_run_once w t site (db, v) = (Inr res, (db', v'))"
    and "dx_status res = ''succeeded''"
  obtains k send receipt r where "dx_draft_id res = Some (dk_draft_id k)" and "dw_client w (dk_purpose k) = Some send"
    and "send (claim_intent k) (dk_draft_id k) (dk_payload_digest k) v = (Inr receipt, v')"
    and "fd_request_digest receipt = dk_payload_digest k" and "draft_request_digest (claim_intent k) = dk_payload_digest k"
    and "draft_at (site, dk_draft_id k) (ib_drafts db') = Some r" and "od_status r = ''succeeded''" and "od_receipt r = Some receipt"
proof -
  obtain k db1 a where claim: "claim_draft (dw_collation w) site (dw_worker_id w) (kt_claim t) (dw_lease_duration w) db
      = (Inr (Some k), db1)"
    and deliver: "deliver_claim w t k (db1, v) = (Inr a, (db', v'))" and res: "dx_draft_id res = Some (dk_draft_id k)"
    using assms(2,3)
    by (auto simp: draft_run_once_def lift_store_Inr draft_result_def dest: report_draft_failure_not_succeeded
        split: prod.splits sum.splits option.splits if_splits)
  have site: "dk_site k = site"
    by (rule claim_draft_some [OF assms(1) claim])
  obtain db2 receipt s where beat: "heartbeat_draft (dk_site k) (dk_draft_id k) (dw_worker_id w) (dk_attempt k) (kt_beat t)
      (dw_lease_duration w) db1 = (Inr (), db2)"
    and send: "apply_draft w k (db2, v) = (Inr receipt, s)"
    and ack: "acknowledge_draft (dk_site k) (dk_draft_id k) (dw_worker_id w) (dk_attempt k) (kt_acknowledge t) receipt (fst s)
      = (Inr a, db')" and v': "snd s = v'"
    using deliver by (auto simp: deliver_claim_def and_then_Inr_iff lift_store_Inr)
  note sent = apply_draft_Inr [OF send]
  have inv: "rows_inv (ib_drafts (fst s))"
    using draft_leases.inv_steps [OF heartbeat_steps [OF beat] draft_leases.inv_steps [OF claim_steps [OF claim] assms(1)]]
    by (simp add: sent(2))
  show ?thesis
    using acknowledge_stores(2) [OF inv ack] sent res v' that by (auto simp: site)
qed

text \<open>
  A cycle of the worker reports success only when the Frappe client was called once, with the draft the
  claim describes under its identifier and stored digest, returned a receipt for that digest, and the
  draft is now stored as succeeded with exactly this receipt.
\<close>
theorem delivered_draft_is_acknowledged:
  assumes "rows_inv (ib_drafts db)" and "draft_run_once w t site (db, v) = (Inr res, (db', v'))"
    and "dx_status res = ''succeeded''"
  shows "\<exists>k send receipt r. dx_draft_id res = Some (dk_draft_id k) \<and> dw_client w (dk_purpose k) = Some send
    \<and> send (claim_intent k) (dk_draft_id k) (dk_payload_digest k) v = (Inr receipt, v')
    \<and> fd_request_digest receipt = draft_request_digest (claim_intent k)
    \<and> draft_at (site, dk_draft_id k) (ib_drafts db') = Some r \<and> od_status r = ''succeeded'' \<and> od_receipt r = Some receipt"
  using succeeded_draft_cycle [OF assms] by metis

section \<open>A draft that blocks the outbox\<close>

lemma check_all_Inl: "x \<in> set xs \<Longrightarrow> f x \<noteq> Inr () \<Longrightarrow> \<exists>e. check_all f xs = Inl e"
  by (induction xs) (auto split: sum.splits)

lemma broken_summary_rejected: "list_ex breaks_line (dk_summary k) \<Longrightarrow> \<exists>e. draft_claim_post_init k = Inl e"
proof -
  assume "list_ex breaks_line (dk_summary k)"
  then have "\<exists>e. check_all (\<lambda>(value, name, maximum). draft_text value name maximum)
        [(dk_site k, ''site_id'', 140), (dk_draft_id k, ''draft_id'', 256),
         (dk_intelligence_id k, ''intelligence_id'', 256), (dk_observation_id k, ''observation_id'', 256),
         (dk_purpose k, ''processing_purpose'', 80), (dk_subject k, ''subject'', 140),
         (dk_summary k, ''summary_zh'', 2000), (dk_team_ref k, ''team_ref'', 256), (dk_model_name k, ''model_name'', 160),
         (dk_model_version k, ''model_version'', 160), (dk_lease_owner k, ''lease_owner'', 256)] = Inl e"
    by (intro check_all_Inl [where x = "(dk_summary k, ''summary_zh'', 2000)"]) (simp_all add: draft_text_def)
  then show ?thesis
    by (auto simp: draft_claim_post_init_def)
qed

lemma claimable_not_buried:
  assumes "update_drafts (exhausted site t) (bury t) rows = Inr rows1" and "x \<in> set rows1" and "claimable site t x"
  shows "x \<in> set rows"
proof -
  obtain y where y: "y \<in> set rows" "x = (if exhausted site t y then bury t y else y)"
    using assms(1,2) by (auto simp: update_drafts_Inr)
  have "od_status x \<noteq> ''dead_letter''"
    using assms(3) by (auto simp: claimable_def)
  moreover have "od_status (bury t y) = ''dead_letter''"
    by (simp add: bury_def)
  ultimately show ?thesis
    using y by (metis (full_types))
qed

text \<open>A claimable draft with a broken summary that comes first makes every claim raise.\<close>

lemma broken_draft_first:
  assumes inv: "rows_inv (ib_drafts db)" and r: "r \<in> set (ib_drafts db)" "claimable site (instant_of now) r"
    and first: "\<forall>x \<in> set (ib_drafts db). claimable site (instant_of now) x \<longrightarrow> x = r \<or> draft_order c r < draft_order c x"
    and broken: "list_ex breaks_line (od_summary r)"
  shows "\<exists>e. claim_draft c site worker now duration db = (Inl e, db)"
proof -
  have None_not: "claim_rows c site worker (instant_of now) duration (ib_drafts db) \<noteq> Inr (None, rows)" for rows
  proof
    assume "claim_rows c site worker (instant_of now) duration (ib_drafts db) = Inr (None, rows)"
    then have "update_drafts (exhausted site (instant_of now)) (bury (instant_of now)) (ib_drafts db) = Inr rows"
      and none: "filter (claimable site (instant_of now)) rows = []"
      by (auto simp: claim_rows_def Let_def map_sum_def split: sum.splits if_splits)
    moreover have "\<not> exhausted site (instant_of now) r"
      using r(2) by (auto simp: exhausted_def claimable_def)
    ultimately have "r \<in> set rows"
      using r(1) by (force simp: update_drafts_Inr)
    then show False
      using none r(2) by (auto simp: filter_empty_conv)
  qed
  have "list_ex breaks_line (od_summary q)"
    if got: "claim_rows c site worker (instant_of now) duration (ib_drafts db) = Inr (Some q, rows)" for q rows
  proof -
    obtain rows1 where rows1: "update_drafts (exhausted site (instant_of now)) (bury (instant_of now)) (ib_drafts db) = Inr rows1"
      and free: "filter (claimable site (instant_of now)) rows1 \<noteq> []"
      and q: "q = lease_to worker (instant_of now) duration
        (arg_min_list (draft_order c) (filter (claimable site (instant_of now)) rows1))"
      using got by (auto simp: claim_rows_def Let_def map_sum_def split: sum.splits if_splits)
    let ?m = "arg_min_list (draft_order c) (filter (claimable site (instant_of now)) rows1)"
    have "\<not> exhausted site (instant_of now) r"
      using r(2) by (auto simp: exhausted_def claimable_def)
    then have "r \<in> set (filter (claimable site (instant_of now)) rows1)"
      using r rows1 by (force simp: update_drafts_Inr)
    then have least: "draft_order c ?m \<le> draft_order c r"
      by (rule arg_min_list_least)
    have "?m \<in> set rows1" "claimable site (instant_of now) ?m"
      using arg_min_list_in [OF free, of "draft_order c"] by auto
    then have "?m \<in> set (ib_drafts db)"
      by (rule claimable_not_buried [OF rows1])
    then have "?m = r \<or> draft_order c r < draft_order c ?m"
      using first \<open>claimable site (instant_of now) ?m\<close> by blast
    then have m: "?m = r"
      using least by (meson leD)
    show ?thesis
      unfolding q m using broken by (simp add: lease_to_def)
  qed
  note some = this
  show ?thesis
  proof (cases "claim_rows c site worker (instant_of now) duration (ib_drafts db)")
    case (Inl e)
    then show ?thesis by (simp add: claim_draft_def split: sum.splits)
  next
    case (Inr a)
    obtain q rows where got: "claim_rows c site worker (instant_of now) duration (ib_drafts db) = Inr (Some q, rows)"
      using Inr None_not by (cases a; cases "fst a") auto
    have "list_ex breaks_line (dk_summary (row_claim db q))"
      using some [OF got] by (simp add: row_claim_def)
    then obtain e where "draft_claim_post_init (row_claim db q) = Inl e"
      using broken_summary_rejected by blast
    then show ?thesis
      by (simp add: claim_draft_def got split: sum.splits)
  qed
qed

lemma published_draft:
  assumes "publish_intelligence t team_of scope p key db = (Inr (), db')" and "ib_drafts db' = ib_drafts db @ [r]"
  obtains d team where "r = draft_of t scope p d team"
proof -
  have items: "ib_drafts d' = ib_drafts d" if "write_items scope p pd d = Inr d'" for pd d d'
    using that by (auto simp: write_items_def split: sum.splits)
  obtain pd where "write_publication t scope p key pd db = Inr db'"
    using assms by (auto simp: publish_intelligence_def split: if_splits sum.splits option.splits)
  then obtain d0 where "write_draft t scope p pd d0 = Inr db'" "ib_drafts d0 = ib_drafts db"
    using items by (fastforce simp: write_publication_def split: sum.splits)
  then show ?thesis
    using that assms(2) by (auto simp: write_draft_def insert_row_Inr split: option.splits sum.splits)
qed

text \<open>
  C35. Publishing accepts a summary with a line break, into any outbox whose rows satisfy the constraints of
  their table (\<open>rows_inv\<close>, which every run keeps), but the draft it then writes
  cannot be claimed: at any time from its publication on at which no other claimable draft of the site
  comes before it in claim order, every cycle that tries, by whichever worker, raises and leaves the outbox
  and Frappe as they were. So no attempt is counted, the draft never becomes a dead letter, no draft behind
  it is reached, and a worker's loop ends in its first such cycle.
\<close>
theorem broken_draft_blocks_the_outbox:
  assumes "rows_inv (ib_drafts db)" and "publish_intelligence t team_of scope p key db = (Inr (), db')"
    and "ib_drafts db' = ib_drafts db @ [r]" and "list_ex breaks_line (pn_summary p)" and "t \<le> instant_of (kt_claim k)"
    and "\<forall>x \<in> set (ib_drafts db). claimable (ts_site_id scope) (instant_of (kt_claim k)) x \<longrightarrow>
           draft_order (dw_collation w) r < draft_order (dw_collation w) x"
  shows "\<exists>e. draft_run_once w k (ts_site_id scope) (db', v) = (Inl (Store_raised e), (db', v))
       \<and> run_draft_worker w (ts_site_id scope) (k # ks) (db', v) = (Inl (Store_raised e), (db', v))"
proof -
  obtain d team where r: "r = draft_of t scope p d team"
    by (rule published_draft [OF assms(2,3)])
  have "rows_inv (ib_drafts db')"
    by (rule draft_leases.inv_steps [OF publish_steps [OF assms(2)] assms(1)])
  then have "\<exists>e. claim_draft (dw_collation w) (ts_site_id scope) (dw_worker_id w) (kt_claim k) (dw_lease_duration w) db'
      = (Inl e, db')"
    by (rule broken_draft_first [where r = r])
      (use assms(3-6) in \<open>auto simp: claimable_def r draft_of_def\<close>)
  then show ?thesis
    by (auto simp: draft_run_once_def lift_store_def)
qed

section \<open>A published draft, claimed and delivered\<close>

text \<open>Identifiers built on a digest are plain text.\<close>

lemma breaks_space: "breaks_line c \<Longrightarrow> is_space c \<or> c = char_of (0 :: nat)"
proof -
  have "is_space (char_of (13 :: nat))" "is_space (char_of (10 :: nat))"
    by code_simp+
  then show "breaks_line c \<Longrightarrow> is_space c \<or> c = char_of (0 :: nat)"
    by (auto simp: breaks_line_def)
qed

lemma hex_plain: "is_hex_char c \<Longrightarrow> \<not> is_space c \<and> \<not> breaks_line c"
proof -
  have "\<not> is_hex_char (char_of (0 :: nat))"
    by code_simp
  then show "is_hex_char c \<Longrightarrow> \<not> is_space c \<and> \<not> breaks_line c"
    using hex_not_space breaks_space by blast
qed

lemma stable_id_plain:
  assumes "\<forall>c \<in> set name. \<not> is_space c \<and> \<not> breaks_line c" and "length name \<le> 200"
  shows "draft_text (stable_id name parts) what 256 = Inr ()"
proof -
  have "\<not> is_space (CHR ''-'') \<and> \<not> breaks_line (CHR ''-'')"
    by code_simp
  then have plain: "\<forall>c \<in> set (stable_id name parts). \<not> is_space c \<and> \<not> breaks_line c"
    using assms(1) hex_plain sha256_hex_chars by (fastforce simp: stable_id_def dest: in_set_takeD)
  moreover have "length (stable_id name parts) \<le> 256"
    using assms(2) by (simp add: stable_id_def)
  moreover have "stable_id name parts \<noteq> []"
    by (simp add: stable_id_def)
  ultimately show ?thesis
    by (auto simp: draft_text_def trimmed_def strip_plain list_ex_iff list_all_iff)
qed

definition outbox_scope :: tenant_scope where
  "outbox_scope = \<lparr>ts_site_id = ''a'', ts_processing_purpose = draft_purpose\<rparr>"

definition demo_fact :: fields where
  "demo_fact = [(''subject_ref'', JStr ''party-1''), (''predicate'', JStr ''asks''), (''value_display'', JStr ''price''),
     (''type'', JStr ''intent''), (''unit'', JNull), (''confidence'', JFloat ''0.9''),
     (''evidence_refs'', JList [JStr ''ev-1'']), (''status'', JStr ''proposed'')]"

definition demo_publication :: "string \<Rightarrow> publication" where
  "demo_publication summary =
     \<lparr>pn_site_id = ''a'', pn_observation_id = ''obs-1'', pn_team_ref = None, pn_evidence_refs = [''ev-1''],
      pn_summary = summary, pn_language = ''en'', pn_confidence = JFloat ''0.9'', pn_review_status = ''AI Draft'',
      pn_facts = [demo_fact], pn_associations = [], pn_model_name = approved_model, pn_model_version = approved_model,
      pn_invocation_refs = [''inv-1'']\<rparr>"

definition blank_db :: intelligence_db where
  "blank_db = \<lparr>ib_intelligence = [], ib_evidence = [], ib_invocations = [], ib_facts = [], ib_fact_evidence = [],
     ib_associations = [], ib_association_evidence = [], ib_drafts = [], ib_draft_evidence = []\<rparr>"

definition demo_prepared :: "string \<Rightarrow> prepared_publication" where
  "demo_prepared summary = projr (prepare_publication outbox_scope (demo_publication summary) ''k'' (Some ''team-1''))"

definition demo_db :: "string \<Rightarrow> intelligence_db" where
  "demo_db summary = snd (publish_intelligence 0 (\<lambda>_ _. Some ''team-1'') outbox_scope (demo_publication summary) ''k'' blank_db)"

definition demo_draft :: "string \<Rightarrow> draft_row" where
  "demo_draft summary = draft_of 0 outbox_scope (demo_publication summary) (demo_prepared summary) ''team-1''"

lemma demo_values:
  "draft_text ''k'' ''idempotency_key'' 256 = Inr ()" "draft_text ''team-1'' ''trusted team_ref'' 256 = Inr ()"
  "closed_fact [''ev-1''] demo_fact = Inr demo_fact" "in_unit (JFloat ''0.9'')" "site_id_shape ''a''"
  "draft_subject ''obs-1'' = ''Communication event obs-1''" "item_refs demo_fact = [''ev-1'']"
  "fact_check (item_of ''communication-fact'' ''a'' iid 1 demo_fact)"
proof -
  have "fact_check (\<lparr>tr_site = ''a'', tr_intelligence_id = [], tr_item_id = [], tr_ordinal = 1,
      tr_columns = filter (\<lambda>(k, _). k \<noteq> ''evidence_refs'' \<and> k \<noteq> ''status'') demo_fact, tr_status = ''proposed''\<rparr>)"
    by code_simp
  then show "fact_check (item_of ''communication-fact'' ''a'' iid 1 demo_fact)"
    by (simp add: item_of_def fact_check_def item_check_def)
qed (code_simp, code_simp, code_simp, code_simp, code_simp, code_simp, code_simp)

lemma demo_prepare:
  "prepare_publication outbox_scope (demo_publication summary) ''k'' (Some ''team-1'') = Inr (demo_prepared summary)"
  "pd_team_ref (demo_prepared summary) = Some ''team-1''" "pd_subject (demo_prepared summary) = ''Communication event obs-1''"
  "is_sha256_text (pd_payload_digest (demo_prepared summary))" "is_sha256_text (pd_draft_digest (demo_prepared summary))"
  "pd_draft_id (demo_prepared summary) = stable_id ''communication-draft'' [''a'', ''obs-1'']"
  "pd_intelligence_id (demo_prepared summary) = stable_id ''communication-intelligence'' [''a'', ''obs-1'']"
  by (simp_all add: demo_prepared_def prepare_publication_def outbox_scope_def demo_publication_def demo_values)

lemma demo_draft_check:
  assumes "size_between 1 2000 summary"
  shows "draft_check (demo_draft summary)"
  using assms
  by (simp add: demo_draft_def draft_of_def draft_check_def demo_prepare demo_publication_def outbox_scope_def size_between_def
      draft_purpose_def approved_model_def draft_statuses_def lease_shape_def receipt_shape_def)

lemma demo_publish:
  assumes "size_between 1 2000 summary"
  shows "publish_intelligence 0 (\<lambda>_ _. Some ''team-1'') outbox_scope (demo_publication summary) ''k'' blank_db
      = (Inr (), demo_db summary)" and "ib_drafts (demo_db summary) = [demo_draft summary]"
    and "ib_draft_evidence (demo_db summary) = [(''a'', pd_draft_id (demo_prepared summary), ''ev-1'', 1)]"
proof -
  let ?pd = "demo_prepared summary" and ?p = "demo_publication summary"
  have head: "intelligence_check (intelligence_of outbox_scope ?p ''k'' ?pd)"
    using assms by (simp add: intelligence_check_def intelligence_of_def demo_prepare demo_values outbox_scope_def
        demo_publication_def size_between_def approved_model_def draft_purpose_def)
  have refs: "number_refs x y [r] = [(x, y, r, 1)]" for x y r
    by (simp add: number_refs_def)
  have items: "\<exists>a b. write_items outbox_scope ?p ?pd (blank_db\<lparr>ib_intelligence := i, ib_evidence := [(''a'', pd_intelligence_id ?pd, ''ev-1'', 1)],
      ib_invocations := v\<rparr>) = Inr (blank_db\<lparr>ib_intelligence := i, ib_evidence := [(''a'', pd_intelligence_id ?pd, ''ev-1'', 1)],
      ib_invocations := v, ib_facts := a, ib_fact_evidence := b\<rparr>)" for i v
    using demo_values(8) [of "pd_intelligence_id ?pd"]
    by (simp add: write_items_def demo_publication_def outbox_scope_def blank_db_def insert_item_def insert_row_def
        demo_values(7)) (simp add: item_of_def)
  have draft: "draft_check (draft_of 0 outbox_scope ?p ?pd ''team-1'')"
    using demo_draft_check [OF assms] by (simp add: demo_draft_def)
  have "\<exists>db. publish_intelligence 0 (\<lambda>_ _. Some ''team-1'') outbox_scope ?p ''k'' blank_db = (Inr (), db)
      \<and> ib_drafts db = [demo_draft summary] \<and> ib_draft_evidence db = [(''a'', pd_draft_id ?pd, ''ev-1'', 1)]"
  proof -
    obtain a b where wrote: "write_items outbox_scope ?p ?pd (blank_db\<lparr>ib_intelligence := [intelligence_of outbox_scope ?p ''k'' ?pd],
        ib_evidence := [(''a'', pd_intelligence_id ?pd, ''ev-1'', 1)],
        ib_invocations := [(''a'', pd_intelligence_id ?pd, ''inv-1'', 1)]\<rparr>)
      = Inr (blank_db\<lparr>ib_intelligence := [intelligence_of outbox_scope ?p ''k'' ?pd],
        ib_evidence := [(''a'', pd_intelligence_id ?pd, ''ev-1'', 1)],
        ib_invocations := [(''a'', pd_intelligence_id ?pd, ''inv-1'', 1)], ib_facts := a, ib_fact_evidence := b\<rparr>)"
      using items by blast
    have parts: "ts_site_id outbox_scope = ''a''" "pn_site_id ?p = ''a''" "ts_processing_purpose outbox_scope = draft_purpose"
      "pn_observation_id ?p = ''obs-1''" "pn_evidence_refs ?p = [''ev-1'']" "pn_invocation_refs ?p = [''inv-1'']"
      by (simp_all add: outbox_scope_def demo_publication_def)
    have empty: "ib_intelligence blank_db = []" "ib_evidence blank_db = []" "ib_invocations blank_db = []"
      "ib_drafts blank_db = []" "ib_draft_evidence blank_db = []"
      by (simp_all add: blank_db_def)
    show ?thesis
      using head draft
      by (simp add: publish_intelligence_def parts empty demo_prepare(1) write_publication_def insert_row_def refs wrote
          ref_check_def size_between_def write_draft_def demo_prepare(2) demo_draft_def)
  qed
  then show "publish_intelligence 0 (\<lambda>_ _. Some ''team-1'') outbox_scope ?p ''k'' blank_db = (Inr (), demo_db summary)"
    and "ib_drafts (demo_db summary) = [demo_draft summary]"
    and "ib_draft_evidence (demo_db summary) = [(''a'', pd_draft_id ?pd, ''ev-1'', 1)]"
    by (auto simp: demo_db_def)
qed

definition two_lines :: string where
  "two_lines = ''price'' @ [char_of (10 :: nat)] @ ''asked''"

definition demo_draft_clock :: draft_clock where
  "demo_draft_clock = \<lparr>kt_claim = Aware 10, kt_beat = Aware 20, kt_acknowledge = Aware 30, kt_fail = Aware 30,
     kt_retry_base = Aware 30\<rparr>"

definition demo_draft_worker :: "nat draft_worker" where
  "demo_draft_worker =
     \<lparr>dw_collation = c_locale, dw_worker_id = ''w'',
      dw_client = (\<lambda>_. Some (\<lambda>i request digest n. (Inr \<lparr>fd_doctype = draft_doctype, fd_name = ''IO-1'', fd_revision = JInt 0,
         fd_request_id = request, fd_request_digest = digest\<rparr>, n + 1))),
      dw_lease_duration = 100, dw_retry_delay = 100\<rparr>"

theorem broken_draft_blocks_the_outbox_witness:
  "publication_post_init (demo_publication two_lines) = Inr (demo_publication two_lines)
   \<and> (\<exists>e. run_draft_worker demo_draft_worker ''a'' [demo_draft_clock, demo_draft_clock] (demo_db two_lines, 0)
          = (Inl (Store_raised e), (demo_db two_lines, 0)))"
proof -
  have "CHR 0x00 \<noteq> char_of (10 :: nat)"
    by code_simp
  then have shape: "size_between 1 2000 two_lines" and broken: "list_ex breaks_line (pn_summary (demo_publication two_lines))"
    by (simp_all add: size_between_def two_lines_def demo_publication_def breaks_line_def)
  have "publication_post_init (demo_publication two_lines) = Inr (demo_publication two_lines)"
    by code_simp
  moreover have "ib_drafts blank_db = []"
    by (simp add: blank_db_def)
  then have "\<exists>e. run_draft_worker demo_draft_worker (ts_site_id outbox_scope) [demo_draft_clock, demo_draft_clock]
      (demo_db two_lines, 0) = (Inl (Store_raised e), (demo_db two_lines, 0))"
    using broken_draft_blocks_the_outbox [OF _ demo_publish(1) [OF shape] _ broken, of "demo_draft two_lines"
        demo_draft_clock demo_draft_worker 0 "[demo_draft_clock]"]
    by (auto simp: rows_inv_def demo_publish(2) [OF shape] demo_draft_clock_def)
  ultimately show ?thesis
    by (simp add: outbox_scope_def)
qed

definition one_line :: string where
  "one_line = ''price asked''"

definition leased_draft :: draft_row where
  "leased_draft = lease_to ''w'' 10 100 (demo_draft one_line)"

definition leased_db :: intelligence_db where
  "leased_db = (demo_db one_line)\<lparr>ib_drafts := [leased_draft]\<rparr>"

lemma demo_draft_fields:
  "od_site (demo_draft s) = ''a''" "od_draft_id (demo_draft s) = stable_id ''communication-draft'' [''a'', ''obs-1'']"
  "od_intelligence_id (demo_draft s) = stable_id ''communication-intelligence'' [''a'', ''obs-1'']"
  "od_observation_id (demo_draft s) = ''obs-1''" "od_purpose (demo_draft s) = draft_purpose"
  "od_subject (demo_draft s) = ''Communication event obs-1''" "od_summary (demo_draft s) = s"
  "od_team_ref (demo_draft s) = ''team-1''" "od_model_name (demo_draft s) = approved_model"
  "od_model_version (demo_draft s) = approved_model" "od_status (demo_draft s) = ''pending''" "od_attempt (demo_draft s) = 0"
  "od_max_attempts (demo_draft s) = 5" "od_next_attempt_at (demo_draft s) = 0" "od_created_at (demo_draft s) = 0"
  "od_lease_owner (demo_draft s) = None" "od_lease_expires_at (demo_draft s) = None" "od_receipt (demo_draft s) = None"
  "is_sha256_text (od_payload_digest (demo_draft s))"
  by (simp_all add: demo_draft_def draft_of_def outbox_scope_def demo_publication_def demo_prepare)

lemma one_line_shape: "size_between 1 2000 one_line"
  by (simp add: size_between_def one_line_def)

lemma leased_change: "row_change (demo_draft one_line) leased_draft"
  using demo_draft_check [OF one_line_shape]
  by (simp add: row_change_def draft_identity_def draft_transition_def leased_draft_def lease_to_def demo_draft_fields
      draft_check_def lease_shape_def receipt_shape_def draft_statuses_def)

lemma demo_claim_texts:
  "draft_text ''a'' n 140 = Inr ()" "draft_text ''w'' n 256 = Inr ()" "draft_text ''obs-1'' n 256 = Inr ()"
  "draft_text draft_purpose n 80 = Inr ()" "draft_text ''Communication event obs-1'' n 140 = Inr ()"
  "draft_text one_line n 2000 = Inr ()" "draft_text ''team-1'' n 256 = Inr ()" "draft_text approved_model n 160 = Inr ()"
  "draft_text ''1'' n 160 = Inr ()" "draft_text ''ev-1'' n 512 = Inr ()"
  "draft_text (stable_id ''communication-draft'' parts) n 256 = Inr ()"
  "draft_text (stable_id ''communication-intelligence'' parts) n 256 = Inr ()"
proof -
  have "\<forall>x \<in> set [(''a'', 140), (''w'', 256), (''obs-1'', 256), (draft_purpose, 80), (''Communication event obs-1'', 140),
      (one_line, 2000), (''team-1'', 256), (approved_model, 160), (''1'', 160), (''ev-1'', 512)].
      trimmed (snd x) (fst x) \<and> \<not> list_ex breaks_line (fst x)"
    by code_simp
  then show "draft_text ''a'' n 140 = Inr ()" "draft_text ''w'' n 256 = Inr ()" "draft_text ''obs-1'' n 256 = Inr ()"
    "draft_text draft_purpose n 80 = Inr ()" "draft_text ''Communication event obs-1'' n 140 = Inr ()"
    "draft_text one_line n 2000 = Inr ()" "draft_text ''team-1'' n 256 = Inr ()" "draft_text approved_model n 160 = Inr ()"
    "draft_text ''1'' n 160 = Inr ()" "draft_text ''ev-1'' n 512 = Inr ()"
    by (simp_all only: draft_text_def list.set ball_simps fst_conv snd_conv insert_iff simp_thms if_True if_False)
  have "\<forall>c \<in> set (''communication-draft'' @ ''communication-intelligence''). \<not> is_space c \<and> \<not> breaks_line c"
    by code_simp
  then show "draft_text (stable_id ''communication-draft'' parts) n 256 = Inr ()"
    "draft_text (stable_id ''communication-intelligence'' parts) n 256 = Inr ()"
    by (simp_all add: stable_id_plain)
qed

lemma row_claim_fields:
  "dk_site (row_claim db r) = od_site r" "dk_draft_id (row_claim db r) = od_draft_id r"
  "dk_intelligence_id (row_claim db r) = od_intelligence_id r" "dk_observation_id (row_claim db r) = od_observation_id r"
  "dk_purpose (row_claim db r) = od_purpose r" "dk_subject (row_claim db r) = od_subject r"
  "dk_summary (row_claim db r) = od_summary r" "dk_team_ref (row_claim db r) = od_team_ref r"
  "dk_model_name (row_claim db r) = od_model_name r" "dk_model_version (row_claim db r) = od_model_version r"
  "dk_payload_digest (row_claim db r) = od_payload_digest r" "dk_attempt (row_claim db r) = od_attempt r"
  "dk_max_attempts (row_claim db r) = od_max_attempts r" "dk_lease_owner (row_claim db r) = the (od_lease_owner r)"
  "dk_lease_expires_at (row_claim db r) = Aware (the (od_lease_expires_at r))"
  by (simp_all add: row_claim_def)

lemma leased_fields:
  "od_site leased_draft = ''a''" "od_draft_id leased_draft = stable_id ''communication-draft'' [''a'', ''obs-1'']"
  "od_intelligence_id leased_draft = stable_id ''communication-intelligence'' [''a'', ''obs-1'']"
  "od_observation_id leased_draft = ''obs-1''" "od_subject leased_draft = ''Communication event obs-1''"
  "od_summary leased_draft = one_line" "od_team_ref leased_draft = ''team-1''"
  "od_model_name leased_draft = approved_model" "od_model_version leased_draft = approved_model" "od_status leased_draft = ''running''"
  "od_attempt leased_draft = 1" "od_max_attempts leased_draft = 5" "od_lease_owner leased_draft = Some ''w''"
  "od_lease_expires_at leased_draft = Some 110" "od_created_at leased_draft = 0" "od_updated_at leased_draft = 10"
  "od_purpose leased_draft = draft_purpose" "od_receipt leased_draft = None"
  by (simp_all add: leased_draft_def lease_to_def demo_draft_fields)

lemma demo_claim:
  "claim_draft c_locale ''a'' ''w'' (Aware 10) 100 (demo_db one_line)
     = (Inr (Some (row_claim (demo_db one_line) leased_draft)), leased_db)"
proof -
  note db = demo_publish [OF one_line_shape]
  have free: "\<not> exhausted ''a'' 10 (demo_draft one_line)" "claimable ''a'' 10 (demo_draft one_line)"
    by (simp_all add: exhausted_def claimable_def demo_draft_fields)
  have "update_drafts (is_row ''a'' (od_draft_id (demo_draft one_line))) (lease_to ''w'' 10 100) [demo_draft one_line] = Inr [leased_draft]"
    using leased_change by (simp add: update_drafts_Inr is_row_def demo_draft_fields leased_draft_def)
  moreover have "update_drafts (exhausted ''a'' 10) (bury 10) [demo_draft one_line] = Inr [demo_draft one_line]"
    by (simp add: update_drafts_Inr free)
  ultimately have rows: "claim_rows c_locale ''a'' ''w'' 10 100 [demo_draft one_line] = Inr (Some leased_draft, [leased_draft])"
    by (simp add: claim_rows_def free leased_draft_def Let_def)
  have refs: "dk_evidence_refs (row_claim (demo_db one_line) leased_draft) = [''ev-1'']"
    by (simp add: row_claim_def db(3) leased_draft_def lease_to_def demo_draft_fields demo_prepare)
  have "is_sha256_text (od_payload_digest leased_draft)"
    by (simp add: leased_draft_def lease_to_def demo_draft_fields)
  with refs have "draft_claim_post_init (row_claim (demo_db one_line) leased_draft) = Inr (row_claim (demo_db one_line) leased_draft)"
    by (simp add: draft_claim_post_init_def demo_claim_texts draft_aware_def row_claim_fields leased_fields)
  then show ?thesis
    by (simp add: claim_draft_def demo_claim_texts draft_aware_def positive_duration_def db(2) rows leased_db_def)
qed

abbreviation demo_key :: "string \<times> string" where
  "demo_key \<equiv> (''a'', stable_id ''communication-draft'' [''a'', ''obs-1''])"

abbreviation demo_claimed :: draft_claim where
  "demo_claimed \<equiv> row_claim (demo_db one_line) leased_draft"

lemma demo_draft_run:
  "no_drafts blank_db" "draft_run c_locale blank_db [] (demo_db one_line)" "draft_run c_locale blank_db [demo_key] leased_db"
proof -
  show blank: "no_drafts blank_db"
    by (simp add: no_drafts_def blank_db_def)
  show one: "draft_run c_locale blank_db [] (demo_db one_line)"
    by (rule draft_run.publish [OF draft_run.start demo_publish(1) [OF one_line_shape]])
  show "draft_run c_locale blank_db [demo_key] leased_db"
    using draft_run.claim [OF one demo_claim] by (simp add: row_claim_fields leased_fields)
qed

theorem drafts_come_to_rest_witness:
  "draft_run c_locale blank_db [demo_key] leased_db \<and> length (ib_drafts leased_db) = 1
     \<and> length [demo_key] \<le> 5 * length (ib_drafts leased_db)"
  using drafts_come_to_rest [OF demo_draft_run(1,3)] demo_draft_run(3) by (simp add: leased_db_def)

theorem claimed_draft_is_the_published_one_witness:
  "claim_draft c_locale ''a'' ''w'' (Aware 10) 100 (demo_db one_line) = (Inr (Some demo_claimed), leased_db)
     \<and> draft_request_digest (claim_intent demo_claimed) = dk_payload_digest demo_claimed"
  using claimed_draft_is_the_published_one [OF demo_draft_run(1,2) demo_claim] demo_claim by blast

lemma leased_state:
  "rows_inv (ib_drafts leased_db)" "attempts demo_key (ib_drafts leased_db) = 1"
  "lease_holder demo_key (ib_drafts leased_db) = Some ''w''"
proof -
  show "rows_inv (ib_drafts leased_db)"
    using no_drafts_inv [OF demo_draft_run(1)] draft_run_inv [OF demo_draft_run(3)] by blast
qed (simp_all add: attempts_def lease_holder_def draft_at_def leased_db_def row_key_def leased_fields)

theorem stale_draft_worker_cannot_write_witness:
  "lease_holder demo_key (ib_drafts leased_db) = Some ''w''
     \<and> isl (fst (fail_draft ''a'' (snd demo_key) ''w2'' 1 (Aware 20) (Aware 30) ''x'' leased_db))
     \<and> snd (fail_draft ''a'' (snd demo_key) ''w2'' 1 (Aware 20) (Aware 30) ''x'' leased_db) = leased_db"
  using stale_draft_worker_cannot_write [OF leased_state(1) draft_run.start, of 1 "''a''" "snd demo_key" "''w2''"]
    leased_state(2,3)
  by auto

text \<open>The rest of the cycle: the lease is renewed, Frappe called once and the receipt stored.\<close>

definition demo_draft_receipt :: draft_receipt where
  "demo_draft_receipt = \<lparr>fd_doctype = draft_doctype, fd_name = ''IO-1'', fd_revision = JInt 0, fd_request_id = snd demo_key,
     fd_request_digest = od_payload_digest leased_draft\<rparr>"

definition renewed_draft :: draft_row where
  "renewed_draft = leased_draft\<lparr>od_lease_expires_at := Some 120, od_updated_at := 20\<rparr>"

definition stored_draft :: draft_row where
  "stored_draft = renewed_draft\<lparr>od_status := ''succeeded'', od_lease_owner := None, od_lease_expires_at := None,
     od_error := None, od_receipt := Some demo_draft_receipt, od_updated_at := 30\<rparr>"

lemma leased_check: "draft_check leased_draft" "is_sha256_text (od_payload_digest leased_draft)"
  using leased_change by (simp_all add: row_change_def) (simp add: leased_draft_def lease_to_def demo_draft_fields)

lemma renewed_change: "row_change leased_draft renewed_draft"
  using leased_check(1)
  by (simp add: row_change_def draft_identity_def draft_transition_def renewed_draft_def leased_fields draft_check_def
      lease_shape_def receipt_shape_def)

lemma stored_change: "row_change renewed_draft stored_draft"
  using leased_check
  by (simp add: row_change_def draft_identity_def draft_transition_def stored_draft_def renewed_draft_def leased_fields
      draft_check_def lease_shape_def receipt_shape_def draft_statuses_def demo_draft_receipt_def)

lemma demo_heartbeat:
  "heartbeat_draft ''a'' (snd demo_key) ''w'' 1 (Aware 20) 100 leased_db = (Inr (), leased_db\<lparr>ib_drafts := [renewed_draft]\<rparr>)"
proof -
  have held: "held_by ''a'' (snd demo_key) ''w'' 1 20 leased_draft"
    by (simp add: held_by_def is_row_def leased_fields)
  have "update_drafts (\<lambda>r. held_by ''a'' (snd demo_key) ''w'' 1 20 r \<and> shorter_than (20 + 100) r)
      (\<lambda>r. r\<lparr>od_lease_expires_at := Some (20 + 100), od_updated_at := 20\<rparr>) [leased_draft] = Inr [renewed_draft]"
    using renewed_change held by (simp add: update_drafts_Inr shorter_than_def leased_fields renewed_draft_def)
  then show ?thesis
    using held by (simp add: heartbeat_draft_def draft_aware_def positive_duration_def Let_def leased_db_def)
qed

lemma demo_acknowledge:
  "acknowledge_draft ''a'' (snd demo_key) ''w'' 1 (Aware 30) demo_draft_receipt (leased_db\<lparr>ib_drafts := [renewed_draft]\<rparr>)
     = (Inr demo_draft_receipt, leased_db\<lparr>ib_drafts := [stored_draft]\<rparr>)"
proof -
  have held: "held_by ''a'' (snd demo_key) ''w'' 1 30 renewed_draft"
    by (simp add: held_by_def is_row_def renewed_draft_def leased_fields)
  have "update_drafts (held_by ''a'' (snd demo_key) ''w'' 1 30)
      (\<lambda>x. x\<lparr>od_status := ''succeeded'', od_lease_owner := None, od_lease_expires_at := None, od_error := None,
         od_receipt := Some demo_draft_receipt, od_updated_at := 30\<rparr>) [renewed_draft] = Inr [stored_draft]"
    using stored_change held by (simp add: update_drafts_Inr stored_draft_def)
  moreover have "is_row ''a'' (snd demo_key) renewed_draft" "od_status renewed_draft = ''running''"
    using held by (simp_all add: held_by_def)
  ultimately show ?thesis
    using held by (simp add: acknowledge_draft_def draft_aware_def demo_draft_receipt_def)
qed

lemma demo_digest_matches: "draft_request_digest (claim_intent demo_claimed) = od_payload_digest leased_draft"
proof -
  have "drafts_linked leased_db"
    using no_drafts_inv [OF demo_draft_run(1)] draft_run_linked [OF demo_draft_run(3)] by blast
  then have "od_payload_digest leased_draft = row_digest (demo_db one_line) leased_draft"
    by (simp add: drafts_linked_def leased_db_def)
  then show ?thesis
    by (simp add: claim_request_digest)
qed

lemma demo_draft_cycle:
  "draft_run_once demo_draft_worker demo_draft_clock ''a'' (demo_db one_line, 0)
     = (Inr (draft_result ''succeeded'' demo_claimed None), (leased_db\<lparr>ib_drafts := [stored_draft]\<rparr>, 1))"
proof -
  have doctype: "mn_doctype (claim_intent demo_claimed) = draft_doctype"
    by (simp add: claim_intent_def)
  have "apply_draft demo_draft_worker demo_claimed (leased_db\<lparr>ib_drafts := [renewed_draft]\<rparr>, 0)
      = (Inr demo_draft_receipt, (leased_db\<lparr>ib_drafts := [renewed_draft]\<rparr>, 1))"
    by (simp add: apply_draft_def demo_digest_matches demo_draft_worker_def row_claim_fields Let_def leased_fields
        demo_draft_receipt_def doctype)
  then have "deliver_claim demo_draft_worker demo_draft_clock demo_claimed (leased_db, 0)
      = (Inr demo_draft_receipt, (leased_db\<lparr>ib_drafts := [stored_draft]\<rparr>, 1))"
    using demo_heartbeat demo_acknowledge
    by (simp add: deliver_claim_def lift_store_def row_claim_fields leased_fields)
      (simp add: demo_draft_worker_def demo_draft_clock_def)
  then show ?thesis
    using demo_claim by (simp add: draft_run_once_def lift_store_def) (simp add: demo_draft_worker_def demo_draft_clock_def)
qed

theorem delivered_draft_is_acknowledged_witness:
  "\<exists>res db r. draft_run_once demo_draft_worker demo_draft_clock ''a'' (demo_db one_line, 0) = (Inr res, (db, 1))
     \<and> dx_status res = ''succeeded'' \<and> draft_at demo_key (ib_drafts db) = Some r \<and> od_status r = ''succeeded''"
proof -
  have inv: "rows_inv (ib_drafts (demo_db one_line))"
    using no_drafts_inv [OF demo_draft_run(1)] draft_run_inv [OF demo_draft_run(2)] by blast
  have "dk_draft_id demo_claimed = snd demo_key"
    by (simp add: row_claim_fields leased_fields)
  then show ?thesis
    using delivered_draft_is_acknowledged [OF inv demo_draft_cycle] demo_draft_cycle
    by (auto simp: draft_result_def)
qed

end
