(* ===== verification/Frappe_Properties.thy ===== *)
theory Frappe_Properties
  imports Frappe_Delivery Draft_Properties
begin

text \<open>
  The properties of the delivery across the two services, with an example that takes a published draft
  through the worker, the client, the network and the endpoint.
\<close>

section \<open>Applied once, and known to be applied\<close>


text \<open>
  C33. The answer to an applied draft may be lost. If a call of the client changed the site but the client
  saw only a lost connection, then its next call that is answered, whatever other requests came between,
  returns a receipt for this draft, which the client accepts, and leaves the site as it is. This needs
  controllers that keep the contract of documents and a user who may read its own audit record.
\<close>
theorem lost_answer_is_recovered:
  assumes "hooks_ok env"
    and "\<forall>a. fe_permits env ''apply'' (auth (''token '' @ fb_api_key (hd_boundary c) @ '':'' @ fb_api_secret (hd_boundary c)))
           ''read'' integration_request (audit_fields a)"
    and "client_apply (frappe_network env auth) c i r g requested (db, Response_lost # fs) = (res, (db1, fs'))"
    and "db1 \<noteq> db" and "frappe_run db1 db2"
  shows "\<exists>receipt. client_apply (frappe_network env auth) c i r g requested (db2, Delivered # gs) = (Inr receipt, (db2, gs))
    \<and> fd_doctype receipt = mn_doctype i \<and> fd_request_id receipt = r \<and> fd_request_digest receipt = g"
proof -
  obtain purpose where ready: "ready_to_send c i r g requested purpose"
    using client_apply_sends [OF assms(3)] assms(4) by blast
  let ?b = "hd_boundary c"
  let ?payload = "apply_payload ?b purpose i r g" and ?rq = "sent_by auth ?b purpose r"
  let ?name = "audit_name (fb_site_id ?b) (fb_auth_ref ?b) r"
  obtain out where sent: "apply_draft_body env ?rq ?payload db = Inr (out, db1)"
    using apply_answer_lost [OF ready assms(3,4)] by blast
  obtain intent where again: "\<And>d. apply_draft_body env ?rq ?payload d = run_idempotent env ?rq ?payload r g intent d"
    and key: "audit_key ?payload = Some ?name"
    using client_body [OF sent] by blast
  have new: "map_of (fx_audits db) ?name = None"
    using run_idempotent_known(1) [of db ?payload r _ env ?rq g intent out db1] sent again assms(4)
    by (cases "map_of (fx_audits db) ?name") (auto simp: payload_fields)
  have call: "apply_draft_endpoint env ?rq (JObj ?payload) db = (Inr out, db1)"
    using sent by (simp add: apply_draft_endpoint_def endpoint_object)
  have "applied_as ?name (JStr g) (printed out) db2"
    using run_settled_kept [OF assms(5) apply_settles [OF key new call]] by (simp add: payload_fields)
  then have replay: "apply_draft_body env ?rq ?payload db2 = Inr (printed out, db2)"
    using run_idempotent_settled [of ?payload r g "printed out" db2 env ?rq] assms(2) again
    by (simp add: payload_fields sent_by_def)
  have same: "\<forall>k. jget (printed out) k = jget out k"
    by (rule receipt_printed [OF sent new assms(1)])
  obtain name revision where receipt: "client_receipt (printed out) = Inr \<lparr>fd_doctype = mn_doctype i, fd_name = name,
      fd_revision = JInt revision, fd_request_id = r, fd_request_digest = g\<rparr>"
    using client_accepts(1) [OF sent new assms(1) same] by blast
  show ?thesis
    using client_accepts(2) [OF sent new assms(1) same] receipt
    by (simp add: client_apply_ready [OF ready] post_delivered [OF ready replay])
qed

text \<open>
  C34. A cycle of the communication worker over this client and network reports success only when the site
  holds the completed audit record of the draft, for the digest of the receipt that is now stored with the draft,
  and the stored receipt names the document this record names.
\<close>
theorem succeeded_draft_is_in_frappe:
  assumes "rows_inv (ib_drafts idb)" and "dw_client w = client_factory (frappe_network env auth) b"
    and "draft_run_once w t site (idb, (db, fs)) = (Inr res, (idb', (db', fs')))" and "dx_status res = ''succeeded''"
  shows "\<exists>draft r receipt out. dx_draft_id res = Some draft \<and> draft_at (site, draft) (ib_drafts idb') = Some r
    \<and> od_status r = ''succeeded'' \<and> od_receipt r = Some receipt
    \<and> applied_as (audit_name (fb_site_id b) (fb_auth_ref b) draft) (JStr (fd_request_digest receipt)) out db'
    \<and> jget out ''doctype'' = JStr (fd_doctype receipt) \<and> jget out ''name'' = JStr (fd_name receipt)"
proof -
  obtain k send receipt r where cycle: "dx_draft_id res = Some (dk_draft_id k)" "dw_client w (dk_purpose k) = Some send"
    "send (claim_intent k) (dk_draft_id k) (dk_payload_digest k) (db, fs) = (Inr receipt, (db', fs'))"
    "fd_request_digest receipt = dk_payload_digest k"
    "draft_at (site, dk_draft_id k) (ib_drafts idb') = Some r" "od_status r = ''succeeded''" "od_receipt r = Some receipt"
    using succeeded_draft_cycle [OF assms(1,3,4)] by metis
  have "client_apply (frappe_network env auth) \<lparr>hd_boundary = b, hd_purpose = Some (dk_purpose k)\<rparr> (claim_intent k)
      (dk_draft_id k) (dk_payload_digest k) None (db, fs) = (Inr receipt, (db', fs'))"
    using cycle(2,3) assms(2)
    by (auto simp: client_factory_def draft_client_init_def split: sum.splits prod.splits)
  from client_apply_settles [OF this] show ?thesis
    using cycle by auto
qed

section \<open>A draft taken through both services\<close>

definition demo_frappe :: frappe_site where
  "demo_frappe =
     \<lparr>fe_site = ''a'',
      fe_identities = JObj [(''ref'', JObj [(''user'', JStr ''mat''), (''site_id'', JStr ''a''),
        (''processing_purposes'', JList [JStr draft_purpose])])],
      fe_roles = (\<lambda>_. [materializer_role]), fe_user_enabled = (\<lambda>_. True), fe_permits = (\<lambda>_ _ _ _ _. True),
      fe_parse_json = (\<lambda>_. None), fe_insert = (\<lambda>_ doc _. Inr (''IO-1'', (''revision'', JInt 0) # doc)),
      fe_save = (\<lambda>_ _ doc _. Inr ((''revision'', JInt 1) # doc))\<rparr>"

definition demo_boundary :: frappe_boundary where
  "demo_boundary = \<lparr>fb_base_url = ''http://frappe-backend:8000'', fb_api_key = ''key'', fb_api_secret = ''secret'',
     fb_auth_ref = ''ref'', fb_site_id = ''a''\<rparr>"

definition demo_sender :: draft_client where
  "demo_sender = \<lparr>hd_boundary = demo_boundary, hd_purpose = Some draft_purpose\<rparr>"

definition demo_auth :: "string \<Rightarrow> string" where
  "demo_auth token = ''mat''"

definition demo_site :: frappe_db where
  "demo_site = \<lparr>fx_docs = [((''GBOS Team'', ''team-1''), [])], fx_audits = []\<rparr>"

abbreviation demo_intent :: materialization_intent where
  "demo_intent \<equiv> claim_intent demo_claimed"

abbreviation demo_draft_id :: string where
  "demo_draft_id \<equiv> stable_id ''communication-draft'' [''a'', ''obs-1'']"

abbreviation sent_digest :: string where
  "sent_digest \<equiv> od_payload_digest leased_draft"

lemma api_text_of_draft: "draft_text s n m = Inr () \<Longrightarrow> api_text (JStr s) m = Inr s"
  by (auto simp: draft_text_def trimmed_def api_text_Inr line_break_def breaks_line_def list_ex_iff split: if_splits)

lemma client_header_of_draft: "draft_text s n m = Inr () \<Longrightarrow> client_header s k = Inr s"
  by (auto simp: draft_text_def trimmed_def client_header_def line_break_def breaks_line_def list_ex_iff split: if_splits)

lemma intent_document_digest: "canonical_payload_digest (intent_document i) = draft_request_digest i"
  by (simp add: canonical_payload_digest_def intent_document_def draft_request_digest_def json_digest_def dumps_thaw)

lemma demo_ready: "ready_to_send demo_sender demo_intent demo_draft_id sent_digest None draft_purpose"
  by (simp add: ready_to_send_def demo_sender_def resolve_purpose_def leased_check intent_document_digest demo_digest_matches
      client_header_of_draft [OF demo_claim_texts(4)] client_header_of_draft [OF demo_claim_texts(11)])

lemma demo_hooks: "hooks_ok demo_frappe"
  by (simp add: hooks_ok_def demo_frappe_def revision_ok_def int_or_zero_def)

lemma demo_texts:
  "api_text (JStr ''a'') 140 = Inr ''a''" "api_text (JStr ''ref'') 140 = Inr ''ref''"
  "api_text (JStr draft_purpose) 80 = Inr draft_purpose" "api_text (JStr ''team-1'') 140 = Inr ''team-1''"
  "api_text (JStr ''obs-1'') 256 = Inr ''obs-1''" "api_text (JStr ''Communication event obs-1'') 140 = Inr ''Communication event obs-1''"
  "api_text (JStr one_line) 2000 = Inr one_line" "token_shape ''token key:secret''"
  "upper ''POST'' = ''POST''"
  "api_text (JStr demo_draft_id) 256 = Inr demo_draft_id"
proof -
  show "api_text (JStr demo_draft_id) 256 = Inr demo_draft_id"
    using api_text_of_draft [OF demo_claim_texts(11)] by simp
qed (code_simp+)

lemma demo_authenticated:
  "\<exists>x. authenticate demo_frappe (sent_by demo_auth demo_boundary draft_purpose demo_draft_id)
     (apply_payload demo_boundary draft_purpose demo_intent demo_draft_id sent_digest) = Inr x"
  by (simp add: authenticate_def demo_frappe_def sent_by_def boundary_headers_def demo_boundary_def demo_auth_def
      apply_payload_def header_def demo_texts identity_matches_def identity_fields_def keys_are_def)

abbreviation demo_payload :: fields where
  "demo_payload \<equiv> apply_payload demo_boundary draft_purpose demo_intent demo_draft_id sent_digest"

abbreviation sent_request :: frappe_request where
  "sent_request \<equiv> sent_by demo_auth demo_boundary draft_purpose demo_draft_id"

lemma demo_intent_fields:
  "mn_operation demo_intent = ''create''" "mn_doctype demo_intent = draft_doctype"
  "mn_values demo_intent = draft_values ''Communication event obs-1'' one_line ''team-1'' [''ev-1''] approved_model approved_model ''obs-1''"
proof -
  have "dk_evidence_refs demo_claimed = [''ev-1'']"
    by (simp add: row_claim_def demo_publish(3) [OF one_line_shape] leased_fields demo_prepare)
  then show "mn_values demo_intent = draft_values ''Communication event obs-1'' one_line ''team-1'' [''ev-1''] approved_model approved_model ''obs-1''"
    by (simp add: claim_intent_def row_claim_fields leased_fields)
qed (simp_all add: claim_intent_def)

definition demo_out :: fields where
  "demo_out = receipt_fields demo_frappe draft_doctype ''IO-1'' 0 demo_draft_id sent_digest"

lemma demo_validated:
  "validate_intent demo_frappe ''mat'' (intent_document demo_intent) demo_site
     = Inr \<lparr>ci_operation = ''create'', ci_doctype = draft_doctype, ci_values = mn_values demo_intent\<rparr>"
proof -
  have pair: "evidence_pair_ok (evidence_pair ''ev-1'')"
    by code_simp
  have doctype: "draft_doctype = ''GBOS Informal Observation''"
    by (simp add: draft_doctype_def)
  have "validate_observation (mn_values demo_intent) = Inr ()"
    by (simp add: validate_observation_def demo_intent_fields draft_values_def demo_texts pair)
  then have "validate_create demo_frappe ''mat'' draft_doctype (mn_values demo_intent) demo_site = Inr ()"
    by (simp add: validate_create_def demo_intent_fields draft_values_def demo_texts doctype)
      (simp add: get_permitted_def demo_site_def demo_frappe_def)
  moreover have "thaw_json (JObj (mn_values demo_intent)) = JObj (mn_values demo_intent)"
    by (simp add: demo_intent_fields draft_values_def evidence_pair_def)
  moreover have "exact_fields (mn_values demo_intent) [''subject'', ''summary_zh'', ''team'', ''evidence_refs'', ''model_name'',
         ''model_version'', ''is_official_metric'', ''origin'', ''origin_reference'', ''review_status''] ''invalid_intent'' = Inr ()"
    by (auto simp: exact_fields_def keys_are_def demo_intent_fields draft_values_def)
  ultimately show ?thesis
    by (simp add: validate_intent_def intent_document_def json_object_def create_fields_def demo_intent_fields(1,2) doctype
        del: thaw_json.simps)
qed

lemma demo_runs:
  "\<exists>d. run_idempotent demo_frappe sent_request demo_payload demo_draft_id sent_digest (intent_document demo_intent) demo_site
     = Inr (demo_out, d) \<and> d \<noteq> demo_site"
proof -
  have user: "fq_user sent_request = ''mat''"
    by (simp add: sent_by_def demo_auth_def)
  have empty: "fx_audits demo_site = []" "map_of (fx_docs demo_site) (draft_doctype, ''IO-1'') = None"
    by (simp_all add: demo_site_def draft_doctype_def)
  have permits: "fe_permits demo_frappe = (\<lambda>_ _ _ _ _. True)"
    and insert: "fe_insert demo_frappe = (\<lambda>_ doc _. Inr (''IO-1'', (''revision'', JInt 0) # doc))"
    by (simp_all add: demo_frappe_def)
  show ?thesis
    by (simp add: run_idempotent_def user empty demo_validated permits execute_intent_def create_document_def insert
        receipt_of_def int_or_zero_def demo_out_def receipt_fields_def Let_def)
      (simp add: demo_site_def)
qed

lemma demo_sent:
  obtains d where "apply_draft_body demo_frappe sent_request demo_payload demo_site = Inr (demo_out, d)" and "d \<noteq> demo_site"
proof -
  obtain d where run: "run_idempotent demo_frappe sent_request demo_payload demo_draft_id sent_digest (intent_document demo_intent)
      demo_site = Inr (demo_out, d)" and d: "d \<noteq> demo_site"
    using demo_runs by blast
  obtain x where authentic: "authenticate demo_frappe sent_request demo_payload = Inr x"
    using demo_authenticated by blast
  have "exact_fields demo_payload apply_fields n = Inr ()"
    and "exact_fields (intent_document demo_intent) [''operation'', ''doctype'', ''values''] n = Inr ()" for n
    by (auto simp: exact_fields_def keys_are_def apply_payload_def apply_fields_def intent_document_def)
  moreover have "json_digest (JObj (intent_document demo_intent)) = sent_digest"
    using intent_document_digest [of demo_intent] by (simp add: canonical_payload_digest_def demo_digest_matches)
  ultimately have "apply_draft_body demo_frappe sent_request demo_payload demo_site = Inr (demo_out, d)"
    using run leased_check(2)
    by (simp add: apply_draft_body_def authentic payload_fields demo_texts json_object_def)
  then show thesis
    using d by (rule that)
qed

lemma demo_call:
  obtains d where "apply_draft_endpoint demo_frappe sent_request (JObj demo_payload) demo_site = (Inr demo_out, d)" and "d \<noteq> demo_site"
proof -
  obtain d where "apply_draft_body demo_frappe sent_request demo_payload demo_site = Inr (demo_out, d)" and "d \<noteq> demo_site"
    by (rule demo_sent)
  then show thesis
    using that [of d] by (simp add: apply_draft_endpoint_def endpoint_object)
qed


lemma demo_lost:
  obtains d where "client_apply (frappe_network demo_frappe demo_auth) demo_sender demo_intent demo_draft_id sent_digest None
      (demo_site, [Response_lost]) = (Inl (client_failure ''Frappe is unavailable''), (d, []))" and "d \<noteq> demo_site"
proof -
  obtain d where call: "apply_draft_endpoint demo_frappe sent_request (JObj demo_payload) demo_site = (Inr demo_out, d)"
    and d: "d \<noteq> demo_site"
    by (rule demo_call)
  have boundary: "hd_boundary demo_sender = demo_boundary"
    by (simp add: demo_sender_def)
  note ready = demo_ready [unfolded snd_conv]
  have "client_apply (frappe_network demo_frappe demo_auth) demo_sender demo_intent demo_draft_id sent_digest None
      (demo_site, [Response_lost]) = (Inl (client_failure ''Frappe is unavailable''), (d, []))"
    using ready call
    by (simp add: client_apply_ready [OF ready] boundary boundary_post_def ready_to_send_def frappe_network_def
        server_request_sent Let_def)
  then show thesis
    using d by (rule that)
qed

theorem lost_answer_is_recovered_witness:
  "\<exists>d receipt. client_apply (frappe_network demo_frappe demo_auth) demo_sender demo_intent demo_draft_id sent_digest None
      (demo_site, [Response_lost]) = (Inl (client_failure ''Frappe is unavailable''), (d, [])) \<and> d \<noteq> demo_site
     \<and> client_apply (frappe_network demo_frappe demo_auth) demo_sender demo_intent demo_draft_id sent_digest None
      (d, [Delivered]) = (Inr receipt, (d, [])) \<and> fd_request_id receipt = demo_draft_id"
proof -
  obtain d where lost: "client_apply (frappe_network demo_frappe demo_auth) demo_sender demo_intent demo_draft_id sent_digest None
      (demo_site, [Response_lost]) = (Inl (client_failure ''Frappe is unavailable''), (d, []))" and d: "d \<noteq> demo_site"
    by (rule demo_lost)
  have "\<forall>a. fe_permits demo_frappe ''apply'' u ''read'' integration_request (audit_fields a)" for u
    by (simp add: demo_frappe_def)
  from lost_answer_is_recovered [OF demo_hooks this lost d rtranclp.rtrancl_refl, of "[]"] show ?thesis
    using lost d by blast
qed

definition frappe_draft_worker :: "(frappe_db \<times> net_fault list) draft_worker" where
  "frappe_draft_worker =
     \<lparr>dw_collation = c_locale, dw_worker_id = ''w'',
      dw_client = client_factory (frappe_network demo_frappe demo_auth) demo_boundary,
      dw_lease_duration = 100, dw_retry_delay = 100\<rparr>"

lemma demo_factory:
  "client_factory net demo_boundary draft_purpose =
     Some (\<lambda>i r g s. case client_apply net demo_sender i r g None s of
         (Inl x, s') \<Rightarrow> (Inl (if x = Http_conflict then Client_conflict else Client_failed), s')
       | (Inr receipt, s') \<Rightarrow> (Inr receipt, s'))"
proof -
  have "draft_client_init demo_sender = Inr demo_sender"
    by code_simp
  then show ?thesis
    by (simp add: client_factory_def demo_sender_def)
qed

lemma demo_delivered:
  obtains d where "client_apply (frappe_network demo_frappe demo_auth) demo_sender demo_intent demo_draft_id sent_digest None
      (demo_site, []) = (Inr demo_draft_receipt, (d, []))"
proof -
  obtain d where call: "apply_draft_endpoint demo_frappe sent_request (JObj demo_payload) demo_site = (Inr demo_out, d)"
    by (rule demo_call)
  have boundary: "hd_boundary demo_sender = demo_boundary"
    by (simp add: demo_sender_def)
  note ready = demo_ready [unfolded snd_conv]
  have posted: "boundary_post (frappe_network demo_frappe demo_auth) demo_boundary apply_path draft_purpose demo_draft_id demo_payload
      (demo_site, []) = (Inr demo_out, (d, []))"
    using ready call
    by (simp add: boundary_post_def ready_to_send_def frappe_network_def server_request_sent render_def unwrap_message_def Let_def)
  have "length demo_draft_id \<le> 256 \<and> demo_draft_id \<noteq> []"
    by (simp add: stable_id_def)
  then have "client_receipt demo_out = Inr demo_draft_receipt"
    using client_receipt_fields [of demo_out demo_frappe draft_doctype "''IO-1''" 0 demo_draft_id sent_digest] leased_check(2)
    by (simp add: demo_out_def demo_draft_receipt_def draft_doctype_def)
  moreover have "jget demo_out ''site_id'' = JStr ''a''"
    by (simp add: demo_out_def receipt_fields_def demo_frappe_def)
  ultimately show thesis
    using posted by (intro that) (simp add: client_apply_ready [OF ready] boundary demo_draft_receipt_def demo_intent_fields
        demo_boundary_def)
qed

lemma frappe_cycle:
  obtains d where "draft_run_once frappe_draft_worker demo_draft_clock ''a'' (demo_db one_line, (demo_site, []))
     = (Inr (draft_result ''succeeded'' demo_claimed None), (leased_db\<lparr>ib_drafts := [stored_draft]\<rparr>, (d, [])))"
proof -
  obtain d where sent: "client_apply (frappe_network demo_frappe demo_auth) demo_sender demo_intent demo_draft_id sent_digest None
      (demo_site, []) = (Inr demo_draft_receipt, (d, []))"
    by (rule demo_delivered)
  have "apply_draft frappe_draft_worker demo_claimed (leased_db\<lparr>ib_drafts := [renewed_draft]\<rparr>, (demo_site, []))
      = (Inr demo_draft_receipt, (leased_db\<lparr>ib_drafts := [renewed_draft]\<rparr>, (d, [])))"
    using sent
    by (simp add: apply_draft_def demo_digest_matches frappe_draft_worker_def row_claim_fields Let_def leased_fields
        demo_factory demo_intent_fields) (simp add: demo_draft_receipt_def)
  then have "deliver_claim frappe_draft_worker demo_draft_clock demo_claimed (leased_db, (demo_site, []))
      = (Inr demo_draft_receipt, (leased_db\<lparr>ib_drafts := [stored_draft]\<rparr>, (d, [])))"
    using demo_heartbeat demo_acknowledge
    by (simp add: deliver_claim_def lift_store_def row_claim_fields leased_fields)
      (simp add: frappe_draft_worker_def demo_draft_clock_def)
  then show thesis
    using demo_claim
    by (intro that) (simp add: draft_run_once_def lift_store_def, simp add: frappe_draft_worker_def demo_draft_clock_def)
qed

theorem succeeded_draft_is_in_frappe_witness:
  "\<exists>res idb d out. draft_run_once frappe_draft_worker demo_draft_clock ''a'' (demo_db one_line, (demo_site, []))
       = (Inr res, (idb, (d, []))) \<and> dx_status res = ''succeeded''
     \<and> applied_as (audit_name ''a'' ''ref'' demo_draft_id) (JStr sent_digest) out d \<and> jget out ''name'' = JStr ''IO-1''"
proof -
  obtain d where cycle: "draft_run_once frappe_draft_worker demo_draft_clock ''a'' (demo_db one_line, (demo_site, []))
     = (Inr (draft_result ''succeeded'' demo_claimed None), (leased_db\<lparr>ib_drafts := [stored_draft]\<rparr>, (d, [])))"
    by (rule frappe_cycle)
  have inv: "rows_inv (ib_drafts (demo_db one_line))"
    using no_drafts_inv [OF demo_draft_run(1)] draft_run_inv [OF demo_draft_run(2)] by blast
  have client: "dw_client frappe_draft_worker = client_factory (frappe_network demo_frappe demo_auth) demo_boundary"
    by (simp add: frappe_draft_worker_def)
  have status: "dx_status (draft_result ''succeeded'' demo_claimed None) = ''succeeded''"
    by (simp add: draft_result_def)
  have row: "draft_at demo_key (ib_drafts (leased_db\<lparr>ib_drafts := [stored_draft]\<rparr>)) = Some stored_draft"
    "od_receipt stored_draft = Some demo_draft_receipt"
    by (simp_all add: draft_at_def row_key_def stored_draft_def renewed_draft_def leased_fields)
  obtain out where "applied_as (audit_name ''a'' ''ref'' demo_draft_id) (JStr sent_digest) out d" "jget out ''name'' = JStr ''IO-1''"
    using succeeded_draft_is_in_frappe [OF inv client cycle status] row
    by (auto simp: draft_result_def row_claim_fields leased_fields demo_boundary_def demo_draft_receipt_def)
  then show ?thesis
    using cycle status by blast
qed

end
