(* ===== verification/Spec2Isabelle.thy ===== *)
theory Spec2Isabelle
  imports Domain_Workflow Domain_Access Agent_Task_Properties Media_Properties
    Agent_Worker_Properties Agent_Materialization Polling_Scheduler Evidence_Lifecycle
    Kingdee_Adapter Metrics_Projector Context_Trace Projection_Properties Frappe_Properties
begin

text \<open>
  Verification of the ESAN GBOS services.

  The program keeps business records in a Frappe app and lets bounded agents propose changes to them.
  Channel connectors and uploads bring in evidence, workers lease jobs and process them, agents turn
  evidence into proposals, a policy decision point guards every run, and a trusted materializer turns an
  accepted proposal into an internal AI draft that only people can take further. This development models
  the parts that carry these guarantees and proves them.

  \<^bold>\<open>Parts and how they interact.\<close>

  \<^item> Frappe app (\<open>apps/esan_gbos/esan_gbos\<close>): \<open>Domain_Workflow\<close> models the transition tables, the
    optimistic revisions, the validate hook of every governed document and the supplier selection
    (\<open>domain/state_machine.py\<close>, \<open>domain/revision.py\<close>, \<open>gbos/doctype/base.py\<close>, the sourcing event).
    \<open>Domain_Access\<close> models the role matrix, record access, the permission hooks and the protection of AI
    drafts (\<open>domain/permissions.py\<close>, \<open>domain/access_policy.py\<close>, \<open>permissions.py\<close>).
    \<open>Frappe_Materialization\<close> (\<open>api/internal/materialization.py\<close>) models the two endpoints the services
    call: one resolves the controlled context of a subject, one applies a draft under an idempotency
    record. The framework (permissions, roles, parser, document hooks) is its parameter \<open>frappe_site\<close>.

  \<^item> Agent runtime (\<open>services/agent_runtime\<close>): \<open>Agent_Models\<close> (\<open>models.py\<close>) has payloads, submissions
    and tasks; \<open>Agent_Invocations\<close> (\<open>invocations.py\<close>) the audit records; \<open>Agent_Proposals\<close>
    (\<open>proposals.py\<close>) proposals, their screening and the trusted materializer; \<open>Agent_Tasks\<close>
    (\<open>repository.py\<close>) every method of the in-memory task repository over its ten dictionaries.
    \<open>Agent_Orchestrator\<close> (\<open>agents.py\<close>) is one bounded run, guarded by \<open>Action_Guard\<close>
    (\<open>services/action_guard\<close>); \<open>Agent_Worker\<close> (\<open>worker.py\<close>) is one cycle over repository, resolver and
    executor; \<open>Agent_Materialization\<close> (\<open>materialization.py\<close>) delivers accepted proposals to Frappe.

  \<^item> Media runtime (\<open>services/media_runtime\<close>): \<open>Media_Upload\<close> (\<open>upload.py\<close>), \<open>Media_Pipeline\<close>
    (\<open>common.py\<close>, \<open>inspection.py\<close>, \<open>pipeline.py\<close>), \<open>Media_Jobs\<close> (\<open>repository.py\<close>) and
    \<open>Media_Worker\<close> (\<open>worker.py\<close>).

  \<^item> Observer (\<open>services/observer/observer\<close>): \<open>Observer_Models\<close> (\<open>models.py\<close>), \<open>Evidence_Store\<close>
    (\<open>evidence_store.py\<close>), \<open>Evidence_Lifecycle\<close> (\<open>lifecycle.py\<close>) and \<open>Polling_Scheduler\<close>
    (\<open>scheduler.py\<close>). \<open>Observation_Projection\<close>, \<open>Projection_Publisher\<close> and \<open>Projection_Properties\<close>
    (\<open>model_projection.py\<close>) turn a stored observation into model output: they load evidence text from the
    content-addressed store, have it tokenized, ask the model and check and publish what it returns.

  \<^item> Context service (\<open>services/context/context_service\<close>): \<open>Context_Store\<close> has the tables and constraints
    of the migrations with the reads and transactions of \<open>decision_postgres.py\<close>; \<open>Context_Decision\<close>
    (\<open>decision.py\<close>) confirms proposals, records conflicts and traces decisions; \<open>Context_Records\<close>
    (\<open>models.py\<close>, \<open>repositories.py\<close>, \<open>storage.py\<close>) saves evidence and proposals into the same tables.
    \<open>Context_Runs\<close> and \<open>Context_Properties\<close> give the step relation and its invariant, \<open>Context_Trace\<close> the
    properties. \<open>Draft_Outbox\<close> (\<open>communication_intelligence.py\<close> over the tables, checks and triggers of
    \<open>migrations/005\<close>) stores what the projection publishes and leases drafts; \<open>Draft_Worker\<close>
    (\<open>services/local_pilot_runtime/communication_draft_worker.py\<close>) delivers them to Frappe; \<open>Draft_Runs\<close>
    and \<open>Draft_Properties\<close> prove them correct together. \<open>Frappe_Client\<close>
    (\<open>services/agent_runtime/frappe_client.py\<close>) is the client of the worker; \<open>Frappe_Delivery\<close> puts a lossy
    network between it and the endpoint, and \<open>Frappe_Properties\<close> composes worker, client, network and endpoint.

  \<^item> Kingdee adapter (\<open>services/kingdee_adapter\<close>): \<open>Kingdee_Policy\<close> (\<open>policy.py\<close>, \<open>models.py\<close>) loads the
    frozen contracts and validates requests; \<open>Kingdee_Adapter\<close> (\<open>adapter.py\<close>, \<open>transport.py\<close>,
    \<open>audit.py\<close>) executes a call over a transport and audits it.

  \<^item> Metrics (\<open>services/metrics\<close>): \<open>Metrics_Models\<close>, \<open>Metrics_Repository\<close>, \<open>Metrics_Service\<close> (queries and
    the promotion gate) and \<open>Metrics_Projector\<close>, which turns what the Kingdee adapter returned into
    projections.

  \<^bold>\<open>Shared theories.\<close> \<open>GBOS_Prelude\<close> has what Python provides and every part uses: ASCII strings,
  insertion-ordered dictionaries as association lists, aware and naive times, calls that may raise and
  change state. \<open>Py_Sha256\<close>, \<open>Py_Json\<close>, \<open>Py_Regex\<close> and \<open>Py_Time\<close> model the library functions the
  sources call: SHA-256 over 32-bit words, canonical JSON, the regular expressions by a matcher proved
  equal to its declarative meaning, and ISO times; \<open>Py_Decimal\<close> models exact decimals with their
  28-digit rounding and the shortest text of a float. \<open>Lease_Fencing\<close> states the contract of a store that
  hands out fenced leases as a locale; the task repository (fence: the attempt), the media queue
  (fence: the fencing token) and the draft outbox (fence: the attempt) interpret it. \<open>object_store\<close> in \<open>Evidence_Store\<close> states what the lifecycle
  relies on; the content-addressed store interprets it.

  \<^bold>\<open>What the lemmas show.\<close>

  \<^item> Task repository: \<open>Agent_Task_Machine\<close> is the abstract life of one task; \<open>Agent_Task_Invariants\<close>,
    \<open>Agent_Task_Steps\<close> and \<open>Agent_Task_Runs\<close> show that every method keeps the invariant and moves tasks
    only as that machine allows, along every run. \<open>Agent_Task_Properties\<close> concludes: stale workers are
    locked out, completion commits once and atomically, claims follow the order, submissions are
    idempotent, final tasks never change, sites do not see each other, and a task with an invalid payload
    blocks its site as long as it comes first.

  \<^item> Agents: the guard allows exactly the scoped reads and internal proposals; a run that yields a
    proposal stayed within its budget, references and profile; \<open>Agent_Worker_Properties\<close> shows that a
    cycle completes or fails its task unless an injected part raises a lease conflict or an error the worker
    does not handle, and that what a successful cycle stores was allowed by the guard and is what the task
    asked for; a materialization reports success only after the exact draft was
    applied and its receipt acknowledged; the materializer yields reversible internal drafts only.

  \<^item> Media: an upload receipt describes the stored bytes, a rejected upload is aborted, inspection and
    pipeline outcomes are governed by policy, the queue keeps its invariant, superseded workers are locked
    out, and a cycle settles the job it claimed unless an injected part raises a lease conflict (\<open>Media_Job_Runs\<close>, \<open>Media_Properties\<close>).

  \<^item> Observer: a checkpoint moves only past deliveries that are stored; the evidence store returns only
    bytes that match their reference; deletion is justified and final; and a legal hold does not protect
    bytes that other evidence shares.

  \<^item> Projections: whatever the injected parts do and however the call ends, the model sees only tokenized
    text of digest-checked evidence, restricted input only under its policy, and only drafts whose
    references were given to the model are published (\<open>observed\<close> logs the traffic of any publisher).

  \<^item> Drafts: every operation is a sequence of statements the schema lets through; a draft is claimed at
    most five times, a claim carries the published draft, stale workers change nothing, success means one
    call of Frappe and a stored receipt; and a draft with a line break in its summary blocks the outbox while it comes first.

  \<^item> Delivery to Frappe: a request is applied at most once for ever, an answer lost by the network is
    recovered by the next attempt without touching the site, and a draft the worker reports as delivered
    is in the idempotency records of the site under the digest it was published with.

  \<^item> Context: along every run, with confirmations prepared against stale states, the facts of a subject
    and predicate form one chain of versions; a saved decision can be traced for ever to exactly its
    proposal, fact and evidence when the database orders text by code points, and never when its
    collation orders the references otherwise.

  \<^item> Kingdee and metrics: a loaded policy is a read-only surface, calls are denied before the transport or
    run a frozen plan, returned rows are typed and bounded; the metrics history is immutable, a batch
    whose rows can be asked for is promoted exactly when the query service answers every row as available, an available answer is governed and fresh, and a
    projection depends on the set of rows and not on their order.

  \<^item> Frappe app: samples are approved only along the governed path, terminal states are final, a second
    save of a stale revision conflicts, access stays within the role matrix, reviewers cannot edit their
    subject, the materializer's permissions are confined to its scope.

  \<^bold>\<open>Conventions.\<close> A class is a record, an enum a datatype, an exception a value \<open>Inl\<close>; a method that
  changes state returns the new state also when it raises. Text is ASCII; markers and demo texts in
  Chinese script are left out. Times are microseconds since the epoch, aware times in UTC. Readings of the
  clock, and the heartbeats of a renewal thread, are inputs of a cycle: every statement quantifies over
  them. Injected protocols are function-valued fields or arguments and may raise. Floats appear as their
  printed text or as an argument that decides the comparison. SHA-256 is computed, never assumed to be
  injective: where two submissions or proposals must not collide the hypothesis says so. All functions are
  total; loops recurse on their data and no fuel is used except in the regular expression matcher, whose
  bound is the length of the text and is proved sufficient.

  \<^bold>\<open>Not modelled.\<close> The SQL repositories (their behaviour is the database's), the HTTP, IMAP, WeCom,
  WhatsApp and model-provider clients, ffmpeg and speech adapters, process wiring and configuration of the
  local pilot, most database migrations (those of the context service that a theory above names are
  modelled), the public command endpoints of the Frappe app and their idempotency records, the read
  services of observer and agents, demo data and operations scripts. What is left out is I/O, SQL or
  framework wiring, or follows the pattern of a part that is modelled; it appears as a parameter where a
  modelled part calls it.
\<close>

end
